(* ===== verification/Prelude.thy ===== *)
theory Prelude
  imports Main
begin

section \<open>Prelude: programs, tables and time\<close>

text \<open>
  What every component of the model shares.
  \<^item> Programs: a coroutine of the backend is a function from the state of the world to a
    result and the state it leaves. The result is an exception (\<open>Inl\<close>) or a value
    (\<open>Inr\<close>); an exception keeps the state reached so far, because what was committed or
    published before the raise stays committed or published.
  \<^item> Tables: a table of the database is a list of rows with a key, in the order in which the
    rows were inserted.
  \<^item> Time: a datetime is the number of microseconds since the epoch (UTC), a timedelta a
    number of microseconds; both are Python's unbounded integers.
  \<^item> Python's truth value of an optional string, its slices, and its \<open>max\<close> over a list.
\<close>

named_theorems prog \<open>equations that run a program\<close>
named_theorems pres \<open>rules that a program preserves a predicate of the state\<close>

subsection \<open>Identifiers, time and strings\<close>

type_synonym uuid = nat
type_synonym datetime = int
type_synonym timedelta = int

definition td_seconds :: "int \<Rightarrow> timedelta" where
  "td_seconds n = n * 1000000"

definition td_minutes :: "int \<Rightarrow> timedelta" where
  "td_minutes n = n * 60000000"

definition td_hours :: "int \<Rightarrow> timedelta" where
  "td_hours n = n * 3600000000"

definition td_days :: "int \<Rightarrow> timedelta" where
  "td_days n = n * 86400000000"

lemmas td_defs = td_seconds_def td_minutes_def td_hours_def td_days_def

text \<open>\<open>str(uuid)\<close>: 32 hexadecimal digits in groups of 8, 4, 4, 4 and 12.\<close>

definition hex_char :: "nat \<Rightarrow> char" where
  "hex_char d = ''0123456789abcdef'' ! (d mod 16)"

fun hex_digits :: "nat \<Rightarrow> nat \<Rightarrow> string" where
  "hex_digits 0 n = []"
| "hex_digits (Suc k) n = hex_digits k (n div 16) @ [hex_char n]"

definition uuid_str :: "uuid \<Rightarrow> string" where
  "uuid_str n = (let h = hex_digits 32 n in
     take 8 h @ ''-'' @ take 4 (drop 8 h) @ ''-'' @ take 4 (drop 12 h) @ ''-'' @
     take 4 (drop 16 h) @ ''-'' @ drop 20 h)"

text \<open>The truth value of an \<open>Optional[str]\<close>: None and the empty string are false.\<close>

fun str_true :: "string option \<Rightarrow> bool" where
  "str_true None = False"
| "str_true (Some s) = (s \<noteq> [])"

text \<open>\<open>a or b\<close> on optional strings.\<close>

definition str_or :: "string option \<Rightarrow> string option \<Rightarrow> string option" where
  "str_or a b = (if str_true a then a else b)"

text \<open>\<open>xs[:-n]\<close> for \<open>n \<ge> 0\<close>: for \<open>n = 0\<close> the bound is \<open>-0 = 0\<close> and the slice is empty.\<close>

definition drop_last_slice :: "nat \<Rightarrow> 'a list \<Rightarrow> 'a list" where
  "drop_last_slice n xs = (if n = 0 then [] else take (length xs - n) xs)"

lemma set_drop_last_slice: "set (drop_last_slice n xs) \<subseteq> set xs"
  by (auto simp: drop_last_slice_def dest: in_set_takeD)

lemma length_drop_last_slice:
  "0 < n \<Longrightarrow> length xs - length (drop_last_slice n xs) \<le> n"
  by (simp add: drop_last_slice_def)

lemma drop_last_slice_append:
  assumes "0 < n"
  shows "drop_last_slice n xs @ drop (length xs - n) xs = xs"
  using assms by (simp add: drop_last_slice_def)

text \<open>\<open>max(xs, default=d)\<close>: the first of the greatest elements.\<close>

fun py_max :: "'a::linorder \<Rightarrow> 'a list \<Rightarrow> 'a" where
  "py_max d [] = d"
| "py_max d (x # xs) = fold (\<lambda>y m. if m < y then y else m) xs x"

lemma fold_max_ge: "m \<le> fold (\<lambda>y m. if m < y then y else m) xs (m::'a::linorder)"
proof (induction xs arbitrary: m)
  case (Cons x xs)
  show ?case using Cons [of m] Cons [of x] by auto
qed simp

lemma fold_max_upper:
  "x \<in> set xs \<Longrightarrow> x \<le> fold (\<lambda>y m. if m < y then y else m) xs (m::'a::linorder)"
proof (induction xs arbitrary: m)
  case (Cons y ys)
  show ?case
  proof (cases "x = y")
    case True
    then show ?thesis using fold_max_ge [of y ys] fold_max_ge [of m ys] by auto
  next
    case False
    with Cons show ?thesis by auto
  qed
qed simp

lemma py_max_upper: "x \<in> set xs \<Longrightarrow> x \<le> py_max d xs"
  by (cases xs) (auto simp: fold_max_ge fold_max_upper)

lemma fold_max_in:
  "fold (\<lambda>y m. if m < y then y else m) xs (m::'a::linorder) \<in> insert m (set xs)"
proof (induction xs arbitrary: m)
  case (Cons x xs)
  show ?case using Cons [of m] Cons [of x] by auto
qed simp

lemma py_max_in: "xs \<noteq> [] \<Longrightarrow> py_max d xs \<in> set xs"
  by (cases xs) (use fold_max_in in auto)

subsection \<open>Exceptions\<close>

text \<open>\<open>InventoryException\<close> of \<open>inventory/inventory_client.py\<close> and its subclasses.\<close>

datatype inventory_failure =
    Inventory_error
  | Graph_database_not_available
  | No_such_graph
  | Graph_database_forbidden
  | Inventory_request_took_too_long

text \<open>
  The exceptions the modelled code raises or that its database layer raises. A message is
  kept where the code tells cases apart by it.
\<close>

datatype exn =
    ResourceNotFound
  | NotAllowed string
  | WrongState
  | ValueError
  | RuntimeError
  | AssertionError
  | KeyError
  | IndexError
  | TypeError
  | AttributeError
  | NotImplementedError
  | IntegrityError
  | MultipleResultsFound
  | WrongExternalId
  | UserNotExists
  | UserAlreadyExists
  | InvalidPassword string
  | UnmappedInstanceError
  | HTTPException nat string
  | ExternalError
  | InventoryException inventory_failure nat string

subsection \<open>Programs\<close>

type_synonym ('w, 'a) prog = "'w \<Rightarrow> (exn + 'a) \<times> 'w"

definition ret :: "'a \<Rightarrow> ('w, 'a) prog" where
  "ret a w = (Inr a, w)"

definition raise :: "exn \<Rightarrow> ('w, 'a) prog" where
  "raise e w = (Inl e, w)"

definition bind :: "('w, 'a) prog \<Rightarrow> ('a \<Rightarrow> ('w, 'b) prog) \<Rightarrow> ('w, 'b) prog" where
  "bind m f w = (case m w of (Inl e, w') \<Rightarrow> (Inl e, w') | (Inr a, w') \<Rightarrow> f a w')"

definition gets :: "('w \<Rightarrow> 'a) \<Rightarrow> ('w, 'a) prog" where
  "gets f w = (Inr (f w), w)"

definition modify :: "('w \<Rightarrow> 'w) \<Rightarrow> ('w, unit) prog" where
  "modify f w = (Inr (), f w)"

definition lift :: "exn + 'a \<Rightarrow> ('w, 'a) prog" where
  "lift r w = (r, w)"

text \<open>\<open>try: m except Exception as e: h e\<close>\<close>

definition catch :: "('w, 'a) prog \<Rightarrow> (exn \<Rightarrow> ('w, 'a) prog) \<Rightarrow> ('w, 'a) prog" where
  "catch m h w = (case m w of (Inl e, w') \<Rightarrow> h e w' | (Inr a, w') \<Rightarrow> (Inr a, w'))"

definition seq :: "('w, 'a) prog \<Rightarrow> ('w, 'b) prog \<Rightarrow> ('w, 'b) prog" where
  "seq m n = bind m (\<lambda>_. n)"

text \<open>\<open>for x in xs: f x\<close>: an exception of one iteration ends the loop.\<close>

fun for_each :: "('a \<Rightarrow> ('w, unit) prog) \<Rightarrow> 'a list \<Rightarrow> ('w, unit) prog" where
  "for_each f [] = ret ()"
| "for_each f (x # xs) = seq (f x) (for_each f xs)"

text \<open>\<open>[f(x) for x in xs]\<close> with a conversion that may raise.\<close>

fun traverse :: "('a \<Rightarrow> exn + 'b) \<Rightarrow> 'a list \<Rightarrow> exn + 'b list" where
  "traverse f [] = Inr []"
| "traverse f (x # xs) =
     (case f x of Inl e \<Rightarrow> Inl e
      | Inr y \<Rightarrow> (case traverse f xs of Inl e \<Rightarrow> Inl e | Inr ys \<Rightarrow> Inr (y # ys)))"

lemma ret_run [simp]: "ret a w = (Inr a, w)"
  by (simp add: ret_def)

lemma raise_run [simp]: "raise e w = (Inl e, w)"
  by (simp add: raise_def)

lemma gets_run [simp]: "gets f w = (Inr (f w), w)"
  by (simp add: gets_def)

lemma modify_run [simp]: "modify f w = (Inr (), f w)"
  by (simp add: modify_def)

lemma lift_run [simp]: "lift r w = (r, w)"
  by (simp add: lift_def)

lemma bind_Inr [simp]: "m w = (Inr a, w') \<Longrightarrow> bind m f w = f a w'"
  by (simp add: bind_def)

lemma bind_Inl [simp]: "m w = (Inl e, w') \<Longrightarrow> bind m f w = (Inl e, w')"
  by (simp add: bind_def)

lemma bind_InrE:
  assumes "bind m f w = (Inr r, w')"
  obtains a w1 where "m w = (Inr a, w1)" "f a w1 = (Inr r, w')"
  using assms by (auto simp: bind_def split: prod.splits sum.splits)

lemma seq_Inr [simp]: "m w = (Inr a, w') \<Longrightarrow> seq m n w = n w'"
  by (simp add: seq_def)

lemma seq_Inl [simp]: "m w = (Inl e, w') \<Longrightarrow> seq m n w = (Inl e, w')"
  by (simp add: seq_def)

lemma catch_Inr [simp]: "m w = (Inr a, w') \<Longrightarrow> catch m h w = (Inr a, w')"
  by (simp add: catch_def)

lemma catch_Inl [simp]: "m w = (Inl e, w') \<Longrightarrow> catch m h w = h e w'"
  by (simp add: catch_def)

lemmas run_defs = bind_def seq_def catch_def

lemma traverse_Inr_length: "traverse f xs = Inr ys \<Longrightarrow> length ys = length xs"
  by (induction xs arbitrary: ys) (auto split: sum.splits)

lemma traverse_ok:
  "(\<And>x. x \<in> set xs \<Longrightarrow> f x = Inr (g x)) \<Longrightarrow> traverse f xs = Inr (map g xs)"
  by (induction xs) auto

lemma traverse_Inr_in:
  "traverse f xs = Inr ys \<Longrightarrow> y \<in> set ys \<Longrightarrow> \<exists>x\<in>set xs. f x = Inr y"
  by (induction xs arbitrary: ys) (auto split: sum.splits)

lemma traverse_Inr_map:
  "traverse f xs = Inr ys \<Longrightarrow> map f xs = map Inr ys"
  by (induction xs arbitrary: ys) (auto split: sum.splits)

lemma for_each_append: "for_each f (xs @ ys) = seq (for_each f xs) (for_each f ys)"
  by (induction xs) (auto simp: fun_eq_iff seq_def bind_def split: prod.splits sum.splits)

subsection \<open>Predicates that a program preserves\<close>

text \<open>
  \<open>preserves I m\<close>: from a state with \<open>I\<close>, the program \<open>m\<close> leaves a state with \<open>I\<close>,
  whether it returns or raises. \<open>keeps f m\<close> says that \<open>m\<close> never changes what \<open>f\<close> reads.
\<close>

definition preserves :: "('w \<Rightarrow> bool) \<Rightarrow> ('w, 'a) prog \<Rightarrow> bool" where
  "preserves I m \<longleftrightarrow> (\<forall>w. I w \<longrightarrow> I (snd (m w)))"

definition keeps :: "('w \<Rightarrow> 'v) \<Rightarrow> ('w, 'a) prog \<Rightarrow> bool" where
  "keeps f m \<longleftrightarrow> (\<forall>w. f (snd (m w)) = f w)"

lemma preservesD: "preserves I m \<Longrightarrow> I w \<Longrightarrow> m w = (r, w') \<Longrightarrow> I w'"
  by (force simp: preserves_def)

lemma keepsD: "keeps f m \<Longrightarrow> m w = (r, w') \<Longrightarrow> f w' = f w"
  unfolding keeps_def by (metis snd_conv)

lemma preservesI: "(\<And>w. I w \<Longrightarrow> I (snd (m w))) \<Longrightarrow> preserves I m"
  by (simp add: preserves_def)

lemma preserves_ret [pres, simp]: "preserves I (ret a)"
  by (simp add: preserves_def)

lemma preserves_raise [pres, simp]: "preserves I (raise e)"
  by (simp add: preserves_def)

lemma preserves_gets [pres, simp]: "preserves I (gets f)"
  by (simp add: preserves_def)

lemma preserves_lift [pres, simp]: "preserves I (lift r)"
  by (simp add: preserves_def)

lemma preserves_modify [pres]: "(\<And>w. I w \<Longrightarrow> I (f w)) \<Longrightarrow> preserves I (modify f)"
  by (simp add: preserves_def)

lemma preserves_bind [pres]:
  "preserves I m \<Longrightarrow> (\<And>a. preserves I (f a)) \<Longrightarrow> preserves I (bind m f)"
  by (auto simp: preserves_def bind_def split: prod.splits sum.splits)

lemma preserves_seq [pres]:
  "preserves I m \<Longrightarrow> preserves I n \<Longrightarrow> preserves I (seq m n)"
  unfolding seq_def by (rule preserves_bind)

lemma preserves_catch [pres]:
  "preserves I m \<Longrightarrow> (\<And>e. preserves I (h e)) \<Longrightarrow> preserves I (catch m h)"
  by (auto simp: preserves_def catch_def split: prod.splits sum.splits)

lemma preserves_if [pres]:
  "(b \<Longrightarrow> preserves I m) \<Longrightarrow> (\<not> b \<Longrightarrow> preserves I n) \<Longrightarrow> preserves I (if b then m else n)"
  by simp

lemma preserves_option [pres]:
  "(x = None \<Longrightarrow> preserves I m) \<Longrightarrow> (\<And>a. x = Some a \<Longrightarrow> preserves I (f a)) \<Longrightarrow>
   preserves I (case x of None \<Rightarrow> m | Some a \<Rightarrow> f a)"
  by (cases x) auto

lemma preserves_sum [pres]:
  "(\<And>a. x = Inl a \<Longrightarrow> preserves I (f a)) \<Longrightarrow> (\<And>b. x = Inr b \<Longrightarrow> preserves I (g b)) \<Longrightarrow>
   preserves I (case x of Inl a \<Rightarrow> f a | Inr b \<Rightarrow> g b)"
  by (cases x) auto

lemma preserves_prod [pres]:
  "(\<And>a b. x = (a, b) \<Longrightarrow> preserves I (f a b)) \<Longrightarrow> preserves I (case x of (a, b) \<Rightarrow> f a b)"
  by (cases x) auto

lemma preserves_let [pres]: "preserves I (f t) \<Longrightarrow> preserves I (Let t f)"
  by simp

lemma preserves_for_each:
  "(\<And>x. x \<in> set xs \<Longrightarrow> preserves I (f x)) \<Longrightarrow> preserves I (for_each f xs)"
  by (induction xs) (auto intro!: preserves_seq)

lemma preserves_for_each_all [pres]: "(\<And>x. preserves I (f x)) \<Longrightarrow> preserves I (for_each f xs)"
  by (rule preserves_for_each)

lemma keeps_preserves: "keeps f m \<longleftrightarrow> (\<forall>c. preserves (\<lambda>w. f w = c) m)"
  by (auto simp: keeps_def preserves_def)

lemma preserves_conj:
  "preserves I m \<Longrightarrow> preserves J m \<Longrightarrow> preserves (\<lambda>w. I w \<and> J w) m"
  by (simp add: preserves_def)

subsection \<open>Keyed rows\<close>

text \<open>
  Reading, storing and removing the row with a given key: a stored row replaces the row with
  its key where it stands, or is appended.
\<close>

definition tfind :: "('r \<Rightarrow> 'k) \<Rightarrow> 'k \<Rightarrow> 'r list \<Rightarrow> 'r option" where
  "tfind key k rs = find (\<lambda>r. key r = k) rs"

fun tput :: "('r \<Rightarrow> 'k) \<Rightarrow> 'r \<Rightarrow> 'r list \<Rightarrow> 'r list" where
  "tput key r [] = [r]"
| "tput key r (x # xs) = (if key x = key r then r # xs else x # tput key r xs)"

definition tdel :: "('r \<Rightarrow> 'k) \<Rightarrow> 'k \<Rightarrow> 'r list \<Rightarrow> 'r list" where
  "tdel key k rs = filter (\<lambda>r. key r \<noteq> k) rs"

lemma tfind_Nil [simp]: "tfind key k [] = None"
  by (simp add: tfind_def)

lemma tfind_Cons [simp]: "tfind key k (x # xs) = (if key x = k then Some x else tfind key k xs)"
  by (simp add: tfind_def)

lemma tfind_Some: "tfind key k rs = Some r \<Longrightarrow> r \<in> set rs \<and> key r = k"
  by (induction rs) (auto split: if_splits)

lemma tfind_None: "tfind key k rs = None \<longleftrightarrow> k \<notin> key ` set rs"
  by (induction rs) auto

lemma tfind_append:
  "tfind key k (xs @ ys) = (case tfind key k xs of None \<Rightarrow> tfind key k ys | Some r \<Rightarrow> Some r)"
  by (induction xs) auto

lemma tfind_tput_same [simp]: "tfind key (key r) (tput key r rs) = Some r"
  by (induction rs) auto

lemma tfind_tput_other [simp]: "k \<noteq> key r \<Longrightarrow> tfind key k (tput key r rs) = tfind key k rs"
  by (induction rs) auto

lemma tfind_tdel [simp]: "tfind key k (tdel key j rs) = (if k = j then None else tfind key k rs)"
  by (induction rs) (auto simp: tdel_def)

lemma keys_tput:
  "map key (tput key r rs) = (if key r \<in> key ` set rs then map key rs else map key rs @ [key r])"
  by (induction rs) auto

lemma distinct_tput: "distinct (map key rs) \<Longrightarrow> distinct (map key (tput key r rs))"
  by (simp add: keys_tput)

lemma distinct_tdel: "distinct (map key rs) \<Longrightarrow> distinct (map key (tdel key k rs))"
  by (induction rs) (auto simp: tdel_def)

lemma set_tput_subset: "set (tput key r rs) \<subseteq> insert r (set rs)"
  by (induction rs) auto

lemma set_tdel_subset: "set (tdel key k rs) \<subseteq> set rs"
  by (auto simp: tdel_def)

lemma set_tput:
  "distinct (map key rs) \<Longrightarrow> set (tput key r rs) = insert r {x \<in> set rs. key x \<noteq> key r}"
  by (induction rs) (auto, metis image_eqI)

lemma tfind_in: "distinct (map key rs) \<Longrightarrow> r \<in> set rs \<Longrightarrow> tfind key (key r) rs = Some r"
  by (induction rs) auto

lemma tput_same: "tfind key (key r) rs = Some r \<Longrightarrow> tput key r rs = rs"
  by (induction rs) (auto split: if_splits)

lemma tput_new: "key r \<notin> key ` set rs \<Longrightarrow> tput key r rs = rs @ [r]"
  by (induction rs) auto

lemma length_tput:
  "length (tput key r rs) = (if key r \<in> key ` set rs then length rs else Suc (length rs))"
  by (induction rs) auto

lemma tput_tput: "key r = key r' \<Longrightarrow> tput key r (tput key r' rs) = tput key r rs"
  by (induction rs) auto

text \<open>A table inside the state of the world: a lens with the laws of a record field.\<close>

locale db_table =
  fixes rows :: "'w \<Rightarrow> 'r list"
    and set_rows :: "'r list \<Rightarrow> 'w \<Rightarrow> 'w"
    and key :: "'r \<Rightarrow> 'k"
  assumes rows_set: "rows (set_rows rs w) = rs"
    and set_set: "set_rows rs (set_rows rs' w) = set_rows rs w"
    and set_rows_same: "set_rows (rows w) w = w"
begin

lemma lookup_save: "tfind key (key r) (rows (set_rows (tput key r (rows w)) w)) = Some r"
  by (simp add: rows_set)

lemma lookup_save_other:
  "k \<noteq> key r \<Longrightarrow> tfind key k (rows (set_rows (tput key r (rows w)) w)) = tfind key k (rows w)"
  by (simp add: rows_set)

lemma save_loaded: "tfind key (key r) (rows w) = Some r \<Longrightarrow> set_rows (tput key r (rows w)) w = w"
  by (simp add: tput_same set_rows_same)

lemma save_save:
  "key r = key r' \<Longrightarrow>
   set_rows (tput key r (rows (set_rows (tput key r' (rows w)) w))) (set_rows (tput key r' (rows w)) w) =
   set_rows (tput key r (rows w)) w"
  by (simp add: rows_set set_set tput_tput)

lemma keys_distinct_save:
  "distinct (map key (rows w)) \<Longrightarrow> distinct (map key (rows (set_rows (tput key r (rows w)) w)))"
  by (simp add: rows_set distinct_tput)

lemma preserves_save:
  "(\<And>r'. r' \<in> set (rows w) \<Longrightarrow> P r') \<Longrightarrow> P r \<Longrightarrow>
   r'' \<in> set (rows (set_rows (tput key r (rows w)) w)) \<Longrightarrow> P r''"
  using set_tput_subset [of key r "rows w"] by (auto simp: rows_set)

lemma lookup_delete:
  "tfind key k (rows (set_rows (tdel key k (rows w)) w)) = None"
  by (simp add: rows_set)

end

end
