(* ===== verification/Cloud_Account_Model.thy ===== *)
theory Cloud_Account_Model
  imports Prelude
begin

section \<open>Cloud accounts: states, accounts and database rows\<close>

text \<open>
  \<open>cloud_accounts/models/__init__.py\<close> (access data, states, the account) and
  \<open>cloud_accounts/models/orm.py\<close> (the row and \<open>to_model\<close>), with
  \<open>CloudAccountRepository._update_state_dependent_fields\<close>, which writes a state into a row.
  The lemmas say that writing and reading a state are inverse for every access of the
  account's own cloud.
\<close>

datatype cloud_access =
    AwsCloudAccess uuid string      \<comment> \<open>external id, role name\<close>
  | GcpCloudAccess uuid             \<comment> \<open>service account key id\<close>
  | AzureCloudAccess uuid           \<comment> \<open>subscription credentials id\<close>

text \<open>The class attribute \<open>cloud\<close> of an access.\<close>

fun access_cloud :: "cloud_access \<Rightarrow> string" where
  "access_cloud (AwsCloudAccess _ _) = ''aws''"
| "access_cloud (GcpCloudAccess _) = ''gcp''"
| "access_cloud (AzureCloudAccess _) = ''azure''"

datatype account_state =
    Detected
  | Discovered cloud_access bool                  \<comment> \<open>access, enabled\<close>
  | Configured cloud_access bool bool             \<comment> \<open>access, enabled, scan\<close>
  | Degraded cloud_access bool bool string        \<comment> \<open>access, enabled, scan, error\<close>
  | Deleted

fun state_access :: "account_state \<Rightarrow> cloud_access option" where
  "state_access (Discovered a _) = Some a"
| "state_access (Configured a _ _) = Some a"
| "state_access (Degraded a _ _ _) = Some a"
| "state_access Detected = None"
| "state_access Deleted = None"

fun state_name :: "account_state \<Rightarrow> string" where
  "state_name Detected = ''detected''"
| "state_name (Discovered _ _) = ''discovered''"
| "state_name (Configured _ _ _) = ''configured''"
| "state_name (Degraded _ _ _ _) = ''degraded''"
| "state_name Deleted = ''deleted''"

definition is_degraded :: "account_state \<Rightarrow> bool" where
  "is_degraded s \<longleftrightarrow> (case s of Degraded _ _ _ _ \<Rightarrow> True | _ \<Rightarrow> False)"

lemma is_degraded_simps [simp]:
  "is_degraded (Degraded a e s m)" "\<not> is_degraded (Configured a e s)"
  "\<not> is_degraded (Discovered a e)" "\<not> is_degraded Detected" "\<not> is_degraded Deleted"
  by (simp_all add: is_degraded_def)

record account =
  ca_id :: uuid
  ca_account_id :: string
  ca_workspace_id :: uuid
  ca_cloud :: string
  ca_state :: account_state
  ca_account_name :: "string option"
  ca_account_alias :: "string option"
  ca_user_account_name :: "string option"
  ca_privileged :: bool
  ca_next_scan :: "datetime option"
  ca_last_scan_duration_seconds :: int
  ca_last_scan_started_at :: "datetime option"
  ca_last_scan_resources_scanned :: int
  ca_last_scan_resources_errors :: int
  ca_created_at :: datetime
  ca_updated_at :: datetime
  ca_state_updated_at :: datetime
  ca_cf_stack_version :: "int option"
  ca_failed_scan_count :: int
  ca_last_task_id :: "string option"
  ca_last_degraded_scan_started_at :: "datetime option"

definition aws_access :: "account \<Rightarrow> (uuid \<times> string) option" where
  "aws_access a = (case state_access (ca_state a) of
     Some (AwsCloudAccess external_id role_name) \<Rightarrow> Some (external_id, role_name)
   | _ \<Rightarrow> None)"

definition final_name :: "account \<Rightarrow> string option" where
  "final_name a = str_or (str_or (ca_user_account_name a) (ca_account_name a)) (ca_account_alias a)"

definition enabled_for_scanning :: "account \<Rightarrow> bool" where
  "enabled_for_scanning a = (case ca_state a of Configured _ _ scan \<Rightarrow> scan | _ \<Rightarrow> False)"

subsection \<open>Rows\<close>

record account_row =
  r_id :: uuid
  r_tenant_id :: uuid
  r_cloud :: string
  r_account_id :: string
  r_aws_external_id :: "uuid option"
  r_aws_role_name :: "string option"
  r_gcp_service_account_key_id :: "uuid option"
  r_azure_credential_id :: "uuid option"
  r_privileged :: bool
  r_user_account_name :: "string option"
  r_api_account_name :: "string option"
  r_api_account_alias :: "string option"
  r_is_configured :: bool
  r_enabled :: bool
  r_state :: "string option"
  r_error :: "string option"
  r_last_scan_duration_seconds :: int
  r_last_scan_started_at :: "datetime option"
  r_last_scan_resources_scanned :: int
  r_last_scan_resources_errors :: int
  r_created_at :: datetime
  r_updated_at :: datetime
  r_state_updated_at :: datetime
  r_cf_stack_version :: "int option"
  r_scan :: bool
  r_failed_scan_count :: int
  r_last_task_id :: "string option"
  r_last_degraded_scan_started_at :: "datetime option"

definition row_access :: "account_row \<Rightarrow> exn + cloud_access" where
  "row_access r =
     (if r_cloud r = ''aws'' then
        (case (r_aws_role_name r, r_aws_external_id r) of
           (Some role, Some ext) \<Rightarrow> Inr (AwsCloudAccess ext role)
         | _ \<Rightarrow> Inl ValueError)
      else if r_cloud r = ''gcp'' then
        (case r_gcp_service_account_key_id r of
           Some k \<Rightarrow> Inr (GcpCloudAccess k) | None \<Rightarrow> Inl ValueError)
      else if r_cloud r = ''azure'' then
        (case r_azure_credential_id r of
           Some c \<Rightarrow> Inr (AzureCloudAccess c) | None \<Rightarrow> Inl ValueError)
      else Inl ValueError)"

definition row_state :: "account_row \<Rightarrow> exn + account_state" where
  "row_state r =
     (case r_state r of
        None \<Rightarrow>
          (case row_access r of Inl e \<Rightarrow> Inl e
           | Inr a \<Rightarrow> if r_is_configured r then Inr (Configured a (r_enabled r) (r_scan r))
                     else Inr (Discovered a (r_enabled r)))
      | Some s \<Rightarrow>
          if s = ''detected'' then Inr Detected
          else if s = ''discovered'' then
            (case row_access r of Inl e \<Rightarrow> Inl e | Inr a \<Rightarrow> Inr (Discovered a (r_enabled r)))
          else if s = ''configured'' then
            (case row_access r of Inl e \<Rightarrow> Inl e
             | Inr a \<Rightarrow> Inr (Configured a (r_enabled r) (r_scan r)))
          else if s = ''degraded'' then
            (case r_error r of
               None \<Rightarrow> Inl ValueError
             | Some err \<Rightarrow>
                 (case row_access r of Inl e \<Rightarrow> Inl e
                  | Inr a \<Rightarrow> Inr (Degraded a (r_enabled r) (r_scan r) err)))
          else if s = ''deleted'' then Inr Deleted
          else Inl ValueError)"

definition to_model :: "datetime option \<Rightarrow> account_row \<Rightarrow> exn + account" where
  "to_model next_scan r =
     (case row_state r of
        Inl e \<Rightarrow> Inl e
      | Inr s \<Rightarrow> Inr
         \<lparr>ca_id = r_id r, ca_account_id = r_account_id r, ca_workspace_id = r_tenant_id r,
          ca_cloud = r_cloud r, ca_state = s, ca_account_name = r_api_account_name r,
          ca_account_alias = r_api_account_alias r, ca_user_account_name = r_user_account_name r,
          ca_privileged = r_privileged r, ca_next_scan = next_scan,
          ca_last_scan_duration_seconds = r_last_scan_duration_seconds r,
          ca_last_scan_started_at = r_last_scan_started_at r,
          ca_last_scan_resources_scanned = r_last_scan_resources_scanned r,
          ca_last_scan_resources_errors = r_last_scan_resources_errors r,
          ca_created_at = r_created_at r, ca_updated_at = r_updated_at r,
          ca_state_updated_at = r_state_updated_at r, ca_cf_stack_version = r_cf_stack_version r,
          ca_failed_scan_count = r_failed_scan_count r, ca_last_task_id = r_last_task_id r,
          ca_last_degraded_scan_started_at = r_last_degraded_scan_started_at r\<rparr>)"

text \<open>\<open>_update_state_dependent_fields\<close>: all eight fields are assigned, from defaults.\<close>

record state_fields =
  f_role_name :: "string option"
  f_external_id :: "uuid option"
  f_gcp_service_key_id :: "uuid option"
  f_azure_credential_id :: "uuid option"
  f_enabled :: bool
  f_scan :: bool
  f_error :: "string option"
  f_state :: "string option"

fun update_cloud_access_fields :: "cloud_access \<Rightarrow> state_fields \<Rightarrow> state_fields" where
  "update_cloud_access_fields (AwsCloudAccess ext role) f = f\<lparr>f_role_name := Some role, f_external_id := Some ext\<rparr>"
| "update_cloud_access_fields (GcpCloudAccess k) f = f\<lparr>f_gcp_service_key_id := Some k\<rparr>"
| "update_cloud_access_fields (AzureCloudAccess c) f = f\<lparr>f_azure_credential_id := Some c\<rparr>"

definition default_fields :: state_fields where
  "default_fields = \<lparr>f_role_name = None, f_external_id = None, f_gcp_service_key_id = None,
     f_azure_credential_id = None, f_enabled = False, f_scan = False, f_error = None, f_state = None\<rparr>"

fun fields_of_state :: "account_state \<Rightarrow> state_fields" where
  "fields_of_state Detected = default_fields\<lparr>f_state := Some ''detected''\<rparr>"
| "fields_of_state (Discovered a en) =
     (update_cloud_access_fields a default_fields)\<lparr>f_state := Some ''discovered'', f_enabled := en\<rparr>"
| "fields_of_state (Configured a en sc) =
     (update_cloud_access_fields a default_fields)\<lparr>f_scan := sc, f_enabled := en, f_state := Some ''configured''\<rparr>"
| "fields_of_state (Degraded a en sc err) =
     (update_cloud_access_fields a default_fields)\<lparr>f_enabled := en, f_scan := sc, f_error := Some err,
        f_state := Some ''degraded''\<rparr>"
| "fields_of_state Deleted =
     default_fields\<lparr>f_external_id := None, f_role_name := None, f_state := Some ''deleted''\<rparr>"

definition update_state_dependent_fields :: "account_row \<Rightarrow> account_state \<Rightarrow> account_row" where
  "update_state_dependent_fields r s =
     (let f = fields_of_state s
      in r\<lparr>r_aws_external_id := f_external_id f, r_aws_role_name := f_role_name f,
           r_gcp_service_account_key_id := f_gcp_service_key_id f,
           r_azure_credential_id := f_azure_credential_id f, r_state := f_state f,
           r_error := f_error f, r_enabled := f_enabled f, r_scan := f_scan f\<rparr>)"

subsection \<open>Writing and reading a state\<close>

definition access_fits :: "string \<Rightarrow> account_state \<Rightarrow> bool" where
  "access_fits cloud s \<longleftrightarrow> (case state_access s of None \<Rightarrow> True | Some a \<Rightarrow> access_cloud a = cloud)"

lemma access_fits_simps [simp]:
  "access_fits c Detected" "access_fits c Deleted"
  "access_fits c (Discovered a e) \<longleftrightarrow> access_cloud a = c"
  "access_fits c (Configured a e s) \<longleftrightarrow> access_cloud a = c"
  "access_fits c (Degraded a e s m) \<longleftrightarrow> access_cloud a = c"
  by (simp_all add: access_fits_def)

lemma row_access_written:
  "access_cloud a = r_cloud r \<Longrightarrow> state_access s = Some a \<Longrightarrow>
   row_access (update_state_dependent_fields r s) = Inr a"
  by (cases s; cases a)
    (auto simp: row_access_def update_state_dependent_fields_def default_fields_def Let_def)

lemma row_state_written:
  "access_fits (r_cloud r) s \<Longrightarrow> row_state (update_state_dependent_fields r s) = Inr s"
  using row_access_written [of _ r s]
  by (cases s)
    (auto simp: row_state_def update_state_dependent_fields_def Let_def default_fields_def access_fits_def
      split: sum.splits; (metis sum.inject(2) sum.distinct(1))?)+

text \<open>A row is readable when \<open>to_model\<close> does not raise.\<close>

definition readable :: "account_row \<Rightarrow> bool" where
  "readable r \<longleftrightarrow> (case row_state r of Inl _ \<Rightarrow> False | Inr _ \<Rightarrow> True)"

lemma readable_to_model: "readable r \<Longrightarrow> \<exists>a. to_model n r = Inr a"
  by (auto simp: readable_def to_model_def split: sum.splits)

lemma to_model_readable: "to_model n r = Inr a \<Longrightarrow> readable r"
  by (auto simp: readable_def to_model_def split: sum.splits)

lemma row_access_cloud: "row_access r = Inr a \<Longrightarrow> access_cloud a = r_cloud r"
  by (auto simp: row_access_def split: if_splits option.splits)

lemma row_state_fits: "row_state r = Inr s \<Longrightarrow> access_fits (r_cloud r) s"
  by (auto simp: row_state_def dest: row_access_cloud split: option.splits if_splits sum.splits)

lemma to_model_fields:
  assumes "to_model n r = Inr a"
  shows "ca_id a = r_id r" "ca_account_id a = r_account_id r" "ca_workspace_id a = r_tenant_id r"
    "ca_cloud a = r_cloud r" "row_state r = Inr (ca_state a)" "ca_next_scan a = n"
    "ca_failed_scan_count a = r_failed_scan_count r" "ca_account_name a = r_api_account_name r"
    "ca_user_account_name a = r_user_account_name r" "ca_account_alias a = r_api_account_alias r"
    "ca_state_updated_at a = r_state_updated_at r" "ca_created_at a = r_created_at r"
  using assms by (auto simp: to_model_def split: sum.splits)

lemma to_model_fits: "to_model n r = Inr a \<Longrightarrow> access_fits (ca_cloud a) (ca_state a)"
  using to_model_fields(4,5) row_state_fits by metis

lemma to_model_next_scan:
  "to_model n r = Inr a \<Longrightarrow> to_model n' r = Inr (a\<lparr>ca_next_scan := n'\<rparr>)"
  by (auto simp: to_model_def split: sum.splits)

end
