(* ===== verification/Product_Tier.thy ===== *)
theory Product_Tier
  imports Prelude
begin

section \<open>Product tiers and their settings\<close>

text \<open>
  \<open>ids.py\<close> (class \<open>ProductTier\<close>) and the tier table of \<open>config.py\<close>
  (\<open>ProductTierSetting\<close>, \<open>ProductTierSettings\<close>, \<open>trial_period_duration\<close>). The comparison
  operators of the enumeration are its order table, so the type is a \<open>linorder\<close> and
  Python's \<open>max\<close> is \<open>max\<close>.
\<close>

datatype product_tier = Trial | Free | Plus | Business | Enterprise

fun product_tier_order :: "product_tier \<Rightarrow> nat" where
  "product_tier_order Trial = 0"
| "product_tier_order Free = 1"
| "product_tier_order Plus = 2"
| "product_tier_order Business = 3"
| "product_tier_order Enterprise = 4"

lemma product_tier_order_inj: "product_tier_order a = product_tier_order b \<Longrightarrow> a = b"
  by (cases a; cases b) auto

instantiation product_tier :: linorder
begin

definition less_eq_product_tier :: "product_tier \<Rightarrow> product_tier \<Rightarrow> bool" where
  "less_eq_product_tier a b \<longleftrightarrow> product_tier_order a \<le> product_tier_order b"

definition less_product_tier :: "product_tier \<Rightarrow> product_tier \<Rightarrow> bool" where
  "less_product_tier a b \<longleftrightarrow> product_tier_order a < product_tier_order b"

instance
  by standard
    (auto simp: less_eq_product_tier_def less_product_tier_def dest: product_tier_order_inj)

end

lemmas tier_order = less_eq_product_tier_def less_product_tier_def

definition paid :: "product_tier \<Rightarrow> bool" where
  "paid t = (let not_free = t \<noteq> Free; not_trial = t \<noteq> Trial in not_free \<and> not_trial)"

lemma paid_simps [simp]:
  "paid Trial = False" "paid Free = False" "paid Plus" "paid Business" "paid Enterprise"
  by (simp_all add: paid_def)

lemma paid_iff_above_free: "paid t \<longleftrightarrow> Free < t"
  by (cases t) (auto simp: tier_order)

fun tier_value :: "product_tier \<Rightarrow> string" where
  "tier_value Trial = ''Trial''"
| "tier_value Free = ''Free''"
| "tier_value Plus = ''Plus''"
| "tier_value Business = ''Business''"
| "tier_value Enterprise = ''Enterprise''"

definition tier_from_str :: "string \<Rightarrow> exn + product_tier" where
  "tier_from_str s =
     (if s = ''FreeAccount'' then Inr Free
      else if s = ''EnterpriseAccount'' then Inr Enterprise
      else if s = ''Trial'' then Inr Trial
      else if s = ''Free'' then Inr Free
      else if s = ''Plus'' then Inr Plus
      else if s = ''Business'' then Inr Business
      else if s = ''Enterprise'' then Inr Enterprise
      else Inl ValueError)"

lemma tier_from_str_value [simp]: "tier_from_str (tier_value t) = Inr t"
  by (cases t) (simp_all add: tier_from_str_def)

subsection \<open>Settings\<close>

record tier_setting =
  retention_period :: timedelta
  seats_included :: nat
  seats_max :: "nat option"
  scan_interval :: timedelta
  account_limit :: "nat option"
  accounts_included :: nat
  price_per_account_cents :: nat

definition free_setting :: tier_setting where
  "free_setting = \<lparr>retention_period = td_days 31, seats_included = 1, seats_max = Some 1,
     scan_interval = td_days 30, account_limit = Some 1, accounts_included = 0,
     price_per_account_cents = 0\<rparr>"

definition trial_setting :: tier_setting where
  "trial_setting = \<lparr>retention_period = td_days 183, seats_included = 1, seats_max = None,
     scan_interval = td_hours 1, account_limit = None, accounts_included = 0,
     price_per_account_cents = 0\<rparr>"

fun product_tier_settings :: "product_tier \<Rightarrow> tier_setting" where
  "product_tier_settings Free = free_setting"
| "product_tier_settings Trial = trial_setting"
| "product_tier_settings Plus = \<lparr>retention_period = td_days 92, seats_included = 2,
     seats_max = Some 20, scan_interval = td_days 1, account_limit = None, accounts_included = 3,
     price_per_account_cents = 3000\<rparr>"
| "product_tier_settings Business = \<lparr>retention_period = td_days 183, seats_included = 5,
     seats_max = Some 50, scan_interval = td_hours 1, account_limit = None, accounts_included = 10,
     price_per_account_cents = 4000\<rparr>"
| "product_tier_settings Enterprise = \<lparr>retention_period = td_days 549, seats_included = 20,
     seats_max = None, scan_interval = td_hours 1, account_limit = None, accounts_included = 25,
     price_per_account_cents = 5000\<rparr>"

definition trial_period_duration :: timedelta where
  "trial_period_duration = td_days 14"

text \<open>
  \<open>if limit := setting.account_limit\<close>: the limit if there is one and it is not zero.
\<close>

definition limit_of :: "nat option \<Rightarrow> nat option" where
  "limit_of l = (case l of None \<Rightarrow> None | Some n \<Rightarrow> if n = 0 then None else Some n)"

lemma limit_of_account_limit [simp]:
  "limit_of (account_limit (product_tier_settings t)) = (if t = Free then Some 1 else None)"
  by (cases t) (simp_all add: limit_of_def free_setting_def trial_setting_def)

lemma account_limit_simp [simp]:
  "account_limit (product_tier_settings t) = (if t = Free then Some 1 else None)"
  by (cases t) (simp_all add: free_setting_def trial_setting_def)

lemma scan_interval_pos: "0 < scan_interval (product_tier_settings t)"
  by (cases t) (simp_all add: free_setting_def trial_setting_def td_defs)

lemma seats_max_pos: "seats_max (product_tier_settings t) = Some n \<Longrightarrow> 0 < n"
  by (cases t) (auto simp: free_setting_def trial_setting_def)

end
