(* ===== verification/Permission_Model.thy ===== *)
theory Permission_Model
  imports Prelude
begin

section \<open>Roles and permissions\<close>

text \<open>
  \<open>permissions/models.py\<close>, \<open>permissions/validator.py\<close> and \<open>permissions/schemas.py\<close>. The two
  \<open>IntFlag\<close> classes are Python integers used as bit sets: a flag is a power of two, \<open>|\<close>, \<open>&\<close>
  and \<open>~\<close> are the bit operations on unbounded integers, \<open>p in v\<close> is \<open>p & v == p\<close>, and
  iterating a value yields the declared flags whose bit is set, lowest first.
\<close>

unbundle bit_operations_syntax

type_synonym permission = int
type_synonym roles = int

definition workspace_permissions :: "(string \<times> permission) list" where
  "workspace_permissions =
     [(''create'', push_bit 0 1), (''read'', push_bit 1 1), (''update'', push_bit 2 1),
      (''delete'', push_bit 3 1), (''invite_to'', push_bit 4 1), (''remove_from'', push_bit 5 1),
      (''read_settings'', push_bit 6 1), (''update_settings'', push_bit 7 1),
      (''update_cloud_accounts'', push_bit 8 1), (''read_billing'', push_bit 9 1),
      (''update_billing'', push_bit 10 1), (''read_roles'', push_bit 11 1),
      (''update_roles'', push_bit 12 1)]"

definition perm :: "string \<Rightarrow> permission" where
  "perm n = (case map_of workspace_permissions n of None \<Rightarrow> 0 | Some p \<Rightarrow> p)"

definition workspace_member :: roles where "workspace_member = push_bit 0 1"
definition workspace_admin :: roles where "workspace_admin = push_bit 1 1"
definition workspace_owner :: roles where "workspace_owner = push_bit 2 1"
definition workspace_billing_admin :: roles where "workspace_billing_admin = push_bit 3 1"

definition all_roles :: "roles list" where
  "all_roles = [workspace_member, workspace_admin, workspace_owner, workspace_billing_admin]"

lemmas role_flag_defs = workspace_member_def workspace_admin_def workspace_owner_def
  workspace_billing_admin_def

definition all_read_permissions :: permission where
  "all_read_permissions = perm ''read'' OR perm ''read_settings'' OR perm ''read_roles''"

definition workspace_member_permissions :: permission where
  "workspace_member_permissions = perm ''read'' OR perm ''create'' OR all_read_permissions"

definition workspace_billing_admin_permissions :: permission where
  "workspace_billing_admin_permissions =
     workspace_member_permissions OR perm ''read_billing'' OR perm ''update_billing''"

definition workspace_admin_permissions :: permission where
  "workspace_admin_permissions =
     workspace_member_permissions OR workspace_billing_admin_permissions OR perm ''invite_to'' OR
     perm ''remove_from'' OR perm ''update'' OR perm ''read_settings'' OR perm ''update_settings'' OR
     perm ''update_cloud_accounts'' OR perm ''read_roles'' OR perm ''update_roles''"

definition workspace_owner_permissions :: permission where
  "workspace_owner_permissions = workspace_admin_permissions OR perm ''delete''"

definition all_permissions :: permission where
  "all_permissions = fold (\<lambda>p acc. acc OR p) (map snd workspace_permissions) 0"

definition roles_to_permissions :: "roles \<Rightarrow> permission" where
  "roles_to_permissions r =
     (if r = workspace_member then workspace_member_permissions
      else if r = workspace_admin then workspace_admin_permissions
      else if r = workspace_owner then workspace_owner_permissions
      else if r = workspace_billing_admin then workspace_billing_admin_permissions
      else 0)"

definition has_flag :: "int \<Rightarrow> int \<Rightarrow> bool" where
  "has_flag p v \<longleftrightarrow> p AND v = p"

record user_role =
  ur_user_id :: uuid
  ur_workspace_id :: uuid
  role_names :: roles

definition role_permissions :: "user_role \<Rightarrow> permission" where
  "role_permissions ur =
     fold (\<lambda>r acc. acc OR roles_to_permissions r) (filter (\<lambda>r. has_flag r (role_names ur)) all_roles) 0"

text \<open>The scalar fields of \<open>auth/models.User\<close>, with the roles loaded by the user repository.\<close>

record user =
  u_id :: uuid
  u_email :: string
  hashed_password :: string
  is_active :: bool
  is_superuser :: bool
  is_verified :: bool
  is_mfa_active :: bool
  otp_secret :: "string option"
  u_roles :: "user_role list"
  u_created_at :: datetime
  auth_min_time :: "datetime option"

subsection \<open>The validator\<close>

text \<open>
  The inner \<open>for/else\<close>: scan the roles of the user, skip those of other workspaces, stop at
  the first one that grants the permission.
\<close>

fun permission_granted :: "permission \<Rightarrow> uuid \<Rightarrow> user_role list \<Rightarrow> bool" where
  "permission_granted p ws [] = False"
| "permission_granted p ws (r # rs) =
     (if ur_workspace_id r \<noteq> ws then permission_granted p ws rs
      else if has_flag p (role_permissions r) then True
      else permission_granted p ws rs)"

fun validate_flags :: "(string \<times> permission) list \<Rightarrow> uuid \<Rightarrow> user_role list \<Rightarrow> string option" where
  "validate_flags [] ws rs = None"
| "validate_flags ((n, p) # ps) ws rs =
     (if permission_granted p ws rs then validate_flags ps ws rs
      else Some (''Missing permission '' @ n))"

definition validate_workspace_permissions :: "user \<Rightarrow> uuid \<Rightarrow> permission \<Rightarrow> string option" where
  "validate_workspace_permissions u ws required =
     validate_flags (filter (\<lambda>(n, p). has_flag p required) workspace_permissions) ws (u_roles u)"

text \<open>\<open>WorkspacePermissionChecker.__call__\<close>\<close>

definition check_permission :: "permission \<Rightarrow> user \<Rightarrow> uuid \<Rightarrow> exn + bool" where
  "check_permission required u ws =
     (case validate_workspace_permissions u ws required of
        Some error \<Rightarrow> Inl (HTTPException 403 error)
      | None \<Rightarrow> Inr True)"

subsection \<open>The role schemas of the API\<close>

record user_roles_read =
  rd_user_id :: uuid
  rd_workspace_id :: uuid
  rd_member :: bool
  rd_admin :: bool
  rd_owner :: bool
  rd_billing_admin :: bool

record user_roles_update =
  up_user_id :: uuid
  up_member :: bool
  up_owner :: bool
  up_admin :: bool
  up_billing_admin :: bool

definition roles_read_from_model :: "user_role \<Rightarrow> user_roles_read" where
  "roles_read_from_model m =
     \<lparr>rd_user_id = ur_user_id m, rd_workspace_id = ur_workspace_id m,
      rd_member = has_flag workspace_member (role_names m),
      rd_admin = has_flag workspace_admin (role_names m),
      rd_owner = has_flag workspace_owner (role_names m),
      rd_billing_admin = has_flag workspace_billing_admin (role_names m)\<rparr>"

definition roles_update_to_model :: "user_roles_update \<Rightarrow> uuid \<Rightarrow> user_role" where
  "roles_update_to_model u ws =
     (let n0 = 0;
          n1 = (if up_member u then n0 OR workspace_member else n0);
          n2 = (if up_admin u then n1 OR workspace_admin else n1);
          n3 = (if up_owner u then n2 OR workspace_owner else n2);
          n4 = (if up_billing_admin u then n3 OR workspace_billing_admin else n3)
      in \<lparr>ur_user_id = up_user_id u, ur_workspace_id = ws, role_names = n4\<rparr>)"

subsection \<open>Flags as bits\<close>

lemma has_flag_bit: "has_flag (2 ^ k) v \<longleftrightarrow> bit v k"
proof
  assume "has_flag (2 ^ k) v"
  then have "bit (2 ^ k AND v) k" by (simp only: has_flag_def) (simp add: bit_exp_iff)
  then show "bit v k" by (simp add: bit_and_iff)
next
  assume "bit v k"
  then have "2 ^ k AND v = 2 ^ k"
    by (intro bit_eqI) (auto simp: bit_and_iff bit_exp_iff)
  then show "has_flag (2 ^ k) v" by (simp add: has_flag_def)
qed

lemma bit_fold_or:
  "bit (fold (\<lambda>r acc. acc OR f r) rs (a::int)) i \<longleftrightarrow> bit a i \<or> (\<exists>r\<in>set rs. bit (f r) i)"
  by (induction rs arbitrary: a) (auto simp: bit_or_iff)

lemma has_flag_roles [simp]:
  "has_flag workspace_member v \<longleftrightarrow> bit v 0"
  "has_flag workspace_admin v \<longleftrightarrow> bit v 1"
  "has_flag workspace_owner v \<longleftrightarrow> bit v 2"
  "has_flag workspace_billing_admin v \<longleftrightarrow> bit v 3"
  using has_flag_bit [of 0 v] has_flag_bit [of 1 v] has_flag_bit [of 2 v] has_flag_bit [of 3 v]
  by (simp_all add: role_flag_defs)

lemma permission_masks:
  "workspace_member_permissions = 2115"
  "workspace_billing_admin_permissions = 3651"
  "workspace_admin_permissions = 8183"
  "workspace_owner_permissions = 8191"
  "all_permissions = 8191"
  by (simp_all add: workspace_member_permissions_def workspace_billing_admin_permissions_def
      workspace_admin_permissions_def workspace_owner_permissions_def all_permissions_def
      all_read_permissions_def perm_def workspace_permissions_def)

lemma roles_to_permissions_simps [simp]:
  "roles_to_permissions workspace_member = 2115"
  "roles_to_permissions workspace_admin = 8183"
  "roles_to_permissions workspace_owner = 8191"
  "roles_to_permissions workspace_billing_admin = 3651"
  by (simp_all add: roles_to_permissions_def permission_masks role_flag_defs)

lemma role_permissions_bit:
  "bit (role_permissions r) i \<longleftrightarrow>
     bit (role_names r) 0 \<and> bit (2115::int) i \<or> bit (role_names r) 1 \<and> bit (8183::int) i \<or>
     bit (role_names r) 2 \<and> bit (8191::int) i \<or> bit (role_names r) 3 \<and> bit (3651::int) i"
  unfolding role_permissions_def bit_fold_or
  by (auto simp: all_roles_def)

lemma permission_granted_iff:
  "permission_granted p ws rs \<longleftrightarrow>
     (\<exists>r\<in>set rs. ur_workspace_id r = ws \<and> has_flag p (role_permissions r))"
  by (induction rs) auto

lemma validate_flags_None:
  "validate_flags ps ws rs = None \<longleftrightarrow> (\<forall>(n, p)\<in>set ps. permission_granted p ws rs)"
proof (induction ps)
  case (Cons x ps)
  then show ?case by (cases x) (simp split: if_splits)
qed simp

lemma workspace_permissions_bits:
  "snd ` set workspace_permissions = (\<lambda>k. 2 ^ k) ` {k. k < 13}"
proof -
  have "{k::nat. k < 13} = {0,1,2,3,4,5,6,7,8,9,10,11,12}"
    by (auto simp: less_Suc_eq numeral_eq_Suc)
  then show ?thesis by (simp add: workspace_permissions_def)
qed

definition grants :: "user \<Rightarrow> uuid \<Rightarrow> nat \<Rightarrow> bool" where
  "grants u ws k \<longleftrightarrow> (\<exists>r\<in>set (u_roles u). ur_workspace_id r = ws \<and> bit (role_permissions r) k)"

text \<open>
  C19: The validator accepts exactly when every permission bit that is required is granted by
  some role the user holds in that workspace; roles of other workspaces never count, and bits
  above the thirteen declared permissions are never asked for.
\<close>

theorem validate_iff_granted:
  "validate_workspace_permissions u ws required = None \<longleftrightarrow>
     (\<forall>k<13. bit required k \<longrightarrow> grants u ws k)"
proof -
  have "validate_workspace_permissions u ws required = None \<longleftrightarrow>
    (\<forall>p \<in> snd ` set workspace_permissions. has_flag p required \<longrightarrow> permission_granted p ws (u_roles u))"
    by (auto simp: validate_workspace_permissions_def validate_flags_None)
  then show ?thesis
    unfolding workspace_permissions_bits permission_granted_iff
    by (simp only: ball_simps mem_Collect_eq has_flag_bit grants_def)
qed

lemma validate_iff_granted_witness:
  "validate_workspace_permissions
     \<lparr>u_id = 1, u_email = ''a'', hashed_password = '''', is_active = True, is_superuser = False,
      is_verified = True, is_mfa_active = False, otp_secret = None,
      u_roles = [\<lparr>ur_user_id = 1, ur_workspace_id = 7, role_names = 1\<rparr>], u_created_at = 0,
      auth_min_time = None\<rparr> 7 2 = None"
  unfolding validate_iff_granted
proof (intro allI impI)
  fix k :: nat
  assume "bit (2::int) k"
  then have "k = 1" by (cases k) (auto simp: bit_Suc bit_1_iff)
  then show "grants \<lparr>u_id = 1, u_email = ''a'', hashed_password = '''', is_active = True,
      is_superuser = False, is_verified = True, is_mfa_active = False, otp_secret = None,
      u_roles = [\<lparr>ur_user_id = 1, ur_workspace_id = 7, role_names = 1\<rparr>], u_created_at = 0,
      auth_min_time = None\<rparr> 7 k"
    by (simp add: grants_def role_permissions_bit)
qed

text \<open>
  The role hierarchy: a billing admin may do whatever a member may, an admin whatever a
  billing admin may, an owner everything; deleting a workspace is the one permission an admin
  lacks, and inviting, removing members, changing settings, accounts and roles needs an admin
  or an owner.
\<close>

theorem role_hierarchy:
  "roles_to_permissions workspace_member AND roles_to_permissions workspace_billing_admin =
     roles_to_permissions workspace_member \<and>
   roles_to_permissions workspace_billing_admin AND roles_to_permissions workspace_admin =
     roles_to_permissions workspace_billing_admin \<and>
   roles_to_permissions workspace_owner = all_permissions \<and>
   roles_to_permissions workspace_owner AND NOT (roles_to_permissions workspace_admin) =
     perm ''delete'' \<and>
   roles_to_permissions workspace_admin AND NOT (roles_to_permissions workspace_billing_admin) =
     (perm ''update'' OR perm ''invite_to'' OR perm ''remove_from'' OR perm ''update_settings'' OR
      perm ''update_cloud_accounts'' OR perm ''update_roles'')"
  by (simp add: permission_masks perm_def workspace_permissions_def)

lemma roles_read_of_update_eq:
  "roles_read_from_model (roles_update_to_model u ws) =
     \<lparr>rd_user_id = up_user_id u, rd_workspace_id = ws, rd_member = up_member u,
      rd_admin = up_admin u, rd_owner = up_owner u, rd_billing_admin = up_billing_admin u\<rparr>"
  by (simp add: roles_read_from_model_def roles_update_to_model_def Let_def role_flag_defs has_flag_def)

text \<open>
  Reading back the roles written through the API gives the four flags of the request: the
  update schema sets exactly the bits the read schema tests.
\<close>

theorem roles_read_of_update:
  "roles_read_from_model (roles_update_to_model u ws) =
     \<lparr>rd_user_id = up_user_id u, rd_workspace_id = ws, rd_member = up_member u,
      rd_admin = up_admin u, rd_owner = up_owner u, rd_billing_admin = up_billing_admin u\<rparr>"
  by (rule roles_read_of_update_eq)

lemma more_roles_more_permissions:
  assumes "role_names r AND role_names r' = role_names r"
  shows "role_permissions r AND role_permissions r' = role_permissions r"
proof -
  have "bit (role_names r) i \<Longrightarrow> bit (role_names r') i" for i
    using assms by (metis bit_and_iff)
  then show ?thesis by (auto simp: bit_eq_iff [of "_ AND _"] bit_and_iff role_permissions_bit)
qed

end
