(* ===== verification/Workspace_Model.thy ===== *)
theory Workspace_Model
  imports Product_Tier Permission_Model
begin

section \<open>Workspaces and invitations\<close>

text \<open>
  \<open>workspaces/models/__init__.py\<close> and \<open>workspaces/models/orm.py\<close>. A row of \<open>organization\<close> keeps the
  tiers as strings, as the table does; \<open>to_model\<close> parses them. Methods that read the clock take
  the current time as an argument.
\<close>

record workspace =
  ws_id :: uuid
  ws_slug :: string
  ws_name :: string
  ws_external_id :: uuid
  ws_owner_id :: uuid
  ws_members :: "uuid list"
  ws_selected_product_tier :: product_tier
  ws_created_at :: datetime
  ws_updated_at :: datetime
  ws_subscription_id :: "uuid option"
  ws_payment_on_hold_since :: "datetime option"
  ws_highest_current_cycle_tier :: "product_tier option"
  ws_current_cycle_ends_at :: "datetime option"
  ws_move_to_free_acknowledged_at :: "datetime option"
  ws_tier_updated_at :: "datetime option"

definition current_product_tier :: "datetime \<Rightarrow> workspace \<Rightarrow> product_tier" where
  "current_product_tier now w =
     (case ws_current_cycle_ends_at w of
        Some e \<Rightarrow>
          if now < e then
            (case ws_highest_current_cycle_tier w of
               Some h \<Rightarrow> max h (ws_selected_product_tier w)
             | None \<Rightarrow> ws_selected_product_tier w)
          else ws_selected_product_tier w
      | None \<Rightarrow> ws_selected_product_tier w)"

definition all_users :: "workspace \<Rightarrow> uuid list" where
  "all_users w = remdups (ws_members w @ [ws_owner_id w])"

definition trial_end_days :: "datetime \<Rightarrow> workspace \<Rightarrow> int option" where
  "trial_end_days now w =
     (if current_product_tier now w = Trial
      then Some (max ((ws_created_at w + trial_period_duration - now) div td_days 1) 0)
      else None)"

text \<open>
  \<open>if trial_end := self.trial_end_days(): if trial_end == 0 and self.subscription_id is None\<close>
\<close>

definition paid_tier_access :: "datetime \<Rightarrow> workspace \<Rightarrow> uuid \<Rightarrow> bool" where
  "paid_tier_access now w user_id =
     (if user_id = ws_owner_id w then True
      else if ws_payment_on_hold_since w \<noteq> None then False
      else (case trial_end_days now w of
              Some trial_end \<Rightarrow>
                if trial_end \<noteq> 0
                then (if trial_end = 0 \<and> ws_subscription_id w = None then False else True)
                else True
            | None \<Rightarrow> True))"

record invitation =
  inv_id :: uuid
  inv_workspace_id :: uuid
  inv_email :: string
  inv_role :: roles
  inv_expires_at :: datetime
  inv_accepted_at :: "datetime option"

subsection \<open>Rows\<close>

record org_row =
  o_id :: uuid
  o_slug :: string
  o_name :: string
  o_external_id :: uuid
  o_owner_id :: uuid
  o_tier :: string
  o_subscription_id :: "uuid option"
  o_payment_on_hold_since :: "datetime option"
  o_created_at :: datetime
  o_updated_at :: datetime
  o_highest_current_cycle_tier :: "string option"
  o_current_cycle_ends_at :: "datetime option"
  o_tier_updated_at :: "datetime option"

definition org_to_model :: "uuid list \<Rightarrow> datetime option \<Rightarrow> org_row \<Rightarrow> exn + workspace" where
  "org_to_model members acknowledged_at r =
     (case tier_from_str (o_tier r) of
        Inl e \<Rightarrow> Inl e
      | Inr tier \<Rightarrow>
         (case (case o_highest_current_cycle_tier r of
                  None \<Rightarrow> Inr None
                | Some s \<Rightarrow> if s = [] then Inr None
                           else (case tier_from_str s of Inl e \<Rightarrow> Inl e | Inr t \<Rightarrow> Inr (Some t))) of
            Inl e \<Rightarrow> Inl e
          | Inr highest \<Rightarrow> Inr
             \<lparr>ws_id = o_id r, ws_slug = o_slug r, ws_name = o_name r, ws_external_id = o_external_id r,
              ws_owner_id = o_owner_id r, ws_members = members, ws_selected_product_tier = tier,
              ws_created_at = o_created_at r, ws_updated_at = o_updated_at r,
              ws_subscription_id = o_subscription_id r,
              ws_payment_on_hold_since = o_payment_on_hold_since r,
              ws_highest_current_cycle_tier = highest,
              ws_current_cycle_ends_at = o_current_cycle_ends_at r,
              ws_move_to_free_acknowledged_at = acknowledged_at,
              ws_tier_updated_at = o_tier_updated_at r\<rparr>))"

record invite_row =
  i_id :: uuid
  i_organization_id :: uuid
  i_user_email :: string
  i_role :: int
  i_expires_at :: datetime
  i_accepted_at :: "datetime option"

definition invite_to_model :: "invite_row \<Rightarrow> invitation" where
  "invite_to_model r =
     \<lparr>inv_id = i_id r, inv_workspace_id = i_organization_id r, inv_email = i_user_email r,
      inv_role = i_role r, inv_expires_at = i_expires_at r, inv_accepted_at = i_accepted_at r\<rparr>"

text \<open>\<open>UserTrialNotificationStatus\<close>\<close>

record trial_seen_row =
  t_workspace_id :: uuid
  t_user_id :: uuid
  t_created_at :: datetime

lemma org_to_model_fields:
  assumes "org_to_model ms a r = Inr w"
  shows "ws_id w = o_id r" "ws_owner_id w = o_owner_id r" "ws_members w = ms"
    "ws_external_id w = o_external_id r" "ws_subscription_id w = o_subscription_id r"
    "ws_payment_on_hold_since w = o_payment_on_hold_since r"
    "ws_current_cycle_ends_at w = o_current_cycle_ends_at r"
    "tier_from_str (o_tier r) = Inr (ws_selected_product_tier w)"
    "ws_created_at w = o_created_at r" "ws_move_to_free_acknowledged_at w = a"
  using assms by (auto simp: org_to_model_def split: sum.splits)

lemma all_users_set [simp]: "set (all_users w) = insert (ws_owner_id w) (set (ws_members w))"
  by (auto simp: all_users_def)

lemma length_all_users: "length (all_users w) = card (insert (ws_owner_id w) (set (ws_members w)))"
  by (metis all_users_def all_users_set distinct_card distinct_remdups)

lemma current_product_tier_ge_selected: "ws_selected_product_tier w \<le> current_product_tier now w"
  by (auto simp: current_product_tier_def split: option.splits)

lemma current_product_tier_cycle:
  "ws_current_cycle_ends_at w = Some e \<Longrightarrow> now < e \<Longrightarrow> ws_highest_current_cycle_tier w = Some h \<Longrightarrow>
   h \<le> current_product_tier now w"
  by (simp add: current_product_tier_def)

text \<open>
  The end of the trial never takes access away: because zero days left is false in
  \<open>if trial_end := ...\<close>, the test for zero inside it cannot hold, and a member is shut out by
  \<open>paid_tier_access\<close> only while the payment is on hold.
\<close>

theorem trial_end_never_denies:
  "paid_tier_access now w user_id \<longleftrightarrow> user_id = ws_owner_id w \<or> ws_payment_on_hold_since w = None"
  by (auto simp: paid_tier_access_def split: option.splits)

end
