(* ===== verification/Calendar.thy ===== *)
theory Calendar
  imports Prelude
begin

section \<open>Calendar months and billing periods\<close>

text \<open>
  The calendar arithmetic that \<open>utils.py\<close> (\<open>start_of_next_month\<close>, \<open>start_of_next_day\<close>,
  \<open>start_of_next_period\<close>) and the billing cycle of \<open>workspaces/repository.py\<close> take from
  Python's \<open>datetime\<close> and \<open>calendar\<close>: the proleptic Gregorian calendar, with days counted
  from 0001-01-01 as \<open>datetime.toordinal\<close> counts them (less one).
\<close>

definition is_leap :: "nat \<Rightarrow> bool" where
  "is_leap y \<longleftrightarrow> y mod 4 = 0 \<and> (y mod 100 \<noteq> 0 \<or> y mod 400 = 0)"

text \<open>\<open>datetime._days_before_year\<close> and \<open>_days_in_month\<close>.\<close>

definition days_before_year :: "nat \<Rightarrow> nat" where
  "days_before_year y = (let p = y - 1 in p * 365 + p div 4 - p div 100 + p div 400)"

definition days_in_month :: "nat \<Rightarrow> nat \<Rightarrow> nat" where
  "days_in_month y m =
     (if m = 2 then (if is_leap y then 29 else 28)
      else if m = 4 \<or> m = 6 \<or> m = 9 \<or> m = 11 then 30 else 31)"

fun days_before_month :: "nat \<Rightarrow> nat \<Rightarrow> nat" where
  "days_before_month y 0 = 0"
| "days_before_month y (Suc m) = (if m = 0 then 0 else days_before_month y m + days_in_month y m)"

text \<open>The year and the month of a day number.\<close>

function year_from :: "nat \<Rightarrow> nat \<Rightarrow> nat" where
  "year_from y d = (if d < days_before_year (Suc y) then y else year_from (Suc y) d)"
  by pat_completeness auto
termination
proof (relation "measure (\<lambda>(y, d). d + 2 - y)")
  fix y d :: nat
  assume "\<not> d < days_before_year (Suc y)"
  then have "y \<le> d" by (simp add: days_before_year_def Let_def)
  then show "((Suc y, d), y, d) \<in> measure (\<lambda>(y, d). d + 2 - y)" by simp
qed simp

declare year_from.simps [simp del]

definition year_of_day :: "nat \<Rightarrow> nat" where
  "year_of_day d = year_from (d div 366 + 1) d"

function month_from :: "nat \<Rightarrow> nat \<Rightarrow> nat \<Rightarrow> nat" where
  "month_from y m r =
     (if 12 \<le> m \<or> r < days_before_month y (Suc m) then m else month_from y (Suc m) r)"
  by pat_completeness auto
termination by (relation "measure (\<lambda>(y, m, r). 12 - m)") auto

declare month_from.simps [simp del]

definition day_length :: int where
  "day_length = 86400000000"

definition epoch_day :: int where
  "epoch_day = 719162"

definition day_number :: "datetime \<Rightarrow> int" where
  "day_number t = t div day_length + epoch_day"

definition dt_year :: "datetime \<Rightarrow> nat" where
  "dt_year t = year_of_day (nat (day_number t))"

definition dt_month :: "datetime \<Rightarrow> nat" where
  "dt_month t = month_from (dt_year t) 1 (nat (day_number t) - days_before_year (dt_year t))"

text \<open>\<open>datetime(y, m, d, hour, minute, second, microsecond, tzinfo=utc)\<close>\<close>

definition mk_datetime :: "nat \<Rightarrow> nat \<Rightarrow> nat \<Rightarrow> nat \<Rightarrow> nat \<Rightarrow> nat \<Rightarrow> nat \<Rightarrow> datetime" where
  "mk_datetime y m d h mi s us =
     (int (days_before_year y + days_before_month y m + d - 1) - epoch_day) * day_length +
     int h * 3600000000 + int mi * 60000000 + int s * 1000000 + int us"

definition start_of_next_month :: "datetime \<Rightarrow> nat \<Rightarrow> datetime" where
  "start_of_next_month now hour =
     (if dt_month now = 12 then mk_datetime (dt_year now + 1) 1 1 hour 0 0 0
      else mk_datetime (dt_year now) (dt_month now + 1) 1 hour 0 0 0)"

definition start_of_next_day :: "datetime \<Rightarrow> nat \<Rightarrow> datetime" where
  "start_of_next_day now hour =
     (let next_day = now + td_days 1
      in next_day div day_length * day_length + int hour * 3600000000)"

datatype billing_period = Month | Day

fun start_of_next_period :: "billing_period \<Rightarrow> datetime \<Rightarrow> nat \<Rightarrow> datetime" where
  "start_of_next_period Month current_time hour = start_of_next_month current_time hour"
| "start_of_next_period Day current_time hour = start_of_next_day current_time hour"

text \<open>The end of the billing cycle that \<open>update_product_tier\<close> computes.\<close>

definition last_billing_cycle_instant :: "datetime \<Rightarrow> datetime" where
  "last_billing_cycle_instant now =
     mk_datetime (dt_year now) (dt_month now) (days_in_month (dt_year now) (dt_month now)) 23 59 59 999999"

subsection \<open>The year and the month found are those of the day\<close>

lemma days_before_year_le: "days_before_year (Suc y) \<le> 366 * y"
  by (simp add: days_before_year_def Let_def)

lemma year_from_bounds:
  "days_before_year y \<le> d \<Longrightarrow>
   days_before_year (year_from y d) \<le> d \<and> d < days_before_year (Suc (year_from y d)) \<and> y \<le> year_from y d"
proof (induction y d rule: year_from.induct)
  case (1 y d)
  show ?case
  proof (cases "d < days_before_year (Suc y)")
    case True
    with "1.prems" show ?thesis by (simp add: year_from.simps [of y d])
  next
    case False
    with "1.IH" have "days_before_year (year_from (Suc y) d) \<le> d \<and>
      d < days_before_year (Suc (year_from (Suc y) d)) \<and> Suc y \<le> year_from (Suc y) d" by simp
    with False show ?thesis by (simp add: year_from.simps [of y d])
  qed
qed

lemma year_of_day_bounds:
  "days_before_year (year_of_day d) \<le> d \<and> d < days_before_year (Suc (year_of_day d)) \<and> 1 \<le> year_of_day d"
proof -
  have "days_before_year (Suc (d div 366)) \<le> 366 * (d div 366)" by (rule days_before_year_le)
  also have "\<dots> \<le> d" by simp
  finally show ?thesis using year_from_bounds [of "d div 366 + 1" d] by (simp add: year_of_day_def)
qed

lemma div_Suc_shift: "0 < k \<Longrightarrow> Suc p div k = p div k + (if Suc p mod k = 0 then 1 else 0)"
  by (simp add: div_Suc)

lemma days_before_month_13: "days_before_month y 13 = (if is_leap y then 366 else 365)"
  by (simp add: eval_nat_numeral days_in_month_def)

lemma leap_count:
  fixes p a b c a' b' c' :: nat
  assumes "a' = a + (if P4 then 1 else 0)" "b' = b + (if P100 then 1 else 0)"
    "c' = c + (if P400 then 1 else 0)" "P100 \<Longrightarrow> P4" "P400 \<Longrightarrow> P100" "b \<le> a"
  shows "Suc p * 365 + a' - b' + c' =
    p * 365 + a - b + c + (if P4 \<and> (\<not> P100 \<or> P400) then 366 else 365)"
  using assms by (cases P4; cases P100; cases P400) auto

lemma days_before_year_Suc:
  assumes "1 \<le> y"
  shows "days_before_year (Suc y) = days_before_year y + days_before_month y 13"
proof -
  obtain p where y: "y = Suc p" using assms by (cases y) auto
  have "Suc p mod 400 = 0 \<Longrightarrow> Suc p mod 100 = 0" "Suc p mod 100 = 0 \<Longrightarrow> Suc p mod 4 = 0"
    using dvd_trans [of 100 400 "Suc p"] dvd_trans [of 4 100 "Suc p"]
    by (simp_all add: mod_eq_0_iff_dvd)
  moreover have "p div 100 \<le> p div 4" by (rule div_le_mono2) simp_all
  ultimately have "Suc p * 365 + Suc p div 4 - Suc p div 100 + Suc p div 400 =
      p * 365 + p div 4 - p div 100 + p div 400 +
      (if Suc p mod 4 = 0 \<and> (\<not> Suc p mod 100 = 0 \<or> Suc p mod 400 = 0) then 366 else 365)"
    by (intro leap_count div_Suc_shift) simp_all
  then show ?thesis
    by (simp only: y days_before_month_13 is_leap_def days_before_year_def Let_def diff_Suc_1)
qed

lemma month_from_bounds:
  "days_before_month y m \<le> r \<Longrightarrow> r < days_before_month y 13 \<Longrightarrow> 1 \<le> m \<Longrightarrow> m \<le> 12 \<Longrightarrow>
   days_before_month y (month_from y m r) \<le> r \<and> r < days_before_month y (Suc (month_from y m r)) \<and>
   1 \<le> month_from y m r \<and> month_from y m r \<le> 12"
proof (induction y m r rule: month_from.induct)
  case (1 y m r)
  show ?case
  proof (cases "12 \<le> m \<or> r < days_before_month y (Suc m)")
    case True
    then have eq: "month_from y m r = m" by (subst month_from.simps) simp
    have "r < days_before_month y (Suc m)"
    proof (cases "m = 12")
      case True
      then show ?thesis using "1.prems"(2) by (simp add: eval_nat_numeral)
    next
      case False
      with \<open>12 \<le> m \<or> _\<close> "1.prems" show ?thesis by auto
    qed
    with "1.prems" show ?thesis unfolding eq by blast
  next
    case False
    with "1.IH" "1.prems" have "days_before_month y (month_from y (Suc m) r) \<le> r \<and>
      r < days_before_month y (Suc (month_from y (Suc m) r)) \<and>
      1 \<le> month_from y (Suc m) r \<and> month_from y (Suc m) r \<le> 12" by auto
    moreover have "month_from y m r = month_from y (Suc m) r"
      using False by (subst month_from.simps) simp
    ultimately show ?thesis by (simp only: simp_thms)
  qed
qed

lemma day_number_split:
  assumes "0 \<le> day_number t"
  shows "\<exists>r. nat (day_number t) = days_before_year (dt_year t) + r \<and>
    days_before_month (dt_year t) (dt_month t) \<le> r \<and>
    r < days_before_month (dt_year t) (Suc (dt_month t)) \<and> 1 \<le> dt_month t \<and> dt_month t \<le> 12 \<and>
    1 \<le> dt_year t"
proof -
  let ?d = "nat (day_number t)" and ?y = "dt_year t"
  let ?r = "?d - days_before_year ?y"
  have y: "days_before_year ?y \<le> ?d" "?d < days_before_year (Suc ?y)" "1 \<le> ?y"
    using year_of_day_bounds [of ?d] by (auto simp: dt_year_def)
  then have r: "?r < days_before_month ?y 13" using days_before_year_Suc [of ?y] by simp
  have "days_before_month ?y 1 \<le> ?r" by simp
  from month_from_bounds [OF this r] y show ?thesis
    by (intro exI [of _ ?r]) (auto simp: dt_month_def)
qed

lemma mk_datetime_next_month:
  assumes "0 \<le> day_number t"
  shows "start_of_next_month t hour =
    (int (days_before_year (dt_year t) + days_before_month (dt_year t) (Suc (dt_month t))) - epoch_day)
      * day_length + int hour * 3600000000"
proof -
  obtain r where m: "1 \<le> dt_month t" "dt_month t \<le> 12" "1 \<le> dt_year t"
    using day_number_split [OF assms] by blast
  show ?thesis
  proof (cases "dt_month t = 12")
    case True
    then show ?thesis
      using days_before_year_Suc [OF m(3)] days_before_month_13 [of "dt_year t"]
      by (simp add: start_of_next_month_def mk_datetime_def eval_nat_numeral)
  next
    case False
    then show ?thesis by (simp add: start_of_next_month_def mk_datetime_def)
  qed
qed

lemma datetime_day: "t = (day_number t - epoch_day) * day_length + t mod day_length"
  by (simp add: day_number_def)

lemma start_of_next_month_after:
  assumes "0 \<le> day_number t"
  shows "t < start_of_next_month t hour"
proof -
  obtain r where r: "nat (day_number t) = days_before_year (dt_year t) + r"
    "r < days_before_month (dt_year t) (Suc (dt_month t))"
    using day_number_split [OF assms] by blast
  let ?n = "int (days_before_year (dt_year t) + days_before_month (dt_year t) (Suc (dt_month t)))"
  have "day_number t + 1 \<le> ?n" using r assms by linarith
  then have "(day_number t + 1 - epoch_day) * day_length \<le> (?n - epoch_day) * day_length"
    by (intro mult_right_mono) (auto simp: day_length_def)
  moreover have "t < (day_number t + 1 - epoch_day) * day_length"
    using datetime_day [of t] pos_mod_bound [of day_length t] by (simp add: algebra_simps day_length_def)
  ultimately show ?thesis unfolding mk_datetime_next_month [OF assms] by simp
qed

lemma start_of_next_day_after: "t < start_of_next_day t hour"
proof -
  have "t < (t div day_length + 1) * day_length"
    using pos_mod_bound [of day_length t] div_mult_mod_eq [of t day_length]
    by (simp add: day_length_def algebra_simps)
  moreover have "(t + td_days 1) div day_length = t div day_length + 1"
    by (simp add: td_defs day_length_def)
  ultimately show ?thesis by (simp add: start_of_next_day_def Let_def)
qed

lemma last_billing_cycle_instant_eq:
  assumes "0 \<le> day_number t"
  shows "last_billing_cycle_instant t + 1 = start_of_next_month t 0"
proof -
  have m: "1 \<le> dt_month t"
    using day_number_split [OF assms] by blast
  have "0 < days_in_month (dt_year t) (dt_month t)" by (simp add: days_in_month_def)
  with m show ?thesis
    unfolding mk_datetime_next_month [OF assms]
    by (simp add: last_billing_cycle_instant_def mk_datetime_def day_length_def of_nat_diff algebra_simps)
qed

lemma last_billing_cycle_instant_ge:
  assumes "0 \<le> day_number t"
  shows "t \<le> last_billing_cycle_instant t"
  using start_of_next_month_after [OF assms, of 0] last_billing_cycle_instant_eq [OF assms] by simp

text \<open>
  The start of the next billing period lies strictly in the future, for both periods and
  for every hour of the day, at every instant from the year 1 on.
\<close>

theorem start_of_next_period_after:
  assumes "0 \<le> day_number now"
  shows "now < start_of_next_period period now hour"
  using assms by (cases period) (simp_all add: start_of_next_month_after start_of_next_day_after)

lemma start_of_next_period_after_witness:
  "0 \<le> day_number 1735603200000000 \<and>
   (1735603200000000 :: datetime) < start_of_next_period Month 1735603200000000 9"
proof -
  have h: "0 \<le> day_number 1735603200000000" by (simp add: day_number_def day_length_def epoch_day_def)
  from h start_of_next_period_after [OF h, of Month 9] show ?thesis by simp
qed

lemma days_before_month_unfold:
  "days_before_month y m = (if m \<le> 1 then 0 else days_before_month y (m - 1) + days_in_month y (m - 1))"
  by (cases m) auto


text \<open>On 31 December 2024, 00:00 UTC, the next monthly period starts on 1 January 2025 at 9.\<close>

lemma next_period_december: "start_of_next_period Month 1735603200000000 9 = 1735722000000000"
proof -
  have y: "dt_year 1735603200000000 = 2024"
    by (simp add: dt_year_def year_of_day_def day_number_def day_length_def epoch_day_def
        year_from.simps days_before_year_def)
  have "dt_month 1735603200000000 = 12"
    by (simp add: dt_month_def y day_number_def day_length_def epoch_day_def month_from.simps
        days_before_year_def days_before_month_unfold [of _ "numeral _"] days_in_month_def is_leap_def)
  then show ?thesis
    by (simp add: start_of_next_month_def y mk_datetime_def days_before_year_def epoch_day_def day_length_def)
qed

end
