(* ===== verification/Billing_Model.thy ===== *)
theory Billing_Model
  imports Product_Tier Calendar
begin

section \<open>Subscriptions, billing entries and metering records\<close>

text \<open>
  \<open>subscription/models.py\<close>, \<open>billing/models.py\<close>, \<open>metering/__init__.py\<close> and the entities of
  \<open>subscription_repository.py\<close> and \<open>metering_repository.py\<close> with their \<open>to_model\<close> and
  \<open>from_model\<close>. A row of \<open>subscriptions\<close> is a Stripe subscription when both Stripe columns are
  filled, else an AWS Marketplace one when its three columns are, else it cannot be read.
\<close>

record aws_subscription =
  aws_id :: uuid
  aws_user_id :: "uuid option"
  aws_customer_identifier :: string
  aws_customer_account_id :: string
  aws_product_code :: string
  aws_active :: bool
  aws_last_charge_timestamp :: "datetime option"
  aws_next_charge_timestamp :: "datetime option"

record stripe_subscription =
  st_id :: uuid
  st_workspace_id :: "uuid option"
  st_customer_identifier :: string
  st_subscription_id :: string
  st_active :: bool
  st_last_charge_timestamp :: "datetime option"
  st_next_charge_timestamp :: "datetime option"

datatype subscription_method =
    AwsMarketplaceSubscription aws_subscription
  | StripeSubscription stripe_subscription

fun sub_id :: "subscription_method \<Rightarrow> uuid" where
  "sub_id (AwsMarketplaceSubscription a) = aws_id a"
| "sub_id (StripeSubscription s) = st_id s"

fun sub_active :: "subscription_method \<Rightarrow> bool" where
  "sub_active (AwsMarketplaceSubscription a) = aws_active a"
| "sub_active (StripeSubscription s) = st_active s"

fun sub_last_charge :: "subscription_method \<Rightarrow> datetime option" where
  "sub_last_charge (AwsMarketplaceSubscription a) = aws_last_charge_timestamp a"
| "sub_last_charge (StripeSubscription s) = st_last_charge_timestamp s"

record subscription_row =
  s_id :: uuid
  s_user_id :: "uuid option"
  s_aws_customer_identifier :: "string option"
  s_aws_customer_account_id :: "string option"
  s_aws_product_code :: "string option"
  s_stripe_customer_identifier :: "string option"
  s_stripe_subscription_id :: "string option"
  s_stripe_workspace_id :: "uuid option"
  s_active :: bool
  s_last_charge_timestamp :: "datetime option"
  s_next_charge_timestamp :: "datetime option"

definition sub_to_model :: "subscription_row \<Rightarrow> exn + subscription_method" where
  "sub_to_model r =
     (if str_true (s_stripe_subscription_id r) \<and> str_true (s_stripe_customer_identifier r) then
        (case (s_stripe_customer_identifier r, s_stripe_subscription_id r) of
           (Some c, Some s) \<Rightarrow> Inr (StripeSubscription
             \<lparr>st_id = s_id r, st_workspace_id = s_stripe_workspace_id r, st_customer_identifier = c,
              st_subscription_id = s, st_active = s_active r,
              st_last_charge_timestamp = s_last_charge_timestamp r,
              st_next_charge_timestamp = s_next_charge_timestamp r\<rparr>)
         | _ \<Rightarrow> Inl ValueError)
      else if str_true (s_aws_customer_identifier r) \<and> str_true (s_aws_customer_account_id r) \<and>
              str_true (s_aws_product_code r) then
        (case (s_aws_customer_identifier r, s_aws_customer_account_id r, s_aws_product_code r) of
           (Some ci, Some ca, Some pc) \<Rightarrow> Inr (AwsMarketplaceSubscription
             \<lparr>aws_id = s_id r, aws_user_id = s_user_id r, aws_customer_identifier = ci,
              aws_customer_account_id = ca, aws_product_code = pc, aws_active = s_active r,
              aws_last_charge_timestamp = s_last_charge_timestamp r,
              aws_next_charge_timestamp = s_next_charge_timestamp r\<rparr>)
         | _ \<Rightarrow> Inl ValueError)
      else Inl ValueError)"

fun sub_from_model :: "subscription_method \<Rightarrow> subscription_row" where
  "sub_from_model (AwsMarketplaceSubscription a) =
     \<lparr>s_id = aws_id a, s_user_id = aws_user_id a,
      s_aws_customer_identifier = Some (aws_customer_identifier a),
      s_aws_customer_account_id = Some (aws_customer_account_id a),
      s_aws_product_code = Some (aws_product_code a),
      s_stripe_customer_identifier = None, s_stripe_subscription_id = None,
      s_stripe_workspace_id = None, s_active = aws_active a,
      s_last_charge_timestamp = aws_last_charge_timestamp a,
      s_next_charge_timestamp = aws_next_charge_timestamp a\<rparr>"
| "sub_from_model (StripeSubscription s) =
     \<lparr>s_id = st_id s, s_user_id = None, s_aws_customer_identifier = None,
      s_aws_customer_account_id = Some '''', s_aws_product_code = None,
      s_stripe_customer_identifier = Some (st_customer_identifier s),
      s_stripe_subscription_id = Some (st_subscription_id s),
      s_stripe_workspace_id = st_workspace_id s, s_active = st_active s,
      s_last_charge_timestamp = st_last_charge_timestamp s,
      s_next_charge_timestamp = st_next_charge_timestamp s\<rparr>"

text \<open>The identifiers a row needs to be read back: none of them empty.\<close>

fun sub_complete :: "subscription_method \<Rightarrow> bool" where
  "sub_complete (AwsMarketplaceSubscription a) \<longleftrightarrow>
     aws_customer_identifier a \<noteq> [] \<and> aws_customer_account_id a \<noteq> [] \<and> aws_product_code a \<noteq> []"
| "sub_complete (StripeSubscription s) \<longleftrightarrow> st_customer_identifier s \<noteq> [] \<and> st_subscription_id s \<noteq> []"

lemma sub_roundtrip: "sub_to_model (sub_from_model s) = Inr s \<longleftrightarrow> sub_complete s"
  by (cases s) (auto simp: sub_to_model_def)

lemma sub_to_model_id: "sub_to_model r = Inr s \<Longrightarrow> sub_id s = s_id r"
  by (auto simp: sub_to_model_def split: if_splits option.splits)

lemma sub_to_model_fields:
  "sub_to_model r = Inr s \<Longrightarrow> sub_active s = s_active r \<and> sub_last_charge s = s_last_charge_timestamp r"
  by (auto simp: sub_to_model_def split: if_splits option.splits)

record billing_entry =
  be_id :: uuid
  be_workspace_id :: uuid
  be_subscription_id :: uuid
  be_tier :: product_tier
  be_nr_of_accounts_charged :: int
  be_period_start :: datetime
  be_period_end :: datetime
  be_reported :: bool

record billing_row =
  b_id :: uuid
  b_workspace_id :: uuid
  b_subscription_id :: uuid
  b_tier :: string
  b_nr_of_accounts_charged :: int
  b_period_start :: datetime
  b_period_end :: datetime
  b_reported :: bool

definition billing_to_model :: "billing_row \<Rightarrow> exn + billing_entry" where
  "billing_to_model r =
     (case tier_from_str (b_tier r) of
        Inl e \<Rightarrow> Inl e
      | Inr t \<Rightarrow> Inr \<lparr>be_id = b_id r, be_workspace_id = b_workspace_id r,
          be_subscription_id = b_subscription_id r, be_tier = t,
          be_nr_of_accounts_charged = b_nr_of_accounts_charged r,
          be_period_start = b_period_start r, be_period_end = b_period_end r,
          be_reported = b_reported r\<rparr>)"

datatype payment_method =
    AwsPayment uuid
  | StripePayment uuid
  | NoPaymentMethod

record workspace_payment_methods =
  pm_current :: payment_method
  pm_available :: "payment_method list"

subsection \<open>Metering\<close>

record metering_record =
  m_id :: uuid
  m_workspace_id :: uuid
  m_cloud :: string
  m_account_id :: string
  m_account_name :: "string option"
  m_timestamp :: datetime
  m_job_id :: uuid
  m_task_id :: string
  m_nr_of_resources_collected :: int
  m_nr_of_error_messages :: nat
  m_started_at :: datetime
  m_duration :: int
  m_product_tier :: product_tier

record metering_summary =
  sm_account_id :: string
  sm_account_name :: "string option"
  sm_count :: nat
  sm_product_tier :: product_tier

end
