(* ===== verification/Collect_Model.thy ===== *)
theory Collect_Model
  imports Prelude
begin

section \<open>Collect jobs and their progress\<close>

text \<open>
  \<open>dispatcher/collect_progress.py\<close> (the progress of one account, kept in a Redis hash) and the
  job payloads of \<open>collect/collect_queue.py\<close>. The JSON text under a hash key is represented by
  the value it encodes.
\<close>

datatype collection_result =
    CollectionFailure int "string option" string              \<comment> \<open>duration, task id, error\<close>
  | CollectionSuccess int int string "string list"           \<comment> \<open>resources, duration, task id, errors\<close>

record account_collect_progress =
  cp_cloud :: string
  cp_cloud_account_id :: uuid
  cp_account_id :: string
  cp_started_at :: datetime
  cp_collection_done :: "collection_result option"

definition progress_done ::
  "account_collect_progress \<Rightarrow> int \<Rightarrow> int \<Rightarrow> string \<Rightarrow> string list \<Rightarrow> account_collect_progress" where
  "progress_done p scanned_resources scan_duration task_id resource_errors =
     p\<lparr>cp_collection_done := Some (CollectionSuccess scanned_resources scan_duration task_id resource_errors)\<rparr>"

definition progress_failed ::
  "account_collect_progress \<Rightarrow> string \<Rightarrow> int \<Rightarrow> string option \<Rightarrow> account_collect_progress" where
  "progress_failed p error scan_duration task_id =
     p\<lparr>cp_collection_done := Some (CollectionFailure scan_duration task_id error)\<rparr>"

definition is_done :: "account_collect_progress \<Rightarrow> bool" where
  "is_done p \<longleftrightarrow> cp_collection_done p \<noteq> None"

definition done_failure :: "account_collect_progress \<Rightarrow> bool" where
  "done_failure p \<longleftrightarrow> (case cp_collection_done p of Some (CollectionFailure _ _ _) \<Rightarrow> True | _ \<Rightarrow> False)"

definition done_success :: "account_collect_progress \<Rightarrow> bool" where
  "done_success p \<longleftrightarrow> (case cp_collection_done p of Some (CollectionSuccess _ _ _ _) \<Rightarrow> True | _ \<Rightarrow> False)"

lemma done_cases: "is_done p \<longleftrightarrow> done_success p \<or> done_failure p"
  by (auto simp: is_done_def done_failure_def done_success_def
      split: option.splits collection_result.splits)

lemma done_failure_not_success: "done_failure p \<Longrightarrow> \<not> done_success p"
  by (auto simp: done_failure_def done_success_def split: option.splits collection_result.splits)

datatype account_information =
    AwsAccountInformation string "string option" string uuid   \<comment> \<open>id, name, role arn, external id\<close>
  | GcpProjectInformation string string                        \<comment> \<open>project, credentials (JSON text)\<close>
  | AzureSubscriptionInformation string string string string bool
      \<comment> \<open>subscription, tenant, client, secret, collect the Microsoft graph\<close>

record post_collect_account_info =
  pc_cloud :: string
  pc_account_id :: string
  pc_task_id :: string

record graph_database_access =
  g_workspace_id :: uuid
  g_server :: string
  g_username :: string
  g_password :: string
  g_database :: string

datatype collect_job =
    CollectJob uuid graph_database_access account_information "timedelta option" "timedelta option"
      \<comment> \<open>job id, database, account, defer by, retry failed for\<close>
  | PostCollectJob graph_database_access "post_collect_account_info list"

end
