(* ===== verification/Domain_Events.thy ===== *)
theory Domain_Events
  imports Product_Tier
begin

section \<open>Domain events\<close>

text \<open>
  The events of \<open>domain_events/events.py\<close> that the modelled services publish or consume, with the
  fields in the order of the source. The generated \<open>id\<close> and \<open>created_at\<close> of an event are left
  out: no modelled code reads them. A dictionary is a list of pairs in insertion order.
\<close>

datatype degradation_reason = Stack_deleted | Other

text \<open>The enumerations \<open>ReportSeverity\<close> and \<open>NotificationProvider\<close> of \<open>ids.py\<close>.\<close>

datatype report_severity = Severity_info | Severity_low | Severity_medium | Severity_high | Severity_critical

datatype notification_provider =
    Via_email | Via_slack | Via_discord | Via_pagerduty | Via_teams | Via_opsgenie

record collect_info =
  ci_account_id :: string
  ci_scanned_resources :: int
  ci_duration_seconds :: int
  ci_started_at :: datetime
  ci_task_id :: "string option"
  ci_errors :: "string list"

datatype domain_event =
    UserRegistered uuid string uuid
      \<comment> \<open>user id, email, tenant id\<close>
  | UserLoggedIn uuid string
      \<comment> \<open>user id, email\<close>
  | CloudAccountDiscovered string uuid uuid string
      \<comment> \<open>cloud, cloud account id, tenant id, account id\<close>
  | CloudAccountConfigured string uuid uuid string
  | CloudAccountDeleted string uuid uuid uuid string
      \<comment> \<open>cloud, user id, cloud account id, tenant id, account id\<close>
  | CloudAccountDegraded string uuid uuid string "string option" string degradation_reason
      \<comment> \<open>cloud, cloud account id, tenant id, account id, account name, error, reason\<close>
  | CloudAccountNameChanged uuid uuid string string string "string option" "string option"
      \<comment> \<open>cloud account id, tenant id, cloud, account id, state, name, final name\<close>
  | CloudAccountActiveToggled uuid uuid string bool
      \<comment> \<open>tenant id, cloud account id, account id, enabled\<close>
  | CloudAccountScanToggled uuid uuid string bool bool
      \<comment> \<open>tenant id, cloud account id, account id, enabled, scan\<close>
  | TenantAccountsCollected uuid "(uuid \<times> collect_info) list" "(uuid \<times> collect_info) list" "datetime option"
      \<comment> \<open>tenant id, cloud accounts, failed cloud accounts, next run\<close>
  | TenantAccountsCollectFailed uuid "(uuid \<times> collect_info) list" "datetime option"
  | WorkspaceCreated uuid string string uuid
      \<comment> \<open>workspace id, name, slug, user id\<close>
  | InvitationAccepted uuid "uuid option" string
      \<comment> \<open>workspace id, user id, user email\<close>
  | UserJoinedWorkspace uuid uuid
      \<comment> \<open>workspace id, user id\<close>
  | ProductTierChanged uuid uuid product_tier bool bool product_tier
      \<comment> \<open>workspace id, user id, product tier, is paid, is higher, previous tier\<close>
  | SubscriptionCreated "uuid option" uuid uuid string
      \<comment> \<open>workspace id, user id, subscription id, method\<close>
  | SubscriptionCancelled uuid string
      \<comment> \<open>subscription id, method\<close>
  | FailingBenchmarkChecksAlertSend uuid string report_severity nat "notification_provider list"
      \<comment> \<open>workspace id, benchmark, severity, failed checks in total, channels\<close>
  | BillingEntryCreated uuid uuid product_tier int
      \<comment> \<open>tenant id, subscription id, product tier, usage\<close>
  | AlertNotificationSetupUpdated uuid uuid notification_provider
      \<comment> \<open>tenant id, user id, provider\<close>

text \<open>The kind of an event, by which the consumers dispatch.\<close>

fun event_kind :: "domain_event \<Rightarrow> string" where
  "event_kind (UserRegistered _ _ _) = ''user_registered''"
| "event_kind (UserLoggedIn _ _) = ''user_logged_in''"
| "event_kind (CloudAccountDiscovered _ _ _ _) = ''cloud_account_discovered''"
| "event_kind (CloudAccountConfigured _ _ _ _) = ''cloud_account_configured''"
| "event_kind (CloudAccountDeleted _ _ _ _ _) = ''cloud_account_deleted''"
| "event_kind (CloudAccountDegraded _ _ _ _ _ _ _) = ''aws_account_degraded''"
| "event_kind (CloudAccountNameChanged _ _ _ _ _ _ _) = ''cloud_account_name_changed''"
| "event_kind (CloudAccountActiveToggled _ _ _ _) = ''cloud_account_active_toggled''"
| "event_kind (CloudAccountScanToggled _ _ _ _ _) = ''cloud_account_scan_toggled''"
| "event_kind (TenantAccountsCollected _ _ _ _) = ''tenant_accounts_collected''"
| "event_kind (TenantAccountsCollectFailed _ _ _) = ''tenant_accounts_collect_failed''"
| "event_kind (WorkspaceCreated _ _ _ _) = ''workspace_created''"
| "event_kind (InvitationAccepted _ _ _) = ''workspace_invitation_accepted''"
| "event_kind (UserJoinedWorkspace _ _) = ''user_joined_workspace''"
| "event_kind (ProductTierChanged _ _ _ _ _ _) = ''product_tier_changed''"
| "event_kind (SubscriptionCreated _ _ _ _) = ''subscription_created''"
| "event_kind (SubscriptionCancelled _ _) = ''subscription_cancelled''"
| "event_kind (FailingBenchmarkChecksAlertSend _ _ _ _ _) = ''failing_benchmark_checks_alert_send''"
| "event_kind (BillingEntryCreated _ _ _ _) = ''billing_entry_created''"
| "event_kind (AlertNotificationSetupUpdated _ _ _) = ''alert_notification_setup_updated''"

text \<open>\<open>a | b\<close> on dictionaries: the keys of \<open>a\<close>, then the new keys of \<open>b\<close>; \<open>b\<close> wins.\<close>

definition dict_union :: "('k \<times> 'v) list \<Rightarrow> ('k \<times> 'v) list \<Rightarrow> ('k \<times> 'v) list" where
  "dict_union a b = fold (tput fst) b a"

lemma dict_union_Nil [simp]: "dict_union a [] = a"
  by (simp add: dict_union_def)

end
