(* ===== verification/Notification_Model.thy ===== *)
theory Notification_Model
  imports Domain_Events
begin

section \<open>Alerts\<close>

text \<open>
  \<open>notification/model.py\<close>: the alerting setting of a workspace per benchmark, and the alert that
  tells its channels which checks of a benchmark fail. The rows are those of
  \<open>notification_provider_config_repo.py\<close> and \<open>workspace_alert_config_repo.py\<close>. A configuration of
  a provider is a dictionary of strings and lists of strings.
\<close>

record alert_setting =
  as_severity :: report_severity
  as_channels :: "notification_provider list"

type_synonym alerts = "(string \<times> alert_setting) list"

record workspace_alert =
  wa_workspace_id :: uuid
  wa_alerts :: alerts

definition non_empty_alerts :: "workspace_alert \<Rightarrow> alerts" where
  "non_empty_alerts a = filter (\<lambda>(k, v). as_channels v \<noteq> []) (wa_alerts a)"

record vulnerable_resource =
  vr_id :: string
  vr_kind :: string
  vr_name :: "string option"
  vr_cloud :: "string option"
  vr_account :: "string option"
  vr_region :: "string option"
  vr_zone :: "string option"
  vr_ui_link :: string

record failed_check =
  fc_check_id :: string
  fc_title :: string
  fc_severity :: report_severity
  fc_failed_resources :: nat
  fc_examples :: "vulnerable_resource list"

record failing_checks_detected =
  fd_id :: string
  fd_workspace_id :: uuid
  fd_benchmark :: string
  fd_severity :: report_severity
  fd_failed_checks_count_total :: nat
  fd_examples :: "failed_check list"
  fd_ui_link :: string

datatype config_value = Config_str string | Config_list "string list"

type_synonym provider_config = "(string \<times> config_value) list"

record provider_config_row =
  pc_workspace_id :: uuid
  pc_provider :: notification_provider
  pc_name :: string
  pc_config :: provider_config

end
