(* ===== verification/World.thy ===== *)
theory World
  imports Cloud_Account_Model Workspace_Model Billing_Model Collect_Model Notification_Model
begin

section \<open>The state of the backend\<close>

text \<open>
  One record holds what the services share: the tables of the relational database in insertion
  order, the Redis hashes of the dispatcher, the job queue, and the logs of what was published
  or sent (domain events, pub/sub messages, e-mails, analytics events), newest last. A service
  method is a program over this record.

  The clock stands still while one handler runs: every \<open>utc()\<close> of it reads \<open>clock\<close>. A fresh
  \<open>uuid4\<close> is the next number of the supply \<open>next_uuid\<close>.
\<close>

record next_run_row =
  n_tenant_id :: uuid
  n_at :: datetime

record role_row =
  rr_user_id :: uuid
  rr_workspace_id :: uuid
  rr_role_names :: int

record stripe_customer_row =
  sc_workspace_id :: uuid
  sc_customer_id :: string
  sc_desired_product_tier :: "string option"

record aws_tier_preference_row =
  ap_workspace_id :: uuid
  ap_desired_product_tier :: "string option"

text \<open>
  The Redis entries of one workspace: the hash of progress values, the hash from job to cloud
  account, and when the two keys expire. The key from job to workspace is a plain value.
\<close>

record progress_hash =
  ph_workspace_id :: uuid
  ph_entries :: "(uuid \<times> account_collect_progress) list"
  ph_expires_at :: datetime

record jobs_hash =
  jh_workspace_id :: uuid
  jh_entries :: "(uuid \<times> uuid) list"
  jh_expires_at :: datetime

record job_key =
  jk_job_id :: uuid
  jk_workspace_id :: uuid
  jk_expires_at :: datetime

datatype email_message =
    SecurityScanFinished
  | AccountDegraded string string uuid string "string option" bool
      \<comment> \<open>cloud, cloud account id, tenant id, workspace name, account name, stack deleted\<close>
  | Invite string uuid string
      \<comment> \<open>inviter, invitation named by the link, recipient\<close>
  | VerifyEmail string
      \<comment> \<open>recipient\<close>
  | PlainEmail string string "string option"
      \<comment> \<open>subject, text, HTML text\<close>
  | ListEmail string string string string
      \<comment> \<open>subject, text, HTML text, setting that unsubscribes\<close>
  | Signup string
      \<comment> \<open>recipient\<close>
  | TrialExpiresSoon nat
      \<comment> \<open>days\<close>
  | TrialExpired
  | UserJoinedWorkspaceMail uuid uuid
      \<comment> \<open>user, workspace\<close>

datatype mail =
    MailToWorkspace uuid email_message
  | MailTo string email_message

text \<open>
  \<open>analytics/events.py\<close>: the user first, then the workspace and the other fields; the generated id and
  the time are left out.
\<close>

datatype analytics_event =
    AEUserRegistered uuid uuid string
  | AEAccountDiscovered uuid uuid string
  | AEAccountConfigured uuid uuid string
  | AEAccountDeleted uuid uuid string
  | AEAccountDegraded uuid uuid string string
  | AEAccountNameChanged uuid uuid string
  | AEFirstWorkspaceCollectFinished uuid uuid
  | AEWorkspaceCollectFinished uuid uuid nat int
      \<comment> \<open>user id, workspace id, accounts, scanned resources\<close>
  | AEFirstAccountCollectFinished uuid uuid
  | AEWorkspaceCreated uuid uuid string string
  | AEInvitationAccepted uuid uuid
  | AEUserJoinedWorkspace uuid uuid
  | AEProductTierChanged uuid uuid product_tier
  | AESubscriptionCreated uuid uuid string
  | AEUserLoggedIn uuid
  | AEFailingBenchmarkChecksAlertSend uuid uuid string nat
  | AEBillingEntryCreated uuid uuid product_tier int
  | AEAlertNotificationSetupUpdated uuid uuid notification_provider

text \<open>What is sent back to CloudFormation when a stack event has been handled.\<close>

record cf_response =
  rs_url :: string
  rs_status :: string
  rs_reason :: string
  rs_logical_resource_id :: string
  rs_physical_resource_id :: string
  rs_stack_id :: string
  rs_request_id :: string
  rs_role_name :: string

text \<open>
  Credentials, tokens, e-mails to send and the buckets of the rate limiter: one record for the rows
  of each table.
\<close>

record gcp_key_row =
  gk_id :: uuid
  gk_tenant_id :: uuid
  gk_value :: string
  gk_can_access_sa :: "bool option"
  gk_error :: "string option"
  gk_created_at :: datetime
  gk_updated_at :: datetime

record azure_credential_row =
  az_id :: uuid
  az_tenant_id :: uuid
  az_azure_tenant_id :: string
  az_client_id :: string
  az_client_secret :: string
  az_can_access :: "bool option"
  az_created_at :: datetime
  az_updated_at :: datetime

record api_token_row =
  tk_id :: uuid
  tk_name :: string
  tk_hash :: string
  tk_user_id :: uuid
  tk_workspace_id :: "uuid option"
  tk_permission :: "int option"
  tk_created_at :: datetime
  tk_updated_at :: datetime
  tk_last_used_at :: "datetime option"

record one_time_email_row =
  ot_id :: uuid
  ot_kind :: string
  ot_user_id :: "uuid option"
  ot_workspace_id :: "uuid option"
  ot_subject :: string
  ot_text_content :: string
  ot_html_content :: "string option"
  ot_scheduled_at :: datetime
  ot_sent_at :: "datetime option"

record notification_settings_row =
  ns_user_id :: uuid
  ns_weekly_report :: bool
  ns_inactivity_reminder :: bool
  ns_tutorial :: bool
  ns_marketing :: bool

record scheduled_email_row =
  sch_id :: uuid
  sch_kind :: string
  sch_after :: int

record email_sent_row =
  es_id :: uuid
  es_user_id :: uuid
  es_kind :: string
  es_at :: datetime

record oauth_account_row =
  oa_id :: uuid
  oa_user_id :: uuid
  oa_oauth_name :: string
  oa_access_token :: string
  oa_expires_at :: "int option"
  oa_refresh_token :: "string option"
  oa_account_id :: string
  oa_account_email :: string
  oa_username :: "string option"

record recovery_code_row =
  rc_user_id :: uuid
  rc_code_hash :: string

text \<open>The columns \<open>last_login\<close> and \<open>last_active\<close> of a user, which are not part of the user model.\<close>

record login_row =
  lg_user_id :: uuid
  lg_last_login :: "datetime option"
  lg_last_active :: "datetime option"

record rate_bucket =
  rb_key :: string
  rb_tokens :: int
  rb_expires_at :: "datetime option"

text \<open>What was reported to the AWS Marketplace, and the calls that changed something at Stripe.\<close>

record usage_record =
  us_customer_identifier :: string
  us_dimension :: string
  us_quantity :: int
  us_timestamp :: datetime

datatype stripe_call =
    StripeCreateCustomer uuid string
      \<comment> \<open>workspace id, e-mail address\<close>
  | StripeCreateSubscription string string datetime
      \<comment> \<open>customer, payment method, billing cycle anchor\<close>
  | StripeUsageRecord string string int
      \<comment> \<open>subscription, price, quantity\<close>
  | StripeRefund string
      \<comment> \<open>payment intent\<close>
  | StripeUpdateCustomer string "string option" "string option"
      \<comment> \<open>customer, name, tax exemption\<close>

text \<open>The calls that change something in an Azure tenant.\<close>

datatype azure_call =
    AzureCreateApplication string
      \<comment> \<open>display name\<close>
  | AzureAddPassword string datetime
      \<comment> \<open>application, end date\<close>
  | AzureCreateServicePrincipal string
      \<comment> \<open>application id\<close>
  | AzureCreateRoleAssignment string string string
      \<comment> \<open>principal, scope, role definition\<close>

text \<open>
  What the inventory service asks the graph database of a workspace to change, and its own deferred work.
\<close>

datatype inventory_call =
    InvDeleteAccount uuid string string
      \<comment> \<open>workspace, cloud, account id\<close>
  | InvUpdateName uuid string string
      \<comment> \<open>workspace, node, name\<close>
  | InvCreateDatabase uuid
  | InvKeepHistory uuid int
      \<comment> \<open>workspace, days\<close>
  | InvIgnoreAccounts uuid "string list"
  | InvEvictCache uuid
  | InvUpdateNameAgain domain_event timedelta

record world =
  clock :: datetime
  next_uuid :: uuid
  accounts :: "account_row list"
  orgs :: "org_row list"
  members :: "(uuid \<times> uuid) list"
  role_rows :: "role_row list"
  invites :: "invite_row list"
  users :: "user list"
  trial_seen :: "trial_seen_row list"
  next_runs :: "next_run_row list"
  subscription_rows :: "subscription_row list"
  billing_rows :: "billing_row list"
  stripe_customers :: "stripe_customer_row list"
  aws_tier_preferences :: "aws_tier_preference_row list"
  metering :: "metering_record list"
  graph_access :: "graph_database_access list"
  gcp_keys :: "gcp_key_row list"
  azure_credentials :: "azure_credential_row list"
  api_tokens :: "api_token_row list"
  one_time_emails :: "one_time_email_row list"
  notification_settings :: "notification_settings_row list"
  scheduled_emails :: "scheduled_email_row list"
  emails_sent :: "email_sent_row list"
  oauth_accounts :: "oauth_account_row list"
  recovery_codes :: "recovery_code_row list"
  logins :: "login_row list"
  rate_buckets :: "rate_bucket list"
  progress :: "progress_hash list"
  jobs_in_progress :: "jobs_hash list"
  job_keys :: "job_key list"
  queue :: "collect_job list"
  events :: "domain_event list"
  pubsub :: "domain_event list"
  mails :: "mail list"
  analytics :: "analytics_event list"
  cf_responses :: "cf_response list"
  cf_failures :: nat
  usage_reports :: "(string \<times> usage_record list) list"
  stripe_calls :: "stripe_call list"
  azure_calls :: "azure_call list"
  provider_configs :: "provider_config_row list"
  alert_configs :: "workspace_alert list"
  alert_stream :: "(failing_checks_detected \<times> notification_provider) list"
  alerts_sent :: "(failing_checks_detected \<times> notification_provider \<times> string) list"
  inventory_calls :: "inventory_call list"

type_synonym 'a io = "(world, 'a) prog"

definition utc :: "datetime io" where
  "utc = gets clock"

definition uuid4 :: "uuid io" where
  "uuid4 w = (Inr (next_uuid w), w\<lparr>next_uuid := Suc (next_uuid w)\<rparr>)"

definition publish :: "domain_event \<Rightarrow> unit io" where
  "publish e = modify (\<lambda>w. w\<lparr>events := events w @ [e]\<rparr>)"

definition send_pub_sub_message :: "domain_event \<Rightarrow> unit io" where
  "send_pub_sub_message e = modify (\<lambda>w. w\<lparr>pubsub := pubsub w @ [e]\<rparr>)"

definition send_mail :: "mail \<Rightarrow> unit io" where
  "send_mail m = modify (\<lambda>w. w\<lparr>mails := mails w @ [m]\<rparr>)"

definition send_analytics :: "analytics_event \<Rightarrow> unit io" where
  "send_analytics e = modify (\<lambda>w. w\<lparr>analytics := analytics w @ [e]\<rparr>)"

definition enqueue :: "collect_job \<Rightarrow> unit io" where
  "enqueue j = modify (\<lambda>w. w\<lparr>queue := queue w @ [j]\<rparr>)"

lemma utc_run [simp]: "utc w = (Inr (clock w), w)"
  by (simp add: utc_def)

lemma uuid4_run [simp]: "uuid4 w = (Inr (next_uuid w), w\<lparr>next_uuid := Suc (next_uuid w)\<rparr>)"
  by (simp add: uuid4_def)

lemma publish_run [simp]: "publish e w = (Inr (), w\<lparr>events := events w @ [e]\<rparr>)"
  by (simp add: publish_def)

lemma send_pub_sub_message_run [simp]:
  "send_pub_sub_message e w = (Inr (), w\<lparr>pubsub := pubsub w @ [e]\<rparr>)"
  by (simp add: send_pub_sub_message_def)

lemma send_mail_run [simp]: "send_mail m w = (Inr (), w\<lparr>mails := mails w @ [m]\<rparr>)"
  by (simp add: send_mail_def)

lemma send_analytics_run [simp]: "send_analytics e w = (Inr (), w\<lparr>analytics := analytics w @ [e]\<rparr>)"
  by (simp add: send_analytics_def)

lemma enqueue_run [simp]: "enqueue j w = (Inr (), w\<lparr>queue := queue w @ [j]\<rparr>)"
  by (simp add: enqueue_def)

text \<open>The effects that touch no table preserve every predicate that ignores the logs.\<close>

lemma preserves_utc [pres, simp]: "preserves I utc"
  by (simp add: preserves_def)

lemma preserves_publish [pres]:
  "(\<And>w es. I w \<Longrightarrow> I (w\<lparr>events := es\<rparr>)) \<Longrightarrow> preserves I (publish e)"
  by (simp add: preserves_def)

lemma preserves_pubsub [pres]:
  "(\<And>w es. I w \<Longrightarrow> I (w\<lparr>pubsub := es\<rparr>)) \<Longrightarrow> preserves I (send_pub_sub_message e)"
  by (simp add: preserves_def)

lemma preserves_mail [pres]:
  "(\<And>w es. I w \<Longrightarrow> I (w\<lparr>mails := es\<rparr>)) \<Longrightarrow> preserves I (send_mail e)"
  by (simp add: preserves_def)

lemma preserves_analytics [pres]:
  "(\<And>w es. I w \<Longrightarrow> I (w\<lparr>analytics := es\<rparr>)) \<Longrightarrow> preserves I (send_analytics e)"
  by (simp add: preserves_def)

lemma preserves_enqueue [pres]:
  "(\<And>w es. I w \<Longrightarrow> I (w\<lparr>queue := es\<rparr>)) \<Longrightarrow> preserves I (enqueue e)"
  by (simp add: preserves_def)

lemma preserves_uuid4 [pres]:
  "(\<And>w n. I w \<Longrightarrow> I (w\<lparr>next_uuid := n\<rparr>)) \<Longrightarrow> preserves I uuid4"
  by (simp add: preserves_def)

text \<open>A backend without data, the starting point of the concrete examples.\<close>

definition empty_world :: "datetime \<Rightarrow> uuid \<Rightarrow> world" where
  "empty_world now u =
     \<lparr>clock = now, next_uuid = u, accounts = [], orgs = [], members = [], role_rows = [],
      invites = [], users = [], trial_seen = [], next_runs = [], subscription_rows = [],
      billing_rows = [], stripe_customers = [], aws_tier_preferences = [], metering = [],
      graph_access = [], gcp_keys = [], azure_credentials = [], api_tokens = [],
      one_time_emails = [], notification_settings = [], scheduled_emails = [], emails_sent = [],
      oauth_accounts = [], recovery_codes = [], logins = [], rate_buckets = [], progress = [],
      jobs_in_progress = [], job_keys = [], queue = [], events = [], pubsub = [], mails = [],
      analytics = [], cf_responses = [], cf_failures = 0, usage_reports = [], stripe_calls = [],
      azure_calls = [], provider_configs = [], alert_configs = [], alert_stream = [], alerts_sent = [],
      inventory_calls = []\<rparr>"

subsection \<open>The tables as lenses\<close>

interpretation account_table: db_table accounts "\<lambda>rs w. w\<lparr>accounts := rs\<rparr>" r_id
  by unfold_locales simp_all

interpretation org_table: db_table orgs "\<lambda>rs w. w\<lparr>orgs := rs\<rparr>" o_id
  by unfold_locales simp_all

interpretation next_run_table: db_table next_runs "\<lambda>rs w. w\<lparr>next_runs := rs\<rparr>" n_tenant_id
  by unfold_locales simp_all

interpretation subscription_table: db_table subscription_rows "\<lambda>rs w. w\<lparr>subscription_rows := rs\<rparr>" s_id
  by unfold_locales simp_all

interpretation billing_table: db_table billing_rows "\<lambda>rs w. w\<lparr>billing_rows := rs\<rparr>" b_id
  by unfold_locales simp_all

interpretation invite_table: db_table invites "\<lambda>rs w. w\<lparr>invites := rs\<rparr>" i_id
  by unfold_locales simp_all

interpretation role_table: db_table role_rows "\<lambda>rs w. w\<lparr>role_rows := rs\<rparr>"
  "\<lambda>r. (rr_user_id r, rr_workspace_id r)"
  by unfold_locales simp_all

interpretation progress_table: db_table progress "\<lambda>rs w. w\<lparr>progress := rs\<rparr>" ph_workspace_id
  by unfold_locales simp_all

end
