(* ===== verification/Role_Repository.thy ===== *)
theory Role_Repository
  imports World
begin

section \<open>Role assignments\<close>

text \<open>
  \<open>permissions/role_repository.py\<close> and the two endpoints of \<open>permissions/router.py\<close>. A user has at
  most one row per workspace (a uniqueness constraint); adding roles sets bits in it, removing
  roles clears them, and the row stays when no role is left.
\<close>

unbundle bit_operations_syntax

definition role_key :: "role_row \<Rightarrow> uuid \<times> uuid" where
  "role_key r = (rr_user_id r, rr_workspace_id r)"

definition role_to_model :: "role_row \<Rightarrow> user_role" where
  "role_to_model r =
     \<lparr>ur_user_id = rr_user_id r, ur_workspace_id = rr_workspace_id r, role_names = rr_role_names r\<rparr>"

definition list_roles :: "uuid \<Rightarrow> user_role list io" where
  "list_roles user_id =
     gets (\<lambda>w. map role_to_model (filter (\<lambda>r. rr_user_id r = user_id) (role_rows w)))"

definition list_roles_by_workspace_id :: "uuid \<Rightarrow> user_role list io" where
  "list_roles_by_workspace_id workspace_id =
     gets (\<lambda>w. map role_to_model (filter (\<lambda>r. rr_workspace_id r = workspace_id) (role_rows w)))"

definition add_roles :: "uuid \<Rightarrow> uuid \<Rightarrow> roles \<Rightarrow> bool \<Rightarrow> user_role io" where
  "add_roles user_id workspace_id roles replace_existing =
     bind (gets (\<lambda>w. tfind role_key (user_id, workspace_id) (role_rows w))) (\<lambda>existing.
     let row = (case existing of
         Some old \<Rightarrow>
           (let new_roles = (if replace_existing then roles else rr_role_names old OR roles)
            in old\<lparr>rr_role_names := new_roles\<rparr>)
       | None \<Rightarrow> \<lparr>rr_user_id = user_id, rr_workspace_id = workspace_id, rr_role_names = roles\<rparr>)
     in bind (modify (\<lambda>w. w\<lparr>role_rows := tput role_key row (role_rows w)\<rparr>)) (\<lambda>_.
        ret (role_to_model row)))"

definition remove_roles :: "uuid \<Rightarrow> uuid \<Rightarrow> roles \<Rightarrow> unit io" where
  "remove_roles user_id workspace_id roles =
     bind (gets (\<lambda>w. tfind role_key (user_id, workspace_id) (role_rows w))) (\<lambda>maybe_entity.
     case maybe_entity of None \<Rightarrow> ret ()
     | Some old \<Rightarrow>
         (let row = old\<lparr>rr_role_names := rr_role_names old AND NOT roles\<rparr>
          in modify (\<lambda>w. w\<lparr>role_rows := tput role_key row (role_rows w)\<rparr>)))"

text \<open>\<open>GET /{workspace_id}/roles\<close>: users of the workspace without a row are listed first, without roles.\<close>

definition list_roles_endpoint :: "workspace \<Rightarrow> user_roles_read list io" where
  "list_roles_endpoint ws =
     bind (list_roles_by_workspace_id (ws_id ws)) (\<lambda>roles.
     let users_with_roles = map ur_user_id roles;
         users_without_roles = filter (\<lambda>u. u \<notin> set users_with_roles) (all_users ws);
         no_assigned_roles = map (\<lambda>u. \<lparr>ur_user_id = u, ur_workspace_id = ws_id ws, role_names = 0\<rparr>)
           users_without_roles;
         only_workspace_roles = filter (\<lambda>r. ur_workspace_id r = ws_id ws) (no_assigned_roles @ roles)
     in ret (map roles_read_from_model only_workspace_roles))"

text \<open>\<open>PUT /{workspace_id}/roles/{user_id}\<close>, behind the permission \<open>update_roles\<close>.\<close>

definition update_user_role :: "workspace \<Rightarrow> user_roles_update \<Rightarrow> user \<Rightarrow> user_roles_read io" where
  "update_user_role ws update u =
     bind (lift (check_permission (perm ''update_roles'') u (ws_id ws))) (\<lambda>_.
     if up_user_id update = u_id u then raise (NotAllowed ''You cannot change your own role'')
     else let model = roles_update_to_model update (ws_id ws)
          in bind (add_roles (ur_user_id model) (ws_id ws) (role_names model) True) (\<lambda>role.
             ret (roles_read_from_model role)))"

subsection \<open>The roles of one user in one workspace\<close>

definition roles_of :: "uuid \<Rightarrow> uuid \<Rightarrow> world \<Rightarrow> roles" where
  "roles_of u ws w = (case tfind role_key (u, ws) (role_rows w) of None \<Rightarrow> 0 | Some r \<Rightarrow> rr_role_names r)"

lemma add_roles_run:
  "\<exists>row. add_roles u ws roles repl w =
      (Inr (role_to_model row), w\<lparr>role_rows := tput role_key row (role_rows w)\<rparr>) \<and>
    role_key row = (u, ws) \<and>
    rr_role_names row = (if repl then roles else roles_of u ws w OR roles)"
proof (cases "tfind role_key (u, ws) (role_rows w)")
  case None
  then show ?thesis
    by (intro exI [of _ "\<lparr>rr_user_id = u, rr_workspace_id = ws, rr_role_names = roles\<rparr>"])
      (simp add: add_roles_def run_defs roles_of_def role_key_def Let_def)
next
  case (Some old)
  then have "role_key old = (u, ws)" by (auto dest: tfind_Some)
  with Some show ?thesis
    by (intro exI [of _ "old\<lparr>rr_role_names := (if repl then roles else rr_role_names old OR roles)\<rparr>"])
      (simp add: add_roles_def run_defs roles_of_def role_key_def Let_def)
qed

lemma roles_of_add:
  "roles_of u ws (snd (add_roles u ws roles repl w)) = (if repl then roles else roles_of u ws w OR roles)"
proof -
  obtain row where "snd (add_roles u ws roles repl w) = w\<lparr>role_rows := tput role_key row (role_rows w)\<rparr>"
    "role_key row = (u, ws)" "rr_role_names row = (if repl then roles else roles_of u ws w OR roles)"
    using add_roles_run [of u ws roles repl w] by auto
  moreover from this have "tfind role_key (u, ws) (tput role_key row (role_rows w)) = Some row"
    by (metis tfind_tput_same)
  ultimately show ?thesis by (simp add: roles_of_def [of u ws "w\<lparr>role_rows := _\<rparr>"])
qed

lemma roles_of_add_other:
  assumes "(u', ws') \<noteq> (u, ws)"
  shows "roles_of u' ws' (snd (add_roles u ws roles repl w)) = roles_of u' ws' w"
proof -
  obtain row where "snd (add_roles u ws roles repl w) = w\<lparr>role_rows := tput role_key row (role_rows w)\<rparr>"
    "role_key row = (u, ws)"
    using add_roles_run [of u ws roles repl w] by auto
  with assms show ?thesis by (simp add: roles_of_def)
qed

lemma roles_of_remove:
  "roles_of u ws (snd (remove_roles u ws roles w)) = roles_of u ws w AND NOT roles"
proof (cases "tfind role_key (u, ws) (role_rows w)")
  case None
  then show ?thesis by (simp add: remove_roles_def run_defs roles_of_def)
next
  case (Some old)
  let ?row = "old\<lparr>rr_role_names := rr_role_names old AND NOT roles\<rparr>"
  have "role_key ?row = (u, ws)" using Some by (auto simp: role_key_def dest!: tfind_Some)
  then have "tfind role_key (u, ws) (tput role_key ?row (role_rows w)) = Some ?row"
    by (metis tfind_tput_same)
  with Some show ?thesis by (simp add: remove_roles_def run_defs roles_of_def Let_def)
qed

lemma roles_of_remove_other:
  assumes "(u', ws') \<noteq> (u, ws)"
  shows "roles_of u' ws' (snd (remove_roles u ws r w)) = roles_of u' ws' w"
proof (cases "tfind role_key (u, ws) (role_rows w)")
  case (Some old)
  then have "role_key (old\<lparr>rr_role_names := x\<rparr>) = (u, ws)" for x by (auto simp: role_key_def dest!: tfind_Some)
  with Some assms show ?thesis by (simp add: remove_roles_def run_defs roles_of_def Let_def)
qed (simp add: remove_roles_def run_defs)

lemma roles_frame:
  "snd (add_roles u ws r repl w) = w\<lparr>role_rows := role_rows (snd (add_roles u ws r repl w))\<rparr>"
  "snd (remove_roles u ws r w) = w\<lparr>role_rows := role_rows (snd (remove_roles u ws r w))\<rparr>"
  by (simp_all add: add_roles_def remove_roles_def run_defs Let_def split: option.split)

text \<open>
  C36: Adding and removing roles work bit by bit: an added role set is united with (or, when asked,
  replaces) the stored one, a removed one is subtracted from it, and removing what was just added to a
  user without those roles restores the stored set. Neither adding nor removing touches the roles of another user or of
  the same user in another workspace, or anything but the role assignments.
\<close>

theorem roles_bitwise:
  "roles_of u ws (snd (add_roles u ws r False w)) = roles_of u ws w OR r \<and>
   roles_of u ws (snd (add_roles u ws r True w)) = r \<and>
   roles_of u ws (snd (remove_roles u ws r w)) = roles_of u ws w AND NOT r \<and>
   roles_of u ws (snd (remove_roles u ws r (snd (add_roles u ws r False w)))) = roles_of u ws w AND NOT r \<and>
   ((u', ws') = (u, ws) \<or>
     roles_of u' ws' (snd (add_roles u ws r repl w)) = roles_of u' ws' w \<and>
     roles_of u' ws' (snd (remove_roles u ws r w)) = roles_of u' ws' w) \<and>
   snd (add_roles u ws r repl w) = w\<lparr>role_rows := role_rows (snd (add_roles u ws r repl w))\<rparr> \<and>
   snd (remove_roles u ws r w) = w\<lparr>role_rows := role_rows (snd (remove_roles u ws r w))\<rparr>"
proof -
  have "(roles_of u ws w OR r) AND NOT r = roles_of u ws w AND NOT r"
    by (simp add: bit_eq_iff [of "_ AND _"] bit_simps) blast
  then show ?thesis
    using roles_of_add_other [of u' ws' u ws r repl w] roles_of_remove_other [of u' ws' u ws r w]
    by (intro conjI roles_frame) (simp_all add: roles_of_add roles_of_remove, blast)
qed

text \<open>
  Nobody changes a role without the permission to update roles, and nobody changes their own:
  the endpoint then raises and leaves the world as it was; otherwise exactly the flags of the
  request are stored and read back.
\<close>

theorem update_user_role_guarded:
  "update_user_role ws upd u w =
     (case validate_workspace_permissions u (ws_id ws) (perm ''update_roles'') of
        Some msg \<Rightarrow> (Inl (HTTPException 403 msg), w)
      | None \<Rightarrow>
          if up_user_id upd = u_id u then (Inl (NotAllowed ''You cannot change your own role''), w)
          else (Inr \<lparr>rd_user_id = up_user_id upd, rd_workspace_id = ws_id ws, rd_member = up_member upd,
                     rd_admin = up_admin upd, rd_owner = up_owner upd,
                     rd_billing_admin = up_billing_admin upd\<rparr>,
                snd (add_roles (up_user_id upd) (ws_id ws)
                  (role_names (roles_update_to_model upd (ws_id ws))) True w)))"
proof -
  have id: "ur_user_id (roles_update_to_model upd (ws_id ws)) = up_user_id upd"
    by (simp add: roles_update_to_model_def Let_def)
  let ?m = "roles_update_to_model upd (ws_id ws)"
  obtain row where row: "add_roles (up_user_id upd) (ws_id ws) (role_names ?m) True w =
      (Inr (role_to_model row), w\<lparr>role_rows := tput role_key row (role_rows w)\<rparr>)"
    "role_key row = (up_user_id upd, ws_id ws)" "rr_role_names row = role_names ?m"
    using add_roles_run [of "up_user_id upd" "ws_id ws" "role_names ?m" True w] by auto
  then have "role_to_model row = ?m"
    by (simp add: role_to_model_def role_key_def roles_update_to_model_def Let_def)
  with row show ?thesis
    by (simp add: update_user_role_def check_permission_def run_defs id Let_def
        roles_read_of_update_eq split: option.splits)
qed

end
