(* ===== verification/Workspace_Repository.thy ===== *)
theory Workspace_Repository
  imports Role_Repository
begin

section \<open>The workspace repository\<close>

text \<open>
  \<open>workspaces/repository.py\<close>. The members of a workspace are the rows of \<open>organization_members\<close>,
  loaded with the organization. \<open>update_org\<close> is the pattern shared by the methods that load one
  organization, change fields, commit and return the model.
\<close>

definition members_of :: "uuid \<Rightarrow> world \<Rightarrow> uuid list" where
  "members_of i w = map snd (filter (\<lambda>m. fst m = i) (members w))"

definition load_org :: "org_row \<Rightarrow> workspace io" where
  "load_org r w = lift (org_to_model (members_of (o_id r) w) None r) w"

definition get_workspace :: "uuid \<Rightarrow> workspace option io" where
  "get_workspace workspace_id =
     bind (gets (\<lambda>w. tfind o_id workspace_id (orgs w))) (\<lambda>org.
     case org of None \<Rightarrow> ret None
     | Some r \<Rightarrow> bind (load_org r) (\<lambda>ws. ret (Some ws)))"

text \<open>
  Load, change, commit, return; the change may raise before anything is written. \<open>updated_at\<close> keeps its value:
  the \<open>server_onupdate\<close> of \<open>base_model.py\<close> only tells SQLAlchemy that the server changes the column, PostgreSQL
  knows no \<open>ON UPDATE\<close> for a column and no migration creates a trigger.
\<close>

definition update_org :: "uuid \<Rightarrow> (org_row \<Rightarrow> exn + org_row) \<Rightarrow> workspace io" where
  "update_org workspace_id f =
     bind (gets (\<lambda>w. tfind o_id workspace_id (orgs w))) (\<lambda>org.
     case org of None \<Rightarrow> raise ResourceNotFound
     | Some r \<Rightarrow>
         bind (lift (f r)) (\<lambda>r'.
         bind (modify (\<lambda>w. w\<lparr>orgs := tput o_id r' (orgs w)\<rparr>)) (\<lambda>_.
         load_org r')))"

text \<open>
  \<open>create_workspace\<close>. The database access object comes from \<open>create_database_access\<close>, whose
  server list, hash and password are configuration and randomness: the parameter \<open>db_access\<close>.
  Adding the owner's role commits the session, before the event is published.
\<close>

definition insert_org :: "org_row \<Rightarrow> unit io" where
  "insert_org r w =
     (if \<exists>o'\<in>set (orgs w). o_id o' = o_id r \<or> o_slug o' = o_slug r then (Inl IntegrityError, w)
      else (Inr (), w\<lparr>orgs := orgs w @ [r]\<rparr>))"

definition create_workspace ::
  "(uuid \<Rightarrow> exn + graph_database_access) \<Rightarrow> string \<Rightarrow> string \<Rightarrow> user \<Rightarrow> workspace io" where
  "create_workspace db_access name slug owner =
     bind uuid4 (\<lambda>workspace_id.
     bind (gets (\<lambda>w. find (\<lambda>r. o_slug r = slug) (orgs w))) (\<lambda>slug_exists.
     let slug' = (if slug_exists \<noteq> None then slug @ ''-'' @ uuid_str workspace_id else slug) in
     bind uuid4 (\<lambda>external_id.
     bind utc (\<lambda>now.
     let organization = \<lparr>o_id = workspace_id, o_slug = slug', o_name = name, o_external_id = external_id,
           o_owner_id = u_id owner, o_tier = tier_value Trial, o_subscription_id = None,
           o_payment_on_hold_since = None, o_created_at = now, o_updated_at = now,
           o_highest_current_cycle_tier = None, o_current_cycle_ends_at = None,
           o_tier_updated_at = Some now\<rparr> in
     bind (lift (db_access workspace_id)) (\<lambda>access.
     bind (insert_org organization) (\<lambda>_.
     bind (modify (\<lambda>w. w\<lparr>members := members w @ [(workspace_id, u_id owner)],
             graph_access := graph_access w @ [access]\<rparr>)) (\<lambda>_.
     bind (add_roles (u_id owner) workspace_id workspace_owner False) (\<lambda>_.
     bind (publish (WorkspaceCreated workspace_id name slug' (u_id owner))) (\<lambda>_.
     load_org organization)))))))))"

definition update_workspace :: "uuid \<Rightarrow> string \<Rightarrow> bool \<Rightarrow> workspace io" where
  "update_workspace workspace_id name generate_external_id =
     bind (gets (\<lambda>w. tfind o_id workspace_id (orgs w))) (\<lambda>org.
     case org of None \<Rightarrow> raise ResourceNotFound
     | Some _ \<Rightarrow>
         if generate_external_id
         then bind uuid4 (\<lambda>e. update_org workspace_id (\<lambda>r. Inr (r\<lparr>o_name := name, o_external_id := e\<rparr>)))
         else update_org workspace_id (\<lambda>r. Inr (r\<lparr>o_name := name\<rparr>)))"

definition seen_times :: "uuid \<Rightarrow> uuid \<Rightarrow> world \<Rightarrow> datetime option list" where
  "seen_times ws user w =
     (case filter (\<lambda>t. t_workspace_id t = ws \<and> t_user_id t = user) (trial_seen w) of
        [] \<Rightarrow> [None] | ts \<Rightarrow> map (Some \<circ> t_created_at) ts)"

definition list_workspaces :: "user \<Rightarrow> bool \<Rightarrow> workspace list io" where
  "list_workspaces user can_assign_subscriptions =
     bind (gets (\<lambda>w. concat (map (\<lambda>r. map (\<lambda>t. (r, t)) (seen_times (o_id r) (u_id user) w))
             (filter (\<lambda>r. o_owner_id r = u_id user \<or> u_id user \<in> set (members_of (o_id r) w)) (orgs w))))) (\<lambda>entities.
     bind (\<lambda>w. lift (traverse (\<lambda>(r, t). org_to_model (members_of (o_id r) w) t r) (remdups entities)) w) (\<lambda>workspaces.
     if can_assign_subscriptions
     then ret (filter (\<lambda>ws. validate_workspace_permissions user (ws_id ws) (perm ''update_billing'') = None) workspaces)
     else ret workspaces))"

definition load_orgs :: "(org_row \<Rightarrow> bool) \<Rightarrow> workspace list io" where
  "load_orgs P w = lift (traverse (\<lambda>r. org_to_model (members_of (o_id r) w) None r) (filter P (orgs w))) w"

definition list_workspaces_by_subscription_id :: "uuid \<Rightarrow> workspace list io" where
  "list_workspaces_by_subscription_id subscription_id =
     load_orgs (\<lambda>r. o_subscription_id r = Some subscription_id)"

definition update_subscription :: "uuid \<Rightarrow> uuid option \<Rightarrow> workspace io" where
  "update_subscription workspace_id subscription_id =
     update_org workspace_id (\<lambda>r. Inr (r\<lparr>o_subscription_id := subscription_id\<rparr>))"

definition add_to_workspace :: "uuid \<Rightarrow> uuid \<Rightarrow> roles \<Rightarrow> unit io" where
  "add_to_workspace workspace_id user_id role =
     bind (gets (\<lambda>w. (workspace_id, user_id) \<in> set (members w))) (\<lambda>existing_membership.
     if existing_membership then ret ()
     else
       bind (modify (\<lambda>w. w\<lparr>members := members w @ [(workspace_id, user_id)]\<rparr>)) (\<lambda>_.
       bind (add_roles user_id workspace_id role False) (\<lambda>_.
       let event = UserJoinedWorkspace workspace_id user_id in
       bind (publish event) (\<lambda>_.
       send_pub_sub_message event))))"

definition remove_from_workspace :: "uuid \<Rightarrow> uuid \<Rightarrow> unit io" where
  "remove_from_workspace workspace_id user_id =
     bind (gets (\<lambda>w. (workspace_id, user_id) \<in> set (members w))) (\<lambda>membership.
     if \<not> membership then ret ()
     else modify (\<lambda>w. w\<lparr>members := filter (\<lambda>m. m \<noteq> (workspace_id, user_id)) (members w)\<rparr>))"

definition get_product_tier :: "uuid \<Rightarrow> product_tier io" where
  "get_product_tier workspace_id =
     bind (get_workspace workspace_id) (\<lambda>workspace.
     case workspace of None \<Rightarrow> raise ResourceNotFound
     | Some ws \<Rightarrow> bind utc (\<lambda>now. ret (current_product_tier now ws)))"

text \<open>The change that \<open>update_product_tier\<close> makes to the row.\<close>

definition change_tier :: "datetime \<Rightarrow> product_tier \<Rightarrow> org_row \<Rightarrow> exn + org_row" where
  "change_tier now new_tier r =
     (if o_subscription_id r = None \<and> paid new_tier
      then Inl (NotAllowed ''Workspace must have a subscription to change the security tier'')
      else
        (case tier_from_str (if str_true (o_highest_current_cycle_tier r)
                             then the (o_highest_current_cycle_tier r) else tier_value Free) of
           Inl e \<Rightarrow> Inl e
         | Inr active_tier \<Rightarrow>
             (let r1 = r\<lparr>o_tier := tier_value new_tier\<rparr>;
                  r2 = (if o_highest_current_cycle_tier r = None \<or> active_tier < new_tier
                        then r1\<lparr>o_current_cycle_ends_at := Some (last_billing_cycle_instant now)\<rparr>
                        else r1)
              in Inr (r2\<lparr>o_highest_current_cycle_tier := Some (tier_value (max active_tier new_tier)),
                         o_tier_updated_at := Some now\<rparr>))))"

definition update_product_tier :: "uuid \<Rightarrow> product_tier \<Rightarrow> workspace io" where
  "update_product_tier workspace_id new_tier =
     bind utc (\<lambda>now. update_org workspace_id (change_tier now new_tier))"

definition update_payment_on_hold :: "uuid \<Rightarrow> datetime option \<Rightarrow> workspace io" where
  "update_payment_on_hold workspace_id on_hold_since =
     update_org workspace_id (\<lambda>r. Inr (r\<lparr>o_payment_on_hold_since := on_hold_since\<rparr>))"

definition list_by_on_hold :: "datetime \<Rightarrow> workspace list io" where
  "list_by_on_hold before =
     load_orgs (\<lambda>r. case o_payment_on_hold_since r of None \<Rightarrow> False | Some t \<Rightarrow> t < before)"

definition list_expired_trials :: "timedelta \<Rightarrow> workspace list io" where
  "list_expired_trials been_in_trial_tier_for =
     bind utc (\<lambda>now.
     load_orgs (\<lambda>r. o_tier r = tier_value Trial \<and> o_created_at r < now - been_in_trial_tier_for))"

definition ack_move_to_free :: "uuid \<Rightarrow> uuid \<Rightarrow> workspace io" where
  "ack_move_to_free workspace_id user_id =
     bind (get_workspace workspace_id) (\<lambda>workspace_entity.
     case workspace_entity of None \<Rightarrow> raise ResourceNotFound
     | Some workspace \<Rightarrow>
         bind utc (\<lambda>now.
         if user_id \<notin> set (all_users workspace) then raise (NotAllowed ''user_not_in_workspace'')
         else if current_product_tier now workspace \<noteq> Free then raise (NotAllowed ''wrong_tier'')
         else
           bind (gets (\<lambda>w. filter (\<lambda>t. t_workspace_id t = workspace_id \<and> t_user_id t = user_id) (trial_seen w))) (\<lambda>status.
           case status of
             t # _ # _ \<Rightarrow> raise MultipleResultsFound
           | [t] \<Rightarrow> ret (workspace\<lparr>ws_move_to_free_acknowledged_at := Some (t_created_at t)\<rparr>)
           | [] \<Rightarrow>
               bind (modify (\<lambda>w. w\<lparr>trial_seen := trial_seen w @
                  [\<lparr>t_workspace_id = workspace_id, t_user_id = user_id, t_created_at = now\<rparr>]\<rparr>)) (\<lambda>_.
               ret (workspace\<lparr>ws_move_to_free_acknowledged_at := Some now\<rparr>)))))"

definition list_overdue_free_tier_cleanup :: "timedelta \<Rightarrow> timedelta \<Rightarrow> workspace list io" where
  "list_overdue_free_tier_cleanup been_in_free_tier_for window =
     bind utc (\<lambda>now.
     load_orgs (\<lambda>r. o_tier r = tier_value Free \<and>
       (case o_tier_updated_at r of None \<Rightarrow> False
        | Some t \<Rightarrow> t < now - been_in_free_tier_for \<and> now - been_in_free_tier_for - window < t)))"

subsection \<open>Running the readers and writers\<close>

lemma load_org_run [simp]:
  "load_org r w = (org_to_model (members_of (o_id r) w) None r, w)"
  by (simp add: load_org_def)

lemma load_orgs_same: "snd (load_orgs P w) = w"
  by (simp add: load_orgs_def)

lemma get_workspace_run:
  "get_workspace i w =
     (case tfind o_id i (orgs w) of None \<Rightarrow> (Inr None, w)
      | Some r \<Rightarrow> (case org_to_model (members_of i w) None r of
          Inl e \<Rightarrow> (Inl e, w) | Inr ws \<Rightarrow> (Inr (Some ws), w)))"
  by (auto simp: get_workspace_def run_defs dest: tfind_Some split: option.splits sum.splits)

lemma get_workspace_same: "snd (get_workspace i w) = w"
  by (simp add: get_workspace_run split: option.splits sum.splits)

lemma preserves_get_workspace [pres, simp]: "preserves I (get_workspace i)"
  by (simp add: preserves_def get_workspace_same)

lemma preserves_load_orgs [pres, simp]: "preserves I (load_orgs P)"
  by (simp add: preserves_def load_orgs_same)

lemma preserves_load_org [pres, simp]: "preserves I (load_org r)"
  by (simp add: preserves_def)

lemma preserves_list_by_subscription [pres, simp]: "preserves I (list_workspaces_by_subscription_id i)"
  by (simp add: list_workspaces_by_subscription_id_def)

lemma preserves_get_product_tier [pres, simp]: "preserves I (get_product_tier i)"
  unfolding get_product_tier_def by (intro pres)

lemma preserves_update_org [pres]:
  "(\<And>w os. I w \<Longrightarrow> I (w\<lparr>orgs := os\<rparr>)) \<Longrightarrow> preserves I (update_org i f)"
  unfolding update_org_def by (intro pres) auto

lemma preserves_org_writers [pres]:
  assumes "\<And>w os. I w \<Longrightarrow> I (w\<lparr>orgs := os\<rparr>)"
  shows "preserves I (update_subscription i s)" "preserves I (update_payment_on_hold i h)"
    "preserves I (update_product_tier i t)"
  unfolding update_subscription_def update_payment_on_hold_def update_product_tier_def
  by (intro pres assms; assumption)+

lemma update_org_run:
  assumes "tfind o_id i (orgs w) = Some r"
  shows "update_org i f w =
    (case f r of Inl e \<Rightarrow> (Inl e, w)
     | Inr r' \<Rightarrow> (org_to_model (members_of (o_id r') w) None r', w\<lparr>orgs := tput o_id r' (orgs w)\<rparr>))"
  using assms by (simp add: update_org_def run_defs members_of_def split: sum.splits)

lemma update_org_missing:
  "tfind o_id i (orgs w) = None \<Longrightarrow> update_org i f w = (Inl ResourceNotFound, w)"
  by (simp add: update_org_def run_defs)

subsection \<open>Product tiers and the billing cycle\<close>

lemma change_tier_Inr:
  assumes "change_tier now t r = Inr r'"
  shows "o_id r' = o_id r" "o_tier r' = tier_value t" "o_subscription_id r' = o_subscription_id r"
    "paid t \<Longrightarrow> o_subscription_id r \<noteq> None"
  using assms by (auto simp: change_tier_def Let_def split: if_splits sum.splits)

text \<open>
  A paid tier needs a subscription: asking for one without raises and changes nothing, so a
  workspace whose row names a paid tier after the call had a subscription at the time.
\<close>

theorem paid_tier_needs_subscription:
  assumes "tfind o_id i (orgs w) = Some r" and "o_subscription_id r = None" and "paid t"
  shows "update_product_tier i t w =
    (Inl (NotAllowed ''Workspace must have a subscription to change the security tier''), w)"
  using assms by (simp add: update_product_tier_def run_defs update_org_run change_tier_def)

definition sample_org :: org_row where
  "sample_org = \<lparr>o_id = 7, o_slug = ''acme'', o_name = ''Acme'', o_external_id = 9, o_owner_id = 1,
     o_tier = ''Free'', o_subscription_id = None, o_payment_on_hold_since = None, o_created_at = 0,
     o_updated_at = 0, o_highest_current_cycle_tier = None, o_current_cycle_ends_at = None,
     o_tier_updated_at = Some 0\<rparr>"

lemma paid_tier_needs_subscription_witness:
  "update_product_tier 7 Plus ((empty_world 0 50)\<lparr>orgs := [sample_org]\<rparr>) =
    (Inl (NotAllowed ''Workspace must have a subscription to change the security tier''),
     (empty_world 0 50)\<lparr>orgs := [sample_org]\<rparr>)"
  by (rule paid_tier_needs_subscription [where r = sample_org])
    (simp_all add: empty_world_def sample_org_def)

text \<open>
  C5: Inside a billing cycle a workspace never drops below the highest tier it had in that cycle:
  while the recorded cycle has not ended, changing to any tier leaves the workspace at the larger
  of the recorded and the new tier, until the instant the cycle ends.
\<close>

theorem tier_held_during_cycle:
  assumes row: "tfind o_id i (orgs w) = Some r"
    and high: "o_highest_current_cycle_tier r = Some (tier_value h)"
    and ends: "o_current_cycle_ends_at r = Some e"
    and cal: "0 \<le> day_number (clock w)"
    and ok: "update_product_tier i t w = (Inr ws, w')"
    and now: "now < e" "now < last_billing_cycle_instant (clock w)"
  shows "current_product_tier now ws = max h t"
proof -
  have nonempty: "str_true (o_highest_current_cycle_tier r)" using high by (cases h) simp_all
  obtain r' where r': "change_tier (clock w) t r = Inr r'"
    "org_to_model (members_of (o_id r') w) None r' = Inr ws"
    using ok row by (auto simp: update_product_tier_def run_defs update_org_run split: sum.splits)
  then have ends': "o_current_cycle_ends_at r' = Some (if h < t then last_billing_cycle_instant (clock w) else e)"
    and high': "o_highest_current_cycle_tier r' = Some (tier_value (max h t))"
    and tier': "o_tier r' = tier_value t"
    using high ends nonempty by (auto simp: change_tier_def Let_def split: if_splits)
  have ne: "tier_value x \<noteq> []" for x by (cases x) simp_all
  from r'(2) have "ws_highest_current_cycle_tier ws = Some (max h t)" "ws_selected_product_tier ws = t"
    "ws_current_cycle_ends_at ws = o_current_cycle_ends_at r'"
    by (auto simp: org_to_model_def high' tier' ne)
  then show ?thesis using now by (simp add: current_product_tier_def ends' max_def)
qed

lemma tier_held_during_cycle_witness:
  "let w = (empty_world 0 50)\<lparr>orgs := [sample_org\<lparr>o_subscription_id := Some 3,
         o_highest_current_cycle_tier := Some ''Business'', o_current_cycle_ends_at := Some 1000\<rparr>]\<rparr>
   in \<exists>ws w'. update_product_tier 7 Free w = (Inr ws, w') \<and> current_product_tier 5 ws = Business"
proof -
  let ?r = "sample_org\<lparr>o_subscription_id := Some 3, o_highest_current_cycle_tier := Some ''Business'',
    o_current_cycle_ends_at := Some 1000\<rparr>"
  let ?w = "(empty_world 0 50)\<lparr>orgs := [?r]\<rparr>"
  have cal: "(5::int) < last_billing_cycle_instant 0"
    by (simp add: last_billing_cycle_instant_def mk_datetime_def dt_year_def dt_month_def year_of_day_def
        day_number_def day_length_def epoch_day_def year_from.simps days_before_year_def
        month_from.simps days_before_month_unfold [of _ "numeral _"] days_in_month_def is_leap_def)
  have mx: "max Business Free = Business" "\<not> Business < Free"
      "tier_from_str ''Business'' = Inr Business" "tier_from_str ''Free'' = Inr Free"
    by (simp_all add: max_def tier_order tier_from_str_def)
  obtain ws w' where run: "update_product_tier 7 Free ?w = (Inr ws, w')"
    by (cases "update_product_tier 7 Free ?w")
      (auto simp: update_product_tier_def run_defs update_org_run change_tier_def Let_def empty_world_def
        sample_org_def org_to_model_def mx split: sum.splits)
  have "current_product_tier 5 ws = max Business Free"
    by (rule tier_held_during_cycle [OF _ _ _ _ run, where r = ?r and e = 1000])
      (use cal in \<open>simp_all add: empty_world_def sample_org_def day_number_def day_length_def epoch_day_def\<close>)
  with run show ?thesis by (simp add: Let_def mx)
qed

text \<open>
  The billing cycle is not restarted once its highest tier is stale: with a recorded highest
  tier at or above the new one, a tier change keeps the old end of the cycle, so when that has
  passed the workspace is at once on whatever tier was selected last, in the middle of a month.
\<close>

theorem stale_cycle_not_restarted:
  assumes row: "tfind o_id i (orgs w) = Some r"
    and high: "o_highest_current_cycle_tier r = Some (tier_value h)" "t \<le> h"
    and ends: "o_current_cycle_ends_at r = Some e" "e \<le> now"
    and ok: "update_product_tier i t w = (Inr ws, w')"
  shows "ws_current_cycle_ends_at ws = Some e \<and> current_product_tier now ws = t"
proof -
  have nonempty: "str_true (o_highest_current_cycle_tier r)" using high by (cases h) simp_all
  obtain r' where r': "change_tier (clock w) t r = Inr r'"
    "org_to_model (members_of (o_id r') w) None r' = Inr ws"
    using ok row by (auto simp: update_product_tier_def run_defs update_org_run split: sum.splits)
  then have ends': "o_current_cycle_ends_at r' = Some e" and tier': "o_tier r' = tier_value t"
    using high ends nonempty by (auto simp: change_tier_def Let_def split: if_splits)
  from org_to_model_fields [OF r'(2)] tier'
  have "ws_current_cycle_ends_at ws = Some e" "ws_selected_product_tier ws = t"
    by (simp_all add: ends')
  then show ?thesis using ends(2) by (simp add: current_product_tier_def)
qed

lemma stale_cycle_not_restarted_witness:
  "let w = (empty_world 5000 50)\<lparr>orgs := [sample_org\<lparr>o_subscription_id := Some 3,
         o_highest_current_cycle_tier := Some ''Enterprise'', o_current_cycle_ends_at := Some 1000\<rparr>]\<rparr>
   in \<exists>ws w'. update_product_tier 7 Business w = (Inr ws, w') \<and>
        ws_current_cycle_ends_at ws = Some 1000 \<and> current_product_tier 5000 ws = Business"
proof -
  let ?r = "sample_org\<lparr>o_subscription_id := Some 3, o_highest_current_cycle_tier := Some ''Enterprise'',
    o_current_cycle_ends_at := Some 1000\<rparr>"
  let ?w = "(empty_world 5000 50)\<lparr>orgs := [?r]\<rparr>"
  have mx: "max Enterprise Business = Enterprise" "\<not> Enterprise < Business"
      "tier_from_str ''Enterprise'' = Inr Enterprise" "tier_from_str ''Business'' = Inr Business"
    by (simp_all add: max_def tier_order tier_from_str_def)
  obtain ws w' where run: "update_product_tier 7 Business ?w = (Inr ws, w')"
    by (cases "update_product_tier 7 Business ?w")
      (auto simp: update_product_tier_def run_defs update_org_run change_tier_def Let_def empty_world_def
        sample_org_def org_to_model_def mx split: sum.splits)
  have "ws_current_cycle_ends_at ws = Some 1000 \<and> current_product_tier 5000 ws = Business"
    by (rule stale_cycle_not_restarted [OF _ _ _ _ _ run, where r = ?r and h = Enterprise])
      (simp_all add: empty_world_def sample_org_def tier_order)
  with run show ?thesis by (simp add: Let_def)
qed

subsection \<open>Members and their roles\<close>

text \<open>
  Removing a member leaves the role assignment behind: the user is no member any more, but
  keeps every role bit, and being added again with any role gives back the old roles united with
  the new one.
\<close>

theorem rejoin_restores_roles:
  "let w1 = snd (remove_from_workspace ws u w); w2 = snd (add_to_workspace ws u role w1) in
   (ws, u) \<notin> set (members w1) \<and> roles_of u ws w1 = roles_of u ws w \<and>
   (ws, u) \<in> set (members w2) \<and> roles_of u ws w2 = roles_of u ws w OR role"
proof -
  let ?w1 = "snd (remove_from_workspace ws u w)"
  have w1: "(ws, u) \<notin> set (members ?w1)" "role_rows ?w1 = role_rows w"
    by (auto simp: remove_from_workspace_def run_defs)
  let ?m = "?w1\<lparr>members := members ?w1 @ [(ws, u)]\<rparr>"
  obtain row where row: "add_roles u ws role False ?m =
      (Inr (role_to_model row), ?m\<lparr>role_rows := tput role_key row (role_rows ?m)\<rparr>)"
    using add_roles_run [of u ws role False ?m] by blast
  have "roles_of u ws (snd (add_roles u ws role False ?m)) = roles_of u ws w OR role"
    using w1(2) by (simp add: roles_of_add) (simp add: roles_of_def)
  with row w1 show ?thesis
    by (simp add: Let_def add_to_workspace_def run_defs) (simp add: roles_of_def)
qed

text \<open>
  Joining is idempotent and announced once: adding a member who is already in the workspace
  changes nothing and publishes nothing; adding somebody else appends the membership and publishes
  exactly one event, on the stream and on the workspace's channel.
\<close>

theorem add_member_idempotent:
  "add_to_workspace ws u role w =
     (if (ws, u) \<in> set (members w) then (Inr (), w)
      else (Inr (), (snd (add_roles u ws role False (w\<lparr>members := members w @ [(ws, u)]\<rparr>)))
        \<lparr>events := events w @ [UserJoinedWorkspace ws u], pubsub := pubsub w @ [UserJoinedWorkspace ws u]\<rparr>))"
proof -
  let ?m = "w\<lparr>members := members w @ [(ws, u)]\<rparr>"
  obtain row where "add_roles u ws role False ?m =
      (Inr (role_to_model row), ?m\<lparr>role_rows := tput role_key row (role_rows ?m)\<rparr>)"
    using add_roles_run [of u ws role False ?m] by blast
  then show ?thesis by (simp add: add_to_workspace_def run_defs Let_def)
qed

end
