(* ===== verification/Next_Run.thy ===== *)
theory Next_Run
  imports World
begin

section \<open>The schedule of the next collect run\<close>

text \<open>
  \<open>dispatcher/next_run_repository.py\<close>: one row per tenant with the instant of its next run.
\<close>

definition next_run_create :: "uuid \<Rightarrow> datetime \<Rightarrow> unit io" where
  "next_run_create workspace_id next_run w =
     (case tfind n_tenant_id workspace_id (next_runs w) of
        Some _ \<Rightarrow> (Inl IntegrityError, w)
      | None \<Rightarrow> (Inr (), w\<lparr>next_runs := next_runs w @ [\<lparr>n_tenant_id = workspace_id, n_at = next_run\<rparr>]\<rparr>))"

definition next_run_get :: "uuid \<Rightarrow> datetime option io" where
  "next_run_get workspace_id = gets (\<lambda>w. map_option n_at (tfind n_tenant_id workspace_id (next_runs w)))"

definition next_run_for :: "datetime \<Rightarrow> product_tier \<Rightarrow> datetime option \<Rightarrow> datetime" where
  "next_run_for now product_tier last_run =
     (let delta = scan_interval (product_tier_settings product_tier);
          initial_time = (case last_run of Some t \<Rightarrow> t | None \<Rightarrow> now);
          diff = now - initial_time
      in if 0 < diff
         then (let periods = diff div delta + 1 in initial_time + delta * periods)
         else initial_time + delta)"

definition update_next_run_at :: "uuid \<Rightarrow> datetime \<Rightarrow> unit io" where
  "update_next_run_at workspace_id next_run =
     modify (\<lambda>w. case tfind n_tenant_id workspace_id (next_runs w) of
       None \<Rightarrow> w
     | Some nxt \<Rightarrow> w\<lparr>next_runs := tput n_tenant_id (nxt\<lparr>n_at := next_run\<rparr>) (next_runs w)\<rparr>)"

definition update_next_run_for :: "uuid \<Rightarrow> product_tier \<Rightarrow> datetime option \<Rightarrow> datetime io" where
  "update_next_run_for tenant product_tier last_run =
     bind utc (\<lambda>now.
     let result = next_run_for now product_tier last_run in
     bind (update_next_run_at tenant result) (\<lambda>_.
     ret result))"

definition next_run_delete :: "uuid \<Rightarrow> unit io" where
  "next_run_delete workspace_id =
     modify (\<lambda>w. w\<lparr>next_runs := tdel n_tenant_id workspace_id (next_runs w)\<rparr>)"

definition older_than :: "datetime \<Rightarrow> (uuid \<times> datetime) list io" where
  "older_than at =
     gets (\<lambda>w. map (\<lambda>r. (n_tenant_id r, n_at r)) (filter (\<lambda>r. n_at r < at) (next_runs w)))"

subsection \<open>The next run\<close>

lemma next_run_on_grid:
  "let at = next_run_for now tier last_run;
       delta = scan_interval (product_tier_settings tier);
       initial = (case last_run of Some t \<Rightarrow> t | None \<Rightarrow> now)
   in now < at \<and> at \<le> max now initial + delta \<and> (at - initial) mod delta = 0"
proof -
  let ?d = "scan_interval (product_tier_settings tier)"
  let ?i = "case last_run of Some t \<Rightarrow> t | None \<Rightarrow> now"
  note pos = scan_interval_pos [of tier]
  show ?thesis
  proof (cases "0 < now - ?i")
    case True
    let ?q = "(now - ?i) div ?d"
    have at: "next_run_for now tier last_run = ?i + ?d * (?q + 1)"
      using True by (simp add: next_run_for_def Let_def)
    have m: "now - ?i = ?d * ?q + (now - ?i) mod ?d" by simp
    have "0 \<le> (now - ?i) mod ?d" "(now - ?i) mod ?d < ?d" using pos by simp_all
    with m have "?i + ?d * ?q \<le> now" "now < ?i + ?d * ?q + ?d" by linarith+
    then show ?thesis unfolding Let_def at using True by (auto simp: algebra_simps)
  next
    case False
    then have "next_run_for now tier last_run = ?i + ?d" by (simp add: next_run_for_def Let_def)
    with False pos show ?thesis by (simp add: Let_def)
  qed
qed

text \<open>
  C10: The next run of a tenant always lies in the future and at most one scan interval away from
  the later of the last run and now, and it stays on the grid of the last run: the two differ by
  a whole number of scan intervals.
\<close>

theorem next_run_in_future:
  "let at = next_run_for now tier last_run;
       delta = scan_interval (product_tier_settings tier);
       initial = (case last_run of Some t \<Rightarrow> t | None \<Rightarrow> now)
   in now < at \<and> at \<le> max now initial + delta \<and> (at - initial) mod delta = 0"
  by (rule next_run_on_grid)

lemma next_run_example: "next_run_for 10000000000 Trial (Some 0) = 10800000000"
  by (simp add: next_run_for_def trial_setting_def td_defs)

text \<open>Running the three writers.\<close>

lemma update_next_run_for_run:
  "update_next_run_for t tier lr w =
     (Inr (next_run_for (clock w) tier lr),
      snd (update_next_run_at t (next_run_for (clock w) tier lr) w))"
  by (simp add: update_next_run_for_def update_next_run_at_def Let_def bind_def)

lemma next_run_get_after_update:
  "tfind n_tenant_id t (next_runs (snd (update_next_run_at t at w))) =
     map_option (\<lambda>r. r\<lparr>n_at := at\<rparr>) (tfind n_tenant_id t (next_runs w))"
proof (cases "tfind n_tenant_id t (next_runs w)")
  case (Some r)
  then have "n_tenant_id (r\<lparr>n_at := at\<rparr>) = t" by (auto dest: tfind_Some)
  then have "tfind n_tenant_id t (tput n_tenant_id (r\<lparr>n_at := at\<rparr>) (next_runs w)) = Some (r\<lparr>n_at := at\<rparr>)"
    by (metis tfind_tput_same)
  with Some show ?thesis by (simp add: update_next_run_at_def)
qed (simp add: update_next_run_at_def)

text \<open>
  Once a tenant has a row in the schedule, updating its next run takes it out of the tenants
  that are due: the stored instant is later than the clock, whatever the last run was.
\<close>

theorem updated_run_not_due:
  assumes "tfind n_tenant_id t (next_runs w) \<noteq> None"
    and "distinct (map n_tenant_id (next_runs w))"
    and "(due, w'') = older_than (clock w) (snd (update_next_run_for t tier lr w))"
  shows "\<forall>at. due = Inr at \<longrightarrow> t \<notin> fst ` set at"
proof (intro allI impI)
  fix at assume at: "due = Inr at"
  let ?n = "next_run_for (clock w) tier lr"
  let ?w = "snd (update_next_run_at t ?n w)"
  obtain r where r: "tfind n_tenant_id t (next_runs w) = Some r" using assms(1) by blast
  have w: "snd (update_next_run_for t tier lr w) = ?w" by (simp add: update_next_run_for_run)
  have d: "distinct (map n_tenant_id (next_runs ?w))"
    using r assms(2) by (simp add: update_next_run_at_def distinct_tput)
  have n: "clock w < ?n" using next_run_on_grid [of "clock w" tier lr] by (simp add: Let_def)
  have "x \<in> set (next_runs ?w) \<Longrightarrow> n_tenant_id x = t \<Longrightarrow> n_at x = ?n" for x
    using tfind_in [OF d, of x] next_run_get_after_update [of t ?n w] r by auto
  moreover have "at = map (\<lambda>r. (n_tenant_id r, n_at r)) (filter (\<lambda>r. n_at r < clock w) (next_runs ?w))"
    using at assms(3) by (simp add: older_than_def w)
  ultimately show "t \<notin> fst ` set at" using n by fastforce
qed

lemma updated_run_not_due_witness:
  "let w = (empty_world 10 5)\<lparr>next_runs := [\<lparr>n_tenant_id = 1, n_at = 0\<rparr>]\<rparr>
   in \<forall>at. fst (older_than (clock w) (snd (update_next_run_for 1 Plus (Some 0) w))) = Inr at \<longrightarrow>
        1 \<notin> fst ` set at"
  unfolding Let_def
  by (rule updated_run_not_due [OF _ _ surjective_pairing [symmetric]])
    (simp_all add: empty_world_def)

lemma preserves_update_next_run_for [pres]:
  "(\<And>w rs. I w \<Longrightarrow> I (w\<lparr>next_runs := rs\<rparr>)) \<Longrightarrow> preserves I (update_next_run_for t tier lr)"
  by (auto simp: preserves_def update_next_run_for_run update_next_run_at_def split: option.splits)

lemma preserves_next_run_create [pres]:
  "(\<And>w rs. I w \<Longrightarrow> I (w\<lparr>next_runs := rs\<rparr>)) \<Longrightarrow> preserves I (next_run_create t at)"
  by (auto simp: preserves_def next_run_create_def split: option.splits)

end
