(* ===== verification/Cloud_Account_Repository.thy ===== *)
theory Cloud_Account_Repository
  imports Next_Run
begin

section \<open>The cloud account repository\<close>

text \<open>
  \<open>cloud_accounts/repository.py\<close>. Every method opens its own session, so each is one program over
  the table \<open>accounts\<close>. \<open>update\<close> applies a function to the stored account and writes the result
  back unless nothing changed; its retry on a concurrent write does not occur here, since a
  handler runs alone. A comparison of SQL with a null column is not true, so a row without a
  state is not listed as \<open>non_deleted\<close>.
\<close>

definition get_next_scan :: "uuid \<Rightarrow> datetime option io" where
  "get_next_scan workspace_id =
     gets (\<lambda>w. map_option n_at (tfind n_tenant_id workspace_id (next_runs w)))"

text \<open>\<open>session.add\<close> and \<open>commit\<close>, with the two uniqueness constraints of the table.\<close>

definition insert_account :: "account_row \<Rightarrow> unit io" where
  "insert_account row w =
     (if \<exists>r\<in>set (accounts w). r_id r = r_id row \<or>
           r_tenant_id r = r_tenant_id row \<and> r_account_id r = r_account_id row
      then (Inl IntegrityError, w)
      else (Inr (), w\<lparr>accounts := accounts w @ [row]\<rparr>))"

definition new_row :: "account \<Rightarrow> account_row" where
  "new_row a = update_state_dependent_fields
     \<lparr>r_id = ca_id a, r_tenant_id = ca_workspace_id a, r_cloud = ca_cloud a,
      r_account_id = ca_account_id a, r_aws_external_id = None, r_aws_role_name = None,
      r_gcp_service_account_key_id = None, r_azure_credential_id = None,
      r_privileged = ca_privileged a, r_user_account_name = ca_user_account_name a,
      r_api_account_name = ca_account_name a, r_api_account_alias = ca_account_alias a,
      r_is_configured = False, r_enabled = False, r_state = None, r_error = None,
      r_last_scan_duration_seconds = 0, r_last_scan_started_at = None,
      r_last_scan_resources_scanned = 0, r_last_scan_resources_errors = 0,
      r_created_at = ca_created_at a, r_updated_at = ca_updated_at a,
      r_state_updated_at = ca_state_updated_at a, r_cf_stack_version = ca_cf_stack_version a,
      r_scan = True, r_failed_scan_count = ca_failed_scan_count a, r_last_task_id = None,
      r_last_degraded_scan_started_at = ca_last_degraded_scan_started_at a\<rparr> (ca_state a)"

definition repo_create :: "account \<Rightarrow> account io" where
  "repo_create a =
     (if ca_cloud a \<notin> {''aws'', ''gcp'', ''azure''} then raise ValueError
      else bind (get_next_scan (ca_workspace_id a)) (\<lambda>next_scan.
           bind (insert_account (new_row a)) (\<lambda>_.
           lift (to_model next_scan (new_row a)))))"

definition repo_get :: "uuid \<Rightarrow> account option io" where
  "repo_get i =
     bind (gets (\<lambda>w. tfind r_id i (accounts w))) (\<lambda>row.
     case row of None \<Rightarrow> ret None
     | Some r \<Rightarrow>
         bind (get_next_scan (r_tenant_id r)) (\<lambda>next_scan.
         bind (lift (to_model next_scan r)) (\<lambda>a. ret (Some a))))"

definition repo_get_by_account_id :: "uuid \<Rightarrow> string \<Rightarrow> account option io" where
  "repo_get_by_account_id workspace_id account_id =
     bind (gets (\<lambda>w. find (\<lambda>r. r_tenant_id r = workspace_id \<and> r_account_id r = account_id) (accounts w))) (\<lambda>row.
     case row of None \<Rightarrow> ret None
     | Some r \<Rightarrow>
         bind (get_next_scan workspace_id) (\<lambda>next_scan.
         bind (lift (to_model next_scan r)) (\<lambda>a. ret (Some a))))"

definition repo_list :: "uuid list \<Rightarrow> account list io" where
  "repo_list ids =
     bind (gets (\<lambda>w. filter (\<lambda>r. r_id r \<in> set ids) (accounts w))) (\<lambda>rs.
     lift (traverse (to_model None) rs))"

text \<open>The fields \<open>update\<close> assigns on the stored row.\<close>

definition write_account :: "datetime \<Rightarrow> account \<Rightarrow> account_row \<Rightarrow> account_row" where
  "write_account now a r = update_state_dependent_fields
     (r\<lparr>r_tenant_id := ca_workspace_id a, r_cloud := ca_cloud a, r_account_id := ca_account_id a,
        r_api_account_name := ca_account_name a, r_api_account_alias := ca_account_alias a,
        r_user_account_name := ca_user_account_name a, r_privileged := ca_privileged a,
        r_last_scan_duration_seconds := ca_last_scan_duration_seconds a,
        r_last_scan_started_at := ca_last_scan_started_at a,
        r_last_scan_resources_scanned := ca_last_scan_resources_scanned a,
        r_created_at := ca_created_at a, r_updated_at := now,
        r_state_updated_at := ca_state_updated_at a, r_cf_stack_version := ca_cf_stack_version a,
        r_failed_scan_count := ca_failed_scan_count a, r_last_task_id := ca_last_task_id a,
        r_last_scan_resources_errors := ca_last_scan_resources_errors a,
        r_last_degraded_scan_started_at := ca_last_degraded_scan_started_at a\<rparr>) (ca_state a)"

text \<open>
  \<open>update(id, update_fn)\<close>. The function may raise; \<open>repo_update_with\<close> also returns a value the
  function computes on the way (a \<open>nonlocal\<close> variable of the caller).
\<close>

definition repo_update_with :: "uuid \<Rightarrow> (account \<Rightarrow> exn + (account \<times> 'x)) \<Rightarrow> (account \<times> 'x) io" where
  "repo_update_with i update_fn =
     bind (gets (\<lambda>w. tfind r_id i (accounts w))) (\<lambda>row.
     case row of None \<Rightarrow> raise ResourceNotFound
     | Some stored \<Rightarrow>
         bind (lift (to_model None stored)) (\<lambda>old.
         bind (lift (update_fn old)) (\<lambda>(a, x).
         if old = a then ret (a, x)
         else bind (get_next_scan (ca_workspace_id a)) (\<lambda>next_scan.
              bind utc (\<lambda>now.
              let stored' = write_account now a stored in
              bind (modify (\<lambda>w. w\<lparr>accounts := tput r_id stored' (accounts w)\<rparr>)) (\<lambda>_.
              bind (lift (to_model next_scan stored')) (\<lambda>b. ret (b, x))))))))"

definition repo_update :: "uuid \<Rightarrow> (account \<Rightarrow> exn + account) \<Rightarrow> account io" where
  "repo_update i update_fn =
     bind (repo_update_with i (\<lambda>a. case update_fn a of Inl e \<Rightarrow> Inl e | Inr b \<Rightarrow> Inr (b, ())))
       (\<lambda>(b, _). ret b)"

definition ready_row :: "account_row \<Rightarrow> bool" where
  "ready_row r \<longleftrightarrow> r_state r = Some ''configured'' \<and> r_enabled r"

definition non_deleted_row :: "account_row \<Rightarrow> bool" where
  "non_deleted_row r \<longleftrightarrow> (case r_state r of None \<Rightarrow> False | Some s \<Rightarrow> s \<noteq> ''deleted'')"

definition list_by_workspace_id :: "uuid \<Rightarrow> bool \<Rightarrow> bool \<Rightarrow> account list io" where
  "list_by_workspace_id workspace_id ready_for_collection non_deleted =
     bind (get_next_scan workspace_id) (\<lambda>next_scan.
     bind (gets (\<lambda>w. filter (\<lambda>r. r_tenant_id r = workspace_id \<and>
             (ready_for_collection \<longrightarrow> ready_row r) \<and> (non_deleted \<longrightarrow> non_deleted_row r)) (accounts w))) (\<lambda>rs.
     lift (traverse (to_model next_scan) rs)))"

definition count_by_workspace_id :: "uuid \<Rightarrow> bool \<Rightarrow> bool \<Rightarrow> nat io" where
  "count_by_workspace_id workspace_id ready_for_collection non_deleted =
     gets (\<lambda>w. length (filter (\<lambda>r. r_tenant_id r = workspace_id \<and>
       (ready_for_collection \<longrightarrow> ready_row r) \<and> (non_deleted \<longrightarrow> non_deleted_row r)) (accounts w)))"

definition list_all_discovered_accounts :: "account list io" where
  "list_all_discovered_accounts =
     bind (gets (\<lambda>w. filter (\<lambda>r. r_state r = Some ''discovered'') (accounts w))) (\<lambda>rs.
     lift (traverse (to_model None) rs))"

definition repo_delete :: "uuid \<Rightarrow> unit io" where
  "repo_delete i =
     bind (gets (\<lambda>w. tfind r_id i (accounts w))) (\<lambda>row.
     case row of None \<Rightarrow> raise ResourceNotFound
     | Some _ \<Rightarrow> modify (\<lambda>w. w\<lparr>accounts := tdel r_id i (accounts w)\<rparr>))"

definition list_non_hourly_failed_scans_accounts :: "datetime \<Rightarrow> account list io" where
  "list_non_hourly_failed_scans_accounts now =
     (let two_hours_from_now = now + td_hours 2 in
      bind (gets (\<lambda>w. filter (\<lambda>r. r_enabled r \<and> r_state r = Some ''configured'' \<and>
              0 < r_failed_scan_count r \<and>
              (case tfind n_tenant_id (r_tenant_id r) (next_runs w) of
                 None \<Rightarrow> False | Some n \<Rightarrow> two_hours_from_now < n_at n)) (accounts w))) (\<lambda>rs.
      lift (traverse (to_model None) rs)))"

text \<open>The argument \<open>workspace\<close> does not occur in the statement.\<close>

definition list_degraded_for_ping :: "uuid \<Rightarrow> datetime \<Rightarrow> account list io" where
  "list_degraded_for_ping workspace last_ping_before =
     bind (gets (\<lambda>w. filter (\<lambda>r. r_enabled r \<and> r_state r = Some ''degraded'' \<and>
             (case r_last_degraded_scan_started_at r of
                None \<Rightarrow> True | Some t \<Rightarrow> t < last_ping_before)) (accounts w))) (\<lambda>rs.
     lift (traverse (to_model None) rs))"

subsection \<open>What is stored can be read\<close>

lemma r_id_write [simp]: "r_id (write_account now a r) = r_id r"
  by (simp add: write_account_def update_state_dependent_fields_def Let_def)

lemma write_account_fields [simp]:
  "r_tenant_id (write_account now a r) = ca_workspace_id a"
  "r_cloud (write_account now a r) = ca_cloud a"
  "r_account_id (write_account now a r) = ca_account_id a"
  by (simp_all add: write_account_def update_state_dependent_fields_def Let_def)

lemma new_row_fields [simp]:
  "r_id (new_row a) = ca_id a" "r_tenant_id (new_row a) = ca_workspace_id a"
  "r_cloud (new_row a) = ca_cloud a" "r_account_id (new_row a) = ca_account_id a"
  by (simp_all add: new_row_def update_state_dependent_fields_def Let_def)

lemma row_state_new: "access_fits (ca_cloud a) (ca_state a) \<Longrightarrow> row_state (new_row a) = Inr (ca_state a)"
  unfolding new_row_def by (rule row_state_written) simp

lemma row_state_write:
  "access_fits (ca_cloud a) (ca_state a) \<Longrightarrow> row_state (write_account now a r) = Inr (ca_state a)"
  unfolding write_account_def by (rule row_state_written) simp

lemma readable_new: "access_fits (ca_cloud a) (ca_state a) \<Longrightarrow> readable (new_row a)"
  by (simp add: readable_def row_state_new)

lemma readable_write: "access_fits (ca_cloud a) (ca_state a) \<Longrightarrow> readable (write_account now a r)"
  by (simp add: readable_def row_state_write)

lemma read_written:
  assumes "access_fits (ca_cloud a) (ca_state a)" and "ca_id a = r_id r"
  shows "to_model next_scan (write_account now a r) =
    Inr (a\<lparr>ca_updated_at := now, ca_next_scan := next_scan\<rparr>)"
  using row_state_write [OF assms(1), of now r] assms(2)
  by (simp add: to_model_def) (simp add: write_account_def update_state_dependent_fields_def Let_def)

text \<open>
  C17: What the repository writes it reads back: after an account is written over a stored row of
  the same id, reading the row gives the written account, but for the two fields the repository
  sets itself (the time of the update and the next scan), provided the access data belong to the
  account's cloud.
\<close>

theorem write_read_account:
  assumes "access_fits (ca_cloud a) (ca_state a)" and "ca_id a = r_id r"
  shows "to_model next_scan (write_account now a r) =
    Inr (a\<lparr>ca_updated_at := now, ca_next_scan := next_scan\<rparr>)"
  using assms by (rule read_written)

definition sample_row :: account_row where
  "sample_row = \<lparr>r_id = 1, r_tenant_id = 7, r_cloud = ''aws'', r_account_id = ''123456789012'',
     r_aws_external_id = Some 9, r_aws_role_name = Some ''role'', r_gcp_service_account_key_id = None,
     r_azure_credential_id = None, r_privileged = False, r_user_account_name = None,
     r_api_account_name = None, r_api_account_alias = None, r_is_configured = False, r_enabled = True,
     r_state = Some ''configured'', r_error = None, r_last_scan_duration_seconds = 0,
     r_last_scan_started_at = None, r_last_scan_resources_scanned = 0,
     r_last_scan_resources_errors = 0, r_created_at = 0, r_updated_at = 0, r_state_updated_at = 0,
     r_cf_stack_version = None, r_scan = True, r_failed_scan_count = 0, r_last_task_id = None,
     r_last_degraded_scan_started_at = None\<rparr>"

definition sample_account :: account where
  "sample_account = \<lparr>ca_id = 1, ca_account_id = ''123456789012'', ca_workspace_id = 7, ca_cloud = ''aws'',
     ca_state = Configured (AwsCloudAccess 9 ''role'') True True, ca_account_name = None,
     ca_account_alias = None, ca_user_account_name = None, ca_privileged = False, ca_next_scan = None,
     ca_last_scan_duration_seconds = 0, ca_last_scan_started_at = None,
     ca_last_scan_resources_scanned = 0, ca_last_scan_resources_errors = 0, ca_created_at = 0,
     ca_updated_at = 0, ca_state_updated_at = 0, ca_cf_stack_version = None,
     ca_failed_scan_count = 0, ca_last_task_id = None, ca_last_degraded_scan_started_at = None\<rparr>"

lemma sample_row_model: "to_model n sample_row = Inr (sample_account\<lparr>ca_next_scan := n\<rparr>)"
  by (simp add: sample_row_def sample_account_def to_model_def row_state_def row_access_def)

lemma write_read_account_witness:
  "to_model None (write_account 5 (sample_account\<lparr>ca_state := Deleted\<rparr>) sample_row) =
     Inr (sample_account\<lparr>ca_state := Deleted, ca_updated_at := 5, ca_next_scan := None\<rparr>)"
  using write_read_account [of "sample_account\<lparr>ca_state := Deleted\<rparr>" sample_row None 5]
  by (simp add: sample_account_def sample_row_def)

subsection \<open>The invariant of the table\<close>

text \<open>
  Ids are unique and come from the supply, an account occurs once per workspace, every row
  can be read, and the rows of AWS are those with an id in its format. \<open>acc_inv k\<close> also says, for \<open>k = Some (i, c)\<close>, that account \<open>i\<close> exists and is of
  cloud \<open>c\<close>, which no operation changes.
\<close>

definition has_cloud :: "uuid \<Rightarrow> string \<Rightarrow> world \<Rightarrow> bool" where
  "has_cloud i c w \<longleftrightarrow> (case tfind r_id i (accounts w) of None \<Rightarrow> False | Some r \<Rightarrow> r_cloud r = c)"

text \<open>AWS account ids are twelve digits; GCP project ids and Azure subscription ids are not.\<close>

definition aws_account_id :: "string \<Rightarrow> bool" where
  "aws_account_id s \<longleftrightarrow> length s = 12 \<and> list_all (\<lambda>c. c \<in> set ''0123456789'') s"

definition row_ok :: "uuid \<Rightarrow> account_row \<Rightarrow> bool" where
  "row_ok supply r \<longleftrightarrow> readable r \<and> r_id r < supply \<and>
     (r_cloud r = ''aws'' \<longleftrightarrow> aws_account_id (r_account_id r))"

lemma row_ok_readable: "row_ok n r \<Longrightarrow> readable r"
  by (simp add: row_ok_def)

lemma row_ok_mono: "row_ok n r \<Longrightarrow> n \<le> m \<Longrightarrow> row_ok m r"
  by (auto simp: row_ok_def)

definition accounts_ok :: "world \<Rightarrow> bool" where
  "accounts_ok w \<longleftrightarrow>
     distinct (map r_id (accounts w)) \<and>
     distinct (map (\<lambda>r. (r_tenant_id r, r_account_id r)) (accounts w)) \<and>
     (\<forall>r\<in>set (accounts w). row_ok (next_uuid w) r)"

definition acc_inv :: "(uuid \<times> string) option \<Rightarrow> world \<Rightarrow> bool" where
  "acc_inv k w \<longleftrightarrow> accounts_ok w \<and> (case k of None \<Rightarrow> True | Some (i, c) \<Rightarrow> has_cloud i c w)"

lemma acc_inv_ok: "acc_inv k w \<Longrightarrow> accounts_ok w"
  by (simp add: acc_inv_def)

lemma accounts_ok_readable: "accounts_ok w \<Longrightarrow> tfind r_id i (accounts w) = Some r \<Longrightarrow> readable r"
  by (auto simp: accounts_ok_def dest!: tfind_Some intro: row_ok_readable)

lemma acc_inv_None [simp]: "acc_inv None w = accounts_ok w"
  by (simp add: acc_inv_def)

lemma acc_inv_frame:
  "accounts w' = accounts w \<Longrightarrow> next_uuid w \<le> next_uuid w' \<Longrightarrow> acc_inv k w \<Longrightarrow> acc_inv k w'"
  by (auto simp: acc_inv_def accounts_ok_def has_cloud_def intro: row_ok_mono split: option.splits)

lemma acc_inv_simps [simp]:
  "acc_inv k (w\<lparr>events := es\<rparr>) = acc_inv k w" "acc_inv k (w\<lparr>pubsub := es\<rparr>) = acc_inv k w"
  "acc_inv k (w\<lparr>mails := ms\<rparr>) = acc_inv k w" "acc_inv k (w\<lparr>analytics := as\<rparr>) = acc_inv k w"
  "acc_inv k (w\<lparr>queue := q\<rparr>) = acc_inv k w" "acc_inv k (w\<lparr>next_runs := ns\<rparr>) = acc_inv k w"
  "acc_inv k (w\<lparr>orgs := os\<rparr>) = acc_inv k w" "acc_inv k (w\<lparr>progress := ps\<rparr>) = acc_inv k w"
  "acc_inv k (w\<lparr>metering := mr\<rparr>) = acc_inv k w" "acc_inv k (w\<lparr>clock := t\<rparr>) = acc_inv k w"
  "acc_inv k (w\<lparr>cf_responses := cr\<rparr>) = acc_inv k w" "acc_inv k (w\<lparr>cf_failures := cf\<rparr>) = acc_inv k w"
  "acc_inv k (w\<lparr>members := mb\<rparr>) = acc_inv k w" "acc_inv k (w\<lparr>role_rows := rr\<rparr>) = acc_inv k w"
  by (auto simp: acc_inv_def accounts_ok_def has_cloud_def split: option.splits)

lemma acc_inv_supply: "acc_inv k w \<Longrightarrow> acc_inv k (w\<lparr>next_uuid := Suc (next_uuid w)\<rparr>)"
  by (rule acc_inv_frame) simp_all

lemma preserves_acc_uuid4 [pres]: "preserves (acc_inv k) uuid4"
  by (simp add: preserves_def acc_inv_supply)

lemma preserves_get_next_scan [pres, simp]: "preserves I (get_next_scan t)"
  by (simp add: get_next_scan_def)

text \<open>The readers change nothing.\<close>

lemma get_next_scan_run [simp]:
  "get_next_scan t w = (Inr (map_option n_at (tfind n_tenant_id t (next_runs w))), w)"
  by (simp add: get_next_scan_def)

lemma repo_get_same: "snd (repo_get i w) = w"
  by (auto simp: repo_get_def run_defs split: option.splits sum.splits)

lemma repo_get_by_account_id_same: "snd (repo_get_by_account_id t i w) = w"
  by (auto simp: repo_get_by_account_id_def run_defs split: option.splits sum.splits)

lemma repo_list_same: "snd (repo_list ids w) = w"
  by (auto simp: repo_list_def run_defs split: sum.splits)

lemma list_by_workspace_id_same: "snd (list_by_workspace_id t a b w) = w"
  by (auto simp: list_by_workspace_id_def run_defs split: sum.splits)

lemma list_all_discovered_same: "snd (list_all_discovered_accounts w) = w"
  by (auto simp: list_all_discovered_accounts_def run_defs split: sum.splits)

lemma list_non_hourly_same: "snd (list_non_hourly_failed_scans_accounts t w) = w"
  by (auto simp: list_non_hourly_failed_scans_accounts_def run_defs Let_def split: sum.splits)

lemma list_degraded_same: "snd (list_degraded_for_ping t b w) = w"
  by (auto simp: list_degraded_for_ping_def run_defs split: sum.splits)

lemmas reader_same = repo_get_same repo_get_by_account_id_same repo_list_same
  list_by_workspace_id_same list_all_discovered_same list_non_hourly_same list_degraded_same

lemma preserves_readers [pres, simp]:
  "preserves I (repo_get i)" "preserves I (repo_get_by_account_id t j)" "preserves I (repo_list ids)"
  "preserves I (list_by_workspace_id t a b)" "preserves I list_all_discovered_accounts"
  "preserves I (list_non_hourly_failed_scans_accounts n)" "preserves I (list_degraded_for_ping t n)"
  "preserves I (count_by_workspace_id t a b)"
  by (simp_all add: preserves_def reader_same count_by_workspace_id_def)

lemma repo_get_ok:
  assumes "accounts_ok w"
  shows "repo_get i w =
    (case tfind r_id i (accounts w) of
       None \<Rightarrow> (Inr None, w)
     | Some r \<Rightarrow> (Inr (Some (projr (to_model (map_option n_at (tfind n_tenant_id (r_tenant_id r) (next_runs w))) r))), w))"
proof (cases "tfind r_id i (accounts w)")
  case (Some r)
  then have "readable r" using assms by (simp add: accounts_ok_readable)
  from readable_to_model [OF this] show ?thesis using Some
    by (auto simp: repo_get_def run_defs split: sum.splits)
      (metis sum.distinct(1) sum.sel(2) sum.inject(2))+
qed (simp add: repo_get_def run_defs)

lemma repo_get_Some:
  "repo_get i w = (Inr (Some a), w') \<Longrightarrow>
   w' = w \<and> (\<exists>r n. tfind r_id i (accounts w) = Some r \<and> to_model n r = Inr a)"
  by (auto simp: repo_get_def run_defs split: option.splits sum.splits)

text \<open>Creating an account with a fresh id keeps the invariant.\<close>

lemma insert_account_inv:
  assumes "acc_inv k w" "row_ok (next_uuid w) row"
  shows "acc_inv k (snd (insert_account row w))"
  using assms
  by (auto simp: insert_account_def acc_inv_def accounts_ok_def has_cloud_def tfind_append
      split: option.splits)

lemma repo_create_inv:
  assumes "access_fits (ca_cloud a) (ca_state a)" and "ca_cloud a = ''aws'' \<longleftrightarrow> aws_account_id (ca_account_id a)"
  shows "acc_inv k w \<Longrightarrow> ca_id a < next_uuid w \<Longrightarrow> acc_inv k (snd (repo_create a w))"
  using insert_account_inv [of k w "new_row a"] readable_new [OF assms(1)] assms(2)
  by (auto simp: row_ok_def repo_create_def run_defs split: sum.splits prod.splits)

subsection \<open>Updating an account\<close>

text \<open>The account as it is stored, without the schedule of its tenant.\<close>

definition stored :: "uuid \<Rightarrow> world \<Rightarrow> account option" where
  "stored i w = (case tfind r_id i (accounts w) of None \<Rightarrow> None
     | Some r \<Rightarrow> (case to_model None r of Inl _ \<Rightarrow> None | Inr a \<Rightarrow> Some a))"

definition save :: "account \<Rightarrow> account_row \<Rightarrow> world \<Rightarrow> world" where
  "save a r w = w\<lparr>accounts := tput r_id (write_account (clock w) a r) (accounts w)\<rparr>"

definition next_scan_of :: "uuid \<Rightarrow> world \<Rightarrow> datetime option" where
  "next_scan_of t w = map_option n_at (tfind n_tenant_id t (next_runs w))"

text \<open>
  An update is good for an account of cloud \<open>c\<close> when it leaves the account's identity, its
  workspace and its cloud alone and the new state's access data fit the cloud.
\<close>

definition same_account :: "account \<Rightarrow> account \<Rightarrow> bool" where
  "same_account a b \<longleftrightarrow> ca_id b = ca_id a \<and> ca_cloud b = ca_cloud a \<and>
     ca_account_id b = ca_account_id a \<and> ca_workspace_id b = ca_workspace_id a \<and>
     access_fits (ca_cloud b) (ca_state b)"

definition good_update :: "string option \<Rightarrow> (account \<Rightarrow> exn + (account \<times> 'x)) \<Rightarrow> bool" where
  "good_update c f \<longleftrightarrow> (\<forall>a b x. (case c of None \<Rightarrow> True | Some c' \<Rightarrow> ca_cloud a = c') \<longrightarrow>
     access_fits (ca_cloud a) (ca_state a) \<longrightarrow> f a = Inr (b, x) \<longrightarrow> same_account a b)"

lemma stored_Some:
  "stored i w = Some a \<longleftrightarrow> (\<exists>r. tfind r_id i (accounts w) = Some r \<and> to_model None r = Inr a)"
  by (auto simp: stored_def split: option.splits sum.splits)

lemma stored_fields:
  assumes "stored i w = Some a"
  shows "ca_id a = i" "access_fits (ca_cloud a) (ca_state a)" "ca_next_scan a = None"
proof -
  obtain r where "tfind r_id i (accounts w) = Some r" "to_model None r = Inr a"
    using assms by (auto simp: stored_Some)
  with to_model_fields [OF this(2)] to_model_fits [OF this(2)] tfind_Some [OF this(1)]
  show "ca_id a = i" "access_fits (ca_cloud a) (ca_state a)" "ca_next_scan a = None" by auto
qed

lemma stored_ok:
  "accounts_ok w \<Longrightarrow> stored i w = None \<longleftrightarrow> tfind r_id i (accounts w) = None"
  using readable_to_model [of _ None]
  by (auto simp: stored_def split: option.splits sum.splits dest: accounts_ok_readable)
    (metis sum.distinct(1) accounts_ok_readable)

lemma repo_update_with_run:
  assumes "tfind r_id i (accounts w) = Some r" and "to_model None r = Inr a"
    and "f a = Inr (b, x)" and "same_account a b"
  shows "repo_update_with i f w =
    (if a = b then (Inr (b, x), w)
     else (Inr (b\<lparr>ca_updated_at := clock w, ca_next_scan := next_scan_of (ca_workspace_id b) w\<rparr>, x),
           save b r w))"
  using assms read_written [of b r "next_scan_of (ca_workspace_id b) w" "clock w"]
    to_model_fields(1) [OF assms(2)]
  by (auto simp: repo_update_with_def run_defs save_def same_account_def next_scan_of_def Let_def)

lemma repo_update_with_raise:
  assumes "tfind r_id i (accounts w) = Some r" and "to_model None r = Inr a" and "f a = Inl e"
  shows "repo_update_with i f w = (Inl e, w)"
  using assms by (simp add: repo_update_with_def run_defs)

lemma repo_update_with_missing:
  "tfind r_id i (accounts w) = None \<Longrightarrow> repo_update_with i f w = (Inl ResourceNotFound, w)"
  by (simp add: repo_update_with_def run_defs)

lemma stored_save:
  assumes "tfind r_id i (accounts w) = Some r" and "same_account a b" and "ca_id a = i"
  shows "stored i (save b r w) = Some (b\<lparr>ca_updated_at := clock w, ca_next_scan := None\<rparr>)"
    and "j \<noteq> i \<Longrightarrow> tfind r_id j (accounts (save b r w)) = tfind r_id j (accounts w)"
proof -
  have r: "r_id r = i" using assms(1) by (auto dest: tfind_Some)
  have "tfind r_id i (accounts (save b r w)) = Some (write_account (clock w) b r)"
    unfolding save_def by (metis account_table.lookup_save r r_id_write)
  moreover have "to_model None (write_account (clock w) b r) =
      Inr (b\<lparr>ca_updated_at := clock w, ca_next_scan := None\<rparr>)"
    by (rule read_written) (use assms r in \<open>auto simp: same_account_def\<close>)
  ultimately show "stored i (save b r w) = Some (b\<lparr>ca_updated_at := clock w, ca_next_scan := None\<rparr>)"
    by (simp add: stored_Some)
  show "j \<noteq> i \<Longrightarrow> tfind r_id j (accounts (save b r w)) = tfind r_id j (accounts w)"
    by (simp add: save_def r)
qed

lemma save_inv:
  assumes inv: "acc_inv k w" and r: "tfind r_id i (accounts w) = Some r" "to_model None r = Inr a"
    and ab: "same_account a b"
  shows "acc_inv k (save b r w)"
proof -
  let ?r = "write_account (clock w) b r"
  have ok: "accounts_ok w" using inv by (rule acc_inv_ok)
  have rin: "r \<in> set (accounts w)" "r_id r = i" using r(1) by (auto dest: tfind_Some)
  have key: "(r_tenant_id ?r, r_account_id ?r) = (r_tenant_id r, r_account_id r)" "r_cloud ?r = r_cloud r"
    using ab to_model_fields [OF r(2)] by (auto simp: same_account_def)
  have "tput r_id ?r rs = map (\<lambda>x. if r_id x = i then ?r else x) rs"
    if "distinct (map r_id rs)" "r \<in> set rs" for rs
    using that rin(2) by (induction rs) (auto intro!: map_idI [symmetric] simp: image_iff; metis)+
  then have map: "accounts (save b r w) = map (\<lambda>x. if r_id x = i then ?r else x) (accounts w)"
    using ok rin by (simp add: save_def accounts_ok_def)
  have "readable ?r" using ab by (auto intro: readable_write simp: same_account_def)
  moreover have "row_ok (next_uuid w) r" using ok rin by (simp add: accounts_ok_def)
  ultimately have rok: "row_ok (next_uuid w) ?r" using key rin by (simp add: row_ok_def)
  have uniq: "x \<in> set (accounts w) \<Longrightarrow> r_id x = i \<Longrightarrow> x = r" for x
    using ok r(1) tfind_in [of r_id "accounts w" x] by (auto simp: accounts_ok_def)
  have "map r_id (accounts (save b r w)) = map r_id (accounts w)"
    unfolding map using rin by auto
  moreover have "map (\<lambda>r. (r_tenant_id r, r_account_id r)) (accounts (save b r w)) =
      map (\<lambda>r. (r_tenant_id r, r_account_id r)) (accounts w)"
    unfolding map using key uniq by auto
  moreover have "\<forall>x\<in>set (accounts (save b r w)). row_ok (next_uuid (save b r w)) x"
    unfolding map using ok rok by (auto simp: save_def accounts_ok_def)
  ultimately have "accounts_ok (save b r w)"
    using ok by (simp only: accounts_ok_def)
  moreover have "has_cloud j c (save b r w)" if "has_cloud j c w" for j c
    using that r(1) rin key(2) tfind_tput_same [of r_id ?r "accounts w"] by (cases "j = i") (auto simp: has_cloud_def save_def split: option.splits)
  ultimately show ?thesis using inv by (auto simp: acc_inv_def split: option.splits)
qed

lemma repo_update_with_world:
  assumes inv: "acc_inv k w"
    and good: "\<And>r a b x. \<lbrakk>tfind r_id i (accounts w) = Some r; to_model None r = Inr a; f a = Inr (b, x)\<rbrakk> \<Longrightarrow>
      same_account a b"
  shows "acc_inv k (snd (repo_update_with i f w))"
proof (cases "tfind r_id i (accounts w)")
  case None
  with inv show ?thesis by (simp add: repo_update_with_missing)
next
  case (Some r)
  then have "readable r" using acc_inv_ok [OF inv] by (simp add: accounts_ok_readable)
  then obtain a where a: "to_model None r = Inr a" using readable_to_model by blast
  show ?thesis
  proof (cases "f a")
    case (Inl e)
    with Some a inv show ?thesis by (simp add: repo_update_with_raise)
  next
    case (Inr bx)
    obtain b x where bx: "bx = (b, x)" by (cases bx)
    have ab: "same_account a b" using good [OF Some a] Inr bx by simp
    show ?thesis
      using repo_update_with_run [of i w r a f b x] Some a Inr bx ab save_inv [OF inv Some a ab] inv by simp
  qed
qed

lemma repo_update_with_inv:
  assumes good: "good_update (case k of None \<Rightarrow> None | Some (j, c) \<Rightarrow> if j = i then Some c else None) f"
  shows "preserves (acc_inv k) (repo_update_with i f)"
proof (rule preservesI, rule repo_update_with_world)
  fix w r a b x
  assume "acc_inv k w" "tfind r_id i (accounts w) = Some r" "to_model None r = Inr a" "f a = Inr (b, x)"
  moreover from this have "case (case k of None \<Rightarrow> None | Some (j, c) \<Rightarrow> if j = i then Some c else None) of
      None \<Rightarrow> True | Some c \<Rightarrow> ca_cloud a = c"
    using to_model_fields(4) [of None r a] by (auto simp: acc_inv_def has_cloud_def split: option.splits)
  ultimately show "same_account a b"
    using good to_model_fits [of None r a] by (auto simp: good_update_def)
qed

definition good_fn :: "string option \<Rightarrow> (account \<Rightarrow> exn + account) \<Rightarrow> bool" where
  "good_fn c f \<longleftrightarrow> (\<forall>a b. (case c of None \<Rightarrow> True | Some c' \<Rightarrow> ca_cloud a = c') \<longrightarrow>
     access_fits (ca_cloud a) (ca_state a) \<longrightarrow> f a = Inr b \<longrightarrow> same_account a b)"

lemma repo_update_inv:
  assumes "good_fn (case k of None \<Rightarrow> None | Some (j, c) \<Rightarrow> if j = i then Some c else None) f"
  shows "preserves (acc_inv k) (repo_update i f)"
  unfolding repo_update_def
  by (intro pres repo_update_with_inv)
    (use assms in \<open>auto simp: good_fn_def good_update_def split: sum.splits\<close>)

text \<open>In a world where the account's cloud is known, an update may rely on it.\<close>

lemma repo_update_world:
  assumes "acc_inv k w" and "has_cloud i c w" and "good_fn (Some c) f"
  shows "acc_inv k (snd (repo_update i f w))"
proof -
  let ?f = "\<lambda>a. case f a of Inl e \<Rightarrow> Inl e | Inr b \<Rightarrow> Inr (b, ())"
  have "acc_inv k (snd (repo_update_with i ?f w))"
  proof (rule repo_update_with_world [OF assms(1)])
    fix r a b x
    assume "tfind r_id i (accounts w) = Some r" "to_model None r = Inr a" "?f a = Inr (b, x)"
    then show "same_account a b"
      using assms(2,3) to_model_fields(4) [of None r a] to_model_fits [of None r a]
      by (auto simp: has_cloud_def good_fn_def split: sum.splits)
  qed
  then show ?thesis by (auto simp: repo_update_def run_defs split: prod.splits sum.splits)
qed

lemma repo_update_run:
  assumes "stored i w = Some a" and "f a = Inr b" and "same_account a b"
  obtains w' where
    "repo_update i f w = (Inr (if a = b then b
       else b\<lparr>ca_updated_at := clock w, ca_next_scan := next_scan_of (ca_workspace_id b) w\<rparr>), w')"
    "stored i w' = Some (if a = b then a else b\<lparr>ca_updated_at := clock w, ca_next_scan := None\<rparr>)"
    "\<And>j. j \<noteq> i \<Longrightarrow> tfind r_id j (accounts w') = tfind r_id j (accounts w)"
    "w' = w\<lparr>accounts := accounts w'\<rparr>"
proof -
  obtain r where r: "tfind r_id i (accounts w) = Some r" "to_model None r = Inr a"
    using assms(1) by (auto simp: stored_Some)
  let ?f = "\<lambda>a. case f a of Inl e \<Rightarrow> Inl e | Inr b \<Rightarrow> Inr (b, ())"
  have "?f a = Inr (b, ())" using assms(2) by simp
  note run = repo_update_with_run [of i w r a ?f b "()", OF r this assms(3)]
  show thesis
  proof (cases "a = b")
    case True
    show thesis
    proof (rule that [of w])
      show "repo_update i f w = (Inr (if a = b then b
         else b\<lparr>ca_updated_at := clock w, ca_next_scan := next_scan_of (ca_workspace_id b) w\<rparr>), w)"
        using run True by (simp add: repo_update_def run_defs)
    qed (use True assms(1) in auto)
  next
    case False
    show thesis
    proof (rule that [of "save b r w"])
      show "repo_update i f w = (Inr (if a = b then b
         else b\<lparr>ca_updated_at := clock w, ca_next_scan := next_scan_of (ca_workspace_id b) w\<rparr>), save b r w)"
        using run False by (simp add: repo_update_def run_defs)
    qed (use False stored_save [OF r(1) assms(3) stored_fields(1) [OF assms(1)]] in
        \<open>auto simp: save_def\<close>)
  qed
qed

lemma repo_update_error:
  assumes "stored i w = Some a" and "f a = Inl e"
  shows "repo_update i f w = (Inl e, w)"
proof -
  obtain r where r: "tfind r_id i (accounts w) = Some r" "to_model None r = Inr a"
    using assms(1) by (auto simp: stored_Some)
  show ?thesis
    using repo_update_with_raise [OF r, of "\<lambda>a. case f a of Inl e \<Rightarrow> Inl e | Inr b \<Rightarrow> Inr (b, ())" e] assms(2)
    by (simp add: repo_update_def run_defs)
qed

lemma repo_update_missing:
  "tfind r_id i (accounts w) = None \<Longrightarrow> repo_update i f w = (Inl ResourceNotFound, w)"
  by (simp add: repo_update_def repo_update_with_missing run_defs)

lemma repo_get_stored:
  assumes "stored i w = Some a"
  shows "repo_get i w = (Inr (Some (a\<lparr>ca_next_scan := next_scan_of (ca_workspace_id a) w\<rparr>)), w)"
proof -
  obtain r where r: "tfind r_id i (accounts w) = Some r" "to_model None r = Inr a"
    using assms by (auto simp: stored_Some)
  show ?thesis
    using r to_model_next_scan [OF r(2), of "next_scan_of (ca_workspace_id a) w"] to_model_fields(3) [OF r(2)]
    by (simp add: repo_get_def run_defs next_scan_of_def)
qed

lemma repo_get_missing: "tfind r_id i (accounts w) = None \<Longrightarrow> repo_get i w = (Inr None, w)"
  by (simp add: repo_get_def run_defs)

end
