(* ===== verification/Account_Setup.thy ===== *)
theory Account_Setup
  imports Prelude
begin

section \<open>Setting up an AWS account\<close>

text \<open>
  \<open>cloud_accounts/account_setup.py\<close> over the four AWS calls it makes, which are the parameter
  \<open>aws_api\<close>: each returns its response or the text of the exception it raises. A field that a
  response may lack is an option. \<open>list_accounts\<close> follows \<open>NextToken\<close> until a response has none,
  so it may not end: it is a partial function, and \<open>account_pages_end\<close> gives the condition
  under which it returns.
\<close>

record credentials =
  c_access_key_id :: "string option"
  c_secret_access_key :: "string option"
  c_session_token :: "string option"
  c_expiration :: "datetime option"

record session_credentials =
  access_key_id :: string
  secret_access_key :: string
  session_token :: string
  expiration :: datetime

datatype assume_role_result =
    Success session_credentials
  | Failure string

record accounts_page =
  next_token :: "string option"
  page_accounts :: "(string \<times> string) list option"

record aws_api =
  sts_assume_role :: "string \<Rightarrow> string \<Rightarrow> string \<Rightarrow> string + credentials option"
    \<comment> \<open>role arn, session name, external id\<close>
  ec2_describe_regions :: "session_credentials \<Rightarrow> string \<Rightarrow> string + unit"
  organizations_list_accounts :: "session_credentials \<Rightarrow> string option \<Rightarrow> string + accounts_page"
  iam_list_account_aliases :: "session_credentials \<Rightarrow> string + string list option"

definition key_error :: "string \<Rightarrow> string" where
  "key_error k = CHR 0x27 # k @ [CHR 0x27]"

definition can_assume_role :: "aws_api \<Rightarrow> string \<Rightarrow> string \<Rightarrow> uuid \<Rightarrow> assume_role_result" where
  "can_assume_role api account_id role_name external_id =
     (case sts_assume_role api (''arn:aws:iam::'' @ account_id @ '':role/'' @ role_name)
             ''fix-account-preflight-check'' (uuid_str external_id) of
        Inl err \<Rightarrow> Failure err
      | Inr result \<Rightarrow>
          (case result of
             None \<Rightarrow> Failure ''Failed to assume role, no access key id in the response''
           | Some c \<Rightarrow>
               if \<not> str_true (c_access_key_id c)
               then Failure ''Failed to assume role, no access key id in the response''
               else (case (c_access_key_id c, c_secret_access_key c, c_session_token c, c_expiration c) of
                   (Some k, Some s, Some t, Some e) \<Rightarrow>
                     Success \<lparr>access_key_id = k, secret_access_key = s, session_token = t, expiration = e\<rparr>
                 | (_, None, _, _) \<Rightarrow> Failure (key_error ''SecretAccessKey'')
                 | (_, _, None, _) \<Rightarrow> Failure (key_error ''SessionToken'')
                 | _ \<Rightarrow> Failure (key_error ''Expiration''))))"

definition allowed_to_describe_regions :: "aws_api \<Rightarrow> session_credentials \<Rightarrow> exn + unit" where
  "allowed_to_describe_regions api result =
     (case ec2_describe_regions api result ''us-east-1'' of Inl _ \<Rightarrow> Inl ExternalError | Inr u \<Rightarrow> Inr u)"

text \<open>
  The pagination loop. An empty token is not sent, but the loop only ends on a response without
  a token. The result is the accounts of all pages, or the failure of one of them.
\<close>

partial_function (option) account_pages ::
  "(string option \<Rightarrow> string + accounts_page) \<Rightarrow> string option \<Rightarrow> (string \<times> string) list \<Rightarrow>
   (string + (string \<times> string) list) option" where
  "account_pages call token acc =
     (case call (if str_true token then token else None) of
        Inl err \<Rightarrow> Some (Inl err)
      | Inr response \<Rightarrow>
          (case page_accounts response of
             None \<Rightarrow> Some (Inl (key_error ''Accounts''))
           | Some page \<Rightarrow>
               if next_token response = None then Some (Inr (acc @ page))
               else account_pages call (next_token response) (acc @ page)))"

definition list_organization_accounts ::
  "aws_api \<Rightarrow> session_credentials \<Rightarrow> (string \<times> string) list option" where
  "list_organization_accounts api result =
     map_option (\<lambda>r. case r of Inl _ \<Rightarrow> [] | Inr found \<Rightarrow> fold (tput fst) found [])
       (account_pages (organizations_list_accounts api result) None [])"

definition list_account_aliases :: "aws_api \<Rightarrow> session_credentials \<Rightarrow> string option" where
  "list_account_aliases api result =
     (case iam_list_account_aliases api result of
        Inl _ \<Rightarrow> None
      | Inr None \<Rightarrow> None
      | Inr (Some aliases) \<Rightarrow> (case aliases of [] \<Rightarrow> None | a # _ \<Rightarrow> Some a))"

subsection \<open>Termination of the pagination\<close>

text \<open>
  \<open>pages_from call token ps\<close>: starting with \<open>token\<close>, the service answers with the pages \<open>ps\<close>,
  the last of which has no token.
\<close>

fun pages_from :: "(string option \<Rightarrow> string + accounts_page) \<Rightarrow> string option \<Rightarrow> accounts_page list \<Rightarrow> bool" where
  "pages_from call token [] = False"
| "pages_from call token (p # ps) \<longleftrightarrow>
     call (if str_true token then token else None) = Inr p \<and> page_accounts p \<noteq> None \<and>
     (if ps = [] then next_token p = None else next_token p \<noteq> None \<and> pages_from call (next_token p) ps)"

lemma account_pages_run:
  "pages_from call token ps \<Longrightarrow>
   account_pages call token acc = Some (Inr (acc @ concat (map (\<lambda>p. the (page_accounts p)) ps)))"
proof (induction ps arbitrary: token acc)
  case (Cons p ps)
  then show ?case by (subst account_pages.simps) (auto split: if_splits option.splits)
qed simp

text \<open>
  C37: The pagination over an organization's accounts ends when the service's chain of tokens
  does, and then returns the accounts of every page: each listed account id is a key of the
  result exactly once, with the name of its last occurrence.
\<close>

theorem account_pages_end:
  assumes "pages_from (organizations_list_accounts api cred) None ps"
  shows "\<exists>found. list_organization_accounts api cred = Some found \<and>
    distinct (map fst found) \<and>
    (\<forall>k. tfind fst k found = tfind fst k (rev (concat (map (\<lambda>p. the (page_accounts p)) ps))))"
proof -
  let ?all = "concat (map (\<lambda>p. the (page_accounts p)) ps)"
  have d: "distinct (map fst (fold (tput fst) xs acc))" if "distinct (map fst acc)"
    for xs acc :: "(string \<times> string) list"
    using that by (induction xs arbitrary: acc) (auto simp: distinct_tput)
  have f: "tfind fst k (fold (tput fst) xs acc) =
      (case tfind fst k (rev xs) of None \<Rightarrow> tfind fst k acc | Some y \<Rightarrow> Some y)"
    for k and xs acc :: "(string \<times> string) list"
  proof (induction xs arbitrary: acc)
    case (Cons x xs)
    have "tfind fst k (tput fst x acc) = (if fst x = k then Some x else tfind fst k acc)"
      using tfind_tput_same [of fst x acc] by auto
    with Cons show ?case by (auto simp: tfind_append split: option.splits)
  qed simp
  have "list_organization_accounts api cred = Some (fold (tput fst) ?all [])"
    by (simp add: list_organization_accounts_def account_pages_run [OF assms])
  with d [of "[]" ?all] f [of _ ?all "[]"] show ?thesis by (auto split: option.splits)
qed

definition sample_credentials :: session_credentials where
  "sample_credentials = \<lparr>access_key_id = ''k'', secret_access_key = ''s'', session_token = ''t'', expiration = 0\<rparr>"

definition sample_pages :: "string option \<Rightarrow> string + accounts_page" where
  "sample_pages t =
     (if t = None then Inr \<lparr>next_token = Some ''n'', page_accounts = Some [(''1'', ''a'')]\<rparr>
      else Inr \<lparr>next_token = None, page_accounts = Some [(''2'', ''b''), (''1'', ''c'')]\<rparr>)"

definition sample_api :: aws_api where
  "sample_api = \<lparr>sts_assume_role = \<lambda>_ _ _. Inr (Some \<lparr>c_access_key_id = Some ''k'', c_secret_access_key = Some ''s'',
     c_session_token = Some ''t'', c_expiration = Some 0\<rparr>), ec2_describe_regions = \<lambda>_ _. Inr (),
     organizations_list_accounts = \<lambda>_. sample_pages, iam_list_account_aliases = \<lambda>_. Inr None\<rparr>"

lemma account_pages_end_witness:
  "\<exists>found. list_organization_accounts sample_api sample_credentials = Some found \<and>
     distinct (map fst found) \<and>
     (\<forall>k. tfind fst k found = tfind fst k [(''1'', ''c''), (''2'', ''b''), (''1'', ''a'')])"
  using account_pages_end [of sample_api sample_credentials
      "[\<lparr>next_token = Some ''n'', page_accounts = Some [(''1'', ''a'')]\<rparr>,
        \<lparr>next_token = None, page_accounts = Some [(''2'', ''b''), (''1'', ''c'')]\<rparr>]"]
  by (simp add: sample_api_def sample_pages_def)

end
