(* ===== verification/Cloud_Account_Service.thy ===== *)
theory Cloud_Account_Service
  imports Workspace_Repository Cloud_Account_Repository Account_Setup
begin

section \<open>The cloud account service\<close>

text \<open>
  The operations of \<open>CloudAccountService\<close> in \<open>cloud_accounts/service.py\<close>, one definition per
  method. The AWS calls of the account set-up are the parameter \<open>api\<close>. Tasks of a task group
  work on different accounts and are run in the order in which they are created. The handlers
  of events are in the theory \<open>Cloud_Account_Events\<close>.
\<close>

datatype configuration_failure =
    UnknownCloud string
  | UnknownAccessType cloud_access
  | WrongAccountState account_state
  | CantAssumeRole bool                  \<comment> \<open>retry limit reached\<close>
  | RoleNameMissing
  | ConcurrentUpdate

definition fast_lane_timeout :: timedelta where
  "fast_lane_timeout = td_minutes 1"

definition become_degraded_timeout :: timedelta where
  "become_degraded_timeout = td_minutes 15"

subsection \<open>Creating accounts\<close>

definition should_be_enabled :: "workspace \<Rightarrow> bool io" where
  "should_be_enabled ws =
     bind utc (\<lambda>now.
     bind (case limit_of (account_limit (product_tier_settings (current_product_tier now ws))) of
             None \<Rightarrow> ret True
           | Some limit \<Rightarrow>
               bind (count_by_workspace_id (ws_id ws) False True) (\<lambda>existing_accounts.
               ret (\<not> limit \<le> existing_accounts))) (\<lambda>enabled.
     ret (if ws_payment_on_hold_since ws \<noteq> None then False else enabled)))"

text \<open>The account that the three \<open>create_*\<close> methods build, with the fields that they share.\<close>

definition fresh_account ::
  "uuid \<Rightarrow> string \<Rightarrow> uuid \<Rightarrow> string \<Rightarrow> account_state \<Rightarrow> string option \<Rightarrow> datetime \<Rightarrow> account" where
  "fresh_account i account_id workspace_id cloud state account_name created_at =
     \<lparr>ca_id = i, ca_account_id = account_id, ca_workspace_id = workspace_id, ca_cloud = cloud,
      ca_state = state, ca_account_name = account_name, ca_account_alias = None,
      ca_user_account_name = None, ca_privileged = False, ca_next_scan = None,
      ca_last_scan_duration_seconds = 0, ca_last_scan_started_at = None,
      ca_last_scan_resources_scanned = 0, ca_last_scan_resources_errors = 0,
      ca_created_at = created_at, ca_updated_at = created_at, ca_state_updated_at = created_at,
      ca_cf_stack_version = Some 0, ca_failed_scan_count = 0, ca_last_task_id = None,
      ca_last_degraded_scan_started_at = None\<rparr>"

text \<open>
  \<open>create_aws_account\<close> for an account that exists: without a new role (or with the access it has
  already) only the name and, for a deleted account, the time of creation change; otherwise the
  account goes back to discovered. The result says whether the creation is announced.
\<close>

definition rename_existing :: "uuid \<Rightarrow> account \<Rightarrow> string option \<Rightarrow> datetime \<Rightarrow> account io" where
  "rename_existing workspace_id existing new_name new_created_at =
     bind (repo_update (ca_id existing)
        (\<lambda>acc. Inr (acc\<lparr>ca_account_name := new_name, ca_created_at := new_created_at\<rparr>))) (\<lambda>result.
     bind (if final_name existing \<noteq> final_name result
           then publish (CloudAccountNameChanged (ca_id result) workspace_id (ca_cloud result)
                  (ca_account_id result) (state_name (ca_state result)) (ca_user_account_name result)
                  (final_name result))
           else ret ()) (\<lambda>_.
     ret result))"

definition rediscover_existing ::
  "account \<Rightarrow> account_state \<Rightarrow> string option \<Rightarrow> datetime \<Rightarrow> account io" where
  "rediscover_existing existing new_state new_name new_created_at =
     bind utc (\<lambda>now.
     repo_update (ca_id existing) (\<lambda>acc. Inr (acc\<lparr>ca_state := new_state, ca_account_name := new_name,
       ca_state_updated_at := now, ca_created_at := new_created_at\<rparr>)))"

definition same_access :: "account \<Rightarrow> uuid \<Rightarrow> string \<Rightarrow> bool" where
  "same_access existing external_id role_name \<longleftrightarrow>
     (case aws_access existing of None \<Rightarrow> False | Some (e, r) \<Rightarrow> r = role_name \<and> e = external_id)"

definition announce_discovered :: "uuid \<Rightarrow> string \<Rightarrow> account \<Rightarrow> account io" where
  "announce_discovered workspace_id account_id result =
     (if ca_state result = Detected then ret result
      else bind (publish (CloudAccountDiscovered ''aws'' (ca_id result) workspace_id account_id)) (\<lambda>_.
           ret result))"

definition create_aws_account ::
  "uuid \<Rightarrow> string \<Rightarrow> string option \<Rightarrow> uuid \<Rightarrow> string option \<Rightarrow> account io" where
  "create_aws_account workspace_id account_id role_name external_id account_name =
     bind (get_workspace workspace_id) (\<lambda>workspace.
     case workspace of None \<Rightarrow> raise ResourceNotFound
     | Some ws \<Rightarrow>
     if ws_external_id ws \<noteq> external_id then raise WrongExternalId
     else
     bind (should_be_enabled ws) (\<lambda>enabled.
     bind (repo_get_by_account_id workspace_id account_id) (\<lambda>found.
     bind utc (\<lambda>now.
     case found of
       Some existing \<Rightarrow>
         let new_name = str_or account_name (ca_account_name existing);
             new_created_at = (if ca_state existing = Deleted then now else ca_created_at existing) in
         (case role_name of
            None \<Rightarrow> rename_existing workspace_id existing new_name new_created_at
          | Some role \<Rightarrow>
              if same_access existing external_id role
              then rename_existing workspace_id existing new_name new_created_at
              else bind (rediscover_existing existing (Discovered (AwsCloudAccess external_id role) enabled)
                           new_name new_created_at) (\<lambda>result.
                   announce_discovered workspace_id account_id result))
     | None \<Rightarrow>
         let new_state = (case role_name of None \<Rightarrow> Detected
               | Some role \<Rightarrow> Discovered (AwsCloudAccess external_id role) enabled) in
         bind uuid4 (\<lambda>i.
         bind (repo_create (fresh_account i account_id workspace_id ''aws'' new_state account_name now)) (\<lambda>result.
         announce_discovered workspace_id account_id result))))))"

definition create_gcp_account :: "uuid \<Rightarrow> string \<Rightarrow> uuid \<Rightarrow> string option \<Rightarrow> account io" where
  "create_gcp_account workspace_id account_id key_id account_name =
     bind (get_workspace workspace_id) (\<lambda>workspace.
     case workspace of None \<Rightarrow> raise ResourceNotFound
     | Some ws \<Rightarrow>
     bind (repo_get_by_account_id workspace_id account_id) (\<lambda>found.
     case found of Some existing \<Rightarrow> ret existing
     | None \<Rightarrow>
         bind (should_be_enabled ws) (\<lambda>enabled.
         bind utc (\<lambda>created_at.
         bind uuid4 (\<lambda>i.
         bind (repo_create (fresh_account i account_id workspace_id ''gcp''
                 (Configured (GcpCloudAccess key_id) enabled enabled) account_name created_at)) (\<lambda>result.
         bind (publish (CloudAccountConfigured ''gcp'' (ca_id result) workspace_id account_id)) (\<lambda>_.
         ret result)))))))"

definition create_azure_account :: "uuid \<Rightarrow> string \<Rightarrow> uuid \<Rightarrow> string option \<Rightarrow> account io" where
  "create_azure_account workspace_id account_id subscription_credentials_id account_name =
     bind (get_workspace workspace_id) (\<lambda>workspace.
     case workspace of None \<Rightarrow> raise ResourceNotFound
     | Some ws \<Rightarrow>
     bind (repo_get_by_account_id workspace_id account_id) (\<lambda>found.
     case found of Some existing \<Rightarrow> ret existing
     | None \<Rightarrow>
         bind (should_be_enabled ws) (\<lambda>enabled.
         bind utc (\<lambda>created_at.
         bind uuid4 (\<lambda>i.
         bind (repo_create (fresh_account i account_id workspace_id ''azure''
                 (Configured (AzureCloudAccess subscription_credentials_id) enabled enabled)
                 account_name created_at)) (\<lambda>result.
         bind (publish (CloudAccountConfigured ''azure'' (ca_id result) workspace_id account_id)) (\<lambda>_.
         ret result)))))))"

subsection \<open>Reading, renaming and deleting accounts\<close>

definition deleted_account :: "datetime \<Rightarrow> account \<Rightarrow> account" where
  "deleted_account now acc = acc\<lparr>ca_state_updated_at := now, ca_state := Deleted, ca_next_scan := None,
     ca_last_scan_resources_scanned := 0, ca_last_scan_duration_seconds := 0,
     ca_last_scan_started_at := None\<rparr>"

definition delete_cloud_account :: "uuid \<Rightarrow> uuid \<Rightarrow> uuid \<Rightarrow> unit io" where
  "delete_cloud_account user_id cloud_account_id workspace_id =
     bind (repo_get cloud_account_id) (\<lambda>found.
     case found of None \<Rightarrow> ret ()
     | Some account \<Rightarrow>
         if ca_workspace_id account \<noteq> workspace_id
         then raise (NotAllowed ''Deletion of cloud accounts is only allowed by the owning organization.'')
         else bind utc (\<lambda>now.
              bind (repo_update cloud_account_id (\<lambda>acc. Inr (deleted_account now acc))) (\<lambda>_.
              publish (CloudAccountDeleted (ca_cloud account) user_id cloud_account_id workspace_id
                (ca_account_id account)))))"

definition get_cloud_account :: "uuid \<Rightarrow> uuid \<Rightarrow> account io" where
  "get_cloud_account cloud_account_id workspace_id =
     bind (repo_get cloud_account_id) (\<lambda>found.
     case found of None \<Rightarrow> raise ResourceNotFound
     | Some account \<Rightarrow>
         if ca_workspace_id account \<noteq> workspace_id
         then raise (NotAllowed ''This account does not belong to this workspace.'')
         else ret account)"

definition list_accounts :: "uuid \<Rightarrow> account list io" where
  "list_accounts workspace_id = list_by_workspace_id workspace_id False True"

definition update_cloud_account_name :: "uuid \<Rightarrow> uuid \<Rightarrow> string option \<Rightarrow> account io" where
  "update_cloud_account_name workspace_id cloud_account_id new_name =
     bind (get_cloud_account cloud_account_id workspace_id) (\<lambda>existing.
     if ca_user_account_name existing = new_name then ret existing
     else bind (repo_update cloud_account_id (\<lambda>acc. Inr (acc\<lparr>ca_user_account_name := new_name\<rparr>))) (\<lambda>result.
          bind (publish (CloudAccountNameChanged cloud_account_id workspace_id (ca_cloud result)
                  (ca_account_id result) (state_name (ca_state result)) new_name (final_name result))) (\<lambda>_.
          ret result)))"

subsection \<open>Enabling and disabling accounts\<close>

definition validate_tier_restrictions :: "datetime \<Rightarrow> bool \<Rightarrow> workspace \<Rightarrow> nat \<Rightarrow> exn + unit" where
  "validate_tier_restrictions now enabled ws accounts_count =
     (if enabled then
        (case limit_of (account_limit (product_tier_settings (current_product_tier now ws))) of
           Some limit \<Rightarrow>
             if limit \<le> accounts_count then Inl (NotAllowed ''Account limit reached'')
             else if ws_payment_on_hold_since ws \<noteq> None then Inl (NotAllowed ''Payment on hold'')
             else Inr ()
         | None \<Rightarrow>
             if ws_payment_on_hold_since ws \<noteq> None then Inl (NotAllowed ''Payment on hold'') else Inr ())
      else Inr ())"

definition set_enabled :: "datetime \<Rightarrow> bool \<Rightarrow> workspace \<Rightarrow> nat \<Rightarrow> account \<Rightarrow> exn + account" where
  "set_enabled now enabled ws accounts_count acc =
     (case ca_state acc of
        Configured access _ scan \<Rightarrow>
          (case validate_tier_restrictions now enabled ws accounts_count of
             Inl e \<Rightarrow> Inl e | Inr _ \<Rightarrow> Inr (acc\<lparr>ca_state := Configured access enabled scan\<rparr>))
      | Degraded access _ scan error \<Rightarrow>
          (case validate_tier_restrictions now enabled ws accounts_count of
             Inl e \<Rightarrow> Inl e | Inr _ \<Rightarrow> Inr (acc\<lparr>ca_state := Degraded access enabled scan error\<rparr>))
      | _ \<Rightarrow> Inl WrongState)"

definition update_cloud_account_enabled :: "uuid \<Rightarrow> uuid \<Rightarrow> bool \<Rightarrow> account io" where
  "update_cloud_account_enabled workspace_id cloud_account_id enabled =
     bind (get_cloud_account cloud_account_id workspace_id) (\<lambda>_.
     bind (get_workspace workspace_id) (\<lambda>workspace.
     case workspace of None \<Rightarrow> raise ResourceNotFound
     | Some ws \<Rightarrow>
         bind (count_by_workspace_id workspace_id True False) (\<lambda>accounts_count.
         bind utc (\<lambda>now.
         bind (repo_update cloud_account_id (set_enabled now enabled ws accounts_count)) (\<lambda>result.
         bind (publish (CloudAccountActiveToggled workspace_id cloud_account_id (ca_account_id result) enabled)) (\<lambda>_.
         ret result))))))"

text \<open>The function of \<open>update_cloud_account_scan_enabled\<close> also sets the event to publish.\<close>

definition set_scan :: "uuid \<Rightarrow> bool \<Rightarrow> account \<Rightarrow> exn + (account \<times> domain_event option)" where
  "set_scan workspace_id scan acc =
     (case ca_state acc of
        Configured access enabled _ \<Rightarrow>
          Inr (acc\<lparr>ca_state := Configured access enabled scan\<rparr>,
               Some (CloudAccountScanToggled workspace_id (ca_id acc) (ca_account_id acc) enabled scan))
      | Degraded access enabled _ error \<Rightarrow> Inr (acc\<lparr>ca_state := Degraded access enabled scan error\<rparr>, None)
      | _ \<Rightarrow> Inl WrongState)"

definition update_cloud_account_scan_enabled :: "uuid \<Rightarrow> uuid \<Rightarrow> bool \<Rightarrow> account io" where
  "update_cloud_account_scan_enabled workspace_id cloud_account_id scan =
     bind (get_cloud_account cloud_account_id workspace_id) (\<lambda>_.
     bind (repo_update_with cloud_account_id (set_scan workspace_id scan)) (\<lambda>(result, event).
     bind (case event of None \<Rightarrow> ret () | Some e \<Rightarrow> publish e) (\<lambda>_.
     ret result)))"

definition switch_off :: "account \<Rightarrow> exn + account" where
  "switch_off acc = (case ca_state acc of
       Configured access _ _ \<Rightarrow> Inr (acc\<lparr>ca_state := Configured access False False\<rparr>)
     | _ \<Rightarrow> Inl WrongState)"

definition disable_cloud_account :: "uuid \<Rightarrow> uuid \<Rightarrow> account io" where
  "disable_cloud_account workspace_id cloud_account_id =
     bind (get_cloud_account cloud_account_id workspace_id) (\<lambda>_.
     repo_update cloud_account_id switch_off)"

subsection \<open>Degrading and recovering\<close>

definition set_degraded :: "datetime \<Rightarrow> string \<Rightarrow> account \<Rightarrow> account" where
  "set_degraded now error acc =
     (let (enabled, scan) = (case ca_state acc of
            Discovered _ e \<Rightarrow> (e, False)
          | Configured _ e s \<Rightarrow> (e, s)
          | Degraded _ e s _ \<Rightarrow> (e, s)
          | _ \<Rightarrow> (False, False))
      in (case state_access (ca_state acc) of
            Some access \<Rightarrow> acc\<lparr>ca_next_scan := None, ca_state := Degraded access enabled scan error,
              ca_state_updated_at := now\<rparr>
          | None \<Rightarrow> acc))"

definition degrade_account :: "uuid \<Rightarrow> string \<Rightarrow> degradation_reason \<Rightarrow> account io" where
  "degrade_account account_id error reason =
     bind (repo_get account_id) (\<lambda>found.
     case found of None \<Rightarrow> raise ResourceNotFound
     | Some account \<Rightarrow>
         if is_degraded (ca_state account) then ret account
         else bind utc (\<lambda>now.
              bind (repo_update account_id (\<lambda>acc. Inr (set_degraded now error acc))) (\<lambda>account.
              bind (publish (CloudAccountDegraded (ca_cloud account) (ca_id account) (ca_workspace_id account)
                      (ca_account_id account) (final_name account) error reason)) (\<lambda>_.
              ret account))))"

definition set_configured :: "datetime \<Rightarrow> account \<Rightarrow> account" where
  "set_configured now acc =
     (let (enabled, scan) = (case ca_state acc of Degraded _ e s _ \<Rightarrow> (e, s) | _ \<Rightarrow> (False, False))
      in (case state_access (ca_state acc) of
            Some access \<Rightarrow> acc\<lparr>ca_state := Configured access enabled scan, ca_state_updated_at := now\<rparr>
          | None \<Rightarrow> acc))"

definition undegrade_account :: "uuid \<Rightarrow> account io" where
  "undegrade_account account_id =
     bind (repo_get account_id) (\<lambda>found.
     case found of None \<Rightarrow> raise ResourceNotFound
     | Some account \<Rightarrow>
         if \<not> is_degraded (ca_state account) then ret account
         else bind utc (\<lambda>now. repo_update account_id (\<lambda>acc. Inr (set_configured now acc))))"

subsection \<open>All accounts of a workspace\<close>

fun state_enabled :: "account_state \<Rightarrow> bool option" where
  "state_enabled (Discovered _ e) = Some e"
| "state_enabled (Configured _ e _) = Some e"
| "state_enabled (Degraded _ e _ _) = Some e"
| "state_enabled _ = None"

definition try_enabled :: "uuid \<Rightarrow> bool \<Rightarrow> account \<Rightarrow> unit io" where
  "try_enabled workspace_id enabled acc =
     catch (bind (update_cloud_account_enabled workspace_id (ca_id acc) enabled) (\<lambda>_. ret ())) (\<lambda>_. ret ())"

definition disable_cloud_accounts :: "uuid \<Rightarrow> nat \<Rightarrow> unit io" where
  "disable_cloud_accounts workspace_id keep_enabled =
     bind (list_accounts workspace_id) (\<lambda>all_accounts.
     let disablable = filter (\<lambda>a. state_enabled (ca_state a) = Some True) all_accounts;
         to_disable = drop_last_slice keep_enabled disablable
     in for_each (try_enabled workspace_id False) to_disable)"

definition can_be_enabled :: "account \<Rightarrow> bool" where
  "can_be_enabled a \<longleftrightarrow> (case ca_state a of
     Configured _ e _ \<Rightarrow> \<not> e | Degraded _ e _ _ \<Rightarrow> \<not> e | _ \<Rightarrow> False)"

definition enable_cloud_accounts :: "uuid \<Rightarrow> unit io" where
  "enable_cloud_accounts workspace_id =
     bind (get_product_tier workspace_id) (\<lambda>tier.
     let limit = (if \<not> paid tier then Some 1 else None) in
     bind (list_accounts workspace_id) (\<lambda>all_accounts.
     let candidates = filter can_be_enabled all_accounts;
         to_enable = (case limit of None \<Rightarrow> candidates | Some n \<Rightarrow> take n candidates)
     in for_each (try_enabled workspace_id True) to_enable))"

subsection \<open>Configuring discovered accounts\<close>

definition assume_role_failed :: "bool \<Rightarrow> account \<Rightarrow> (configuration_failure + account) io" where
  "assume_role_failed called_from_event account =
     bind utc (\<lambda>now.
     let trying_to_configure_time = now - ca_state_updated_at account in
     if \<not> called_from_event \<and> become_degraded_timeout < trying_to_configure_time
     then bind (degrade_account (ca_id account) ''Cannot assume role'' Other) (\<lambda>_.
          ret (Inl (CantAssumeRole True)))
     else if called_from_event \<and> fast_lane_timeout < trying_to_configure_time
     then ret (Inl (CantAssumeRole False))
     else raise RuntimeError)"

text \<open>
  What is found with the assumed role: the accounts of the organization are created or renamed,
  or the alias of the account is stored. A pagination that never ends is the failing branch
  \<open>None\<close>. The result is \<open>privileged\<close>.
\<close>

definition inspect_account :: "aws_api \<Rightarrow> session_credentials \<Rightarrow> uuid \<Rightarrow> account \<Rightarrow> bool io" where
  "inspect_account api cred external_id account =
     bind (lift (allowed_to_describe_regions api cred)) (\<lambda>_.
     case list_organization_accounts api cred of None \<Rightarrow> raise ExternalError
     | Some organization_accounts \<Rightarrow>
         if organization_accounts \<noteq> []
         then seq (for_each (\<lambda>(acc_id, name).
                     bind (create_aws_account (ca_workspace_id account) acc_id None external_id (Some name)) (\<lambda>_.
                     ret ())) organization_accounts)
                (ret True)
         else (let alias = list_account_aliases api cred in
               if str_true alias
               then bind (repo_update (ca_id account) (\<lambda>acc. Inr (acc\<lparr>ca_account_alias := alias\<rparr>))) (\<lambda>_. ret False)
               else ret False))"

definition update_to_configured :: "datetime \<Rightarrow> cloud_access \<Rightarrow> bool \<Rightarrow> account \<Rightarrow> exn + account" where
  "update_to_configured now access privileged acc = (case ca_state acc of
       Discovered _ enabled \<Rightarrow> Inr (acc\<lparr>ca_state := Configured access enabled enabled,
         ca_privileged := privileged, ca_state_updated_at := now\<rparr>)
     | _ \<Rightarrow> Inl ValueError)"

definition finish_configuration ::
  "cloud_access \<Rightarrow> bool \<Rightarrow> account \<Rightarrow> (configuration_failure + account) io" where
  "finish_configuration access privileged account =
     catch
       (bind utc (\<lambda>now.
        bind (repo_update (ca_id account) (update_to_configured now access privileged)) (\<lambda>updated.
        bind (publish (CloudAccountConfigured ''aws'' (ca_id account) (ca_workspace_id account)
                (ca_account_id account))) (\<lambda>_.
        ret (Inr updated)))))
       (\<lambda>e. if e = ValueError then ret (Inl ConcurrentUpdate) else raise e)"

definition configure_account :: "aws_api \<Rightarrow> bool \<Rightarrow> account \<Rightarrow> (configuration_failure + account) io" where
  "configure_account api called_from_event account =
     (if ca_cloud account \<noteq> ''aws'' then ret (Inl (UnknownCloud (ca_cloud account)))
      else (case ca_state account of
         Discovered access _ \<Rightarrow>
           (case access of
              AwsCloudAccess external_id role_name \<Rightarrow>
                (case can_assume_role api (ca_account_id account) role_name external_id of
                   Failure reason \<Rightarrow> assume_role_failed called_from_event account
                 | Success cred \<Rightarrow>
                     bind (inspect_account api cred external_id account) (\<lambda>privileged.
                     finish_configuration access privileged account))
            | _ \<Rightarrow> ret (Inl (UnknownAccessType access)))
       | state \<Rightarrow> ret (Inl (WrongAccountState state))))"

definition configure_discovered_accounts :: "aws_api \<Rightarrow> unit io" where
  "configure_discovered_accounts api =
     bind list_all_discovered_accounts (\<lambda>found.
     for_each (\<lambda>account.
       bind utc (\<lambda>now.
       if td_minutes 30 < now - ca_state_updated_at account
       then bind (degrade_account (ca_id account) ''Account in discovered state for too long'' Other) (\<lambda>_. ret ())
       else catch (bind (configure_account api False account) (\<lambda>_. ret ())) (\<lambda>_. ret ()))) found)"

end
