(* ===== verification/Cloud_Account_Events.thy ===== *)
theory Cloud_Account_Events
  imports Cloud_Account_Service
begin

section \<open>Events handled by the cloud account service\<close>

text \<open>
  \<open>process_cf_stack_event\<close> and \<open>process_domain_event\<close> of \<open>cloud_accounts/service.py\<close>. What the
  service is configured with or calls outside the repository is the record \<open>service_env\<close>: the
  threshold below which a collect run counts as failed, the user id that analytics uses for an
  unknown workspace, the AWS calls, and whether the request to a CloudFormation URL succeeds.
\<close>

record service_env =
  account_failed_resource_count :: int
  unknown_workspace_user :: uuid
  env_api :: aws_api
  cf_put_ok :: "cf_response \<Rightarrow> bool"

subsection \<open>CloudFormation stack events\<close>

text \<open>
  The body of a stack event. A field is \<open>None\<close> when it is missing from the message or, for an id,
  does not parse as a UUID.
\<close>

record cf_properties =
  cf_workspace_id :: "uuid option"
  cf_external_id :: "uuid option"
  cf_role_name :: "string option"
  cf_stack_id :: "string option"

record cf_message =
  cf_request_type :: "string option"
  cf_resource_properties :: "cf_properties option"
  cf_physical_resource_id :: "string option"
  cf_physical_account_id :: "uuid option"     \<comment> \<open>\<open>uuid.UUID(msg["PhysicalResourceId"])\<close>\<close>
  cf_request_id :: "string option"
  cf_logical_resource_id :: "string option"
  cf_response_url :: "string option"

definition mark_failed :: "unit io" where
  "mark_failed = modify (\<lambda>w. w\<lparr>cf_failures := Suc (cf_failures w)\<rparr>)"

definition response_of :: "cf_message \<Rightarrow> string option \<Rightarrow> string option \<Rightarrow> cf_response option" where
  "response_of msg physical_resource_id error_message =
     (case (if str_true physical_resource_id then physical_resource_id else cf_physical_resource_id msg,
            cf_request_id msg, cf_logical_resource_id msg, cf_response_url msg, cf_resource_properties msg) of
        (Some physical, Some request, Some logical, Some url, Some p) \<Rightarrow>
          (case (cf_role_name p, cf_stack_id p) of
             (Some role, Some stack) \<Rightarrow> Some
               \<lparr>rs_url = url,
                rs_status = (if str_true error_message then ''FAILURE'' else ''SUCCESS''),
                rs_reason = (case error_message of Some e \<Rightarrow> if e = [] then ''OK'' else e | None \<Rightarrow> ''OK''),
                rs_logical_resource_id = logical, rs_physical_resource_id = physical,
                rs_stack_id = stack, rs_request_id = request, rs_role_name = role\<rparr>
           | _ \<Rightarrow> None)
      | _ \<Rightarrow> None)"

definition send_response ::
  "service_env \<Rightarrow> cf_message \<Rightarrow> string option \<Rightarrow> string option \<Rightarrow> unit io" where
  "send_response env msg physical_resource_id error_message =
     (case response_of msg physical_resource_id error_message of
        None \<Rightarrow> mark_failed
      | Some r \<Rightarrow>
          seq (modify (\<lambda>w. w\<lparr>cf_responses := cf_responses w @ [r]\<rparr>))
            (if cf_put_ok env r then ret () else raise RuntimeError))"

text \<open>\<open>s.split(c)\<close>: the parts between the separators, one more than there are separators.\<close>

fun split_on :: "char \<Rightarrow> string \<Rightarrow> string list" where
  "split_on c [] = [[]]"
| "split_on c (x # xs) =
     (if x = c then [] # split_on c xs
      else (case split_on c xs of p # ps \<Rightarrow> (x # p) # ps | [] \<Rightarrow> [[x]]))"

definition stack_prefix :: string where
  "stack_prefix = ''arn:aws:cloudformation:''"

definition account_of_stack :: "string \<Rightarrow> string option" where
  "account_of_stack stack_id =
     (if take (length stack_prefix) stack_id = stack_prefix \<and> count_list stack_id (CHR '':'') = 5
      then Some (split_on (CHR '':'') stack_id ! 4) else None)"

definition handle_stack_created :: "service_env \<Rightarrow> cf_message \<Rightarrow> account option io" where
  "handle_stack_created env msg =
     (case Option.bind (cf_resource_properties msg) (\<lambda>p.
           Option.bind (cf_workspace_id p) (\<lambda>workspace_id.
           Option.bind (cf_external_id p) (\<lambda>external_id.
           Option.bind (cf_role_name p) (\<lambda>role_name.
           Option.bind (cf_stack_id p) (\<lambda>stack_id.
           Option.bind (account_of_stack stack_id) (\<lambda>account_id.
           Some (workspace_id, external_id, role_name, account_id))))))) of
        None \<Rightarrow>
          seq mark_failed
            (bind uuid4 (\<lambda>i.
             seq (send_response env msg (Some (uuid_str i)) (Some ''Invalid format for CF stack create/update event''))
               (ret None)))
      | Some (workspace_id, external_id, role_name, account_id) \<Rightarrow>
          bind (create_aws_account workspace_id account_id (Some role_name) external_id None) (\<lambda>account.
          seq (send_response env msg (Some (uuid_str (ca_id account))) None)
            (ret (Some account))))"

definition handle_stack_deleted :: "service_env \<Rightarrow> cf_message \<Rightarrow> account option io" where
  "handle_stack_deleted env msg =
     (case Option.bind (cf_resource_properties msg) (\<lambda>p.
           Option.bind (cf_role_name p) (\<lambda>role_name.
           Option.bind (cf_external_id p) (\<lambda>external_id.
           Option.bind (cf_physical_account_id msg) (\<lambda>cloud_account_id.
           Some (role_name, external_id, cloud_account_id))))) of
        None \<Rightarrow>
          seq mark_failed
            (bind uuid4 (\<lambda>i.
             seq (send_response env msg (Some (uuid_str i)) (Some ''Invalid format for CF stack delete event''))
               (ret None)))
      | Some (role_name, external_id, cloud_account_id) \<Rightarrow>
          bind (repo_get cloud_account_id) (\<lambda>found.
          bind (case found of
                  None \<Rightarrow> ret None
                | Some account \<Rightarrow>
                    if same_access account external_id role_name
                    then bind (degrade_account cloud_account_id ''CloudformationStack deleted'' Stack_deleted)
                           (\<lambda>a. ret (Some a))
                    else ret (Some account)) (\<lambda>account.
          seq (send_response env msg (Some (uuid_str cloud_account_id)) None)
            (ret account))))"

text \<open>
  The whole handler: an unknown kind of request is acknowledged with the envelope of the queue
  message, which has none of the fields of the body.
\<close>

definition envelope :: cf_message where
  "envelope = \<lparr>cf_request_type = None, cf_resource_properties = None, cf_physical_resource_id = None,
     cf_physical_account_id = None, cf_request_id = None, cf_logical_resource_id = None,
     cf_response_url = None\<rparr>"

definition process_cf_stack_event :: "service_env \<Rightarrow> cf_message option \<Rightarrow> account option io" where
  "process_cf_stack_event env body =
     catch
       (case body of None \<Rightarrow> raise ValueError
        | Some msg \<Rightarrow>
            (case cf_request_type msg of None \<Rightarrow> raise KeyError
             | Some kind \<Rightarrow>
                 if kind = ''Create'' then handle_stack_created env msg
                 else if kind = ''Delete'' then handle_stack_deleted env msg
                 else if kind = ''Update'' then handle_stack_created env msg
                 else seq (send_response env envelope None None) (ret None)))
       (\<lambda>_. seq mark_failed (ret None))"

subsection \<open>Results of a collect run\<close>

definition compute_failed_scan_count :: "int \<Rightarrow> collect_info \<Rightarrow> account \<Rightarrow> bool \<Rightarrow> int" where
  "compute_failed_scan_count threshold collect_info acc failed =
     (if failed then ca_failed_scan_count acc + 1
      else if ci_scanned_resources collect_info \<le> threshold then ca_failed_scan_count acc + 1
      else 0)"

definition after_collect ::
  "int \<Rightarrow> datetime option \<Rightarrow> bool \<Rightarrow> collect_info \<Rightarrow> account \<Rightarrow> account" where
  "after_collect threshold next_run failed collect_info acc = acc\<lparr>
     ca_last_scan_duration_seconds := ci_duration_seconds collect_info,
     ca_last_scan_resources_scanned := ci_scanned_resources collect_info,
     ca_last_scan_started_at := Some (ci_started_at collect_info),
     ca_next_scan := next_run,
     ca_failed_scan_count := compute_failed_scan_count threshold collect_info acc failed,
     ca_last_task_id := ci_task_id collect_info,
     ca_last_scan_resources_errors := int (length (ci_errors collect_info))\<rparr>"

text \<open>One iteration of the loops over the accounts of the two events.\<close>

definition account_collected :: "int \<Rightarrow> datetime option \<Rightarrow> uuid \<times> collect_info \<Rightarrow> unit io" where
  "account_collected threshold next_run = (\<lambda>(account_id, collect_info).
     bind (repo_update account_id (\<lambda>acc. Inr (after_collect threshold next_run False collect_info acc))) (\<lambda>updated.
     seq (if 3 < ca_failed_scan_count updated
          then bind (degrade_account (ca_id updated) ''Too many consecutive failed scans'' Other) (\<lambda>_. ret ())
          else ret ())
         (if ca_failed_scan_count updated = 0
          then bind (undegrade_account (ca_id updated)) (\<lambda>_. ret ())
          else ret ())))"

definition account_collect_failed :: "int \<Rightarrow> datetime option \<Rightarrow> uuid \<times> collect_info \<Rightarrow> unit io" where
  "account_collect_failed threshold next_run = (\<lambda>(account_id, collect_info).
     bind (repo_update account_id (\<lambda>acc. Inr (after_collect threshold next_run True collect_info acc))) (\<lambda>updated.
     if 3 < ca_failed_scan_count updated
     then bind (degrade_account (ca_id updated) ''Too many consecutive failed scans'' Other) (\<lambda>_. ret ())
     else ret ()))"

definition user_id_from_workspace :: "service_env \<Rightarrow> uuid \<Rightarrow> uuid io" where
  "user_id_from_workspace env workspace_id =
     bind (get_workspace workspace_id) (\<lambda>workspace.
     case workspace of Some ws \<Rightarrow> ret (ws_owner_id ws) | None \<Rightarrow> ret (unknown_workspace_user env))"

definition on_tenant_accounts_collected ::
  "service_env \<Rightarrow> uuid \<Rightarrow> (uuid \<times> collect_info) list \<Rightarrow> (uuid \<times> collect_info) list \<Rightarrow>
   datetime option \<Rightarrow> unit io" where
  "on_tenant_accounts_collected env tenant_id cloud_accounts cloud_accounts_failed next_run =
     bind (repo_list (map fst cloud_accounts)) (\<lambda>found.
     let collected_accounts = filter (\<lambda>a. ca_id a \<in> fst ` set cloud_accounts) found;
         first_workspace_collect = list_all (\<lambda>a. ca_last_scan_started_at a = None) found;
         first_account_collect = list_ex (\<lambda>a. ca_last_scan_started_at a = None) collected_accounts in
     seq (for_each (account_collected (account_failed_resource_count env) next_run)
            (dict_union cloud_accounts cloud_accounts_failed))
     (seq (send_pub_sub_message (TenantAccountsCollected tenant_id cloud_accounts cloud_accounts_failed next_run))
     (bind (user_id_from_workspace env tenant_id) (\<lambda>user_id.
      seq (if first_workspace_collect
           then seq (send_analytics (AEFirstWorkspaceCollectFinished user_id tenant_id))
                  (send_mail (MailToWorkspace tenant_id SecurityScanFinished))
           else ret ())
     (seq (if first_account_collect
           then bind (user_id_from_workspace env tenant_id) (\<lambda>user_id.
                send_analytics (AEFirstAccountCollectFinished user_id tenant_id))
           else ret ())
          (send_analytics (AEWorkspaceCollectFinished user_id tenant_id (length cloud_accounts)
             (sum_list (map (ci_scanned_resources \<circ> snd) cloud_accounts)))))))))"

definition on_tenant_accounts_collect_failed ::
  "service_env \<Rightarrow> (uuid \<times> collect_info) list \<Rightarrow> datetime option \<Rightarrow> unit io" where
  "on_tenant_accounts_collect_failed env cloud_accounts next_run =
     for_each (account_collect_failed (account_failed_resource_count env) next_run) cloud_accounts"

subsection \<open>Changes of accounts and subscriptions\<close>

definition process_discovered_event :: "aws_api \<Rightarrow> uuid \<Rightarrow> unit io" where
  "process_discovered_event api cloud_account_id =
     bind (repo_get cloud_account_id) (\<lambda>found.
     case found of None \<Rightarrow> ret ()
     | Some account \<Rightarrow> bind (configure_account api True account) (\<lambda>_. ret ()))"

definition on_cloud_account_degraded :: "domain_event \<Rightarrow> unit io" where
  "on_cloud_account_degraded event = (case event of
     CloudAccountDegraded cloud cloud_account_id tenant_id account_id account_name error reason \<Rightarrow>
       bind (get_workspace tenant_id) (\<lambda>workspace.
       case workspace of None \<Rightarrow> ret ()
       | Some ws \<Rightarrow>
           seq (if cloud \<noteq> ''gcp''
                then send_mail (MailToWorkspace tenant_id
                       (AccountDegraded cloud account_id tenant_id (ws_name ws) account_name (reason = Stack_deleted)))
                else ret ())
             (send_pub_sub_message event))
   | _ \<Rightarrow> ret ())"

text \<open>\<open>account_limit or math.inf\<close>, compared.\<close>

fun limit_less :: "nat option \<Rightarrow> nat option \<Rightarrow> bool" where
  "limit_less (Some m) (Some n) \<longleftrightarrow> m < n"
| "limit_less (Some m) None \<longleftrightarrow> True"
| "limit_less None _ \<longleftrightarrow> False"

definition on_product_tier_changed ::
  "uuid \<Rightarrow> uuid \<Rightarrow> product_tier \<Rightarrow> product_tier \<Rightarrow> unit io" where
  "on_product_tier_changed workspace_id event_user_id tier previous_tier =
     bind (update_next_run_for workspace_id tier None) (\<lambda>_.
     let new_account_limit = limit_of (account_limit (product_tier_settings tier));
         old_account_limit = limit_of (account_limit (product_tier_settings previous_tier)) in
     bind (get_workspace workspace_id) (\<lambda>workspace.
     case workspace of None \<Rightarrow> ret ()
     | Some ws \<Rightarrow>
         seq (case new_account_limit of
                Some limit \<Rightarrow>
                  if limit_less new_account_limit old_account_limit
                  then bind (list_accounts workspace_id) (\<lambda>all_accounts.
                       let to_delete = drop_last_slice limit all_accounts in
                       for_each (\<lambda>cloud_account.
                         delete_cloud_account event_user_id (ca_id cloud_account) workspace_id) to_delete)
                  else ret ()
              | None \<Rightarrow> ret ())
           (if limit_less old_account_limit new_account_limit
            then enable_cloud_accounts workspace_id else ret ())))"

definition on_subscription_cancelled :: "uuid \<Rightarrow> unit io" where
  "on_subscription_cancelled subscription_id =
     bind (list_workspaces_by_subscription_id subscription_id) (\<lambda>workspaces.
     for_each (\<lambda>ws.
       bind utc (\<lambda>now.
       bind (update_payment_on_hold (ws_id ws) (Some now)) (\<lambda>_.
       bind (update_subscription (ws_id ws) None) (\<lambda>_.
       let limit = (case limit_of (account_limit free_setting) of Some n \<Rightarrow> n | None \<Rightarrow> 1) in
       disable_cloud_accounts (ws_id ws) limit)))) workspaces)"

definition on_subscription_created :: "uuid \<Rightarrow> unit io" where
  "on_subscription_created subscription_id =
     bind (list_workspaces_by_subscription_id subscription_id) (\<lambda>workspaces.
     for_each (\<lambda>ws.
       bind (update_payment_on_hold (ws_id ws) None) (\<lambda>_.
       bind utc (\<lambda>now.
       bind (update_next_run_for (ws_id ws) (current_product_tier now ws) None) (\<lambda>_.
       enable_cloud_accounts (ws_id ws))))) workspaces)"

subsection \<open>The dispatch by kind\<close>

definition process_domain_event :: "service_env \<Rightarrow> domain_event \<Rightarrow> unit io" where
  "process_domain_event env event = (case event of
     TenantAccountsCollected tenant_id cloud_accounts cloud_accounts_failed next_run \<Rightarrow>
       on_tenant_accounts_collected env tenant_id cloud_accounts cloud_accounts_failed next_run
   | TenantAccountsCollectFailed tenant_id cloud_accounts next_run \<Rightarrow>
       on_tenant_accounts_collect_failed env cloud_accounts next_run
   | CloudAccountDiscovered cloud cloud_account_id tenant_id account_id \<Rightarrow>
       seq (process_discovered_event (env_api env) cloud_account_id) (send_pub_sub_message event)
   | CloudAccountConfigured cloud cloud_account_id tenant_id account_id \<Rightarrow> send_pub_sub_message event
   | CloudAccountDeleted cloud user_id cloud_account_id tenant_id account_id \<Rightarrow> send_pub_sub_message event
   | CloudAccountDegraded cloud cloud_account_id tenant_id account_id account_name error reason \<Rightarrow>
       on_cloud_account_degraded event
   | ProductTierChanged workspace_id user_id tier is_paid is_higher previous_tier \<Rightarrow>
       on_product_tier_changed workspace_id user_id tier previous_tier
   | SubscriptionCancelled subscription_id method \<Rightarrow> on_subscription_cancelled subscription_id
   | SubscriptionCreated workspace_id user_id subscription_id method \<Rightarrow> on_subscription_created subscription_id
   | _ \<Rightarrow> ret ())"

end
