(* ===== verification/Cloud_Account_Invariant.thy ===== *)
theory Cloud_Account_Invariant
  imports Cloud_Account_Events
begin

section \<open>The invariant of the cloud accounts\<close>

text \<open>
  Every operation of the service and every handler keeps \<open>accounts_ok\<close>: ids are unique and come
  from the supply, an account occurs once per workspace, every row can be read back, and the
  access data fit the account's cloud. One lemma per operation, then the reachable worlds.
\<close>

lemma acc_inv_row:
  "acc_inv k w \<Longrightarrow> tfind r_id i (accounts w) = Some r \<Longrightarrow> row_ok (next_uuid w) r"
  by (auto simp: acc_inv_def accounts_ok_def dest!: tfind_Some)

lemma good_fn_deleted: "good_fn c (\<lambda>acc. Inr (deleted_account now acc))"
  by (auto simp: good_fn_def same_account_def deleted_account_def)

lemma good_fn_degraded: "good_fn c (\<lambda>acc. Inr (set_degraded now e acc))"
  by (auto simp: good_fn_def same_account_def set_degraded_def access_fits_def split: option.splits prod.splits)

lemma good_fn_recovered: "good_fn c (\<lambda>acc. Inr (set_configured now acc))"
  by (auto simp: good_fn_def same_account_def set_configured_def access_fits_def split: option.splits prod.splits)

lemma good_fn_enabled: "good_fn c (set_enabled now e ws n)"
  by (auto simp: good_fn_def same_account_def set_enabled_def split: account_state.splits sum.splits)

lemma good_update_scan: "good_update c (set_scan ws s)"
  by (auto simp: good_update_def same_account_def set_scan_def split: account_state.splits)

lemma good_fn_switch_off: "good_fn c switch_off"
  by (auto simp: good_fn_def same_account_def switch_off_def split: account_state.splits)

lemma good_fn_after_collect: "good_fn c (\<lambda>acc. Inr (after_collect th nr f ci acc))"
  by (auto simp: good_fn_def same_account_def after_collect_def)

lemma good_fn_configured:
  "good_fn (Some (access_cloud access)) (update_to_configured now access p)"
  by (auto simp: good_fn_def same_account_def update_to_configured_def split: account_state.splits)

lemma preserves_publish_acc [pres]: "preserves (acc_inv k) (publish e)"
  by (intro pres) simp

lemma preserves_send_pub_sub_acc [pres]: "preserves (acc_inv k) (send_pub_sub_message e)"
  by (intro pres) simp

lemma preserves_send_mail_acc [pres]: "preserves (acc_inv k) (send_mail e)"
  by (intro pres) simp

lemma preserves_send_analytics_acc [pres]: "preserves (acc_inv k) (send_analytics e)"
  by (intro pres) simp

lemma preserves_orgs_acc [pres]:
  "preserves (acc_inv k) (update_subscription i s)" "preserves (acc_inv k) (update_payment_on_hold i h)"
  "preserves (acc_inv k) (update_product_tier i t)" "preserves (acc_inv k) (update_next_run_for i tier lr)"
  by (intro pres; simp)+

lemma preserves_update_acc:
  "(\<And>c. good_fn c f) \<Longrightarrow> preserves (acc_inv k) (repo_update i f)"
  by (rule repo_update_inv)

lemma preserves_create_acc:
  assumes "access_fits cloud state" and "cloud = ''aws'' \<longleftrightarrow> aws_account_id account_id"
    and cont: "\<And>a. preserves (acc_inv k) (f a)"
  shows "preserves (acc_inv k)
    (bind uuid4 (\<lambda>i. bind (repo_create (fresh_account i account_id ws cloud state nm now)) f))"
proof (rule preservesI)
  fix w assume inv: "acc_inv k w"
  let ?w = "w\<lparr>next_uuid := Suc (next_uuid w)\<rparr>"
  let ?a = "fresh_account (next_uuid w) account_id ws cloud state nm now"
  have "acc_inv k (snd (repo_create ?a ?w))"
    by (rule repo_create_inv) (use assms acc_inv_supply [OF inv] in \<open>simp_all add: fresh_account_def\<close>)
  then show "acc_inv k (snd (bind uuid4 (\<lambda>i. bind (repo_create (fresh_account i account_id ws cloud state nm now)) f) w))"
    using cont by (auto simp: run_defs preserves_def split: sum.splits prod.splits)
qed

subsection \<open>One lemma per operation\<close>

lemma should_be_enabled_same: "snd (should_be_enabled ws w) = w"
  by (simp add: should_be_enabled_def run_defs count_by_workspace_id_def split: option.splits)

lemma preserves_should_be_enabled [pres, simp]: "preserves I (should_be_enabled ws)"
  unfolding should_be_enabled_def by (intro pres)

lemma preserves_announce [pres]: "preserves (acc_inv k) (announce_discovered ws a r)"
  unfolding announce_discovered_def by (intro pres)

lemma preserves_rename [pres]: "preserves (acc_inv k) (rename_existing ws a n t)"
  unfolding rename_existing_def
  by (intro pres preserves_update_acc) (auto simp: good_fn_def same_account_def)

lemma repo_get_by_account_id_row:
  assumes "repo_get_by_account_id ws account_id w = (Inr (Some a), w')"
  shows "\<exists>r. r \<in> set (accounts w) \<and> r_id r = ca_id a \<and> r_cloud r = ca_cloud a \<and>
    r_account_id r = account_id \<and> r_tenant_id r = ws"
proof -
  obtain r where r: "find (\<lambda>r. r_tenant_id r = ws \<and> r_account_id r = account_id) (accounts w) = Some r"
    "to_model (map_option n_at (tfind n_tenant_id ws (next_runs w))) r = Inr a"
    using assms by (auto simp: repo_get_by_account_id_def run_defs split: option.splits sum.splits)
  from r(1) have "r \<in> set (accounts w)" "r_tenant_id r = ws" "r_account_id r = account_id"
    by (auto simp: find_Some_iff)
  then show ?thesis using to_model_fields(1,4) [OF r(2)] by auto
qed

text \<open>What a search finds has the cloud that its id tells.\<close>

lemma found_cloud:
  assumes "accounts_ok w" and "aws_account_id account_id"
    and "repo_get_by_account_id ws account_id w = (Inr (Some a), w')"
  shows "has_cloud (ca_id a) ''aws'' w"
proof -
  obtain row where row: "row \<in> set (accounts w)" "r_id row = ca_id a" "r_account_id row = account_id"
    using repo_get_by_account_id_row [OF assms(3)] by blast
  have "tfind r_id (ca_id a) (accounts w) = Some row"
    using tfind_in [of r_id "accounts w" row] assms(1) row by (auto simp: accounts_ok_def)
  moreover have "r_cloud row = ''aws''" using assms(1,2) row by (auto simp: accounts_ok_def row_ok_def)
  ultimately show ?thesis by (simp add: has_cloud_def)
qed

lemma preserves_world: "preserves I m \<Longrightarrow> I w \<Longrightarrow> I (snd (m w))"
  by (simp add: preserves_def)

lemma bind_world:
  "I (snd (m w)) \<Longrightarrow> (\<And>a. preserves I (f a)) \<Longrightarrow> I (snd (bind m f w))"
  by (auto simp: bind_def preserves_def split: prod.splits sum.splits)

lemma preserves_create_aws [pres]:
  assumes aws: "aws_account_id account_id"
  shows "preserves (acc_inv k) (create_aws_account ws account_id role ext nm)"
proof (rule preservesI)
  fix w assume inv: "acc_inv k w"
  have redisc: "acc_inv k (snd (bind (rediscover_existing a (Discovered (AwsCloudAccess ext r) en) n t)
      (announce_discovered ws account_id) w))" if "has_cloud (ca_id a) ''aws'' w" for a r en n t
    by (rule bind_world)
      (use repo_update_world [OF inv that] in \<open>auto simp: rediscover_existing_def good_fn_def same_account_def
        intro!: preserves_announce\<close>)
  have create: "acc_inv k (snd (bind uuid4 (\<lambda>i. bind (repo_create (fresh_account i account_id ws ''aws'' st nm now))
      (announce_discovered ws account_id)) w))" if "access_fits ''aws'' st" for st now
    by (rule preserves_world [OF preserves_create_acc inv]) (use that aws in \<open>auto intro: preserves_announce\<close>)
  note rename = preserves_world [OF preserves_rename inv]
  obtain x where x: "get_workspace ws w = (x, w)"
    using get_workspace_same [of ws w] by (metis prod.collapse)
  obtain z where z: "repo_get_by_account_id ws account_id w = (z, w)"
    using repo_get_by_account_id_same [of ws account_id w] by (metis prod.collapse)
  note steps = inv x z create_aws_account_def
  show "acc_inv k (snd (create_aws_account ws account_id role ext nm w))"
  proof (cases x)
    case (Inl e)
    with steps show ?thesis by simp
  next
    case (Inr found)
    show ?thesis
    proof (cases found)
      case None
      with steps Inr show ?thesis by simp
    next
      case (Some m)
      obtain y where y: "should_be_enabled m w = (y, w)"
        using should_be_enabled_same [of m w] by (metis prod.collapse)
      show ?thesis
      proof (cases "ws_external_id m = ext \<and> \<not> isl y \<and> \<not> isl z")
        case False
        with steps Inr Some y show ?thesis by (cases y; cases z) simp_all
      next
        case True
        then obtain en ex where "y = Inr en" "z = Inr ex" by (cases y; cases z) auto
        note run = True steps(2-) Inr Some y this
        show ?thesis
        proof (cases ex)
          case None
          let ?st = "case role of None \<Rightarrow> Detected | Some r \<Rightarrow> Discovered (AwsCloudAccess ext r) en"
          have "access_fits ''aws'' ?st" by (cases role) simp_all
          from create [OF this, of "clock w"] show ?thesis using run None by (simp add: Let_def)
        next
          case (Some old)
          let ?n = "str_or nm (ca_account_name old)"
          let ?t = "if ca_state old = Deleted then clock w else ca_created_at old"
          have cloud: "has_cloud (ca_id old) ''aws'' w"
            by (rule found_cloud [OF acc_inv_ok [OF inv] aws]) (use run Some in simp)
          show ?thesis
          proof (cases "\<exists>r. role = Some r \<and> \<not> same_access old ext r")
            case True
            with run Some redisc [OF cloud, of _ en ?n ?t] show ?thesis by (auto simp: Let_def)
          next
            case False
            then have "create_aws_account ws account_id role ext nm w = rename_existing ws old ?n ?t w"
              using run Some by (cases role) (simp_all add: Let_def)
            with rename show ?thesis by simp
          qed
        qed
      qed
    qed
  qed
qed

lemma preserves_create_gcp [pres]:
  "\<not> aws_account_id a \<Longrightarrow> preserves (acc_inv k) (create_gcp_account ws a key nm)"
  unfolding create_gcp_account_def
  by (intro pres preserves_create_acc preserves_readers preserves_get_workspace preserves_should_be_enabled) simp_all

lemma preserves_create_azure [pres]:
  "\<not> aws_account_id a \<Longrightarrow> preserves (acc_inv k) (create_azure_account ws a key nm)"
  unfolding create_azure_account_def
  by (intro pres preserves_create_acc preserves_readers preserves_get_workspace preserves_should_be_enabled) simp_all

lemma preserves_delete [pres]: "preserves (acc_inv k) (delete_cloud_account u i ws)"
  unfolding delete_cloud_account_def by (intro pres preserves_update_acc good_fn_deleted)

lemma preserves_get_cloud_account [pres, simp]: "preserves I (get_cloud_account i ws)"
  unfolding get_cloud_account_def by (intro pres)

lemma preserves_list_accounts [pres, simp]: "preserves I (list_accounts ws)"
  by (simp add: list_accounts_def)

lemma preserves_update_name [pres]: "preserves (acc_inv k) (update_cloud_account_name ws i n)"
  unfolding update_cloud_account_name_def
  by (intro pres preserves_update_acc) (auto simp: good_fn_def same_account_def)

lemma preserves_update_enabled [pres]: "preserves (acc_inv k) (update_cloud_account_enabled ws i e)"
  unfolding update_cloud_account_enabled_def by (intro pres preserves_update_acc good_fn_enabled)

lemma preserves_update_scan [pres]: "preserves (acc_inv k) (update_cloud_account_scan_enabled ws i s)"
  unfolding update_cloud_account_scan_enabled_def by (intro pres repo_update_with_inv good_update_scan)

lemma preserves_disable [pres]: "preserves (acc_inv k) (disable_cloud_account ws i)"
  unfolding disable_cloud_account_def by (intro pres preserves_update_acc good_fn_switch_off)

lemma preserves_degrade [pres]: "preserves (acc_inv k) (degrade_account i e r)"
  unfolding degrade_account_def by (intro pres preserves_update_acc good_fn_degraded)

lemma preserves_undegrade [pres]: "preserves (acc_inv k) (undegrade_account i)"
  unfolding undegrade_account_def by (intro pres preserves_update_acc good_fn_recovered)

lemma preserves_disable_all [pres]: "preserves (acc_inv k) (disable_cloud_accounts ws n)"
  unfolding disable_cloud_accounts_def try_enabled_def by (intro pres)

lemma preserves_enable_all [pres]: "preserves (acc_inv k) (enable_cloud_accounts ws)"
  unfolding enable_cloud_accounts_def try_enabled_def by (intro pres)

subsection \<open>Configuring accounts\<close>

text \<open>Documented behaviour of the organization service: it lists accounts by their AWS ids.\<close>

definition lists_aws_ids :: "aws_api \<Rightarrow> bool" where
  "lists_aws_ids api \<longleftrightarrow> (\<forall>cred found. list_organization_accounts api cred = Some found \<longrightarrow>
     (\<forall>x\<in>set found. aws_account_id (fst x)))"

lemma preserves_inspect [pres]:
  assumes "lists_aws_ids api"
  shows "preserves (acc_inv k) (inspect_account api cred ext a)"
proof -
  have loop: "preserves (acc_inv k) (for_each (\<lambda>(acc_id, name).
      bind (create_aws_account (ca_workspace_id a) acc_id None ext (Some name)) (\<lambda>_. ret ())) found)"
    if "list_organization_accounts api cred = Some found" for found
  proof (rule preserves_for_each)
    fix x assume "x \<in> set found"
    then have "aws_account_id (fst x)" using that assms unfolding lists_aws_ids_def by blast
    then show "preserves (acc_inv k) (case x of (acc_id, name) \<Rightarrow>
        bind (create_aws_account (ca_workspace_id a) acc_id None ext (Some name)) (\<lambda>_. ret ()))"
      by (cases x) (auto intro!: pres)
  qed
  have store_alias: "preserves (acc_inv k) (repo_update (ca_id a) (\<lambda>acc. Inr (acc\<lparr>ca_account_alias := al\<rparr>)))" for al
    by (rule preserves_update_acc) (auto simp: good_fn_def same_account_def)
  show ?thesis
    unfolding inspect_account_def
    by (intro preserves_bind preserves_seq preserves_option preserves_if preserves_let preserves_lift
        preserves_ret preserves_raise loop store_alias)
qed

lemma preserves_assume_role_failed [pres]: "preserves (acc_inv k) (assume_role_failed ev a)"
  unfolding assume_role_failed_def by (intro pres)

lemma has_cloud_preserved:
  "preserves (acc_inv (Some (i, c))) m \<Longrightarrow> accounts_ok w \<Longrightarrow> has_cloud i c w \<Longrightarrow> has_cloud i c (snd (m w))"
  by (auto simp: preserves_def acc_inv_def)

lemma finish_configuration_inv:
  assumes "acc_inv k w" and "has_cloud (ca_id a) (access_cloud access) w"
  shows "acc_inv k (snd (finish_configuration access p a w))"
  using repo_update_world [OF assms good_fn_configured, of "clock w" p]
  by (auto simp: finish_configuration_def run_defs split: sum.splits prod.splits)

lemma configure_account_inv:
  assumes inv: "acc_inv k w" and cloud: "has_cloud (ca_id a) (ca_cloud a) w" and api: "lists_aws_ids api"
  shows "acc_inv k (snd (configure_account api ev a w))"
proof (cases "\<exists>e r x cred. ca_cloud a = ''aws'' \<and> ca_state a = Discovered (AwsCloudAccess e r) x \<and>
    can_assume_role api (ca_account_id a) r e = Success cred")
  case False
  then show ?thesis
    using inv preserves_world [OF preserves_assume_role_failed inv, of ev a]
    by (auto simp: configure_account_def split: account_state.split cloud_access.split assume_role_result.split)
next
  case True
  then obtain e r x cred where st: "ca_cloud a = ''aws''" "ca_state a = Discovered (AwsCloudAccess e r) x"
    "can_assume_role api (ca_account_id a) r e = Success cred" by blast
  have keep: "preserves (acc_inv k') (inspect_account api cred e a)" for k'
    by (rule preserves_inspect [OF api])
  obtain res w' where run: "inspect_account api cred e a w = (res, w')" by force
  have "acc_inv k w'" "has_cloud (ca_id a) ''aws'' w'"
    using preserves_world [OF keep inv] has_cloud_preserved [OF keep acc_inv_ok [OF inv]] cloud run st(1) by auto
  then have "acc_inv k (snd (finish_configuration (AwsCloudAccess e r) p a w'))" for p
    by (intro finish_configuration_inv) simp_all
  with st run \<open>acc_inv k w'\<close> show ?thesis
    by (cases res) (simp_all add: configure_account_def)
qed

lemma listed_clouds:
  assumes "accounts_ok w" and "repo_list_result = traverse (to_model n) (filter P (accounts w))"
    and "repo_list_result = Inr found" and "a \<in> set found"
  shows "has_cloud (ca_id a) (ca_cloud a) w"
proof -
  obtain r where r: "r \<in> set (accounts w)" "to_model n r = Inr a"
    using traverse_Inr_in [of "to_model n" "filter P (accounts w)" found a] assms by auto
  then have "tfind r_id (ca_id a) (accounts w) = Some r"
    using tfind_in [of r_id "accounts w" r] assms(1) to_model_fields(1) [OF r(2)] by (simp add: accounts_ok_def)
  then show ?thesis using to_model_fields(4) [OF r(2)] by (simp add: has_cloud_def)
qed

lemma for_each_inv:
  assumes "\<And>x w. x \<in> set xs \<Longrightarrow> J w \<Longrightarrow> J (snd (f x w))" and "J w"
  shows "J (snd (for_each f xs w))"
  using assms
proof (induction xs arbitrary: w)
  case (Cons x xs)
  obtain r w' where run: "f x w = (r, w')" by force
  with Cons.prems have "J w'" by (metis list.set_intros(1) snd_conv)
  with Cons run show ?case by (cases r) auto
qed simp

lemma preserves_configure_discovered [pres]:
  assumes api: "lists_aws_ids api"
  shows "preserves (acc_inv k) (configure_discovered_accounts api)"
proof (rule preservesI)
  fix w assume inv: "acc_inv k w"
  obtain res where list: "list_all_discovered_accounts w = (res, w)"
    using list_all_discovered_same [of w] by (metis prod.collapse)
  show "acc_inv k (snd (configure_discovered_accounts api w))"
  proof (cases res)
    case (Inl e)
    with list inv show ?thesis by (simp add: configure_discovered_accounts_def)
  next
    case (Inr found)
    let ?J = "\<lambda>w. acc_inv k w \<and> (\<forall>a\<in>set found. has_cloud (ca_id a) (ca_cloud a) w)"
    let ?f = "\<lambda>a. bind utc (\<lambda>now. if td_minutes 30 < now - ca_state_updated_at a
       then bind (degrade_account (ca_id a) ''Account in discovered state for too long'' Other) (\<lambda>_. ret ())
       else catch (bind (configure_account api False a) (\<lambda>_. ret ())) (\<lambda>_. ret ()))"
    have step: "acc_inv k' (snd (?f a v))" if "acc_inv k' v" "has_cloud (ca_id a) (ca_cloud a) v" for k' a v
      using configure_account_inv [OF that api, of False] preserves_world [OF preserves_degrade that(1)]
      by (auto simp: run_defs split: sum.splits prod.splits) (metis snd_conv)+
    have "?J (snd (for_each ?f found w))"
    proof (rule for_each_inv)
      fix a v assume a: "a \<in> set found" and J: "?J v"
      have "has_cloud (ca_id b) (ca_cloud b) (snd (?f a v))" if "b \<in> set found" for b
        using step [of "Some (ca_id b, ca_cloud b)" v a] J that a by (auto simp: acc_inv_def)
      with step [of k v a] J a show "?J (snd (?f a v))" by blast
    next
      show "?J w"
        using inv list Inr listed_clouds [OF acc_inv_ok [OF inv] refl]
        by (auto simp: list_all_discovered_accounts_def)
    qed
    with list Inr show ?thesis by (simp add: configure_discovered_accounts_def)
  qed
qed

lemma preserves_process_discovered [pres]:
  assumes api: "lists_aws_ids api"
  shows "preserves (acc_inv k) (process_discovered_event api i)"
proof (rule preservesI)
  fix w assume inv: "acc_inv k w"
  obtain res where get: "repo_get i w = (res, w)" using repo_get_same [of i w] by (metis prod.collapse)
  show "acc_inv k (snd (process_discovered_event api i w))"
  proof (cases "\<exists>a. res = Inr (Some a)")
    case False
    with get inv show ?thesis
      by (cases res) (auto simp: process_discovered_event_def split: option.split)
  next
    case True
    then obtain a where a: "res = Inr (Some a)" by blast
    then obtain r n where r: "tfind r_id i (accounts w) = Some r" "to_model n r = Inr a"
      using get repo_get_Some by blast
    then have "has_cloud (ca_id a) (ca_cloud a) w"
      using to_model_fields(1,4) [OF r(2)] tfind_Some [OF r(1)] by (auto simp: has_cloud_def)
    from configure_account_inv [OF inv this api, of True] get a show ?thesis
      by (auto simp: process_discovered_event_def run_defs split: sum.splits prod.splits)
  qed
qed

subsection \<open>Events\<close>

lemma preserves_account_collected [pres]: "preserves (acc_inv k) (account_collected th nr x)"
  unfolding account_collected_def by (cases x) (simp, intro pres preserves_update_acc good_fn_after_collect)

lemma preserves_account_collect_failed [pres]: "preserves (acc_inv k) (account_collect_failed th nr x)"
  unfolding account_collect_failed_def by (cases x) (simp, intro pres preserves_update_acc good_fn_after_collect)

lemma preserves_user_id [pres, simp]: "preserves I (user_id_from_workspace env ws)"
  unfolding user_id_from_workspace_def by (intro pres)

lemma preserves_process_domain_event:
  assumes "lists_aws_ids (env_api env)"
  shows "preserves (acc_inv k) (process_domain_event env e)"
  unfolding process_domain_event_def
  by (cases e)
    (simp_all, (simp add: on_tenant_accounts_collected_def on_tenant_accounts_collect_failed_def
      on_cloud_account_degraded_def on_product_tier_changed_def on_subscription_cancelled_def
      on_subscription_created_def Let_def split: domain_event.split |
      intro pres assms conjI impI allI)+)

definition cf_account_ok :: "cf_message \<Rightarrow> bool" where
  "cf_account_ok msg \<longleftrightarrow> (\<forall>p stack a. cf_resource_properties msg = Some p \<longrightarrow> cf_stack_id p = Some stack \<longrightarrow>
     account_of_stack stack = Some a \<longrightarrow> aws_account_id a)"

lemma preserves_mark_failed [pres]: "preserves (acc_inv k) mark_failed"
  by (simp add: mark_failed_def preserves_def)

lemma preserves_send_response [pres]: "preserves (acc_inv k) (send_response env msg p e)"
  unfolding send_response_def by (intro pres) simp

lemma preserves_stack_created:
  assumes "cf_account_ok msg"
  shows "preserves (acc_inv k) (handle_stack_created env msg)"
  unfolding handle_stack_created_def
proof (rule preserves_option)
  fix v assume v: "Option.bind (cf_resource_properties msg) (\<lambda>p.
     Option.bind (cf_workspace_id p) (\<lambda>workspace_id. Option.bind (cf_external_id p) (\<lambda>external_id.
     Option.bind (cf_role_name p) (\<lambda>role_name. Option.bind (cf_stack_id p) (\<lambda>stack_id.
     Option.bind (account_of_stack stack_id) (\<lambda>account_id.
     Some (workspace_id, external_id, role_name, account_id))))))) = Some v"
  obtain a b c d where eq: "v = (a, b, c, d)" by (cases v)
  have "aws_account_id d" using v assms unfolding eq cf_account_ok_def by (auto simp: bind_eq_Some_conv)
  then show "preserves (acc_inv k) (case v of (workspace_id, external_id, role_name, account_id) \<Rightarrow>
      bind (create_aws_account workspace_id account_id (Some role_name) external_id None) (\<lambda>account.
      seq (send_response env msg (Some (uuid_str (ca_id account))) None) (ret (Some account))))"
    unfolding eq by (auto intro!: pres)
qed (intro pres)

lemma preserves_stack_deleted: "preserves (acc_inv k) (handle_stack_deleted env msg)"
  unfolding handle_stack_deleted_def by (intro pres)

lemma preserves_stack_event:
  assumes "\<And>msg. body = Some msg \<Longrightarrow> cf_account_ok msg"
  shows "preserves (acc_inv k) (process_cf_stack_event env body)"
  unfolding process_cf_stack_event_def
  by (intro pres preserves_stack_created preserves_stack_deleted assms)

subsection \<open>The reachable worlds\<close>

text \<open>
  What the service can be asked to do. A command is well formed when the account ids it creates
  have the format of their cloud.
\<close>

datatype command =
    Create_aws uuid string "string option" uuid "string option"
  | Create_gcp uuid string uuid "string option"
  | Create_azure uuid string uuid "string option"
  | Delete_account uuid uuid uuid
  | Rename uuid uuid "string option"
  | Set_enabled uuid uuid bool
  | Set_scan uuid uuid bool
  | Disable uuid uuid
  | Disable_all uuid nat
  | Enable_all uuid
  | Configure_discovered
  | Event domain_event
  | Stack_event "cf_message option"

fun well_formed :: "command \<Rightarrow> bool" where
  "well_formed (Create_aws ws a role ext n) = aws_account_id a"
| "well_formed (Create_gcp ws a key n) = (\<not> aws_account_id a)"
| "well_formed (Create_azure ws a cred n) = (\<not> aws_account_id a)"
| "well_formed (Stack_event (Some msg)) = cf_account_ok msg"
| "well_formed _ = True"

definition silently :: "'a io \<Rightarrow> unit io" where
  "silently m = bind m (\<lambda>_. ret ())"

fun run_command :: "service_env \<Rightarrow> command \<Rightarrow> unit io" where
  "run_command env (Create_aws ws a role ext n) = silently (create_aws_account ws a role ext n)"
| "run_command env (Create_gcp ws a key n) = silently (create_gcp_account ws a key n)"
| "run_command env (Create_azure ws a cred n) = silently (create_azure_account ws a cred n)"
| "run_command env (Delete_account u i ws) = delete_cloud_account u i ws"
| "run_command env (Rename ws i n) = silently (update_cloud_account_name ws i n)"
| "run_command env (Set_enabled ws i e) = silently (update_cloud_account_enabled ws i e)"
| "run_command env (Set_scan ws i s) = silently (update_cloud_account_scan_enabled ws i s)"
| "run_command env (Disable ws i) = silently (disable_cloud_account ws i)"
| "run_command env (Disable_all ws n) = disable_cloud_accounts ws n"
| "run_command env (Enable_all ws) = enable_cloud_accounts ws"
| "run_command env Configure_discovered = configure_discovered_accounts (env_api env)"
| "run_command env (Event e) = process_domain_event env e"
| "run_command env (Stack_event body) = silently (process_cf_stack_event env body)"

lemma run_command_inv:
  assumes "lists_aws_ids (env_api env)" and "well_formed c"
  shows "preserves (acc_inv k) (run_command env c)"
  using assms preserves_process_domain_event [OF assms(1)]
  by (cases c) (auto simp: silently_def intro!: pres preserves_stack_event)

text \<open>
  Between commands the other services run, which leave the accounts alone and only draw more ids
  from the supply.
\<close>

inductive reachable :: "service_env \<Rightarrow> world \<Rightarrow> bool" for env where
  start: "reachable env (empty_world now n)"
| command: "reachable env w \<Longrightarrow> well_formed c \<Longrightarrow> reachable env (snd (run_command env c w))"
| others: "reachable env w \<Longrightarrow> accounts w' = accounts w \<Longrightarrow> next_uuid w \<le> next_uuid w' \<Longrightarrow> reachable env w'"

lemma reachable_inv:
  assumes "reachable env w" and "lists_aws_ids (env_api env)"
  shows "acc_inv None w"
  using assms(1)
proof (induction rule: reachable.induct)
  case (start now n)
  then show ?case by (simp add: accounts_ok_def empty_world_def)
next
  case (command w c)
  then show ?case using preserves_world [OF run_command_inv [OF assms(2), of c None]] by simp
next
  case (others w w')
  then show ?case using acc_inv_frame by blast
qed

text \<open>A service whose AWS calls list no accounts, for the examples.\<close>

definition sample_env :: service_env where
  "sample_env = \<lparr>account_failed_resource_count = 0, unknown_workspace_user = 0,
     env_api = sample_api\<lparr>organizations_list_accounts := \<lambda>_ _. Inl ''denied''\<rparr>, cf_put_ok = \<lambda>_. True\<rparr>"

lemma sample_env_lists: "lists_aws_ids (env_api sample_env)"
  by (simp add: lists_aws_ids_def list_organization_accounts_def sample_env_def account_pages.simps)

text \<open>
  C1: In every world the service can reach, whatever commands and events it handled, each account
  has its own id, occurs once in its workspace, and can be read back with access data of its own
  cloud.
\<close>

theorem reachable_accounts_ok:
  assumes "reachable env w" and "lists_aws_ids (env_api env)"
  shows "distinct (map r_id (accounts w)) \<and>
    distinct (map (\<lambda>r. (r_tenant_id r, r_account_id r)) (accounts w)) \<and>
    (\<forall>r\<in>set (accounts w). \<exists>a. to_model None r = Inr a \<and> access_fits (r_cloud r) (ca_state a))"
proof -
  have ok: "accounts_ok w" using reachable_inv [OF assms] by simp
  have "\<exists>a. to_model None r = Inr a \<and> access_fits (r_cloud r) (ca_state a)" if "r \<in> set (accounts w)" for r
  proof -
    have "readable r" using ok that by (auto simp: accounts_ok_def intro: row_ok_readable)
    then obtain a where "to_model None r = Inr a" using readable_to_model by blast
    then show ?thesis using to_model_fits [of None r a] to_model_fields(4) [of None r a] by auto
  qed
  with ok show ?thesis by (simp add: accounts_ok_def)
qed

lemma reachable_accounts_ok_witness:
  "distinct (map r_id (accounts (snd (run_command sample_env (Create_gcp 7 ''proj'' 3 None)
     ((empty_world 100 50)\<lparr>orgs := [sample_org]\<rparr>)))))"
proof -
  have "reachable sample_env ((empty_world 100 50)\<lparr>orgs := [sample_org]\<rparr>)"
    by (rule reachable.others [OF reachable.start [of _ 100 50]]) (simp_all add: empty_world_def)
  moreover have "well_formed (Create_gcp 7 ''proj'' 3 None)" by (simp add: aws_account_id_def)
  ultimately have "reachable sample_env (snd (run_command sample_env (Create_gcp 7 ''proj'' 3 None)
     ((empty_world 100 50)\<lparr>orgs := [sample_org]\<rparr>)))" by (rule reachable.command)
  from reachable_accounts_ok [OF this sample_env_lists] show ?thesis by blast
qed

text \<open>
  No command removes an account or moves it to another cloud: an account that exists still
  exists, with its cloud, after any command or event.
\<close>

theorem accounts_stay:
  assumes "accounts_ok w" and "lists_aws_ids (env_api env)" and "well_formed c"
    and "tfind r_id i (accounts w) = Some r"
  shows "\<exists>r'. tfind r_id i (accounts (snd (run_command env c w))) = Some r' \<and> r_cloud r' = r_cloud r"
proof -
  have "acc_inv (Some (i, r_cloud r)) w" using assms by (simp add: acc_inv_def has_cloud_def)
  from preserves_world [OF run_command_inv [OF assms(2,3)] this] show ?thesis
    by (auto simp: acc_inv_def has_cloud_def split: option.splits)
qed

lemma accounts_stay_witness:
  "let w = (empty_world 100 50)\<lparr>accounts := [sample_row]\<rparr> in
   \<exists>r'. tfind r_id 1 (accounts (snd (run_command sample_env (Delete_account 3 1 7) w))) = Some r' \<and>
     r_cloud r' = ''aws''"
  using accounts_stay [of "(empty_world 100 50)\<lparr>accounts := [sample_row]\<rparr>" sample_env
      "Delete_account 3 1 7" 1 sample_row] sample_env_lists
  by (simp add: accounts_ok_def row_ok_def empty_world_def sample_row_def readable_def row_state_def
      row_access_def aws_account_id_def)

end
