(* ===== verification/Cloud_Account_Effects.thy ===== *)
theory Cloud_Account_Effects
  imports Cloud_Account_Invariant
begin

section \<open>What the operations do to the stored accounts\<close>

text \<open>
  The abstract view of the accounts is the map \<open>stored\<close> from ids to accounts. The lemmas give the
  effect of each operation of the service on it, the properties about degraded, deleted and
  enabled accounts follow, and the locale \<open>bulk_update\<close> carries an effect on one account to the
  loops over many.
\<close>

subsection \<open>Single accounts\<close>

definition settle :: "datetime \<Rightarrow> account \<Rightarrow> account \<Rightarrow> account" where
  "settle now a b = (if a = b then a else b\<lparr>ca_updated_at := now, ca_next_scan := None\<rparr>)"

lemma settle_simps [simp]:
  "ca_state (settle t a b) = ca_state b" "ca_workspace_id (settle t a b) = ca_workspace_id b"
  "ca_id (settle t a b) = ca_id b" "ca_cloud (settle t a b) = ca_cloud b"
  "ca_failed_scan_count (settle t a b) = ca_failed_scan_count b"
  "ca_account_id (settle t a b) = ca_account_id b"
  "ca_state_updated_at (settle t a b) = ca_state_updated_at b"
  "ca_last_scan_resources_scanned (settle t a b) = ca_last_scan_resources_scanned b"
  "ca_last_scan_started_at (settle t a b) = ca_last_scan_started_at b"
  "ca_account_alias (settle t a b) = ca_account_alias b" "ca_privileged (settle t a b) = ca_privileged b"
  by (auto simp: settle_def)

text \<open>What a world holds besides the accounts and the event log.\<close>

definition frame :: "world \<Rightarrow> world" where
  "frame w = w\<lparr>accounts := [], events := []\<rparr>"

definition changes_only :: "uuid \<Rightarrow> world \<Rightarrow> world \<Rightarrow> bool" where
  "changes_only i w w' \<longleftrightarrow>
     (\<forall>j. j \<noteq> i \<longrightarrow> tfind r_id j (accounts w') = tfind r_id j (accounts w)) \<and> frame w' = frame w"

lemma stored_row: "tfind r_id j (accounts w') = tfind r_id j (accounts w) \<Longrightarrow> stored j w' = stored j w"
  by (simp add: stored_def)

lemma changes_only_stored: "changes_only i w w' \<Longrightarrow> j \<noteq> i \<Longrightarrow> stored j w' = stored j w"
  by (auto simp: changes_only_def intro: stored_row)

lemma frame_simps [simp]: "frame (w\<lparr>events := es\<rparr>) = frame w" "frame (w\<lparr>accounts := rs\<rparr>) = frame w"
  by (simp_all add: frame_def)

lemma frame_fields:
  assumes "frame w' = frame w"
  shows "clock w' = clock w" "orgs w' = orgs w" "members w' = members w" "next_runs w' = next_runs w"
    "next_uuid w' = next_uuid w" "pubsub w' = pubsub w" "mails w' = mails w"
  using arg_cong [OF assms, of clock] arg_cong [OF assms, of orgs] arg_cong [OF assms, of members]
    arg_cong [OF assms, of next_runs] arg_cong [OF assms, of next_uuid]
    arg_cong [OF assms, of pubsub] arg_cong [OF assms, of mails]
  by (simp_all add: frame_def)

lemma frame_eq: "frame w' = frame w \<Longrightarrow> w' = w\<lparr>accounts := accounts w', events := events w'\<rparr>"
  by (cases w'; cases w) (simp add: frame_def)

lemma frame_next_runs:
  "v = w\<lparr>next_runs := ns\<rparr> \<Longrightarrow> w' = v\<lparr>accounts := a, events := e\<rparr> \<Longrightarrow>
   w' = w\<lparr>accounts := a, events := e, next_runs := next_runs w'\<rparr>"
  by simp

lemma get_workspace_other:
  "get_workspace ws w = (Inr m, w) \<Longrightarrow> orgs v = orgs w \<Longrightarrow> members v = members w \<Longrightarrow> get_workspace ws v = (Inr m, v)"
  by (auto simp: get_workspace_run members_of_def split: option.splits sum.splits)

lemma changes_only_frame: "changes_only i w w' \<Longrightarrow> frame w' = frame w"
  by (simp add: changes_only_def)

lemma changes_only_refl [simp]: "changes_only i w w"
  by (simp add: changes_only_def)

lemma stored_log [simp]: "stored i (w\<lparr>events := es\<rparr>) = stored i w"
  by (simp add: stored_def)

lemma changes_only_trans: "changes_only i w w' \<Longrightarrow> changes_only i w' w'' \<Longrightarrow> changes_only i w w''"
  by (simp add: changes_only_def)

lemma changes_only_log [simp]: "changes_only i w (w'\<lparr>events := es\<rparr>) \<longleftrightarrow> changes_only i w w'"
  by (simp add: changes_only_def)

lemma changes_only_clock: "changes_only i w w' \<Longrightarrow> clock w' = clock w"
  by (auto simp: changes_only_def dest: frame_fields)

lemma update_stored:
  assumes "stored i w = Some a" and "f a = Inr b" and "same_account a b"
  obtains b' w' where "repo_update i f w = (Inr b', w')" "stored i w' = Some (settle (clock w) a b)"
    "changes_only i w w'" "events w' = events w" "b'\<lparr>ca_next_scan := None\<rparr> = (settle (clock w) a b)\<lparr>ca_next_scan := None\<rparr>"
proof -
  obtain w' where w': "repo_update i f w = (Inr (if a = b then b
       else b\<lparr>ca_updated_at := clock w, ca_next_scan := next_scan_of (ca_workspace_id b) w\<rparr>), w')"
    "stored i w' = Some (if a = b then a else b\<lparr>ca_updated_at := clock w, ca_next_scan := None\<rparr>)"
    "\<And>j. j \<noteq> i \<Longrightarrow> tfind r_id j (accounts w') = tfind r_id j (accounts w)" "w' = w\<lparr>accounts := accounts w'\<rparr>"
    by (rule repo_update_run [where f = f, OF assms]) blast
  show thesis
  proof (rule that [OF w'(1)])
    show "changes_only i w w'" unfolding changes_only_def
      using w'(3) arg_cong [OF w'(4), of frame] by simp
    show "events w' = events w" using arg_cong [OF w'(4), of events] by simp
  qed (use w'(2) in \<open>simp_all add: settle_def\<close>)
qed

lemma same_account_degraded: "access_fits (ca_cloud a) (ca_state a) \<Longrightarrow> same_account a (set_degraded now err a)"
  by (cases "ca_state a") (auto simp: same_account_def set_degraded_def)

lemma same_account_configured: "access_fits (ca_cloud a) (ca_state a) \<Longrightarrow> same_account a (set_configured now a)"
  by (cases "ca_state a") (auto simp: same_account_def set_configured_def)

lemma same_account_deleted: "same_account a (deleted_account now a)"
  by (simp add: same_account_def deleted_account_def)

lemma same_account_after_collect:
  "access_fits (ca_cloud a) (ca_state a) \<Longrightarrow> same_account a (after_collect th nr failed ci a)"
  by (simp add: same_account_def after_collect_def)

lemma same_account_enabled:
  "access_fits (ca_cloud a) (ca_state a) \<Longrightarrow> set_enabled now e ws n a = Inr b \<Longrightarrow> same_account a b"
  by (auto simp: set_enabled_def same_account_def split: account_state.splits sum.splits)

text \<open>Degrading and recovering one account.\<close>

lemma degrade_run:
  assumes "stored i w = Some a" and "\<not> is_degraded (ca_state a)"
  obtains b w' where "degrade_account i err reason w = (Inr b, w')"
    "stored i w' = Some (settle (clock w) a (set_degraded (clock w) err a))" "changes_only i w w'"
    "events w' = events w @ [CloudAccountDegraded (ca_cloud a) i (ca_workspace_id a) (ca_account_id a)
       (final_name a) err reason]"
proof -
  let ?b = "set_degraded (clock w) err a"
  have fields: "ca_cloud ?b = ca_cloud a" "ca_id ?b = i" "ca_workspace_id ?b = ca_workspace_id a"
    "ca_account_id ?b = ca_account_id a" "final_name ?b = final_name a"
    using stored_fields [OF assms(1)]
    by (auto simp: set_degraded_def final_name_def split: option.splits prod.splits)
  obtain b' w' where w': "repo_update i (\<lambda>acc. Inr (set_degraded (clock w) err acc)) w = (Inr b', w')"
    "stored i w' = Some (settle (clock w) a ?b)" "changes_only i w w'" "events w' = events w"
    "b'\<lparr>ca_next_scan := None\<rparr> = (settle (clock w) a ?b)\<lparr>ca_next_scan := None\<rparr>"
    by (rule update_stored [where f = "\<lambda>acc. Inr (set_degraded (clock w) err acc)", OF assms(1) refl
          same_account_degraded [OF stored_fields(2) [OF assms(1)]]]) blast
  have eq: "g b' = g ?b" if "\<And>x. g (x\<lparr>ca_next_scan := None\<rparr>) = g x" "\<And>t. g (settle t a ?b) = g ?b"
    for g :: "account \<Rightarrow> 'z"
    using arg_cong [OF w'(5), of g] that by simp
  have f': "ca_cloud b' = ca_cloud a" "ca_id b' = i" "ca_workspace_id b' = ca_workspace_id a"
    "ca_account_id b' = ca_account_id a" "final_name b' = final_name a"
    using eq [of ca_cloud] eq [of ca_id] eq [of ca_workspace_id] eq [of ca_account_id] eq [of final_name] fields
    by (auto simp: final_name_def settle_def)
  show thesis
  proof (rule that [of b' "w'\<lparr>events := events w' @ [CloudAccountDegraded (ca_cloud a) i (ca_workspace_id a)
       (ca_account_id a) (final_name a) err reason]\<rparr>"])
    show "degrade_account i err reason w = (Inr b', w'\<lparr>events := events w' @ [CloudAccountDegraded (ca_cloud a) i
       (ca_workspace_id a) (ca_account_id a) (final_name a) err reason]\<rparr>)"
      using w'(1) repo_get_stored [OF assms(1)] assms(2) by (simp add: degrade_account_def f')
  qed (use w' in simp_all)
qed

lemma degrade_degraded:
  "stored i w = Some a \<Longrightarrow> is_degraded (ca_state a) \<Longrightarrow> \<exists>b. degrade_account i err reason w = (Inr b, w)"
  by (simp add: degrade_account_def repo_get_stored)

lemma undegrade_run:
  assumes "stored i w = Some a" and "is_degraded (ca_state a)"
  obtains b w' where "undegrade_account i w = (Inr b, w')"
    "stored i w' = Some (settle (clock w) a (set_configured (clock w) a))" "changes_only i w w'"
    "events w' = events w"
proof -
  obtain b' w' where w': "repo_update i (\<lambda>acc. Inr (set_configured (clock w) acc)) w = (Inr b', w')"
    "stored i w' = Some (settle (clock w) a (set_configured (clock w) a))" "changes_only i w w'"
    "events w' = events w"
    by (rule update_stored [where f = "\<lambda>acc. Inr (set_configured (clock w) acc)", OF assms(1) refl
          same_account_configured [OF stored_fields(2) [OF assms(1)]]]) blast
  show thesis
    by (rule that [of b' w']) (use w' repo_get_stored [OF assms(1)] assms(2) in \<open>simp_all add: undegrade_account_def\<close>)
qed

lemma undegrade_other:
  "stored i w = Some a \<Longrightarrow> \<not> is_degraded (ca_state a) \<Longrightarrow> \<exists>b. undegrade_account i w = (Inr b, w)"
  by (simp add: undegrade_account_def repo_get_stored)

text \<open>A world with one account, for the examples.\<close>

definition one_account :: "account_row \<Rightarrow> world" where
  "one_account r = (empty_world 100 50)\<lparr>accounts := [r], orgs := [sample_org]\<rparr>"

lemma stored_one: "stored (r_id r) (one_account r) = (case to_model None r of Inl _ \<Rightarrow> None | Inr a \<Rightarrow> Some a)"
  by (simp add: one_account_def stored_def empty_world_def)

lemma stored_sample: "stored 1 (one_account sample_row) = Some sample_account"
  using stored_one [of sample_row] by (simp add: sample_row_model sample_row_def [THEN arg_cong, of r_id]) (simp add: sample_account_def)

text \<open>
  Degrading an account that is not degraded keeps its access and its enabled and scan flags,
  records the error, changes no other account and nothing else, and publishes exactly one event.
  An account without access (detected or deleted) keeps its state, yet is announced as degraded
  all the same.
\<close>

theorem degrade_effect:
  assumes "stored i w = Some a" and "\<not> is_degraded (ca_state a)"
  shows "\<exists>b w' a'. degrade_account i err reason w = (Inr b, w') \<and> stored i w' = Some a' \<and>
    ca_state a' = (case ca_state a of
        Discovered access enabled \<Rightarrow> Degraded access enabled False err
      | Configured access enabled scan \<Rightarrow> Degraded access enabled scan err
      | state \<Rightarrow> state) \<and>
    (\<forall>j. j \<noteq> i \<longrightarrow> stored j w' = stored j w) \<and> frame w' = frame w \<and>
    events w' = events w @ [CloudAccountDegraded (ca_cloud a) i (ca_workspace_id a) (ca_account_id a)
      (final_name a) err reason]"
proof -
  obtain b w' where w': "degrade_account i err reason w = (Inr b, w')"
    "stored i w' = Some (settle (clock w) a (set_degraded (clock w) err a))" "changes_only i w w'"
    "events w' = events w @ [CloudAccountDegraded (ca_cloud a) i (ca_workspace_id a) (ca_account_id a)
       (final_name a) err reason]"
    by (rule degrade_run [OF assms])
  have "ca_state (set_degraded (clock w) err a) = (case ca_state a of
        Discovered access enabled \<Rightarrow> Degraded access enabled False err
      | Configured access enabled scan \<Rightarrow> Degraded access enabled scan err
      | state \<Rightarrow> state)"
    using assms(2) by (cases "ca_state a") (auto simp: set_degraded_def)
  with w' show ?thesis by (auto simp: changes_only_stored changes_only_frame)
qed

lemma degrade_effect_witness:
  "\<exists>b w' a'. degrade_account 1 ''e'' Other (one_account sample_row) = (Inr b, w') \<and> stored 1 w' = Some a' \<and>
     ca_state a' = Degraded (AwsCloudAccess 9 ''role'') True True ''e'' \<and> length (events w') = 1"
  using degrade_effect [OF stored_sample, of "''e''" Other]
  by (auto simp: sample_account_def one_account_def empty_world_def)

text \<open>
  A degraded account that recovers is what it was: degrading a configured account and then
  undegrading it gives back the configured state with the same access, enabled and scan flags,
  and degrading a degraded account again changes nothing and announces nothing.
\<close>

theorem degrade_recover:
  assumes "stored i w = Some a" and "ca_state a = Configured access enabled scan"
  shows "\<exists>b w' b' w'' a'. degrade_account i err reason w = (Inr b, w') \<and>
    (\<forall>err' reason'. snd (degrade_account i err' reason' w') = w') \<and>
    undegrade_account i w' = (Inr b', w'') \<and> stored i w'' = Some a' \<and> ca_state a' = ca_state a \<and>
    (\<forall>j. j \<noteq> i \<longrightarrow> stored j w'' = stored j w) \<and> frame w'' = frame w \<and> length (events w'') = Suc (length (events w))"
proof -
  obtain b w' where w': "degrade_account i err reason w = (Inr b, w')"
    "stored i w' = Some (settle (clock w) a (set_degraded (clock w) err a))" "changes_only i w w'"
    "events w' = events w @ [CloudAccountDegraded (ca_cloud a) i (ca_workspace_id a) (ca_account_id a)
       (final_name a) err reason]"
    by (rule degrade_run [OF assms(1), of err reason]) (use assms(2) in auto)
  let ?a = "settle (clock w) a (set_degraded (clock w) err a)"
  have st: "ca_state ?a = Degraded access enabled scan err" using assms(2) by (simp add: set_degraded_def)
  obtain b' w'' where w'': "undegrade_account i w' = (Inr b', w'')"
    "stored i w'' = Some (settle (clock w') ?a (set_configured (clock w') ?a))" "changes_only i w' w''"
    "events w'' = events w'"
    by (rule undegrade_run [OF w'(2)]) (use st in auto)
  have "ca_state (settle (clock w') ?a (set_configured (clock w') ?a)) = ca_state a"
    using st assms(2) by (simp add: set_configured_def)
  moreover have "snd (degrade_account i err' reason' w') = w'" for err' reason'
    using degrade_degraded [OF w'(2), of err' reason'] st by auto
  ultimately show ?thesis
    using w' w'' changes_only_trans [OF w'(3) w''(3)] by (auto simp: changes_only_stored changes_only_frame)
qed

lemma degrade_recover_witness:
  "\<exists>b w' b' w'' a'. degrade_account 1 ''e'' Other (one_account sample_row) = (Inr b, w') \<and>
     undegrade_account 1 w' = (Inr b', w'') \<and> stored 1 w'' = Some a' \<and> ca_state a' = ca_state sample_account"
  using degrade_recover [OF stored_sample, of "AwsCloudAccess 9 ''role''" True True "''e''" Other]
  by (auto simp: sample_account_def)

subsection \<open>Access from another workspace\<close>

text \<open>
  A workspace reaches only its own accounts: with the id of an account of another workspace
  every operation that reads or changes one account raises \<open>NotAllowed\<close> and leaves the world as
  it was.
\<close>

theorem foreign_account_untouched:
  assumes "stored i w = Some a" and "ca_workspace_id a \<noteq> ws"
  shows "get_cloud_account i ws w = (Inl (NotAllowed ''This account does not belong to this workspace.''), w) \<and>
    update_cloud_account_name ws i n w = (Inl (NotAllowed ''This account does not belong to this workspace.''), w) \<and>
    update_cloud_account_enabled ws i e w = (Inl (NotAllowed ''This account does not belong to this workspace.''), w) \<and>
    update_cloud_account_scan_enabled ws i s w = (Inl (NotAllowed ''This account does not belong to this workspace.''), w) \<and>
    disable_cloud_account ws i w = (Inl (NotAllowed ''This account does not belong to this workspace.''), w) \<and>
    delete_cloud_account u i ws w =
      (Inl (NotAllowed ''Deletion of cloud accounts is only allowed by the owning organization.''), w)"
  using repo_get_stored [OF assms(1)] assms(2)
  by (simp add: get_cloud_account_def update_cloud_account_name_def update_cloud_account_enabled_def
      update_cloud_account_scan_enabled_def disable_cloud_account_def delete_cloud_account_def)

lemma foreign_account_untouched_witness:
  "delete_cloud_account 3 1 8 (one_account sample_row) =
     (Inl (NotAllowed ''Deletion of cloud accounts is only allowed by the owning organization.''), one_account sample_row)"
  using foreign_account_untouched [OF stored_sample, of 8 None True True 3] by (simp add: sample_account_def)

text \<open>Deleting an own account.\<close>

lemma delete_run:
  assumes "stored i w = Some a" and "ca_workspace_id a = ws"
  obtains w' where "delete_cloud_account u i ws w = (Inr (), w')"
    "stored i w' = Some (settle (clock w) a (deleted_account (clock w) a))" "changes_only i w w'"
    "events w' = events w @ [CloudAccountDeleted (ca_cloud a) u i ws (ca_account_id a)]"
proof -
  obtain b' w' where w': "repo_update i (\<lambda>acc. Inr (deleted_account (clock w) acc)) w = (Inr b', w')"
    "stored i w' = Some (settle (clock w) a (deleted_account (clock w) a))" "changes_only i w w'"
    "events w' = events w"
    by (rule update_stored [where f = "\<lambda>acc. Inr (deleted_account (clock w) acc)", OF assms(1) refl
          same_account_deleted]) blast
  show thesis
    by (rule that [of "w'\<lparr>events := events w' @ [CloudAccountDeleted (ca_cloud a) u i ws (ca_account_id a)]\<rparr>"])
      (use w' repo_get_stored [OF assms(1)] assms(2) in \<open>simp_all add: delete_cloud_account_def\<close>)
qed

text \<open>
  Deleting an account of the workspace marks it deleted and clears its scan results, publishes
  exactly one event with its cloud and account id, and changes nothing else; the account is then
  no longer among the workspace's accounts to collect, and deleting an unknown id does nothing.
\<close>

theorem delete_cloud_account_effect:
  assumes "stored i w = Some a" and "ca_workspace_id a = ws" and "stored k w = None" "accounts_ok w"
  shows "delete_cloud_account u k ws w = (Inr (), w) \<and>
   (\<exists>w' a'. delete_cloud_account u i ws w = (Inr (), w') \<and> stored i w' = Some a' \<and>
     ca_state a' = Deleted \<and> ca_last_scan_resources_scanned a' = 0 \<and> ca_last_scan_started_at a' = None \<and>
     (\<forall>j. j \<noteq> i \<longrightarrow> stored j w' = stored j w) \<and> frame w' = frame w \<and>
     events w' = events w @ [CloudAccountDeleted (ca_cloud a) u i ws (ca_account_id a)])"
proof
  show "delete_cloud_account u k ws w = (Inr (), w)"
    using assms(3,4) by (simp add: stored_ok delete_cloud_account_def repo_get_missing)
  show "\<exists>w' a'. delete_cloud_account u i ws w = (Inr (), w') \<and> stored i w' = Some a' \<and>
     ca_state a' = Deleted \<and> ca_last_scan_resources_scanned a' = 0 \<and> ca_last_scan_started_at a' = None \<and>
     (\<forall>j. j \<noteq> i \<longrightarrow> stored j w' = stored j w) \<and> frame w' = frame w \<and>
     events w' = events w @ [CloudAccountDeleted (ca_cloud a) u i ws (ca_account_id a)]"
    by (rule delete_run [OF assms(1,2), of u])
      (auto simp: deleted_account_def changes_only_stored changes_only_frame)
qed

lemma delete_cloud_account_effect_witness:
  "\<exists>w' a'. delete_cloud_account 3 1 7 (one_account sample_row) = (Inr (), w') \<and> stored 1 w' = Some a' \<and>
     ca_state a' = Deleted"
  using delete_cloud_account_effect [OF stored_sample, of 7 2 3]
  by (auto simp: sample_account_def one_account_def empty_world_def stored_def accounts_ok_def row_ok_def readable_def
      sample_row_def row_state_def row_access_def aws_account_id_def)

subsection \<open>Enabling within the limits\<close>

definition ready_count :: "uuid \<Rightarrow> world \<Rightarrow> nat" where
  "ready_count ws w = length (filter (\<lambda>r. r_tenant_id r = ws \<and> ready_row r) (accounts w))"

lemma count_ready: "count_by_workspace_id ws True False w = (Inr (ready_count ws w), w)"
  by (simp add: count_by_workspace_id_def ready_count_def)

lemma enabled_run:
  assumes "stored i w = Some a" and "ca_workspace_id a = ws" and "get_workspace ws w = (Inr (Some m), w)"
    and "set_enabled (clock w) e m (ready_count ws w) a = Inr b"
  obtains b' w' where "update_cloud_account_enabled ws i e w = (Inr b', w')"
    "stored i w' = Some (settle (clock w) a b)" "changes_only i w w'"
    "events w' = events w @ [CloudAccountActiveToggled ws i (ca_account_id a) e]"
proof -
  have ab: "same_account a b" using same_account_enabled [OF stored_fields(2) [OF assms(1)] assms(4)] .
  obtain b' w' where w': "repo_update i (set_enabled (clock w) e m (ready_count ws w)) w = (Inr b', w')"
    "stored i w' = Some (settle (clock w) a b)" "changes_only i w w'" "events w' = events w"
    "b'\<lparr>ca_next_scan := None\<rparr> = (settle (clock w) a b)\<lparr>ca_next_scan := None\<rparr>"
    by (rule update_stored [where f = "set_enabled (clock w) e m (ready_count ws w)", OF assms(1) assms(4) ab]) blast
  have "ca_account_id b' = ca_account_id a"
    using arg_cong [OF w'(5), of ca_account_id] ab by (simp add: same_account_def)
  then show thesis
    by (intro that [of b' "w'\<lparr>events := events w' @ [CloudAccountActiveToggled ws i (ca_account_id a) e]\<rparr>"])
      (use w' repo_get_stored [OF assms(1)] assms(2,3) in
        \<open>simp_all add: update_cloud_account_enabled_def get_cloud_account_def count_ready\<close>)
qed

lemma enabled_error:
  assumes "stored i w = Some a" and "ca_workspace_id a = ws" and "get_workspace ws w = (Inr (Some m), w)"
    and "set_enabled (clock w) e m (ready_count ws w) a = Inl x"
  shows "update_cloud_account_enabled ws i e w = (Inl x, w)"
  using repo_get_stored [OF assms(1)] assms(2,3)
    repo_update_error [OF assms(1), of "set_enabled (clock w) e m (ready_count ws w)", OF assms(4)]
  by (simp add: update_cloud_account_enabled_def get_cloud_account_def count_ready)

text \<open>
  C7: Enabling an account succeeds exactly when the account is configured or degraded, the
  workspace's payment is not on hold and, if the current tier limits the accounts, fewer accounts
  than the limit are ready for collection; disabling needs only the first. A refused change leaves
  the world as it was.
\<close>

theorem enable_within_limits:
  assumes "stored i w = Some a" and "ca_workspace_id a = ws" and "get_workspace ws w = (Inr (Some m), w)"
  shows "(isl (fst (update_cloud_account_enabled ws i enabled w)) \<longrightarrow>
       snd (update_cloud_account_enabled ws i enabled w) = w) \<and>
    (\<not> isl (fst (update_cloud_account_enabled ws i enabled w)) \<longleftrightarrow>
       (state_name (ca_state a) = ''configured'' \<or> state_name (ca_state a) = ''degraded'') \<and>
       (enabled \<longrightarrow> ws_payment_on_hold_since m = None \<and>
         (case account_limit (product_tier_settings (current_product_tier (clock w) m)) of
            None \<Rightarrow> True | Some limit \<Rightarrow> ready_count ws w < limit)))"
proof (cases "set_enabled (clock w) enabled m (ready_count ws w) a")
  case (Inl x)
  with enabled_error [OF assms Inl] show ?thesis
    by (auto simp: set_enabled_def validate_tier_restrictions_def limit_of_def
        split: account_state.splits if_splits option.splits)
next
  case (Inr b)
  obtain b' w' where "update_cloud_account_enabled ws i enabled w = (Inr b', w')"
    by (rule enabled_run [OF assms Inr])
  with Inr show ?thesis
    by (auto simp: set_enabled_def validate_tier_restrictions_def limit_of_def
        split: account_state.splits if_splits option.splits sum.splits)
qed

lemma enable_within_limits_witness:
  "let w = (one_account (sample_row\<lparr>r_enabled := False\<rparr>))\<lparr>orgs := [sample_org\<lparr>o_payment_on_hold_since := Some 3\<rparr>]\<rparr>
   in isl (fst (update_cloud_account_enabled 7 1 True w)) \<and> snd (update_cloud_account_enabled 7 1 True w) = w"
proof -
  let ?w = "(one_account (sample_row\<lparr>r_enabled := False\<rparr>))\<lparr>orgs := [sample_org\<lparr>o_payment_on_hold_since := Some 3\<rparr>]\<rparr>"
  have "to_model None (sample_row\<lparr>r_enabled := False\<rparr>) =
      Inr (sample_account\<lparr>ca_state := Configured (AwsCloudAccess 9 ''role'') False True\<rparr>)"
    by (simp add: sample_row_def sample_account_def to_model_def row_state_def row_access_def)
  then have st: "stored 1 ?w = Some (sample_account\<lparr>ca_state := Configured (AwsCloudAccess 9 ''role'') False True\<rparr>)"
    by (simp add: stored_def one_account_def) (simp add: sample_row_def)
  obtain m where m: "get_workspace 7 ?w = (Inr (Some m), ?w)" "ws_payment_on_hold_since m = Some 3"
    by (cases "get_workspace 7 ?w") (auto simp: get_workspace_run sample_org_def one_account_def org_to_model_def
        tier_from_str_def split: sum.splits)
  show ?thesis
    using enable_within_limits [OF st _ m(1), of True] m(2) by (simp add: Let_def sample_account_def)
qed

subsection \<open>Loops over many accounts\<close>

text \<open>
  A step that changes one account, the one its key names, in a way that depends on that account
  and on the clock only. Its loop over distinct accounts then changes exactly these, each as if
  it were alone.
\<close>

locale bulk_update =
  fixes step :: "'x \<Rightarrow> unit io"
    and key :: "'x \<Rightarrow> uuid"
    and target :: "'x \<Rightarrow> account \<Rightarrow> bool"
    and effect :: "datetime \<Rightarrow> 'x \<Rightarrow> account \<Rightarrow> account"
    and inv :: "world \<Rightarrow> bool"
  assumes step: "\<lbrakk>inv w; stored (key x) w = Some a; target x a\<rbrakk> \<Longrightarrow>
      \<exists>w'. step x w = (Inr (), w') \<and> stored (key x) w' = Some (effect (clock w) x a) \<and> changes_only (key x) w w'"
    and inv_frame: "\<lbrakk>inv w; frame w' = frame w\<rbrakk> \<Longrightarrow> inv w'"
begin

lemma loop:
  assumes "inv w" and "distinct (map key xs)" and "\<forall>x\<in>set xs. \<exists>a. stored (key x) w = Some a \<and> target x a"
  shows "\<exists>w'. for_each step xs w = (Inr (), w') \<and> frame w' = frame w \<and>
    (\<forall>x\<in>set xs. stored (key x) w' = map_option (effect (clock w) x) (stored (key x) w)) \<and>
    (\<forall>j. j \<notin> key ` set xs \<longrightarrow> tfind r_id j (accounts w') = tfind r_id j (accounts w))"
  using assms
proof (induction xs arbitrary: w)
  case (Cons x xs)
  obtain a where a: "stored (key x) w = Some a" "target x a" using Cons.prems(3) by auto
  obtain w1 where w1: "step x w = (Inr (), w1)" "stored (key x) w1 = Some (effect (clock w) x a)"
    "changes_only (key x) w w1" using step [OF Cons.prems(1) a] by blast
  have f1: "frame w1 = frame w" "\<And>j. j \<noteq> key x \<Longrightarrow> tfind r_id j (accounts w1) = tfind r_id j (accounts w)"
    using w1(3) by (auto simp: changes_only_def)
  have "key y \<noteq> key x" if "y \<in> set xs" for y using that Cons.prems(2) by (auto simp: image_iff)
  then have st: "stored (key y) w1 = stored (key y) w" if "y \<in> set xs" for y using that f1(2) stored_row by metis
  obtain w2 where w2: "for_each step xs w1 = (Inr (), w2)" "frame w2 = frame w1"
    "\<forall>y\<in>set xs. stored (key y) w2 = map_option (effect (clock w1) y) (stored (key y) w1)"
    "\<forall>j. j \<notin> key ` set xs \<longrightarrow> tfind r_id j (accounts w2) = tfind r_id j (accounts w1)"
    using Cons.IH [of w1] inv_frame [OF Cons.prems(1) f1(1)] Cons.prems(2,3) st by auto
  have "stored (key x) w2 = Some (effect (clock w) x a)"
    using w2(4) w1(2) Cons.prems(2) stored_row by (metis distinct.simps(2) list.set_map list.simps(9))
  with w1(1) w2 f1 st a show ?case by (auto simp: frame_fields(1) [OF f1(1)])
qed simp

text \<open>Accounts that are no target of the loop keep their state, those of the loop are the image.\<close>

lemma loop_stored:
  assumes "inv w" and "distinct (map key xs)" and "\<forall>x\<in>set xs. \<exists>a. stored (key x) w = Some a \<and> target x a"
  obtains w' where "for_each step xs w = (Inr (), w')" "frame w' = frame w"
    "\<And>x a. x \<in> set xs \<Longrightarrow> stored (key x) w = Some a \<Longrightarrow> stored (key x) w' = Some (effect (clock w) x a)"
    "\<And>j. j \<notin> key ` set xs \<Longrightarrow> tfind r_id j (accounts w') = tfind r_id j (accounts w)"
  using loop [OF assms] by auto

end

definition has_workspace :: "uuid \<Rightarrow> world \<Rightarrow> bool" where
  "has_workspace ws w \<longleftrightarrow> (\<exists>m. get_workspace ws w = (Inr (Some m), w))"

lemma get_workspace_frame:
  assumes "frame w' = frame w"
  shows "fst (get_workspace ws w') = fst (get_workspace ws w)"
  using frame_fields [OF assms]
  by (simp add: get_workspace_run members_of_def split: option.splits sum.splits)

lemma has_workspace_fst: "has_workspace ws w \<longleftrightarrow> (\<exists>m. fst (get_workspace ws w) = Inr (Some m))"
  unfolding has_workspace_def by (simp add: prod_eq_iff get_workspace_same)

lemma has_workspace_frame: "has_workspace ws w \<Longrightarrow> frame w' = frame w \<Longrightarrow> has_workspace ws w'"
  using get_workspace_frame [of w' w ws] by (simp add: has_workspace_fst)

fun disabled_state :: "account_state \<Rightarrow> account_state" where
  "disabled_state (Configured x e s) = Configured x False s"
| "disabled_state (Degraded x e s err) = Degraded x False s err"
| "disabled_state s = s"

lemma try_disable_step:
  assumes "has_workspace ws w" and "stored (ca_id x) w = Some a" and "ca_workspace_id a = ws"
  shows "\<exists>w'. try_enabled ws False x w = (Inr (), w') \<and>
    stored (ca_id x) w' = Some (settle (clock w) a (a\<lparr>ca_state := disabled_state (ca_state a)\<rparr>)) \<and>
    changes_only (ca_id x) w w'"
proof -
  obtain m where m: "get_workspace ws w = (Inr (Some m), w)" using assms(1) by (auto simp: has_workspace_def)
  show ?thesis
  proof (cases "set_enabled (clock w) False m (ready_count ws w) a")
    case (Inl e)
    then have "a\<lparr>ca_state := disabled_state (ca_state a)\<rparr> = a"
      by (cases "ca_state a") (auto simp: set_enabled_def validate_tier_restrictions_def)
    with enabled_error [OF assms(2,3) m Inl] assms(2) show ?thesis
      by (simp add: try_enabled_def settle_def)
  next
    case (Inr b)
    then have b: "b = a\<lparr>ca_state := disabled_state (ca_state a)\<rparr>"
      by (cases "ca_state a") (auto simp: set_enabled_def validate_tier_restrictions_def)
    obtain b' w' where "update_cloud_account_enabled ws (ca_id x) False w = (Inr b', w')"
      "stored (ca_id x) w' = Some (settle (clock w) a b)" "changes_only (ca_id x) w w'"
      by (rule enabled_run [OF assms(2,3) m Inr])
    then show ?thesis by (simp add: try_enabled_def b)
  qed
qed

interpretation disabling: bulk_update "try_enabled ws False" ca_id "\<lambda>_ a. ca_workspace_id a = ws"
  "\<lambda>t _ a. settle t a (a\<lparr>ca_state := disabled_state (ca_state a)\<rparr>)" "has_workspace ws" for ws
  by unfold_locales (use try_disable_step has_workspace_frame in blast)+

interpretation deleting: bulk_update "\<lambda>x. delete_cloud_account u (ca_id x) ws" ca_id
  "\<lambda>_ a. ca_workspace_id a = ws" "\<lambda>t _ a. settle t a (deleted_account t a)" "\<lambda>_. True" for u ws
  by unfold_locales (auto elim: delete_run [of _ _ _ ws u])

text \<open>The accounts of a workspace as the service lists them.\<close>

lemma list_accounts_ok:
  assumes "accounts_ok w"
  obtains as where "list_accounts ws w = (Inr as, w)" "distinct (map ca_id as)"
    "\<And>a. a \<in> set as \<Longrightarrow> stored (ca_id a) w = Some (a\<lparr>ca_next_scan := None\<rparr>) \<and> ca_workspace_id a = ws"
    "map ca_id as = map r_id (filter (\<lambda>r. r_tenant_id r = ws \<and> non_deleted_row r) (accounts w))"
proof -
  let ?rs = "filter (\<lambda>r. r_tenant_id r = ws \<and> non_deleted_row r) (accounts w)"
  let ?n = "next_scan_of ws w"
  have ex: "\<exists>a. to_model ?n r = Inr a" if "r \<in> set ?rs" for r
    using that assms readable_to_model by (auto simp: accounts_ok_def dest!: row_ok_readable)
  define g where "g r = projr (to_model ?n r)" for r
  have tr: "traverse (to_model ?n) ?rs = Inr (map g ?rs)"
    by (rule traverse_ok) (use ex in \<open>fastforce simp: g_def\<close>)
  have g: "to_model ?n r = Inr (g r)" if "r \<in> set ?rs" for r
    using ex [OF that] by (auto simp: g_def)
  have ids: "map ca_id (map g ?rs) = map r_id ?rs"
    using g to_model_fields(1) by (fastforce simp: comp_def)
  have d: "distinct (map r_id (accounts w))" using assms by (simp add: accounts_ok_def)
  show thesis
  proof (rule that [of "map g ?rs"])
    show "list_accounts ws w = (Inr (map g ?rs), w)"
      using tr by (simp add: list_accounts_def list_by_workspace_id_def next_scan_of_def)
    show "distinct (map ca_id (map g ?rs))" unfolding ids using d by (simp add: distinct_map_filter)
    show "stored (ca_id a) w = Some (a\<lparr>ca_next_scan := None\<rparr>) \<and> ca_workspace_id a = ws"
      if ain: "a \<in> set (map g ?rs)" for a
    proof -
      obtain r where r: "r \<in> set ?rs" "a = g r" using ain unfolding set_map by blast
      have m: "to_model ?n r = Inr a" using g [OF r(1)] r(2) by simp
      have "tfind r_id (r_id r) (accounts w) = Some r" using tfind_in [OF d, of r] r(1) by simp
      then show ?thesis
        using to_model_next_scan [OF m, of None] to_model_fields(1,3) [OF m] r(1) by (auto simp: stored_Some)
    qed
  qed (rule ids)
qed

lemma list_accounts_same: "snd (list_accounts ws w) = w"
  by (simp add: list_accounts_def list_by_workspace_id_same)

definition two_accounts :: world where
  "two_accounts = (one_account sample_row)\<lparr>accounts :=
     [sample_row, sample_row\<lparr>r_id := 2, r_account_id := ''210987654321''\<rparr>]\<rparr>"

lemma two_accounts_ok: "accounts_ok two_accounts"
  by (simp add: accounts_ok_def two_accounts_def one_account_def empty_world_def row_ok_def sample_row_def
      readable_def row_state_def row_access_def aws_account_id_def)

lemma two_accounts_stored:
  "stored 1 two_accounts = Some sample_account"
  "stored 2 two_accounts = Some (sample_account\<lparr>ca_id := 2, ca_account_id := ''210987654321''\<rparr>)"
  by (simp_all add: stored_def two_accounts_def sample_row_def sample_account_def to_model_def
      row_state_def row_access_def)

lemma two_accounts_workspace: "has_workspace 7 two_accounts"
  by (simp add: has_workspace_fst get_workspace_run two_accounts_def one_account_def sample_org_def
      org_to_model_def tier_from_str_def)

lemma two_accounts_list:
  "list_accounts 7 two_accounts =
     (Inr [sample_account, sample_account\<lparr>ca_id := 2, ca_account_id := ''210987654321''\<rparr>], two_accounts)"
  by (simp add: list_accounts_def list_by_workspace_id_def two_accounts_def one_account_def empty_world_def
      non_deleted_row_def sample_row_def sample_account_def to_model_def row_state_def row_access_def)

text \<open>
  Disabling all but the last \<open>k\<close> accounts of a workspace disables exactly the enabled accounts
  before the last \<open>k\<close> of the list and touches no other account: a configured or degraded one is
  no longer enabled and keeps the rest of its state, while one that is only discovered stays
  enabled. Asked to keep none, it disables nothing.
\<close>

theorem disable_keeps_last:
  assumes "accounts_ok w" and "has_workspace ws w" and "list_accounts ws w = (Inr all, w)"
    and "on = filter (\<lambda>a. state_enabled (ca_state a) = Some True) all"
    and "off = (if k = 0 then [] else take (length on - k) on)"
  shows "\<exists>w'. disable_cloud_accounts ws k w = (Inr (), w') \<and> frame w' = frame w \<and>
    (\<forall>a\<in>set off. \<exists>a'. stored (ca_id a) w' = Some a' \<and>
       ca_state a' = (case ca_state a of
           Configured access e scan \<Rightarrow> Configured access False scan
         | Degraded access e scan err \<Rightarrow> Degraded access False scan err
         | state \<Rightarrow> state)) \<and>
    (\<forall>j. j \<notin> ca_id ` set off \<longrightarrow> stored j w' = stored j w)"
proof -
  obtain as where as: "list_accounts ws w = (Inr as, w)" "distinct (map ca_id as)"
    "\<And>a. a \<in> set as \<Longrightarrow> stored (ca_id a) w = Some (a\<lparr>ca_next_scan := None\<rparr>) \<and> ca_workspace_id a = ws"
    by (rule list_accounts_ok [OF assms(1), of ws]) blast
  have all: "all = as" using as(1) assms(3) by simp
  have off: "off = drop_last_slice k on" using assms(5) by (simp add: drop_last_slice_def)
  have sub: "set off \<subseteq> set as" unfolding assms(5) using assms(4) all by (auto dest: in_set_takeD)
  have dist: "distinct (map ca_id off)"
    unfolding assms(5) using assms(4) as(2) all by (auto simp: distinct_map_filter simp flip: take_map)
  have st: "\<forall>x\<in>set off. \<exists>a. stored (ca_id x) w = Some a \<and> ca_workspace_id a = ws"
    using as(3) sub by fastforce
  obtain w' where w': "for_each (try_enabled ws False) off w = (Inr (), w')" "frame w' = frame w"
    "\<And>x a. x \<in> set off \<Longrightarrow> stored (ca_id x) w = Some a \<Longrightarrow>
       stored (ca_id x) w' = Some (settle (clock w) a (a\<lparr>ca_state := disabled_state (ca_state a)\<rparr>))"
    "\<And>j. j \<notin> ca_id ` set off \<Longrightarrow> tfind r_id j (accounts w') = tfind r_id j (accounts w)"
    by (rule disabling.loop_stored [OF assms(2) dist st]) blast
  have state: "disabled_state s = (case s of Configured access e scan \<Rightarrow> Configured access False scan
         | Degraded access e scan err \<Rightarrow> Degraded access False scan err | state \<Rightarrow> state)" for s
    by (cases s) simp_all
  have "\<exists>a'. stored (ca_id a) w' = Some a' \<and> ca_state a' = disabled_state (ca_state a)" if "a \<in> set off" for a
    using w'(3) [OF that] as(3) sub that by fastforce
  moreover have "disable_cloud_accounts ws k w = (Inr (), w')"
    using as(1) w'(1) assms(4) all off by (simp add: disable_cloud_accounts_def Let_def)
  ultimately show ?thesis using w'(2,4) by (auto simp: state intro: stored_row)
qed

lemma disable_keeps_last_witness:
  "\<exists>w'. disable_cloud_accounts 7 1 two_accounts = (Inr (), w') \<and>
     (\<exists>a'. stored 1 w' = Some a' \<and> ca_state a' = Configured (AwsCloudAccess 9 ''role'') False True) \<and>
     stored 2 w' = stored 2 two_accounts"
  using disable_keeps_last [OF two_accounts_ok two_accounts_workspace two_accounts_list refl refl, of 1]
  by (auto simp: sample_account_def)

lemma deleted_not_listed: "to_model n r = Inr a \<Longrightarrow> non_deleted_row r \<Longrightarrow> ca_state a \<noteq> Deleted"
  by (auto simp: to_model_def non_deleted_row_def row_state_def split: option.splits sum.splits if_splits)

lemma listed_id:
  "accounts_ok w \<Longrightarrow> i \<in> r_id ` set (filter P (accounts w)) \<longleftrightarrow>
   (\<exists>r. tfind r_id i (accounts w) = Some r \<and> P r)"
  by (auto simp: accounts_ok_def tfind_in dest!: tfind_Some)

lemma distinct_one:
  assumes "distinct xs" "set xs = {x}"
  shows "xs = [x]"
proof (cases xs)
  case (Cons y ys)
  with assms have "y = x" "x \<notin> set ys" "set ys \<subseteq> {x}" by auto
  then have "ys = []" by (cases ys) auto
  with Cons \<open>y = x\<close> show ?thesis by simp
qed (use assms in simp)

text \<open>When some accounts are deleted and the others keep their rows, the list shrinks by these.\<close>

lemma listed_after_deletion:
  assumes ok: "accounts_ok w" "map ca_id as = map r_id (filter (\<lambda>r. r_tenant_id r = ws \<and> non_deleted_row r) (accounts w))"
    and ok': "accounts_ok w'" "map ca_id as' = map r_id (filter (\<lambda>r. r_tenant_id r = ws \<and> non_deleted_row r) (accounts w'))"
    and same: "\<And>j. j \<notin> D \<Longrightarrow> tfind r_id j (accounts w') = tfind r_id j (accounts w)"
    and gone: "\<And>j. j \<in> D \<Longrightarrow> \<exists>a. stored j w' = Some a \<and> ca_state a = Deleted"
  shows "ca_id ` set as' = ca_id ` set as - D"
proof (intro equalityI subsetI)
  fix i assume "i \<in> ca_id ` set as - D"
  then have "i \<in> r_id ` set (filter (\<lambda>r. r_tenant_id r = ws \<and> non_deleted_row r) (accounts w))" "i \<notin> D"
    using ok(2) by (metis DiffD1 list.set_map, blast)
  then have "i \<in> r_id ` set (filter (\<lambda>r. r_tenant_id r = ws \<and> non_deleted_row r) (accounts w'))"
    using same listed_id [OF ok(1), of i "\<lambda>r. r_tenant_id r = ws \<and> non_deleted_row r"]
      listed_id [OF ok'(1), of i "\<lambda>r. r_tenant_id r = ws \<and> non_deleted_row r"] by simp
  then show "i \<in> ca_id ` set as'" using ok'(2) by (metis list.set_map)
next
  fix i assume "i \<in> ca_id ` set as'"
  then have "i \<in> r_id ` set (filter (\<lambda>r. r_tenant_id r = ws \<and> non_deleted_row r) (accounts w'))"
    using ok'(2) by (metis list.set_map)
  then obtain r where r: "tfind r_id i (accounts w') = Some r" "r_tenant_id r = ws \<and> non_deleted_row r"
    using listed_id [OF ok'(1), of i "\<lambda>r. r_tenant_id r = ws \<and> non_deleted_row r"] by auto
  have "i \<notin> D" using gone [of i] r deleted_not_listed [of None r] by (auto simp: stored_Some)
  moreover from this have "i \<in> r_id ` set (filter (\<lambda>r. r_tenant_id r = ws \<and> non_deleted_row r) (accounts w))"
    using r same listed_id [OF ok(1), of i "\<lambda>r. r_tenant_id r = ws \<and> non_deleted_row r"] by simp
  ultimately show "i \<in> ca_id ` set as - D" using ok(2) by (metis DiffI list.set_map)
qed

lemma free_limit: "limit_of (account_limit free_setting) = Some 1" "limit_of None = None"
  by (simp_all add: limit_of_def free_setting_def)

lemma update_next_run_at_rows:
  "accounts (snd (update_next_run_at t at w)) = accounts w" "orgs (snd (update_next_run_at t at w)) = orgs w"
  "members (snd (update_next_run_at t at w)) = members w" "next_uuid (snd (update_next_run_at t at w)) = next_uuid w"
  "clock (snd (update_next_run_at t at w)) = clock w" "events (snd (update_next_run_at t at w)) = events w"
  by (simp_all add: update_next_run_at_def split: option.splits)

lemma update_next_run_at_frame: "snd (update_next_run_at t at w) = w\<lparr>next_runs := next_runs (snd (update_next_run_at t at w))\<rparr>"
  by (simp add: update_next_run_at_def split: option.splits)

lemma update_next_run_at_lookup:
  "tfind n_tenant_id j (next_runs (snd (update_next_run_at t at w))) =
     (if j = t then map_option (\<lambda>n. n\<lparr>n_at := at\<rparr>) (tfind n_tenant_id t (next_runs w)) else tfind n_tenant_id j (next_runs w))"
  using next_run_get_after_update [of t at w] tfind_Some [of n_tenant_id t "next_runs w"]
  by (auto simp: update_next_run_at_def split: option.splits)

text \<open>
  C22: A change to the free tier leaves a workspace with its last account only: every account but
  the last of the list is deleted, and the list afterwards holds exactly the last one (or is empty if it was). The
  next run of the workspace, if it has one, is one scan interval of the free tier from now. Every other
  account is left as it was, the one that is kept and those of other workspaces, and so is every other next run and everything
  else but the events.
\<close>

theorem downgrade_keeps_one:
  assumes "accounts_ok w" and "has_workspace ws w" and "previous \<noteq> Free"
    and "list_accounts ws w = (Inr all, w)"
  shows "\<exists>w' kept. on_product_tier_changed ws u Free previous w = (Inr (), w') \<and>
    list_accounts ws w' = (Inr kept, w') \<and>
    map ca_id kept = (if all = [] then [] else [ca_id (last all)]) \<and>
    (\<forall>a\<in>set (butlast all). \<exists>a'. stored (ca_id a) w' = Some a' \<and> ca_state a' = Deleted) \<and>
    (\<forall>j. j \<notin> ca_id ` set (butlast all) \<longrightarrow> tfind r_id j (accounts w') = tfind r_id j (accounts w)) \<and>
    (all \<noteq> [] \<longrightarrow> ca_id (last all) \<notin> ca_id ` set (butlast all)) \<and>
    (\<forall>j. tfind n_tenant_id j (next_runs w') = (if j = ws
       then map_option (\<lambda>n. n\<lparr>n_at := clock w + scan_interval (product_tier_settings Free)\<rparr>) (tfind n_tenant_id ws (next_runs w))
       else tfind n_tenant_id j (next_runs w))) \<and>
    w' = w\<lparr>accounts := accounts w', events := events w', next_runs := next_runs w'\<rparr>"
proof -
  let ?at = "next_run_for (clock w) Free None"
  let ?w = "snd (update_next_run_at ws ?at w)"
  let ?live = "\<lambda>r. r_tenant_id r = ws \<and> non_deleted_row r"
  note rows = update_next_run_at_rows [of ws ?at w]
  have at: "?at = clock w + scan_interval (product_tier_settings Free)" by (simp add: next_run_for_def Let_def)
  have ok: "accounts_ok ?w" using assms(1) acc_inv_frame [of ?w w None] rows by simp
  obtain m where m: "get_workspace ws ?w = (Inr (Some m), ?w)"
    using assms(2) get_workspace_other [of ws w _ ?w] rows by (auto simp: has_workspace_def)
  obtain as where as: "list_accounts ws ?w = (Inr as, ?w)" "distinct (map ca_id as)"
    "\<And>a. a \<in> set as \<Longrightarrow> stored (ca_id a) ?w = Some (a\<lparr>ca_next_scan := None\<rparr>) \<and> ca_workspace_id a = ws"
    "map ca_id as = map r_id (filter ?live (accounts ?w))"
    by (rule list_accounts_ok [OF ok, of ws]) blast
  obtain as' where "list_accounts ws w = (Inr as', w)" "map ca_id as' = map r_id (filter ?live (accounts w))"
    by (rule list_accounts_ok [OF assms(1), of ws])
  then have ids: "map ca_id all = map ca_id as" using as(4) rows assms(4) by simp
  let ?off = "butlast as"
  have dist: "distinct (map ca_id ?off)" using as(2) by (simp add: map_butlast distinct_butlast)
  have st: "\<forall>x\<in>set ?off. \<exists>a. stored (ca_id x) ?w = Some a \<and> ca_workspace_id a = ws"
    using as(3) by (fastforce dest: in_set_butlastD)
  obtain w' where w': "for_each (\<lambda>x. delete_cloud_account u (ca_id x) ws) ?off ?w = (Inr (), w')" "frame w' = frame ?w"
    "\<And>x a. x \<in> set ?off \<Longrightarrow> stored (ca_id x) ?w = Some a \<Longrightarrow>
       stored (ca_id x) w' = Some (settle (clock ?w) a (deleted_account (clock ?w) a))"
    "\<And>j. j \<notin> ca_id ` set ?off \<Longrightarrow> tfind r_id j (accounts w') = tfind r_id j (accounts ?w)"
    by (rule deleting.loop_stored [OF TrueI dist st]) blast
  have "accounts_ok w'"
    using preserves_world [of "acc_inv None" "for_each (\<lambda>x. delete_cloud_account u (ca_id x) ws) ?off" ?w]
      ok w'(1) by (simp add: preserves_for_each_all preserves_delete)
  then obtain kept where kept: "list_accounts ws w' = (Inr kept, w')" "distinct (map ca_id kept)"
    "map ca_id kept = map r_id (filter ?live (accounts w'))"
    by (rule list_accounts_ok [of w' ws]) blast
  have gone: "\<exists>a'. stored i w' = Some a' \<and> ca_state a' = Deleted" if "i \<in> ca_id ` set ?off" for i
    using that w'(3) st by (force simp: deleted_account_def)
  have off: "ca_id ` set (butlast all) = ca_id ` set ?off"
    using ids by (metis list.set_map map_butlast)
  have deleted: "\<exists>a'. stored (ca_id a) w' = Some a' \<and> ca_state a' = Deleted" if "a \<in> set (butlast all)" for a
    using gone [of "ca_id a"] that off by blast
  have last: "ca_id ` set all - ca_id ` set (butlast all) = (if all = [] then {} else {ca_id (last all)})"
    "all \<noteq> [] \<Longrightarrow> ca_id (last all) \<notin> ca_id ` set (butlast all)"
    using as(2) unfolding ids [symmetric] by (cases all rule: rev_cases; auto)+
  have "ca_id ` set kept = ca_id ` set as - ca_id ` set ?off"
    by (rule listed_after_deletion [OF ok as(4) \<open>accounts_ok w'\<close> kept(3) w'(4)]) (use gone in auto)
  also have "\<dots> = (if all = [] then {} else {ca_id (last all)})"
    using last(1) off ids by (metis list.set_map)
  finally have only: "map ca_id kept = (if all = [] then [] else [ca_id (last all)])"
    using distinct_one [OF kept(2), of "ca_id (last all)"] by (auto split: if_splits)
  have run: "on_product_tier_changed ws u Free previous w = (Inr (), w')"
    using assms(3) m as(1) w'(1) free_limit
    by (simp add: on_product_tier_changed_def update_next_run_for_run Let_def drop_last_slice_def butlast_conv_take)
  have other: "w' = w\<lparr>accounts := accounts w', events := events w', next_runs := next_runs w'\<rparr>"
    using frame_eq [OF w'(2)] update_next_run_at_frame [of ws ?at w] by (metis frame_next_runs)
  show ?thesis
    by (intro exI [where x = w'] exI [where x = kept] conjI run kept(1) only other impI last(2))
      (use deleted off w'(4) rows(1) frame_fields(4) [OF w'(2)] at in \<open>auto simp: update_next_run_at_lookup\<close>)
qed

lemma downgrade_keeps_one_witness:
  "\<exists>w' kept. on_product_tier_changed 7 3 Free Plus two_accounts = (Inr (), w') \<and>
     list_accounts 7 w' = (Inr kept, w') \<and> map ca_id kept = [2] \<and> tfind r_id 2 (accounts w') = tfind r_id 2 (accounts two_accounts)"
  using downgrade_keeps_one [OF two_accounts_ok two_accounts_workspace _ two_accounts_list, of Plus 3]
  by (auto simp: sample_account_def)

end
