(* ===== verification/Cloud_Account_Handlers.thy ===== *)
theory Cloud_Account_Handlers
  imports Cloud_Account_Effects
begin

section \<open>What the event handlers achieve\<close>

text \<open>
  The effect of the results of a collect run on the accounts (the counter of failed scans, the
  degradation after more than three of them and the recovery), of a cancelled subscription, of
  enabling a workspace's accounts, of configuring a discovered account and of stack events.
\<close>

subsection \<open>Counting failed scans\<close>

definition failed_effect ::
  "int \<Rightarrow> datetime option \<Rightarrow> datetime \<Rightarrow> uuid \<times> collect_info \<Rightarrow> account \<Rightarrow> account" where
  "failed_effect th nr t x a =
     (let a1 = settle t a (after_collect th nr True (snd x) a) in
      if 3 < ca_failed_scan_count a1 \<and> \<not> is_degraded (ca_state a1)
      then settle t a1 (set_degraded t ''Too many consecutive failed scans'' a1) else a1)"

definition collected_effect ::
  "int \<Rightarrow> datetime option \<Rightarrow> datetime \<Rightarrow> uuid \<times> collect_info \<Rightarrow> account \<Rightarrow> account" where
  "collected_effect th nr t x a =
     (let a1 = settle t a (after_collect th nr False (snd x) a) in
      if 3 < ca_failed_scan_count a1 \<and> \<not> is_degraded (ca_state a1)
      then settle t a1 (set_degraded t ''Too many consecutive failed scans'' a1)
      else if ca_failed_scan_count a1 = 0 \<and> is_degraded (ca_state a1)
      then settle t a1 (set_configured t a1) else a1)"

lemma count_update:
  assumes "stored i w = Some a"
  obtains b w' where "repo_update i (\<lambda>acc. Inr (after_collect th nr f ci acc)) w = (Inr b, w')"
    "stored i w' = Some (settle (clock w) a (after_collect th nr f ci a))" "changes_only i w w'"
    "ca_id b = i" "ca_failed_scan_count b = ca_failed_scan_count (after_collect th nr f ci a)"
proof -
  obtain b w' where w': "repo_update i (\<lambda>acc. Inr (after_collect th nr f ci acc)) w = (Inr b, w')"
    "stored i w' = Some (settle (clock w) a (after_collect th nr f ci a))" "changes_only i w w'"
    "b\<lparr>ca_next_scan := None\<rparr> = (settle (clock w) a (after_collect th nr f ci a))\<lparr>ca_next_scan := None\<rparr>"
    by (rule update_stored [where f = "\<lambda>acc. Inr (after_collect th nr f ci acc)", OF assms refl
          same_account_after_collect [OF stored_fields(2) [OF assms]]]) blast
  show thesis
    by (rule that [OF w'(1-3)])
      (use arg_cong [OF w'(4), of ca_id] arg_cong [OF w'(4), of ca_failed_scan_count] stored_fields(1) [OF assms] in
        \<open>simp_all add: after_collect_def\<close>)
qed

lemma degrade_if:
  assumes "stored i w = Some a"
  shows "\<exists>w' b. degrade_account i err reason w = (Inr b, w') \<and> changes_only i w w' \<and>
    stored i w' = Some (if is_degraded (ca_state a) then a else settle (clock w) a (set_degraded (clock w) err a))"
proof (cases "is_degraded (ca_state a)")
  case True
  with degrade_degraded [OF assms, of err reason] assms show ?thesis by auto
next
  case False
  show ?thesis by (rule degrade_run [OF assms False, of err reason]) (use False in auto)
qed

lemma undegrade_if:
  assumes "stored i w = Some a"
  shows "\<exists>w' b. undegrade_account i w = (Inr b, w') \<and> changes_only i w w' \<and>
    stored i w' = Some (if is_degraded (ca_state a) then settle (clock w) a (set_configured (clock w) a) else a)"
proof (cases "is_degraded (ca_state a)")
  case False
  with undegrade_other [OF assms] assms show ?thesis by auto
next
  case True
  show ?thesis by (rule undegrade_run [OF assms True]) (use True in auto)
qed

lemma failed_step:
  assumes "stored (fst x) w = Some a"
  shows "\<exists>w'. account_collect_failed th nr x w = (Inr (), w') \<and>
    stored (fst x) w' = Some (failed_effect th nr (clock w) x a) \<and> changes_only (fst x) w w'"
proof -
  obtain b w1 where w1: "repo_update (fst x) (\<lambda>acc. Inr (after_collect th nr True (snd x) acc)) w = (Inr b, w1)"
    "stored (fst x) w1 = Some (settle (clock w) a (after_collect th nr True (snd x) a))" "changes_only (fst x) w w1"
    "ca_id b = fst x" "ca_failed_scan_count b = ca_failed_scan_count (after_collect th nr True (snd x) a)"
    by (rule count_update [OF assms])
  from degrade_if [OF w1(2), of "''Too many consecutive failed scans''" Other] w1 show ?thesis
    by (auto simp: account_collect_failed_def failed_effect_def Let_def changes_only_clock case_prod_beta
        intro: changes_only_trans)
qed

lemma collected_step:
  assumes "stored (fst x) w = Some a"
  shows "\<exists>w'. account_collected th nr x w = (Inr (), w') \<and>
    stored (fst x) w' = Some (collected_effect th nr (clock w) x a) \<and> changes_only (fst x) w w'"
proof -
  obtain b w1 where w1: "repo_update (fst x) (\<lambda>acc. Inr (after_collect th nr False (snd x) acc)) w = (Inr b, w1)"
    "stored (fst x) w1 = Some (settle (clock w) a (after_collect th nr False (snd x) a))" "changes_only (fst x) w w1"
    "ca_id b = fst x" "ca_failed_scan_count b = ca_failed_scan_count (after_collect th nr False (snd x) a)"
    by (rule count_update [OF assms])
  show ?thesis
  proof (cases "3 < ca_failed_scan_count b")
    case True
    with degrade_if [OF w1(2), of "''Too many consecutive failed scans''" Other] w1 show ?thesis
      by (auto simp: account_collected_def collected_effect_def Let_def changes_only_clock case_prod_beta
          intro: changes_only_trans)
  next
    case False
    with undegrade_if [OF w1(2)] w1 show ?thesis
      by (auto simp: account_collected_def collected_effect_def Let_def changes_only_clock case_prod_beta
          intro: changes_only_trans)
  qed
qed

interpretation collect_failed: bulk_update "account_collect_failed th nr" fst "\<lambda>_ _. True"
  "failed_effect th nr" "\<lambda>_. True" for th nr
  by unfold_locales (use failed_step in auto)

interpretation collected: bulk_update "account_collected th nr" fst "\<lambda>_ _. True"
  "collected_effect th nr" "\<lambda>_. True" for th nr
  by unfold_locales (use collected_step in auto)

text \<open>
  C6: Every failed collect run counts: after the event each account of it has one failed scan
  more, and from the fourth in a row on it is degraded, keeping its access and flags; accounts
  that are not in the event are as before.
\<close>

theorem failed_scans_degrade:
  assumes "distinct (map fst infos)" and "\<forall>x\<in>set infos. stored (fst x) w \<noteq> None"
  shows "\<exists>w'. on_tenant_accounts_collect_failed env infos next_run w = (Inr (), w') \<and>
    (\<forall>i a. i \<in> fst ` set infos \<longrightarrow> stored i w = Some a \<longrightarrow> (\<exists>a'. stored i w' = Some a' \<and>
       ca_failed_scan_count a' = ca_failed_scan_count a + 1 \<and>
       ca_state a' = (if ca_failed_scan_count a + 1 \<le> 3 then ca_state a else
         (case ca_state a of
            Discovered access enabled \<Rightarrow> Degraded access enabled False ''Too many consecutive failed scans''
          | Configured access enabled scan \<Rightarrow> Degraded access enabled scan ''Too many consecutive failed scans''
          | state \<Rightarrow> state)))) \<and>
    (\<forall>j. j \<notin> fst ` set infos \<longrightarrow> stored j w' = stored j w)"
proof -
  obtain w' where w': "for_each (account_collect_failed (account_failed_resource_count env) next_run) infos w = (Inr (), w')"
    "\<And>x a. x \<in> set infos \<Longrightarrow> stored (fst x) w = Some a \<Longrightarrow>
       stored (fst x) w' = Some (failed_effect (account_failed_resource_count env) next_run (clock w) x a)"
    "\<And>j. j \<notin> fst ` set infos \<Longrightarrow> tfind r_id j (accounts w') = tfind r_id j (accounts w)"
    by (rule collect_failed.loop_stored [OF TrueI assms(1)]) (use assms(2) in blast)+
  show ?thesis
  proof (intro exI [of _ w'] conjI allI impI)
    fix i a assume "i \<in> fst ` set infos" and a: "stored i w = Some a"
    then obtain x where x: "x \<in> set infos" "i = fst x" by blast
    have "stored i w' = Some (failed_effect (account_failed_resource_count env) next_run (clock w) x a)"
      using w'(2) [OF x(1)] a x(2) by simp
    then show "\<exists>a'. stored i w' = Some a' \<and> ca_failed_scan_count a' = ca_failed_scan_count a + 1 \<and>
       ca_state a' = (if ca_failed_scan_count a + 1 \<le> 3 then ca_state a else
         (case ca_state a of
            Discovered access enabled \<Rightarrow> Degraded access enabled False ''Too many consecutive failed scans''
          | Configured access enabled scan \<Rightarrow> Degraded access enabled scan ''Too many consecutive failed scans''
          | state \<Rightarrow> state))"
      by (auto simp: failed_effect_def Let_def after_collect_def compute_failed_scan_count_def set_degraded_def
          split: account_state.splits option.splits)
  qed (use w'(1,3) in \<open>auto simp: on_tenant_accounts_collect_failed_def intro: stored_row\<close>)
qed

definition sample_info :: collect_info where
  "sample_info = \<lparr>ci_account_id = ''123456789012'', ci_scanned_resources = 10, ci_duration_seconds = 5,
     ci_started_at = 90, ci_task_id = None, ci_errors = []\<rparr>"

lemma failed_scans_degrade_witness:
  "\<exists>w'. on_tenant_accounts_collect_failed sample_env [(1, sample_info)] None two_accounts = (Inr (), w') \<and>
     (\<exists>a'. stored 1 w' = Some a' \<and> ca_failed_scan_count a' = 1) \<and> stored 2 w' = stored 2 two_accounts"
  using failed_scans_degrade [of "[(1, sample_info)]" two_accounts sample_env None] two_accounts_stored
  by (auto simp: sample_account_def)

lemma distinct_dict_union: "distinct (map fst a) \<Longrightarrow> distinct (map fst (dict_union a b))"
  unfolding dict_union_def by (induction b arbitrary: a) (simp_all add: distinct_tput)

lemma to_model_last_scan: "to_model n r = Inr a \<Longrightarrow> ca_last_scan_started_at a = r_last_scan_started_at r"
  by (auto simp: to_model_def split: sum.splits)

lemma to_model_id: "to_model n r = Inr a \<Longrightarrow> ca_id a = r_id r"
  by (auto simp: to_model_def split: sum.splits)

lemma repo_list_ok:
  assumes "accounts_ok w"
  shows "\<exists>found. repo_list ids w = (Inr found, w) \<and>
    (list_all (\<lambda>a. ca_last_scan_started_at a = None) found \<longleftrightarrow>
     (\<forall>r\<in>set (accounts w). r_id r \<in> set ids \<longrightarrow> r_last_scan_started_at r = None)) \<and>
    (list_ex (\<lambda>a. ca_last_scan_started_at a = None) (filter (\<lambda>a. ca_id a \<in> set ids) found) \<longleftrightarrow>
     (\<exists>r\<in>set (accounts w). r_id r \<in> set ids \<and> r_last_scan_started_at r = None))"
proof -
  let ?rs = "filter (\<lambda>r. r_id r \<in> set ids) (accounts w)"
  define g where "g r = projr (to_model None r)" for r
  have g: "to_model None r = Inr (g r)" if "r \<in> set ?rs" for r
  proof -
    have "row_ok (next_uuid w) r" using that assms by (auto simp: accounts_ok_def)
    then obtain a where "to_model None r = Inr a" using readable_to_model row_ok_readable by blast
    then show ?thesis by (simp add: g_def)
  qed
  have "ca_last_scan_started_at (g r) = r_last_scan_started_at r \<and> ca_id (g r) = r_id r" if "r \<in> set ?rs" for r
    using to_model_last_scan [OF g [OF that]] to_model_id [OF g [OF that]] by simp
  then have "list_all (\<lambda>a. ca_last_scan_started_at a = None) (map g ?rs) \<longleftrightarrow>
      (\<forall>r\<in>set (accounts w). r_id r \<in> set ids \<longrightarrow> r_last_scan_started_at r = None)"
    "list_ex (\<lambda>a. ca_last_scan_started_at a = None) (filter (\<lambda>a. ca_id a \<in> set ids) (map g ?rs)) \<longleftrightarrow>
      (\<exists>r\<in>set (accounts w). r_id r \<in> set ids \<and> r_last_scan_started_at r = None)"
    by (auto simp: list_all_iff list_ex_iff)
  moreover have "repo_list ids w = (Inr (map g ?rs), w)"
    using traverse_ok [of ?rs "to_model None" g] g by (simp add: repo_list_def)
  ultimately show ?thesis by blast
qed

lemma collected_effect_state:
  "\<exists>a'. Some (collected_effect th nr t x a) = Some a' \<and>
     (if th < ci_scanned_resources (snd x)
      then ca_failed_scan_count a' = 0 \<and>
        ca_state a' = (case ca_state a of Degraded access e s err \<Rightarrow> Configured access e s | state \<Rightarrow> state)
      else ca_failed_scan_count a' = ca_failed_scan_count a + 1 \<and>
        (0 \<le> ca_failed_scan_count a \<and> ca_failed_scan_count a < 3 \<longrightarrow> ca_state a' = ca_state a) \<and>
        (3 \<le> ca_failed_scan_count a \<longrightarrow> state_access (ca_state a) \<noteq> None \<longrightarrow> is_degraded (ca_state a')))"
  by (cases "ca_state a")
    (auto simp: collected_effect_def Let_def after_collect_def compute_failed_scan_count_def set_degraded_def
      set_configured_def)

text \<open>
  C20: A finished collect run settles the accounts it names: one with more resources than the
  threshold has its counter of failed scans reset and, if it was degraded, is configured again
  with the same access and flags; one with fewer counts as failed and is degraded from the
  fourth time on. The run is announced once to the workspace. Analytics get, once each and in this order, the first
  collect of a workspace (when no account of the run had been scanned before), the first collect of an account (when
  some account of the run had not), and the summary; nothing but the accounts and the logs changes. The
  workspace is told by mail exactly when no successful account of the run had been scanned
  before; this holds too for a run without any successful account, so the mail that
  announces the first successful collect goes out, once per such run, when every account failed.
\<close>

theorem collected_settles:
  assumes "accounts_ok w" and "get_workspace ws w = (Inr (Some m), w)"
    and "distinct (map fst ok)" and "\<forall>x\<in>set (dict_union ok failed). stored (fst x) w \<noteq> None"
  shows "\<exists>w'. on_tenant_accounts_collected env ws ok failed next_run w = (Inr (), w') \<and>
    (\<forall>x a. x \<in> set (dict_union ok failed) \<longrightarrow> stored (fst x) w = Some a \<longrightarrow> (\<exists>a'. stored (fst x) w' = Some a' \<and>
       (if account_failed_resource_count env < ci_scanned_resources (snd x)
        then ca_failed_scan_count a' = 0 \<and>
          ca_state a' = (case ca_state a of Degraded access e s err \<Rightarrow> Configured access e s | state \<Rightarrow> state)
        else ca_failed_scan_count a' = ca_failed_scan_count a + 1 \<and>
          (0 \<le> ca_failed_scan_count a \<and> ca_failed_scan_count a < 3 \<longrightarrow> ca_state a' = ca_state a) \<and>
          (3 \<le> ca_failed_scan_count a \<longrightarrow> state_access (ca_state a) \<noteq> None \<longrightarrow> is_degraded (ca_state a'))))) \<and>
    (\<forall>j. j \<notin> fst ` set (dict_union ok failed) \<longrightarrow> stored j w' = stored j w) \<and>
    (let first_workspace_collect = (\<forall>r\<in>set (accounts w). r_id r \<in> fst ` set ok \<longrightarrow> r_last_scan_started_at r = None);
         first_account_collect = (\<exists>r\<in>set (accounts w). r_id r \<in> fst ` set ok \<and> r_last_scan_started_at r = None);
         owner = ws_owner_id m in
     \<exists>as es. w' = w\<lparr>accounts := as, events := es,
       pubsub := pubsub w @ [TenantAccountsCollected ws ok failed next_run],
       analytics := analytics w @ (if first_workspace_collect then [AEFirstWorkspaceCollectFinished owner ws] else []) @
         (if first_account_collect then [AEFirstAccountCollectFinished owner ws] else []) @
         [AEWorkspaceCollectFinished owner ws (length ok) (sum_list (map (ci_scanned_resources \<circ> snd) ok))],
       mails := mails w @ (if first_workspace_collect then [MailToWorkspace ws SecurityScanFinished] else [])\<rparr>) \<and>
    (ok = [] \<longrightarrow> mails w' = mails w @ [MailToWorkspace ws SecurityScanFinished])"
proof -
  let ?th = "account_failed_resource_count env" and ?all = "dict_union ok failed" and ?owner = "ws_owner_id m"
  let ?first = "\<forall>r\<in>set (accounts w). r_id r \<in> fst ` set ok \<longrightarrow> r_last_scan_started_at r = None"
    and ?some = "\<exists>r\<in>set (accounts w). r_id r \<in> fst ` set ok \<and> r_last_scan_started_at r = None"
  obtain found where found: "repo_list (map fst ok) w = (Inr found, w)"
    "list_all (\<lambda>a. ca_last_scan_started_at a = None) found \<longleftrightarrow> ?first"
    "list_ex (\<lambda>a. ca_last_scan_started_at a = None) (filter (\<lambda>a. ca_id a \<in> fst ` set ok) found) \<longleftrightarrow> ?some"
    using repo_list_ok [OF assms(1), of "map fst ok"] by auto
  obtain w1 where w1: "for_each (account_collected ?th next_run) ?all w = (Inr (), w1)" "frame w1 = frame w"
    "\<And>x a. x \<in> set ?all \<Longrightarrow> stored (fst x) w = Some a \<Longrightarrow>
       stored (fst x) w1 = Some (collected_effect ?th next_run (clock w) x a)"
    "\<And>j. j \<notin> fst ` set ?all \<Longrightarrow> tfind r_id j (accounts w1) = tfind r_id j (accounts w)"
    by (rule collected.loop_stored [OF TrueI distinct_dict_union [OF assms(3)]]) (use assms(4) in blast)+
  have same: "w1 = w\<lparr>accounts := accounts w1, events := events w1\<rparr>" using w1(2) by (rule frame_eq)
  have ws: "user_id_from_workspace env ws v = (Inr ?owner, v)" if "orgs v = orgs w" "members v = members w" for v
    using get_workspace_other [OF assms(2) that] by (simp add: user_id_from_workspace_def)
  define w' where "w' = w1\<lparr>pubsub := pubsub w @ [TenantAccountsCollected ws ok failed next_run],
      analytics := analytics w @ (if ?first then [AEFirstWorkspaceCollectFinished ?owner ws] else []) @
        (if ?some then [AEFirstAccountCollectFinished ?owner ws] else []) @
        [AEWorkspaceCollectFinished ?owner ws (length ok) (sum_list (map (ci_scanned_resources \<circ> snd) ok))],
      mails := mails w @ (if ?first then [MailToWorkspace ws SecurityScanFinished] else [])\<rparr>"
  have run: "on_tenant_accounts_collected env ws ok failed next_run w = (Inr (), w')"
    using w1(1) ws frame_fields [OF w1(2)] arg_cong [OF same, of analytics]
    by (cases ?first; cases ?some) (simp_all only: on_tenant_accounts_collected_def bind_Inr [where m = "repo_list _", OF found(1)] Let_def found(2,3) list.map_comp w'_def; simp)+
  have st: "stored j w' = stored j w1" for j by (rule stored_row) (simp add: w'_def)
  have each: "stored (fst x) w' = Some (collected_effect ?th next_run (clock w) x a)"
    if "x \<in> set ?all" "stored (fst x) w = Some a" for x a using w1(3) [OF that] st by simp
  show ?thesis
  proof (intro exI [of _ w'] conjI allI impI run)
    fix x a assume x: "x \<in> set ?all" "stored (fst x) w = Some a"
    show "\<exists>a'. stored (fst x) w' = Some a' \<and>
       (if ?th < ci_scanned_resources (snd x)
        then ca_failed_scan_count a' = 0 \<and>
          ca_state a' = (case ca_state a of Degraded access e s err \<Rightarrow> Configured access e s | state \<Rightarrow> state)
        else ca_failed_scan_count a' = ca_failed_scan_count a + 1 \<and>
          (0 \<le> ca_failed_scan_count a \<and> ca_failed_scan_count a < 3 \<longrightarrow> ca_state a' = ca_state a) \<and>
          (3 \<le> ca_failed_scan_count a \<longrightarrow> state_access (ca_state a) \<noteq> None \<longrightarrow> is_degraded (ca_state a')))"
      unfolding each [OF x] by (rule collected_effect_state)
  next
    show "stored j w' = stored j w" if "j \<notin> fst ` set ?all" for j
      using st w1(4) [OF that] stored_row by metis
  next
    show "mails w' = mails w @ [MailToWorkspace ws SecurityScanFinished]" if "ok = []" using that by (simp add: w'_def)
  next
    show "let first_workspace_collect = ?first; first_account_collect = ?some; owner = ?owner in
     \<exists>as es. w' = w\<lparr>accounts := as, events := es,
       pubsub := pubsub w @ [TenantAccountsCollected ws ok failed next_run],
       analytics := analytics w @ (if first_workspace_collect then [AEFirstWorkspaceCollectFinished owner ws] else []) @
         (if first_account_collect then [AEFirstAccountCollectFinished owner ws] else []) @
         [AEWorkspaceCollectFinished owner ws (length ok) (sum_list (map (ci_scanned_resources \<circ> snd) ok))],
       mails := mails w @ (if first_workspace_collect then [MailToWorkspace ws SecurityScanFinished] else [])\<rparr>"
      unfolding w'_def Let_def by (subst same) (intro exI [where x = "accounts w1"] exI [where x = "events w1"], simp)
  qed
qed

lemma collected_settles_witness:
  "(\<exists>w'. on_tenant_accounts_collected sample_env 7 [(1, sample_info)] [] None two_accounts = (Inr (), w') \<and>
     (\<exists>a'. stored 1 w' = Some a' \<and> ca_failed_scan_count a' = 0) \<and> stored 2 w' = stored 2 two_accounts \<and>
     length (mails w') = 1 \<and> length (analytics w') = 3) \<and>
   (\<exists>w'. on_tenant_accounts_collected sample_env 7 [] [(1, sample_info)] None two_accounts = (Inr (), w') \<and>
     mails w' = [MailToWorkspace 7 SecurityScanFinished])"
proof -
  obtain m where m: "get_workspace 7 two_accounts = (Inr (Some m), two_accounts)"
    using two_accounts_workspace by (auto simp: has_workspace_def)
  have logs: "mails two_accounts = []" "analytics two_accounts = []"
    "\<forall>r\<in>set (accounts two_accounts). r_last_scan_started_at r = None" "\<exists>r\<in>set (accounts two_accounts). r_id r = 1"
    by (simp_all add: two_accounts_def one_account_def empty_world_def sample_row_def)
  have named: "set (dict_union [(k, i)] []) = {(k, i)}" "set (dict_union [] [(k, i)]) = {(k, i)}" for k :: uuid and i :: collect_info
    by (simp_all add: dict_union_def)
  have scanned: "account_failed_resource_count sample_env < ci_scanned_resources sample_info"
    by (simp add: sample_env_def sample_info_def)
  have unscanned: "\<exists>r\<in>set (accounts two_accounts). r_id r = 1 \<and> r_last_scan_started_at r = None" using logs(3,4) by blast
  note first = collected_settles [OF two_accounts_ok m, of "[(1, sample_info)]" "[]" sample_env None, unfolded Let_def]
    and failed = collected_settles [OF two_accounts_ok m, of "[]" "[(1, sample_info)]" sample_env None, unfolded Let_def]
  have "\<exists>w'. on_tenant_accounts_collected sample_env 7 [(1, sample_info)] [] None two_accounts = (Inr (), w') \<and>
     (\<exists>a'. stored 1 w' = Some a' \<and> ca_failed_scan_count a' = 0) \<and> stored 2 w' = stored 2 two_accounts \<and>
     length (mails w') = 1 \<and> length (analytics w') = 3"
    using first two_accounts_stored logs(1,2,3) scanned unscanned by (simp add: named) (elim exE conjE, simp)
  moreover have "\<exists>w'. on_tenant_accounts_collected sample_env 7 [] [(1, sample_info)] None two_accounts = (Inr (), w') \<and>
     mails w' = [MailToWorkspace 7 SecurityScanFinished]"
    using failed two_accounts_stored logs(1) by (simp add: named) (elim exE conjE, simp)
  ultimately show ?thesis by blast
qed

subsection \<open>Enabling the accounts of a workspace\<close>

definition enable_state :: "account_state \<Rightarrow> account_state" where
  "enable_state s = (case s of Configured x e sc \<Rightarrow> Configured x True sc
     | Degraded x e sc err \<Rightarrow> Degraded x True sc err | _ \<Rightarrow> s)"

text \<open>A workspace whose tier has no limit on the accounts and whose payment is not on hold.\<close>

definition unlimited :: "uuid \<Rightarrow> world \<Rightarrow> bool" where
  "unlimited ws w \<longleftrightarrow> (\<exists>m. fst (get_workspace ws w) = Inr (Some m) \<and> ws_payment_on_hold_since m = None \<and>
     current_product_tier (clock w) m \<noteq> Free)"

lemma get_workspace_fst: "fst (get_workspace ws w) = x \<longleftrightarrow> get_workspace ws w = (x, w)"
  using get_workspace_same [of ws w] by (cases "get_workspace ws w") auto

lemma try_enable_changes:
  assumes "has_workspace ws w" and "stored (ca_id x) w = Some a" and "ca_workspace_id a = ws"
  shows "\<exists>w'. try_enabled ws e x w = (Inr (), w') \<and> changes_only (ca_id x) w w'"
proof -
  obtain m where m: "get_workspace ws w = (Inr (Some m), w)" using assms(1) by (auto simp: has_workspace_def)
  show ?thesis
  proof (cases "set_enabled (clock w) e m (ready_count ws w) a")
    case (Inl err)
    with enabled_error [OF assms(2,3) m Inl] show ?thesis by (simp add: try_enabled_def)
  next
    case (Inr b)
    obtain b' w' where "update_cloud_account_enabled ws (ca_id x) e w = (Inr b', w')" "changes_only (ca_id x) w w'"
      by (rule enabled_run [OF assms(2,3) m Inr])
    then show ?thesis by (simp add: try_enabled_def)
  qed
qed

lemma try_enable_step:
  assumes "unlimited ws w" and "stored (ca_id x) w = Some a" and "ca_workspace_id a = ws"
  shows "\<exists>w'. try_enabled ws True x w = (Inr (), w') \<and>
    stored (ca_id x) w' = Some (settle (clock w) a (a\<lparr>ca_state := enable_state (ca_state a)\<rparr>)) \<and>
    changes_only (ca_id x) w w'"
proof -
  obtain m where m: "get_workspace ws w = (Inr (Some m), w)" "ws_payment_on_hold_since m = None"
    "current_product_tier (clock w) m \<noteq> Free"
    using assms(1) by (auto simp: unlimited_def get_workspace_fst)
  have ok: "validate_tier_restrictions (clock w) True m n = Inr ()" for n
    using m(2,3) by (simp add: validate_tier_restrictions_def free_limit(2))
  show ?thesis
  proof (cases "set_enabled (clock w) True m (ready_count ws w) a")
    case (Inl e)
    then have "a\<lparr>ca_state := enable_state (ca_state a)\<rparr> = a"
      by (cases "ca_state a") (auto simp: set_enabled_def ok enable_state_def)
    with enabled_error [OF assms(2,3) m(1) Inl] assms(2) show ?thesis
      by (simp add: try_enabled_def settle_def)
  next
    case (Inr b)
    then have b: "b = a\<lparr>ca_state := enable_state (ca_state a)\<rparr>"
      by (cases "ca_state a") (auto simp: set_enabled_def ok enable_state_def)
    obtain b' w' where "update_cloud_account_enabled ws (ca_id x) True w = (Inr b', w')"
      "stored (ca_id x) w' = Some (settle (clock w) a b)" "changes_only (ca_id x) w w'"
      by (rule enabled_run [OF assms(2,3) m(1) Inr])
    then show ?thesis by (simp add: try_enabled_def b)
  qed
qed

lemma try_on_hold:
  assumes "get_workspace ws w = (Inr (Some m), w)" and "ws_payment_on_hold_since m \<noteq> None"
    and "\<exists>a. stored (ca_id x) w = Some a \<and> ca_workspace_id a = ws"
  shows "try_enabled ws True x w = (Inr (), w)"
proof -
  obtain a where a: "stored (ca_id x) w = Some a" "ca_workspace_id a = ws" using assms(3) by blast
  have "\<exists>e. set_enabled (clock w) True m (ready_count ws w) a = Inl e"
    using assms(2) by (auto simp: set_enabled_def validate_tier_restrictions_def split: account_state.split option.split)
  then show ?thesis using enabled_error [OF a assms(1)] by (auto simp: try_enabled_def)
qed

lemma for_each_same: "(\<And>x. x \<in> set xs \<Longrightarrow> f x w = (Inr (), w)) \<Longrightarrow> for_each f xs w = (Inr (), w)"
  by (induction xs) simp_all

lemma unlimited_frame: "unlimited ws w \<Longrightarrow> frame w' = frame w \<Longrightarrow> unlimited ws w'"
  using get_workspace_frame [of w' w ws] frame_fields(1) [of w' w] by (simp add: unlimited_def)

interpretation enabling: bulk_update "try_enabled ws True" ca_id "\<lambda>_ a. ca_workspace_id a = ws"
  "\<lambda>t _ a. settle t a (a\<lparr>ca_state := enable_state (ca_state a)\<rparr>)" "unlimited ws" for ws
  by unfold_locales (use try_enable_step unlimited_frame in blast)+

lemma listed_accounts:
  assumes "accounts_ok w" and "list_accounts ws w = (Inr all, w)"
  shows "distinct (map ca_id all)" "\<And>a. a \<in> set all \<Longrightarrow> stored (ca_id a) w = Some (a\<lparr>ca_next_scan := None\<rparr>) \<and> ca_workspace_id a = ws"
proof -
  obtain as where "list_accounts ws w = (Inr as, w)" and as: "distinct (map ca_id as)"
    "\<And>a. a \<in> set as \<Longrightarrow> stored (ca_id a) w = Some (a\<lparr>ca_next_scan := None\<rparr>) \<and> ca_workspace_id a = ws"
    by (rule list_accounts_ok [OF assms(1), of ws]) blast
  then have "as = all" using assms(2) by simp
  with as show "distinct (map ca_id all)" "\<And>a. a \<in> set all \<Longrightarrow> stored (ca_id a) w = Some (a\<lparr>ca_next_scan := None\<rparr>) \<and> ca_workspace_id a = ws"
    by auto
qed

lemma enabling_list:
  assumes ok: "accounts_ok w" and all: "list_accounts ws w = (Inr all, w)" and lim: "unlimited ws w"
  shows "\<exists>w'. for_each (try_enabled ws True) (filter can_be_enabled all) w = (Inr (), w') \<and> frame w' = frame w \<and>
    (\<forall>a\<in>set all. state_name (ca_state a) \<in> {''configured'', ''degraded''} \<longrightarrow>
      (\<exists>a'. stored (ca_id a) w' = Some a' \<and> state_enabled (ca_state a') = Some True))"
proof -
  let ?on = "filter can_be_enabled all"
  note as = listed_accounts [OF ok all]
  have sub: "\<forall>x\<in>set ?on. \<exists>a. stored (ca_id x) w = Some a \<and> ca_workspace_id a = ws" using as(2) by auto
  have dist: "distinct (map ca_id ?on)" using as(1) by (simp add: distinct_map_filter)
  obtain w' where w': "for_each (try_enabled ws True) ?on w = (Inr (), w')" "frame w' = frame w"
    "\<And>x a. x \<in> set ?on \<Longrightarrow> stored (ca_id x) w = Some a \<Longrightarrow>
       stored (ca_id x) w' = Some (settle (clock w) a (a\<lparr>ca_state := enable_state (ca_state a)\<rparr>))"
    "\<And>j. j \<notin> ca_id ` set ?on \<Longrightarrow> tfind r_id j (accounts w') = tfind r_id j (accounts w)"
    by (rule enabling.loop_stored [OF lim dist sub]) blast
  have "\<exists>a'. stored (ca_id a) w' = Some a' \<and> state_enabled (ca_state a') = Some True"
    if a: "a \<in> set all" "state_name (ca_state a) \<in> {''configured'', ''degraded''}" for a
  proof (cases "a \<in> set ?on")
    case True
    from w'(3) [OF this] as(2) [of a] a show ?thesis by (cases "ca_state a") (auto simp: enable_state_def)
  next
    case False
    then have "ca_id a \<notin> ca_id ` set ?on" using as(1) a(1) by (auto simp: distinct_map dest: inj_onD)
    from stored_row [OF w'(4) [OF this]] as(2) [of a] a False show ?thesis
      by (cases "ca_state a") (auto simp: can_be_enabled_def)
  qed
  with w' show ?thesis by auto
qed

text \<open>
  C21: Enabling the accounts of a workspace: on a tier that is not paid, at most the first account
  that is off changes; on a paid tier without a payment on hold every configured or degraded
  account of the list is enabled afterwards; while the payment is on hold nothing changes.
\<close>

theorem enable_by_tier:
  assumes "accounts_ok w" and "get_workspace ws w = (Inr (Some m), w)" and "list_accounts ws w = (Inr all, w)"
  shows "\<exists>w'. enable_cloud_accounts ws w = (Inr (), w') \<and> frame w' = frame w \<and>
    (ws_payment_on_hold_since m \<noteq> None \<longrightarrow> w' = w) \<and>
    (\<not> paid (current_product_tier (clock w) m) \<longrightarrow>
       (\<forall>j. (filter can_be_enabled all = [] \<or> j \<noteq> ca_id (hd (filter can_be_enabled all))) \<longrightarrow>
          stored j w' = stored j w)) \<and>
    (paid (current_product_tier (clock w) m) \<and> ws_payment_on_hold_since m = None \<longrightarrow>
       (\<forall>a\<in>set all. state_name (ca_state a) \<in> {''configured'', ''degraded''} \<longrightarrow>
          (\<exists>a'. stored (ca_id a) w' = Some a' \<and> state_enabled (ca_state a') = Some True)))"
proof -
  let ?tier = "current_product_tier (clock w) m" and ?on = "filter can_be_enabled all"
  have has: "has_workspace ws w" using assms(2) by (auto simp: has_workspace_def)
  have tier: "get_product_tier ws w = (Inr ?tier, w)" using assms(2) by (simp add: get_product_tier_def)
  have st: "\<exists>a. stored (ca_id x) w = Some a \<and> ca_workspace_id a = ws" if "x \<in> set all" for x
    using listed_accounts(2) [OF assms(1,3) that] by auto
  have hold: "for_each (try_enabled ws True) xs w = (Inr (), w)"
    if "ws_payment_on_hold_since m \<noteq> None" "set xs \<subseteq> set all" for xs
    by (rule for_each_same) (use try_on_hold [OF assms(2) that(1)] that(2) st in blast)
  show ?thesis
  proof (cases "paid ?tier")
    case False
    have run: "enable_cloud_accounts ws w = for_each (try_enabled ws True) (take 1 ?on) w"
      using tier False assms(3) by (simp add: enable_cloud_accounts_def Let_def)
    show ?thesis
    proof (cases ?on)
      case Nil
      with run False show ?thesis by simp
    next
      case (Cons x xs)
      then have "x \<in> set all" by (metis filter_is_subset list.set_intros(1) subset_iff)
      then obtain w' where "try_enabled ws True x w = (Inr (), w')" "changes_only (ca_id x) w w'"
        using try_enable_changes [OF has, of x _ True] st by blast
      with run Cons False hold [of "[x]"] \<open>x \<in> set all\<close> show ?thesis
        by (auto simp: changes_only_frame changes_only_stored)
    qed
  next
    case True
    have run: "enable_cloud_accounts ws w = for_each (try_enabled ws True) ?on w"
      using tier True assms(3) by (simp add: enable_cloud_accounts_def Let_def)
    show ?thesis
    proof (cases "ws_payment_on_hold_since m = None")
      case False
      with True run hold [of ?on] show ?thesis by auto
    next
      case None: True
      have "?tier \<noteq> Free" using True by auto
      with assms(2) None have lim: "unlimited ws w" by (auto simp: unlimited_def)
      from enabling_list [OF assms(1,3) lim] run True None show ?thesis by auto
    qed
  qed
qed

lemma enable_by_tier_witness:
  "\<exists>w'. enable_cloud_accounts 7 (two_accounts\<lparr>orgs := [sample_org\<lparr>o_tier := ''Business''\<rparr>]\<rparr>) = (Inr (), w') \<and>
     (\<exists>a'. stored 2 w' = Some a' \<and> state_enabled (ca_state a') = Some True)"
proof -
  let ?w = "two_accounts\<lparr>orgs := [sample_org\<lparr>o_tier := ''Business''\<rparr>]\<rparr>"
  let ?all = "[sample_account, sample_account\<lparr>ca_id := 2, ca_account_id := ''210987654321''\<rparr>]"
  obtain m where m: "get_workspace 7 ?w = (Inr (Some m), ?w)"
    "ws_payment_on_hold_since m = None" "current_product_tier (clock ?w) m = Business"
    by (simp add: get_workspace_run two_accounts_def one_account_def sample_org_def org_to_model_def
        tier_from_str_def current_product_tier_def)
  have list: "list_accounts 7 ?w = (Inr ?all, ?w)"
    by (simp add: list_accounts_def list_by_workspace_id_def two_accounts_def one_account_def empty_world_def
        non_deleted_row_def sample_row_def sample_account_def to_model_def row_state_def row_access_def)
  have "accounts_ok ?w" using two_accounts_ok by (simp add: accounts_ok_def)
  from enable_by_tier [OF this m(1) list] m(2,3) show ?thesis
    by (auto simp: sample_account_def)
qed

subsection \<open>Configuring a discovered account\<close>

text \<open>
  When the role of a discovered AWS account cannot be assumed, the outcome depends on the
  caller and on how long the account has been discovered: the event handler retries during the
  first minute and then leaves the account to the periodic task; the periodic task retries for
  fifteen minutes and then degrades the account. A retry is an exception that changes nothing.
\<close>

theorem assume_role_failure:
  assumes "ca_cloud a = ''aws''" and "ca_state a = Discovered (AwsCloudAccess ext role) en"
    and "can_assume_role api (ca_account_id a) role ext = Failure reason"
    and "stored (ca_id a) w = Some (a\<lparr>ca_next_scan := None\<rparr>)"
  shows "let waited = clock w - ca_state_updated_at a in
    configure_account api True a w =
      ((if td_minutes 1 < waited then Inr (Inl (CantAssumeRole False)) else Inl RuntimeError), w) \<and>
    (waited \<le> td_minutes 15 \<longrightarrow> configure_account api False a w = (Inl RuntimeError, w)) \<and>
    (td_minutes 15 < waited \<longrightarrow>
       (\<exists>w' a'. configure_account api False a w = (Inr (Inl (CantAssumeRole True)), w') \<and>
          stored (ca_id a) w' = Some a' \<and>
          ca_state a' = Degraded (AwsCloudAccess ext role) en False ''Cannot assume role''))"
proof -
  obtain b w' where w': "degrade_account (ca_id a) ''Cannot assume role'' Other w = (Inr b, w')"
    "stored (ca_id a) w' = Some (settle (clock w) (a\<lparr>ca_next_scan := None\<rparr>)
       (set_degraded (clock w) ''Cannot assume role'' (a\<lparr>ca_next_scan := None\<rparr>)))"
    by (rule degrade_run [OF assms(4), of "''Cannot assume role''" Other]) (use assms(2) in auto)
  then show ?thesis using assms(1-3)
    by (auto simp: Let_def configure_account_def assume_role_failed_def become_degraded_timeout_def
        fast_lane_timeout_def set_degraded_def)
qed

definition discovered_row :: account_row where
  "discovered_row = sample_row\<lparr>r_state := Some ''discovered''\<rparr>"

definition discovered_account :: account where
  "discovered_account = sample_account\<lparr>ca_state := Discovered (AwsCloudAccess 9 ''role'') True\<rparr>"

lemma discovered_stored: "stored 1 (one_account discovered_row) = Some discovered_account"
  by (simp add: stored_def one_account_def discovered_row_def discovered_account_def sample_row_def
      sample_account_def to_model_def row_state_def row_access_def)

definition denying_api :: aws_api where
  "denying_api = sample_api\<lparr>sts_assume_role := \<lambda>_ _ _. Inl ''denied''\<rparr>"

lemma assume_role_failure_witness:
  "configure_account denying_api False discovered_account (one_account discovered_row) =
     (Inl RuntimeError, one_account discovered_row)"
  using assume_role_failure [of discovered_account 9 "''role''" True denying_api "''denied''" "one_account discovered_row"]
    discovered_stored
  by (simp add: discovered_account_def sample_account_def denying_api_def can_assume_role_def Let_def
      one_account_def empty_world_def td_defs)

text \<open>
  Configuring a discovered account whose role can be assumed, that may describe the regions
  and that is no organization account: the account becomes configured with the same access, is
  scanned exactly when it was enabled, gets the first alias that AWS reports, loses its privileged
  flag, and is announced exactly once; no other account changes.
\<close>

theorem configure_success:
  assumes "ca_cloud a = ''aws''" and "ca_state a = Discovered (AwsCloudAccess ext role) en"
    and "can_assume_role api (ca_account_id a) role ext = Success cred"
    and "ec2_describe_regions api cred ''us-east-1'' = Inr ()"
    and "list_organization_accounts api cred = Some []"
    and "stored (ca_id a) w = Some (a\<lparr>ca_next_scan := None\<rparr>)"
  shows "\<exists>b w' a'. configure_account api event a w = (Inr (Inr b), w') \<and> stored (ca_id a) w' = Some a' \<and>
    ca_state a' = Configured (AwsCloudAccess ext role) en en \<and> \<not> ca_privileged a' \<and>
    ca_account_alias a' = (if str_true (list_account_aliases api cred)
      then list_account_aliases api cred else ca_account_alias a) \<and>
    (\<forall>j. j \<noteq> ca_id a \<longrightarrow> stored j w' = stored j w) \<and>
    events w' = events w @ [CloudAccountConfigured ''aws'' (ca_id a) (ca_workspace_id a) (ca_account_id a)]"
proof -
  let ?i = "ca_id a" and ?al = "list_account_aliases api cred" and ?a = "a\<lparr>ca_next_scan := None\<rparr>"
  have "\<exists>w1 a1. inspect_account api cred ext a w = (Inr False, w1) \<and> stored ?i w1 = Some a1 \<and>
      ca_state a1 = ca_state a \<and> ca_account_alias a1 = (if str_true ?al then ?al else ca_account_alias a) \<and>
      changes_only ?i w w1 \<and> events w1 = events w"
  proof (cases "str_true ?al")
    case False
    with assms(4-6) show ?thesis by (simp add: inspect_account_def allowed_to_describe_regions_def)
  next
    case True
    let ?f = "\<lambda>acc. Inr (acc\<lparr>ca_account_alias := ?al\<rparr>)"
    obtain b w1 where w1: "repo_update ?i ?f w = (Inr b, w1)"
      "stored ?i w1 = Some (settle (clock w) ?a (?a\<lparr>ca_account_alias := ?al\<rparr>))" "changes_only ?i w w1"
      "events w1 = events w"
      by (rule update_stored [where f = ?f, OF assms(6) refl])
        (use stored_fields(2) [OF assms(6)] in \<open>auto simp: same_account_def\<close>)
    from True w1 assms(4,5) show ?thesis
      by (auto simp: inspect_account_def allowed_to_describe_regions_def Let_def)
  qed
  then obtain w1 a1 where w1: "inspect_account api cred ext a w = (Inr False, w1)" "stored ?i w1 = Some a1"
      "ca_state a1 = ca_state a" "ca_account_alias a1 = (if str_true ?al then ?al else ca_account_alias a)"
      "changes_only ?i w w1" "events w1 = events w" by blast
  let ?g = "update_to_configured (clock w1) (AwsCloudAccess ext role) False"
  let ?b = "a1\<lparr>ca_state := Configured (AwsCloudAccess ext role) en en, ca_privileged := False,
    ca_state_updated_at := clock w1\<rparr>"
  have g: "?g a1 = Inr ?b" using w1(3) assms(2) by (simp add: update_to_configured_def)
  have same: "same_account a1 ?b" using stored_fields(2) [OF w1(2)] w1(3) assms(2) by (simp add: same_account_def)
  obtain b w2 where w2: "repo_update ?i ?g w1 = (Inr b, w2)" "stored ?i w2 = Some (settle (clock w1) a1 ?b)"
    "changes_only ?i w1 w2" "events w2 = events w1"
    by (rule update_stored [where f = ?g, OF w1(2) g same]) blast
  let ?w = "w2\<lparr>events := events w2 @ [CloudAccountConfigured ''aws'' (ca_id a) (ca_workspace_id a) (ca_account_id a)]\<rparr>"
  have "finish_configuration (AwsCloudAccess ext role) False a w1 = (Inr (Inr b), ?w)"
    using w2(1) by (simp add: finish_configuration_def catch_def bind_def)
  then have "configure_account api event a w = (Inr (Inr b), ?w)"
    using assms(1-3) by (simp add: configure_account_def bind_Inr [where m = "inspect_account api cred ext a", OF w1(1)])
  moreover have "stored ?i ?w = Some (settle (clock w1) a1 ?b)" "\<forall>j. j \<noteq> ?i \<longrightarrow> stored j ?w = stored j w"
    using w2(2) changes_only_trans [OF w1(5) w2(3)] by (simp_all add: changes_only_stored)
  moreover have "ca_account_alias (settle (clock w1) a1 ?b) = (if str_true ?al then ?al else ca_account_alias a)"
    using w1(4) by simp
  ultimately show ?thesis using w1(6) w2(4) by fastforce
qed

lemma configure_success_witness:
  "\<exists>b w' a'. configure_account (env_api sample_env) True discovered_account (one_account discovered_row) =
     (Inr (Inr b), w') \<and> stored 1 w' = Some a' \<and> ca_state a' = Configured (AwsCloudAccess 9 ''role'') True True"
proof -
  have "\<exists>cred. can_assume_role (env_api sample_env) ''123456789012'' ''role'' 9 = Success cred"
    by (simp add: can_assume_role_def sample_env_def sample_api_def)
  then obtain cred where "can_assume_role (env_api sample_env) ''123456789012'' ''role'' 9 = Success cred" ..
  moreover have "list_organization_accounts (env_api sample_env) cred = Some []"
    by (simp add: list_organization_accounts_def sample_env_def account_pages.simps)
  moreover have "ec2_describe_regions (env_api sample_env) cred ''us-east-1'' = Inr ()"
    by (simp add: sample_env_def sample_api_def)
  ultimately show ?thesis
    using configure_success [of discovered_account 9 "''role''" True "env_api sample_env" cred
        "one_account discovered_row" True] discovered_stored
    by (auto simp: discovered_account_def sample_account_def)
qed

subsection \<open>Stack events\<close>

text \<open>
  A stack event of a kind that the service does not know is never answered: the response is
  built from the envelope of the queue message, which lacks the fields it needs, so nothing is
  sent to CloudFormation and the message counts as failed.
\<close>

theorem unknown_stack_event_unanswered:
  assumes "cf_request_type msg = Some kind" and "kind \<notin> {''Create'', ''Update'', ''Delete''}"
  shows "process_cf_stack_event env (Some msg) w = (Inr None, w\<lparr>cf_failures := Suc (cf_failures w)\<rparr>)"
  using assms
  by (simp add: process_cf_stack_event_def send_response_def response_of_def envelope_def mark_failed_def)

lemma unknown_stack_event_unanswered_witness:
  "process_cf_stack_event sample_env (Some (envelope\<lparr>cf_request_type := Some ''Rollback''\<rparr>)) two_accounts =
     (Inr None, two_accounts\<lparr>cf_failures := Suc (cf_failures two_accounts)\<rparr>)"
  using unknown_stack_event_unanswered [of "envelope\<lparr>cf_request_type := Some ''Rollback''\<rparr>" "''Rollback''"
      sample_env two_accounts] by simp

text \<open>
  A deleted stack degrades exactly the account it was created for: if role name or external id
  differ from the stored access, or the account has no access, no account changes and the stack is
  still told that all is well; if they match, an account that is not degraded becomes degraded.
\<close>

theorem stack_deleted_effect:
  assumes "stored i w = Some a" and "cf_put_ok env = (\<lambda>_. True)"
    and "cf_request_type msg = Some ''Delete''" and "cf_resource_properties msg = Some p"
    and "cf_role_name p = Some role" and "cf_external_id p = Some ext" and "cf_physical_account_id msg = Some i"
  shows "\<exists>b w' a'. process_cf_stack_event env (Some msg) w = (Inr (Some b), w') \<and> stored i w' = Some a' \<and>
    (\<forall>j. j \<noteq> i \<longrightarrow> stored j w' = stored j w) \<and>
    ca_state a' = (if aws_access a = Some (ext, role)
      then (case ca_state a of
          Discovered access enabled \<Rightarrow> Degraded access enabled False ''CloudformationStack deleted''
        | Configured access enabled scan \<Rightarrow> Degraded access enabled scan ''CloudformationStack deleted''
        | state \<Rightarrow> state)
      else ca_state a)"
proof -
  have send: "\<exists>w'. send_response env msg m e v = (Inr (), w') \<and> (\<forall>j. stored j w' = stored j v)" for m e v
    using assms(2) by (auto simp: send_response_def mark_failed_def stored_def split: option.splits)
  have access: "same_access (a\<lparr>ca_next_scan := n\<rparr>) ext role \<longleftrightarrow> aws_access a = Some (ext, role)" for n
    by (auto simp: same_access_def aws_access_def split: option.splits cloud_access.splits)
  show ?thesis
  proof (cases "aws_access a = Some (ext, role)")
    case False
    obtain w' where "send_response env msg (Some (uuid_str i)) None w = (Inr (), w')" "\<forall>j. stored j w' = stored j w"
      using send by blast
    with False assms repo_get_stored [OF assms(1)] access show ?thesis
      by (auto simp: process_cf_stack_event_def handle_stack_deleted_def)
  next
    case True
    obtain w1 b where w1: "degrade_account i ''CloudformationStack deleted'' Stack_deleted w = (Inr b, w1)"
      "changes_only i w w1" "stored i w1 = Some (if is_degraded (ca_state a) then a
         else settle (clock w) a (set_degraded (clock w) ''CloudformationStack deleted'' a))"
      using degrade_if [OF assms(1), of "''CloudformationStack deleted''" Stack_deleted] by blast
    obtain w' where w': "send_response env msg (Some (uuid_str i)) None w1 = (Inr (), w')" "\<forall>j. stored j w' = stored j w1"
      using send by blast
    have "process_cf_stack_event env (Some msg) w = (Inr (Some b), w')"
      using True assms repo_get_stored [OF assms(1)] access w1(1) w'(1)
      by (simp add: process_cf_stack_event_def handle_stack_deleted_def)
    then show ?thesis using w1 w' True
      by (cases "ca_state a") (auto simp: changes_only_stored set_degraded_def aws_access_def)
  qed
qed

definition sample_deletion :: cf_message where
  "sample_deletion = envelope\<lparr>cf_request_type := Some ''Delete'', cf_physical_account_id := Some 1,
     cf_resource_properties := Some \<lparr>cf_workspace_id = None, cf_external_id = Some 9,
       cf_role_name = Some ''role'', cf_stack_id = Some ''stack''\<rparr>\<rparr>"

lemma stack_deleted_effect_witness:
  "\<exists>b w' a'. process_cf_stack_event sample_env (Some sample_deletion) two_accounts = (Inr (Some b), w') \<and>
     stored 1 w' = Some a' \<and> ca_state a' = Degraded (AwsCloudAccess 9 ''role'') True True ''CloudformationStack deleted''"
  using stack_deleted_effect [OF two_accounts_stored(1), of sample_env sample_deletion
      "\<lparr>cf_workspace_id = None, cf_external_id = Some 9, cf_role_name = Some ''role'', cf_stack_id = Some ''stack''\<rparr>"
      "''role''" 9]
  by (auto simp: sample_env_def sample_deletion_def envelope_def sample_account_def aws_access_def)

end
