(* ===== verification/Collect_Progress.thy ===== *)
theory Collect_Progress
  imports World
begin

section \<open>The progress of a collect run\<close>

text \<open>
  \<open>CollectAccountProgress\<close> of \<open>dispatcher/dispatcher_service.py\<close> over its three kinds of Redis keys:
  per workspace the hash from cloud account to progress and the hash from job to cloud account,
  and per job the workspace. Each key expires four hours after it was last tracked; an expired key
  is read as missing.
\<close>

definition tracking_expiration :: timedelta where
  "tracking_expiration = td_hours 4"

definition live_progress :: "uuid \<Rightarrow> world \<Rightarrow> (uuid \<times> account_collect_progress) list" where
  "live_progress ws w = (case tfind ph_workspace_id ws (progress w) of
     Some h \<Rightarrow> if clock w < ph_expires_at h then ph_entries h else []
   | None \<Rightarrow> [])"

definition live_jobs :: "uuid \<Rightarrow> world \<Rightarrow> (uuid \<times> uuid) list" where
  "live_jobs ws w = (case tfind jh_workspace_id ws (jobs_in_progress w) of
     Some h \<Rightarrow> if clock w < jh_expires_at h then jh_entries h else []
   | None \<Rightarrow> [])"

definition live_job :: "uuid \<Rightarrow> world \<Rightarrow> uuid option" where
  "live_job job w = (case tfind jk_job_id job (job_keys w) of
     Some k \<Rightarrow> if clock w < jk_expires_at k then Some (jk_workspace_id k) else None
   | None \<Rightarrow> None)"

fun information_account :: "account_information \<Rightarrow> string \<times> string" where
  "information_account (AwsAccountInformation i _ _ _) = (i, ''aws'')"
| "information_account (GcpProjectInformation i _) = (i, ''gcp'')"
| "information_account (AzureSubscriptionInformation i _ _ _ _) = (i, ''azure'')"

definition track_account_collection_progress ::
  "uuid \<Rightarrow> uuid \<Rightarrow> account_information \<Rightarrow> uuid \<Rightarrow> datetime \<Rightarrow> unit io" where
  "track_account_collection_progress ws cloud_account_id information job_id now =
     (let (account_id, cloud) = information_account information;
          value = \<lparr>cp_cloud = cloud, cp_cloud_account_id = cloud_account_id, cp_account_id = account_id,
                   cp_started_at = now, cp_collection_done = None\<rparr> in
      modify (\<lambda>w.
        let expires = clock w + tracking_expiration in
        w\<lparr>progress := tput ph_workspace_id \<lparr>ph_workspace_id = ws,
             ph_entries = tput fst (cloud_account_id, value) (live_progress ws w),
             ph_expires_at = expires\<rparr> (progress w),
          jobs_in_progress := tput jh_workspace_id \<lparr>jh_workspace_id = ws,
             jh_entries = tput fst (job_id, cloud_account_id) (live_jobs ws w),
             jh_expires_at = expires\<rparr> (jobs_in_progress w),
          job_keys := tput jk_job_id \<lparr>jk_job_id = job_id, jk_workspace_id = ws, jk_expires_at = expires\<rparr>
             (job_keys w)\<rparr>))"

definition get_tenant_collect_state :: "uuid \<Rightarrow> (uuid \<times> account_collect_progress) list io" where
  "get_tenant_collect_state ws = gets (live_progress ws)"

definition get_account_collect_state :: "uuid \<Rightarrow> uuid \<Rightarrow> account_collect_progress option io" where
  "get_account_collect_state ws account_id =
     gets (\<lambda>w. map_option snd (tfind fst account_id (live_progress ws w)))"

definition get_account_collect_state_by_job_id :: "uuid \<Rightarrow> uuid \<Rightarrow> account_collect_progress option io" where
  "get_account_collect_state_by_job_id ws job_id =
     bind (gets (\<lambda>w. map_option snd (tfind fst job_id (live_jobs ws w)))) (\<lambda>account.
     case account of None \<Rightarrow> ret None
     | Some account_id \<Rightarrow> get_account_collect_state ws account_id)"

definition account_collection_ongoing :: "uuid \<Rightarrow> uuid \<Rightarrow> bool io" where
  "account_collection_ongoing ws cloud_account_id =
     bind (get_account_collect_state ws cloud_account_id) (\<lambda>collect_state.
     if collect_state = None then ret False else ret True)"

text \<open>\<open>HSET\<close> of one progress value; the hash keeps its expiration.\<close>

definition hset_progress :: "uuid \<Rightarrow> uuid \<Rightarrow> account_collect_progress \<Rightarrow> unit io" where
  "hset_progress ws cloud_account_id value = modify (\<lambda>w.
     case tfind ph_workspace_id ws (progress w) of
       Some h \<Rightarrow> w\<lparr>progress := tput ph_workspace_id
           (h\<lparr>ph_entries := tput fst (cloud_account_id, value) (live_progress ws w)\<rparr>) (progress w)\<rparr>
     | None \<Rightarrow> w)"

definition mark_account_as_collected ::
  "uuid \<Rightarrow> uuid \<Rightarrow> int \<Rightarrow> int \<Rightarrow> string \<Rightarrow> string list \<Rightarrow> (uuid \<times> account_collect_progress) list io" where
  "mark_account_as_collected ws cloud_account_id nr_of_resources scan_duration task_id error_messages =
     bind (get_tenant_collect_state ws) (\<lambda>collect_state.
     case tfind fst cloud_account_id collect_state of
       None \<Rightarrow> raise ExternalError
     | Some (_, p) \<Rightarrow>
         let collect_done = progress_done p nr_of_resources scan_duration task_id error_messages in
         bind (hset_progress ws cloud_account_id collect_done) (\<lambda>_.
         ret (dict_union collect_state [(cloud_account_id, collect_done)])))"

definition workspace_id_from_job_id :: "uuid \<Rightarrow> uuid option io" where
  "workspace_id_from_job_id job_id = gets (live_job job_id)"

definition mark_job_as_failed :: "uuid \<Rightarrow> int \<Rightarrow> string option \<Rightarrow> string \<Rightarrow> unit io" where
  "mark_job_as_failed job_id duration task_id error =
     bind (workspace_id_from_job_id job_id) (\<lambda>workspace.
     case workspace of None \<Rightarrow> ret ()
     | Some ws \<Rightarrow>
         bind (get_account_collect_state_by_job_id ws job_id) (\<lambda>state.
         case state of None \<Rightarrow> ret ()
         | Some p \<Rightarrow>
             let failed = progress_failed p error duration task_id in
             hset_progress ws (cp_cloud_account_id failed) failed))"

definition delete_tenant_collect_state :: "uuid \<Rightarrow> unit io" where
  "delete_tenant_collect_state ws =
     seq (modify (\<lambda>w. w\<lparr>progress := tdel ph_workspace_id ws (progress w)\<rparr>))
    (bind (gets (live_jobs ws)) (\<lambda>all_job_ids.
     seq (modify (\<lambda>w. w\<lparr>job_keys := filter (\<lambda>k. jk_job_id k \<notin> fst ` set all_job_ids) (job_keys w)\<rparr>))
         (modify (\<lambda>w. w\<lparr>jobs_in_progress := tdel jh_workspace_id ws (jobs_in_progress w)\<rparr>))))"

subsection \<open>Reading what was written\<close>

lemma tfind_tput: "tfind key k (tput key r rs) = (if key r = k then Some r else tfind key k rs)"
  using tfind_tput_same [of key r rs] by auto

lemma tracking_positive: "0 < tracking_expiration"
  by (simp add: tracking_expiration_def td_defs)

lemma live_progress_log [simp]:
  "live_progress ws (w\<lparr>queue := q\<rparr>) = live_progress ws w"
  "live_progress ws (w\<lparr>events := es\<rparr>) = live_progress ws w"
  "live_progress ws (w\<lparr>next_uuid := n\<rparr>) = live_progress ws w"
  "live_progress ws (w\<lparr>metering := ms\<rparr>) = live_progress ws w"
  by (simp_all add: live_progress_def split: option.split)

lemma live_job_log [simp]:
  "live_job j (w\<lparr>queue := q\<rparr>) = live_job j w" "live_job j (w\<lparr>events := es\<rparr>) = live_job j w"
  "live_job j (w\<lparr>next_uuid := n\<rparr>) = live_job j w" "live_job j (w\<lparr>metering := ms\<rparr>) = live_job j w"
  by (simp_all add: live_job_def split: option.split)

lemma live_jobs_log [simp]:
  "live_jobs ws (w\<lparr>queue := q\<rparr>) = live_jobs ws w" "live_jobs ws (w\<lparr>events := es\<rparr>) = live_jobs ws w"
  "live_jobs ws (w\<lparr>next_uuid := n\<rparr>) = live_jobs ws w" "live_jobs ws (w\<lparr>metering := ms\<rparr>) = live_jobs ws w"
  by (simp_all add: live_jobs_def split: option.split)

lemma track_live:
  "live_progress ws (snd (track_account_collection_progress ws i info job now w)) =
     tput fst (i, \<lparr>cp_cloud = snd (information_account info), cp_cloud_account_id = i,
       cp_account_id = fst (information_account info), cp_started_at = now, cp_collection_done = None\<rparr>)
       (live_progress ws w)"
  "live_jobs ws (snd (track_account_collection_progress ws i info job now w)) =
     tput fst (job, i) (live_jobs ws w)"
  "live_job job (snd (track_account_collection_progress ws i info job now w)) = Some ws"
  by (simp_all add: track_account_collection_progress_def live_progress_def live_jobs_def live_job_def Let_def
      tfind_tput tracking_positive case_prod_beta cong: option.case_cong)

lemma track_other:
  "ws' \<noteq> ws \<Longrightarrow> live_progress ws' (snd (track_account_collection_progress ws i info job now w)) = live_progress ws' w"
  by (simp add: track_account_collection_progress_def live_progress_def Let_def tfind_tput
      case_prod_beta cong: option.case_cong)

lemma hset_live:
  assumes "tfind fst i (live_progress ws w) \<noteq> None"
  shows "live_progress ws (snd (hset_progress ws i p w)) = tput fst (i, p) (live_progress ws w)"
    and "live_jobs ws' (snd (hset_progress ws i p w)) = live_jobs ws' w"
    and "live_job j (snd (hset_progress ws i p w)) = live_job j w"
    and "ws' \<noteq> ws \<Longrightarrow> live_progress ws' (snd (hset_progress ws i p w)) = live_progress ws' w"
proof -
  obtain h where h: "tfind ph_workspace_id ws (progress w) = Some h" "clock w < ph_expires_at h"
    using assms by (auto simp: live_progress_def split: option.splits if_splits)
  have "ph_workspace_id h = ws" using h(1) by (auto dest: tfind_Some)
  with h show "live_progress ws (snd (hset_progress ws i p w)) = tput fst (i, p) (live_progress ws w)"
    "live_jobs ws' (snd (hset_progress ws i p w)) = live_jobs ws' w"
    "live_job j (snd (hset_progress ws i p w)) = live_job j w"
    "ws' \<noteq> ws \<Longrightarrow> live_progress ws' (snd (hset_progress ws i p w)) = live_progress ws' w"
    by (simp_all add: hset_progress_def live_progress_def live_jobs_def live_job_def tfind_tput cong: option.case_cong)
qed

lemma live_jobs_progress [simp]: "live_jobs ws (w\<lparr>progress := ps\<rparr>) = live_jobs ws w"
  by (simp add: live_jobs_def split: option.split)

lemma delete_live:
  "live_progress ws (snd (delete_tenant_collect_state ws w)) = []"
  "live_jobs ws (snd (delete_tenant_collect_state ws w)) = []"
  "job \<in> fst ` set (live_jobs ws w) \<Longrightarrow> live_job job (snd (delete_tenant_collect_state ws w)) = None"
  "ws' \<noteq> ws \<Longrightarrow> live_progress ws' (snd (delete_tenant_collect_state ws w)) = live_progress ws' w"
proof -
  have "tfind jk_job_id j (filter (\<lambda>k. jk_job_id k \<notin> S) ks) = None" if "j \<in> S" for j S and ks :: "job_key list"
    using that by (auto simp: tfind_None)
  then show "job \<in> fst ` set (live_jobs ws w) \<Longrightarrow> live_job job (snd (delete_tenant_collect_state ws w)) = None"
    by (simp add: delete_tenant_collect_state_def live_job_def live_jobs_progress)
qed (simp_all add: delete_tenant_collect_state_def live_progress_def live_jobs_def cong: option.case_cong)

end
