(* ===== verification/Metering.thy ===== *)
theory Metering
  imports World
begin

section \<open>Metering\<close>

text \<open>
  \<open>metering/metering_repository.py\<close>: one record per account and collect run, and the summary over
  a period by account, which counts the runs and takes the highest tier. The rows of the table are
  the records themselves: the tier is written as its value and read back with \<open>from_str\<close>, which
  \<open>tier_from_str_value\<close> shows to be the identity. \<open>GROUP BY\<close> gives the groups in the order of their
  first record.
\<close>

definition metering_add :: "metering_record list \<Rightarrow> unit io" where
  "metering_add records =
     (if records = [] then ret () else modify (\<lambda>w. w\<lparr>metering := metering w @ records\<rparr>))"

definition in_period :: "datetime option \<Rightarrow> datetime option \<Rightarrow> metering_record \<Rightarrow> bool" where
  "in_period start until r \<longleftrightarrow>
     (case start of None \<Rightarrow> True | Some t \<Rightarrow> t \<le> m_timestamp r) \<and>
     (case until of None \<Rightarrow> True | Some t \<Rightarrow> m_timestamp r \<le> t)"

definition summary_of :: "metering_record list \<Rightarrow> string \<times> string option \<Rightarrow> metering_summary" where
  "summary_of rs k =
     (let group = filter (\<lambda>r. (m_account_id r, m_account_name r) = k) rs in
      \<lparr>sm_account_id = fst k, sm_account_name = snd k, sm_count = length group,
       sm_product_tier = py_max Free (map m_product_tier group)\<rparr>)"

definition collect_summary ::
  "uuid \<Rightarrow> datetime option \<Rightarrow> datetime option \<Rightarrow> int \<Rightarrow> nat \<Rightarrow> metering_summary list io" where
  "collect_summary ws start until min_resources_collected min_nr_of_collects =
     gets (\<lambda>w.
       let rs = filter (\<lambda>r. m_workspace_id r = ws \<and> min_resources_collected \<le> m_nr_of_resources_collected r \<and>
                 in_period start until r) (metering w);
           keys = rev (remdups (rev (map (\<lambda>r. (m_account_id r, m_account_name r)) rs)))
       in filter (\<lambda>s. min_nr_of_collects \<le> sm_count s) (map (summary_of rs) keys))"

definition metering_list ::
  "uuid \<Rightarrow> datetime option \<Rightarrow> datetime option \<Rightarrow> nat \<Rightarrow> nat \<Rightarrow> metering_record list io" where
  "metering_list ws start until limit offset =
     gets (\<lambda>w. take limit (drop offset (filter (\<lambda>r. m_workspace_id r = ws \<and> in_period start until r) (metering w))))"

lemma collect_summary_same [simp]: "snd (collect_summary ws s e n k w) = w"
  by (simp add: collect_summary_def)

lemma preserves_collect_summary [pres, simp]: "preserves I (collect_summary ws s e n k)"
  by (simp add: preserves_def)

text \<open>
  The summary of a period has one entry per account (id and name), whose count is the number of
  its runs in the period with enough resources, and whose tier is the highest tier of these runs;
  accounts with too few runs are left out.
\<close>

theorem collect_summary_exact:
  "\<exists>sums. collect_summary ws start until n k w = (Inr sums, w) \<and>
    distinct (map (\<lambda>s. (sm_account_id s, sm_account_name s)) sums) \<and>
    (\<forall>s. s \<in> set sums \<longleftrightarrow>
      (let runs = filter (\<lambda>r. m_workspace_id r = ws \<and> n \<le> m_nr_of_resources_collected r \<and> in_period start until r \<and>
             m_account_id r = sm_account_id s \<and> m_account_name r = sm_account_name s) (metering w)
       in runs \<noteq> [] \<and> k \<le> length runs \<and> sm_count s = length runs \<and>
          sm_product_tier s = Max (set (map m_product_tier runs))))"
proof -
  let ?rs = "filter (\<lambda>r. m_workspace_id r = ws \<and> n \<le> m_nr_of_resources_collected r \<and> in_period start until r) (metering w)"
  let ?key = "\<lambda>r. (m_account_id r, m_account_name r)"
  let ?keys = "rev (remdups (rev (map ?key ?rs)))"
  let ?sums = "filter (\<lambda>s. k \<le> sm_count s) (map (summary_of ?rs) ?keys)"
  let ?runs = "\<lambda>s. filter (\<lambda>r. m_workspace_id r = ws \<and> n \<le> m_nr_of_resources_collected r \<and> in_period start until r \<and>
             m_account_id r = sm_account_id s \<and> m_account_name r = sm_account_name s) (metering w)"
  have max: "py_max Free xs = Max (set xs)" if "xs \<noteq> []" for xs :: "product_tier list"
    by (rule Max_eqI [symmetric]) (use that py_max_upper py_max_in in auto)
  have runs: "?runs s = filter (\<lambda>r. ?key r = (sm_account_id s, sm_account_name s)) ?rs" for s
    by (auto intro!: filter_cong)
  have key: "(sm_account_id (summary_of ?rs x), sm_account_name (summary_of ?rs x)) = x" for x
    by (simp add: summary_of_def Let_def)
  have "distinct (map (\<lambda>s. (sm_account_id s, sm_account_name s)) (map (summary_of ?rs) ?keys))"
    by (simp add: comp_def key)
  then have "distinct (map (\<lambda>s. (sm_account_id s, sm_account_name s)) ?sums)"
    by (rule distinct_map_filter)
  moreover have "s \<in> set ?sums \<longleftrightarrow> ?runs s \<noteq> [] \<and> k \<le> length (?runs s) \<and> sm_count s = length (?runs s) \<and>
      sm_product_tier s = Max (set (map m_product_tier (?runs s)))" for s
  proof
    assume "s \<in> set ?sums"
    then obtain a b where x: "(a, b) \<in> ?key ` set ?rs" "s = summary_of ?rs (a, b)" "k \<le> sm_count s" by auto
    have r: "?runs s = filter (\<lambda>r. ?key r = (a, b)) ?rs" using runs [of s] key [of "(a, b)"] x(2) by simp
    then have ne: "?runs s \<noteq> []" using x(1) by (auto simp: filter_empty_conv)
    have "sm_count s = length (?runs s)" "sm_product_tier s = py_max Free (map m_product_tier (?runs s))"
      unfolding r x(2) by (simp_all add: summary_of_def Let_def)
    with ne x(3) max show "?runs s \<noteq> [] \<and> k \<le> length (?runs s) \<and> sm_count s = length (?runs s) \<and>
      sm_product_tier s = Max (set (map m_product_tier (?runs s)))" by simp
  next
    assume A: "?runs s \<noteq> [] \<and> k \<le> length (?runs s) \<and> sm_count s = length (?runs s) \<and>
      sm_product_tier s = Max (set (map m_product_tier (?runs s)))"
    let ?x = "(sm_account_id s, sm_account_name s)"
    obtain r where "r \<in> set (?runs s)" using A by (cases "?runs s") auto
    then have "?x \<in> ?key ` set ?rs" unfolding runs by (force simp: image_iff)
    moreover have "summary_of ?rs ?x = s"
    proof -
      have "py_max Free (map m_product_tier (?runs s)) = sm_product_tier s" using A max by simp
      then show ?thesis using A unfolding runs by (simp add: summary_of_def Let_def)
    qed
    ultimately show "s \<in> set ?sums" using A by (auto simp: image_iff)
  qed
  ultimately show ?thesis by (simp add: collect_summary_def Let_def)
qed

end
