(* ===== verification/Dispatcher.thy ===== *)
theory Dispatcher
  imports Collect_Progress Metering Workspace_Repository Cloud_Account_Repository
begin

section \<open>The dispatcher\<close>

text \<open>
  \<open>DispatcherService\<close> of \<open>dispatcher/dispatcher_service.py\<close> and \<open>RedisCollectQueue\<close> of
  \<open>collect/collect_queue.py\<close>: collect jobs are scheduled and tracked, their results are metered and
  recorded, and when all jobs of a workspace are done the run is completed with one event, after
  a post-collect job unless all of them failed.
\<close>

subsection \<open>The queue and the database access\<close>

definition get_database_access :: "uuid \<Rightarrow> graph_database_access option io" where
  "get_database_access ws = gets (\<lambda>w. tfind g_workspace_id ws (graph_access w))"

text \<open>The queue refuses a job id that it holds already (\<open>JobAlreadyEnqueued\<close>).\<close>

fun job_id_of :: "collect_job \<Rightarrow> uuid option" where
  "job_id_of (CollectJob i _ _ _ _) = Some i"
| "job_id_of (PostCollectJob _ _) = None"

definition enqueue_collect ::
  "graph_database_access \<Rightarrow> account_information \<Rightarrow> uuid \<Rightarrow> timedelta option \<Rightarrow> timedelta option \<Rightarrow> unit io" where
  "enqueue_collect db information job_id defer_by retry_failed_for =
     bind (gets (\<lambda>w. Some job_id \<in> job_id_of ` set (queue w))) (\<lambda>exists.
     if exists then raise RuntimeError
     else enqueue (CollectJob job_id db information defer_by retry_failed_for))"

definition enqueue_post_collect :: "graph_database_access \<Rightarrow> post_collect_account_info list \<Rightarrow> unit io" where
  "enqueue_post_collect db accounts_collected = enqueue (PostCollectJob db accounts_collected)"

subsection \<open>Completing a run\<close>

lemma bind_bool [simp]:
  "m w = (Inr False, w') \<Longrightarrow> bind m f w = f False w'"
  "m w = (Inr True, w') \<Longrightarrow> bind m f w = f True w'"
  by (simp_all add: bind_def)

definition success_info :: "account_collect_progress \<Rightarrow> collect_info option" where
  "success_info p = (case cp_collection_done p of
     Some (CollectionSuccess resources duration task_id errors) \<Rightarrow> Some
       \<lparr>ci_account_id = cp_account_id p, ci_scanned_resources = resources, ci_duration_seconds = duration,
        ci_started_at = cp_started_at p, ci_task_id = Some task_id, ci_errors = errors\<rparr>
   | _ \<Rightarrow> None)"

definition failure_info :: "account_collect_progress \<Rightarrow> collect_info option" where
  "failure_info p = (case cp_collection_done p of
     Some (CollectionFailure duration task_id error) \<Rightarrow> Some
       \<lparr>ci_account_id = cp_account_id p, ci_scanned_resources = 0, ci_duration_seconds = duration,
        ci_started_at = cp_started_at p, ci_task_id = task_id, ci_errors = [error]\<rparr>
   | _ \<Rightarrow> None)"

definition infos ::
  "(account_collect_progress \<Rightarrow> collect_info option) \<Rightarrow> (uuid \<times> account_collect_progress) list \<Rightarrow>
   (uuid \<times> collect_info) list" where
  "infos f state = concat (map (\<lambda>(k, p). case f p of Some i \<Rightarrow> [(k, i)] | None \<Rightarrow> []) state)"

definition send_domain_event :: "uuid \<Rightarrow> (uuid \<times> account_collect_progress) list \<Rightarrow> unit io" where
  "send_domain_event ws collect_state =
     (let collected_success = infos success_info collect_state;
          collected_failed = infos failure_info collect_state in
      bind (next_run_get ws) (\<lambda>next_run.
      if collected_success \<noteq> []
      then publish (TenantAccountsCollected ws collected_success collected_failed next_run)
      else if collected_failed \<noteq> []
      then publish (TenantAccountsCollectFailed ws collected_failed next_run)
      else ret ()))"

definition all_done :: "(uuid \<times> account_collect_progress) list \<Rightarrow> bool" where
  "all_done state \<longleftrightarrow> list_all (\<lambda>(_, p). is_done p) state"

definition complete_collect_job :: "uuid \<Rightarrow> unit io" where
  "complete_collect_job ws =
     bind (get_tenant_collect_state ws) (\<lambda>tenant_collect_state.
     if \<not> all_done tenant_collect_state then ret ()
     else seq (send_domain_event ws tenant_collect_state) (delete_tenant_collect_state ws))"

subsection \<open>Messages of the collect workers\<close>

text \<open>A field that the message lacks is \<open>None\<close>; the account details are complete.\<close>

record account_details =
  ad_cloud :: string
  ad_name :: "string option"
  ad_summary :: "int list"      \<comment> \<open>the values of the summary\<close>

record job_message =
  jm_job_id :: uuid
  jm_task_id :: "string option"
  jm_tenant_id :: "uuid option"
  jm_account_info :: "(string \<times> account_details) list option"
  jm_messages :: "string list option"
  jm_started_at :: "datetime option"
  jm_duration :: "int option"
  jm_error :: "string option"

definition process_post_collect_done_message :: "uuid \<Rightarrow> bool \<Rightarrow> unit io" where
  "process_post_collect_done_message ws success =
     bind (get_tenant_collect_state ws) (\<lambda>tenant_collect_state.
     if \<not> all_done tenant_collect_state then ret ()
     else if \<not> success then ret ()
     else complete_collect_job ws)"

definition handle_job_error :: "job_message \<Rightarrow> string \<Rightarrow> unit io" where
  "handle_job_error message error =
     mark_job_as_failed (jm_job_id message)
       (case jm_duration message of Some d \<Rightarrow> d | None \<Rightarrow> 0) (jm_task_id message) error"

fun metering_records ::
  "(uuid \<Rightarrow> string \<Rightarrow> account_details \<Rightarrow> metering_record) \<Rightarrow> (string \<times> account_details) list \<Rightarrow>
   metering_record list io" where
  "metering_records mk [] = ret []"
| "metering_records mk ((account_id, details) # rest) =
     bind uuid4 (\<lambda>i. bind (metering_records mk rest) (\<lambda>rs. ret (mk i account_id details # rs)))"

definition handle_job_success :: "job_message \<Rightarrow> unit io" where
  "handle_job_success message =
     (case (jm_task_id message, jm_tenant_id message, jm_account_info message, jm_messages message,
            jm_started_at message, jm_duration message) of
        (Some task_id, Some ws, Some account_info, Some messages, Some started_at, Some duration) \<Rightarrow>
          bind (get_workspace ws) (\<lambda>workspace.
          bind utc (\<lambda>now.
          let tier = (case workspace of Some m \<Rightarrow> current_product_tier now m | None \<Rightarrow> Free) in
          bind (metering_records (\<lambda>i account_id details.
              \<lparr>m_id = i, m_workspace_id = ws, m_cloud = ad_cloud details, m_account_id = account_id,
               m_account_name = ad_name details, m_timestamp = now, m_job_id = jm_job_id message,
               m_task_id = task_id, m_nr_of_resources_collected = sum_list (ad_summary details),
               m_nr_of_error_messages = length messages, m_started_at = started_at,
               m_duration = duration, m_product_tier = tier\<rparr>) account_info) (\<lambda>records.
          bind (metering_add records) (\<lambda>_.
          bind (get_account_collect_state_by_job_id ws (jm_job_id message)) (\<lambda>account_progress.
          case account_progress of None \<Rightarrow> ret ()
          | Some p \<Rightarrow>
              bind (mark_account_as_collected ws (cp_cloud_account_id p)
                (sum_list (map m_nr_of_resources_collected records)) duration task_id messages) (\<lambda>_.
              ret ()))))))
      | _ \<Rightarrow> raise KeyError)"

definition trigger_post_collect :: "uuid \<Rightarrow> post_collect_account_info list \<Rightarrow> unit io" where
  "trigger_post_collect ws collected =
     bind (get_database_access ws) (\<lambda>db.
     case db of None \<Rightarrow> ret () | Some d \<Rightarrow> enqueue_post_collect d collected)"

definition post_collect_infos :: "(uuid \<times> account_collect_progress) list \<Rightarrow> post_collect_account_info list" where
  "post_collect_infos state = concat (map (\<lambda>(_, p). case cp_collection_done p of
     Some (CollectionSuccess _ _ task_id _) \<Rightarrow>
       [\<lparr>pc_cloud = cp_cloud p, pc_account_id = cp_account_id p, pc_task_id = task_id\<rparr>]
   | _ \<Rightarrow> []) state)"

text \<open>What follows the recording of a result.\<close>

definition after_job :: "uuid \<Rightarrow> unit io" where
  "after_job job_id =
     bind (workspace_id_from_job_id job_id) (\<lambda>workspace_id.
     case workspace_id of None \<Rightarrow> ret ()
     | Some ws \<Rightarrow>
         bind (get_tenant_collect_state ws) (\<lambda>tenant_collect_state.
         if \<not> all_done tenant_collect_state then ret ()
         else if list_all (\<lambda>(_, p). done_failure p) tenant_collect_state then complete_collect_job ws
         else
           let collected = post_collect_infos tenant_collect_state in
           seq (if collected = [] then complete_collect_job ws else ret ())
               (trigger_post_collect ws collected)))"

definition collect_job_finished :: "job_message \<Rightarrow> bool \<Rightarrow> unit io" where
  "collect_job_finished message failed =
     (let error = (if failed then str_or (jm_error message) (Some ''received job failed message'')
                   else jm_error message) in
      seq (case error of
             Some e \<Rightarrow> if e \<noteq> [] then handle_job_error message e else handle_job_success message
           | None \<Rightarrow> handle_job_success message)
          (after_job (jm_job_id message)))"

subsection \<open>Triggering collect jobs\<close>

definition account_information :: "bool \<Rightarrow> account \<Rightarrow> account_information option io" where
  "account_information collect_microsoft_graph account =
     (case (case ca_state account of Configured a _ _ \<Rightarrow> Some a | Degraded a _ _ _ \<Rightarrow> Some a | _ \<Rightarrow> None) of
        None \<Rightarrow> ret None
      | Some access \<Rightarrow>
          (case access of
             AwsCloudAccess external_id role_name \<Rightarrow>
               ret (Some (AwsAccountInformation (ca_account_id account) (final_name account)
                 (''arn:aws:iam::'' @ ca_account_id account @ '':role/'' @ role_name) external_id))
           | GcpCloudAccess key_id \<Rightarrow>
               bind (gets (\<lambda>w. tfind gk_id key_id (gcp_keys w))) (\<lambda>key.
               ret (map_option (\<lambda>k. GcpProjectInformation (ca_account_id account) (gk_value k)) key))
           | AzureCloudAccess credential_id \<Rightarrow>
               bind (gets (\<lambda>w. tfind az_id credential_id (azure_credentials w))) (\<lambda>credential.
               ret (map_option (\<lambda>c. AzureSubscriptionInformation (ca_account_id account)
                 (az_azure_tenant_id c) (az_client_id c) (az_client_secret c) collect_microsoft_graph)
                 credential))))"

definition trigger_collect ::
  "account \<Rightarrow> timedelta option \<Rightarrow> timedelta option \<Rightarrow> bool \<Rightarrow> unit io" where
  "trigger_collect account defer_by retry_failed_for collect_microsoft_graph =
     bind (account_collection_ongoing (ca_workspace_id account) (ca_id account)) (\<lambda>ongoing.
     if ongoing then ret ()
     else
       bind (account_information collect_microsoft_graph account) (\<lambda>ai.
       case ai of None \<Rightarrow> ret ()
       | Some information \<Rightarrow>
           bind (get_database_access (ca_workspace_id account)) (\<lambda>db.
           case db of None \<Rightarrow> ret ()
           | Some d \<Rightarrow>
               bind uuid4 (\<lambda>job_id.
               bind utc (\<lambda>now.
               seq (track_account_collection_progress (ca_workspace_id account) (ca_id account) information job_id now)
                   (enqueue_collect d information job_id defer_by retry_failed_for))))))"

definition process_workspace_created :: "uuid \<Rightarrow> unit io" where
  "process_workspace_created workspace_id =
     bind (get_product_tier workspace_id) (\<lambda>product_tier.
     bind utc (\<lambda>now.
     next_run_create workspace_id (next_run_for now product_tier None)))"

definition process_aws_account_configured :: "uuid \<Rightarrow> unit io" where
  "process_aws_account_configured cloud_account_id =
     bind (repo_get cloud_account_id) (\<lambda>found.
     case found of None \<Rightarrow> ret ()
     | Some account \<Rightarrow> trigger_collect account (Some (td_minutes 3)) (Some (td_minutes 15)) False)"

text \<open>The state of the loop is \<open>azure_graph_scheduled\<close>.\<close>

fun trigger_all :: "account list \<Rightarrow> bool \<Rightarrow> bool io" where
  "trigger_all [] graph_scheduled = ret graph_scheduled"
| "trigger_all (a # as) graph_scheduled =
     (if ca_cloud a = ''azure'' \<and> \<not> graph_scheduled
      then seq (trigger_collect a None None True) (trigger_all as True)
      else seq (trigger_collect a None None False) (trigger_all as graph_scheduled))"

definition schedule_workspace :: "timedelta \<Rightarrow> datetime \<Rightarrow> uuid \<times> datetime \<Rightarrow> bool \<Rightarrow> bool io" where
  "schedule_workspace degraded_acc_ping_interval now due graph_scheduled =
     bind (list_by_workspace_id (fst due) True False) (\<lambda>healthy_accounts.
     bind (list_degraded_for_ping (fst due) (now - degraded_acc_ping_interval)) (\<lambda>degraded_accounts.
     bind (get_product_tier (fst due)) (\<lambda>product_tier.
     bind (trigger_all (healthy_accounts @ degraded_accounts) graph_scheduled) (\<lambda>graph_scheduled'.
     seq (for_each (\<lambda>a. bind (repo_update (ca_id a)
            (\<lambda>acc. Inr (acc\<lparr>ca_last_degraded_scan_started_at := Some now\<rparr>))) (\<lambda>_. ret ())) degraded_accounts)
    (bind (update_next_run_for (fst due) product_tier (Some (snd due))) (\<lambda>_.
     ret graph_scheduled'))))))"

fun schedule_due :: "timedelta \<Rightarrow> datetime \<Rightarrow> (uuid \<times> datetime) list \<Rightarrow> bool \<Rightarrow> unit io" where
  "schedule_due interval now [] graph_scheduled = ret ()"
| "schedule_due interval now (d # ds) graph_scheduled =
     bind (schedule_workspace interval now d graph_scheduled) (\<lambda>g. schedule_due interval now ds g)"

definition schedule_next_runs :: "timedelta \<Rightarrow> unit io" where
  "schedule_next_runs degraded_acc_ping_interval =
     bind utc (\<lambda>now.
     bind (older_than now) (\<lambda>due.
     seq (schedule_due degraded_acc_ping_interval now due False)
    (bind (list_non_hourly_failed_scans_accounts now) (\<lambda>failed_accounts.
     for_each (\<lambda>a. trigger_collect a None None False) failed_accounts))))"

subsection \<open>A run ends once\<close>

definition completion_events :: "uuid \<Rightarrow> world \<Rightarrow> domain_event list" where
  "completion_events ws w =
     (let state = live_progress ws w; next_run = map_option n_at (tfind n_tenant_id ws (next_runs w)) in
      if infos success_info state \<noteq> []
      then [TenantAccountsCollected ws (infos success_info state) (infos failure_info state) next_run]
      else if infos failure_info state \<noteq> []
      then [TenantAccountsCollectFailed ws (infos failure_info state) next_run] else [])"

lemma send_domain_event_run:
  "send_domain_event ws (live_progress ws w) w = (Inr (), w\<lparr>events := events w @ completion_events ws w\<rparr>)"
  by (simp add: send_domain_event_def next_run_get_def completion_events_def Let_def)

lemma complete_run:
  "complete_collect_job ws w =
     (if all_done (live_progress ws w)
      then delete_tenant_collect_state ws (w\<lparr>events := events w @ completion_events ws w\<rparr>)
      else (Inr (), w))"
  by (simp add: complete_collect_job_def get_tenant_collect_state_def send_domain_event_run)

lemma delete_state_run:
  "fst (delete_tenant_collect_state ws w) = Inr ()"
  "events (snd (delete_tenant_collect_state ws w)) = events w"
  "queue (snd (delete_tenant_collect_state ws w)) = queue w"
  "accounts (snd (delete_tenant_collect_state ws w)) = accounts w"
  by (simp_all add: delete_tenant_collect_state_def)

lemma infos_nonempty: "infos f state \<noteq> [] \<longleftrightarrow> (\<exists>x\<in>set state. f (snd x) \<noteq> None)"
  by (induction state) (auto simp: infos_def split: option.splits)

lemma done_infos: "is_done p \<Longrightarrow> success_info p \<noteq> None \<or> failure_info p \<noteq> None"
  by (auto simp: is_done_def success_info_def failure_info_def split: collection_result.split)

text \<open>
  C2: A collect run is completed only when every tracked account is done, and then once: exactly
  one event is published if any account was tracked, the tracking of the workspace is gone with
  the keys of its jobs, other workspaces keep theirs, and completing it again publishes nothing.
\<close>

theorem run_completed_once:
  "let state = live_progress ws w; w' = snd (complete_collect_job ws w) in
   fst (complete_collect_job ws w) = Inr () \<and>
   (if \<exists>x\<in>set state. \<not> is_done (snd x) then w' = w
    else live_progress ws w' = [] \<and>
      (\<forall>job\<in>fst ` set (live_jobs ws w). live_job job w' = None) \<and>
      (\<forall>ws'. ws' \<noteq> ws \<longrightarrow> live_progress ws' w' = live_progress ws' w) \<and>
      length (events w') = length (events w) + (if state = [] then 0 else 1) \<and>
      events (snd (complete_collect_job ws w')) = events w')"
proof (cases "all_done (live_progress ws w)")
  case False
  then have "\<exists>x\<in>set (live_progress ws w). \<not> is_done (snd x)" by (force simp: all_done_def list_all_iff)
  moreover have "complete_collect_job ws w = (Inr (), w)" using False by (simp add: complete_run)
  ultimately show ?thesis by (simp add: Let_def)
next
  case True
  let ?w = "w\<lparr>events := events w @ completion_events ws w\<rparr>"
  have none: "\<not> (\<exists>x\<in>set (live_progress ws w). \<not> is_done (snd x))"
    using True by (auto simp: all_done_def list_all_iff)
  have len: "length (completion_events ws w) = (if live_progress ws w = [] then 0 else 1)"
  proof (cases "live_progress ws w")
    case Nil
    then show ?thesis by (simp add: completion_events_def Let_def infos_def)
  next
    case (Cons x xs)
    with none have "is_done (snd x)" by auto
    from done_infos [OF this] have "infos success_info (live_progress ws w) \<noteq> [] \<or> infos failure_info (live_progress ws w) \<noteq> []"
      unfolding infos_nonempty Cons by auto
    with Cons show ?thesis by (auto simp: completion_events_def Let_def)
  qed
  have run: "complete_collect_job ws w = delete_tenant_collect_state ws ?w" using True by (simp add: complete_run)
  let ?w' = "snd (delete_tenant_collect_state ws ?w)"
  have silent: "events (snd (complete_collect_job ws ?w')) = events w @ completion_events ws w"
    by (simp add: complete_run delete_live all_done_def delete_state_run completion_events_def infos_def Let_def)
  have evs: "events ?w' = events w @ completion_events ws w" by (simp add: delete_state_run)
  show ?thesis
    unfolding Let_def run if_not_P [OF none]
  proof (intro conjI)
    show "length (events ?w') = length (events w) + (if live_progress ws w = [] then 0 else 1)"
      unfolding evs len [symmetric] by (rule length_append)
    show "events (snd (complete_collect_job ws ?w')) = events ?w'" by (rule trans [OF silent evs [symmetric]])
  qed (simp_all add: delete_state_run delete_live)
qed

definition sample_progress :: account_collect_progress where
  "sample_progress = \<lparr>cp_cloud = ''aws'', cp_cloud_account_id = 1, cp_account_id = ''123456789012'',
     cp_started_at = 0, cp_collection_done = Some (CollectionSuccess 10 5 ''t'' [])\<rparr>"

definition sample_run :: world where
  "sample_run = (empty_world 100 50)\<lparr>progress := [\<lparr>ph_workspace_id = 7, ph_entries = [(1, sample_progress)],
     ph_expires_at = 1000\<rparr>], job_keys := [\<lparr>jk_job_id = 5, jk_workspace_id = 7, jk_expires_at = 1000\<rparr>],
     graph_access := [\<lparr>g_workspace_id = 7, g_server = ''s'', g_username = ''u'', g_password = ''p'', g_database = ''db''\<rparr>]\<rparr>"

lemma sample_run_live: "live_progress 7 sample_run = [(1, sample_progress)]" "live_job 5 sample_run = Some 7"
  by (simp_all add: live_progress_def live_job_def sample_run_def empty_world_def)

lemma run_completed_once_witness:
  "live_progress 7 (snd (complete_collect_job 7 sample_run)) = [] \<and>
   length (events (snd (complete_collect_job 7 sample_run))) = 1"
  using run_completed_once [of 7 sample_run]
  by (simp add: Let_def sample_run_live is_done_def sample_progress_def) (simp add: sample_run_def empty_world_def)

subsection \<open>After a job\<close>

lemma post_collect_nonempty:
  "post_collect_infos state \<noteq> [] \<longleftrightarrow> (\<exists>x\<in>set state. done_success (snd x))"
  by (induction state) (auto simp: post_collect_infos_def done_success_def split: option.splits collection_result.splits)

text \<open>
  What a finished job starts: while an account of the workspace is not done, nothing; when all
  are done and all failed, the run is completed; otherwise exactly one post-collect job is queued,
  for the accounts that succeeded, of which there is at least one, and the run is not completed
  before that job reports: the branch for nothing to post-collect is never taken.
\<close>

theorem after_job_cases:
  assumes "live_job job w = Some ws" and "tfind g_workspace_id ws (graph_access w) = Some db"
  shows "after_job job w =
    (if \<exists>x\<in>set (live_progress ws w). \<not> is_done (snd x) then (Inr (), w)
     else if \<forall>x\<in>set (live_progress ws w). done_failure (snd x) then complete_collect_job ws w
     else (Inr (), w\<lparr>queue := queue w @ [PostCollectJob db (post_collect_infos (live_progress ws w))]\<rparr>)) \<and>
   ((\<forall>x\<in>set (live_progress ws w). is_done (snd x)) \<longrightarrow> (\<exists>x\<in>set (live_progress ws w). \<not> done_failure (snd x)) \<longrightarrow>
      post_collect_infos (live_progress ws w) \<noteq> [])"
proof -
  have ne: "post_collect_infos (live_progress ws w) \<noteq> []"
    if "\<forall>x\<in>set (live_progress ws w). is_done (snd x)" "\<exists>x\<in>set (live_progress ws w). \<not> done_failure (snd x)"
    using that done_cases unfolding post_collect_nonempty by blast
  have all: "all_done (live_progress ws w) \<longleftrightarrow> (\<forall>x\<in>set (live_progress ws w). is_done (snd x))"
    "list_all (\<lambda>(_, p). done_failure p) (live_progress ws w) \<longleftrightarrow> (\<forall>x\<in>set (live_progress ws w). done_failure (snd x))"
    by (auto simp: all_done_def list_all_iff)
  have run: "after_job job w =
     (if \<not> all_done (live_progress ws w) then (Inr (), w)
      else if list_all (\<lambda>(_, p). done_failure p) (live_progress ws w) then complete_collect_job ws w
      else seq (if post_collect_infos (live_progress ws w) = [] then complete_collect_job ws else ret ())
        (trigger_post_collect ws (post_collect_infos (live_progress ws w))) w)"
    using assms(1) by (simp add: after_job_def workspace_id_from_job_id_def get_tenant_collect_state_def Let_def)
  have post: "trigger_post_collect ws c w = (Inr (), w\<lparr>queue := queue w @ [PostCollectJob db c]\<rparr>)" for c
    using assms(2) by (simp add: trigger_post_collect_def get_database_access_def enqueue_post_collect_def)
  show ?thesis unfolding run all using ne post by auto
qed

lemma after_job_cases_witness:
  "queue (snd (after_job 5 sample_run)) =
     [PostCollectJob \<lparr>g_workspace_id = 7, g_server = ''s'', g_username = ''u'', g_password = ''p'', g_database = ''db''\<rparr>
        [\<lparr>pc_cloud = ''aws'', pc_account_id = ''123456789012'', pc_task_id = ''t''\<rparr>]]"
proof -
  have "tfind g_workspace_id 7 (graph_access sample_run) =
      Some \<lparr>g_workspace_id = 7, g_server = ''s'', g_username = ''u'', g_password = ''p'', g_database = ''db''\<rparr>"
    by (simp add: sample_run_def empty_world_def)
  from after_job_cases [OF sample_run_live(2) this] show ?thesis
    by (simp add: sample_run_live is_done_def done_failure_def sample_progress_def post_collect_infos_def)
      (simp add: sample_run_def empty_world_def)
qed

subsection \<open>No account is collected twice at a time\<close>

lemma account_information_run:
  "\<exists>ai. account_information graph a w = (Inr ai, w) \<and>
     (\<forall>info. ai = Some info \<longrightarrow> fst (information_account info) = ca_account_id a)"
proof -
  have "\<exists>ai. (case access of
             AwsCloudAccess external_id role_name \<Rightarrow>
               ret (Some (AwsAccountInformation (ca_account_id a) (final_name a)
                 (''arn:aws:iam::'' @ ca_account_id a @ '':role/'' @ role_name) external_id))
           | GcpCloudAccess key_id \<Rightarrow>
               bind (gets (\<lambda>w. tfind gk_id key_id (gcp_keys w))) (\<lambda>key.
               ret (map_option (\<lambda>k. GcpProjectInformation (ca_account_id a) (gk_value k)) key))
           | AzureCloudAccess credential_id \<Rightarrow>
               bind (gets (\<lambda>w. tfind az_id credential_id (azure_credentials w))) (\<lambda>credential.
               ret (map_option (\<lambda>c. AzureSubscriptionInformation (ca_account_id a)
                 (az_azure_tenant_id c) (az_client_id c) (az_client_secret c) graph) credential))) w = (Inr ai, w) \<and>
      (\<forall>info. ai = Some info \<longrightarrow> fst (information_account info) = ca_account_id a)" for access
    by (cases access) (auto split: prod.splits)
  then show ?thesis by (cases "ca_state a") (simp_all add: account_information_def)
qed

text \<open>
  C11: Triggering a collect queues at most one job, for an account of the workspace that has no
  collect going on; when a job is queued the account is tracked under it, so triggering the same
  account again, for whatever reason, does nothing until the run is completed or expires.
\<close>

theorem trigger_collect_once:
  assumes "Some (next_uuid w) \<notin> job_id_of ` set (queue w)"
  shows "let w' = snd (trigger_collect a defer retry graph w) in
    (tfind fst (ca_id a) (live_progress (ca_workspace_id a) w) \<noteq> None \<longrightarrow> w' = w) \<and>
    (w' = w \<or>
     (\<exists>db info. queue w' = queue w @ [CollectJob (next_uuid w) db info defer retry] \<and>
        g_workspace_id db = ca_workspace_id a \<and> fst (information_account info) = ca_account_id a \<and>
        live_job (next_uuid w) w' = Some (ca_workspace_id a) \<and>
        (\<forall>defer' retry' graph'. snd (trigger_collect a defer' retry' graph' w') = w')))"
proof -
  let ?ws = "ca_workspace_id a" and ?i = "ca_id a"
  have ongoing: "trigger_collect a d r g v = (Inr (), v)" if "tfind fst ?i (live_progress ?ws v) \<noteq> None" for d r g v
    using that by (auto simp: trigger_collect_def account_collection_ongoing_def get_account_collect_state_def)
  show ?thesis
  proof (cases "tfind fst ?i (live_progress ?ws w)")
    case (Some x)
    with ongoing [of w] show ?thesis by simp
  next
    case None
    obtain ai where ai: "account_information graph a w = (Inr ai, w)"
      "\<And>info. ai = Some info \<Longrightarrow> fst (information_account info) = ca_account_id a"
      using account_information_run [of graph a w] by blast
    have start: "trigger_collect a defer retry graph w =
       (case ai of None \<Rightarrow> (Inr (), w) | Some information \<Rightarrow>
          (case tfind g_workspace_id ?ws (graph_access w) of None \<Rightarrow> (Inr (), w)
           | Some d \<Rightarrow> seq (track_account_collection_progress ?ws ?i information (next_uuid w) (clock w))
               (enqueue_collect d information (next_uuid w) defer retry) (w\<lparr>next_uuid := Suc (next_uuid w)\<rparr>)))"
      using None ai(1) by (simp add: trigger_collect_def account_collection_ongoing_def
          get_account_collect_state_def get_database_access_def split: option.split)
    show ?thesis
    proof (cases "ai = None \<or> tfind g_workspace_id ?ws (graph_access w) = None")
      case True
      then show ?thesis using None by (auto simp: start Let_def split: option.split)
    next
      case False
      then obtain info d where d: "ai = Some info" "tfind g_workspace_id ?ws (graph_access w) = Some d" by auto
      let ?v = "snd (track_account_collection_progress ?ws ?i info (next_uuid w) (clock w) (w\<lparr>next_uuid := Suc (next_uuid w)\<rparr>))"
      have v: "track_account_collection_progress ?ws ?i info (next_uuid w) (clock w) (w\<lparr>next_uuid := Suc (next_uuid w)\<rparr>) = (Inr (), ?v)"
        "queue ?v = queue w"
        by (simp_all add: track_account_collection_progress_def Let_def case_prod_beta)
      have run: "trigger_collect a defer retry graph w =
          (Inr (), ?v\<lparr>queue := queue w @ [CollectJob (next_uuid w) d info defer retry]\<rparr>)"
        using start d v assms by (simp add: enqueue_collect_def)
      have "tfind fst ?i (live_progress ?ws (?v\<lparr>queue := q\<rparr>)) \<noteq> None" for q
        by (simp add: track_live tfind_tput)
      from ongoing [OF this] have again: "snd (trigger_collect a d' r' g' (?v\<lparr>queue := q\<rparr>)) = ?v\<lparr>queue := q\<rparr>" for d' r' g' q
        by simp
      show ?thesis
        using None d(1) ai(2) tfind_Some [OF d(2)] again by (auto simp: run Let_def track_live)
    qed
  qed
qed

lemma trigger_collect_once_witness:
  "let a = sample_account\<lparr>ca_id := 2, ca_workspace_id := 7\<rparr>; w' = snd (trigger_collect a None None False sample_run) in
   length (queue w') = 1 \<and> snd (trigger_collect a None None True w') = w'"
proof -
  let ?a = "sample_account\<lparr>ca_id := 2, ca_workspace_id := 7\<rparr>"
  have "queue (snd (trigger_collect ?a None None False sample_run)) \<noteq> queue sample_run"
    by (simp add: trigger_collect_def account_collection_ongoing_def get_account_collect_state_def sample_run_live
        account_information_def sample_account_def get_database_access_def track_account_collection_progress_def
        enqueue_collect_def Let_def case_prod_beta)
      (simp add: sample_run_def empty_world_def)
  then have "snd (trigger_collect ?a None None False sample_run) \<noteq> sample_run" by metis
  moreover have "Some (next_uuid sample_run) \<notin> job_id_of ` set (queue sample_run)" "queue sample_run = []"
    by (simp_all add: sample_run_def empty_world_def)
  ultimately show ?thesis using trigger_collect_once [of sample_run ?a None None False] by (auto simp: Let_def)
qed

end
