(* ===== verification/Subscription_Repository.thy ===== *)
theory Subscription_Repository
  imports World
begin

section \<open>Subscriptions and billing entries in the database\<close>

text \<open>
  \<open>SubscriptionRepository\<close>, \<open>StripeCustomerRepository\<close> and \<open>AwsTierPreferenceRepository\<close> of
  \<open>subscription/subscription_repository.py\<close>. A query result is the list of matching rows in the
  order of insertion. A comparison with a column that is NULL is not true. The session passed to some
  operations joins a transaction; here every operation commits.
\<close>

subsection \<open>Reading subscriptions\<close>

definition scalar_one_or_none :: "'r list \<Rightarrow> exn + 'r option" where
  "scalar_one_or_none rs =
     (case rs of [] \<Rightarrow> Inr None | [r] \<Rightarrow> Inr (Some r) | _ \<Rightarrow> Inl MultipleResultsFound)"

definition read_row :: "('r \<Rightarrow> exn + 'a) \<Rightarrow> 'r option \<Rightarrow> exn + 'a option" where
  "read_row conv found =
     (case found of None \<Rightarrow> Inr None
      | Some r \<Rightarrow> (case conv r of Inl e \<Rightarrow> Inl e | Inr a \<Rightarrow> Inr (Some a)))"

definition aws_marketplace_subscription :: "uuid \<Rightarrow> string \<Rightarrow> subscription_method option io" where
  "aws_marketplace_subscription user_id customer_identifier =
     bind (gets (\<lambda>w. filter (\<lambda>r. s_aws_customer_identifier r = Some customer_identifier \<and>
                                    s_user_id r = Some user_id) (subscription_rows w))) (\<lambda>rows.
     bind (lift (scalar_one_or_none rows)) (\<lambda>found.
     lift (read_row sub_to_model found)))"

text \<open>
  \<open>mark_aws_marketplace_subscriptions\<close> executes its update and leaves the session without a commit,
  which rolls it back: the number of matching rows is all that is left of it.
\<close>

definition mark_aws_marketplace_subscriptions :: "string \<Rightarrow> bool \<Rightarrow> nat io" where
  "mark_aws_marketplace_subscriptions customer_identifier active =
     gets (\<lambda>w. length (filter (\<lambda>r. s_aws_customer_identifier r = Some customer_identifier)
       (subscription_rows w)))"

definition get_subscription :: "uuid \<Rightarrow> subscription_method option io" where
  "get_subscription subscription_id =
     bind (gets (\<lambda>w. tfind s_id subscription_id (subscription_rows w))) (\<lambda>found.
     lift (read_row sub_to_model found))"

text \<open>The optional arguments of \<open>subscriptions\<close>.\<close>

record sub_filter =
  f_user_id :: "uuid option"
  f_aws_customer_identifier :: "string option"
  f_stripe_customer_identifier :: "string option"
  f_stripe_subscription_identifier :: "string option"
  f_active :: "bool option"
  f_next_charge_before :: "datetime option"
  f_next_charge_after :: "datetime option"
  f_is_aws :: "bool option"
  f_is_stripe :: "bool option"
  f_stripe_workspace_id :: "uuid option"

definition no_filter :: sub_filter where
  "no_filter = \<lparr>f_user_id = None, f_aws_customer_identifier = None,
     f_stripe_customer_identifier = None, f_stripe_subscription_identifier = None, f_active = None,
     f_next_charge_before = None, f_next_charge_after = None, f_is_aws = None, f_is_stripe = None,
     f_stripe_workspace_id = None\<rparr>"

text \<open>Whether a condition that is not given, or an empty string, restricts nothing.\<close>

definition where_str :: "string option \<Rightarrow> string option \<Rightarrow> bool" where
  "where_str given column \<longleftrightarrow> (str_true given \<longrightarrow> column = given)"

definition where_id :: "uuid option \<Rightarrow> uuid option \<Rightarrow> bool" where
  "where_id given column \<longleftrightarrow> (given \<noteq> None \<longrightarrow> column = given)"

definition where_time :: "(datetime \<Rightarrow> datetime \<Rightarrow> bool) \<Rightarrow> datetime option \<Rightarrow> datetime option \<Rightarrow> bool" where
  "where_time cmp given column = (case given of None \<Rightarrow> True
     | Some t \<Rightarrow> (case column of None \<Rightarrow> False | Some c \<Rightarrow> cmp c t))"

definition sub_matches :: "sub_filter \<Rightarrow> subscription_row \<Rightarrow> bool" where
  "sub_matches f r \<longleftrightarrow>
     where_id (f_user_id f) (s_user_id r) \<and>
     where_str (f_aws_customer_identifier f) (s_aws_customer_identifier r) \<and>
     (case f_active f of None \<Rightarrow> True | Some a \<Rightarrow> s_active r = a) \<and>
     where_time (\<le>) (f_next_charge_before f) (s_next_charge_timestamp r) \<and>
     where_time (>) (f_next_charge_after f) (s_next_charge_timestamp r) \<and>
     where_str (f_stripe_customer_identifier f) (s_stripe_customer_identifier r) \<and>
     where_str (f_stripe_subscription_identifier f) (s_stripe_subscription_id r) \<and>
     (case f_is_aws f of None \<Rightarrow> True | Some b \<Rightarrow> (s_aws_customer_identifier r \<noteq> None) = b) \<and>
     (case f_is_stripe f of None \<Rightarrow> True | Some b \<Rightarrow> (s_stripe_subscription_id r \<noteq> None) = b) \<and>
     where_id (f_stripe_workspace_id f) (s_stripe_workspace_id r)"

definition subscriptions :: "sub_filter \<Rightarrow> subscription_method list io" where
  "subscriptions f =
     bind (gets (\<lambda>w. filter (sub_matches f) (subscription_rows w))) (\<lambda>rows.
     lift (traverse sub_to_model rows))"

subsection \<open>Billing entries\<close>

text \<open>The join of billing entries with their subscriptions.\<close>

definition joined :: "world \<Rightarrow> (billing_row \<times> subscription_row) list" where
  "joined w = concat (map (\<lambda>b. map (\<lambda>s. (b, s))
     (filter (\<lambda>s. s_id s = b_subscription_id b) (subscription_rows w))) (billing_rows w))"

definition read_pair :: "billing_row \<times> subscription_row \<Rightarrow> exn + (billing_entry \<times> subscription_method)" where
  "read_pair p = (case billing_to_model (fst p) of Inl e \<Rightarrow> Inl e
     | Inr b \<Rightarrow> (case sub_to_model (snd p) of Inl e \<Rightarrow> Inl e | Inr s \<Rightarrow> Inr (b, s)))"

text \<open>
  The two iterators read their rows one by one, as the loop over them asks for the next: the rows of the query,
  which a loop reads with \<open>read_pair\<close> in each step, so that a row that cannot be read stops the loop there and
  keeps what was done for the rows before it; and what they give when they are read to the end.
\<close>

definition unreported_aws_rows :: "(billing_row \<times> subscription_row) list io" where
  "unreported_aws_rows = gets (\<lambda>w. filter (\<lambda>(b, s). \<not> b_reported b \<and> s_aws_customer_identifier s \<noteq> None) (joined w))"

definition unreported_aws_billing_entries :: "(billing_entry \<times> subscription_method) list io" where
  "unreported_aws_billing_entries = bind unreported_aws_rows (\<lambda>rows. lift (traverse read_pair rows))"

definition unreported_stripe_rows :: "(billing_row \<times> subscription_row) list io" where
  "unreported_stripe_rows = gets (\<lambda>w. filter (\<lambda>(b, s). \<not> b_reported b \<and> s_stripe_subscription_id s \<noteq> None) (joined w))"

definition each_read :: "('r \<Rightarrow> exn + 'a) \<Rightarrow> ('a \<Rightarrow> unit io) \<Rightarrow> 'r list \<Rightarrow> unit io" where
  "each_read conv f rows = for_each (\<lambda>r. bind (lift (conv r)) f) rows"

lemma lift_Inr_bind: "bind (lift (Inr x)) f = f x"
  by (rule ext) (simp add: bind_def lift_def)

lemma each_read_all: "traverse conv rows = Inr xs \<Longrightarrow> each_read conv f rows = for_each f xs"
  unfolding each_read_def by (induction rows arbitrary: xs) (auto simp: lift_Inr_bind split: sum.splits)

lemma preserves_each_read [pres]: "(\<And>a. preserves I (f a)) \<Longrightarrow> preserves I (each_read conv f rows)"
  unfolding each_read_def by (intro pres)

definition charge_rows ::
  "uuid \<Rightarrow> datetime \<Rightarrow> datetime \<Rightarrow> subscription_row list \<Rightarrow> subscription_row list" where
  "charge_rows sid now next_charge_timestamp =
     map (\<lambda>r. if s_id r = sid
              then r\<lparr>s_last_charge_timestamp := Some now, s_next_charge_timestamp := Some next_charge_timestamp\<rparr>
              else r)"

definition add_billing_entry ::
  "uuid \<Rightarrow> uuid \<Rightarrow> product_tier \<Rightarrow> int \<Rightarrow> datetime \<Rightarrow> datetime \<Rightarrow> datetime \<Rightarrow> billing_entry io" where
  "add_billing_entry sid workspace_id tier nr_of_accounts_charged last_charge_timestamp now next_charge_timestamp =
     bind uuid4 (\<lambda>i.
     let billing_entity = \<lparr>b_id = i, b_workspace_id = workspace_id, b_subscription_id = sid,
           b_tier = tier_value tier, b_nr_of_accounts_charged = nr_of_accounts_charged,
           b_period_start = last_charge_timestamp, b_period_end = now, b_reported = False\<rparr> in
     bind (lift (billing_to_model billing_entity)) (\<lambda>result.
     bind (modify (\<lambda>w. w\<lparr>billing_rows := billing_rows w @ [billing_entity],
       subscription_rows := charge_rows sid now next_charge_timestamp (subscription_rows w)\<rparr>)) (\<lambda>_.
     ret result)))"

definition update_charge_timestamp :: "uuid \<Rightarrow> datetime \<Rightarrow> datetime \<Rightarrow> nat io" where
  "update_charge_timestamp sid now next_charge_timestamp =
     bind (gets (\<lambda>w. length (filter (\<lambda>r. s_id r = sid) (subscription_rows w)))) (\<lambda>rowcount.
     bind (modify (\<lambda>w. w\<lparr>subscription_rows :=
       charge_rows sid now next_charge_timestamp (subscription_rows w)\<rparr>)) (\<lambda>_.
     ret rowcount))"

definition delete_where :: "(subscription_row \<Rightarrow> bool) \<Rightarrow> nat io" where
  "delete_where p =
     bind (gets (\<lambda>w. length (filter p (subscription_rows w)))) (\<lambda>rowcount.
     bind (modify (\<lambda>w. w\<lparr>subscription_rows := filter (\<lambda>r. \<not> p r) (subscription_rows w)\<rparr>)) (\<lambda>_.
     ret rowcount))"

definition delete_subscriptions :: "uuid \<Rightarrow> nat io" where
  "delete_subscriptions sid = delete_where (\<lambda>r. s_id r = sid)"

definition delete_aws_marketplace_subscriptions :: "string \<Rightarrow> nat io" where
  "delete_aws_marketplace_subscriptions customer_identifier =
     delete_where (\<lambda>r. s_aws_customer_identifier r = Some customer_identifier)"

definition sub_create :: "subscription_method \<Rightarrow> subscription_method io" where
  "sub_create subscription =
     bind (gets (\<lambda>w. tfind s_id (sub_id subscription) (subscription_rows w))) (\<lambda>existing.
     case existing of Some _ \<Rightarrow> raise IntegrityError
     | None \<Rightarrow>
         bind (modify (\<lambda>w. w\<lparr>subscription_rows := subscription_rows w @ [sub_from_model subscription]\<rparr>)) (\<lambda>_.
         ret subscription))"

definition mark_billing_entry_reported :: "uuid \<Rightarrow> unit io" where
  "mark_billing_entry_reported bid =
     modify (\<lambda>w. w\<lparr>billing_rows := map (\<lambda>b. if b_id b = bid then b\<lparr>b_reported := True\<rparr> else b) (billing_rows w)\<rparr>)"

definition user_has_subscription :: "uuid \<Rightarrow> uuid \<Rightarrow> bool io" where
  "user_has_subscription user_id subscription_id =
     bind (gets (\<lambda>w. filter (\<lambda>r. s_id r = subscription_id \<and> s_user_id r = Some user_id) (subscription_rows w))) (\<lambda>rows.
     bind (lift (scalar_one_or_none rows)) (\<lambda>found.
     ret (found \<noteq> None)))"

text \<open>Newest entry first: the entries of the table are in the order of their creation.\<close>

definition list_billing_for_workspace :: "uuid \<Rightarrow> (billing_entry \<times> subscription_method) list io" where
  "list_billing_for_workspace workspace_id =
     bind (gets (\<lambda>w. rev (filter (\<lambda>(b, s). b_workspace_id b = workspace_id) (joined w)))) (\<lambda>rows.
     lift (traverse read_pair rows))"

subsection \<open>Stripe customers and tier preferences\<close>

definition stripe_customer_get :: "uuid \<Rightarrow> string option io" where
  "stripe_customer_get workspace_id =
     gets (\<lambda>w. map_option sc_customer_id (tfind sc_workspace_id workspace_id (stripe_customers w)))"

definition workspace_of_customer :: "string \<Rightarrow> uuid option io" where
  "workspace_of_customer customer_id =
     gets (\<lambda>w. map_option sc_workspace_id (tfind sc_customer_id customer_id (stripe_customers w)))"

definition desired_tier :: "string option \<Rightarrow> exn + product_tier option" where
  "desired_tier column =
     (case column of None \<Rightarrow> Inr None
      | Some s \<Rightarrow> if s = [] then Inr None
                 else (case tier_from_str s of Inl e \<Rightarrow> Inl e | Inr t \<Rightarrow> Inr (Some t)))"

definition stripe_get_product_tier :: "uuid \<Rightarrow> product_tier option io" where
  "stripe_get_product_tier workspace_id =
     bind (gets (\<lambda>w. tfind sc_workspace_id workspace_id (stripe_customers w))) (\<lambda>row.
     lift (case row of None \<Rightarrow> Inr None | Some r \<Rightarrow> desired_tier (sc_desired_product_tier r)))"

definition stripe_set_product_tier :: "uuid \<Rightarrow> product_tier \<Rightarrow> unit io" where
  "stripe_set_product_tier workspace_id product_tier =
     modify (\<lambda>w. w\<lparr>stripe_customers := map (\<lambda>r. if sc_workspace_id r = workspace_id
       then r\<lparr>sc_desired_product_tier := Some (tier_value product_tier)\<rparr> else r) (stripe_customers w)\<rparr>)"

definition stripe_customer_create :: "uuid \<Rightarrow> string \<Rightarrow> unit io" where
  "stripe_customer_create workspace_id customer_id =
     bind (gets (\<lambda>w. \<exists>r\<in>set (stripe_customers w). sc_workspace_id r = workspace_id \<or> sc_customer_id r = customer_id)) (\<lambda>exists.
     if exists then raise IntegrityError
     else modify (\<lambda>w. w\<lparr>stripe_customers := stripe_customers w @
       [\<lparr>sc_workspace_id = workspace_id, sc_customer_id = customer_id, sc_desired_product_tier = None\<rparr>]\<rparr>))"

definition aws_get_product_tier :: "uuid \<Rightarrow> product_tier option io" where
  "aws_get_product_tier workspace_id =
     bind (gets (\<lambda>w. tfind ap_workspace_id workspace_id (aws_tier_preferences w))) (\<lambda>row.
     lift (case row of None \<Rightarrow> Inr None | Some r \<Rightarrow> desired_tier (ap_desired_product_tier r)))"

definition aws_tier_preference_create :: "uuid \<Rightarrow> product_tier \<Rightarrow> unit io" where
  "aws_tier_preference_create workspace_id product_tier =
     modify (\<lambda>w. w\<lparr>aws_tier_preferences := tput ap_workspace_id
       \<lparr>ap_workspace_id = workspace_id, ap_desired_product_tier = Some (tier_value product_tier)\<rparr>
       (aws_tier_preferences w)\<rparr>)"

subsection \<open>What the operations do to the rows\<close>

lemma charge_rows_id [simp]: "map s_id (charge_rows sid a b rs) = map s_id rs"
  by (simp add: charge_rows_def)

lemma charge_rows_filter:
  "(\<And>r. p (r\<lparr>s_last_charge_timestamp := Some a, s_next_charge_timestamp := Some b\<rparr>) = p r) \<Longrightarrow>
   filter p (charge_rows sid a b rs) = charge_rows sid a b (filter p rs)"
  by (induction rs) (auto simp: charge_rows_def)

lemma tfind_charge:
  "tfind s_id i (charge_rows sid a b rs) =
     map_option (\<lambda>r. if i = sid then r\<lparr>s_last_charge_timestamp := Some a, s_next_charge_timestamp := Some b\<rparr> else r)
       (tfind s_id i rs)"
  by (induction rs) (auto simp: charge_rows_def)

lemma add_billing_entry_run:
  "add_billing_entry sid ws tier n start now next_charge w =
     (Inr \<lparr>be_id = next_uuid w, be_workspace_id = ws, be_subscription_id = sid, be_tier = tier,
         be_nr_of_accounts_charged = n, be_period_start = start, be_period_end = now, be_reported = False\<rparr>,
      w\<lparr>next_uuid := Suc (next_uuid w),
        billing_rows := billing_rows w @ [\<lparr>b_id = next_uuid w, b_workspace_id = ws, b_subscription_id = sid,
           b_tier = tier_value tier, b_nr_of_accounts_charged = n, b_period_start = start, b_period_end = now,
           b_reported = False\<rparr>],
        subscription_rows := charge_rows sid now next_charge (subscription_rows w)\<rparr>)"
  by (simp add: add_billing_entry_def Let_def billing_to_model_def)

lemma update_charge_timestamp_run:
  "update_charge_timestamp sid now next_charge w =
     (Inr (length (filter (\<lambda>r. s_id r = sid) (subscription_rows w))),
      w\<lparr>subscription_rows := charge_rows sid now next_charge (subscription_rows w)\<rparr>)"
  by (simp add: update_charge_timestamp_def)

text \<open>
  Creating a subscription and reading it back gives the subscription, exactly when none of the
  identifiers that its kind needs is empty; otherwise the row is stored but reading it raises, and
  with it every query whose result holds the row.
\<close>

theorem subscription_create_read:
  assumes "tfind s_id (sub_id s) (subscription_rows w) = None"
  shows "let w' = snd (sub_create s w) in
    (fst (get_subscription (sub_id s) w') = Inr (Some s)) = sub_complete s \<and>
    (\<not> sub_complete s \<longrightarrow> fst (get_subscription (sub_id s) w') = Inl ValueError \<and>
       (sub_matches f (sub_from_model s) \<longrightarrow> (\<exists>e. fst (subscriptions f w') = Inl e)))"
proof -
  have id: "s_id (sub_from_model s) = sub_id s" by (cases s) simp_all
  have w': "snd (sub_create s w) = w\<lparr>subscription_rows := subscription_rows w @ [sub_from_model s]\<rparr>"
    using assms by (simp add: sub_create_def)
  have get: "fst (get_subscription (sub_id s) (snd (sub_create s w))) =
      (case sub_to_model (sub_from_model s) of Inl e \<Rightarrow> Inl e | Inr a \<Rightarrow> Inr (Some a))"
    using assms id by (simp add: w' get_subscription_def tfind_append read_row_def)
  have bad: "sub_to_model (sub_from_model s) = Inl ValueError" if "\<not> sub_complete s"
    using that by (cases s) (auto simp: sub_to_model_def)
  have unreadable: "\<exists>e. traverse sub_to_model (rs @ [sub_from_model s]) = Inl e" if "\<not> sub_complete s" for rs
    using bad [OF that] by (induction rs) (auto split: sum.splits)
  show ?thesis
    unfolding Let_def get using sub_roundtrip [of s] bad unreadable
    by (auto simp: w' subscriptions_def split: sum.splits)
qed

definition sample_subscription :: subscription_method where
  "sample_subscription = AwsMarketplaceSubscription \<lparr>aws_id = 3, aws_user_id = Some 2,
     aws_customer_identifier = ''c'', aws_customer_account_id = ''a'', aws_product_code = ''p'',
     aws_active = True, aws_last_charge_timestamp = Some 0, aws_next_charge_timestamp = Some 10\<rparr>"

lemma subscription_create_read_witness:
  "fst (get_subscription 3 (snd (sub_create sample_subscription (empty_world 100 50)))) = Inr (Some sample_subscription)"
  using subscription_create_read [of sample_subscription "empty_world 100 50"]
  by (simp add: sample_subscription_def empty_world_def Let_def)

end
