(* ===== verification/Float_Arithmetic.thy ===== *)
theory Float_Arithmetic
  imports Prelude Complex_Main
begin

section \<open>Floats of the billing factor\<close>

text \<open>
  The billing factor is a Python float: the quotient of two timedeltas, multiplied by a number of
  accounts and truncated. A float is modelled as a pair \<open>(m, k)\<close> that stands for \<open>m / 2 ^ k\<close>; division
  of integers and multiplication by an integer round to 53 significant bits, half to even, as IEEE 754
  does. Numbers of \<open>2 ^ 53\<close> and more do not occur: the quotient of two timedeltas of at most 10,000
  years and a number of accounts stay far below.
\<close>

type_synonym double = "int \<times> nat"

definition half_even :: "nat \<Rightarrow> nat \<Rightarrow> nat" where
  "half_even a b = (let q = a div b; r = a mod b in
     if 2 * r < b then q else if b < 2 * r then Suc q else if even q then q else Suc q)"

text \<open>The scale at which the quotient has 53 significant bits.\<close>

function double_shift :: "nat \<Rightarrow> nat \<Rightarrow> nat" where
  "double_shift n d = (if n = 0 \<or> d * 2 ^ 52 \<le> n then 0 else Suc (double_shift (2 * n) d))"
  by pat_completeness auto
termination by (relation "measure (\<lambda>(n, d). d * 2 ^ 52 - n)") auto

declare double_shift.simps [simp del]

definition double_div :: "int \<Rightarrow> int \<Rightarrow> double" where
  "double_div a b =
     (let k = double_shift (nat \<bar>a\<bar>) (nat b) in
      (sgn a * int (half_even (nat \<bar>a\<bar> * 2 ^ k) (nat b)), k))"

definition int_times :: "nat \<Rightarrow> double \<Rightarrow> double" where
  "int_times c x = double_div (int c * fst x) (2 ^ snd x)"

text \<open>\<open>int(x)\<close> truncates towards zero.\<close>

definition float_int :: "double \<Rightarrow> int" where
  "float_int x = sgn (fst x) * (\<bar>fst x\<bar> div 2 ^ snd x)"

definition float_one :: double where
  "float_one = (1, 0)"

definition double_value :: "double \<Rightarrow> real" where
  "double_value x = of_int (fst x) / 2 ^ snd x"

subsection \<open>Rounding errors\<close>

lemma half_even_error: "0 < b \<Longrightarrow> \<bar>real (half_even a b) - real a / real b\<bar> \<le> 1 / 2"
proof -
  assume b: "0 < b"
  have "real a = real b * real (a div b) + real (a mod b)"
    by (metis mult_div_mod_eq of_nat_add of_nat_mult)
  then have q: "real a / real b = real (a div b) + real (a mod b) / real b"
    using b by (simp add: field_simps)
  have r: "0 \<le> real (a mod b) / real b" "real (a mod b) / real b < 1" using b by auto
  consider "2 * (a mod b) < b" | "b < 2 * (a mod b)" | "2 * (a mod b) = b" by linarith
  then show ?thesis
  proof cases
    case 1
    then have "real (a mod b) / real b \<le> 1 / 2" using b by (simp add: field_simps)
    with 1 r q show ?thesis by (simp add: half_even_def Let_def)
  next
    case 2
    then have "1 / 2 \<le> real (a mod b) / real b" using b by (simp add: field_simps)
    with 2 r q show ?thesis by (simp add: half_even_def Let_def)
  next
    case 3
    then have "real (a mod b) / real b = 1 / 2" using b by (simp add: field_simps flip: of_nat_mult)
    with 3 q show ?thesis by (simp add: half_even_def Let_def)
  qed
qed

lemma double_shift_normal: "0 < n \<Longrightarrow> 0 < d \<Longrightarrow> d * 2 ^ 52 \<le> n * 2 ^ double_shift n d"
proof (induction n d rule: double_shift.induct)
  case (1 n d)
  show ?case
  proof (cases "n = 0 \<or> d * 2 ^ 52 \<le> n")
    case True
    with 1 show ?thesis by (auto simp: double_shift.simps [of n d])
  next
    case False
    with 1 show ?thesis by (simp add: double_shift.simps [of n d] algebra_simps)
  qed
qed

lemma double_shift_eq:
  "0 < n \<Longrightarrow> d * 2 ^ 52 \<le> n * 2 ^ k \<Longrightarrow> k = 0 \<or> n * 2 ^ (k - 1) < d * 2 ^ 52 \<Longrightarrow> double_shift n d = k"
proof (induction k arbitrary: n)
  case (Suc k)
  then have small: "n * 2 ^ k < d * 2 ^ 52" by simp
  have "n \<le> n * 2 ^ k" by simp
  with small have "n < d * 2 ^ 52" by (rule le_less_trans [rotated])
  moreover have "double_shift (2 * n) d = k"
  proof (rule Suc.IH)
    show "k = 0 \<or> 2 * n * 2 ^ (k - 1) < d * 2 ^ 52"
      using small by (cases k) (simp_all add: algebra_simps)
  qed (use Suc.prems in \<open>simp_all add: algebra_simps\<close>)
  ultimately show ?case using Suc.prems(1) by (simp add: double_shift.simps [of n d])
qed (simp add: double_shift.simps)

text \<open>One division: the relative error is at most \<open>2 ^ -53\<close>.\<close>

lemma double_div_error:
  assumes "0 \<le> a" "0 < b"
  shows "\<bar>double_value (double_div a b) - of_int a / of_int b\<bar> \<le> of_int a / of_int b / 2 ^ 53"
proof (cases "a = 0")
  case True
  then show ?thesis by (simp add: double_div_def double_value_def Let_def)
next
  case False
  define n d k where "n = nat a" and "d = nat b" and "k = double_shift n d"
  have pos: "0 < n" "0 < d" and ab: "of_int a = real n" "of_int b = real d"
    using assms False by (simp_all add: n_def d_def)
  have "\<bar>real (half_even (n * 2 ^ k) d) - real (n * 2 ^ k) / real d\<bar> \<le> 1 / 2"
    using pos by (intro half_even_error)
  then have "\<bar>real (half_even (n * 2 ^ k) d) / 2 ^ k - real n / real d\<bar> \<le> 1 / 2 / 2 ^ k"
    by (simp add: abs_le_iff field_simps)
  also have "1 / 2 / 2 ^ k \<le> real n / real d / 2 ^ 53"
  proof -
    have "real (d * 2 ^ 52) \<le> real (n * 2 ^ k)"
      using double_shift_normal [OF pos] unfolding k_def of_nat_le_iff by simp
    then show ?thesis using pos by (simp add: field_simps)
  qed
  finally have err: "\<bar>real (half_even (n * 2 ^ k) d) / 2 ^ k - real n / real d\<bar> \<le> real n / real d / 2 ^ 53" .
  have "double_div a b = (int (half_even (n * 2 ^ k) d), k)"
    using assms False by (simp add: double_div_def Let_def n_def d_def k_def)
  then have "double_value (double_div a b) = real (half_even (n * 2 ^ k) d) / 2 ^ k"
    by (simp add: double_value_def)
  then show ?thesis using err by (simp only: ab)
qed

lemma fst_double_div: "0 \<le> a \<Longrightarrow> 0 \<le> fst (double_div a b)"
  by (simp add: double_div_def Let_def sgn_if)

lemma float_int_floor:
  assumes "0 \<le> fst x"
  shows "float_int x = \<lfloor>double_value x\<rfloor>"
proof -
  have "\<bar>fst x\<bar> = fst x" using assms by simp
  moreover have "\<lfloor>real_of_int (fst x) / real_of_int (2 ^ snd x)\<rfloor> = fst x div 2 ^ snd x"
    by (rule floor_divide_of_int_eq)
  ultimately show ?thesis using assms
    by (cases "fst x = 0") (simp_all add: float_int_def double_value_def sgn_if)
qed

lemma float_int_one [simp]: "float_int (int_times n float_one) = int n" if "n < 2 ^ 53"
proof -
  have "double_value (double_div (int n) 1) = real n"
  proof (cases "n = 0")
    case True
    then show ?thesis by (simp add: double_div_def double_value_def Let_def)
  next
    case False
    have "half_even (n * 2 ^ k) 1 = n * 2 ^ k" for k by (simp add: half_even_def Let_def)
    with False show ?thesis by (simp add: double_div_def double_value_def Let_def)
  qed
  then show ?thesis
    by (simp add: int_times_def float_one_def float_int_floor fst_double_div)
qed

lemma abs_mult_le: "\<bar>x - y\<bar> \<le> e \<Longrightarrow> 0 \<le> c \<Longrightarrow> \<bar>c * x - c * y\<bar> \<le> c * e" for c :: real
  by (simp add: abs_mult flip: right_diff_distrib) (metis abs_ge_zero abs_of_nonneg mult_left_mono)

text \<open>
  A number of accounts times a quotient: while the product of the integers stays below \<open>2 ^ 51\<close>, the
  truncated result is the exact quotient or one less.
\<close>

lemma float_int_times_div:
  assumes a: "0 \<le> a" and b: "0 < b" and small: "int c * a \<le> 2 ^ 51"
  shows "float_int (int_times c (double_div a b)) \<le> int c * a div b"
    and "int c * a div b - 1 \<le> float_int (int_times c (double_div a b))"
proof -
  let ?y = "double_value (double_div a b)" and ?z = "double_value (int_times c (double_div a b))"
  define X where "X = real_of_int (int c * a)"
  define B where "B = real_of_int b"
  have X: "0 \<le> X" "X \<le> 2 ^ 51" and B: "1 \<le> B"
  proof -
    show "0 \<le> X" using a by (simp add: X_def)
    have "X \<le> real_of_int (2 ^ 51)" unfolding X_def using small of_int_le_iff by blast
    then show "X \<le> 2 ^ 51" by simp
    show "1 \<le> B" using b by (simp add: B_def)
  qed
  have y: "\<bar>real c * ?y - X / B\<bar> \<le> X / B / 2 ^ 53"
    using abs_mult_le [OF double_div_error [OF a b], of "real c"] by (simp add: X_def B_def)
  have nonneg: "0 \<le> fst (double_div a b)" "0 \<le> int c * fst (double_div a b)"
    using fst_double_div [OF a] by auto
  have cy: "real_of_int (int c * fst (double_div a b)) / real_of_int (2 ^ snd (double_div a b)) = real c * ?y"
    by (simp add: double_value_def)
  have z: "\<bar>?z - real c * ?y\<bar> \<le> real c * ?y / 2 ^ 53"
    using double_div_error [OF nonneg(2), of "2 ^ snd (double_div a b)"] unfolding cy by (simp add: int_times_def)
  have err: "X / B / 2 ^ 53 \<le> 1 / 4 / B" using X B by (simp add: field_simps)
  have "0 \<le> X / B" using X B by simp
  then have cy_le: "real c * ?y \<le> 2 * (X / B)" using y by (simp add: abs_le_iff field_simps)
  then have "real c * ?y / 2 ^ 53 \<le> 2 * (X / B / 2 ^ 53)" by simp
  also have "\<dots> \<le> 2 * (1 / 4 / B)" using err by (intro mult_left_mono) auto
  finally have z': "\<bar>?z - real c * ?y\<bar> \<le> 1 / 2 / B" using z by simp
  have dist: "\<bar>?z - X / B\<bar> \<le> 3 / 4 / B"
    using y z' err by (simp add: abs_le_iff)
  have zz: "float_int (int_times c (double_div a b)) = \<lfloor>?z\<rfloor>"
    using nonneg(2) by (intro float_int_floor) (simp add: int_times_def fst_double_div)
  let ?q = "int c * a div b"
  have q: "of_int ?q \<le> X / B" "X + 1 \<le> B * (of_int ?q + 1)"
  proof -
    have "b * ?q + (int c * a) mod b = int c * a" by simp
    then have e: "B * of_int ?q + of_int ((int c * a) mod b) = X" unfolding X_def B_def
      by (metis of_int_add of_int_mult)
    have m: "0 \<le> (int c * a) mod b" "(int c * a) mod b + 1 \<le> b" using b by (auto simp: zless_imp_add1_zle)
    from m(2) have "real_of_int ((int c * a) mod b) + 1 \<le> B" unfolding B_def
      by (metis of_int_1 of_int_add of_int_le_iff)
    then show "X + 1 \<le> B * (of_int ?q + 1)" using e by (simp add: algebra_simps)
    show "of_int ?q \<le> X / B" using e m(1) B by (simp add: field_simps)
  qed
  have "?z \<le> X / B + 3 / 4 / B" using dist by (simp add: abs_le_iff)
  also have "\<dots> = (X + 3 / 4) / B" by (simp add: add_divide_distrib)
  also have "\<dots> < of_int ?q + 1" using q(2) B by (simp add: field_simps)
  finally show "float_int (int_times c (double_div a b)) \<le> ?q" unfolding zz by linarith
  have "3 / 4 / B < 1" using B by (simp add: field_simps)
  then have "of_int ?q - 1 \<le> ?z" using dist q(1) by (simp add: abs_le_iff)
  then show "?q - 1 \<le> float_int (int_times c (double_div a b))" unfolding zz by linarith
qed

end
