(* ===== verification/Billing_Service.thy ===== *)
theory Billing_Service
  imports Subscription_Repository Workspace_Repository Cloud_Account_Repository Metering Float_Arithmetic
begin

section \<open>Billing\<close>

text \<open>
  \<open>billing/service.py\<close>: the factor of a billing period, the payment methods of a workspace, the change
  of tier and payment method, and the billing entry of a subscription.
\<close>

subsection \<open>The factor of a billing period\<close>

text \<open>\<open>period_value * 0.1667\<close>: Python multiplies by the exact ratio of the float, rounding half to even.\<close>

definition tolerance :: "timedelta \<Rightarrow> timedelta" where
  "tolerance period_value = int (half_even (nat period_value * 6006000463061293) (2 ^ 55))"

definition compute_billing_period_factor :: "datetime \<Rightarrow> datetime \<Rightarrow> timedelta \<Rightarrow> double" where
  "compute_billing_period_factor billing_time last_charged period_value =
     (let delta = billing_time - last_charged;
          period_lower_bound = period_value - tolerance period_value;
          period_upper_bound = period_value + tolerance period_value;
          is_full_period = period_lower_bound < delta \<and> delta < period_upper_bound in
      if is_full_period then float_one else double_div delta period_value)"

fun billing_period_value :: "billing_period \<Rightarrow> timedelta" where
  "billing_period_value Month = td_days 30"
| "billing_period_value Day = td_days 1"

subsection \<open>Payment methods\<close>

definition list_billing_info :: "uuid \<Rightarrow> billing_entry list io" where
  "list_billing_info workspace_id =
     bind (list_billing_for_workspace workspace_id) (\<lambda>billing. ret (map fst billing))"

definition get_current_subscription :: "workspace \<Rightarrow> subscription_method option io" where
  "get_current_subscription workspace =
     (case ws_subscription_id workspace of None \<Rightarrow> ret None
      | Some i \<Rightarrow> bind (get_subscription i) (\<lambda>subscription.
          case subscription of None \<Rightarrow> ret None
          | Some s \<Rightarrow> ret (if sub_active s then Some s else None)))"

fun payment_method_of :: "subscription_method \<Rightarrow> payment_method" where
  "payment_method_of (AwsMarketplaceSubscription a) = AwsPayment (aws_id a)"
| "payment_method_of (StripeSubscription s) = StripePayment (st_id s)"

fun is_aws_subscription :: "subscription_method \<Rightarrow> bool" where
  "is_aws_subscription (AwsMarketplaceSubscription _) = True"
| "is_aws_subscription (StripeSubscription _) = False"

definition get_payment_methods :: "workspace \<Rightarrow> uuid option \<Rightarrow> workspace_payment_methods io" where
  "get_payment_methods workspace user_id =
     bind utc (\<lambda>now.
     let none = (if current_product_tier now workspace = Free \<or> current_product_tier now workspace = Trial
                 then [NoPaymentMethod] else []) in
     bind (get_current_subscription workspace) (\<lambda>current_subscription.
     let current = (case current_subscription of None \<Rightarrow> NoPaymentMethod | Some s \<Rightarrow> payment_method_of s) in
     bind (subscriptions (no_filter\<lparr>f_user_id := user_id, f_active := Some True\<rparr>)) (\<lambda>of_user.
     bind (subscriptions (no_filter\<lparr>f_stripe_workspace_id := Some (ws_id workspace), f_active := Some True\<rparr>)) (\<lambda>of_workspace.
     ret \<lparr>pm_current = current,
          pm_available = none @ map payment_method_of (filter is_aws_subscription of_user) @
            map payment_method_of (filter (\<lambda>s. \<not> is_aws_subscription s) of_workspace)\<rparr>))))"

subsection \<open>Changing tier and payment method\<close>

text \<open>
  Python's \<open>is\<close> compares objects, not values: an object is a value at an address, and the call
  \<open>PaymentMethods.NoPaymentMethod()\<close> on the right-hand side of \<open>is\<close> creates an object
  at an address that no live object has (\<open>attrs\<close> classes are not interned).
\<close>

datatype payment_object = Payment_object (address_of: nat) (value_of: payment_method)

definition allocate :: "payment_object list \<Rightarrow> payment_method \<Rightarrow> payment_object" where
  "allocate live v = Payment_object (Suc (foldr max (map address_of live) 0)) v"

definition is_new_instance :: "payment_object list \<Rightarrow> payment_object \<Rightarrow> bool" where
  "is_new_instance live x \<longleftrightarrow> address_of x = address_of (allocate live NoPaymentMethod)"

definition payment_method_available :: "payment_object option \<Rightarrow> payment_object \<Rightarrow> bool" where
  "payment_method_available new_payment_method current =
     (let live = (case new_payment_method of None \<Rightarrow> [current] | Some m \<Rightarrow> [m, current]);
          new_payment_method_provided =
            (case new_payment_method of None \<Rightarrow> False | Some m \<Rightarrow> \<not> is_new_instance live m);
          has_existing_payment_method = \<not> is_new_instance live current in
      new_payment_method_provided \<or> has_existing_payment_method)"

definition validate_tier ::
  "product_tier \<Rightarrow> payment_object option \<Rightarrow> payment_object \<Rightarrow> nat \<Rightarrow> workspace \<Rightarrow> exn + unit" where
  "validate_tier new_product_tier new_payment_method current number_of_cloud_accounts workspace =
     (let setting = product_tier_settings new_product_tier in
      if paid new_product_tier \<and> \<not> payment_method_available new_payment_method current
      then Inl (NotAllowed ''payment_required'')
      else if (case limit_of (account_limit setting) of None \<Rightarrow> False | Some n \<Rightarrow> n < number_of_cloud_accounts)
      then Inl (NotAllowed ''too_many_cloud_accounts'')
      else if seats_included setting \<noteq> 0 \<and> seats_included setting < length (all_users workspace)
      then Inl (NotAllowed ''too_many_users'')
      else Inr ())"

definition validate_payment_method :: "payment_object \<Rightarrow> payment_method list \<Rightarrow> exn + unit" where
  "validate_payment_method new_payment_method available =
     (if value_of new_payment_method \<notin> set available then Inl (NotAllowed ''unknown_payment_method'')
      else if is_new_instance [new_payment_method] new_payment_method then Inl (NotAllowed ''downgrade_not_allowed'')
      else Inr ())"

definition update_payment_method :: "workspace \<Rightarrow> payment_method \<Rightarrow> payment_method \<Rightarrow> workspace io" where
  "update_payment_method workspace current payment_method =
     (if payment_method = current then ret workspace
      else case payment_method of
        AwsPayment subscription_id \<Rightarrow> update_subscription (ws_id workspace) (Some subscription_id)
      | StripePayment subscription_id \<Rightarrow> update_subscription (ws_id workspace) (Some subscription_id)
      | NoPaymentMethod \<Rightarrow> raise (NotAllowed ''downgrade_not_allowed''))"

definition change_product_tier ::
  "workspace \<Rightarrow> uuid option \<Rightarrow> product_tier \<Rightarrow> product_tier \<Rightarrow> workspace io" where
  "change_product_tier workspace user_id current_tier product_tier =
     (if product_tier = current_tier then ret workspace
      else
        bind (update_product_tier (ws_id workspace) product_tier) (\<lambda>updated_workspace.
        bind (publish (ProductTierChanged (ws_id workspace)
          (case user_id of Some u \<Rightarrow> u | None \<Rightarrow> ws_owner_id workspace) product_tier (paid product_tier)
          (current_tier < product_tier) current_tier)) (\<lambda>_.
        ret updated_workspace)))"

text \<open>The current and the new payment method are two objects; which addresses they have does not matter.\<close>

definition update_billing ::
  "uuid option \<Rightarrow> workspace \<Rightarrow> product_tier option \<Rightarrow> payment_method option \<Rightarrow> workspace io" where
  "update_billing user_id workspace new_product_tier new_payment_method =
     bind utc (\<lambda>now.
     let current_tier = current_product_tier now workspace in
     bind (get_payment_methods workspace user_id) (\<lambda>methods.
     let current = Payment_object 0 (pm_current methods);
         new_method = map_option (Payment_object 1) new_payment_method in
     bind (count_by_workspace_id (ws_id workspace) False True) (\<lambda>number_of_cloud_accounts.
     bind (lift (case new_product_tier of None \<Rightarrow> Inr ()
       | Some t \<Rightarrow> validate_tier t new_method current number_of_cloud_accounts workspace)) (\<lambda>_.
     bind (lift (case new_method of None \<Rightarrow> Inr ()
       | Some m \<Rightarrow> validate_payment_method m (pm_available methods))) (\<lambda>_.
     bind (case new_payment_method of None \<Rightarrow> ret workspace
       | Some m \<Rightarrow> update_payment_method workspace (pm_current methods) m) (\<lambda>workspace'.
     case new_product_tier of None \<Rightarrow> ret workspace'
     | Some t \<Rightarrow> change_product_tier workspace' user_id current_tier t))))))"

subsection \<open>Billing entries\<close>

definition billed_usage :: "nat \<Rightarrow> double \<Rightarrow> nat \<Rightarrow> int" where
  "billed_usage nr_of_accounts month_factor included =
     max (float_int (int_times nr_of_accounts month_factor)) (int included)"

text \<open>The body of the loop over the workspaces returns in its first iteration.\<close>

definition bill_workspace ::
  "subscription_method \<Rightarrow> datetime \<Rightarrow> datetime \<Rightarrow> datetime \<Rightarrow> double \<Rightarrow> workspace \<Rightarrow> billing_entry option io" where
  "bill_workspace subscription last_charged billing_time next_charge month_factor workspace =
     bind (collect_summary (ws_id workspace) (Some last_charged) (Some billing_time) 100 3) (\<lambda>summaries.
     let tiers = map sm_product_tier summaries;
         product_tier = py_max Free tiers;
         included = accounts_included (product_tier_settings product_tier);
         usage = billed_usage (length summaries) month_factor included;
         on_payment_free_tier = \<not> paid product_tier in
     if on_payment_free_tier \<or> usage = 0
     then bind (update_charge_timestamp (sub_id subscription) billing_time next_charge) (\<lambda>_. ret None)
     else
       bind (add_billing_entry (sub_id subscription) (ws_id workspace) product_tier usage last_charged
         billing_time next_charge) (\<lambda>billing_entry.
       bind (publish (BillingEntryCreated (ws_id workspace) (sub_id subscription) product_tier usage)) (\<lambda>_.
       ret (Some billing_entry))))"

definition create_billing_entry ::
  "billing_period \<Rightarrow> subscription_method \<Rightarrow> datetime option \<Rightarrow> billing_entry option io" where
  "create_billing_entry period subscription now =
     (if \<not> sub_active subscription then ret None
      else
        bind utc (\<lambda>clock_time.
        let billing_time = (case now of Some t \<Rightarrow> t | None \<Rightarrow> clock_time);
            next_charge = start_of_next_period period billing_time 9;
            last_charged = (case sub_last_charge subscription of Some t \<Rightarrow> t | None \<Rightarrow> billing_time);
            month_factor = compute_billing_period_factor billing_time last_charged (billing_period_value period) in
        bind (list_workspaces_by_subscription_id (sub_id subscription)) (\<lambda>workspaces.
        case workspaces of [] \<Rightarrow> ret None
        | workspace # _ \<Rightarrow> bill_workspace subscription last_charged billing_time next_charge month_factor workspace)))"

subsection \<open>The charge for a period\<close>

lemma tolerance_values:
  "tolerance (td_days 30) = td_days 5 + td_seconds 86 + 400000"
  "tolerance (td_days 1) = td_hours 4 + td_seconds 2 + 880000"
  by (simp_all add: tolerance_def half_even_def td_defs Let_def)

lemma billing_period_positive: "0 < billing_period_value period"
  by (cases period) (simp_all add: td_defs)

text \<open>
  The accounts charged for a period: within a sixth of the nominal length of the period every
  account counts once; outside, the number of accounts is scaled with the length of the period, and the
  float arithmetic gives the exact integer quotient or one account less, never more (while the product
  of accounts and microseconds is below \<open>2 ^ 51\<close>); the included accounts are charged in any case.
\<close>

theorem billed_usage_bounds:
  assumes "last_charged \<le> billing_time" and "int n * (billing_time - last_charged) \<le> 2 ^ 51" and "n < 2 ^ 53"
  shows "let period = billing_period_value p; delta = billing_time - last_charged;
             u = billed_usage n (compute_billing_period_factor billing_time last_charged period) included;
             exact = max (int n * delta div period) (int included) in
    if \<bar>delta - period\<bar> < tolerance period then u = max (int n) (int included)
    else u \<le> exact \<and> exact - 1 \<le> u \<and> int included \<le> u"
proof -
  let ?period = "billing_period_value p" and ?delta = "billing_time - last_charged"
  show ?thesis
  proof (cases "\<bar>?delta - ?period\<bar> < tolerance ?period")
    case True
    then have "?period - tolerance ?period < ?delta \<and> ?delta < ?period + tolerance ?period" by linarith
    then have "compute_billing_period_factor billing_time last_charged ?period = float_one"
      by (simp add: compute_billing_period_factor_def Let_def)
    with True assms(3) show ?thesis by (simp add: billed_usage_def Let_def)
  next
    case False
    then have "(?period - tolerance ?period < ?delta \<and> ?delta < ?period + tolerance ?period) = False" by auto
    then have "compute_billing_period_factor billing_time last_charged ?period = double_div ?delta ?period"
      by (simp only: compute_billing_period_factor_def Let_def if_False)
    moreover have "0 \<le> ?delta" using assms(1) by simp
    ultimately show ?thesis
      using False float_int_times_div [of ?delta ?period n] billing_period_positive [of p] assms(2)
      by (auto simp: billed_usage_def Let_def)
  qed
qed

text \<open>25 accounts over 68.4 days are 57 monthly accounts; the floats give 56.\<close>

lemma billed_usage_bounds_witness:
  "56 \<le> billed_usage 25 (compute_billing_period_factor 5909760000000 0 (billing_period_value Month)) 3 \<and>
   billed_usage 25 (compute_billing_period_factor 5909760000000 0 (billing_period_value Month)) 3 \<le> 57"
  using billed_usage_bounds [of 0 5909760000000 25 Month 3]
  by (simp add: Let_def tolerance_values) (simp add: td_defs)

lemma billed_usage_float:
  "billed_usage 25 (compute_billing_period_factor 5909760000000 0 (billing_period_value Month)) 3 = 56"
proof -
  have "double_shift 5909760000000 2592000000000 = 51" by (rule double_shift_eq) simp_all
  then have d: "double_div 5909760000000 2592000000000 = (5134103575202365, 51)"
    by (simp add: double_div_def half_even_def Let_def)
  have "double_shift 128352589380059125 2251799813685248 = 47" by (rule double_shift_eq) simp_all
  then have "int_times 25 (5134103575202365, 51) = (8022036836253695, 47)"
    by (simp add: int_times_def double_div_def half_even_def Let_def)
  moreover have "compute_billing_period_factor 5909760000000 0 (billing_period_value Month) = (5134103575202365, 51)"
    by (simp add: compute_billing_period_factor_def Let_def tolerance_values) (simp add: td_defs d)
  ultimately show ?thesis by (simp add: billed_usage_def float_int_def)
qed

subsection \<open>A subscription is billed once per period\<close>

definition overdue :: "datetime \<Rightarrow> sub_filter" where
  "overdue now = no_filter\<lparr>f_active := Some True, f_next_charge_before := Some now\<rparr>"

lemma overdue_matches:
  "sub_matches (overdue now) r \<longleftrightarrow>
     s_active r \<and> (case s_next_charge_timestamp r of None \<Rightarrow> False | Some t \<Rightarrow> t \<le> now)"
  by (simp add: sub_matches_def overdue_def no_filter_def where_id_def where_str_def where_time_def)

lemma subscriptions_from:
  "fst (subscriptions f w) = Inr subs \<Longrightarrow> s \<in> set subs \<Longrightarrow>
   \<exists>r\<in>set (subscription_rows w). sub_matches f r \<and> s_id r = sub_id s"
proof -
  assume "fst (subscriptions f w) = Inr subs" "s \<in> set subs"
  then obtain r where "r \<in> set (filter (sub_matches f) (subscription_rows w))" "sub_to_model r = Inr s"
    by (auto simp: subscriptions_def dest: traverse_Inr_in)
  with sub_to_model_id [OF this(2)] show ?thesis by auto
qed

lemma charged_next:
  "\<forall>r\<in>set (charge_rows sid now next_charge rs). s_id r = sid \<longrightarrow> s_next_charge_timestamp r = Some next_charge"
  by (induction rs) (simp_all add: charge_rows_def)

lemma charged_not_overdue:
  assumes "t < next_charge" and "subscription_rows w' = charge_rows sid now next_charge rs"
    and "fst (subscriptions (overdue t) w') = Inr subs"
  shows "sid \<notin> sub_id ` set subs"
proof
  assume "sid \<in> sub_id ` set subs"
  then obtain s where "s \<in> set subs" "sub_id s = sid" by auto
  with subscriptions_from [OF assms(3)] obtain r where
    r: "r \<in> set (subscription_rows w')" "sub_matches (overdue t) r" "s_id r = sid" by auto
  then have "s_next_charge_timestamp r = Some next_charge" using charged_next unfolding assms(2) by blast
  with r(2) assms(1) show False by (simp add: overdue_matches)
qed

lemma start_of_next_period_later: "0 \<le> day_number t \<Longrightarrow> t < start_of_next_period p t hour"
  by (cases p) (simp_all add: start_of_next_month_after start_of_next_day_after)

lemma bill_workspace_run:
  assumes ss: "collect_summary (ws_id v) (Some since) (Some now) 100 3 w = (Inr ss, w)"
    and tier: "tier = py_max Free (map sm_product_tier ss)"
    and usage: "usage = billed_usage (length ss) factor (accounts_included (product_tier_settings tier))"
  shows "bill_workspace s since now next_charge factor v w =
    (if \<not> paid tier \<or> usage = 0
     then (Inr None, w\<lparr>subscription_rows := charge_rows (sub_id s) now next_charge (subscription_rows w)\<rparr>)
     else (Inr (Some \<lparr>be_id = next_uuid w, be_workspace_id = ws_id v, be_subscription_id = sub_id s, be_tier = tier,
              be_nr_of_accounts_charged = usage, be_period_start = since, be_period_end = now, be_reported = False\<rparr>),
           w\<lparr>next_uuid := Suc (next_uuid w),
             billing_rows := billing_rows w @ [\<lparr>b_id = next_uuid w, b_workspace_id = ws_id v,
               b_subscription_id = sub_id s, b_tier = tier_value tier, b_nr_of_accounts_charged = usage,
               b_period_start = since, b_period_end = now, b_reported = False\<rparr>],
             subscription_rows := charge_rows (sub_id s) now next_charge (subscription_rows w),
             events := events w @ [BillingEntryCreated (ws_id v) (sub_id s) tier usage]\<rparr>))"
proof -
  have "bill_workspace s since now next_charge factor v w =
    (if \<not> paid tier \<or> usage = 0
     then bind (update_charge_timestamp (sub_id s) now next_charge) (\<lambda>_. ret None)
     else bind (add_billing_entry (sub_id s) (ws_id v) tier usage since now next_charge) (\<lambda>billing_entry.
       bind (publish (BillingEntryCreated (ws_id v) (sub_id s) tier usage)) (\<lambda>_. ret (Some billing_entry)))) w"
    unfolding bill_workspace_def bind_Inr [where m = "collect_summary _ _ _ _ _", OF ss] Let_def usage tier ..
  then show ?thesis by (simp add: update_charge_timestamp_run add_billing_entry_run)
qed

text \<open>The next time of billing: 9 o'clock UTC on the first of the next month, or on the next day.\<close>

fun next_billing :: "billing_period \<Rightarrow> datetime \<Rightarrow> datetime" where
  "next_billing Month now =
     (if dt_month now = 12 then mk_datetime (dt_year now + 1) 1 1 9 0 0 0
      else mk_datetime (dt_year now) (dt_month now + 1) 1 9 0 0 0)"
| "next_billing Day now = (now div day_length + 1) * day_length + td_hours 9"

lemma start_of_next_period_billing: "start_of_next_period p now 9 = next_billing p now"
proof (cases p)
  case Day
  have "(now + td_days 1) div day_length = now div day_length + 1" by (simp add: td_defs day_length_def)
  with Day show ?thesis by (simp add: start_of_next_day_def td_defs)
qed (simp add: start_of_next_month_def)

lemma next_billing_later: "0 \<le> day_number t \<Longrightarrow> t < next_billing p t"
  using start_of_next_period_later [of t p 9] by (simp add: start_of_next_period_billing)

text \<open>
  C3: An active subscription with a workspace is billed once per period. The call stores that it was
  charged now and that it is to be charged next at 9 o'clock UTC on the first of the next month (or on the
  next day), on this subscription only, so it is among the overdue subscriptions at no time before.
  With the highest tier and the number of the accounts that the metering of the first workspace
  shows since the last charge: if the tier is free or nothing is to be charged there is no entry and no
  event; otherwise exactly one entry is stored, for exactly the time since the last charge and not
  reported yet, and one event announces it. Nothing else changes.
\<close>

theorem billed_once:
  assumes "sub_active s" and "0 \<le> day_number (clock w)"
    and "list_workspaces_by_subscription_id (sub_id s) w = (Inr (v # vs), w)"
    and "sub_last_charge s = Some since"
  shows "\<exists>ss entry w'. collect_summary (ws_id v) (Some since) (Some (clock w)) 100 3 w = (Inr ss, w) \<and>
    create_billing_entry p s None w = (Inr entry, w') \<and> clock w < next_billing p (clock w) \<and>
    subscription_rows w' = map (\<lambda>r. if s_id r = sub_id s
      then r\<lparr>s_last_charge_timestamp := Some (clock w), s_next_charge_timestamp := Some (next_billing p (clock w))\<rparr>
      else r) (subscription_rows w) \<and>
    (\<forall>t subs. t < next_billing p (clock w) \<longrightarrow> fst (subscriptions (overdue t) w') = Inr subs \<longrightarrow> sub_id s \<notin> sub_id ` set subs) \<and>
    (let tier = py_max Free (map sm_product_tier ss);
         usage = billed_usage (length ss) (compute_billing_period_factor (clock w) since (billing_period_value p))
           (accounts_included (product_tier_settings tier)) in
     case entry of
       None \<Rightarrow> (\<not> paid tier \<or> usage = 0) \<and> w' = w\<lparr>subscription_rows := subscription_rows w'\<rparr>
     | Some e \<Rightarrow> paid tier \<and> usage \<noteq> 0 \<and>
         be_workspace_id e = ws_id v \<and> be_subscription_id e = sub_id s \<and> be_tier e = tier \<and>
         be_nr_of_accounts_charged e = usage \<and>
         be_period_start e = since \<and> be_period_end e = clock w \<and> \<not> be_reported e \<and>
         (\<exists>row. billing_rows w' = billing_rows w @ [row] \<and> billing_to_model row = Inr e) \<and>
         w' = w\<lparr>next_uuid := Suc (next_uuid w), billing_rows := billing_rows w', subscription_rows := subscription_rows w',
           events := events w @ [BillingEntryCreated (ws_id v) (sub_id s) tier usage]\<rparr>)"
proof -
  let ?now = "clock w" and ?next = "next_billing p (clock w)"
  let ?factor = "compute_billing_period_factor ?now since (billing_period_value p)"
  obtain ss where ss: "collect_summary (ws_id v) (Some since) (Some ?now) 100 3 w = (Inr ss, w)"
    by (simp add: collect_summary_def)
  let ?tier = "py_max Free (map sm_product_tier ss)"
  let ?usage = "billed_usage (length ss) ?factor (accounts_included (product_tier_settings ?tier))"
  have later: "?now < ?next" using assms(2) by (rule next_billing_later)
  have run: "create_billing_entry p s None w = bill_workspace s since ?now ?next ?factor v w"
    using assms(1,3,4) by (simp add: create_billing_entry_def start_of_next_period_billing Let_def)
  have gone: "\<forall>t subs. t < ?next \<longrightarrow> fst (subscriptions (overdue t) w') = Inr subs \<longrightarrow> sub_id s \<notin> sub_id ` set subs"
    if "subscription_rows w' = charge_rows (sub_id s) ?now ?next (subscription_rows w)" for w' :: world
    using charged_not_overdue [OF _ that] by blast
  show ?thesis
  proof (cases "\<not> paid ?tier \<or> ?usage = 0")
    case True
    let ?w = "w\<lparr>subscription_rows := charge_rows (sub_id s) ?now ?next (subscription_rows w)\<rparr>"
    have r: "create_billing_entry p s None w = (Inr None, ?w)"
      using True unfolding run bill_workspace_run [OF ss refl refl] by simp
    show ?thesis
      by (intro exI [where x = ss] exI [where x = None] exI [where x = ?w] conjI ss r later gone)
        (use True in \<open>simp_all add: charge_rows_def Let_def\<close>)
  next
    case False
    let ?e = "\<lparr>be_id = next_uuid w, be_workspace_id = ws_id v, be_subscription_id = sub_id s, be_tier = ?tier,
      be_nr_of_accounts_charged = ?usage, be_period_start = since, be_period_end = ?now, be_reported = False\<rparr>"
    obtain w' where w': "create_billing_entry p s None w = (Inr (Some ?e), w')"
      "w' = w\<lparr>next_uuid := Suc (next_uuid w),
         billing_rows := billing_rows w @ [\<lparr>b_id = next_uuid w, b_workspace_id = ws_id v,
           b_subscription_id = sub_id s, b_tier = tier_value ?tier, b_nr_of_accounts_charged = ?usage,
           b_period_start = since, b_period_end = ?now, b_reported = False\<rparr>],
         subscription_rows := charge_rows (sub_id s) ?now ?next (subscription_rows w),
         events := events w @ [BillingEntryCreated (ws_id v) (sub_id s) ?tier ?usage]\<rparr>"
      using False unfolding run bill_workspace_run [OF ss refl refl] by simp
    have rows: "subscription_rows w' = charge_rows (sub_id s) ?now ?next (subscription_rows w)" by (simp add: w'(2))
    show ?thesis
      by (intro exI [where x = ss] exI [where x = "Some ?e"] exI [where x = w'] conjI ss w'(1) later gone [OF rows])
        (use False in \<open>simp_all add: w'(2) charge_rows_def billing_to_model_def Let_def\<close>)
  qed
qed

definition billed_subscription :: subscription_method where
  "billed_subscription = AwsMarketplaceSubscription \<lparr>aws_id = 3, aws_user_id = Some 2,
     aws_customer_identifier = ''c'', aws_customer_account_id = ''a'', aws_product_code = ''p'',
     aws_active = True, aws_last_charge_timestamp = Some 0, aws_next_charge_timestamp = Some 10\<rparr>"

definition billed_world :: world where
  "billed_world = (empty_world 2592000000000 50)\<lparr>orgs := [sample_org\<lparr>o_subscription_id := Some 3, o_tier := ''Plus''\<rparr>],
     subscription_rows := [sub_from_model billed_subscription]\<rparr>"

text \<open>Billed on 31 January 1970, midnight: the next charge is on 1 February 1970 at 9 o'clock.\<close>

lemma next_billing_february: "next_billing Month 2592000000000 = 2710800000000"
proof -
  have y: "dt_year 2592000000000 = 1970"
    by (simp add: dt_year_def year_of_day_def day_number_def day_length_def epoch_day_def
        year_from.simps days_before_year_def)
  have "dt_month 2592000000000 = 1"
    by (simp add: dt_month_def y day_number_def day_length_def epoch_day_def month_from.simps
        days_before_year_def days_before_month_unfold [of _ "numeral _"] days_in_month_def is_leap_def)
  then show ?thesis
    by (simp add: y mk_datetime_def days_before_year_def epoch_day_def day_length_def
        days_before_month_unfold [of _ "numeral _"] days_in_month_def)
qed

lemma billed_once_witness:
  "\<exists>entry w'. create_billing_entry Month billed_subscription None billed_world = (Inr entry, w') \<and>
     map s_next_charge_timestamp (subscription_rows w') = [Some 2710800000000] \<and>
     (\<forall>subs. fst (subscriptions (overdue 2710799999999) w') = Inr subs \<longrightarrow> 3 \<notin> sub_id ` set subs)"
proof -
  have sub: "sub_active billed_subscription" "sub_id billed_subscription = 3" "sub_last_charge billed_subscription = Some 0"
    "clock billed_world = 2592000000000"
    by (simp_all add: billed_subscription_def billed_world_def empty_world_def)
  have cal: "0 \<le> day_number (clock billed_world)"
    by (simp add: sub day_number_def day_length_def epoch_day_def)
  have rows: "subscription_rows billed_world = [sub_from_model billed_subscription]"
    "s_id (sub_from_model billed_subscription) = 3"
    by (simp_all add: billed_world_def billed_subscription_def)
  obtain v where v: "list_workspaces_by_subscription_id (sub_id billed_subscription) billed_world = (Inr [v], billed_world)"
    by (simp add: sub list_workspaces_by_subscription_id_def load_orgs_def billed_world_def empty_world_def sample_org_def
        org_to_model_def tier_from_str_def)
  from billed_once [OF sub(1) cal v sub(3), where p = Month] obtain entry w' where
    w': "create_billing_entry Month billed_subscription None billed_world = (Inr entry, w')"
      "subscription_rows w' = map (\<lambda>r. if s_id r = 3
        then r\<lparr>s_last_charge_timestamp := Some 2592000000000, s_next_charge_timestamp := Some 2710800000000\<rparr>
        else r) (subscription_rows billed_world)"
      "\<forall>t subs. t < 2710800000000 \<longrightarrow> fst (subscriptions (overdue t) w') = Inr subs \<longrightarrow> 3 \<notin> sub_id ` set subs"
    unfolding sub next_billing_february by auto
  show ?thesis
    by (intro exI [where x = entry] exI [where x = w'] conjI w'(1))
      (use spec [OF w'(3), of 2710799999999] in \<open>simp_all add: w'(2) rows\<close>)
qed

subsection \<open>The guards of a tier change\<close>

lemma subscriptions_same: "snd (subscriptions f w) = w"
  by (simp add: subscriptions_def)

lemma get_subscription_same: "snd (get_subscription i w) = w"
  by (simp add: get_subscription_def)

lemma preserves_sub_readers [pres, simp]: "preserves I (subscriptions f)" "preserves I (get_subscription i)"
  by (simp_all add: preserves_def subscriptions_same get_subscription_same)

lemma get_payment_methods_same: "snd (get_payment_methods ws u w) = w"
proof -
  have "preserves (\<lambda>v. v = w) (get_payment_methods ws u)"
    unfolding get_payment_methods_def get_current_subscription_def by (intro pres)
  then show ?thesis by (simp add: preserves_def)
qed

text \<open>An object that was created a moment ago is none of those that are live, so the check always passes.\<close>

lemma address_le: "x \<in> set live \<Longrightarrow> address_of x \<le> foldr max (map address_of live) 0"
  by (induction live) (auto intro: le_max_iff_disj [THEN iffD2])

lemma live_not_new: "x \<in> set live \<Longrightarrow> \<not> is_new_instance live x"
  using address_le [of x live] by (simp add: is_new_instance_def allocate_def)

lemma payment_method_always_available [simp]: "payment_method_available new_payment_method current"
  using live_not_new [of current] by (simp add: payment_method_available_def Let_def split: option.split)

lemma seats_included_pos: "seats_included (product_tier_settings t) \<noteq> 0"
  by (cases t) (simp_all add: free_setting_def trial_setting_def)

lemma validate_tier_cases:
  "validate_tier t m c n ws =
     (if t = Free \<and> 1 < n then Inl (NotAllowed ''too_many_cloud_accounts'')
      else if seats_included (product_tier_settings t) < length (all_users ws) then Inl (NotAllowed ''too_many_users'')
      else Inr ())"
  using seats_included_pos [of t] by (cases t) (simp_all add: validate_tier_def Let_def limit_of_def free_setting_def trial_setting_def)

lemma validate_tier_Inr:
  "validate_tier t m c n ws = Inr x \<longleftrightarrow>
     (t = Free \<longrightarrow> n \<le> 1) \<and> (seats_included (product_tier_settings t) \<noteq> 0 \<longrightarrow>
       length (all_users ws) \<le> seats_included (product_tier_settings t))"
  using seats_included_pos [of t] by (auto simp: validate_tier_cases not_less)

lemma validate_payment_method_cases:
  "validate_payment_method m available =
     (if value_of m \<notin> set available then Inl (NotAllowed ''unknown_payment_method'') else Inr ())"
  using live_not_new [of m "[m]"] by (simp add: validate_payment_method_def)

lemma update_billing_run:
  "update_billing u ws (Some t) None w =
     (case fst (get_payment_methods ws u w) of Inl e \<Rightarrow> (Inl e, w)
      | Inr ms \<Rightarrow>
         (case validate_tier t None (Payment_object 0 (pm_current ms))
             (length (filter (\<lambda>r. r_tenant_id r = ws_id ws \<and> non_deleted_row r) (accounts w))) ws of
            Inl e \<Rightarrow> (Inl e, w)
          | Inr _ \<Rightarrow> change_product_tier ws u (current_product_tier (clock w) ws) t w))"
proof -
  obtain r where r: "get_payment_methods ws u w = (r, w)" using get_payment_methods_same
    by (metis prod.collapse)
  show ?thesis
    by (cases r) (simp_all add: update_billing_def r count_by_workspace_id_def run_defs Let_def split: sum.splits)
qed

lemma org_to_model_subscription:
  "org_to_model ms a r = Inr m \<Longrightarrow>
   org_to_model ms a (r\<lparr>o_subscription_id := s\<rparr>) = Inr (m\<lparr>ws_subscription_id := s\<rparr>)"
  by (auto simp: org_to_model_def split: sum.splits)

lemma update_subscription_run:
  assumes "tfind o_id i (orgs w) = Some r" and "org_to_model (members_of i w) None r = Inr m"
  shows "update_subscription i s w =
    (Inr (m\<lparr>ws_subscription_id := s\<rparr>), w\<lparr>orgs := tput o_id (r\<lparr>o_subscription_id := s\<rparr>) (orgs w)\<rparr>)"
  using assms tfind_Some [OF assms(1)]
  by (simp add: update_subscription_def update_org_run org_to_model_subscription)

lemma change_tier_readable:
  assumes "org_to_model ms a r = Inr m" and "paid t \<Longrightarrow> o_subscription_id r \<noteq> None"
  shows "\<exists>r' m'. change_tier now t r = Inr r' \<and> org_to_model ms a r' = Inr m' \<and> o_id r' = o_id r \<and>
    ws_selected_product_tier m' = t \<and> ws_subscription_id m' = o_subscription_id r"
proof -
  have "tier_from_str ''Free'' = Inr Free" using tier_from_str_value [of Free] by simp
  then show ?thesis
    using assms by (auto simp: change_tier_def org_to_model_def Let_def split: sum.splits option.splits if_splits)
qed

text \<open>The current payment method is the subscription on the workspace.\<close>

lemma current_subscription_id:
  assumes "get_current_subscription ws w = (Inr (Some s), w1)"
  shows "ws_subscription_id ws = Some (sub_id s)"
proof (cases "ws_subscription_id ws")
  case (Some i)
  with assms have "fst (get_subscription i w) = Inr (Some s)"
    by (auto simp: get_current_subscription_def bind_def split: sum.splits prod.splits option.splits if_splits)
  then obtain r where "tfind s_id i (subscription_rows w) = Some r" "sub_to_model r = Inr s"
    by (auto simp: get_subscription_def read_row_def split: option.splits sum.splits)
  then show ?thesis using Some tfind_Some sub_to_model_id by fastforce
qed (use assms in \<open>simp add: get_current_subscription_def\<close>)

lemma current_method_subscription:
  assumes "fst (get_payment_methods ws u w) = Inr ms" and "pm_current ms = AwsPayment i \<or> pm_current ms = StripePayment i"
  shows "ws_subscription_id ws = Some i"
proof -
  obtain c w1 where c: "get_current_subscription ws w = (Inr c, w1)"
    "pm_current ms = (case c of None \<Rightarrow> NoPaymentMethod | Some s \<Rightarrow> payment_method_of s)"
    using assms(1) by (auto simp: get_payment_methods_def bind_def Let_def split: sum.splits prod.splits)
  with assms(2) obtain s where s: "c = Some s" by (cases c) auto
  then have "sub_id s = i" using assms(2) c(2) by (cases s) auto
  with current_subscription_id c(1) s show ?thesis by blast
qed

text \<open>The subscription the workspace has after the call.\<close>

fun ordered_subscription :: "workspace \<Rightarrow> payment_method option \<Rightarrow> uuid option" where
  "ordered_subscription ws (Some (AwsPayment i)) = Some i"
| "ordered_subscription ws (Some (StripePayment i)) = Some i"
| "ordered_subscription ws _ = ws_subscription_id ws"

lemma same_subscription:
  assumes "tfind o_id (ws_id ws) (orgs w) = Some row" "org_to_model (members_of (ws_id ws) w) None row = Inr ws"
  shows "row\<lparr>o_subscription_id := ws_subscription_id ws\<rparr> = row"
    and "w\<lparr>orgs := tput o_id (row\<lparr>o_subscription_id := ws_subscription_id ws\<rparr>) (orgs w)\<rparr> = w"
proof -
  note ids = org_to_model_fields(1,5) [OF assms(2)]
  show row: "row\<lparr>o_subscription_id := ws_subscription_id ws\<rparr> = row" using ids(2) by simp
  have "tput o_id row (orgs w) = orgs w" using assms(1) ids(1) by (simp add: tput_same)
  then show "w\<lparr>orgs := tput o_id (row\<lparr>o_subscription_id := ws_subscription_id ws\<rparr>) (orgs w)\<rparr> = w" unfolding row by simp
qed

lemma update_payment_method_run:
  assumes row: "tfind o_id (ws_id ws) (orgs w) = Some row" "org_to_model (members_of (ws_id ws) w) None row = Inr ws"
    and ms: "fst (get_payment_methods ws u w) = Inr ms"
  shows "update_payment_method ws (pm_current ms) m w =
    (if m = NoPaymentMethod \<and> pm_current ms \<noteq> NoPaymentMethod then (Inl (NotAllowed ''downgrade_not_allowed''), w)
     else (Inr (ws\<lparr>ws_subscription_id := ordered_subscription ws (Some m)\<rparr>),
       w\<lparr>orgs := tput o_id (row\<lparr>o_subscription_id := ordered_subscription ws (Some m)\<rparr>) (orgs w)\<rparr>))"
proof (cases "m = pm_current ms")
  case True
  then have "ordered_subscription ws (Some m) = ws_subscription_id ws"
    using current_method_subscription [OF ms] by (cases "pm_current ms") simp_all
  then have "update_payment_method ws (pm_current ms) m w = (Inr ws, w)" "\<not> (m = NoPaymentMethod \<and> pm_current ms \<noteq> NoPaymentMethod)"
    and same: "ordered_subscription ws (Some m) = ws_subscription_id ws"
    using True by (simp_all add: update_payment_method_def)
  then show ?thesis unfolding same same_subscription(2) [OF row] by simp
next
  case False
  then show ?thesis
    using update_subscription_run [OF row] by (cases m) (auto simp: update_payment_method_def)
qed

lemma change_product_tier_run:
  assumes row: "tfind o_id (ws_id ws) (orgs w) = Some row" "org_to_model (members_of (ws_id ws) w) None row = Inr ws"
  shows "t = old \<Longrightarrow> change_product_tier ws u old t w = (Inr ws, w)"
    and "t \<noteq> old \<Longrightarrow> paid t \<Longrightarrow> ws_subscription_id ws = None \<Longrightarrow> change_product_tier ws u old t w =
      (Inl (NotAllowed ''Workspace must have a subscription to change the security tier''), w)"
    and "t \<noteq> old \<Longrightarrow> (paid t \<Longrightarrow> ws_subscription_id ws \<noteq> None) \<Longrightarrow>
      \<exists>row' ws'. change_tier (clock w) t row = Inr row' \<and> org_to_model (members_of (ws_id ws) w) None row' = Inr ws' \<and>
        ws_selected_product_tier ws' = t \<and> ws_subscription_id ws' = ws_subscription_id ws \<and>
        change_product_tier ws u old t w = (Inr ws', w\<lparr>orgs := tput o_id row' (orgs w), events := events w @
          [ProductTierChanged (ws_id ws) (case u of Some i \<Rightarrow> i | None \<Rightarrow> ws_owner_id ws) t (paid t) (old < t) old]\<rparr>)"
proof -
  have sub: "o_subscription_id row = ws_subscription_id ws" "o_id row = ws_id ws"
    using org_to_model_fields [OF row(2)] by simp_all
  have run: "update_product_tier (ws_id ws) t w =
      (case change_tier (clock w) t row of Inl e \<Rightarrow> (Inl e, w)
       | Inr row' \<Rightarrow> (org_to_model (members_of (o_id row') w) None row', w\<lparr>orgs := tput o_id row' (orgs w)\<rparr>))"
    using row(1) by (simp add: update_product_tier_def update_org_run)
  show "t = old \<Longrightarrow> change_product_tier ws u old t w = (Inr ws, w)" by (simp add: change_product_tier_def)
  show "t \<noteq> old \<Longrightarrow> paid t \<Longrightarrow> ws_subscription_id ws = None \<Longrightarrow> change_product_tier ws u old t w =
      (Inl (NotAllowed ''Workspace must have a subscription to change the security tier''), w)"
    by (simp add: change_product_tier_def run change_tier_def sub)
  assume new: "t \<noteq> old" and paid: "paid t \<Longrightarrow> ws_subscription_id ws \<noteq> None"
  from change_tier_readable [OF row(2), of t "clock w"] paid sub obtain row' ws' where
    r: "change_tier (clock w) t row = Inr row'" "org_to_model (members_of (ws_id ws) w) None row' = Inr ws'"
      "o_id row' = ws_id ws" "ws_selected_product_tier ws' = t" "ws_subscription_id ws' = ws_subscription_id ws"
    by auto
  with new show "\<exists>row' ws'. change_tier (clock w) t row = Inr row' \<and> org_to_model (members_of (ws_id ws) w) None row' = Inr ws' \<and>
        ws_selected_product_tier ws' = t \<and> ws_subscription_id ws' = ws_subscription_id ws \<and>
        change_product_tier ws u old t w = (Inr ws', w\<lparr>orgs := tput o_id row' (orgs w), events := events w @
          [ProductTierChanged (ws_id ws) (case u of Some i \<Rightarrow> i | None \<Rightarrow> ws_owner_id ws) t (paid t) (old < t) old]\<rparr>)"
    by (intro exI [where x = row'] exI [where x = ws']) (simp add: change_product_tier_def run publish_def)
qed

text \<open>
  C8: What becomes of a change of the tier and the payment method of a workspace, for every tier, every
  method, both or none. In this order it is refused when the free tier is wanted with more than one account, when the
  users exceed the seats of the tier, when the method is not among the available ones, when a method is to be
  removed, and when a paid tier is wanted that differs from the current one and the workspace has
  no subscription, neither before nor by the method. Every refusal leaves the whole world as it was, and announces
  nothing. Otherwise exactly the row of the workspace changes, to the subscription of the method and, when the tier
  differs from the current one, by the change of the tier, which one event announces with both tiers and the user
  (or the owner). The check for a payment method (\<open>payment_required\<close>) is void: it compares with an
  object that was just created, so no call is refused by it.
\<close>

theorem update_billing_guarded:
  assumes row: "tfind o_id (ws_id ws) (orgs w) = Some row" "org_to_model (members_of (ws_id ws) w) None row = Inr ws"
    and ms: "fst (get_payment_methods ws u w) = Inr ms"
  shows "let n = length (filter (\<lambda>r. r_tenant_id r = ws_id ws \<and> non_deleted_row r) (accounts w));
      old = current_product_tier (clock w) ws; subscription = ordered_subscription ws m;
      row1 = row\<lparr>o_subscription_id := subscription\<rparr>; result = update_billing u ws t m w in
    if t = Some Free \<and> 1 < n then result = (Inl (NotAllowed ''too_many_cloud_accounts''), w)
    else if t \<noteq> None \<and> seats_included (product_tier_settings (the t)) < length (all_users ws)
    then result = (Inl (NotAllowed ''too_many_users''), w)
    else if m \<noteq> None \<and> the m \<notin> set (pm_available ms) then result = (Inl (NotAllowed ''unknown_payment_method''), w)
    else if m = Some NoPaymentMethod \<and> pm_current ms \<noteq> NoPaymentMethod
    then result = (Inl (NotAllowed ''downgrade_not_allowed''), w)
    else if t = None \<or> t = Some old
    then result = (Inr (ws\<lparr>ws_subscription_id := subscription\<rparr>), w\<lparr>orgs := tput o_id row1 (orgs w)\<rparr>)
    else if paid (the t) \<and> subscription = None
    then result = (Inl (NotAllowed ''Workspace must have a subscription to change the security tier''), w)
    else \<exists>row2 ws'. change_tier (clock w) (the t) row1 = Inr row2 \<and>
      org_to_model (members_of (ws_id ws) w) None row2 = Inr ws' \<and>
      ws_selected_product_tier ws' = the t \<and> ws_subscription_id ws' = subscription \<and>
      result = (Inr ws', w\<lparr>orgs := tput o_id row2 (orgs w), events := events w @ [ProductTierChanged (ws_id ws)
        (case u of Some i \<Rightarrow> i | None \<Rightarrow> ws_owner_id ws) (the t) (paid (the t)) (old < the t) old]\<rparr>)"
proof -
  let ?n = "length (filter (\<lambda>r. r_tenant_id r = ws_id ws \<and> non_deleted_row r) (accounts w))"
  let ?old = "current_product_tier (clock w) ws" and ?sub = "ordered_subscription ws m"
  let ?row = "row\<lparr>o_subscription_id := ?sub\<rparr>" and ?ws = "ws\<lparr>ws_subscription_id := ?sub\<rparr>"
  let ?w = "w\<lparr>orgs := tput o_id ?row (orgs w)\<rparr>"
  have ids: "o_id row = ws_id ws" "o_subscription_id row = ws_subscription_id ws"
    using org_to_model_fields [OF row(2)] by simp_all
  have same: "?w = w \<and> ?ws = ws" if "?sub = ws_subscription_id ws"
    unfolding that same_subscription(2) [OF row] by simp
  have methods: "get_payment_methods ws u w = (Inr ms, w)"
    using ms get_payment_methods_same [of ws u w] by (metis prod.collapse)
  have row': "tfind o_id (ws_id ?ws) (orgs ?w) = Some ?row" "org_to_model (members_of (ws_id ?ws) ?w) None ?row = Inr ?ws"
    using tfind_tput_same [of o_id ?row "orgs w"] org_to_model_subscription [OF row(2)] ids(1) by (simp_all add: members_of_def)
  have paying: "(case m of None \<Rightarrow> ret ws | Some m' \<Rightarrow> update_payment_method ws (pm_current ms) m') w =
      (if m = Some NoPaymentMethod \<and> pm_current ms \<noteq> NoPaymentMethod then (Inl (NotAllowed ''downgrade_not_allowed''), w)
       else (Inr ?ws, ?w))"
    using update_payment_method_run [OF row ms] same by (cases m) simp_all
  let ?pay = "case m of None \<Rightarrow> ret ws | Some m' \<Rightarrow> update_payment_method ws (pm_current ms) m'"
  have guards: "update_billing u ws t m w =
     (if t = Some Free \<and> 1 < ?n then (Inl (NotAllowed ''too_many_cloud_accounts''), w)
      else if t \<noteq> None \<and> seats_included (product_tier_settings (the t)) < length (all_users ws)
      then (Inl (NotAllowed ''too_many_users''), w)
      else if m \<noteq> None \<and> the m \<notin> set (pm_available ms) then (Inl (NotAllowed ''unknown_payment_method''), w)
      else bind ?pay (\<lambda>v. case t of None \<Rightarrow> ret v | Some t' \<Rightarrow> change_product_tier v u ?old t') w)"
    by (cases t; cases m) (simp_all add: update_billing_def methods count_by_workspace_id_def run_defs
        validate_tier_cases validate_payment_method_cases Let_def)
  have run: "update_billing u ws t m w =
     (if t = Some Free \<and> 1 < ?n then (Inl (NotAllowed ''too_many_cloud_accounts''), w)
      else if t \<noteq> None \<and> seats_included (product_tier_settings (the t)) < length (all_users ws)
      then (Inl (NotAllowed ''too_many_users''), w)
      else if m \<noteq> None \<and> the m \<notin> set (pm_available ms) then (Inl (NotAllowed ''unknown_payment_method''), w)
      else if m = Some NoPaymentMethod \<and> pm_current ms \<noteq> NoPaymentMethod
      then (Inl (NotAllowed ''downgrade_not_allowed''), w)
      else case t of None \<Rightarrow> (Inr ?ws, ?w) | Some t' \<Rightarrow> change_product_tier ?ws u ?old t' ?w)"
    unfolding guards bind_def paying by (auto simp: ret_def split: option.split)
  have twice: "tput o_id r (tput o_id ?row (orgs w)) = tput o_id r (orgs w)" if "o_id r = ws_id ws" for r
    using that ids(1) by (intro tput_tput) simp
  have unpaid: "?w = w" if "?sub = None" using that same by (cases m rule: option.exhaust; cases "the m") auto
  define sub where "sub = ordered_subscription ws m"
  let ?row2 = "row\<lparr>o_subscription_id := sub\<rparr>" and ?ws2 = "ws\<lparr>ws_subscription_id := sub\<rparr>"
    and ?w2 = "w\<lparr>orgs := tput o_id (row\<lparr>o_subscription_id := sub\<rparr>) (orgs w)\<rparr>"
  note folded = run [folded sub_def] unpaid [folded sub_def] twice [folded sub_def] row' [folded sub_def]
  show ?thesis
  proof (cases t)
    case None
    show ?thesis unfolding Let_def run by (simp add: None)
  next
    case (Some t')
    note tier = change_product_tier_run [OF folded(4,5), where u = u and t = t' and old = ?old]
    have same_members: "members_of i ?w2 = members_of i w" for i by (simp add: members_of_def)
    consider "t' = ?old" | "t' \<noteq> ?old" "paid t'" "sub = None" | "t' \<noteq> ?old" "paid t' \<Longrightarrow> sub \<noteq> None" by blast
    then show ?thesis
    proof cases
      case 1
      then show ?thesis using tier(1) unfolding Let_def sub_def [symmetric] folded(1) by (simp add: Some)
    next
      case 2
      then show ?thesis using tier(2) folded(2) unfolding Let_def sub_def [symmetric] folded(1) by (simp add: Some)
    next
      case 3
      from 3(2) have "paid t' \<Longrightarrow> ws_subscription_id ?ws2 \<noteq> None" by simp
      from tier(3) [OF 3(1) this] obtain row2 ws' where
        changed: "change_tier (clock ?w2) t' ?row2 = Inr row2"
          "org_to_model (members_of (ws_id ?ws2) ?w2) None row2 = Inr ws'"
          "ws_selected_product_tier ws' = t'" "ws_subscription_id ws' = ws_subscription_id ?ws2"
          "change_product_tier ?ws2 u ?old t' ?w2 = (Inr ws', ?w2\<lparr>orgs := tput o_id row2 (orgs ?w2), events := events ?w2 @
            [ProductTierChanged (ws_id ?ws2) (case u of Some i \<Rightarrow> i | None \<Rightarrow> ws_owner_id ?ws2) t' (paid t') (?old < t') ?old]\<rparr>)"
        by blast
      have id: "o_id row2 = ws_id ws" using change_tier_Inr(1) [OF changed(1)] ids(1) by simp
      have branch: "\<not> (paid t' \<and> sub = None)" using 3(2) by blast
      have "change_product_tier ?ws2 u ?old t' ?w2 = (Inr ws', w\<lparr>orgs := tput o_id row2 (orgs w), events := events w @
          [ProductTierChanged (ws_id ws) (case u of Some i \<Rightarrow> i | None \<Rightarrow> ws_owner_id ws) t' (paid t') (?old < t') ?old]\<rparr>)"
        unfolding changed(5) by (cases u) (simp_all add: folded(3) [OF id])
      moreover note changed(1,2,3,4)
      ultimately show ?thesis
        using 3(1) unfolding Let_def sub_def [symmetric] folded(1) unfolding Some option.sel if_not_P [OF branch] by (simp add: same_members)
    qed
  qed
qed

definition billed_workspace :: workspace where
  "billed_workspace = \<lparr>ws_id = 7, ws_slug = ''acme'', ws_name = ''Acme'', ws_external_id = 9, ws_owner_id = 1,
     ws_members = [], ws_selected_product_tier = Free, ws_created_at = 0, ws_updated_at = 0,
     ws_subscription_id = None, ws_payment_on_hold_since = None, ws_highest_current_cycle_tier = None,
     ws_current_cycle_ends_at = None, ws_move_to_free_acknowledged_at = None, ws_tier_updated_at = Some 0\<rparr>"

text \<open>
  A workspace on the free tier with one account and one user, and an active subscription of its owner: it can
  move to Plus with the subscription, and not without one.
\<close>

definition aws_customer :: world where
  "aws_customer = (empty_world 100 50)\<lparr>orgs := [sample_org],
     subscription_rows := [sub_from_model (AwsMarketplaceSubscription \<lparr>aws_id = 3, aws_user_id = Some 1,
         aws_customer_identifier = ''c'', aws_customer_account_id = ''a'', aws_product_code = ''p'', aws_active = True,
         aws_last_charge_timestamp = None, aws_next_charge_timestamp = None\<rparr>)]\<rparr>"

lemma update_billing_guarded_witness:
  "update_billing (Some 1) billed_workspace (Some Plus) None aws_customer =
     (Inl (NotAllowed ''Workspace must have a subscription to change the security tier''), aws_customer) \<and>
   (\<exists>ws' w'. update_billing (Some 1) billed_workspace (Some Plus) (Some (AwsPayment 3)) aws_customer = (Inr ws', w') \<and>
     ws_selected_product_tier ws' = Plus \<and> ws_subscription_id ws' = Some 3 \<and>
     events w' = [ProductTierChanged 7 1 Plus True True Free])"
proof -
  have row: "tfind o_id (ws_id billed_workspace) (orgs aws_customer) = Some sample_org"
    "org_to_model (members_of (ws_id billed_workspace) aws_customer) None sample_org = Inr billed_workspace"
    by (simp_all add: aws_customer_def empty_world_def billed_workspace_def sample_org_def org_to_model_def tier_from_str_def
        members_of_def)
  have ms: "fst (get_payment_methods billed_workspace (Some 1) aws_customer) =
      Inr \<lparr>pm_current = NoPaymentMethod, pm_available = [NoPaymentMethod, AwsPayment 3]\<rparr>"
    by (simp add: get_payment_methods_def get_current_subscription_def billed_workspace_def aws_customer_def empty_world_def
        current_product_tier_def subscriptions_def sub_matches_def no_filter_def where_id_def where_str_def where_time_def
        sub_to_model_def Let_def)
  have facts: "current_product_tier (clock aws_customer) billed_workspace = Free" "all_users billed_workspace = [1]"
    "ws_id billed_workspace = 7" "ws_subscription_id billed_workspace = None" "events aws_customer = []"
    by (simp_all add: billed_workspace_def aws_customer_def empty_world_def current_product_tier_def all_users_def)
  have tiers: "paid Plus" "Free < Plus" "\<not> seats_included (product_tier_settings Plus) < 1" by (simp_all add: tier_order)
  note change = update_billing_guarded [OF row ms, unfolded Let_def facts workspace_payment_methods.simps]
  have "update_billing (Some 1) billed_workspace (Some Plus) None aws_customer =
     (Inl (NotAllowed ''Workspace must have a subscription to change the security tier''), aws_customer)"
    using change [of "Some Plus" None] tiers by (simp add: facts)
  moreover have "\<exists>ws' w'. update_billing (Some 1) billed_workspace (Some Plus) (Some (AwsPayment 3)) aws_customer = (Inr ws', w') \<and>
     ws_selected_product_tier ws' = Plus \<and> ws_subscription_id ws' = Some 3 \<and>
     events w' = [ProductTierChanged 7 1 Plus True True Free]"
    using change [of "Some Plus" "Some (AwsPayment 3)"] tiers by (auto simp: facts)
  ultimately show ?thesis by blast
qed

end
