(* ===== verification/Aws_Marketplace.thy ===== *)
theory Aws_Marketplace
  imports Billing_Service
begin

section \<open>AWS Marketplace\<close>

text \<open>
  \<open>AwsMarketplaceHandler\<close> of \<open>subscription/aws_marketplace.py\<close>. The metering service of AWS is a
  parameter: what a registration token resolves to (an exception if it does not), and how many of the
  records of a metering call it leaves unprocessed (or the exception of the call). A call that returns
  is logged in \<open>usage_reports\<close>.
\<close>

record marketplace_api =
  resolve_customer :: "string \<Rightarrow> exn + (string \<times> string \<times> string)"
    \<comment> \<open>product code, customer identifier, account id of the customer\<close>
  batch_meter_usage :: "string \<Rightarrow> usage_record list \<Rightarrow> exn + nat"

fun marketplace_dimension :: "product_tier \<Rightarrow> string option" where
  "marketplace_dimension Plus = Some ''PlusAccount''"
| "marketplace_dimension Business = Some ''BusinessAccount''"
| "marketplace_dimension Enterprise = Some ''EnterpriseAccount''"
| "marketplace_dimension _ = None"

definition usage_records :: "(aws_subscription \<times> billing_entry) list \<Rightarrow> usage_record list" where
  "usage_records entries = concat (map (\<lambda>(subscription, entry).
     case marketplace_dimension (be_tier entry) of None \<Rightarrow> []
     | Some dimension \<Rightarrow> [\<lparr>us_customer_identifier = aws_customer_identifier subscription,
         us_dimension = dimension, us_quantity = be_nr_of_accounts_charged entry,
         us_timestamp = be_period_end entry\<rparr>]) entries)"

definition report_usage ::
  "marketplace_api \<Rightarrow> string \<Rightarrow> (aws_subscription \<times> billing_entry) list \<Rightarrow> unit io" where
  "report_usage mp product_code entries =
     bind (lift (batch_meter_usage mp product_code (usage_records entries))) (\<lambda>unprocessed.
     bind (modify (\<lambda>w. w\<lparr>usage_reports := usage_reports w @ [(product_code, usage_records entries)]\<rparr>)) (\<lambda>_.
     if 0 < unprocessed then raise ValueError else ret ()))"

text \<open>
  The subscription of the join is taken for one of AWS; the attributes that a Stripe subscription lacks
  raise when they are used.
\<close>

fun as_aws :: "subscription_method \<Rightarrow> exn + aws_subscription" where
  "as_aws (AwsMarketplaceSubscription a) = Inr a"
| "as_aws (StripeSubscription s) = Inl AttributeError"

definition send_entry :: "marketplace_api \<Rightarrow> bool \<Rightarrow> billing_entry \<times> subscription_method \<Rightarrow> unit io" where
  "send_entry mp raise_exception be_ms =
     catch
       (bind (lift (as_aws (snd be_ms))) (\<lambda>ms.
        bind (report_usage mp (aws_product_code ms) [(ms, fst be_ms)]) (\<lambda>_.
        mark_billing_entry_reported (be_id (fst be_ms)))))
       (\<lambda>e. if raise_exception then raise e else ret ())"

definition report_unreported_usages :: "marketplace_api \<Rightarrow> bool \<Rightarrow> unit io" where
  "report_unreported_usages mp raise_exception =
     bind unreported_aws_rows (\<lambda>rows. each_read read_pair (send_entry mp raise_exception) rows)"

definition cancel_one :: "marketplace_api \<Rightarrow> billing_period \<Rightarrow> subscription_method \<Rightarrow> unit io" where
  "cancel_one mp period subscription =
     (case subscription of
        StripeSubscription _ \<Rightarrow> raise AssertionError
      | AwsMarketplaceSubscription a \<Rightarrow>
          seq (publish (SubscriptionCancelled (aws_id a) ''aws_marketplace''))
         (bind (create_billing_entry period subscription None) (\<lambda>billing.
          case billing of None \<Rightarrow> ret ()
          | Some b \<Rightarrow> report_usage mp (aws_product_code a) [(a, b)])))"

definition subscription_canceled :: "marketplace_api \<Rightarrow> billing_period \<Rightarrow> string \<Rightarrow> unit io" where
  "subscription_canceled mp period customer_id =
     bind (subscriptions (no_filter\<lparr>f_aws_customer_identifier := Some customer_id\<rparr>)) (\<lambda>subs.
     for_each (cancel_one mp period) subs)"

text \<open>The body of a notification: its action and customer.\<close>

definition handle_message :: "marketplace_api \<Rightarrow> billing_period \<Rightarrow> string \<Rightarrow> string \<Rightarrow> unit io" where
  "handle_message mp period action customer_identifier =
     (if action = ''subscribe-success''
      then bind (mark_aws_marketplace_subscriptions customer_identifier True) (\<lambda>_. ret ())
      else if action = ''unsubscribe-pending'' then subscription_canceled mp period customer_identifier
      else if action = ''subscribe-fail'' \<or> action = ''unsubscribe-success''
      then bind (mark_aws_marketplace_subscriptions customer_identifier False) (\<lambda>_. ret ())
      else raise ValueError)"

subsection \<open>A new subscription\<close>

definition assign_workspace :: "uuid \<Rightarrow> workspace option \<Rightarrow> bool io" where
  "assign_workspace sid workspace =
     (case workspace of None \<Rightarrow> ret False
      | Some ws \<Rightarrow>
          if ws_subscription_id ws \<noteq> None then ret False
          else
            bind (update_subscription (ws_id ws) (Some sid)) (\<lambda>_.
            bind (aws_get_product_tier (ws_id ws)) (\<lambda>preferred_tier.
            bind (case preferred_tier of None \<Rightarrow> ret ()
              | Some t \<Rightarrow> catch (bind (update_billing None ws (Some t) None) (\<lambda>_. ret ())) (\<lambda>_. ret ())) (\<lambda>_.
            ret True))))"

definition subscribed ::
  "marketplace_api \<Rightarrow> billing_period \<Rightarrow> user \<Rightarrow> string \<Rightarrow> (subscription_method \<times> bool) io" where
  "subscribed mp period user token =
     bind (lift (resolve_customer mp token)) (\<lambda>customer.
     case customer of (product_code, customer_identifier, customer_aws_account_id) \<Rightarrow>
     bind (list_workspaces user True) (\<lambda>workspaces.
     let workspace = (case workspaces of [ws] \<Rightarrow> Some ws | _ \<Rightarrow> None) in
     bind (aws_marketplace_subscription (u_id user) customer_identifier) (\<lambda>found.
     case found of
       Some existing \<Rightarrow>
         bind (list_workspaces_by_subscription_id (sub_id existing)) (\<lambda>assigned.
         bind (for_each (\<lambda>ws. bind (update_payment_on_hold (ws_id ws) None) (\<lambda>_. ret ())) assigned) (\<lambda>_.
         ret (existing, False)))
     | None \<Rightarrow>
         bind uuid4 (\<lambda>i.
         bind utc (\<lambda>now.
         let subscription = AwsMarketplaceSubscription
               \<lparr>aws_id = i, aws_user_id = Some (u_id user), aws_customer_identifier = customer_identifier,
                aws_customer_account_id = customer_aws_account_id, aws_product_code = product_code,
                aws_active = True, aws_last_charge_timestamp = Some now,
                aws_next_charge_timestamp = Some (start_of_next_period period now 9)\<rparr> in
         bind (sub_create subscription) (\<lambda>result.
         bind (assign_workspace (sub_id result) workspace) (\<lambda>workspace_assigned.
         bind (publish (SubscriptionCreated (map_option ws_id workspace) (u_id user) (sub_id result)
           ''aws_marketplace'')) (\<lambda>_.
         ret (result, workspace_assigned)))))))))"

subsection \<open>Every entry is reported until it was accepted\<close>

definition accepts :: "marketplace_api \<Rightarrow> billing_entry \<times> subscription_method \<Rightarrow> bool" where
  "accepts mp p = (case as_aws (snd p) of Inl _ \<Rightarrow> False
     | Inr a \<Rightarrow> batch_meter_usage mp (aws_product_code a) (usage_records [(a, fst p)]) = Inr 0)"

abbreviation marked :: "uuid \<Rightarrow> billing_row list \<Rightarrow> billing_row list" where
  "marked i \<equiv> map (\<lambda>b. if b_id b = i then b\<lparr>b_reported := True\<rparr> else b)"

definition report_of :: "aws_subscription \<Rightarrow> billing_entry \<Rightarrow> string \<times> usage_record list" where
  "report_of a b = (aws_product_code a, usage_records [(a, b)])"

lemma send_entry_run:
  "\<exists>more. send_entry mp False p w = (Inr (), w\<lparr>usage_reports := usage_reports w @ more,
     billing_rows := (if accepts mp p then marked (be_id (fst p)) (billing_rows w) else billing_rows w)\<rparr>) \<and>
   (accepts mp p \<longrightarrow> (\<exists>a. as_aws (snd p) = Inr a \<and> more = [report_of a (fst p)]))"
proof (cases "as_aws (snd p)")
  case (Inl e)
  then show ?thesis by (intro exI [where x = "[]"]) (simp add: send_entry_def accepts_def)
next
  case (Inr a)
  show ?thesis
  proof (cases "batch_meter_usage mp (aws_product_code a) (usage_records [(a, fst p)])")
    case (Inl e)
    with Inr show ?thesis
      by (intro exI [where x = "[]"]) (simp add: send_entry_def accepts_def report_usage_def)
  next
    case (Inr n)
    with \<open>as_aws (snd p) = Inr a\<close> show ?thesis
      by (intro exI [where x = "[report_of a (fst p)]"], cases "n = 0")
        (simp_all add: send_entry_def accepts_def report_usage_def report_of_def mark_billing_entry_reported_def run_defs)
  qed
qed

definition accepted_ids :: "marketplace_api \<Rightarrow> (billing_entry \<times> subscription_method) list \<Rightarrow> uuid set" where
  "accepted_ids mp ps = (\<lambda>p. be_id (fst p)) ` set (filter (accepts mp) ps)"

definition mark_accepted :: "uuid set \<Rightarrow> billing_row \<Rightarrow> billing_row" where
  "mark_accepted ids b = (if b_id b \<in> ids then b\<lparr>b_reported := True\<rparr> else b)"

lemma mark_accepted_simps [simp]:
  "b_id (mark_accepted ids b) = b_id b" "b_subscription_id (mark_accepted ids b) = b_subscription_id b"
  "b_reported (mark_accepted ids b) \<longleftrightarrow> b_reported b \<or> b_id b \<in> ids"
  by (simp_all add: mark_accepted_def)

lemma mark_accepted_insert:
  "mark_accepted ids (if b_id b = i then b\<lparr>b_reported := True\<rparr> else b) = mark_accepted (insert i ids) b"
  by (simp add: mark_accepted_def)

lemma report_all_run:
  "\<exists>more. for_each (send_entry mp False) ps w =
     (Inr (), w\<lparr>usage_reports := usage_reports w @ more,
        billing_rows := map (mark_accepted (accepted_ids mp ps)) (billing_rows w)\<rparr>) \<and>
   (\<forall>p\<in>set ps. accepts mp p \<longrightarrow> (\<exists>a. as_aws (snd p) = Inr a \<and> report_of a (fst p) \<in> set more))"
proof (induction ps arbitrary: w)
  case Nil
  show ?case by (intro exI [where x = "[]"]) (simp add: accepted_ids_def mark_accepted_def)
next
  case (Cons p ps)
  from send_entry_run [of mp p w] obtain m where one: "send_entry mp False p w =
      (Inr (), w\<lparr>usage_reports := usage_reports w @ m,
         billing_rows := (if accepts mp p then marked (be_id (fst p)) (billing_rows w) else billing_rows w)\<rparr>)"
    and m: "accepts mp p \<longrightarrow> (\<exists>a. as_aws (snd p) = Inr a \<and> m = [report_of a (fst p)])" by blast
  let ?w = "w\<lparr>usage_reports := usage_reports w @ m,
     billing_rows := (if accepts mp p then marked (be_id (fst p)) (billing_rows w) else billing_rows w)\<rparr>"
  from Cons.IH [of ?w] obtain m' where rest: "for_each (send_entry mp False) ps ?w =
      (Inr (), ?w\<lparr>usage_reports := usage_reports ?w @ m',
         billing_rows := map (mark_accepted (accepted_ids mp ps)) (billing_rows ?w)\<rparr>)"
    and m': "\<forall>p\<in>set ps. accepts mp p \<longrightarrow> (\<exists>a. as_aws (snd p) = Inr a \<and> report_of a (fst p) \<in> set m')" by blast
  have rows: "map (mark_accepted (accepted_ids mp ps)) (billing_rows ?w) =
      map (mark_accepted (accepted_ids mp (p # ps))) (billing_rows w)"
    by (cases "accepts mp p") (simp_all add: accepted_ids_def comp_def mark_accepted_insert)
  have "for_each (send_entry mp False) (p # ps) w = for_each (send_entry mp False) ps ?w"
    by (simp only: for_each.simps seq_Inr [where m = "send_entry mp False p" and w = w, OF one])
  also have "\<dots> = (Inr (), w\<lparr>usage_reports := usage_reports w @ m @ m',
      billing_rows := map (mark_accepted (accepted_ids mp (p # ps))) (billing_rows w)\<rparr>)"
    unfolding rest rows by simp
  finally show ?case using m m' by (intro exI [where x = "m @ m'"]) auto
qed

lemma joined_marked:
  "joined (w\<lparr>usage_reports := rs, billing_rows := map (mark_accepted ids) (billing_rows w)\<rparr>) =
   map (\<lambda>(b, s). (mark_accepted ids b, s)) (joined w)"
  by (simp add: joined_def map_concat comp_def)

lemma joined_distinct:
  assumes "distinct (map b_id (billing_rows w))" "distinct (map s_id (subscription_rows w))"
    and "(b, s) \<in> set (joined w)" "(b', s') \<in> set (joined w)" "b_id b = b_id b'"
  shows "b = b' \<and> s = s'"
proof -
  have mem: "b \<in> set (billing_rows w)" "b' \<in> set (billing_rows w)" "s \<in> set (subscription_rows w)"
    "s' \<in> set (subscription_rows w)" "s_id s = b_subscription_id b" "s_id s' = b_subscription_id b'"
    using assms(3,4) by (auto simp: joined_def)
  from assms(1) mem(1,2) assms(5) have "b = b'" unfolding distinct_map by (blast dest: inj_onD)
  moreover from assms(2) mem \<open>b = b'\<close> have "s = s'" unfolding distinct_map by (metis inj_onD)
  ultimately show ?thesis by simp
qed

lemma traverse_in: "traverse f xs = Inr ys \<Longrightarrow> x \<in> set xs \<Longrightarrow> f x = Inr y \<Longrightarrow> y \<in> set ys"
  by (induction xs arbitrary: ys) (auto split: sum.splits)

lemma traverse_filter:
  "traverse f xs = Inr ys \<Longrightarrow> (\<And>x y. x \<in> set xs \<Longrightarrow> f x = Inr y \<Longrightarrow> P x = Q y) \<Longrightarrow>
   traverse f (filter P xs) = Inr (filter Q ys)"
proof (induction xs arbitrary: ys)
  case (Cons x xs)
  then obtain y zs where y: "f x = Inr y" "traverse f xs = Inr zs" "ys = y # zs" by (auto split: sum.splits)
  with Cons.IH [of zs] Cons.prems(2) have "traverse f (filter P xs) = Inr (filter Q zs)" by simp
  with y Cons.prems(2) [of x y] show ?case by auto
qed simp

text \<open>
  C4: Usage is reported until it is accepted: after the job, the entries still unreported are exactly
  those whose metering call failed or left the record unprocessed, they come up again in the next run,
  and every other entry was reported with its usage and is not reported again by the job.
\<close>

theorem report_until_accepted:
  assumes ids: "distinct (map b_id (billing_rows w))" "distinct (map s_id (subscription_rows w))"
    and entries: "unreported_aws_billing_entries w = (Inr ps, w)"
  shows "\<exists>w'. report_unreported_usages mp False w = (Inr (), w') \<and>
    unreported_aws_billing_entries w' = (Inr (filter (\<lambda>p. \<not> accepts mp p) ps), w') \<and>
    (\<forall>p\<in>set ps. accepts mp p \<longrightarrow> (\<exists>a. as_aws (snd p) = Inr a \<and> report_of a (fst p) \<in> set (usage_reports w')))"
proof -
  let ?open = "\<lambda>(b, s). \<not> b_reported b \<and> s_aws_customer_identifier s \<noteq> None"
  have read: "traverse read_pair (filter ?open (joined w)) = Inr ps"
    using entries by (simp add: unreported_aws_billing_entries_def unreported_aws_rows_def)
  from report_all_run [of mp ps w] obtain more where
    run: "for_each (send_entry mp False) ps w = (Inr (), w\<lparr>usage_reports := usage_reports w @ more,
       billing_rows := map (mark_accepted (accepted_ids mp ps)) (billing_rows w)\<rparr>)"
    and more: "\<forall>p\<in>set ps. accepts mp p \<longrightarrow> (\<exists>a. as_aws (snd p) = Inr a \<and> report_of a (fst p) \<in> set more)" by blast
  let ?w = "w\<lparr>usage_reports := usage_reports w @ more,
       billing_rows := map (mark_accepted (accepted_ids mp ps)) (billing_rows w)\<rparr>"
  have marked_iff: "b_id b \<in> accepted_ids mp ps \<longleftrightarrow> accepts mp p"
    if x: "(b, s) \<in> set (filter ?open (joined w))" and p: "read_pair (b, s) = Inr p" for b s p
  proof
    have id: "be_id (fst q) = b_id c" if "read_pair (c, t) = Inr q" for c t q
      using that by (auto simp: read_pair_def billing_to_model_def split: sum.splits)
    assume "b_id b \<in> accepted_ids mp ps"
    then obtain q where q: "q \<in> set ps" "accepts mp q" "be_id (fst q) = b_id b" by (auto simp: accepted_ids_def)
    from traverse_Inr_in [OF read q(1)] obtain c t where c: "(c, t) \<in> set (joined w)" "read_pair (c, t) = Inr q" by auto
    from joined_distinct [OF ids, of b s c t] x c(1) id [OF c(2)] q(3) have "(c, t) = (b, s)" by simp
    with c(2) p q(2) show "accepts mp p" by simp
  next
    assume "accepts mp p"
    moreover have "be_id (fst p) = b_id b"
      using p by (auto simp: read_pair_def billing_to_model_def split: sum.splits)
    moreover have "p \<in> set ps" by (rule traverse_in [OF read x p])
    ultimately show "b_id b \<in> accepted_ids mp ps" by (force simp: accepted_ids_def)
  qed
  have "filter ?open (joined ?w) = filter (\<lambda>(b, s). b_id b \<notin> accepted_ids mp ps) (filter ?open (joined w))"
    unfolding joined_marked filter_map filter_filter
    by (rule trans [OF map_idI]) (auto simp: mark_accepted_def intro!: filter_cong split: if_splits)
  also have "traverse read_pair \<dots> = Inr (filter (\<lambda>p. \<not> accepts mp p) ps)"
  proof (rule traverse_filter [OF read])
    fix x y
    assume "x \<in> set (filter ?open (joined w))" "read_pair x = Inr y"
    then show "(case x of (b, s) \<Rightarrow> b_id b \<notin> accepted_ids mp ps) = (\<not> accepts mp y)"
      using marked_iff [of "fst x" "snd x" y] by (simp add: case_prod_beta)
  qed
  finally have "unreported_aws_billing_entries ?w = (Inr (filter (\<lambda>p. \<not> accepts mp p) ps), ?w)"
    by (simp add: unreported_aws_billing_entries_def unreported_aws_rows_def)
  moreover have "report_unreported_usages mp False w = (Inr (), ?w)"
    using run each_read_all [OF read] by (simp add: report_unreported_usages_def unreported_aws_rows_def)
  ultimately show ?thesis using more by (intro exI [where x = ?w]) auto
qed

definition accepting :: marketplace_api where
  "accepting = \<lparr>resolve_customer = (\<lambda>_. Inl ExternalError), batch_meter_usage = (\<lambda>_ _. Inr 0)\<rparr>"

definition open_entry :: billing_row where
  "open_entry = \<lparr>b_id = 20, b_workspace_id = 7, b_subscription_id = 3, b_tier = ''Plus'',
     b_nr_of_accounts_charged = 4, b_period_start = 0, b_period_end = 90, b_reported = False\<rparr>"

lemma report_until_accepted_witness:
  "let w = (empty_world 100 50)\<lparr>billing_rows := [open_entry], subscription_rows := [sub_from_model sample_subscription]\<rparr>
   in \<exists>w'. report_unreported_usages accepting False w = (Inr (), w') \<and> unreported_aws_billing_entries w' = (Inr [], w')"
proof -
  let ?w = "(empty_world 100 50)\<lparr>billing_rows := [open_entry], subscription_rows := [sub_from_model sample_subscription]\<rparr>"
  obtain e where e: "unreported_aws_billing_entries ?w = (Inr [(e, sample_subscription)], ?w)"
    by (simp add: unreported_aws_billing_entries_def unreported_aws_rows_def joined_def read_pair_def billing_to_model_def tier_from_str_def
        open_entry_def sample_subscription_def sub_to_model_def)
  have "accepts accepting (e, sample_subscription)"
    by (simp add: accepts_def sample_subscription_def accepting_def)
  then show ?thesis
    using report_until_accepted [OF _ _ e, of accepting] by (auto simp: Let_def)
qed

subsection \<open>A cancelled subscription\<close>

lemma bill_workspace_row:
  assumes "bill_workspace s since now next_charge factor v w = (Inr (Some e), w')"
  shows "\<exists>row. billing_rows w' = billing_rows w @ [row] \<and> b_id row = be_id e \<and> \<not> b_reported row \<and>
    usage_reports w' = usage_reports w"
proof -
  obtain ss where ss: "collect_summary (ws_id v) (Some since) (Some now) 100 3 w = (Inr ss, w)"
    by (simp add: collect_summary_def)
  from assms show ?thesis unfolding bill_workspace_run [OF ss refl refl] by (auto split: if_splits)
qed

lemma create_entry_row:
  assumes "create_billing_entry p s n w = (Inr (Some e), w')"
  shows "\<exists>row. billing_rows w' = billing_rows w @ [row] \<and> b_id row = be_id e \<and> \<not> b_reported row \<and>
    usage_reports w' = usage_reports w"
proof -
  obtain r where r: "list_workspaces_by_subscription_id (sub_id s) w = (r, w)"
    by (simp add: list_workspaces_by_subscription_id_def load_orgs_def)
  from assms obtain v since now next_charge factor
    where "bill_workspace s since now next_charge factor v w = (Inr (Some e), w')"
    by (auto simp: create_billing_entry_def Let_def bind_def r split: if_splits sum.splits list.splits)
  then show ?thesis by (rule bill_workspace_row)
qed

text \<open>
  A cancellation reports its last usage twice: the entry created for the time up to the cancellation
  is sent to AWS at once and accepted, but it is not marked as reported, so the next run of the billing
  job finds it unreported.
\<close>

theorem cancellation_left_unreported:
  assumes subs: "subscriptions (no_filter\<lparr>f_aws_customer_identifier := Some c\<rparr>) w = (Inr [AwsMarketplaceSubscription a], w)"
    and bill: "create_billing_entry p (AwsMarketplaceSubscription a) None
      (w\<lparr>events := events w @ [SubscriptionCancelled (aws_id a) ''aws_marketplace'']\<rparr>) = (Inr (Some e), w1)"
    and accept: "batch_meter_usage mp (aws_product_code a) (usage_records [(a, e)]) = Inr 0"
  shows "\<exists>w'. handle_message mp p ''unsubscribe-pending'' c w = (Inr (), w') \<and>
    usage_reports w' = usage_reports w @ [report_of a e] \<and>
    (\<exists>row\<in>set (billing_rows w'). b_id row = be_id e \<and> \<not> b_reported row)"
proof -
  from create_entry_row [OF bill] obtain row where
    "billing_rows w1 = billing_rows w @ [row]" "b_id row = be_id e" "\<not> b_reported row" "usage_reports w1 = usage_reports w"
    by auto
  then show ?thesis
    using subs bill accept by (simp add: handle_message_def subscription_canceled_def cancel_one_def report_usage_def report_of_def)
qed

definition metered_run :: "uuid \<Rightarrow> metering_record" where
  "metered_run i = \<lparr>m_id = i, m_workspace_id = 7, m_cloud = ''aws'', m_account_id = ''a'', m_account_name = None,
     m_timestamp = 50, m_job_id = i, m_task_id = ''t'', m_nr_of_resources_collected = 200,
     m_nr_of_error_messages = 0, m_started_at = 40, m_duration = 5, m_product_tier = Plus\<rparr>"

definition cancelling_world :: world where
  "cancelling_world = billed_world\<lparr>metering := [metered_run 1, metered_run 2, metered_run 3]\<rparr>"

lemma cancellation_left_unreported_witness:
  "\<exists>w' e a. handle_message accepting Month ''unsubscribe-pending'' ''c'' cancelling_world = (Inr (), w') \<and>
    usage_reports w' = [report_of a e] \<and> (\<exists>row\<in>set (billing_rows w'). b_id row = be_id e \<and> \<not> b_reported row)"
proof -
  obtain a where a: "billed_subscription = AwsMarketplaceSubscription a" "aws_id a = 3"
    by (simp add: billed_subscription_def)
  have subs: "subscriptions (no_filter\<lparr>f_aws_customer_identifier := Some ''c''\<rparr>) cancelling_world =
      (Inr [AwsMarketplaceSubscription a], cancelling_world)"
    unfolding a(1) [symmetric]
    by (simp add: subscriptions_def cancelling_world_def billed_world_def empty_world_def sub_matches_def no_filter_def
        where_id_def where_str_def where_time_def billed_subscription_def sub_to_model_def)
  let ?w = "cancelling_world\<lparr>events := events cancelling_world @ [SubscriptionCancelled (aws_id a) ''aws_marketplace'']\<rparr>"
  obtain v where v: "list_workspaces_by_subscription_id 3 ?w = (Inr [v], ?w)" "ws_id v = 7"
    by (simp add: list_workspaces_by_subscription_id_def load_orgs_def cancelling_world_def billed_world_def empty_world_def
        sample_org_def org_to_model_def tier_from_str_def)
  have ss: "collect_summary (ws_id v) (Some 0) (Some (clock ?w)) 100 3 ?w =
      (Inr [\<lparr>sm_account_id = ''a'', sm_account_name = None, sm_count = 3, sm_product_tier = Plus\<rparr>], ?w)"
    by (simp add: v(2) collect_summary_def cancelling_world_def billed_world_def empty_world_def metered_run_def
        in_period_def summary_of_def Let_def)
  have nz: "max x 3 \<noteq> (0::int)" for x by simp
  obtain e w1 where bill: "create_billing_entry Month (AwsMarketplaceSubscription a) None ?w = (Inr (Some e), w1)"
    using bill_workspace_run [OF ss refl refl, of billed_subscription] v(1) a
    by (simp add: create_billing_entry_def Let_def billed_subscription_def billed_usage_def nz)
  have "batch_meter_usage accepting (aws_product_code a) (usage_records [(a, e)]) = Inr 0" by (simp add: accepting_def)
  from cancellation_left_unreported [OF subs bill this] show ?thesis
    by (auto simp: cancelling_world_def billed_world_def empty_world_def)
qed

end
