(* ===== verification/Stripe_Service.thy ===== *)
theory Stripe_Service
  imports Billing_Service
begin

section \<open>Stripe\<close>

text \<open>
  \<open>StripeClient\<close> and \<open>StripeServiceImpl\<close> of \<open>subscription/stripe_subscription.py\<close>. Stripe itself is a
  parameter: what its calls return, or the exception they raise. Calls that change something there are
  logged in \<open>stripe_calls\<close>. Checkout and portal pages are only links; events arrive verified.
\<close>

record stripe_api =
  st_create_customer :: "uuid \<Rightarrow> string \<Rightarrow> exn + string"
  st_create_subscription :: "string \<Rightarrow> string \<Rightarrow> exn + string"
  st_prices :: "(string \<times> string) list"
    \<comment> \<open>the recurring prices: product name and price id\<close>
  st_activation_price :: "string option"
  st_subscription_items :: "string \<Rightarrow> exn + string list"
    \<comment> \<open>the plan of every item of a subscription\<close>
  st_usage_ok :: "string \<Rightarrow> string \<Rightarrow> int \<Rightarrow> bool"
  st_payment_method :: "string \<Rightarrow> exn + string"
  st_refund_ok :: "string \<Rightarrow> bool"
  st_update_ok :: "string \<Rightarrow> bool"
  st_checkout_session :: "string \<Rightarrow> string \<Rightarrow> string"
    \<comment> \<open>url of a checkout for a customer and a price\<close>
  st_portal_session :: "string \<Rightarrow> string"

definition log_call :: "stripe_call \<Rightarrow> unit io" where
  "log_call c = modify (\<lambda>w. w\<lparr>stripe_calls := stripe_calls w @ [c]\<rparr>)"

subsection \<open>The client\<close>

definition create_customer :: "stripe_api \<Rightarrow> uuid \<Rightarrow> string \<Rightarrow> string io" where
  "create_customer st workspace_id email =
     bind (lift (st_create_customer st workspace_id email)) (\<lambda>customer.
     bind (log_call (StripeCreateCustomer workspace_id email)) (\<lambda>_. ret customer))"

definition create_subscription :: "stripe_api \<Rightarrow> string \<Rightarrow> string \<Rightarrow> billing_period \<Rightarrow> string io" where
  "create_subscription st customer_id payment_method_id period =
     bind utc (\<lambda>now.
     let subscription_at = start_of_next_period period now 0 + td_days 2 in
     bind (lift (st_create_subscription st customer_id payment_method_id)) (\<lambda>subscription.
     bind (log_call (StripeCreateSubscription customer_id payment_method_id subscription_at)) (\<lambda>_.
     ret subscription)))"

text \<open>
  The quantities by price: those that are not zero, looked up by the name of the tier or \<open>Seat\<close>. A later
  price with the same name replaces an earlier one.
\<close>

definition price_id :: "stripe_api \<Rightarrow> string \<Rightarrow> exn + string" where
  "price_id st name = (case tfind fst name (rev (st_prices st)) of None \<Rightarrow> Inl KeyError | Some p \<Rightarrow> Inr (snd p))"

fun used_quantities :: "stripe_api \<Rightarrow> (string \<times> int) list \<Rightarrow> exn + (string \<times> int) list" where
  "used_quantities st [] = Inr []"
| "used_quantities st ((name, value) # rest) =
     (if value > 0 then
        (case price_id st name of Inl e \<Rightarrow> Inl e
         | Inr p \<Rightarrow> (case used_quantities st rest of Inl e \<Rightarrow> Inl e | Inr q \<Rightarrow> Inr ((p, value) # q)))
      else used_quantities st rest)"

text \<open>\<open>used.get(plan, 0)\<close>: the last entry for the plan.\<close>

definition quantity_of :: "(string \<times> int) list \<Rightarrow> string \<Rightarrow> int" where
  "quantity_of used plan = (case tfind fst plan (rev used) of None \<Rightarrow> 0 | Some p \<Rightarrow> snd p)"

definition set_usage :: "stripe_api \<Rightarrow> string \<Rightarrow> (string \<times> int) list \<Rightarrow> string \<Rightarrow> unit io" where
  "set_usage st subscription_id used plan =
     (if st_usage_ok st subscription_id plan (quantity_of used plan)
      then log_call (StripeUsageRecord subscription_id plan (quantity_of used plan))
      else raise ExternalError)"

definition create_usage_record :: "stripe_api \<Rightarrow> string \<Rightarrow> product_tier \<Rightarrow> int \<Rightarrow> int \<Rightarrow> unit io" where
  "create_usage_record st subscription_id tier nr_of_accounts nr_of_seats =
     bind (lift (used_quantities st [(tier_value tier, nr_of_accounts), (''Seat'', nr_of_seats)])) (\<lambda>used.
     bind (lift (st_subscription_items st subscription_id)) (\<lambda>items.
     for_each (set_usage st subscription_id used) items))"

definition refund :: "stripe_api \<Rightarrow> string \<Rightarrow> unit io" where
  "refund st payment_intent_id =
     (if st_refund_ok st payment_intent_id then log_call (StripeRefund payment_intent_id) else raise ExternalError)"

subsection \<open>The service\<close>

definition get_stripe_customer_id :: "stripe_api \<Rightarrow> workspace \<Rightarrow> string io" where
  "get_stripe_customer_id st workspace =
     bind (stripe_customer_get (ws_id workspace)) (\<lambda>customer_id.
     case customer_id of Some c \<Rightarrow> ret c
     | None \<Rightarrow>
         bind (gets (\<lambda>w. tfind u_id (ws_owner_id workspace) (users w))) (\<lambda>owner.
         case owner of None \<Rightarrow> raise AssertionError
         | Some u \<Rightarrow>
             bind (create_customer st (ws_id workspace) (u_email u)) (\<lambda>c.
             bind (stripe_customer_create (ws_id workspace) c) (\<lambda>_. ret c))))"

fun stripe_id_of :: "subscription_method \<Rightarrow> string option" where
  "stripe_id_of (StripeSubscription s) = (if st_subscription_id s \<noteq> [] then Some (st_subscription_id s) else None)"
| "stripe_id_of (AwsMarketplaceSubscription a) = None"

definition get_stripe_subscription_id :: "string \<Rightarrow> string option io" where
  "get_stripe_subscription_id customer_id =
     bind (subscriptions (no_filter\<lparr>f_stripe_customer_identifier := Some customer_id\<rparr>)) (\<lambda>subs.
     ret (case concat (map (\<lambda>s. case stripe_id_of s of None \<Rightarrow> [] | Some i \<Rightarrow> [i]) subs) of
            [] \<Rightarrow> None | i # _ \<Rightarrow> Some i))"

definition redirect_to_stripe :: "stripe_api \<Rightarrow> workspace \<Rightarrow> product_tier option \<Rightarrow> string io" where
  "redirect_to_stripe st workspace desired_product_tier =
     bind (get_stripe_customer_id st workspace) (\<lambda>customer_id.
     bind (case desired_product_tier of None \<Rightarrow> ret ()
           | Some t \<Rightarrow> stripe_set_product_tier (ws_id workspace) t) (\<lambda>_.
     bind (get_stripe_subscription_id customer_id) (\<lambda>subscription.
     case subscription of
       None \<Rightarrow> (case st_activation_price st of None \<Rightarrow> raise ValueError
                | Some p \<Rightarrow> ret (st_checkout_session st customer_id p))
     | Some _ \<Rightarrow> ret (st_portal_session st customer_id))))"

definition stripe_send :: "stripe_api \<Rightarrow> bool \<Rightarrow> billing_entry \<times> subscription_method \<Rightarrow> unit io" where
  "stripe_send st raise_exception be_sub =
     catch
       (case snd be_sub of
          AwsMarketplaceSubscription _ \<Rightarrow> raise AttributeError
        | StripeSubscription s \<Rightarrow>
            bind (create_usage_record st (st_subscription_id s) (be_tier (fst be_sub))
              (be_nr_of_accounts_charged (fst be_sub)) 0) (\<lambda>_.
            mark_billing_entry_reported (be_id (fst be_sub))))
       (\<lambda>e. if raise_exception then raise e else ret ())"

definition stripe_report_unreported_usages :: "stripe_api \<Rightarrow> bool \<Rightarrow> nat io" where
  "stripe_report_unreported_usages st raise_exception =
     bind unreported_stripe_rows (\<lambda>rows.
     bind (each_read read_pair (stripe_send st raise_exception) rows) (\<lambda>_.
     ret (length rows)))"

text \<open>Countries by their upper-case code.\<close>

definition EU :: "string list" where
  "EU = [''AT'', ''BE'', ''BG'', ''HR'', ''CY'', ''CZ'', ''DK'', ''EE'', ''FI'', ''FR'', ''DE'', ''GR'', ''HU'', ''IE'',
     ''IT'', ''LV'', ''LT'', ''LU'', ''MT'', ''NL'', ''PL'', ''PT'', ''RO'', ''SK'', ''SI'', ''ES'', ''SE'']"

definition REVERSE_CHARGE :: "string list" where
  "REVERSE_CHARGE = EU @ [''IS'', ''LI'', ''NO'', ''CH'', ''GB'', ''AU'', ''CA'', ''IN'', ''NZ'', ''SG'', ''ZA'', ''AE'', ''JP'']"

definition upper :: "string \<Rightarrow> string" where
  "upper = map (\<lambda>c. let n = of_char c :: nat in if 97 \<le> n \<and> n \<le> 122 then char_of (n - 32) else c)"

definition update_customer :: "stripe_api \<Rightarrow> string \<Rightarrow> string option \<Rightarrow> string option \<Rightarrow> unit io" where
  "update_customer st cid company country_code =
     (let name = (if str_true company then company else None);
          in_country = (\<lambda>P. str_true country_code \<and> P (upper (the country_code)));
          tax_exempt = (if in_country (\<lambda>c. c = ''US'') then Some ''none''
                        else if in_country (\<lambda>c. c \<in> set REVERSE_CHARGE) then Some ''reverse'' else None) in
      if name = None \<and> tax_exempt = None then ret ()
      else if st_update_ok st cid then log_call (StripeUpdateCustomer cid name tax_exempt)
      else raise ExternalError)"

definition new_stripe_subscription ::
  "stripe_api \<Rightarrow> billing_period \<Rightarrow> uuid \<Rightarrow> string \<Rightarrow> string \<Rightarrow> unit io" where
  "new_stripe_subscription st period workspace_id customer_id payment_intent_id =
     bind (lift (st_payment_method st payment_intent_id)) (\<lambda>pm_id.
     bind (create_subscription st customer_id pm_id period) (\<lambda>stripe_subscription_id.
     bind uuid4 (\<lambda>i.
     bind utc (\<lambda>now.
     bind (sub_create (StripeSubscription
       \<lparr>st_id = i, st_workspace_id = Some workspace_id, st_customer_identifier = customer_id,
        st_subscription_id = stripe_subscription_id, st_active = True, st_last_charge_timestamp = Some now,
        st_next_charge_timestamp = Some (start_of_next_period period now 9)\<rparr>)) (\<lambda>subscription.
     bind (update_subscription workspace_id (Some (sub_id subscription))) (\<lambda>workspace.
     bind (stripe_get_product_tier workspace_id) (\<lambda>product_tier.
     bind (case product_tier of None \<Rightarrow> ret ()
           | Some t \<Rightarrow> bind (update_billing None workspace (Some t) None) (\<lambda>_. ret ())) (\<lambda>_.
     publish (SubscriptionCreated (Some workspace_id) (ws_owner_id workspace) (sub_id subscription) ''stripe'')))))))))"

definition create_stripe_subscription :: "stripe_api \<Rightarrow> billing_period \<Rightarrow> string \<Rightarrow> string \<Rightarrow> unit io" where
  "create_stripe_subscription st period customer_id payment_intent_id =
     bind (workspace_of_customer customer_id) (\<lambda>found.
     case found of None \<Rightarrow> raise ValueError
     | Some workspace_id \<Rightarrow>
         bind (get_workspace workspace_id) (\<lambda>workspace.
         bind (case (case workspace of None \<Rightarrow> None | Some ws \<Rightarrow> ws_subscription_id ws) of
                 None \<Rightarrow> ret None | Some i \<Rightarrow> get_subscription i) (\<lambda>existing.
         case existing of
           Some (StripeSubscription s) \<Rightarrow>
             if st_active s then ret ()
             else new_stripe_subscription st period workspace_id customer_id payment_intent_id
         | _ \<Rightarrow> new_stripe_subscription st period workspace_id customer_id payment_intent_id)))"

definition stripe_subscription_cancelled :: "string \<Rightarrow> unit io" where
  "stripe_subscription_cancelled sid =
     bind (subscriptions (no_filter\<lparr>f_stripe_subscription_identifier := Some sid\<rparr>)) (\<lambda>subs.
     for_each (\<lambda>sub.
       bind (delete_subscriptions (sub_id sub)) (\<lambda>_.
       publish (SubscriptionCancelled (sub_id sub) ''stripe''))) subs)"

text \<open>The fields that the handler reads from the object of an event.\<close>

datatype stripe_event =
    CheckoutCompleted "string option" "string option" "string option" "string option"
      \<comment> \<open>customer, payment intent, company, country\<close>
  | PaymentIntentSucceeded "string option" "string option" "string option"
      \<comment> \<open>reason, customer, intent\<close>
  | CustomerUpdated "string option" "string option" "string option"
      \<comment> \<open>customer, previous country, country\<close>
  | StripeSubscriptionDeleted "string option"
  | OtherStripeEvent

fun handle_verified_event :: "stripe_api \<Rightarrow> billing_period \<Rightarrow> stripe_event \<Rightarrow> unit io" where
  "handle_verified_event st period (CheckoutCompleted cid intent_id company country_code) =
     seq (if str_true cid \<and> str_true company \<and> str_true country_code
          then update_customer st (the cid) company country_code else ret ())
         (if str_true cid \<and> intent_id \<noteq> None
          then create_stripe_subscription st period (the cid) (the intent_id) else ret ())"
| "handle_verified_event st period (PaymentIntentSucceeded reason cid intent_id) =
     (if reason = Some ''activation'' \<and> str_true intent_id \<and> str_true cid then refund st (the intent_id) else ret ())"
| "handle_verified_event st period (CustomerUpdated cid country_changed country) =
     (if str_true cid \<and> str_true country_changed \<and> str_true country
      then update_customer st (the cid) None country else ret ())"
| "handle_verified_event st period (StripeSubscriptionDeleted sid) =
     (if str_true sid then stripe_subscription_cancelled (the sid) else ret ())"
| "handle_verified_event st period OtherStripeEvent = ret ()"

subsection \<open>Usage is set, not added\<close>

lemma set_usage_run:
  "(\<And>i q. i \<in> set items \<Longrightarrow> st_usage_ok st sid i (quantity_of used i)) \<Longrightarrow>
   for_each (set_usage st sid used) items w =
     (Inr (), w\<lparr>stripe_calls := stripe_calls w @ map (\<lambda>i. StripeUsageRecord sid i (quantity_of used i)) items\<rparr>)"
  by (induction items arbitrary: w) (simp_all add: set_usage_def log_call_def)

text \<open>
  A usage report sets the whole state of a Stripe subscription: every item of it gets one record, the
  item of the tier's price the number of accounts and every other item zero, so a tier charged before does
  not stay charged; a tier without a price raises before anything is sent.
\<close>

theorem usage_sets_every_item:
  assumes "st_subscription_items st sid = Inr items" and "0 < n"
    and "\<And>i q. i \<in> set items \<Longrightarrow> st_usage_ok st sid i q"
  shows "create_usage_record st sid tier n 0 w =
    (case price_id st (tier_value tier) of
       Inl e \<Rightarrow> (Inl e, w)
     | Inr p \<Rightarrow> (Inr (), w\<lparr>stripe_calls := stripe_calls w @
         map (\<lambda>i. StripeUsageRecord sid i (if i = p then n else 0)) items\<rparr>))"
proof (cases "price_id st (tier_value tier)")
  case (Inl e)
  then show ?thesis using assms(2) by (simp add: create_usage_record_def)
next
  case (Inr p)
  have q: "quantity_of [(p, n)] i = (if i = p then n else 0)" for i by (simp add: quantity_of_def)
  show ?thesis
    using Inr assms set_usage_run [of items st sid "[(p, n)]" w]
    by (simp add: create_usage_record_def q)
qed

definition sample_stripe :: stripe_api where
  "sample_stripe = \<lparr>st_create_customer = (\<lambda>_ _. Inr ''cus''), st_create_subscription = (\<lambda>_ _. Inr ''sub''),
     st_prices = [(''Plus'', ''p1''), (''Business'', ''p2''), (''Seat'', ''p3'')], st_activation_price = Some ''act'',
     st_subscription_items = (\<lambda>_. Inr [''p1'', ''p2'', ''p3'']), st_usage_ok = (\<lambda>_ _ _. True),
     st_payment_method = (\<lambda>_. Inr ''pm''), st_refund_ok = (\<lambda>_. True), st_update_ok = (\<lambda>_. True),
     st_checkout_session = (\<lambda>_ _. ''checkout''), st_portal_session = (\<lambda>_. ''portal'')\<rparr>"

lemma usage_sets_every_item_witness:
  "stripe_calls (snd (create_usage_record sample_stripe ''sub'' Business 4 0 (empty_world 100 50))) =
     [StripeUsageRecord ''sub'' ''p1'' 0, StripeUsageRecord ''sub'' ''p2'' 4, StripeUsageRecord ''sub'' ''p3'' 0]"
  using usage_sets_every_item [of sample_stripe "''sub''" "[''p1'', ''p2'', ''p3'']" 4 Business "empty_world 100 50"]
  by (simp add: sample_stripe_def price_id_def empty_world_def)

subsection \<open>A created subscription is announced at most once, and possibly never\<close>

lemma update_billing_seats:
  assumes "seats_included (product_tier_settings t) < length (all_users ws)"
  shows "\<exists>e. update_billing u ws (Some t) m w = (Inl e, w)"
proof -
  obtain r1 where ms: "get_payment_methods ws u w = (r1, w)" using get_payment_methods_same by (metis prod.collapse)
  have bad: "\<exists>e. validate_tier t m' c n ws = Inl e" for m' c n
    using assms by (simp add: validate_tier_cases)
  show ?thesis
  proof (cases r1)
    case (Inl e)
    with ms show ?thesis by (simp add: update_billing_def)
  next
    case (Inr p)
    obtain n where n: "count_by_workspace_id (ws_id ws) False True w = (Inr n, w)"
      by (simp add: count_by_workspace_id_def)
    obtain e where "validate_tier t (map_option (Payment_object 1) m) (Payment_object 0 (pm_current p)) n ws = Inl e"
      using bad by blast
    with ms Inr n show ?thesis by (simp add: update_billing_def)
  qed
qed

text \<open>A workspace with an active subscription is left alone.\<close>

lemma active_subscription_kept:
  assumes "workspace_of_customer c w = (Inr (Some i), w)" and "tfind o_id i (orgs w) = Some r"
    and "org_to_model (members_of i w) None r = Inr ws" and "ws_subscription_id ws = Some s"
    and "get_subscription s w = (Inr (Some (StripeSubscription x)), w)" and "st_active x"
  shows "create_stripe_subscription st period c intent w = (Inr (), w)"
  using assms by (simp add: create_stripe_subscription_def get_workspace_run)

text \<open>
  The event \<open>SubscriptionCreated\<close> can be lost: when the tier the customer asked for does not fit
  the workspace (more users than its seats), the handler raises after the subscription was created at
  Stripe, stored and assigned; nothing is published, and when Stripe delivers the event again the active
  subscription is found and nothing happens at all.
\<close>

theorem subscription_created_lost:
  assumes customer: "workspace_of_customer c w = (Inr (Some i), w)"
    and org: "tfind o_id i (orgs w) = Some r" "o_subscription_id r = None"
      "org_to_model (members_of i w) None r = Inr ws"
    and stripe: "st_payment_method st intent = Inr pm" "st_create_subscription st c pm = Inr sub" "c \<noteq> []" "sub \<noteq> []"
    and fresh: "tfind s_id (next_uuid w) (subscription_rows w) = None"
    and tier: "tfind sc_workspace_id i (stripe_customers w) = Some cust"
      "desired_tier (sc_desired_product_tier cust) = Inr (Some t)"
      "seats_included (product_tier_settings t) < length (all_users ws)"
  shows "\<exists>e w'. create_stripe_subscription st period c intent w = (Inl e, w') \<and> events w' = events w \<and>
    (\<exists>row \<in> set (orgs w'). o_id row = i \<and> o_subscription_id row = Some (next_uuid w)) \<and>
    (\<exists>row \<in> set (subscription_rows w'). s_id row = next_uuid w \<and> s_active row) \<and>
    create_stripe_subscription st period c intent w' = (Inr (), w')"
proof -
  let ?at = "start_of_next_period period (clock w) 9"
  let ?x = "\<lparr>st_id = next_uuid w, st_workspace_id = Some i, st_customer_identifier = c, st_subscription_id = sub,
    st_active = True, st_last_charge_timestamp = Some (clock w), st_next_charge_timestamp = Some ?at\<rparr>"
  let ?r = "r\<lparr>o_subscription_id := Some (next_uuid w)\<rparr>" and ?ws = "ws\<lparr>ws_subscription_id := Some (next_uuid w)\<rparr>"
  let ?w = "w\<lparr>stripe_calls := stripe_calls w @ [StripeCreateSubscription c pm (start_of_next_period period (clock w) 0 + td_days 2)],
    next_uuid := Suc (next_uuid w), subscription_rows := subscription_rows w @ [sub_from_model (StripeSubscription ?x)],
    orgs := tput o_id ?r (orgs w)\<rparr>"
  have id: "o_id r = i" using tfind_Some [OF org(1)] by simp
  have ws: "org_to_model (members_of i w) None ?r = Inr ?ws" "ws_subscription_id ws = None"
    "org_to_model (members_of i ?w) None ?r = Inr ?ws"
    using org(2,3) by (auto simp: org_to_model_def members_of_def split: sum.splits)
  obtain e where e: "update_billing None ?ws (Some t) None ?w = (Inl e, ?w)"
    using update_billing_seats [of t ?ws None None ?w] tier(3) by (auto simp: all_users_def)
  have found: "tfind o_id i (orgs ?w) = Some ?r" using tfind_tput_same [of o_id ?r "orgs w"] id by simp
  have same: "members_of i (w\<lparr>stripe_calls := a, next_uuid := b, subscription_rows := d\<rparr>) = members_of i w" for a b d
    by (simp add: members_of_def)
  have first: "create_stripe_subscription st period c intent w = (Inl e, ?w)"
    using stripe fresh tier(1,2) e ws(2) ws(1) id
    by (simp add: create_stripe_subscription_def customer get_workspace_run org new_stripe_subscription_def
        create_subscription_def log_call_def sub_create_def update_subscription_def update_org_run same
        stripe_get_product_tier_def Let_def)
  have stored: "get_subscription (next_uuid w) ?w = (Inr (Some (StripeSubscription ?x)), ?w)"
    using fresh stripe(3,4) by (simp add: get_subscription_def tfind_append read_row_def sub_to_model_def)
  have again: "workspace_of_customer c ?w = (Inr (Some i), ?w)"
    using customer by (simp add: workspace_of_customer_def)
  have second: "create_stripe_subscription st period c intent ?w = (Inr (), ?w)"
    by (rule active_subscription_kept [OF again found ws(3) _ stored]) simp_all
  have "?r \<in> set (orgs ?w)" using tfind_Some [OF found] by blast
  then have "\<exists>row\<in>set (orgs ?w). o_id row = i \<and> o_subscription_id row = Some (next_uuid w)"
    by (rule bexI [rotated]) (simp add: id)
  moreover have "\<exists>row \<in> set (subscription_rows ?w). s_id row = next_uuid w \<and> s_active row" by simp
  moreover have "events ?w = events w" by simp
  ultimately show ?thesis using first second by blast
qed

definition crowded_world :: world where
  "crowded_world = (empty_world 100 50)\<lparr>orgs := [sample_org], members := [(7, 2), (7, 3)],
     stripe_customers := [\<lparr>sc_workspace_id = 7, sc_customer_id = ''cus'', sc_desired_product_tier = Some ''Plus''\<rparr>]\<rparr>"

lemma subscription_created_lost_witness:
  "\<exists>e w'. create_stripe_subscription sample_stripe Month ''cus'' ''pi'' crowded_world = (Inl e, w') \<and> events w' = [] \<and>
    create_stripe_subscription sample_stripe Month ''cus'' ''pi'' w' = (Inr (), w')"
proof -
  obtain ws where ws: "org_to_model (members_of 7 crowded_world) None sample_org = Inr ws"
    "ws_owner_id ws = 1" "ws_members ws = [2, 3]"
    by (simp add: org_to_model_def sample_org_def members_of_def crowded_world_def empty_world_def tier_from_str_def)
  have "\<exists>e w'. create_stripe_subscription sample_stripe Month ''cus'' ''pi'' crowded_world = (Inl e, w') \<and>
      events w' = events crowded_world \<and>
      (\<exists>row \<in> set (orgs w'). o_id row = 7 \<and> o_subscription_id row = Some (next_uuid crowded_world)) \<and>
      (\<exists>row \<in> set (subscription_rows w'). s_id row = next_uuid crowded_world \<and> s_active row) \<and>
      create_stripe_subscription sample_stripe Month ''cus'' ''pi'' w' = (Inr (), w')"
    by (rule subscription_created_lost [where pm = "''pm''" and sub = "''sub''" and t = Plus and r = sample_org and ws = ws and
        cust = "\<lparr>sc_workspace_id = 7, sc_customer_id = ''cus'', sc_desired_product_tier = Some ''Plus''\<rparr>"])
      (use ws in \<open>simp_all add: crowded_world_def empty_world_def sample_stripe_def workspace_of_customer_def
        sample_org_def desired_tier_def tier_from_str_def all_users_def\<close>)
  then show ?thesis by (auto simp: crowded_world_def empty_world_def)
qed

end
