(* ===== verification/Billing_Job.thy ===== *)
theory Billing_Job
  imports Aws_Marketplace Stripe_Service
begin

section \<open>The billing job\<close>

text \<open>
  \<open>BillingJob\<close> of \<open>billing/billing_job.py\<close>, started every hour: it bills the overdue subscriptions,
  reports what was not reported yet, and reports no usage for the active subscriptions of AWS that are not
  due. The tasks of one step run one after the other, once what they work on is read; pushing metrics and
  killing the process at the end are not modelled.
\<close>

definition bill_one :: "billing_period \<Rightarrow> subscription_method \<Rightarrow> unit io" where
  "bill_one period subscription =
     catch (bind (create_billing_entry period subscription None) (\<lambda>_. ret ())) (\<lambda>_. ret ())"

definition create_overdue_billing_entries :: "billing_period \<Rightarrow> datetime \<Rightarrow> unit io" where
  "create_overdue_billing_entries period now =
     bind (subscriptions (no_filter\<lparr>f_active := Some True, f_next_charge_before := Some now\<rparr>)) (\<lambda>subs.
     for_each (bill_one period) subs)"

subsection \<open>Reports of no usage\<close>

fun dummy_entries ::
  "aws_subscription \<Rightarrow> datetime \<Rightarrow> workspace list \<Rightarrow> (aws_subscription \<times> billing_entry) list io" where
  "dummy_entries a now [] = ret []"
| "dummy_entries a now (ws # rest) =
     bind uuid4 (\<lambda>i. bind utc (\<lambda>tier_time. bind (dummy_entries a now rest) (\<lambda>es.
     ret ((a, \<lparr>be_id = i, be_workspace_id = ws_id ws, be_subscription_id = aws_id a,
               be_tier = current_product_tier tier_time ws, be_nr_of_accounts_charged = 0,
               be_period_start = now, be_period_end = now, be_reported = False\<rparr>) # es))))"

fun no_usage_entries ::
  "datetime \<Rightarrow> subscription_method list \<Rightarrow> (aws_subscription \<times> billing_entry) list io" where
  "no_usage_entries now [] = ret []"
| "no_usage_entries now (StripeSubscription _ # _) = raise AssertionError"
| "no_usage_entries now (AwsMarketplaceSubscription a # rest) =
     bind (list_workspaces_by_subscription_id (aws_id a)) (\<lambda>workspaces.
     bind (dummy_entries a now workspaces) (\<lambda>es.
     bind (no_usage_entries now rest) (\<lambda>more. ret (es @ more))))"

text \<open>The loop of \<open>chunked_subscriptions\<close>: \<open>chunk\<close> is what was collected since the last yield.\<close>

fun chunked :: "nat \<Rightarrow> 'a list \<Rightarrow> 'a list \<Rightarrow> 'a list list" where
  "chunked limit chunk [] = (if 0 < length chunk then [chunk] else [])"
| "chunked limit chunk (x # xs) =
     (if limit \<le> length (chunk @ [x]) then (chunk @ [x]) # chunked limit [] xs
      else chunked limit (chunk @ [x]) xs)"

definition report_chunk :: "marketplace_api \<Rightarrow> (aws_subscription \<times> billing_entry) list \<Rightarrow> unit io" where
  "report_chunk mp chunk =
     (if \<not> (0 < length chunk \<and> length chunk \<le> 25) then raise AssertionError
      else catch (report_usage mp (aws_product_code (fst (hd chunk))) chunk) (\<lambda>_. ret ()))"

definition report_no_usage_for_active_aws_marketplace_subscriptions :: "marketplace_api \<Rightarrow> datetime \<Rightarrow> unit io" where
  "report_no_usage_for_active_aws_marketplace_subscriptions mp now =
     bind (subscriptions (no_filter\<lparr>f_active := Some True, f_is_aws := Some True, f_next_charge_after := Some now\<rparr>)) (\<lambda>subs.
     bind (no_usage_entries now subs) (\<lambda>entries.
     for_each (report_chunk mp) (chunked 25 [] entries)))"

definition handle_outstanding_subscriptions ::
  "marketplace_api \<Rightarrow> stripe_api option \<Rightarrow> billing_period \<Rightarrow> unit io" where
  "handle_outstanding_subscriptions mp stripe period =
     bind utc (\<lambda>now.
     bind (create_overdue_billing_entries period now) (\<lambda>_.
     bind (report_unreported_usages mp False) (\<lambda>_.
     bind (case stripe of None \<Rightarrow> raise NotImplementedError
           | Some st \<Rightarrow> bind (stripe_report_unreported_usages st False) (\<lambda>_. ret ())) (\<lambda>_.
     report_no_usage_for_active_aws_marketplace_subscriptions mp now))))"

subsection \<open>Chunks\<close>

lemma chunked_spec:
  assumes "length chunk < limit"
  shows "concat (chunked limit chunk xs) = chunk @ xs \<and> (\<forall>c\<in>set (chunked limit chunk xs). 0 < length c \<and> length c \<le> limit)"
  using assms
proof (induction xs arbitrary: chunk)
  case (Cons x xs)
  show ?case
  proof (cases "limit \<le> length (chunk @ [x])")
    case True
    with Cons.prems Cons.IH [of "[]"] show ?thesis by (cases "limit = 0") auto
  next
    case False
    with Cons.IH [of "chunk @ [x]"] show ?thesis by simp
  qed
qed auto

lemma dummy_entries_run:
  "\<exists>es n. dummy_entries a now wss w = (Inr es, w\<lparr>next_uuid := n\<rparr>) \<and>
     (\<forall>p\<in>set es. be_nr_of_accounts_charged (snd p) = 0)"
proof (induction wss arbitrary: w)
  case Nil
  show ?case by (intro exI [where x = "next_uuid w"] exI [where x = "[]"]) simp
next
  case (Cons ws wss)
  from Cons.IH [of "w\<lparr>next_uuid := Suc (next_uuid w)\<rparr>"] show ?case by fastforce
qed

text \<open>The entries of no usage cost fresh ids only, and charge nothing.\<close>

lemma no_usage_entries_run:
  assumes "no_usage_entries now subs w = (Inr entries, w')"
  shows "(\<exists>n. w' = w\<lparr>next_uuid := n\<rparr>) \<and> (\<forall>p\<in>set entries. be_nr_of_accounts_charged (snd p) = 0)"
  using assms
proof (induction subs arbitrary: w w' entries)
  case Nil
  then show ?case by (auto intro: exI [where x = "next_uuid w"])
next
  case (Cons s subs)
  show ?case
  proof (cases s)
    case (StripeSubscription x)
    with Cons.prems show ?thesis by simp
  next
    case (AwsMarketplaceSubscription a)
    obtain wss where wss: "list_workspaces_by_subscription_id (aws_id a) w = (Inr wss, w)"
      using Cons.prems AwsMarketplaceSubscription
      by (auto simp: list_workspaces_by_subscription_id_def load_orgs_def bind_def split: sum.splits)
    obtain es n where es: "dummy_entries a now wss w = (Inr es, w\<lparr>next_uuid := n\<rparr>)"
      and zero: "\<forall>p\<in>set es. be_nr_of_accounts_charged (snd p) = 0"
      using dummy_entries_run by blast
    obtain more w2 where more: "no_usage_entries now subs (w\<lparr>next_uuid := n\<rparr>) = (Inr more, w2)"
      and res: "entries = es @ more" "w' = w2"
      using Cons.prems AwsMarketplaceSubscription wss es by (auto simp: bind_def split: prod.splits sum.splits)
    show ?thesis using Cons.IH [OF more] res zero by auto
  qed
qed

definition chunk_report ::
  "marketplace_api \<Rightarrow> (aws_subscription \<times> billing_entry) list \<Rightarrow> (string \<times> usage_record list) list" where
  "chunk_report mp c =
     (case batch_meter_usage mp (aws_product_code (fst (hd c))) (usage_records c) of
        Inl _ \<Rightarrow> [] | Inr _ \<Rightarrow> [(aws_product_code (fst (hd c)), usage_records c)])"

lemma report_chunks_run:
  "(\<forall>c\<in>set cs. 0 < length c \<and> length c \<le> 25) \<Longrightarrow>
   for_each (report_chunk mp) cs w = (Inr (), w\<lparr>usage_reports := usage_reports w @ concat (map (chunk_report mp) cs)\<rparr>)"
proof (induction cs arbitrary: w)
  case (Cons c cs)
  have one: "report_chunk mp c w = (Inr (), w\<lparr>usage_reports := usage_reports w @ chunk_report mp c\<rparr>)"
    using Cons.prems
    by (cases "batch_meter_usage mp (aws_product_code (fst (hd c))) (usage_records c)")
      (auto simp: report_chunk_def report_usage_def chunk_report_def run_defs)
  show ?case using Cons.IH Cons.prems one by (simp add: seq_def bind_def)
qed simp

text \<open>
  Reports of no usage: the entries of all active subscriptions that are not due go out in order, in
  calls of at most 25 records, none lost or repeated by the chunking; a call that fails does not stop the
  others, no account is charged, and nothing but the reports and fresh ids changes. All entries of a call
  are sent under the product code of its first one.
\<close>

theorem no_usage_in_chunks:
  assumes "subscriptions (no_filter\<lparr>f_active := Some True, f_is_aws := Some True, f_next_charge_after := Some now\<rparr>) w
      = (Inr subs, w)"
    and "no_usage_entries now subs w = (Inr entries, w1)"
  shows "\<exists>chunks n. concat chunks = entries \<and> (\<forall>c\<in>set chunks. 0 < length c \<and> length c \<le> 25) \<and>
    (\<forall>p\<in>set entries. be_nr_of_accounts_charged (snd p) = 0) \<and>
    report_no_usage_for_active_aws_marketplace_subscriptions mp now w =
      (Inr (), w\<lparr>next_uuid := n, usage_reports := usage_reports w @ concat (map (chunk_report mp) chunks)\<rparr>)"
proof -
  have c: "concat (chunked 25 [] entries) = entries"
    "\<forall>c\<in>set (chunked 25 [] entries). 0 < length c \<and> length c \<le> 25"
    using chunked_spec [of "[]" 25 entries] by auto
  obtain n where n: "w1 = w\<lparr>next_uuid := n\<rparr>" and zero: "\<forall>p\<in>set entries. be_nr_of_accounts_charged (snd p) = 0"
    using no_usage_entries_run [OF assms(2)] by blast
  have "report_no_usage_for_active_aws_marketplace_subscriptions mp now w = (Inr (),
      w\<lparr>next_uuid := n, usage_reports := usage_reports w @ concat (map (chunk_report mp) (chunked 25 [] entries))\<rparr>)"
    using report_chunks_run [OF c(2), of mp w1] assms n
    by (simp add: report_no_usage_for_active_aws_marketplace_subscriptions_def bind_def)
  with c zero show ?thesis by blast
qed

lemma no_usage_in_chunks_witness:
  "\<exists>chunks n. length (concat chunks) = 1 \<and> (\<forall>c\<in>set chunks. 0 < length c \<and> length c \<le> 25) \<and>
    report_no_usage_for_active_aws_marketplace_subscriptions accepting 5 billed_world =
      (Inr (), billed_world\<lparr>next_uuid := n, usage_reports := usage_reports billed_world @
        concat (map (chunk_report accepting) chunks)\<rparr>)"
proof -
  obtain a where a: "billed_subscription = AwsMarketplaceSubscription a" "aws_id a = 3"
    by (simp add: billed_subscription_def)
  have subs: "subscriptions (no_filter\<lparr>f_active := Some True, f_is_aws := Some True, f_next_charge_after := Some 5\<rparr>)
      billed_world = (Inr [billed_subscription], billed_world)"
    by (simp add: subscriptions_def billed_world_def empty_world_def sub_matches_def no_filter_def
        where_id_def where_str_def where_time_def billed_subscription_def sub_to_model_def)
  obtain v where v: "list_workspaces_by_subscription_id 3 billed_world = (Inr [v], billed_world)"
    by (simp add: list_workspaces_by_subscription_id_def load_orgs_def billed_world_def empty_world_def
        sample_org_def org_to_model_def tier_from_str_def)
  have "\<exists>es w1. no_usage_entries 5 [billed_subscription] billed_world = (Inr es, w1) \<and> length es = 1"
    unfolding a(1) using a(2) v by (auto simp: bind_def)
  then obtain es w1 where es: "no_usage_entries 5 [billed_subscription] billed_world = (Inr es, w1)" "length es = 1"
    by blast
  from no_usage_in_chunks [OF subs es(1), of accepting] es(2) show ?thesis by metis
qed

end
