(* ===== verification/User_Repository.thy ===== *)
theory User_Repository
  imports Role_Repository
begin

section \<open>Users in the database\<close>

text \<open>
  \<open>UserRepository\<close> of \<open>auth/user_repository.py\<close> over the tables \<open>user\<close>, \<open>oauth_account\<close> and
  \<open>user_mfa_recovery_code\<close>. A user is loaded with the roles assigned to it: the roles of a stored
  user are not read. The column of the last login is kept in \<open>logins\<close>. \<open>get\<close>, \<open>get_by_email\<close> and
  \<open>get_by_oauth_account\<close> are those of \<open>fastapi_users_db_sqlalchemy\<close>; e-mail addresses are compared without
  regard to case. Deleting a user, which no service does, is not modelled.
\<close>

definition lower :: "string \<Rightarrow> string" where
  "lower = map (\<lambda>c. let n = of_char c :: nat in if 65 \<le> n \<and> n \<le> 90 then char_of (n + 32) else c)"

definition load_user :: "world \<Rightarrow> user \<Rightarrow> user" where
  "load_user w u = u\<lparr>u_roles := map role_to_model (filter (\<lambda>r. rr_user_id r = u_id u) (role_rows w))\<rparr>"

definition scalar_unique :: "'r list \<Rightarrow> exn + 'r option" where
  "scalar_unique rs =
     (case remdups rs of [] \<Rightarrow> Inr None | [r] \<Rightarrow> Inr (Some r) | _ \<Rightarrow> Inl MultipleResultsFound)"

subsection \<open>Reading users\<close>

definition user_get :: "uuid \<Rightarrow> user option io" where
  "user_get i = gets (\<lambda>w. map_option (load_user w) (tfind u_id i (users w)))"

definition user_get_by_email :: "string \<Rightarrow> user option io" where
  "user_get_by_email email =
     bind (gets (\<lambda>w. map (load_user w) (filter (\<lambda>u. lower (u_email u) = lower email) (users w)))) (\<lambda>found.
     lift (scalar_unique found))"

definition user_list :: "nat \<Rightarrow> nat \<Rightarrow> user list io" where
  "user_list limit offset =
     gets (\<lambda>w. map (load_user w) (take limit (drop offset (sort_key (\<lambda>u. - u_created_at u) (users w)))))"

definition user_count :: "nat io" where
  "user_count = gets (\<lambda>w. length (users w))"

definition user_get_by_ids :: "uuid list \<Rightarrow> user list io" where
  "user_get_by_ids ids = gets (\<lambda>w. map (load_user w) (filter (\<lambda>u. u_id u \<in> set ids) (users w)))"

definition user_get_by_oauth_account :: "string \<Rightarrow> string \<Rightarrow> user option io" where
  "user_get_by_oauth_account oauth account_id =
     bind (gets (\<lambda>w. map (load_user w) (filter (\<lambda>u. \<exists>a\<in>set (oauth_accounts w).
       oa_user_id a = u_id u \<and> oa_oauth_name a = oauth \<and> oa_account_id a = account_id) (users w)))) (\<lambda>found.
     lift (scalar_unique found))"

subsection \<open>Writing users\<close>

text \<open>A new user is active, no superuser and without a second factor.\<close>

definition user_create :: "string \<Rightarrow> string \<Rightarrow> bool \<Rightarrow> user io" where
  "user_create email password_hash verified =
     bind uuid4 (\<lambda>i.
     bind utc (\<lambda>now.
     let u = \<lparr>u_id = i, u_email = email, hashed_password = password_hash, is_active = True, is_superuser = False,
           is_verified = verified, is_mfa_active = False, otp_secret = None, u_roles = [], u_created_at = now,
           auth_min_time = None\<rparr> in
     bind (gets (\<lambda>w. \<exists>o'\<in>set (users w). u_email o' = email \<or> u_id o' = i)) (\<lambda>exists.
     if exists then raise IntegrityError
     else bind (modify (\<lambda>w. w\<lparr>users := users w @ [u]\<rparr>)) (\<lambda>_. gets (\<lambda>w. load_user w u)))))"

definition stamp_login :: "uuid \<Rightarrow> datetime option \<Rightarrow> datetime option \<Rightarrow> login_row list \<Rightarrow> login_row list" where
  "stamp_login i last_login last_active rs =
     (let old = (case tfind lg_user_id i rs of Some r \<Rightarrow> r
                 | None \<Rightarrow> \<lparr>lg_user_id = i, lg_last_login = None, lg_last_active = None\<rparr>) in
      tput lg_user_id \<lparr>lg_user_id = i,
        lg_last_login = (if last_login = None then lg_last_login old else last_login),
        lg_last_active = (if last_active = None then lg_last_active old else last_active)\<rparr> rs)"

definition user_update :: "uuid \<Rightarrow> (user \<Rightarrow> user) \<Rightarrow> user io" where
  "user_update i f =
     bind (gets (\<lambda>w. tfind u_id i (users w))) (\<lambda>found.
     case found of None \<Rightarrow> raise ValueError
     | Some u \<Rightarrow>
         bind (modify (\<lambda>w. w\<lparr>users := tput u_id (f u) (users w)\<rparr>)) (\<lambda>_.
         gets (\<lambda>w. load_user w (f u))))"

definition update_partial :: "uuid \<Rightarrow> datetime option \<Rightarrow> datetime option \<Rightarrow> datetime option \<Rightarrow> unit io" where
  "update_partial i last_login last_active min_time =
     bind (user_update i (\<lambda>u. if min_time = None then u else u\<lparr>auth_min_time := min_time\<rparr>)) (\<lambda>_.
     modify (\<lambda>w. w\<lparr>logins := stamp_login i last_login last_active (logins w)\<rparr>))"

subsection \<open>Accounts of identity providers\<close>

text \<open>What a provider tells of an account; the user name is only written when there is one.\<close>

record oauth_data =
  od_oauth_name :: string
  od_access_token :: string
  od_account_id :: string
  od_account_email :: string
  od_expires_at :: "int option"
  od_refresh_token :: "string option"
  od_username :: "string option"

definition new_oauth_account :: "uuid \<Rightarrow> uuid \<Rightarrow> oauth_data \<Rightarrow> oauth_account_row" where
  "new_oauth_account i user_id d =
     \<lparr>oa_id = i, oa_user_id = user_id, oa_oauth_name = od_oauth_name d, oa_access_token = od_access_token d,
      oa_expires_at = od_expires_at d, oa_refresh_token = od_refresh_token d, oa_account_id = od_account_id d,
      oa_account_email = od_account_email d, oa_username = od_username d\<rparr>"

definition add_oauth_account :: "uuid \<Rightarrow> oauth_data \<Rightarrow> user io" where
  "add_oauth_account user_id d =
     bind (gets (\<lambda>w. tfind u_id user_id (users w))) (\<lambda>orm_user.
     case orm_user of None \<Rightarrow> raise ValueError
     | Some u \<Rightarrow>
         bind (gets (\<lambda>w. filter (\<lambda>a. oa_account_id a = od_account_id d) (oauth_accounts w))) (\<lambda>rows.
         bind (lift (case rows of [] \<Rightarrow> Inr None | [a] \<Rightarrow> Inr (Some a) | _ \<Rightarrow> Inl MultipleResultsFound)) (\<lambda>existing_account.
         if (case existing_account of None \<Rightarrow> False | Some a \<Rightarrow> oa_user_id a \<noteq> user_id) then raise UserAlreadyExists
         else
           bind uuid4 (\<lambda>i.
           bind (modify (\<lambda>w. w\<lparr>oauth_accounts :=
             (case existing_account of None \<Rightarrow> oauth_accounts w | Some a \<Rightarrow> tdel oa_id (oa_id a) (oauth_accounts w))
             @ [new_oauth_account i user_id d]\<rparr>)) (\<lambda>_.
           gets (\<lambda>w. load_user w u))))))"

definition update_oauth_account :: "uuid \<Rightarrow> uuid \<Rightarrow> oauth_data \<Rightarrow> user io" where
  "update_oauth_account user_id oauth_id d =
     bind (gets (\<lambda>w. tfind oa_id oauth_id (oauth_accounts w))) (\<lambda>found.
     case found of None \<Rightarrow> raise AttributeError
     | Some a \<Rightarrow>
         bind (modify (\<lambda>w. w\<lparr>oauth_accounts := tput oa_id
           (a\<lparr>oa_oauth_name := od_oauth_name d, oa_access_token := od_access_token d, oa_account_id := od_account_id d,
             oa_account_email := od_account_email d, oa_expires_at := od_expires_at d,
             oa_refresh_token := od_refresh_token d,
             oa_username := (if od_username d = None then oa_username a else od_username d)\<rparr>)
           (oauth_accounts w)\<rparr>)) (\<lambda>_.
         bind (gets (\<lambda>w. map_option (load_user w) (tfind u_id user_id (users w)))) (\<lambda>u.
         case u of None \<Rightarrow> raise UnmappedInstanceError | Some u \<Rightarrow> ret u)))"

definition remove_oauth_account :: "uuid \<Rightarrow> unit io" where
  "remove_oauth_account account_id = modify (\<lambda>w. w\<lparr>oauth_accounts := tdel oa_id account_id (oauth_accounts w)\<rparr>)"

subsection \<open>The second factor\<close>

definition recreate_otp_secret :: "uuid \<Rightarrow> string \<Rightarrow> bool \<Rightarrow> string list \<Rightarrow> unit io" where
  "recreate_otp_secret user_id secret mfa_active hashes =
     bind (user_update user_id (\<lambda>u. u\<lparr>otp_secret := Some secret, is_mfa_active := mfa_active\<rparr>)) (\<lambda>_.
     modify (\<lambda>w. w\<lparr>recovery_codes := filter (\<lambda>c. rc_user_id c \<noteq> user_id) (recovery_codes w) @
       map (\<lambda>h. \<lparr>rc_user_id = user_id, rc_code_hash = h\<rparr>) hashes\<rparr>))"

text \<open>\<open>verify code hash\<close> is the password helper.\<close>

definition delete_recovery_code :: "(string \<Rightarrow> string \<Rightarrow> bool) \<Rightarrow> uuid \<Rightarrow> string \<Rightarrow> bool io" where
  "delete_recovery_code verify user_id code =
     bind (gets (\<lambda>w. find (\<lambda>c. rc_user_id c = user_id \<and> verify code (rc_code_hash c)) (recovery_codes w))) (\<lambda>found.
     case found of None \<Rightarrow> ret False
     | Some c \<Rightarrow>
         bind (modify (\<lambda>w. w\<lparr>recovery_codes :=
           filter (\<lambda>x. (rc_user_id x, rc_code_hash x) \<noteq> (user_id, rc_code_hash c)) (recovery_codes w)\<rparr>)) (\<lambda>_.
         ret True))"

subsection \<open>An external account belongs to one user\<close>

definition oauth_ok :: "world \<Rightarrow> bool" where
  "oauth_ok w \<longleftrightarrow> distinct (map oa_account_id (oauth_accounts w)) \<and> distinct (map oa_id (oauth_accounts w)) \<and>
     (\<forall>a\<in>set (oauth_accounts w). oa_id a < next_uuid w)"

lemma distinct_map_filter: "distinct (map f xs) \<Longrightarrow> distinct (map f (filter P xs))"
  by (induction xs) auto

text \<open>
  Linking an account of an identity provider keeps every account with one user at most: an account
  id that another user holds is refused and nothing changes, one that the user holds already is replaced
  by the new link, and the links of all other accounts stay.
\<close>

theorem oauth_account_one_user:
  assumes "oauth_ok w" and "add_oauth_account i d w = (r, w')"
  shows "oauth_ok w' \<and>
    (\<forall>a. oa_account_id a \<noteq> od_account_id d \<longrightarrow> (a \<in> set (oauth_accounts w') \<longleftrightarrow> a \<in> set (oauth_accounts w))) \<and>
    (case r of Inl e \<Rightarrow> w' = w
     | Inr u \<Rightarrow> u_id u = i \<and> (\<forall>a\<in>set (oauth_accounts w). oa_account_id a = od_account_id d \<longrightarrow> oa_user_id a = i) \<and>
         (\<forall>a\<in>set (oauth_accounts w'). oa_account_id a = od_account_id d \<longrightarrow> a = new_oauth_account (next_uuid w) i d))"
proof -
  let ?same = "\<lambda>a. oa_account_id a = od_account_id d"
  show ?thesis
  proof (cases "tfind u_id i (users w)")
    case None
    with assms show ?thesis by (auto simp: add_oauth_account_def)
  next
    case (Some u)
    have ids: "next_uuid w \<notin> oa_id ` set (oauth_accounts w)" using assms(1) by (auto simp: oauth_ok_def)
    have u: "u_id u = i" using tfind_Some [OF Some] by simp
    let ?new = "new_oauth_account (next_uuid w) i d"
    have new: "oa_id ?new = next_uuid w" "oa_account_id ?new = od_account_id d" "oa_user_id ?new = i"
      by (simp_all add: new_oauth_account_def)
    consider (none) "filter ?same (oauth_accounts w) = []" | (one) a where "filter ?same (oauth_accounts w) = [a]"
      | (more) a b xs where "filter ?same (oauth_accounts w) = a # b # xs"
      by (metis neq_Nil_conv)
    then show ?thesis
    proof cases
      case none
      then have no: "od_account_id d \<notin> oa_account_id ` set (oauth_accounts w)"
        by (auto simp: filter_empty_conv)
      have w': "oauth_accounts w' = oauth_accounts w @ [?new]" "next_uuid w' = Suc (next_uuid w)"
        "r = Inr (load_user w u)"
        using none Some assms(2) by (auto simp: add_oauth_account_def load_user_def)
      have "oauth_ok w'" using assms(1) no ids by (auto simp: oauth_ok_def w' new less_Suc_eq)
      moreover have "oa_account_id a \<noteq> od_account_id d" if "a \<in> set (oauth_accounts w)" for a
        using no that by (metis image_eqI)
      ultimately show ?thesis using u new by (auto simp: w' load_user_def)
    next
      case one
      then have "set (filter ?same (oauth_accounts w)) = {a}" by simp
      then have a: "a \<in> set (oauth_accounts w)" "?same a" and only: "\<And>b. b \<in> set (oauth_accounts w) \<Longrightarrow> ?same b \<Longrightarrow> b = a"
        by auto
      show ?thesis
      proof (cases "oa_user_id a = i")
        case False
        with one Some assms show ?thesis by (auto simp: add_oauth_account_def)
      next
        case True
        let ?rest = "tdel oa_id (oa_id a) (oauth_accounts w)"
        have inj: "oa_id b = oa_id a \<longleftrightarrow> b = a" if "b \<in> set (oauth_accounts w)" for b
          using assms(1) that a(1) unfolding oauth_ok_def distinct_map by (auto dest: inj_onD)
        then have rest: "b \<in> set ?rest \<longleftrightarrow> b \<in> set (oauth_accounts w) \<and> b \<noteq> a" for b
          by (auto simp: tdel_def)
        have w': "oauth_accounts w' = ?rest @ [?new]" "next_uuid w' = Suc (next_uuid w)" "r = Inr (load_user w u)"
          using one Some assms(2) True by (auto simp: add_oauth_account_def load_user_def)
        have d: "distinct (map oa_account_id ?rest)" "distinct (map oa_id ?rest)"
          "od_account_id d \<notin> oa_account_id ` set ?rest" "next_uuid w \<notin> oa_id ` set ?rest"
          using assms(1) only ids a(2) by (auto simp: oauth_ok_def tdel_def distinct_map_filter)
        have "oauth_ok w'" using d assms(1) rest by (auto simp: oauth_ok_def w' new less_Suc_eq)
        moreover have "a' = ?new" if "a' \<in> set (oauth_accounts w')" "?same a'" for a'
          using that rest only by (auto simp: w')
        moreover have "a' \<in> set (oauth_accounts w') \<longleftrightarrow> a' \<in> set (oauth_accounts w)" if "\<not> ?same a'" for a'
          using that rest a(2) new(2) by (auto simp: w')
        moreover have "oa_user_id a' = i" if "a' \<in> set (oauth_accounts w)" "?same a'" for a'
          using only [OF that] True by simp
        ultimately show ?thesis using u by (simp add: w'(3) load_user_def)
      qed
    next
    case more
      with Some assms show ?thesis by (auto simp: add_oauth_account_def)
    qed
  qed
qed

definition sample_user :: user where
  "sample_user = \<lparr>u_id = 2, u_email = ''Ann@example.com'', hashed_password = ''h'', is_active = True,
     is_superuser = False, is_verified = True, is_mfa_active = True, otp_secret = Some ''s'', u_roles = [],
     u_created_at = 0, auth_min_time = None\<rparr>"

definition sample_oauth :: oauth_data where
  "sample_oauth = \<lparr>od_oauth_name = ''github'', od_access_token = ''t'', od_account_id = ''42'',
     od_account_email = ''ann@example.com'', od_expires_at = None, od_refresh_token = None, od_username = Some ''ann''\<rparr>"

lemma oauth_account_one_user_witness:
  "let w = (empty_world 5 50)\<lparr>users := [sample_user], oauth_accounts := [new_oauth_account 40 2 sample_oauth]\<rparr> in
   \<exists>u w'. add_oauth_account 2 sample_oauth w = (Inr u, w') \<and> oauth_ok w' \<and> u_id u = 2"
proof -
  let ?w = "(empty_world 5 50)\<lparr>users := [sample_user], oauth_accounts := [new_oauth_account 40 2 sample_oauth]\<rparr>"
  have ok: "oauth_ok ?w" by (simp add: oauth_ok_def empty_world_def new_oauth_account_def)
  obtain u w' where run: "add_oauth_account 2 sample_oauth ?w = (Inr u, w')"
    by (simp add: add_oauth_account_def sample_user_def empty_world_def new_oauth_account_def sample_oauth_def)
  from oauth_account_one_user [OF ok run] run show ?thesis by (auto simp: Let_def)
qed

subsection \<open>Recovery codes\<close>

text \<open>
  A recovery code works once: it is accepted exactly when a stored hash of the user verifies it; then
  that hash is removed, the user's other hashes and those of all other users stay, and a code that only
  the removed hash verified is refused from then on. A refused code changes nothing.
\<close>

theorem recovery_code_once:
  assumes "delete_recovery_code verify i code w = (Inr ok, w')"
  shows "(ok \<longleftrightarrow> (\<exists>c\<in>set (recovery_codes w). rc_user_id c = i \<and> verify code (rc_code_hash c))) \<and>
    (if ok then (\<exists>h. verify code h \<and> w' = w\<lparr>recovery_codes :=
         filter (\<lambda>c. (rc_user_id c, rc_code_hash c) \<noteq> (i, h)) (recovery_codes w)\<rparr> \<and>
         ((\<forall>c\<in>set (recovery_codes w). rc_user_id c = i \<and> verify code (rc_code_hash c) \<longrightarrow> rc_code_hash c = h) \<longrightarrow>
           delete_recovery_code verify i code w' = (Inr False, w')))
     else w' = w)"
proof (cases "find (\<lambda>c. rc_user_id c = i \<and> verify code (rc_code_hash c)) (recovery_codes w)")
  case None
  with assms show ?thesis by (auto simp: delete_recovery_code_def find_None_iff)
next
  case (Some c)
  then have c: "c \<in> set (recovery_codes w)" "rc_user_id c = i" "verify code (rc_code_hash c)"
    by (metis (mono_tags, lifting) find_Some_iff nth_mem)+
  let ?w = "w\<lparr>recovery_codes := filter (\<lambda>x. (rc_user_id x, rc_code_hash x) \<noteq> (i, rc_code_hash c)) (recovery_codes w)\<rparr>"
  from Some assms have run: "ok" "w' = ?w" by (auto simp: delete_recovery_code_def)
  let ?only = "\<lambda>h. \<forall>x\<in>set (recovery_codes w). rc_user_id x = i \<and> verify code (rc_code_hash x) \<longrightarrow> rc_code_hash x = h"
  have again: "delete_recovery_code verify i code ?w = (Inr False, ?w)" if "?only (rc_code_hash c)"
  proof -
    from that have "find (\<lambda>x. rc_user_id x = i \<and> verify code (rc_code_hash x)) (recovery_codes ?w) = None"
      by (simp add: find_None_iff) blast
    then show ?thesis by (simp add: delete_recovery_code_def)
  qed
  have "ok \<longleftrightarrow> (\<exists>c\<in>set (recovery_codes w). rc_user_id c = i \<and> verify code (rc_code_hash c))"
    using c run(1) by blast
  moreover have "\<exists>h. verify code h \<and> w' = w\<lparr>recovery_codes :=
         filter (\<lambda>c. (rc_user_id c, rc_code_hash c) \<noteq> (i, h)) (recovery_codes w)\<rparr> \<and>
         (?only h \<longrightarrow> delete_recovery_code verify i code w' = (Inr False, w'))"
    unfolding run(2) by (intro exI [of _ "rc_code_hash c"] conjI impI c(3) refl again)
  ultimately show ?thesis unfolding if_P [OF run(1)] by (rule conjI)
qed

lemma recovery_code_once_witness:
  "let w = (empty_world 5 50)\<lparr>recovery_codes := [\<lparr>rc_user_id = 2, rc_code_hash = ''a''\<rparr>, \<lparr>rc_user_id = 2, rc_code_hash = ''b''\<rparr>]\<rparr>
   in \<exists>w'. delete_recovery_code (=) 2 ''b'' w = (Inr True, w') \<and> recovery_codes w' = [\<lparr>rc_user_id = 2, rc_code_hash = ''a''\<rparr>] \<and>
        delete_recovery_code (=) 2 ''b'' w' = (Inr False, w')"
proof -
  let ?w = "(empty_world 5 50)\<lparr>recovery_codes := [\<lparr>rc_user_id = 2, rc_code_hash = ''a''\<rparr>, \<lparr>rc_user_id = 2, rc_code_hash = ''b''\<rparr>]\<rparr>"
  obtain w' where run: "delete_recovery_code (=) 2 ''b'' ?w = (Inr True, w')"
    by (simp add: delete_recovery_code_def)
  from recovery_code_once [OF run] obtain h where "h = ''b''" "w' = ?w\<lparr>recovery_codes :=
      filter (\<lambda>c. (rc_user_id c, rc_code_hash c) \<noteq> (2, h)) (recovery_codes ?w)\<rparr>"
    and again: "(\<forall>c\<in>set (recovery_codes ?w). rc_user_id c = 2 \<and> ''b'' = rc_code_hash c \<longrightarrow> rc_code_hash c = h) \<longrightarrow>
      delete_recovery_code (=) 2 ''b'' w' = (Inr False, w')" by (simp only: if_True) blast
  then have "recovery_codes w' = [\<lparr>rc_user_id = 2, rc_code_hash = ''a''\<rparr>]"
    "delete_recovery_code (=) 2 ''b'' w' = (Inr False, w')" by simp_all
  with run show ?thesis unfolding Let_def by blast
qed

end
