(* ===== verification/Invitations.thy ===== *)
theory Invitations
  imports Workspace_Repository User_Repository
begin

section \<open>Invitations\<close>

text \<open>
  \<open>InvitationRepository\<close> of \<open>workspaces/invitation_repository.py\<close> and \<open>InvitationService\<close> of
  \<open>workspaces/invitation_service.py\<close>. The state token in the link of an invitation is a JSON web token: its
  codec is a parameter, which encodes the invitation's id with the time when the token expires, and decodes a
  token at a given time.
\<close>

subsection \<open>The repository\<close>

definition create_invitation :: "uuid \<Rightarrow> string \<Rightarrow> roles \<Rightarrow> invitation io" where
  "create_invitation workspace_id email role =
     bind (gets (\<lambda>w. filter (\<lambda>i. i_organization_id i = workspace_id \<and> i_user_email i = email) (invites w))) (\<lambda>rows.
     bind (lift (case rows of [] \<Rightarrow> Inr None | [i] \<Rightarrow> Inr (Some i) | _ \<Rightarrow> Inl MultipleResultsFound)) (\<lambda>existing.
     case existing of Some i \<Rightarrow> ret (invite_to_model i)
     | None \<Rightarrow>
         bind (get_workspace workspace_id) (\<lambda>workspace.
         case workspace of None \<Rightarrow> raise ResourceNotFound
         | Some ws \<Rightarrow>
             bind (user_get_by_email email) (\<lambda>user.
             if (case user of None \<Rightarrow> False | Some u \<Rightarrow> u_id u \<in> set (all_users ws)) then raise WrongState
             else
               bind uuid4 (\<lambda>i. bind utc (\<lambda>now.
               let invite = \<lparr>i_id = i, i_organization_id = workspace_id, i_user_email = email, i_role = role,
                     i_expires_at = now + td_days 7, i_accepted_at = None\<rparr> in
               bind (modify (\<lambda>w. w\<lparr>invites := invites w @ [invite]\<rparr>)) (\<lambda>_.
               ret (invite_to_model invite))))))))"

definition get_invitation :: "uuid \<Rightarrow> invitation option io" where
  "get_invitation i = gets (\<lambda>w. map_option invite_to_model (tfind i_id i (invites w)))"

definition get_invitation_by_email :: "string \<Rightarrow> invitation option io" where
  "get_invitation_by_email email =
     bind (gets (\<lambda>w. filter (\<lambda>i. i_user_email i = email) (invites w))) (\<lambda>rows.
     lift (case rows of [] \<Rightarrow> Inr None | [i] \<Rightarrow> Inr (Some (invite_to_model i)) | _ \<Rightarrow> Inl MultipleResultsFound))"

definition list_invitations :: "uuid \<Rightarrow> invitation list io" where
  "list_invitations workspace_id =
     gets (\<lambda>w. map invite_to_model (filter (\<lambda>i. i_organization_id i = workspace_id) (invites w)))"

definition invite_row_of :: "uuid \<Rightarrow> invitation \<Rightarrow> invite_row" where
  "invite_row_of i v = \<lparr>i_id = i, i_organization_id = inv_workspace_id v, i_user_email = inv_email v,
     i_role = inv_role v, i_expires_at = inv_expires_at v, i_accepted_at = inv_accepted_at v\<rparr>"

definition update_invitation :: "uuid \<Rightarrow> (invitation \<Rightarrow> invitation) \<Rightarrow> invitation io" where
  "update_invitation i update_fn =
     bind (gets (\<lambda>w. tfind i_id i (invites w))) (\<lambda>stored_invite.
     case stored_invite of None \<Rightarrow> raise ResourceNotFound
     | Some r \<Rightarrow>
         let invite = update_fn (invite_to_model r) in
         if invite_to_model r = invite then ret invite
         else
           bind (modify (\<lambda>w. w\<lparr>invites := tput i_id (invite_row_of i invite) (invites w)\<rparr>)) (\<lambda>_.
           ret (invite_to_model (invite_row_of i invite))))"

definition delete_invitation :: "uuid \<Rightarrow> uuid \<Rightarrow> unit io" where
  "delete_invitation workspace_id i =
     bind (gets (\<lambda>w. tfind i_id i (invites w))) (\<lambda>invite.
     case invite of None \<Rightarrow> ret ()
     | Some r \<Rightarrow>
         if i_organization_id r \<noteq> workspace_id
         then raise (NotAllowed ''Invitation does not belong to workspace'')
         else modify (\<lambda>w. w\<lparr>invites := tdel i_id i (invites w)\<rparr>))"

subsection \<open>The service\<close>

datatype token_state =
    ValidToken uuid
  | ExpiredSignatureError
  | DecodeError
  | OtherTokenError

record token_codec =
  generate_state_token :: "uuid \<Rightarrow> datetime \<Rightarrow> string"
  decode_jwt :: "datetime \<Rightarrow> string \<Rightarrow> token_state"

definition seats_left :: "tier_setting \<Rightarrow> workspace \<Rightarrow> bool" where
  "seats_left settings ws \<longleftrightarrow>
     \<not> (case limit_of (seats_max settings) of None \<Rightarrow> False | Some n \<Rightarrow> n \<le> length (all_users ws))"

definition invite_user :: "token_codec \<Rightarrow> uuid \<Rightarrow> user \<Rightarrow> string \<Rightarrow> roles \<Rightarrow> (invitation \<times> string) io" where
  "invite_user codec workspace_id inviter invitee_email role =
     bind (get_workspace workspace_id) (\<lambda>workspace.
     case workspace of None \<Rightarrow> raise ResourceNotFound
     | Some ws \<Rightarrow>
         bind utc (\<lambda>now.
         let settings = product_tier_settings (current_product_tier now ws) in
         if ws_payment_on_hold_since ws \<noteq> None then raise (NotAllowed ''payment_on_hold'')
         else if \<not> seats_left settings ws then raise (NotAllowed ''user_limit_reached'')
         else
           bind (create_invitation workspace_id invitee_email role) (\<lambda>invitation.
           let token = generate_state_token codec (inv_id invitation) (now + td_days 7) in
           bind (send_mail (MailTo invitee_email (Invite (u_email inviter) (inv_id invitation) invitee_email))) (\<lambda>_.
           ret (invitation, token)))))"

datatype accept_result =
    Accepted invitation
  | InvitationNotFound
  | NoFreeSeats
  | WorkspaceNotFound

definition accept_invitation :: "token_codec \<Rightarrow> string \<Rightarrow> accept_result io" where
  "accept_invitation codec token =
     bind utc (\<lambda>now.
     bind (lift (case decode_jwt codec now token of ValidToken i \<Rightarrow> Inr i
       | ExpiredSignatureError \<Rightarrow> Inl (NotAllowed ''Invalid state token.'')
       | DecodeError \<Rightarrow> Inl (NotAllowed ''Invalid state token.'')
       | OtherTokenError \<Rightarrow> Inl ExternalError)) (\<lambda>invitation_id.
     bind (get_invitation invitation_id) (\<lambda>found.
     case found of None \<Rightarrow> ret InvitationNotFound
     | Some invitation \<Rightarrow>
         bind (get_workspace (inv_workspace_id invitation)) (\<lambda>workspace.
         case workspace of None \<Rightarrow> ret WorkspaceNotFound
         | Some ws \<Rightarrow>
             let settings = product_tier_settings (current_product_tier now ws) in
             if ws_payment_on_hold_since ws \<noteq> None \<or> \<not> seats_left settings ws then ret NoFreeSeats
             else
               bind (update_invitation invitation_id (\<lambda>i. i\<lparr>inv_accepted_at := Some now\<rparr>)) (\<lambda>updated.
               bind (user_get_by_email (inv_email invitation)) (\<lambda>user.
               bind (case user of None \<Rightarrow> ret ()
                 | Some u \<Rightarrow>
                     seq (add_to_workspace (inv_workspace_id invitation) (u_id u) (inv_role invitation))
                         (delete_invitation (ws_id ws) invitation_id)) (\<lambda>_.
               bind (publish (InvitationAccepted (inv_workspace_id invitation) (map_option u_id user)
                 (inv_email invitation))) (\<lambda>_.
               ret (Accepted updated)))))))))"

definition revoke_invitation :: "uuid \<Rightarrow> uuid \<Rightarrow> unit io" where
  "revoke_invitation workspace_id invitation_id = delete_invitation workspace_id invitation_id"

subsection \<open>Accepting\<close>

abbreviation accepted :: "datetime \<Rightarrow> invite_row \<Rightarrow> invite_row" where
  "accepted now row \<equiv> row\<lparr>i_accepted_at := Some now\<rparr>"

lemma update_invitation_run:
  assumes "tfind i_id i (invites w) = Some row"
  shows "update_invitation i (\<lambda>v. v\<lparr>inv_accepted_at := Some now\<rparr>) w =
    (Inr (invite_to_model (accepted now row)), w\<lparr>invites := tput i_id (accepted now row) (invites w)\<rparr>)"
proof -
  have row: "invite_row_of i ((invite_to_model row)\<lparr>inv_accepted_at := Some now\<rparr>) = accepted now row"
    using tfind_Some [OF assms] by (simp add: invite_row_of_def invite_to_model_def)
  have m: "(invite_to_model row)\<lparr>inv_accepted_at := Some now\<rparr> = invite_to_model (accepted now row)"
    by (simp add: invite_to_model_def)
  show ?thesis
  proof (cases "invite_to_model row = invite_to_model (accepted now row)")
    case True
    then have "i_accepted_at row = Some now" by (simp add: invite_to_model_def)
    then have "accepted now row = row" by simp
    with True assms tfind_Some [OF assms] show ?thesis
      by (simp add: update_invitation_def m tput_same)
  next
    case False
    with assms row show ?thesis by (simp add: update_invitation_def m)
  qed
qed

lemma add_to_workspace_run:
  "\<exists>w'. add_to_workspace ws u role w = (Inr (), w') \<and> invites w' = invites w \<and> users w' = users w \<and>
     set (members w') = insert (ws, u) (set (members w)) \<and> orgs w' = orgs w \<and> clock w' = clock w \<and>
     ((ws, u) \<notin> set (members w) \<longrightarrow> roles_of u ws w' = roles_of u ws w OR role)"
proof (cases "(ws, u) \<in> set (members w)")
  case True
  then show ?thesis by (simp add: add_to_workspace_def insert_absorb)
next
  case False
  let ?m = "w\<lparr>members := members w @ [(ws, u)]\<rparr>"
  obtain row where row: "add_roles u ws role False ?m =
      (Inr (role_to_model row), ?m\<lparr>role_rows := tput role_key row (role_rows ?m)\<rparr>)"
    using add_roles_run [of u ws role False ?m] by blast
  have "roles_of u ws (snd (add_roles u ws role False ?m)) = roles_of u ws w OR role"
    unfolding roles_of_add by (simp add: roles_of_def)
  with row False show ?thesis
    by (simp add: add_to_workspace_def run_defs Let_def) (simp add: roles_of_def)
qed

lemma accept_run:
  assumes "decode_jwt codec (clock w) token = ValidToken i" and "tfind i_id i (invites w) = Some row"
    and "get_workspace (i_organization_id row) w = (Inr (Some ws), w)" and "ws_id ws = i_organization_id row"
    and "ws_payment_on_hold_since ws = None" and "seats_left (product_tier_settings (current_product_tier (clock w) ws)) ws"
    and "user_get_by_email (i_user_email row) w = (Inr user, w)"
  shows "\<exists>w'. accept_invitation codec token w = (Inr (Accepted (invite_to_model (accepted (clock w) row))), w') \<and>
    (case user of
       None \<Rightarrow> w' = w\<lparr>invites := tput i_id (accepted (clock w) row) (invites w),
         events := events w @ [InvitationAccepted (i_organization_id row) None (i_user_email row)]\<rparr>
     | Some u \<Rightarrow> set (members w') = insert (i_organization_id row, u_id u) (set (members w)) \<and>
         tfind i_id i (invites w') = None \<and> users w' = users w \<and> orgs w' = orgs w \<and> clock w' = clock w \<and>
         ((i_organization_id row, u_id u) \<notin> set (members w) \<longrightarrow>
           roles_of (u_id u) (i_organization_id row) w' = roles_of (u_id u) (i_organization_id row) w OR i_role row) \<and>
         last (events w') = InvitationAccepted (i_organization_id row) (Some (u_id u)) (i_user_email row))"
proof -
  let ?w = "w\<lparr>invites := tput i_id (accepted (clock w) row) (invites w)\<rparr>"
  have id: "i_id row = i" using tfind_Some [OF assms(2)] by simp
  have found: "get_invitation i w = (Inr (Some (invite_to_model row)), w)"
    using assms(2) by (simp add: get_invitation_def)
  have user: "user_get_by_email (i_user_email row) ?w = (Inr user, ?w)"
    using assms(7) by (simp add: user_get_by_email_def load_user_def cong: map_cong)
  have sel: "inv_workspace_id (invite_to_model row) = i_organization_id row"
    "inv_email (invite_to_model row) = i_user_email row" "inv_role (invite_to_model row) = i_role row" by (simp_all add: invite_to_model_def)
  have go: "accept_invitation codec token w =
      bind (case user of None \<Rightarrow> ret ()
        | Some u \<Rightarrow> seq (add_to_workspace (i_organization_id row) (u_id u) (i_role row)) (delete_invitation (ws_id ws) i)) (\<lambda>_.
      bind (publish (InvitationAccepted (i_organization_id row) (map_option u_id user) (i_user_email row))) (\<lambda>_.
      ret (Accepted (invite_to_model (accepted (clock w) row))))) ?w"
    using assms(1,3,5,6) found user update_invitation_run [OF assms(2), of "clock w"]
    by (simp add: accept_invitation_def sel Let_def cong: option.case_cong)
  show ?thesis
  proof (cases user)
    case None
    with go show ?thesis by simp
  next
    case (Some u)
    obtain w2 where w2: "add_to_workspace (i_organization_id row) (u_id u) (i_role row) ?w = (Inr (), w2)"
      "invites w2 = invites ?w" "set (members w2) = insert (i_organization_id row, u_id u) (set (members w))"
      "users w2 = users w" "orgs w2 = orgs w" "clock w2 = clock w"
      "(i_organization_id row, u_id u) \<notin> set (members w) \<Longrightarrow>
        roles_of (u_id u) (i_organization_id row) w2 = roles_of (u_id u) (i_organization_id row) w OR i_role row"
      using add_to_workspace_run [of "i_organization_id row" "u_id u" "i_role row" ?w] by (auto simp: roles_of_def)
    have "tfind i_id i (invites w2) = Some (accepted (clock w) row)"
      using tfind_tput_same [of i_id "accepted (clock w) row" "invites w"] id w2(2) by simp
    then have "delete_invitation (ws_id ws) i w2 = (Inr (), w2\<lparr>invites := tdel i_id i (invites w2)\<rparr>)"
      by (simp add: delete_invitation_def assms(4))
    with go w2 Some show ?thesis by (simp add: roles_of_def)
  qed
qed

lemma user_get_by_email_same: "snd (user_get_by_email e w) = w"
  by (simp add: user_get_by_email_def)

lemma accept_open:
  assumes run: "accept_invitation codec token w = (Inr result, w')" and token: "decode_jwt codec (clock w) token = ValidToken i"
    and row: "tfind i_id i (invites w) = Some row" and ws: "get_workspace (i_organization_id row) w = (Inr (Some ws), w)"
  shows "(\<forall>v. result \<noteq> Accepted v) \<and> w' = w \<or>
    ws_payment_on_hold_since ws = None \<and> seats_left (product_tier_settings (current_product_tier (clock w) ws)) ws \<and>
    (\<exists>user. user_get_by_email (i_user_email row) w = (Inr user, w))"
proof -
  let ?open = "ws_payment_on_hold_since ws = None \<and> seats_left (product_tier_settings (current_product_tier (clock w) ws)) ws"
  have found: "get_invitation i w = (Inr (Some (invite_to_model row)), w)" using row by (simp add: get_invitation_def)
  have sel: "inv_workspace_id (invite_to_model row) = i_organization_id row" by (simp add: invite_to_model_def)
  obtain m where m: "user_get_by_email (i_user_email row) w = (m, w)" by (metis user_get_by_email_same prod.collapse)
  consider (shut) "\<not> ?open" | (bad) e where ?open "m = Inl e" | (go) user where ?open "m = Inr user"
    by (cases m) blast+
  then show ?thesis
  proof cases
    case shut
    with run token found ws show ?thesis by (auto simp: accept_invitation_def sel Let_def)
  next
    case bad
    let ?w = "w\<lparr>invites := tput i_id (accepted (clock w) row) (invites w)\<rparr>"
    have "user_get_by_email (i_user_email row) ?w = (Inl e, ?w)"
      using m bad(2) by (simp add: user_get_by_email_def load_user_def cong: map_cong)
    with run token found ws bad(1) update_invitation_run [OF row, of "clock w"] show ?thesis
      by (simp add: accept_invitation_def sel Let_def) (simp add: invite_to_model_def)
  qed (use m in blast)
qed

text \<open>
  C23: Accepting an invitation: the token must name a stored invitation of an existing workspace that is
  not on hold and has a free seat, or nothing changes at all; a registered user then is a member and the
  invitation is gone, for anybody else only the acceptance is recorded until the registration.
\<close>

theorem accept_invitation_guarded:
  assumes "accept_invitation codec token w = (Inr result, w')"
  shows "(\<forall>v. result \<noteq> Accepted v) \<and> w' = w \<or>
   (\<exists>i row ws user. result = Accepted (invite_to_model (accepted (clock w) row)) \<and>
     decode_jwt codec (clock w) token = ValidToken i \<and> tfind i_id i (invites w) = Some row \<and>
     get_workspace (i_organization_id row) w = (Inr (Some ws), w) \<and> ws_payment_on_hold_since ws = None \<and>
     (\<forall>n. seats_max (product_tier_settings (current_product_tier (clock w) ws)) = Some n \<longrightarrow> length (all_users ws) < n) \<and>
     user_get_by_email (i_user_email row) w = (Inr user, w) \<and>
     (case user of
        Some u \<Rightarrow> (i_organization_id row, u_id u) \<in> set (members w') \<and> tfind i_id i (invites w') = None
      | None \<Rightarrow> w' = w\<lparr>invites := tput i_id (accepted (clock w) row) (invites w),
          events := events w @ [InvitationAccepted (i_organization_id row) None (i_user_email row)]\<rparr>))"
proof (cases "decode_jwt codec (clock w) token")
  case (ValidToken i)
  show ?thesis
  proof (cases "tfind i_id i (invites w)")
    case None
    with assms ValidToken show ?thesis by (simp add: accept_invitation_def get_invitation_def)
  next
    case (Some row)
    have found: "get_invitation i w = (Inr (Some (invite_to_model row)), w)"
      using Some by (simp add: get_invitation_def)
    have sel: "inv_workspace_id (invite_to_model row) = i_organization_id row" by (simp add: invite_to_model_def)
    obtain g where g: "get_workspace (i_organization_id row) w = (g, w)" by (metis get_workspace_same prod.collapse)
    with assms ValidToken found consider (gone) "g = Inr None" | (there) ws where "g = Inr (Some ws)"
      by (cases g) (auto simp: accept_invitation_def sel split: option.splits)
    then show ?thesis
    proof cases
      case gone
      with assms ValidToken found g show ?thesis by (simp add: accept_invitation_def sel)
    next
      case there
      have id: "ws_id ws = i_organization_id row"
        using g there by (auto simp: get_workspace_run org_to_model_fields(1) dest!: tfind_Some split: option.splits sum.splits)
      from accept_open [OF assms ValidToken Some] g there consider (refused) "(\<forall>v. result \<noteq> Accepted v) \<and> w' = w"
        | (go) user where "ws_payment_on_hold_since ws = None" "seats_left (product_tier_settings (current_product_tier (clock w) ws)) ws"
          "user_get_by_email (i_user_email row) w = (Inr user, w)"
        by blast
      then show ?thesis
      proof cases
        case go
        from accept_run [OF ValidToken Some _ id] g there go assms
        have "result = Accepted (invite_to_model (accepted (clock w) row)) \<and>
          (case user of
            Some u \<Rightarrow> (i_organization_id row, u_id u) \<in> set (members w') \<and> tfind i_id i (invites w') = None
          | None \<Rightarrow> w' = w\<lparr>invites := tput i_id (accepted (clock w) row) (invites w),
              events := events w @ [InvitationAccepted (i_organization_id row) None (i_user_email row)]\<rparr>)"
          by (fastforce split: option.splits)
        moreover have "length (all_users ws) < n"
          if "seats_max (product_tier_settings (current_product_tier (clock w) ws)) = Some n" for n
          using go(2) that seats_max_pos [OF that] by (auto simp: seats_left_def limit_of_def)
        ultimately show ?thesis using ValidToken Some g there go by blast
      qed blast
    qed
  qed
qed (use assms in \<open>simp_all add: accept_invitation_def\<close>)

definition sample_codec :: token_codec where
  "sample_codec = \<lparr>generate_state_token = (\<lambda>i t. replicate i CHR ''x''),
     decode_jwt = (\<lambda>now s. ValidToken (length s))\<rparr>"

definition sample_invite :: invite_row where
  "sample_invite = \<lparr>i_id = 3, i_organization_id = 7, i_user_email = ''ann@example.com'', i_role = workspace_member,
     i_expires_at = 100, i_accepted_at = None\<rparr>"

definition invited_world :: world where
  "invited_world = (empty_world 5 50)\<lparr>orgs := [sample_org\<lparr>o_tier := ''Plus''\<rparr>], users := [sample_user], invites := [sample_invite]\<rparr>"

lemma accept_invitation_guarded_witness:
  "\<exists>v w'. accept_invitation sample_codec ''xxx'' invited_world = (Inr (Accepted v), w') \<and> (7, 2) \<in> set (members w') \<and>
     tfind i_id 3 (invites w') = None"
proof -
  have d: "decode_jwt sample_codec (clock invited_world) ''xxx'' = ValidToken 3" by (simp add: sample_codec_def)
  have f: "tfind i_id 3 (invites invited_world) = Some sample_invite" by (simp add: invited_world_def sample_invite_def)
  have "\<exists>ws. get_workspace 7 invited_world = (Inr (Some ws), invited_world) \<and> ws_id ws = 7 \<and>
      ws_payment_on_hold_since ws = None \<and> seats_left (product_tier_settings (current_product_tier (clock invited_world) ws)) ws"
    by (simp add: get_workspace_run invited_world_def empty_world_def sample_org_def org_to_model_def tier_from_str_def
        members_of_def current_product_tier_def seats_left_def limit_of_def all_users_def)
  then obtain ws where ws: "get_workspace 7 invited_world = (Inr (Some ws), invited_world)" "ws_id ws = 7"
    "ws_payment_on_hold_since ws = None" "seats_left (product_tier_settings (current_product_tier (clock invited_world) ws)) ws"
    by blast
  have org: "i_organization_id sample_invite = 7" by (simp add: sample_invite_def)
  have "lower ''Ann@example.com'' = ''ann@example.com''" "lower ''ann@example.com'' = ''ann@example.com''"
    by code_simp+
  then have u: "\<exists>u. user_get_by_email (i_user_email sample_invite) invited_world = (Inr (Some u), invited_world) \<and> u_id u = 2"
    by (simp add: user_get_by_email_def invited_world_def empty_world_def sample_user_def sample_invite_def load_user_def
        scalar_unique_def)
  then obtain u where u: "user_get_by_email (i_user_email sample_invite) invited_world = (Inr (Some u), invited_world)" "u_id u = 2"
    by blast
  from accept_run [OF d f _ _ ws(3,4) u(1)] ws(1,2) org obtain v w' where
    run: "accept_invitation sample_codec ''xxx'' invited_world = (Inr (Accepted v), w')" by auto
  from accept_invitation_guarded [OF run] d f u org show ?thesis using run by auto
qed

end
