(* ===== verification/User_Manager.thy ===== *)
theory User_Manager
  imports Invitations
begin

section \<open>Registration, login and the second factor\<close>

text \<open>
  \<open>UserManager\<close> of \<open>auth/user_manager.py\<close>. The base class of \<open>fastapi_users\<close>, the password hash, the
  one-time passwords and the random values are parameters; an e-mail address is verified by the base
  class, which sends the message and later calls \<open>on_after_verify\<close>.
\<close>

record auth_env =
  au_request_verify :: "user \<Rightarrow> unit io"
  au_base_update :: "user \<Rightarrow> user io"
    \<comment> \<open>\<open>update\<close> of the base class with the values of the request\<close>
  au_new_password_hash :: string
  au_verify_password :: "string \<Rightarrow> string \<Rightarrow> bool"
    \<comment> \<open>password, hash\<close>
  au_hash :: "string \<Rightarrow> string"
  au_totp :: "string \<Rightarrow> string \<Rightarrow> bool"
    \<comment> \<open>secret, one-time password\<close>
  au_new_secret :: string
  au_new_codes :: "string list"
  au_db_access :: "uuid \<Rightarrow> exn + graph_database_access"

subsection \<open>The workspace of a new user\<close>

text \<open>\<open>re.sub("[^a-zA-Z0-9-]", "-", user.email)\<close>\<close>

definition slug_char :: "char \<Rightarrow> char" where
  "slug_char c = (let n = of_char c :: nat in
     if 97 \<le> n \<and> n \<le> 122 \<or> 65 \<le> n \<and> n \<le> 90 \<or> 48 \<le> n \<and> n \<le> 57 \<or> n = 45 then c else CHR ''-'')"

definition create_default_workspace :: "auth_env \<Rightarrow> user \<Rightarrow> workspace io" where
  "create_default_workspace env u = create_workspace (au_db_access env) (u_email u) (map slug_char (u_email u)) u"

definition register_workspace :: "auth_env \<Rightarrow> user \<Rightarrow> unit io" where
  "register_workspace env u =
     bind (get_invitation_by_email (u_email u)) (\<lambda>pending_invitation.
     bind (case pending_invitation of
         Some v \<Rightarrow>
           if inv_accepted_at v \<noteq> None then
             bind (get_workspace (inv_workspace_id v)) (\<lambda>found.
             bind (case found of
                 Some ws \<Rightarrow> bind (add_to_workspace (ws_id ws) (u_id u) (inv_role v)) (\<lambda>_. ret ws)
               | None \<Rightarrow> create_default_workspace env u) (\<lambda>ws.
             bind (delete_invitation (ws_id ws) (inv_id v)) (\<lambda>_. ret ws)))
           else create_default_workspace env u
       | None \<Rightarrow> create_default_workspace env u) (\<lambda>workspace.
     publish (UserRegistered (u_id u) (u_email u) (ws_id workspace))))"

definition on_after_register :: "auth_env \<Rightarrow> user \<Rightarrow> unit io" where
  "on_after_register env u = (if is_verified u then register_workspace env u else au_request_verify env u)"

definition on_after_verify :: "auth_env \<Rightarrow> user \<Rightarrow> unit io" where
  "on_after_verify env u = register_workspace env u"

definition on_after_login :: "user \<Rightarrow> unit io" where
  "on_after_login u =
     bind (publish (UserLoggedIn (u_id u) (u_email u))) (\<lambda>_.
     bind utc (\<lambda>now. update_partial (u_id u) (Some now) (Some now) None))"

subsection \<open>Identity providers\<close>

definition user_of :: "user option io \<Rightarrow> user io" where
  "user_of m = bind m (\<lambda>u. case u of None \<Rightarrow> raise UserNotExists | Some u \<Rightarrow> ret u)"

definition oauth_dict :: "oauth_data \<Rightarrow> oauth_data" where
  "oauth_dict d = d\<lparr>od_username := (if str_true (od_username d) then od_username d else None)\<rparr>"

text \<open>Every account of the user that matches is updated; they are those loaded with the user.\<close>

fun update_links :: "uuid \<Rightarrow> oauth_data \<Rightarrow> oauth_account_row list \<Rightarrow> user \<Rightarrow> user io" where
  "update_links i d [] u = ret u"
| "update_links i d (a # rest) u =
     (if oa_account_id a = od_account_id d \<and> oa_oauth_name a = od_oauth_name d
      then bind (update_oauth_account i (oa_id a) d) (\<lambda>u'. update_links i d rest u')
      else update_links i d rest u)"

definition oauth_callback :: "auth_env \<Rightarrow> oauth_data \<Rightarrow> bool \<Rightarrow> bool \<Rightarrow> user io" where
  "oauth_callback env data associate_by_email is_verified_by_default =
     (let d = oauth_dict data in
      bind (user_get_by_oauth_account (od_oauth_name d) (od_account_id d)) (\<lambda>found.
      case found of
        Some u \<Rightarrow>
          bind (gets (\<lambda>w. filter (\<lambda>a. oa_user_id a = u_id u) (oauth_accounts w))) (\<lambda>links.
          update_links (u_id u) d links u)
      | None \<Rightarrow>
          bind (user_get_by_email (od_account_email d)) (\<lambda>same_email.
          case same_email of
            Some u \<Rightarrow> if \<not> associate_by_email then raise UserAlreadyExists else add_oauth_account (u_id u) d
          | None \<Rightarrow>
              bind (user_create (od_account_email d) (au_new_password_hash env) is_verified_by_default) (\<lambda>u.
              bind (add_oauth_account (u_id u) d) (\<lambda>u'.
              bind (on_after_register env u') (\<lambda>_. ret u'))))))"

definition oauth_associate_callback :: "user \<Rightarrow> oauth_data \<Rightarrow> user io" where
  "oauth_associate_callback u data = add_oauth_account (u_id u) (oauth_dict data)"

subsection \<open>The second factor\<close>

definition recreate_mfa :: "auth_env \<Rightarrow> user \<Rightarrow> (string \<times> string list) io" where
  "recreate_mfa env u =
     (if is_mfa_active u then raise AssertionError
      else
        bind (recreate_otp_secret (u_id u) (au_new_secret env) False (map (au_hash env) (au_new_codes env))) (\<lambda>_.
        ret (au_new_secret env, au_new_codes env)))"

definition enable_mfa :: "auth_env \<Rightarrow> user \<Rightarrow> string \<Rightarrow> bool io" where
  "enable_mfa env u otp =
     (if is_mfa_active u then raise AssertionError
      else if str_true (otp_secret u) \<and> \<not> au_totp env (the (otp_secret u)) otp then ret False
      else bind (user_update (u_id u) (\<lambda>u. u\<lparr>is_mfa_active := True\<rparr>)) (\<lambda>_. ret True))"

definition check_otp :: "auth_env \<Rightarrow> user \<Rightarrow> string option \<Rightarrow> string option \<Rightarrow> bool io" where
  "check_otp env u otp recovery_code =
     (if \<not> is_mfa_active u then ret True
      else if str_true (otp_secret u) \<and> str_true otp then ret (au_totp env (the (otp_secret u)) (the otp))
      else if str_true recovery_code
      then delete_recovery_code (au_verify_password env) (u_id u) (the recovery_code)
      else ret False)"

definition disable_mfa :: "auth_env \<Rightarrow> user \<Rightarrow> string option \<Rightarrow> string option \<Rightarrow> bool io" where
  "disable_mfa env u otp recovery_code =
     (if \<not> is_mfa_active u then ret True
      else bind (check_otp env u otp recovery_code) (\<lambda>ok.
        if ok then bind (user_update (u_id u) (\<lambda>u. u\<lparr>is_mfa_active := False, otp_secret := None\<rparr>)) (\<lambda>_. ret True)
        else ret False))"

subsection \<open>Passwords\<close>

definition in_range :: "nat \<Rightarrow> nat \<Rightarrow> char \<Rightarrow> bool" where
  "in_range a b c \<longleftrightarrow> a \<le> (of_char c :: nat) \<and> (of_char c :: nat) \<le> b"

definition validate_password :: "string \<Rightarrow> exn + unit" where
  "validate_password password =
     (if length password < 16 then Inl (InvalidPassword ''too short'')
      else if \<not> list_ex (in_range 65 90) password then Inl (InvalidPassword ''no uppercase letter'')
      else if \<not> list_ex (in_range 97 122) password then Inl (InvalidPassword ''no lowercase letter'')
      else if \<not> list_ex (in_range 48 57) password then Inl (InvalidPassword ''no digit'')
      else Inr ())"

text \<open>\<open>password\<close> and \<open>current_password\<close> are those of the request.\<close>

definition manager_update :: "auth_env \<Rightarrow> string option \<Rightarrow> string option \<Rightarrow> user \<Rightarrow> user io" where
  "manager_update env password current_password u =
     (if str_true password then
        (if \<not> str_true current_password then raise (InvalidPassword ''current password is required'')
         else if \<not> au_verify_password env (the current_password) (hashed_password u)
         then raise (InvalidPassword ''current password is incorrect'')
         else au_base_update env u)
      else au_base_update env u)"

subsection \<open>The second factor protects itself\<close>

lemma delete_recovery_code_cases:
  "delete_recovery_code verify i code w = (Inr False, w) \<or>
   (\<exists>c\<in>set (recovery_codes w). rc_user_id c = i \<and> verify code (rc_code_hash c) \<and>
     delete_recovery_code verify i code w = (Inr True, w\<lparr>recovery_codes :=
       filter (\<lambda>x. (rc_user_id x, rc_code_hash x) \<noteq> (i, rc_code_hash c)) (recovery_codes w)\<rparr>))"
proof (cases "find (\<lambda>c. rc_user_id c = i \<and> verify code (rc_code_hash c)) (recovery_codes w)")
  case None
  then show ?thesis by (simp add: delete_recovery_code_def)
next
  case (Some c)
  then have "c \<in> set (recovery_codes w)" "rc_user_id c = i" "verify code (rc_code_hash c)"
    by (metis (mono_tags, lifting) find_Some_iff nth_mem)+
  with Some show ?thesis by (auto simp: delete_recovery_code_def)
qed

text \<open>
  C18: The second factor is switched off only by a second factor: for a user with a second factor the call
  answers true only after a valid one-time password, or after consuming a recovery code of this user; any
  other answer leaves the state as it was.
\<close>

theorem mfa_disabled_by_factor:
  assumes "is_mfa_active u" and "disable_mfa env u otp code w = (Inr ok, w')"
  shows "(ok \<longrightarrow>
      (\<exists>secret p. otp_secret u = Some secret \<and> secret \<noteq> [] \<and> otp = Some p \<and> au_totp env secret p) \<or>
      (\<exists>c\<in>set (recovery_codes w). \<exists>k. code = Some k \<and> rc_user_id c = u_id u \<and>
        au_verify_password env k (rc_code_hash c) \<and> c \<notin> set (recovery_codes w'))) \<and>
    (\<not> ok \<longrightarrow> w' = w)"
proof -
  have upd: "\<exists>v. user_update i f x = (Inl v, x) \<or> (\<exists>us. user_update i f x = (Inr v', x\<lparr>users := us\<rparr>))"
    if "user_update i f x = (Inr v', x')" for i f x v' x'
    using that by (auto simp: user_update_def split: option.splits)
  have keep: "recovery_codes x' = recovery_codes x" if "user_update i f x = (r, x')" for i f x r x'
    using that by (auto simp: user_update_def split: option.splits)
  consider (otp) secret p where "otp_secret u = Some secret" "secret \<noteq> []" "otp = Some p" "p \<noteq> []"
    | (code) k where "\<not> (str_true (otp_secret u) \<and> str_true otp)" "code = Some k" "k \<noteq> []"
    | (none) "\<not> (str_true (otp_secret u) \<and> str_true otp)" "\<not> str_true code"
    by (cases "otp_secret u"; cases otp; cases code) auto
  then show ?thesis
  proof cases
    case otp
    with assms show ?thesis
      by (cases "au_totp env secret p") (auto simp: disable_mfa_def check_otp_def bind_def split: prod.splits sum.splits)
  next
    case code
    with assms have run: "bind (delete_recovery_code (au_verify_password env) (u_id u) k) (\<lambda>ok.
        if ok then bind (user_update (u_id u) (\<lambda>u. u\<lparr>is_mfa_active := False, otp_secret := None\<rparr>)) (\<lambda>_. ret True)
        else ret False) w = (Inr ok, w')" by (simp add: disable_mfa_def check_otp_def)
    from delete_recovery_code_cases [of "au_verify_password env" "u_id u" k w] show ?thesis
    proof
      assume "delete_recovery_code (au_verify_password env) (u_id u) k w = (Inr False, w)"
      with run show ?thesis by (auto simp: bind_def)
    next
      assume "\<exists>c\<in>set (recovery_codes w). rc_user_id c = u_id u \<and> au_verify_password env k (rc_code_hash c) \<and>
        delete_recovery_code (au_verify_password env) (u_id u) k w = (Inr True, w\<lparr>recovery_codes :=
          filter (\<lambda>x. (rc_user_id x, rc_code_hash x) \<noteq> (u_id u, rc_code_hash c)) (recovery_codes w)\<rparr>)"
      then obtain c where c: "c \<in> set (recovery_codes w)" "rc_user_id c = u_id u"
        "au_verify_password env k (rc_code_hash c)"
        and del: "delete_recovery_code (au_verify_password env) (u_id u) k w = (Inr True, w\<lparr>recovery_codes :=
          filter (\<lambda>x. (rc_user_id x, rc_code_hash x) \<noteq> (u_id u, rc_code_hash c)) (recovery_codes w)\<rparr>)" by blast
      let ?w = "w\<lparr>recovery_codes :=
          filter (\<lambda>x. (rc_user_id x, rc_code_hash x) \<noteq> (u_id u, rc_code_hash c)) (recovery_codes w)\<rparr>"
      obtain r x where upd: "user_update (u_id u) (\<lambda>u. u\<lparr>is_mfa_active := False, otp_secret := None\<rparr>) ?w = (r, x)"
        by fastforce
      have "ok" "recovery_codes w' = recovery_codes ?w"
        using run del upd keep [OF upd] by (auto simp: bind_def split: sum.splits)
      then have "c \<notin> set (recovery_codes w')" using c(2) by simp
      with c code(2) \<open>ok\<close> show ?thesis by blast
    qed
  next
    case none
    with assms show ?thesis by (auto simp: disable_mfa_def check_otp_def)
  qed
qed

definition sample_auth :: auth_env where
  "sample_auth = \<lparr>au_request_verify = (\<lambda>u. send_mail (MailTo (u_email u) (VerifyEmail (u_email u)))), au_base_update = ret,
     au_new_password_hash = ''h'', au_verify_password = (=), au_hash = (\<lambda>s. s), au_totp = (=),
     au_new_secret = ''new'', au_new_codes = [''c1'', ''c2''], au_db_access = (\<lambda>_. Inl ExternalError)\<rparr>"

lemma mfa_disabled_by_factor_witness:
  "let w = (empty_world 5 50)\<lparr>users := [sample_user], recovery_codes := [\<lparr>rc_user_id = 2, rc_code_hash = ''b''\<rparr>]\<rparr> in
   \<exists>w'. disable_mfa sample_auth sample_user None (Some ''b'') w = (Inr True, w') \<and> recovery_codes w' = []"
proof -
  let ?w = "(empty_world 5 50)\<lparr>users := [sample_user], recovery_codes := [\<lparr>rc_user_id = 2, rc_code_hash = ''b''\<rparr>]\<rparr>"
  have active: "is_mfa_active sample_user" by (simp add: sample_user_def)
  obtain w' where run: "disable_mfa sample_auth sample_user None (Some ''b'') ?w = (Inr True, w')" and "recovery_codes w' = []"
    by (simp add: disable_mfa_def check_otp_def delete_recovery_code_def user_update_def sample_auth_def sample_user_def
        empty_world_def)
  with mfa_disabled_by_factor [OF active run] show ?thesis by (auto simp: Let_def)
qed

text \<open>
  A second factor without a secret locks its user out: \<open>enable_mfa\<close> of a user who never set one up
  accepts any one-time password, and from then on no one-time password at all is accepted.
\<close>

theorem mfa_without_secret:
  assumes "\<not> is_mfa_active u" and "otp_secret u = None" and "tfind u_id (u_id u) (users w) = Some u"
  shows "\<exists>w' u'. enable_mfa env u otp w = (Inr True, w') \<and> user_get (u_id u) w' = (Inr (Some u'), w') \<and>
    is_mfa_active u' \<and> (\<forall>p w. check_otp env u' p None w = (Inr False, w))"
proof -
  let ?u = "u\<lparr>is_mfa_active := True\<rparr>"
  let ?w = "w\<lparr>users := tput u_id ?u (users w)\<rparr>"
  have "enable_mfa env u otp w = (Inr True, ?w)"
    using assms by (simp add: enable_mfa_def user_update_def)
  moreover have "user_get (u_id u) ?w = (Inr (Some (load_user ?w ?u)), ?w)"
    using tfind_tput_same [of u_id ?u "users w"] by (simp add: user_get_def)
  moreover have "check_otp env (load_user ?w ?u) p None v = (Inr False, v)" for p v
    using assms(2) by (simp add: check_otp_def load_user_def)
  ultimately show ?thesis by (intro exI conjI allI) (assumption | simp add: load_user_def)+
qed

lemma mfa_without_secret_witness:
  "let u = sample_user\<lparr>is_mfa_active := False, otp_secret := None\<rparr>; w = (empty_world 5 50)\<lparr>users := [u]\<rparr> in
   \<exists>w' u'. enable_mfa sample_auth u ''anything'' w = (Inr True, w') \<and> is_mfa_active u' \<and>
     (\<forall>p w. check_otp sample_auth u' p None w = (Inr False, w))"
proof -
  let ?u = "sample_user\<lparr>is_mfa_active := False, otp_secret := None\<rparr>"
  have "tfind u_id (u_id ?u) (users ((empty_world 5 50)\<lparr>users := [?u]\<rparr>)) = Some ?u" by simp
  moreover have "\<not> is_mfa_active ?u" "otp_secret ?u = None" by simp_all
  ultimately obtain w' u' where "enable_mfa sample_auth ?u ''anything'' ((empty_world 5 50)\<lparr>users := [?u]\<rparr>) = (Inr True, w')"
    "is_mfa_active u'" "\<forall>p w. check_otp sample_auth u' p None w = (Inr False, w)"
    using mfa_without_secret by blast
  then show ?thesis unfolding Let_def by blast
qed

subsection \<open>From the invitation to the membership\<close>

lemma register_run:
  assumes "filter (\<lambda>i. i_user_email i = u_email u) (invites w) = [row]" and "i_accepted_at row \<noteq> None"
    and "get_workspace (i_organization_id row) w = (Inr (Some ws), w)" and "ws_id ws = i_organization_id row"
    and "tfind i_id (i_id row) (invites w) = Some row"
  shows "\<exists>w'. register_workspace env u w = (Inr (), w') \<and> (i_organization_id row, u_id u) \<in> set (members w') \<and>
    orgs w' = orgs w \<and> tfind i_id (i_id row) (invites w') = None \<and>
    last (events w') = UserRegistered (u_id u) (u_email u) (i_organization_id row)"
proof -
  have found: "get_invitation_by_email (u_email u) w = (Inr (Some (invite_to_model row)), w)"
    using assms(1) by (simp add: get_invitation_by_email_def)
  have sel: "inv_accepted_at (invite_to_model row) = i_accepted_at row" "inv_role (invite_to_model row) = i_role row"
    "inv_workspace_id (invite_to_model row) = i_organization_id row" "inv_id (invite_to_model row) = i_id row"
    by (simp_all add: invite_to_model_def)
  obtain w2 where w2: "add_to_workspace (i_organization_id row) (u_id u) (i_role row) w = (Inr (), w2)"
    "invites w2 = invites w" "(i_organization_id row, u_id u) \<in> set (members w2)" "orgs w2 = orgs w"
    using add_to_workspace_run by blast
  have "delete_invitation (i_organization_id row) (i_id row) w2 =
      (Inr (), w2\<lparr>invites := tdel i_id (i_id row) (invites w2)\<rparr>)"
    using assms(5) w2(2) by (simp add: delete_invitation_def)
  with found w2 show ?thesis
    using assms(2,3,4) by (simp add: register_workspace_def sel)
qed

lemma filter_tput_one:
  assumes "distinct (map key rs)" and "tfind key k rs = Some r" and "filter P rs = [r]" and "P r'" and "key r' = k"
  shows "filter P (tput key r' rs) = [r']"
  using assms
proof (induction rs)
  case (Cons x xs)
  have "r \<in> set (filter P (x # xs))" using Cons.prems(3) by simp
  then have "P r" unfolding set_filter by simp
  show ?case
  proof (cases "key x = k")
    case True
    with \<open>P r\<close> Cons.prems show ?thesis by (auto split: if_splits)
  next
    case False
    with Cons.prems have "\<not> P x" using tfind_Some [of key k "x # xs" r] by (auto split: if_splits)
    with False Cons show ?thesis by simp
  qed
qed simp

text \<open>
  C9: An invitation leads to the membership: when the only invitation for an e-mail address is accepted
  before its owner has registered, the later registration puts the new user into that workspace, removes
  the invitation, creates no other workspace and announces the registration with that workspace. The seats
  are checked when the invitation is accepted and not at the registration.
\<close>

theorem invited_user_joins:
  assumes token: "decode_jwt codec (clock w) token = ValidToken i" and row: "tfind i_id i (invites w) = Some row"
    and only: "filter (\<lambda>r. i_user_email r = u_email u) (invites w) = [row]" "distinct (map i_id (invites w))"
    and ws: "get_workspace (i_organization_id row) w = (Inr (Some ws), w)" "ws_payment_on_hold_since ws = None"
      "seats_left (product_tier_settings (current_product_tier (clock w) ws)) ws"
    and user: "user_get_by_email (u_email u) w = (Inr None, w)"
  shows "\<exists>v w1 w2. accept_invitation codec token w = (Inr (Accepted v), w1) \<and> members w1 = members w \<and>
    register_workspace env u w1 = (Inr (), w2) \<and> (i_organization_id row, u_id u) \<in> set (members w2) \<and>
    orgs w2 = orgs w \<and> tfind i_id i (invites w2) = None \<and>
    last (events w2) = UserRegistered (u_id u) (u_email u) (i_organization_id row)"
proof -
  let ?row = "accepted (clock w) row"
  let ?w = "w\<lparr>invites := tput i_id ?row (invites w),
    events := events w @ [InvitationAccepted (i_organization_id row) None (i_user_email row)]\<rparr>"
  have "row \<in> set (filter (\<lambda>r. i_user_email r = u_email u) (invites w))" using only(1) by simp
  then have email: "i_user_email row = u_email u" by simp
  have id: "i_id row = i" using tfind_Some [OF row] by simp
  have wsid: "ws_id ws = i_organization_id row"
    using ws(1) by (auto simp: get_workspace_run org_to_model_fields(1) dest!: tfind_Some split: option.splits sum.splits)
  have acc: "accept_invitation codec token w = (Inr (Accepted (invite_to_model ?row)), ?w)"
    using accept_run [OF token row ws(1) wsid ws(2,3)] user email by auto
  have "filter (\<lambda>r. i_user_email r = u_email u) (invites ?w) = [?row]"
    using filter_tput_one [OF only(2) row only(1)] email id by simp
  moreover have "get_workspace (i_organization_id ?row) ?w = (Inr (Some ws), ?w)"
    using ws(1) by (auto simp: get_workspace_run members_of_def split: option.splits sum.splits)
  moreover have "tfind i_id (i_id ?row) (invites ?w) = Some ?row"
    using tfind_tput_same [of i_id ?row "invites w"] by simp
  ultimately obtain w2 where "register_workspace env u ?w = (Inr (), w2)" "(i_organization_id row, u_id u) \<in> set (members w2)"
    "orgs w2 = orgs w" "tfind i_id i (invites w2) = None"
    "last (events w2) = UserRegistered (u_id u) (u_email u) (i_organization_id row)"
    using register_run [of u ?w ?row ws env] wsid id by auto
  with acc show ?thesis by (intro exI conjI) (assumption | simp)+
qed

definition newcomer :: user where
  "newcomer = sample_user\<lparr>u_id := 9, u_email := ''ann@example.com''\<rparr>"

lemma invited_user_joins_witness:
  "let w = invited_world\<lparr>users := []\<rparr> in
   \<exists>v w1 w2. accept_invitation sample_codec ''xxx'' w = (Inr (Accepted v), w1) \<and>
     register_workspace sample_auth newcomer w1 = (Inr (), w2) \<and> (7, 9) \<in> set (members w2)"
proof -
  let ?w = "invited_world\<lparr>users := []\<rparr>"
  have "\<exists>ws. get_workspace 7 ?w = (Inr (Some ws), ?w) \<and> ws_payment_on_hold_since ws = None \<and>
      seats_left (product_tier_settings (current_product_tier (clock ?w) ws)) ws"
    by (simp add: get_workspace_run invited_world_def empty_world_def sample_org_def org_to_model_def tier_from_str_def
        members_of_def current_product_tier_def seats_left_def limit_of_def all_users_def)
  then obtain ws where ws: "get_workspace 7 ?w = (Inr (Some ws), ?w)" "ws_payment_on_hold_since ws = None"
    "seats_left (product_tier_settings (current_product_tier (clock ?w) ws)) ws" by blast
  have "\<exists>v w1 w2. accept_invitation sample_codec ''xxx'' ?w = (Inr (Accepted v), w1) \<and> members w1 = members ?w \<and>
      register_workspace sample_auth newcomer w1 = (Inr (), w2) \<and>
      (i_organization_id sample_invite, u_id newcomer) \<in> set (members w2) \<and>
      orgs w2 = orgs ?w \<and> tfind i_id 3 (invites w2) = None \<and>
      last (events w2) = UserRegistered (u_id newcomer) (u_email newcomer) (i_organization_id sample_invite)"
    by (rule invited_user_joins [OF _ _ _ _ _ ws(2,3)])
      (use ws(1) in \<open>simp_all add: sample_codec_def invited_world_def sample_invite_def newcomer_def
        user_get_by_email_def scalar_unique_def\<close>)
  then show ?thesis unfolding Let_def by (auto simp: sample_invite_def newcomer_def)
qed

lemma create_invitation_effect:
  assumes "create_invitation a e r w = (Inr v, w')"
  shows "(\<exists>i\<in>set (invites w'). i_organization_id i = a \<and> i_user_email i = e) \<and> set (invites w) \<subseteq> set (invites w')"
proof -
  let ?rows = "filter (\<lambda>i. i_organization_id i = a \<and> i_user_email i = e) (invites w)"
  obtain m where m: "user_get_by_email e w = (m, w)" by (metis user_get_by_email_same prod.collapse)
  obtain g where g: "get_workspace a w = (g, w)" by (metis get_workspace_same prod.collapse)
  consider "?rows = []" | x where "?rows = [x]" | x y zs where "?rows = x # y # zs" by (metis neq_Nil_conv)
  then show ?thesis
  proof cases
    case 1
    with assms m g show ?thesis
      by (auto simp: create_invitation_def bind_def Let_def split: sum.splits option.splits if_splits)
  next
    case 2
    then have "set ?rows = {x}" by simp
    then have "x \<in> set (invites w)" "i_organization_id x = a" "i_user_email x = e" by auto
    moreover from 2 assms have "w' = w" by (simp add: create_invitation_def)
    ultimately show ?thesis by blast
  next
    case 3
    with assms show ?thesis by (simp add: create_invitation_def)
  qed
qed

text \<open>
  Two invitations block a registration: once an e-mail address has been invited to two workspaces,
  accepted or not, its owner cannot complete the registration; the lookup by e-mail raises, no workspace is
  joined or created, and nothing is announced.
\<close>

theorem two_invitations_block:
  assumes "create_invitation a e r w = (Inr v, w1)" and "create_invitation b e r' w1 = (Inr v', w2)" and "a \<noteq> b"
    and "u_email u = e"
  shows "register_workspace env u w2 = (Inl MultipleResultsFound, w2)"
proof -
  let ?rows = "filter (\<lambda>i. i_user_email i = e) (invites w2)"
  from create_invitation_effect [OF assms(1)] create_invitation_effect [OF assms(2)] obtain x y where
    "x \<in> set ?rows" "y \<in> set ?rows" "i_organization_id x = a" "i_organization_id y = b" by fastforce
  moreover have "x = y" if "?rows = [z]" "x \<in> set ?rows" "y \<in> set ?rows" for x y z using that by (metis empty_iff empty_set set_ConsD)
  ultimately obtain p q rest where "?rows = p # q # rest" using assms(3)
    by (metis empty_iff empty_set neq_Nil_conv)
  with assms(4) show ?thesis by (simp add: register_workspace_def get_invitation_by_email_def)
qed

lemma two_invitations_block_witness:
  "let w = (empty_world 5 50)\<lparr>orgs := [sample_org, sample_org\<lparr>o_id := 8\<rparr>]\<rparr> in
   \<exists>v w1 v' w2. create_invitation 7 ''ann@example.com'' 1 w = (Inr v, w1) \<and>
     create_invitation 8 ''ann@example.com'' 1 w1 = (Inr v', w2) \<and>
     register_workspace sample_auth newcomer w2 = (Inl MultipleResultsFound, w2)"
proof -
  let ?w = "(empty_world 5 50)\<lparr>orgs := [sample_org, sample_org\<lparr>o_id := 8\<rparr>]\<rparr>"
  have "\<exists>v w1. create_invitation 7 ''ann@example.com'' 1 ?w = (Inr v, w1) \<and>
      (\<exists>v' w2. create_invitation 8 ''ann@example.com'' 1 w1 = (Inr v', w2))"
    by (simp add: create_invitation_def get_workspace_run empty_world_def sample_org_def org_to_model_def tier_from_str_def
        user_get_by_email_def scalar_unique_def Let_def)
  then obtain v w1 v' w2 where c: "create_invitation 7 ''ann@example.com'' 1 ?w = (Inr v, w1)"
    "create_invitation 8 ''ann@example.com'' 1 w1 = (Inr v', w2)" by blast
  have "u_email newcomer = ''ann@example.com''" by (simp add: newcomer_def)
  from two_invitations_block [OF c _ this, of sample_auth] have "register_workspace sample_auth newcomer w2 =
      (Inl MultipleResultsFound, w2)" by simp
  with c show ?thesis unfolding Let_def by blast
qed

end
