(* ===== verification/Workspace_Access.thy ===== *)
theory Workspace_Access
  imports Workspace_Repository
begin

section \<open>Access to a workspace\<close>

text \<open>
  The dependencies of \<open>workspaces/dependencies.py\<close> through which every endpoint of a workspace gets it:
  the workspace, or why the user does not get it, and the HTTP error for the latter.
\<close>

datatype workspace_error = WorkspaceNotFound | Unauthorized | Forbidden | TrialEnded | PaymentOnHold

definition get_optional_user_workspace :: "uuid \<Rightarrow> user option \<Rightarrow> (workspace_error + workspace) io" where
  "get_optional_user_workspace workspace_id user =
     (case user of None \<Rightarrow> ret (Inl Unauthorized)
      | Some u \<Rightarrow>
          bind (get_workspace workspace_id) (\<lambda>found.
          case found of None \<Rightarrow> ret (Inl WorkspaceNotFound)
          | Some workspace \<Rightarrow>
              bind utc (\<lambda>now.
              if u_id u \<notin> set (all_users workspace) then ret (Inl Forbidden)
              else if ws_payment_on_hold_since workspace \<noteq> None \<and> u_id u \<noteq> ws_owner_id workspace
              then ret (Inl PaymentOnHold)
              else if \<not> paid_tier_access now workspace (u_id u) then ret (Inl TrialEnded)
              else ret (Inr workspace))))"

fun http_error :: "workspace_error \<Rightarrow> exn" where
  "http_error Unauthorized = HTTPException 401 ''unauthorized''"
| "http_error WorkspaceNotFound = HTTPException 404 ''workspace_not_found''"
| "http_error Forbidden = HTTPException 403 ''not_a_workspace_member''"
| "http_error TrialEnded = HTTPException 403 ''trial_ended''"
| "http_error PaymentOnHold = HTTPException 403 ''workspace_payment_on_hold''"

definition get_user_workspace :: "workspace_error + workspace \<Rightarrow> workspace io" where
  "get_user_workspace maybe_workspace =
     (case maybe_workspace of Inl e \<Rightarrow> raise (http_error e) | Inr workspace \<Rightarrow> ret workspace)"

definition user_workspace :: "uuid \<Rightarrow> user option \<Rightarrow> workspace io" where
  "user_workspace workspace_id user =
     bind (get_optional_user_workspace workspace_id user) get_user_workspace"

text \<open>
  The two dependencies a handler asks for: the workspace of the path, as the user gets it, and a permission of
  the user in it (\<open>WorkspacePermissionChecker\<close>). They run before the body of the handler, in this order.
\<close>

definition require :: "string \<Rightarrow> user \<Rightarrow> uuid \<Rightarrow> unit io" where
  "require permission u ws = bind (lift (check_permission (perm permission) u ws)) (\<lambda>_. ret ())"

definition in_workspace :: "user \<Rightarrow> uuid \<Rightarrow> (workspace \<Rightarrow> 'a io) \<Rightarrow> 'a io" where
  "in_workspace u ws handler = bind (user_workspace ws (Some u)) handler"

definition permitted :: "string \<Rightarrow> user \<Rightarrow> uuid \<Rightarrow> (workspace \<Rightarrow> 'a io) \<Rightarrow> 'a io" where
  "permitted permission u ws handler = in_workspace u ws (\<lambda>m. seq (require permission u ws) (handler m))"

lemma require_denied: "check_permission (perm p) u ws = Inl e \<Longrightarrow> seq (require p u ws) m w = (Inl e, w)"
  by (simp add: require_def)

lemma require_granted: "check_permission (perm p) u ws = Inr b \<Longrightarrow> seq (require p u ws) m w = m w"
  by (simp add: require_def)

lemma user_workspace_same: "snd (user_workspace ws u w) = w"
  using get_workspace_same [of ws w]
  by (cases "get_workspace ws w")
    (auto simp: user_workspace_def get_optional_user_workspace_def get_user_workspace_def run_defs split: option.splits sum.splits)

lemma permitted_denied:
  assumes "check_permission (perm p) u ws = Inl e"
  shows "permitted p u ws handler w = (Inl (case fst (user_workspace ws (Some u) w) of Inl e' \<Rightarrow> e' | Inr m \<Rightarrow> e), w)"
proof (cases "user_workspace ws (Some u) w")
  case (Pair r w')
  then have "w' = w" using user_workspace_same [of ws "Some u" w] by simp
  then show ?thesis
    using Pair require_denied [OF assms] by (cases r) (simp_all add: permitted_def in_workspace_def)
qed

lemma permitted_granted:
  assumes "user_workspace ws (Some u) w = (Inr m, w)" and "check_permission (perm p) u ws = Inr b"
  shows "permitted p u ws handler w = handler m w"
  using assms by (simp add: permitted_def in_workspace_def require_granted)

lemma user_workspace_Inr:
  assumes "user_workspace i (Some u) w = (Inr m, w')"
  shows "w' = w \<and> ws_id m = i \<and> (u_id u = ws_owner_id m \<or> u_id u \<in> set (ws_members m)) \<and>
    (\<exists>r. tfind o_id i (orgs w) = Some r \<and> org_to_model (members_of i w) None r = Inr m)"
  using assms
  by (auto simp: user_workspace_def get_optional_user_workspace_def get_user_workspace_def get_workspace_run run_defs
      org_to_model_fields(1) dest: tfind_Some split: option.splits sum.splits if_splits)

lemma permitted_Inr:
  assumes "permitted p u ws handler w = (Inr x, w')"
  shows "\<exists>m. user_workspace ws (Some u) w = (Inr m, w) \<and> check_permission (perm p) u ws = Inr True \<and> handler m w = (Inr x, w')"
proof -
  obtain r where r: "user_workspace ws (Some u) w = (r, w)"
    using user_workspace_same [of ws "Some u" w] by (metis prod.collapse)
  have c: "check_permission (perm p) u ws = Inr b \<Longrightarrow> b" for b by (auto simp: check_permission_def split: option.splits)
  show ?thesis
    using assms r c by (cases r; cases "check_permission (perm p) u ws")
      (auto simp: permitted_def in_workspace_def require_def)
qed

lemma paid_tier_access_iff:
  "paid_tier_access now w user_id \<longleftrightarrow> user_id = ws_owner_id w \<or> ws_payment_on_hold_since w = None"
  by (auto simp: paid_tier_access_def split: option.splits)

text \<open>
  C29: An endpoint of a workspace is reached exactly by its owner and, unless the payment is on hold, by its
  members; everybody else gets the error for the first test that fails, nothing is written, and the error
  for an ended trial is never the answer: the end of the trial shuts nobody out.
\<close>

theorem workspace_access:
  assumes "get_workspace i w = (Inr found, w)"
  shows "user_workspace i user w =
    ((case user of None \<Rightarrow> Inl (HTTPException 401 ''unauthorized'')
      | Some u \<Rightarrow>
         (case found of None \<Rightarrow> Inl (HTTPException 404 ''workspace_not_found'')
          | Some ws \<Rightarrow>
              if u_id u = ws_owner_id ws \<or> u_id u \<in> set (ws_members ws) \<and> ws_payment_on_hold_since ws = None then Inr ws
              else if u_id u \<in> set (ws_members ws) then Inl (HTTPException 403 ''workspace_payment_on_hold'')
              else Inl (HTTPException 403 ''not_a_workspace_member''))), w)"
  using assms
  by (auto simp: user_workspace_def get_optional_user_workspace_def get_user_workspace_def paid_tier_access_iff
      run_defs split: option.splits)

lemma workspace_access_witness:
  "let w = (empty_world 5 50)\<lparr>orgs := [sample_org\<lparr>o_payment_on_hold_since := Some 1\<rparr>], members := [(7, 2)]\<rparr>;
       u = \<lparr>u_id = 2, u_email = [], hashed_password = [], is_active = True, is_superuser = False, is_verified = True,
            is_mfa_active = False, otp_secret = None, u_roles = [], u_created_at = 0, auth_min_time = None\<rparr> in
   user_workspace 7 (Some u) w = (Inl (HTTPException 403 ''workspace_payment_on_hold''), w)"
proof -
  let ?w = "(empty_world 5 50)\<lparr>orgs := [sample_org\<lparr>o_payment_on_hold_since := Some 1\<rparr>], members := [(7, 2)]\<rparr>"
  have "\<exists>ws. get_workspace 7 ?w = (Inr (Some ws), ?w) \<and> ws_owner_id ws = 1 \<and> ws_members ws = [2] \<and>
      ws_payment_on_hold_since ws = Some 1"
    by (simp add: get_workspace_run empty_world_def sample_org_def org_to_model_def tier_from_str_def members_of_def)
  then obtain ws where ws: "get_workspace 7 ?w = (Inr (Some ws), ?w)" "ws_owner_id ws = 1" "ws_members ws = [2]"
    "ws_payment_on_hold_since ws = Some 1" by blast
  then show ?thesis unfolding Let_def by (subst workspace_access [OF ws(1)]) simp
qed

end
