(* ===== verification/Lifecycle.thy ===== *)
theory Lifecycle
  imports Cloud_Account_Effects
begin

section \<open>The end of the trial and the cleanup of the free tier\<close>

text \<open>
  \<open>TrialEndService\<close> of \<open>workspaces/trial_end_service.py\<close> and \<open>FreeTierCleanupService\<close> of
  \<open>workspaces/free_tier_deletion_service.py\<close>, both run every hour. The number of days after which a free
  workspace is cleaned up is configuration.
\<close>

definition move_trial :: "workspace \<Rightarrow> unit io" where
  "move_trial workspace =
     (let new_tier = Free in
      seq (case limit_of (account_limit (product_tier_settings new_tier)) of None \<Rightarrow> ret ()
           | Some limit \<Rightarrow> disable_cloud_accounts (ws_id workspace) limit)
          (bind (update_product_tier (ws_id workspace) new_tier) (\<lambda>_. ret ())))"

definition move_trials_to_free_tier :: "unit io" where
  "move_trials_to_free_tier =
     bind (list_expired_trials trial_period_duration) (\<lambda>workspaces. for_each move_trial workspaces)"

definition cleanup_workspace :: "workspace \<Rightarrow> unit io" where
  "cleanup_workspace workspace =
     (case account_limit (product_tier_settings Free) of None \<Rightarrow> ret ()
      | Some limit \<Rightarrow>
          bind (list_accounts (ws_id workspace)) (\<lambda>accs.
          if length accs \<le> limit then ret ()
          else for_each (\<lambda>a. delete_cloud_account (ws_owner_id workspace) (ca_id a) (ws_id workspace)) (drop limit accs)))"

definition cleanup_free_tiers :: "timedelta \<Rightarrow> unit io" where
  "cleanup_free_tiers free_tier_cleanup_timeout =
     bind (list_overdue_free_tier_cleanup free_tier_cleanup_timeout (td_days 1)) (\<lambda>workspaces.
     for_each cleanup_workspace workspaces)"

subsection \<open>The cleanup\<close>

definition live :: "uuid \<Rightarrow> world \<Rightarrow> uuid set" where
  "live ws w = r_id ` set (filter (\<lambda>r. r_tenant_id r = ws \<and> non_deleted_row r) (accounts w))"

lemma live_listed: "accounts_ok w \<Longrightarrow> list_accounts ws w = (Inr as, w) \<Longrightarrow> ca_id ` set as = live ws w \<and> distinct (map ca_id as)"
  by (rule list_accounts_ok [of w ws]) (auto simp: live_def simp flip: list.set_map)

lemma cleanup_workspace_run:
  assumes "accounts_ok w"
  shows "\<exists>w'. cleanup_workspace ws w = (Inr (), w') \<and> frame w' = frame w \<and> accounts_ok w' \<and>
    card (live (ws_id ws) w') \<le> 1 \<and> (\<forall>i. live i w' \<subseteq> live i w) \<and>
    (\<forall>j. j \<notin> live (ws_id ws) w \<longrightarrow> tfind r_id j (accounts w') = tfind r_id j (accounts w))"
proof -
  obtain as where as: "list_accounts (ws_id ws) w = (Inr as, w)" "distinct (map ca_id as)"
    "\<And>a. a \<in> set as \<Longrightarrow> stored (ca_id a) w = Some (a\<lparr>ca_next_scan := None\<rparr>) \<and> ca_workspace_id a = ws_id ws"
    "map ca_id as = map r_id (filter (\<lambda>r. r_tenant_id r = ws_id ws \<and> non_deleted_row r) (accounts w))"
    by (rule list_accounts_ok [OF assms, of "ws_id ws"]) blast
  let ?off = "drop 1 as"
  have dist: "distinct (map ca_id ?off)" using as(2) by (simp flip: drop_map)
  have st: "\<forall>x\<in>set ?off. \<exists>a. stored (ca_id x) w = Some a \<and> ca_workspace_id a = ws_id ws"
    using as(3) by (fastforce dest: in_set_dropD)
  obtain w' where w': "for_each (\<lambda>x. delete_cloud_account (ws_owner_id ws) (ca_id x) (ws_id ws)) ?off w = (Inr (), w')"
    "frame w' = frame w"
    "\<And>x a. x \<in> set ?off \<Longrightarrow> stored (ca_id x) w = Some a \<Longrightarrow>
       stored (ca_id x) w' = Some (settle (clock w) a (deleted_account (clock w) a))"
    "\<And>j. j \<notin> ca_id ` set ?off \<Longrightarrow> tfind r_id j (accounts w') = tfind r_id j (accounts w)"
    by (rule deleting.loop_stored [OF TrueI dist st]) blast
  have ok: "accounts_ok w'"
    using preserves_world [of "acc_inv None" "for_each (\<lambda>x. delete_cloud_account (ws_owner_id ws) (ca_id x) (ws_id ws)) ?off" w]
      assms w'(1) by (simp add: preserves_for_each_all preserves_delete)
  have gone: "\<exists>a. stored j w' = Some a \<and> ca_state a = Deleted" if "j \<in> ca_id ` set ?off" for j
    using that w'(3) st by (force simp: deleted_account_def)
  have shrink: "live i w' \<subseteq> live i w - ca_id ` set ?off" for i
  proof -
    obtain bs where bs: "list_accounts i w = (Inr bs, w)"
      "map ca_id bs = map r_id (filter (\<lambda>r. r_tenant_id r = i \<and> non_deleted_row r) (accounts w))"
      by (rule list_accounts_ok [OF assms, of i])
    obtain cs where cs: "list_accounts i w' = (Inr cs, w')"
      "map ca_id cs = map r_id (filter (\<lambda>r. r_tenant_id r = i \<and> non_deleted_row r) (accounts w'))"
      by (rule list_accounts_ok [OF ok, of i])
    have "ca_id ` set cs \<subseteq> ca_id ` set bs - ca_id ` set ?off"
      by (rule equalityD1 [OF listed_after_deletion [OF assms bs(2) ok cs(2) w'(4) gone]])
    then show ?thesis using live_listed [OF assms bs(1)] live_listed [OF ok cs(1)] by simp
  qed
  have lv: "live (ws_id ws) w = ca_id ` set as" using live_listed [OF assms as(1)] by simp
  have "ca_id ` set as = ca_id ` set (take 1 as) \<union> ca_id ` set ?off"
    by (metis append_take_drop_id image_Un set_append)
  then have sub: "live (ws_id ws) w' \<subseteq> ca_id ` set (take 1 as)" using shrink [of "ws_id ws"] unfolding lv by fast
  have "card (ca_id ` set (take 1 as)) \<le> 1" by (cases as) auto
  with card_mono [OF _ sub] have one: "card (live (ws_id ws) w') \<le> 1" by simp
  have "ca_id ` set ?off \<subseteq> live (ws_id ws) w" unfolding lv by (auto dest: in_set_dropD)
  with w'(4) have same: "\<forall>j. j \<notin> live (ws_id ws) w \<longrightarrow> tfind r_id j (accounts w') = tfind r_id j (accounts w)" by blast
  have "cleanup_workspace ws w = (Inr (), w')"
  proof (cases "length as \<le> 1")
    case True
    then have "?off = []" by simp
    with w'(1) True as(1) show ?thesis by (simp add: cleanup_workspace_def free_setting_def)
  next
    case False
    with w'(1) as(1) show ?thesis by (simp add: cleanup_workspace_def free_setting_def)
  qed
  moreover have "\<forall>i. live i w' \<subseteq> live i w" using shrink by fast
  ultimately show ?thesis by (intro exI [where x = w'] conjI w'(2) ok one same)
qed

text \<open>
  The cleanup of the free tier leaves every overdue workspace with at most one account and touches no
  account of any other workspace: it always ends, and nothing but account rows and events changes.
\<close>

theorem cleanup_leaves_one:
  assumes "accounts_ok w" and "list_overdue_free_tier_cleanup timeout (td_days 1) w = (Inr wss, w)"
  shows "\<exists>w'. cleanup_free_tiers timeout w = (Inr (), w') \<and> frame w' = frame w \<and>
    (\<forall>ws\<in>set wss. \<exists>kept. list_accounts (ws_id ws) w' = (Inr kept, w') \<and> length kept \<le> 1) \<and>
    (\<forall>j. (\<forall>ws\<in>set wss. j \<notin> live (ws_id ws) w) \<longrightarrow> stored j w' = stored j w)"
proof -
  have "\<exists>w'. for_each cleanup_workspace wss w = (Inr (), w') \<and> frame w' = frame w \<and> accounts_ok w' \<and>
      (\<forall>ws\<in>set wss. card (live (ws_id ws) w') \<le> 1) \<and> (\<forall>i. live i w' \<subseteq> live i w) \<and>
      (\<forall>j. (\<forall>ws\<in>set wss. j \<notin> live (ws_id ws) w) \<longrightarrow> tfind r_id j (accounts w') = tfind r_id j (accounts w))"
    using assms(1)
  proof (induction wss arbitrary: w)
    case (Cons ws wss)
    obtain w1 where w1: "cleanup_workspace ws w = (Inr (), w1)" "frame w1 = frame w" "accounts_ok w1"
      "card (live (ws_id ws) w1) \<le> 1" "\<forall>i. live i w1 \<subseteq> live i w"
      "\<forall>j. j \<notin> live (ws_id ws) w \<longrightarrow> tfind r_id j (accounts w1) = tfind r_id j (accounts w)"
      using cleanup_workspace_run [OF Cons.prems] by blast
    obtain w2 where w2: "for_each cleanup_workspace wss w1 = (Inr (), w2)" "frame w2 = frame w1" "accounts_ok w2"
      "\<forall>ws\<in>set wss. card (live (ws_id ws) w2) \<le> 1" "\<forall>i. live i w2 \<subseteq> live i w1"
      "\<forall>j. (\<forall>ws\<in>set wss. j \<notin> live (ws_id ws) w1) \<longrightarrow> tfind r_id j (accounts w2) = tfind r_id j (accounts w1)"
      using Cons.IH [OF w1(3)] by blast
    have "card (live (ws_id ws) w2) \<le> card (live (ws_id ws) w1)"
      using w2(5) by (intro card_mono) (auto simp: live_def)
    then have "card (live (ws_id ws) w2) \<le> 1" using w1(4) by simp
    moreover have "tfind r_id j (accounts w2) = tfind r_id j (accounts w)"
      if "\<forall>x\<in>set (ws # wss). j \<notin> live (ws_id x) w" for j
    proof -
      have "\<forall>x\<in>set wss. j \<notin> live (ws_id x) w1" using that w1(5) by auto
      then show ?thesis using that w1(6) w2(6) by simp
    qed
    moreover have "live i w2 \<subseteq> live i w" for i using w1(5) w2(5) by blast
    ultimately show ?case using w1(1,2) w2(1-4) by (intro exI [where x = w2]) simp
  qed simp
  then obtain w' where w': "for_each cleanup_workspace wss w = (Inr (), w')" "frame w' = frame w" "accounts_ok w'"
    "\<forall>ws\<in>set wss. card (live (ws_id ws) w') \<le> 1"
    "\<forall>j. (\<forall>ws\<in>set wss. j \<notin> live (ws_id ws) w) \<longrightarrow> tfind r_id j (accounts w') = tfind r_id j (accounts w)" by blast
  have "\<exists>kept. list_accounts (ws_id ws) w' = (Inr kept, w') \<and> length kept \<le> 1" if "ws \<in> set wss" for ws
  proof -
    obtain kept where kept: "list_accounts (ws_id ws) w' = (Inr kept, w')"
      by (rule list_accounts_ok [OF w'(3), of "ws_id ws"])
    have "length kept = card (live (ws_id ws) w')"
      using live_listed [OF w'(3) kept] by (metis distinct_card length_map list.set_map)
    with kept w'(4) that show ?thesis by auto
  qed
  moreover have "cleanup_free_tiers timeout w = (Inr (), w')"
    using assms(2) w'(1) by (simp add: cleanup_free_tiers_def)
  ultimately show ?thesis using w'(2,5) stored_row by blast
qed

lemma cleanup_leaves_one_witness:
  "\<exists>w' kept. cleanup_free_tiers (clock two_accounts - 1) two_accounts = (Inr (), w') \<and>
     list_accounts 7 w' = (Inr kept, w') \<and> length kept \<le> 1"
proof -
  have "\<exists>v. list_overdue_free_tier_cleanup (clock two_accounts - 1) (td_days 1) two_accounts = (Inr [v], two_accounts) \<and>
      ws_id v = 7"
    by (simp add: list_overdue_free_tier_cleanup_def load_orgs_def two_accounts_def one_account_def empty_world_def
        sample_org_def org_to_model_def tier_from_str_def td_defs)
  then obtain v where v: "list_overdue_free_tier_cleanup (clock two_accounts - 1) (td_days 1) two_accounts = (Inr [v], two_accounts)"
    "ws_id v = 7" by blast
  from cleanup_leaves_one [OF two_accounts_ok v(1)] v(2) show ?thesis by auto
qed

subsection \<open>The end of the trial\<close>

definition readable_org :: "org_row \<Rightarrow> bool" where
  "readable_org r \<longleftrightarrow> (\<exists>ws. org_to_model [] None r = Inr ws)"

lemma readable_org_any: "readable_org r \<Longrightarrow> \<exists>ws. org_to_model ms a r = Inr ws"
  by (auto simp: readable_org_def org_to_model_def split: sum.splits)

lemma readable_org_of: "org_to_model ms a r = Inr ws \<Longrightarrow> readable_org r"
  by (auto simp: readable_org_def org_to_model_def split: sum.splits)

lemma change_to_free:
  assumes "readable_org r"
  shows "\<exists>r'. change_tier now Free r = Inr r' \<and> readable_org r' \<and> o_id r' = o_id r \<and> o_tier r' = tier_value Free \<and>
    o_created_at r' = o_created_at r"
proof -
  have free: "tier_from_str ''Free'' = Inr Free" by (simp add: tier_from_str_def)
  have "\<exists>t. tier_from_str (if str_true (o_highest_current_cycle_tier r) then the (o_highest_current_cycle_tier r)
      else tier_value Free) = Inr t"
    using assms by (cases "o_highest_current_cycle_tier r")
      (auto simp: readable_org_def org_to_model_def free split: sum.splits if_splits)
  then obtain t where t: "tier_from_str (if str_true (o_highest_current_cycle_tier r)
      then the (o_highest_current_cycle_tier r) else tier_value Free) = Inr t" by blast
  have ne: "tier_value x \<noteq> []" for x by (cases x) simp_all
  from t show ?thesis
    by (simp add: change_tier_def Let_def readable_org_def org_to_model_def ne free)
qed

lemma disable_cloud_accounts_run:
  assumes "accounts_ok w" and "has_workspace ws w"
  shows "\<exists>w'. disable_cloud_accounts ws k w = (Inr (), w') \<and> frame w' = frame w \<and> accounts_ok w'"
proof -
  obtain as where as: "list_accounts ws w = (Inr as, w)" "distinct (map ca_id as)"
    "\<And>a. a \<in> set as \<Longrightarrow> stored (ca_id a) w = Some (a\<lparr>ca_next_scan := None\<rparr>) \<and> ca_workspace_id a = ws"
    by (rule list_accounts_ok [OF assms(1), of ws]) blast
  let ?off = "drop_last_slice k (filter (\<lambda>a. state_enabled (ca_state a) = Some True) as)"
  have "set ?off \<subseteq> set as" using set_drop_last_slice [of k "filter (\<lambda>a. state_enabled (ca_state a) = Some True) as"] by auto
  then have st: "\<forall>x\<in>set ?off. \<exists>a. stored (ca_id x) w = Some a \<and> ca_workspace_id a = ws" using as(3) by fastforce
  have dist: "distinct (map ca_id ?off)"
    using as(2) by (auto simp: drop_last_slice_def distinct_map_filter simp flip: take_map)
  obtain w' where w': "for_each (try_enabled ws False) ?off w = (Inr (), w')" "frame w' = frame w"
    by (rule disabling.loop_stored [OF assms(2) dist st]) blast
  have run: "disable_cloud_accounts ws k w = (Inr (), w')"
    using as(1) w'(1) by (simp add: disable_cloud_accounts_def Let_def)
  moreover have "accounts_ok w'"
    using preserves_world [of "acc_inv None" "disable_cloud_accounts ws k" w] preserves_disable_all assms(1) run by simp
  ultimately show ?thesis using w'(2) by blast
qed

lemma move_trial_run:
  assumes "accounts_ok w" and "tfind o_id (ws_id ws) (orgs w) = Some r" and "readable_org r"
  shows "\<exists>w' r'. move_trial ws w = (Inr (), w') \<and> accounts_ok w' \<and> orgs w' = tput o_id r' (orgs w) \<and>
    readable_org r' \<and> o_id r' = o_id r \<and> o_tier r' = tier_value Free \<and> o_created_at r' = o_created_at r \<and>
    clock w' = clock w \<and> members w' = members w"
proof -
  obtain v where "org_to_model (members_of (ws_id ws) w) None r = Inr v" using readable_org_any [OF assms(3)] by blast
  then have "has_workspace (ws_id ws) w" using assms(2) by (simp add: has_workspace_fst get_workspace_run)
  then obtain w1 where w1: "disable_cloud_accounts (ws_id ws) 1 w = (Inr (), w1)" "frame w1 = frame w" "accounts_ok w1"
    using disable_cloud_accounts_run [OF assms(1)] by blast
  note f = frame_fields [OF w1(2)]
  obtain r' where r': "change_tier (clock w) Free r = Inr r'" "readable_org r'" "o_id r' = o_id r" "o_tier r' = tier_value Free"
    "o_created_at r' = o_created_at r" using change_to_free [OF assms(3)] by blast
  obtain x where x: "org_to_model (members_of (o_id r') w1) None r' = Inr x" using readable_org_any [OF r'(2)] by blast
  have upd: "update_product_tier (ws_id ws) Free w1 = (Inr x, w1\<lparr>orgs := tput o_id r' (orgs w1)\<rparr>)"
    using r'(1) x f assms(2) by (simp add: update_product_tier_def update_org_run)
  let ?w = "w1\<lparr>orgs := tput o_id r' (orgs w1)\<rparr>"
  have "move_trial ws w = (Inr (), ?w)"
    using w1(1) upd by (simp add: move_trial_def limit_of_def)
  moreover have "accounts_ok ?w" using w1(3) by (simp add: accounts_ok_def)
  ultimately show ?thesis using r' f by (intro exI [where x = ?w] exI [where x = r']) simp
qed

lemma expired_trials_run:
  "list_expired_trials p w = (Inr wss, w) \<longleftrightarrow>
   traverse (\<lambda>r. org_to_model (members_of (o_id r) w) None r)
     (filter (\<lambda>r. o_tier r = tier_value Trial \<and> o_created_at r < clock w - p) (orgs w)) = Inr wss"
  by (simp add: list_expired_trials_def load_orgs_def)

lemma move_trials_run:
  assumes "accounts_ok w" and "distinct (map ws_id wss)"
    and "\<forall>ws\<in>set wss. \<exists>r. tfind o_id (ws_id ws) (orgs w) = Some r \<and> readable_org r"
  shows "\<exists>w'. for_each move_trial wss w = (Inr (), w') \<and> accounts_ok w' \<and> clock w' = clock w \<and> members w' = members w \<and>
    map o_id (orgs w') = map o_id (orgs w) \<and>
    (\<forall>ws\<in>set wss. \<exists>r. tfind o_id (ws_id ws) (orgs w') = Some r \<and> o_tier r = tier_value Free) \<and>
    (\<forall>i. i \<notin> ws_id ` set wss \<longrightarrow> tfind o_id i (orgs w') = tfind o_id i (orgs w))"
  using assms
proof (induction wss arbitrary: w)
  case (Cons ws wss)
  obtain r where r: "tfind o_id (ws_id ws) (orgs w) = Some r" "readable_org r" using Cons.prems(3) by auto
  have rid: "o_id r = ws_id ws" using tfind_Some [OF r(1)] by simp
  obtain w1 r' where w1: "move_trial ws w = (Inr (), w1)" "accounts_ok w1" "orgs w1 = tput o_id r' (orgs w)"
    "o_id r' = o_id r" "o_tier r' = tier_value Free" "clock w1 = clock w" "members w1 = members w"
    using move_trial_run [OF Cons.prems(1) r] by blast
  have "o_id r' \<in> o_id ` set (orgs w)" using w1(4) tfind_Some [OF r(1)] by force
  then have ids: "map o_id (orgs w1) = map o_id (orgs w)" using w1(3) by (simp add: keys_tput)
  have same: "tfind o_id i (orgs w1) = tfind o_id i (orgs w)" if "i \<noteq> ws_id ws" for i
    using that w1(3,4) rid by simp
  have "\<forall>x\<in>set wss. \<exists>r. tfind o_id (ws_id x) (orgs w1) = Some r \<and> readable_org r"
    using Cons.prems(2,3) same by (auto simp: image_iff)
  then obtain w2 where w2: "for_each move_trial wss w1 = (Inr (), w2)" "accounts_ok w2" "clock w2 = clock w1"
    "members w2 = members w1" "map o_id (orgs w2) = map o_id (orgs w1)"
    "\<forall>ws\<in>set wss. \<exists>r. tfind o_id (ws_id ws) (orgs w2) = Some r \<and> o_tier r = tier_value Free"
    "\<forall>i. i \<notin> ws_id ` set wss \<longrightarrow> tfind o_id i (orgs w2) = tfind o_id i (orgs w1)"
    using Cons.IH [OF w1(2)] Cons.prems(2) by auto
  have "tfind o_id (ws_id ws) (orgs w2) = Some r'"
    using w2(7) Cons.prems(2) w1(3,4) rid tfind_tput_same [of o_id r' "orgs w"] by simp
  with w1 w2 ids same show ?case by (intro exI [where x = w2]) auto
qed auto

text \<open>
  C16: The end of the trial: the job moves every workspace whose trial has expired to the free tier, leaves
  all other workspaces as they are, and always completes, so that afterwards no expired trial is left.
\<close>

theorem expired_trials_become_free:
  assumes ok: "accounts_ok w" and ids: "distinct (map o_id (orgs w))"
    and trials: "list_expired_trials trial_period_duration w = (Inr wss, w)"
  shows "\<exists>w'. move_trials_to_free_tier w = (Inr (), w') \<and>
    (\<forall>ws\<in>set wss. \<exists>r. tfind o_id (ws_id ws) (orgs w') = Some r \<and> o_tier r = tier_value Free) \<and>
    (\<forall>i. i \<notin> ws_id ` set wss \<longrightarrow> tfind o_id i (orgs w') = tfind o_id i (orgs w)) \<and>
    list_expired_trials trial_period_duration w' = (Inr [], w')"
proof -
  let ?old = "\<lambda>v r. o_tier r = tier_value Trial \<and> o_created_at r < clock v - trial_period_duration"
  let ?read = "\<lambda>r. org_to_model (members_of (o_id r) w) None r"
  have tr: "traverse ?read (filter (?old w) (orgs w)) = Inr wss" using trials by (simp add: expired_trials_run)
  have rows: "map ?read (filter (?old w) (orgs w)) = map Inr wss" by (rule traverse_Inr_map [OF tr])
  then have wsids: "map ws_id wss = map o_id (filter (?old w) (orgs w))"
  proof -
    have "map (\<lambda>x. ws_id (projr x)) (map ?read (filter (?old w) (orgs w))) = map ws_id wss" unfolding rows by (simp add: comp_def)
    moreover have "ws_id (projr (?read r)) = o_id r" if "r \<in> set (filter (?old w) (orgs w))" for r
      using rows that org_to_model_fields(1) by (metis (no_types, lifting) imageE list.set_map image_eqI sum.sel(2))
    ultimately show ?thesis by (metis (no_types, lifting) comp_apply map_eq_conv map_map)
  qed
  have dist: "distinct (map ws_id wss)" unfolding wsids using ids by (simp add: distinct_map_filter)
  have found: "\<exists>r. tfind o_id (ws_id ws) (orgs w) = Some r \<and> readable_org r" if ws: "ws \<in> set wss" for ws
  proof -
    obtain r where r: "r \<in> set (filter (?old w) (orgs w))" "?read r = Inr ws" using traverse_Inr_in [OF tr ws] by blast
    then have "tfind o_id (o_id r) (orgs w) = Some r" using tfind_in [OF ids, of r] by simp
    with r(2) org_to_model_fields(1) [OF r(2)] show ?thesis using readable_org_of by metis
  qed
  then have "\<forall>ws\<in>set wss. \<exists>r. tfind o_id (ws_id ws) (orgs w) = Some r \<and> readable_org r" by blast
  from move_trials_run [OF ok dist this] obtain w' where w': "for_each move_trial wss w = (Inr (), w')"
    "clock w' = clock w" "map o_id (orgs w') = map o_id (orgs w)"
    "\<forall>ws\<in>set wss. \<exists>r. tfind o_id (ws_id ws) (orgs w') = Some r \<and> o_tier r = tier_value Free"
    "\<forall>i. i \<notin> ws_id ` set wss \<longrightarrow> tfind o_id i (orgs w') = tfind o_id i (orgs w)" by blast
  have none: "\<not> ?old w' r" if "r \<in> set (orgs w')" for r
  proof
    assume old: "?old w' r"
    have here: "tfind o_id (o_id r) (orgs w') = Some r" using tfind_in [of o_id "orgs w'" r] that ids w'(3) by simp
    show False
    proof (cases "o_id r \<in> ws_id ` set wss")
      case True
      then obtain ws r1 where "tfind o_id (o_id r) (orgs w') = Some r1" "o_tier r1 = tier_value Free" using w'(4) by fastforce
      with here old show False by simp
    next
      case False
      then have "tfind o_id (o_id r) (orgs w) = Some r" using here w'(5) by simp
      with old w'(2) have "r \<in> set (filter (?old w) (orgs w))" by (auto dest: tfind_Some)
      then have "o_id r \<in> set (map o_id (filter (?old w) (orgs w)))" by simp
      with False wsids show False by (metis list.set_map)
    qed
  qed
  then have "filter (?old w') (orgs w') = []" by (simp add: filter_empty_conv)
  then have "list_expired_trials trial_period_duration w' = (Inr [], w')" by (simp add: expired_trials_run)
  moreover have "move_trials_to_free_tier w = (Inr (), w')"
    using trials w'(1) by (simp add: move_trials_to_free_tier_def)
  ultimately show ?thesis using w'(4,5) by blast
qed

lemma expired_trials_become_free_witness:
  "let w = two_accounts\<lparr>clock := td_days 15, orgs := [sample_org\<lparr>o_tier := ''Trial''\<rparr>]\<rparr> in
   \<exists>w' r. move_trials_to_free_tier w = (Inr (), w') \<and> tfind o_id 7 (orgs w') = Some r \<and> o_tier r = ''Free''"
proof -
  let ?w = "two_accounts\<lparr>clock := td_days 15, orgs := [sample_org\<lparr>o_tier := ''Trial''\<rparr>]\<rparr>"
  have ok: "accounts_ok ?w" using two_accounts_ok by (simp add: accounts_ok_def)
  have "\<exists>v. list_expired_trials trial_period_duration ?w = (Inr [v], ?w) \<and> ws_id v = 7"
    by (simp add: expired_trials_run trial_period_duration_def td_defs sample_org_def org_to_model_def tier_from_str_def)
  then obtain v where v: "list_expired_trials trial_period_duration ?w = (Inr [v], ?w)" "ws_id v = 7" by blast
  have ids: "distinct (map o_id (orgs ?w))" by simp
  from expired_trials_become_free [OF ok ids v(1)] v(2) show ?thesis unfolding Let_def by auto
qed

end
