(* ===== verification/Rate_Limiter.thy ===== *)
theory Rate_Limiter
  imports World Float_Arithmetic
begin

section \<open>The rate limiter of the login\<close>

text \<open>
  \<open>LoginRateLimiter\<close> of \<open>auth/rate_limiter.py\<close>: a script that Redis runs atomically on the key of a client.
  A key holds a number and may expire; Redis reports the time to live in seconds, rounded from milliseconds,
  and \<open>-1\<close> without an expiry. The numbers of the script are doubles.
\<close>

record limiter =
  rl_limit :: int
  rl_window :: int
    \<comment> \<open>seconds\<close>

definition bucket_key :: "string \<Rightarrow> string" where
  "bucket_key key = ''rate_limit:'' @ key"

definition bucket_live :: "datetime \<Rightarrow> rate_bucket \<Rightarrow> bool" where
  "bucket_live now b \<longleftrightarrow> (case rb_expires_at b of None \<Rightarrow> True | Some t \<Rightarrow> now < t)"

definition bucket_ttl :: "datetime \<Rightarrow> rate_bucket \<Rightarrow> int" where
  "bucket_ttl now b = (case rb_expires_at b of None \<Rightarrow> - 1 | Some t \<Rightarrow> ((t - now) div 1000 + 500) div 1000)"

definition double_add :: "int \<Rightarrow> double \<Rightarrow> double" where
  "double_add n x = double_div (n * 2 ^ snd x + fst x) (2 ^ snd x)"

definition below_one :: "double \<Rightarrow> bool" where
  "below_one x \<longleftrightarrow> fst x < 2 ^ snd x"

definition new_tokens_below_one :: "limiter \<Rightarrow> int \<Rightarrow> int \<Rightarrow> bool" where
  "new_tokens_below_one l tokens ttl =
     (let refill_rate = double_div (rl_limit l) (rl_window l);
          time_passed = rl_window l - ttl in
      rl_limit l < 1 \<or> below_one (double_add tokens (int_times (nat time_passed) refill_rate)))"

definition consume :: "limiter \<Rightarrow> string \<Rightarrow> bool io" where
  "consume l key =
     bind utc (\<lambda>now.
     bind (gets (\<lambda>w. case tfind rb_key (bucket_key key) (rate_buckets w) of None \<Rightarrow> None
             | Some b \<Rightarrow> if bucket_live now b then Some b else None)) (\<lambda>found.
     bind (case found of
         Some b \<Rightarrow> ret b
       | None \<Rightarrow>
           let b = \<lparr>rb_key = bucket_key key, rb_tokens = rl_limit l, rb_expires_at = None\<rparr> in
           bind (modify (\<lambda>w. w\<lparr>rate_buckets := tput rb_key b (rate_buckets w)\<rparr>)) (\<lambda>_. ret b)) (\<lambda>b.
     let ttl = (case found of None \<Rightarrow> rl_window l | Some b \<Rightarrow> bucket_ttl now b) in
     if new_tokens_below_one l (rb_tokens b) ttl then ret False
     else
       bind (modify (\<lambda>w. w\<lparr>rate_buckets := tput rb_key
         (b\<lparr>rb_tokens := rb_tokens b - 1, rb_expires_at := Some (now + td_seconds (rl_window l))\<rparr>)
         (rate_buckets w)\<rparr>)) (\<lambda>_. ret True))))"

subsection \<open>A burst of requests\<close>

fun attempts :: "limiter \<Rightarrow> string \<Rightarrow> nat \<Rightarrow> nat io" where
  "attempts l key 0 = ret 0"
| "attempts l key (Suc n) =
     bind (consume l key) (\<lambda>ok. bind (attempts l key n) (\<lambda>k. ret (if ok then Suc k else k)))"

lemma half_even_one: "half_even a (Suc 0) = a"
  by (simp add: half_even_def)

lemma half_even_multiple: "0 < b \<Longrightarrow> half_even (q * b) b = q"
  by (simp add: half_even_def Let_def)

lemma below_one_integer: "0 < d \<Longrightarrow> below_one (double_div (n * int d) (int d)) \<longleftrightarrow> n < 1"
proof -
  assume d: "0 < d"
  define k where "k = double_shift (nat \<bar>n * int d\<bar>) d"
  have "nat \<bar>n * int d\<bar> * 2 ^ k = (nat \<bar>n\<bar> * 2 ^ k) * d"
    by (simp add: abs_mult nat_mult_distrib)
  then have "half_even (nat \<bar>n * int d\<bar> * 2 ^ k) d = nat \<bar>n\<bar> * 2 ^ k"
    by (simp only: half_even_multiple [OF d])
  moreover have "sgn (n * int d) = sgn n" using d by (simp add: sgn_mult)
  ultimately have "double_div (n * int d) (int d) = (sgn n * (\<bar>n\<bar> * 2 ^ k), k)"
    by (simp add: double_div_def k_def Let_def)
  then have "double_div (n * int d) (int d) = (n * 2 ^ k, k)"
    by (simp add: mult.assoc [symmetric] mult_sgn_abs)
  then show ?thesis by (simp add: below_one_def)
qed

lemma below_one_now: "rl_limit l \<ge> 1 \<Longrightarrow> new_tokens_below_one l tokens (rl_window l) \<longleftrightarrow> tokens < 1"
  using below_one_integer [of "2 ^ snd (int_times 0 (double_div (rl_limit l) (rl_window l)))" tokens]
  by (simp add: new_tokens_below_one_def Let_def double_add_def int_times_def double_div_def)

lemma consume_now:
  assumes "1 \<le> rl_limit l" and "0 < rl_window l" and "tfind rb_key (bucket_key key) (rate_buckets w) = Some b"
    and "rb_expires_at b = Some (clock w + td_seconds (rl_window l))"
  shows "consume l key w =
    (if rb_tokens b < 1 then (Inr False, w)
     else (Inr True, w\<lparr>rate_buckets := tput rb_key (b\<lparr>rb_tokens := rb_tokens b - 1\<rparr>) (rate_buckets w)\<rparr>))"
proof -
  have live: "bucket_live (clock w) b" using assms(2,4) by (simp add: bucket_live_def td_defs)
  have "(rl_window l * 1000000 div 1000 + 500) div 1000 = rl_window l" by linarith
  then have ttl: "bucket_ttl (clock w) b = rl_window l" using assms(4) by (simp add: bucket_ttl_def td_defs)
  have upd: "b\<lparr>rb_tokens := rb_tokens b - 1, rb_expires_at := Some (clock w + td_seconds (rl_window l))\<rparr> =
      b\<lparr>rb_tokens := rb_tokens b - 1\<rparr>" using assms(4) by simp
  show ?thesis
    using assms(3) live ttl upd below_one_now [OF assms(1), of "rb_tokens b"] by (simp add: consume_def)
qed

lemma attempts_now:
  assumes "1 \<le> rl_limit l" and "0 < rl_window l" and "tfind rb_key (bucket_key key) (rate_buckets w) = Some b"
    and "rb_expires_at b = Some (clock w + td_seconds (rl_window l))" and "rb_tokens b = int k"
  shows "\<exists>w'. attempts l key n w = (Inr (min n k), w') \<and>
    (\<forall>j. j \<noteq> bucket_key key \<longrightarrow> tfind rb_key j (rate_buckets w') = tfind rb_key j (rate_buckets w))"
  using assms(3-5)
proof (induction n arbitrary: w b k)
  case (Suc n)
  note one = consume_now [OF assms(1,2) Suc.prems(1,2)]
  have kb: "rb_key b = bucket_key key" using tfind_Some [OF Suc.prems(1)] by simp
  show ?case
  proof (cases k)
    case 0
    then have "consume l key w = (Inr False, w)" using one Suc.prems(3) by simp
    moreover obtain w' where "attempts l key n w = (Inr (min n k), w')"
      "\<forall>j. j \<noteq> bucket_key key \<longrightarrow> tfind rb_key j (rate_buckets w') = tfind rb_key j (rate_buckets w)"
      using Suc.IH [OF Suc.prems] by blast
    ultimately show ?thesis using 0 by (intro exI [where x = w']) (simp add: bind_def)
  next
    case (Suc m)
    let ?b = "b\<lparr>rb_tokens := rb_tokens b - 1\<rparr>"
    let ?w = "w\<lparr>rate_buckets := tput rb_key ?b (rate_buckets w)\<rparr>"
    have step: "consume l key w = (Inr True, ?w)" using one Suc.prems(3) Suc by simp
    have "tfind rb_key (bucket_key key) (rate_buckets ?w) = Some ?b"
      using tfind_tput_same [of rb_key ?b "rate_buckets w"] kb by simp
    moreover have "rb_expires_at ?b = Some (clock ?w + td_seconds (rl_window l))" "rb_tokens ?b = int m"
      using Suc.prems(2,3) Suc by simp_all
    ultimately obtain w' where "attempts l key n ?w = (Inr (min n m), w')"
      "\<forall>j. j \<noteq> bucket_key key \<longrightarrow> tfind rb_key j (rate_buckets w') = tfind rb_key j (rate_buckets ?w)"
      using Suc.IH by blast
    with step Suc kb show ?thesis by simp
  qed
qed auto

text \<open>
  C30: A burst of login attempts is cut off at the limit: of any number of attempts of one client at the
  same moment, starting without a bucket, exactly the first \<open>limit\<close> pass, and no other client's bucket is
  touched.
\<close>

theorem burst_limited:
  assumes "1 \<le> rl_limit l" and "0 < rl_window l" and "tfind rb_key (bucket_key key) (rate_buckets w) = None"
  shows "\<exists>w'. attempts l key n w = (Inr (min n (nat (rl_limit l))), w') \<and>
    (\<forall>j. j \<noteq> bucket_key key \<longrightarrow> tfind rb_key j (rate_buckets w') = tfind rb_key j (rate_buckets w))"
proof (cases n)
  case (Suc m)
  let ?b = "\<lparr>rb_key = bucket_key key, rb_tokens = rl_limit l, rb_expires_at = None\<rparr>"
  let ?b' = "?b\<lparr>rb_tokens := rl_limit l - 1, rb_expires_at := Some (clock w + td_seconds (rl_window l))\<rparr>"
  let ?w = "w\<lparr>rate_buckets := tput rb_key ?b' (tput rb_key ?b (rate_buckets w))\<rparr>"
  have step: "consume l key w = (Inr True, ?w)"
    using assms(3) below_one_now [OF assms(1), of "rl_limit l"] assms(1) by (simp add: consume_def Let_def)
  have "tfind rb_key (bucket_key key) (rate_buckets ?w) = Some ?b'"
    using tfind_tput_same [of rb_key ?b' "tput rb_key ?b (rate_buckets w)"] by simp
  moreover have "rb_expires_at ?b' = Some (clock ?w + td_seconds (rl_window l))" by simp
  moreover have "rb_tokens ?b' = int (nat (rl_limit l - 1))" using assms(1) by simp
  ultimately obtain w' where w': "attempts l key m ?w = (Inr (min m (nat (rl_limit l - 1))), w')"
    "\<forall>j. j \<noteq> bucket_key key \<longrightarrow> tfind rb_key j (rate_buckets w') = tfind rb_key j (rate_buckets ?w)"
    using attempts_now [OF assms(1,2)] by blast
  have "Suc (min m (nat (rl_limit l - 1))) = min n (nat (rl_limit l))" using assms(1) Suc by simp
  with step w' Suc show ?thesis by simp
qed simp

lemma burst_limited_witness:
  "fst (attempts \<lparr>rl_limit = 5, rl_window = 60\<rparr> ''ann'' 9 (empty_world 1000 50)) = Inr 5"
  using burst_limited [of "\<lparr>rl_limit = 5, rl_window = 60\<rparr>" "''ann''" "empty_world 1000 50" 9]
  by (auto simp: empty_world_def)

text \<open>
  What an allowed request does to a live bucket: the stored number falls by one whatever was refilled for
  the time that passed, and the expiry starts anew. So the number of a client that keeps asking only falls,
  and each request needs a longer pause than the one before, until the bucket expires.
\<close>

lemma consume_live:
  assumes "tfind rb_key (bucket_key key) (rate_buckets w) = Some b" and "bucket_live (clock w) b"
  shows "consume l key w =
    (if new_tokens_below_one l (rb_tokens b) (bucket_ttl (clock w) b) then (Inr False, w)
     else (Inr True, w\<lparr>rate_buckets := tput rb_key (b\<lparr>rb_tokens := rb_tokens b - 1,
       rb_expires_at := Some (clock w + td_seconds (rl_window l))\<rparr>) (rate_buckets w)\<rparr>))"
  using assms by (simp add: consume_def)

end
