(* ===== verification/Api_Tokens.thy ===== *)
theory Api_Tokens
  imports Workspace_Repository User_Repository
begin

section \<open>API tokens\<close>

text \<open>
  \<open>ApiTokenService\<close> of \<open>auth/api_token_service.py\<close> over the table \<open>api_token\<close>. The password hash is a
  parameter, as is the random part of a new token. A login returns the claims of the web token that the
  session strategy signs: the user and the permissions by workspace.
\<close>

record crypt =
  cr_hash :: "string \<Rightarrow> string"
  cr_verify_and_update :: "string \<Rightarrow> string \<Rightarrow> bool \<times> string option"
    \<comment> \<open>whether the token matches the hash, and a hash to replace it\<close>

record token_claims =
  cl_user :: uuid
  cl_permissions :: "(uuid \<times> permission) list"

subsection \<open>The text of a token\<close>

text \<open>
  \<open>int(s, 16)\<close> on ASCII text: surrounding white space, a sign and the prefix \<open>0x\<close> are allowed, and single
  underscores between digits. \<open>UUID(s)\<close> drops hyphens first and wants 32 characters; a slice of that length
  that holds a hyphen (or any other thing it drops) is too short then.
\<close>

definition hex_digit :: "char \<Rightarrow> nat option" where
  "hex_digit c = (let n = of_char c :: nat in
     if 48 \<le> n \<and> n \<le> 57 then Some (n - 48)
     else if 97 \<le> n \<and> n \<le> 102 then Some (n - 87)
     else if 65 \<le> n \<and> n \<le> 70 then Some (n - 55) else None)"

fun hex_number :: "nat \<Rightarrow> bool \<Rightarrow> string \<Rightarrow> nat option" where
  "hex_number acc digit_before [] = (if digit_before then Some acc else None)"
| "hex_number acc digit_before (c # cs) =
     (if c = CHR ''_'' then (if digit_before then hex_number acc False cs else None)
      else (case hex_digit c of None \<Rightarrow> None | Some d \<Rightarrow> hex_number (16 * acc + d) True cs))"

definition ascii_space :: "char \<Rightarrow> bool" where
  "ascii_space c \<longleftrightarrow> (let n = of_char c :: nat in 9 \<le> n \<and> n \<le> 13 \<or> 28 \<le> n \<and> n \<le> 32)"

definition strip :: "string \<Rightarrow> string" where
  "strip s = rev (dropWhile ascii_space (rev (dropWhile ascii_space s)))"

definition int16 :: "string \<Rightarrow> nat option" where
  "int16 s =
     (let t = strip s;
          u = (case t of c # cs \<Rightarrow> if c = CHR ''+'' then cs else t | [] \<Rightarrow> t) in
      case u of
        a # b # rest \<Rightarrow>
          if a = CHR ''0'' \<and> (b = CHR ''x'' \<or> b = CHR ''X'') then
            (case rest of c # cs \<Rightarrow> if c = CHR ''_'' then hex_number 0 False cs else hex_number 0 False rest
             | [] \<Rightarrow> None)
          else hex_number 0 False u
      | _ \<Rightarrow> hex_number 0 False u)"

definition uuid_of_hex :: "string \<Rightarrow> exn + uuid" where
  "uuid_of_hex s =
     (if CHR ''-'' \<in> set s then Inl ValueError
      else case int16 s of None \<Rightarrow> Inl ValueError | Some n \<Rightarrow> Inr n)"

definition token_text :: "uuid \<Rightarrow> string \<Rightarrow> string" where
  "token_text i password = ''fix_'' @ hex_digits 32 i @ password"

subsection \<open>The service\<close>

definition get_user_token :: "crypt \<Rightarrow> string \<Rightarrow> bool \<Rightarrow> api_token_row io" where
  "get_user_token cr api_token update_last_used =
     (if length api_token \<noteq> 68 \<or> take 4 api_token \<noteq> ''fix_'' then raise (NotAllowed ''Invalid token'')
      else
        bind (lift (uuid_of_hex (take 32 (drop 4 api_token)))) (\<lambda>token_id.
        bind (gets (\<lambda>w. tfind tk_id token_id (api_tokens w))) (\<lambda>row.
        case row of None \<Rightarrow> raise (NotAllowed ''Invalid token'')
        | Some r \<Rightarrow>
            let (verified, updated_password_hash) = cr_verify_and_update cr api_token (tk_hash r) in
            if \<not> verified then raise (NotAllowed ''Invalid token'')
            else
              bind utc (\<lambda>now.
              let r1 = (if str_true updated_password_hash then r\<lparr>tk_hash := the updated_password_hash\<rparr> else r);
                  r2 = (if update_last_used then r1\<lparr>tk_last_used_at := Some now\<rparr> else r1) in
              bind (modify (\<lambda>w. w\<lparr>api_tokens := tput tk_id r2 (api_tokens w)\<rparr>)) (\<lambda>_.
              ret r2)))))"

text \<open>\<open>tkn.permission or all_permissions\<close>: no permission, and the permission zero, are all of them.\<close>

definition token_mask :: "int option \<Rightarrow> permission" where
  "token_mask p = (case p of None \<Rightarrow> all_permissions | Some v \<Rightarrow> if v = 0 then all_permissions else v)"

definition login :: "crypt \<Rightarrow> string \<Rightarrow> token_claims io" where
  "login cr api_token =
     bind (get_user_token cr api_token True) (\<lambda>tkn.
     bind (user_get (tk_user_id tkn)) (\<lambda>user.
     case user of None \<Rightarrow> raise AssertionError
     | Some u \<Rightarrow>
         ret \<lparr>cl_user = u_id u, cl_permissions =
           map (\<lambda>role. (ur_workspace_id role, role_permissions role AND token_mask (tk_permission tkn)))
             (filter (\<lambda>role. case tk_workspace_id tkn of None \<Rightarrow> True | Some ws \<Rightarrow> ws = ur_workspace_id role) (u_roles u))\<rparr>))"

definition create_token ::
  "crypt \<Rightarrow> string \<Rightarrow> user \<Rightarrow> string \<Rightarrow> int option \<Rightarrow> uuid option \<Rightarrow> (api_token_row \<times> string) io" where
  "create_token cr password user name permission workspace_id =
     bind uuid4 (\<lambda>token_id.
     let token = token_text token_id password; token_hash = cr_hash cr token in
     bind (case workspace_id of None \<Rightarrow> ret ()
       | Some i \<Rightarrow> bind (list_workspaces user False) (\<lambda>wss.
           if i \<in> ws_id ` set wss then ret () else raise AssertionError)) (\<lambda>_.
     bind utc (\<lambda>now.
     let entity = \<lparr>tk_id = token_id, tk_name = name, tk_hash = token_hash, tk_user_id = u_id user,
           tk_workspace_id = workspace_id, tk_permission = permission, tk_created_at = now, tk_updated_at = now,
           tk_last_used_at = None\<rparr> in
     bind (gets (\<lambda>w. \<exists>t\<in>set (api_tokens w). tk_id t = token_id \<or> tk_user_id t = u_id user \<and> tk_name t = name)) (\<lambda>exists.
     if exists then raise AssertionError
     else bind (modify (\<lambda>w. w\<lparr>api_tokens := api_tokens w @ [entity]\<rparr>)) (\<lambda>_. ret (entity, token))))))"

definition token_info :: "crypt \<Rightarrow> user \<Rightarrow> string option \<Rightarrow> string option \<Rightarrow> api_token_row option io" where
  "token_info cr user api_token_name api_token =
     (if str_true api_token then
        bind (get_user_token cr (the api_token) False) (\<lambda>result.
        ret (if tk_user_id result = u_id user then Some result else None))
      else if str_true api_token_name then
        bind (gets (\<lambda>w. filter (\<lambda>t. Some (tk_name t) = api_token_name \<and> tk_user_id t = u_id user) (api_tokens w))) (\<lambda>rows.
        lift (case rows of [] \<Rightarrow> Inr None | [t] \<Rightarrow> Inr (Some t) | _ \<Rightarrow> Inl MultipleResultsFound))
      else ret None)"

definition delete_token :: "crypt \<Rightarrow> user \<Rightarrow> string option \<Rightarrow> string option \<Rightarrow> unit io" where
  "delete_token cr user api_token_name api_token =
     bind (token_info cr user api_token_name api_token) (\<lambda>info.
     case info of None \<Rightarrow> ret ()
     | Some t \<Rightarrow> modify (\<lambda>w. w\<lparr>api_tokens := tdel tk_id (tk_id t) (api_tokens w)\<rparr>))"

definition list_tokens :: "user \<Rightarrow> api_token_row list io" where
  "list_tokens user = gets (\<lambda>w. filter (\<lambda>t. tk_user_id t = u_id user) (api_tokens w))"

subsection \<open>A token names its row\<close>

lemma below16: "d < 16 \<Longrightarrow> d \<in> {0, 1, 2, 3, 4, 5, 6, 7, 8, 9, 10, 11, 12, 13, 14, 15}" for d :: nat
  unfolding insert_iff empty_iff by presburger

lemma hex_digit_char: "d < 16 \<Longrightarrow> hex_digit (hex_char d) = Some d"
proof -
  assume "d < 16"
  then have "d \<in> {0, 1, 2, 3, 4, 5, 6, 7, 8, 9, 10, 11, 12, 13, 14, 15}" by (rule below16)
  then show ?thesis by (auto simp: hex_char_def hex_digit_def)
qed

lemma hex_char_plain: "hex_char d \<notin> {CHR ''_'', CHR ''-'', CHR ''+'', CHR ''x'', CHR ''X''} \<and> \<not> ascii_space (hex_char d)"
proof -
  have "d mod 16 \<in> {0, 1, 2, 3, 4, 5, 6, 7, 8, 9, 10, 11, 12, 13, 14, 15}" by (rule below16) simp
  then show ?thesis by (auto simp: hex_char_def ascii_space_def)
qed

lemma hex_digits_plain: "c \<in> set (hex_digits k n) \<Longrightarrow> \<exists>d. c = hex_char d"
  by (induction k arbitrary: n) auto

lemma length_hex_digits [simp]: "length (hex_digits k n) = k"
  by (induction k arbitrary: n) auto

lemma hex_number_append:
  assumes "\<forall>c\<in>set xs. \<exists>d. c = hex_char d" and "xs \<noteq> []"
  shows "hex_number acc b (xs @ [hex_char d]) =
    (case hex_number acc b xs of None \<Rightarrow> None | Some n \<Rightarrow> Some (16 * n + d mod 16))"
  using assms
proof (induction xs arbitrary: acc b)
  case (Cons c cs)
  obtain e where c: "c = hex_char e" using Cons.prems(1) by auto
  have m: "hex_char x = hex_char (x mod 16)" for x by (simp add: hex_char_def)
  have h: "hex_digit (hex_char x) = Some (x mod 16)" for x using hex_digit_char [of "x mod 16"] m [of x] by simp
  show ?case
  proof (cases cs)
    case Nil
    then show ?thesis using hex_char_plain [of d] hex_char_plain [of e] by (simp add: c h)
  next
    case Cons
    then show ?thesis using Cons.IH Cons.prems hex_char_plain [of e] by (simp add: c h)
  qed
qed simp

lemma hex_number_digits: "hex_number 0 False (hex_digits (Suc k) n) = Some (n mod 16 ^ Suc k)"
proof (induction k arbitrary: n)
  case 0
  have "hex_digit (hex_char n) = Some (n mod 16)" using hex_digit_char [of "n mod 16"] by (simp add: hex_char_def)
  then show ?case using hex_char_plain [of n] by simp
next
  case (Suc k)
  have ne: "hex_digits (Suc k) (n div 16) \<noteq> []" by (simp del: hex_digits.simps flip: length_0_conv)
  have "hex_number 0 False (hex_digits (Suc k) (n div 16) @ [hex_char n]) =
      Some (16 * ((n div 16) mod 16 ^ Suc k) + n mod 16)"
    using hex_number_append [OF _ ne, of 0 False n] Suc.IH [of "n div 16"] hex_digits_plain by (auto simp del: hex_digits.simps)
  also have "16 * ((n div 16) mod 16 ^ Suc k) + n mod 16 = n mod 16 ^ Suc (Suc k)"
    using mod_mult2_eq [of n 16 "16 ^ Suc k"] by (simp add: mult.commute)
  finally show ?case by simp
qed

lemma uuid_of_hex_digits: "uuid_of_hex (hex_digits 32 n) = Inr (n mod 16 ^ 32)"
proof -
  let ?h = "hex_digits 32 n"
  obtain a b rest where h: "?h = a # b # rest"
    using length_hex_digits [of 32 n] by (metis One_nat_def length_Cons list.size(3) neq_Nil_conv numeral_eq_one_iff
        numeral_neq_zero semiring_norm(85) zero_neq_numeral)
  have plain: "\<exists>d. c = hex_char d" if "c \<in> set ?h" for c using hex_digits_plain [OF that] .
  have ab: "\<not> ascii_space a" "a \<noteq> CHR ''+''" "b \<noteq> CHR ''x''" "b \<noteq> CHR ''X''"
    using plain [of a] plain [of b] hex_char_plain h by auto
  have "\<not> ascii_space (last ?h)" using plain [of "last ?h"] hex_char_plain h by (metis last_in_set list.discI)
  then have "dropWhile ascii_space (rev ?h) = rev ?h" "dropWhile ascii_space ?h = ?h"
    using ab(1) h hd_rev [of ?h] by (simp_all only: dropWhile_eq_self_iff) auto
  then have "strip ?h = ?h" by (simp add: strip_def)
  then have "int16 ?h = hex_number 0 False ?h" using ab h by (simp add: int16_def)
  also have "\<dots> = Some (n mod 16 ^ 32)" using hex_number_digits [of 31 n] by (simp del: hex_digits.simps)
  finally have "int16 ?h = Some (n mod 16 ^ 32)" .
  moreover have "CHR ''-'' \<notin> set ?h" using plain [of "CHR ''-''"] hex_char_plain by force
  ultimately show ?thesis by (simp add: uuid_of_hex_def)
qed

lemma list_workspaces_same: "snd (list_workspaces u b w) = w"
  by (simp add: list_workspaces_def bind_def split: sum.splits)

lemma create_token_run:
  assumes "create_token cr password user name p scope w = (Inr (tok, api_token), w1)"
  shows "tok = \<lparr>tk_id = next_uuid w, tk_name = name, tk_hash = cr_hash cr api_token, tk_user_id = u_id user,
      tk_workspace_id = scope, tk_permission = p, tk_created_at = clock w, tk_updated_at = clock w, tk_last_used_at = None\<rparr> \<and>
    api_token = token_text (next_uuid w) password \<and> tfind tk_id (next_uuid w) (api_tokens w1) = Some tok \<and> clock w1 = clock w"
proof -
  let ?w = "w\<lparr>next_uuid := Suc (next_uuid w)\<rparr>"
  let ?check = "case scope of None \<Rightarrow> ret ()
       | Some i \<Rightarrow> bind (list_workspaces user False) (\<lambda>wss. if i \<in> ws_id ` set wss then ret () else raise AssertionError)"
  have same: "snd (?check ?w) = ?w"
  proof (cases scope)
    case (Some i)
    obtain r where "list_workspaces user False ?w = (r, ?w)" by (metis list_workspaces_same prod.collapse)
    with Some show ?thesis by (cases r) auto
  qed simp
  then obtain r where r: "?check ?w = (r, ?w)" by (metis prod.collapse)
  have "r = Inr ()" using assms r by (cases r) (simp_all add: create_token_def Let_def)
  then have go: "?check ?w = (Inr (), ?w)" using r by simp
  show ?thesis
    using assms unfolding create_token_def Let_def
    by (auto simp: bind_def go tfind_append dest!: tfind_Some split: if_splits option.splits)
qed

text \<open>
  C12: A token logs its user in with its scope: the text of a new token leads back to its row, and the
  login gives for each workspace of the user that the token is for (all, if for none in particular) the
  permissions of the role there that the token allows; a token created with the permission zero allows all
  of them, like one without a permission.
\<close>

theorem token_login_scope:
  assumes law: "\<And>t. cr_verify_and_update cr t (cr_hash cr t) = (True, None)"
    and created: "create_token cr password user name p scope w = (Inr (tok, api_token), w1)"
    and api_token: "length password = 32" "next_uuid w < 16 ^ 32"
    and user: "user_get (u_id user) w1 = (Inr (Some u), w1)"
  shows "\<exists>w2. login cr api_token w1 = (Inr \<lparr>cl_user = u_id user, cl_permissions =
      map (\<lambda>role. (ur_workspace_id role, role_permissions role AND
            (if p = None \<or> p = Some 0 then all_permissions else the p)))
        (filter (\<lambda>role. scope = None \<or> scope = Some (ur_workspace_id role)) (u_roles u))\<rparr>, w2) \<and>
    tfind tk_id (next_uuid w) (api_tokens w2) = Some (tok\<lparr>tk_last_used_at := Some (clock w)\<rparr>)"
proof -
  note c = create_token_run [OF created]
  let ?tok = "tok\<lparr>tk_last_used_at := Some (clock w)\<rparr>"
  let ?w = "w1\<lparr>api_tokens := tput tk_id ?tok (api_tokens w1)\<rparr>"
  have tok: "tk_id tok = next_uuid w" "tk_hash tok = cr_hash cr api_token" "tk_user_id tok = u_id user" "tk_workspace_id tok = scope"
    "tk_permission tok = p" using c by simp_all
  have len: "length api_token = 68" "take 4 api_token = ''fix_''" "take 32 (drop 4 api_token) = hex_digits 32 (next_uuid w)"
    using c api_token(1) by (simp_all add: token_text_def)
  have "uuid_of_hex (take 32 (drop 4 api_token)) = Inr (next_uuid w)"
    using uuid_of_hex_digits [of "next_uuid w"] api_token(2) len(3) by simp
  then have get: "get_user_token cr api_token True w1 = (Inr ?tok, ?w)"
    using c len law [of api_token] tok(2) by (simp add: get_user_token_def Let_def)
  have u: "user_get (u_id user) ?w = (Inr (Some u), ?w)" and "u_id u = u_id user"
    using user by (auto simp: user_get_def load_user_def dest: tfind_Some)
  have mask: "token_mask p = (if p = None \<or> p = Some 0 then all_permissions else the p)"
    by (auto simp: token_mask_def split: option.splits)
  have sc: "(case scope of None \<Rightarrow> True | Some ws \<Rightarrow> ws = i) \<longleftrightarrow> scope = None \<or> scope = Some i" for i
    by (auto split: option.splits)
  have "tfind tk_id (next_uuid w) (api_tokens ?w) = Some ?tok"
    using tfind_tput_same [of tk_id ?tok "api_tokens w1"] tok(1) by simp
  with get u \<open>u_id u = u_id user\<close> tok show ?thesis by (simp add: login_def mask sc)
qed

definition sample_crypt :: crypt where
  "sample_crypt = \<lparr>cr_hash = (\<lambda>t. t), cr_verify_and_update = (\<lambda>t h. (t = h, None))\<rparr>"

lemma token_login_scope_witness:
  "let w = (empty_world 5 50)\<lparr>users := [sample_user]\<rparr> in
   \<exists>tok api_token w1 claims w2. create_token sample_crypt (replicate 32 CHR ''a'') sample_user ''ci'' (Some 0) None w = (Inr (tok, api_token), w1) \<and>
     login sample_crypt api_token w1 = (Inr claims, w2) \<and> cl_user claims = 2"
proof -
  let ?w = "(empty_world 5 50)\<lparr>users := [sample_user]\<rparr>"
  have "\<exists>tok api_token w1. create_token sample_crypt (replicate 32 CHR ''a'') sample_user ''ci'' (Some 0) None ?w = (Inr (tok, api_token), w1) \<and>
      user_get (u_id sample_user) w1 = (Inr (Some (load_user w1 sample_user)), w1)"
    by (simp add: create_token_def Let_def empty_world_def user_get_def bind_def)
  then obtain tok api_token w1 where c: "create_token sample_crypt (replicate 32 CHR ''a'') sample_user ''ci'' (Some 0) None ?w = (Inr (tok, api_token), w1)"
    "user_get (u_id sample_user) w1 = (Inr (Some (load_user w1 sample_user)), w1)" by blast
  have "next_uuid ?w < 16 ^ 32" by (simp add: empty_world_def)
  from token_login_scope [OF _ c(1) _ this c(2)] obtain claims w2 where
    "login sample_crypt api_token w1 = (Inr claims, w2)" "cl_user claims = u_id sample_user" by (auto simp: sample_crypt_def)
  with c(1) show ?thesis unfolding Let_def by (auto simp: sample_user_def)
qed

text \<open>
  Nobody logs in without the token: a login succeeds only with a text whose hash is stored, it is for
  the user of that row, and every permission it gives is one of a role of this user, in the token's
  workspace where it has one.
\<close>

theorem login_needs_token:
  assumes "login cr api_token w = (Inr claims, w')"
  shows "\<exists>row u. row \<in> set (api_tokens w) \<and> fst (cr_verify_and_update cr api_token (tk_hash row)) \<and>
    user_get (tk_user_id row) w = (Inr (Some u), w) \<and> cl_user claims = tk_user_id row \<and>
    (\<forall>(ws, perms) \<in> set (cl_permissions claims). (tk_workspace_id row = None \<or> tk_workspace_id row = Some ws) \<and>
       (\<exists>role\<in>set (u_roles u). ur_workspace_id role = ws \<and> perms = role_permissions role AND token_mask (tk_permission row)))"
proof -
  obtain i where ok: "length api_token = 68" "take 4 api_token = ''fix_''" "uuid_of_hex (take 32 (drop 4 api_token)) = Inr i"
    using assms by (cases "uuid_of_hex (take 32 (drop 4 api_token))") (auto simp: login_def get_user_token_def bind_def split: if_splits)
  obtain row where row: "tfind tk_id i (api_tokens w) = Some row"
    using assms ok by (cases "tfind tk_id i (api_tokens w)") (auto simp: login_def get_user_token_def bind_def)
  obtain v h where v: "cr_verify_and_update cr api_token (tk_hash row) = (v, h)" by fastforce
  let ?r1 = "if str_true h then row\<lparr>tk_hash := the h\<rparr> else row"
  define r where "r = ?r1\<lparr>tk_last_used_at := Some (clock w)\<rparr>"
  let ?w = "w\<lparr>api_tokens := tput tk_id r (api_tokens w)\<rparr>"
  have "v" using assms ok row v by (cases v) (auto simp: login_def get_user_token_def bind_def)
  then have get: "get_user_token cr api_token True w = (Inr r, ?w)"
    using ok row v by (simp add: get_user_token_def Let_def r_def)
  have sel: "tk_user_id r = tk_user_id row" "tk_workspace_id r = tk_workspace_id row" "tk_permission r = tk_permission row"
    by (simp_all add: r_def)
  have "tfind u_id (tk_user_id row) (users w) \<noteq> None"
  proof
    assume "tfind u_id (tk_user_id row) (users w) = None"
    then have "login cr api_token w = (Inl AssertionError, ?w)" using get sel by (simp add: login_def user_get_def)
    with assms show False by simp
  qed
  then obtain u where u: "tfind u_id (tk_user_id row) (users w) = Some u" by blast
  have lu: "load_user ?w u = load_user w u" "u_id (load_user w u) = tk_user_id row"
    using tfind_Some [OF u] by (simp_all add: load_user_def)
  have user: "user_get (tk_user_id r) ?w = (Inr (Some (load_user w u)), ?w)" by (simp add: user_get_def sel u lu)
  have "login cr api_token w = (Inr \<lparr>cl_user = tk_user_id row, cl_permissions =
      map (\<lambda>role. (ur_workspace_id role, role_permissions role AND token_mask (tk_permission row)))
        (filter (\<lambda>role. case tk_workspace_id row of None \<Rightarrow> True | Some ws \<Rightarrow> ws = ur_workspace_id role)
          (u_roles (load_user w u)))\<rparr>, ?w)"
    unfolding login_def bind_Inr [where m = "get_user_token cr api_token True" and w = w, OF get]
      bind_Inr [where m = "user_get (tk_user_id r)" and w = ?w, OF user] by (simp add: sel lu)
  then have claims: "claims = \<lparr>cl_user = tk_user_id row, cl_permissions =
      map (\<lambda>role. (ur_workspace_id role, role_permissions role AND token_mask (tk_permission row)))
        (filter (\<lambda>role. case tk_workspace_id row of None \<Rightarrow> True | Some ws \<Rightarrow> ws = ur_workspace_id role)
          (u_roles (load_user w u)))\<rparr>"
    using assms by (simp only: prod.inject sum.inject)
  have perms: "\<forall>(ws, perms) \<in> set (cl_permissions claims). (tk_workspace_id row = None \<or> tk_workspace_id row = Some ws) \<and>
       (\<exists>role\<in>set (u_roles (load_user w u)). ur_workspace_id role = ws \<and>
          perms = role_permissions role AND token_mask (tk_permission row))"
    unfolding claims by (cases "tk_workspace_id row") auto
  have f: "row \<in> set (api_tokens w)" "fst (cr_verify_and_update cr api_token (tk_hash row))"
    "user_get (tk_user_id row) w = (Inr (Some (load_user w u)), w)" "cl_user claims = tk_user_id row"
    using tfind_Some [OF row] v \<open>v\<close> u by (simp_all add: user_get_def claims)
  show ?thesis by (intro exI [where x = row] exI [where x = "load_user w u"] conjI f perms)
qed

lemma login_needs_token_witness:
  "let row = \<lparr>tk_id = 10, tk_name = ''ci'', tk_hash = token_text 10 (replicate 32 CHR ''a''), tk_user_id = 2,
        tk_workspace_id = None, tk_permission = Some 1, tk_created_at = 0, tk_updated_at = 0, tk_last_used_at = None\<rparr>;
       w = (empty_world 5 50)\<lparr>users := [sample_user], api_tokens := [row]\<rparr> in
   \<exists>claims w'. login sample_crypt (token_text 10 (replicate 32 CHR ''a'')) w = (Inr claims, w') \<and> cl_user claims = 2"
proof -
  let ?api_token = "token_text 10 (replicate 32 CHR ''a'')"
  let ?row = "\<lparr>tk_id = 10, tk_name = ''ci'', tk_hash = ?api_token, tk_user_id = 2,
        tk_workspace_id = None, tk_permission = Some 1, tk_created_at = 0, tk_updated_at = 0, tk_last_used_at = None\<rparr>"
  let ?w = "(empty_world 5 50)\<lparr>users := [sample_user], api_tokens := [?row]\<rparr>"
  have "length ?api_token = 68" "take 4 ?api_token = ''fix_''" "take 32 (drop 4 ?api_token) = hex_digits 32 10"
    by (simp_all add: token_text_def del: hex_digits.simps replicate.simps)
  moreover have "uuid_of_hex (hex_digits 32 10) = Inr 10" using uuid_of_hex_digits [of 10] by simp
  ultimately have "\<exists>claims w'. login sample_crypt ?api_token ?w = (Inr claims, w')"
    by (simp add: login_def get_user_token_def sample_crypt_def user_get_def sample_user_def Let_def del: hex_digits.simps replicate.simps)
  then obtain claims w' where run: "login sample_crypt ?api_token ?w = (Inr claims, w')" by blast
  from login_needs_token [OF run] have "cl_user claims = 2" by auto
  with run show ?thesis unfolding Let_def by blast
qed

end
