(* ===== verification/Account_Import.thy ===== *)
theory Account_Import
  imports Cloud_Account_Effects
begin

section \<open>Importing the accounts that a credential reaches\<close>

text \<open>
  The services for GCP keys and Azure credentials list what a credential reaches and create one
  cloud account for each entry. The locale \<open>account_import\<close> states what both loops rely on: an
  account that is known stays as it is, an unknown one is appended, configured, and enabled as long
  as the limit of the tier allows it. The lemmas inside it follow the loop to its end.
\<close>

definition has_account :: "uuid \<Rightarrow> string \<Rightarrow> world \<Rightarrow> bool" where
  "has_account ws account_id w \<longleftrightarrow>
     (\<exists>r\<in>set (accounts w). r_tenant_id r = ws \<and> r_account_id r = account_id)"

definition live_count :: "uuid \<Rightarrow> world \<Rightarrow> nat" where
  "live_count ws w = length (filter (\<lambda>r. r_tenant_id r = ws \<and> non_deleted_row r) (accounts w))"

text \<open>Whether the next account of a workspace with \<open>n\<close> accounts is enabled.\<close>

definition may_enable :: "workspace \<Rightarrow> datetime \<Rightarrow> nat \<Rightarrow> bool" where
  "may_enable m now n \<longleftrightarrow> ws_payment_on_hold_since m = None \<and>
     (case account_limit (product_tier_settings (current_product_tier now m)) of
        None \<Rightarrow> True | Some limit \<Rightarrow> n < limit)"

definition imported_row ::
  "world \<Rightarrow> workspace \<Rightarrow> string \<Rightarrow> cloud_access \<Rightarrow> uuid \<Rightarrow> string \<Rightarrow> string option \<Rightarrow> account_row" where
  "imported_row w m cloud access ws account_id name =
     (let e = may_enable m (clock w) (live_count ws w) in
      new_row (fresh_account (next_uuid w) account_id ws cloud (Configured access e e) name (clock w)))"

lemma should_be_enabled_run:
  "should_be_enabled m w = (Inr (may_enable m (clock w) (live_count (ws_id m) w)), w)"
  by (cases "current_product_tier (clock w) m = Free"; cases "ws_payment_on_hold_since m")
    (simp_all add: should_be_enabled_def may_enable_def live_count_def count_by_workspace_id_def bind_def
      limit_of_def not_le free_setting_def)

lemma new_row_configured:
  assumes "ca_state a = Configured access e s"
  shows "r_enabled (new_row a) = e" "r_state (new_row a) = Some ''configured''"
  using assms
  by (cases access; simp add: new_row_def update_state_dependent_fields_def Let_def)+

lemma imported_row_fields:
  fixes w :: world and m :: workspace and ws :: uuid and a :: string and n :: "string option"
  assumes "access_cloud access = cloud"
  defines "row \<equiv> imported_row w m cloud access ws a n"
    and "e \<equiv> may_enable m (clock w) (live_count ws w)"
  shows "r_id row = next_uuid w" "r_tenant_id row = ws" "r_account_id row = a" "r_cloud row = cloud"
    "r_enabled row = e" "r_state row = Some ''configured''" "row_state row = Inr (Configured access e e)"
  using assms
  by (simp_all add: imported_row_def Let_def fresh_account_def row_state_new new_row_configured)

lemma find_account_run:
  assumes "accounts_ok w" and "has_account ws a w"
  shows "\<exists>acc. repo_get_by_account_id ws a w = (Inr (Some acc), w)"
proof -
  obtain r where r: "find (\<lambda>r. r_tenant_id r = ws \<and> r_account_id r = a) (accounts w) = Some r" "r \<in> set (accounts w)"
    using assms(2) by (cases "find (\<lambda>r. r_tenant_id r = ws \<and> r_account_id r = a) (accounts w)")
      (auto simp: has_account_def find_None_iff find_Some_iff)
  then have "readable r" using assms(1) by (auto simp: accounts_ok_def row_ok_def)
  from readable_to_model [OF this] obtain acc where "to_model (next_scan_of ws w) r = Inr acc" by blast
  then show ?thesis using r by (auto simp: repo_get_by_account_id_def run_defs next_scan_of_def)
qed

lemma find_account_none:
  assumes "\<not> has_account ws a w"
  shows "repo_get_by_account_id ws a w = (Inr None, w)"
proof -
  have "find (\<lambda>r. r_tenant_id r = ws \<and> r_account_id r = a) (accounts w) = None"
    using assms by (auto simp: find_None_iff has_account_def)
  then show ?thesis by (simp add: repo_get_by_account_id_def)
qed

text \<open>The two cases of \<open>create_gcp_account\<close> and \<open>create_azure_account\<close>.\<close>

definition appended :: "account_row \<Rightarrow> domain_event \<Rightarrow> world \<Rightarrow> world" where
  "appended row e w = w\<lparr>accounts := accounts w @ [row], next_uuid := Suc (next_uuid w), events := events w @ [e]\<rparr>"

lemma insert_imported:
  fixes w :: world and m :: workspace and n :: "string option"
  assumes "accounts_ok w" and "\<not> has_account ws a w" and "access_cloud access = cloud"
    and "cloud = ''aws'' \<longleftrightarrow> aws_account_id a"
  defines "e \<equiv> may_enable m (clock w) (live_count ws w)"
    and "row \<equiv> imported_row w m cloud access ws a n"
  shows "repo_create (fresh_account (next_uuid w) a ws cloud
        (Configured access e e) n (clock w)) (w\<lparr>next_uuid := Suc (next_uuid w)\<rparr>) =
      (to_model (next_scan_of ws w) row, w\<lparr>next_uuid := Suc (next_uuid w), accounts := accounts w @ [row]\<rparr>)"
    "\<exists>acc. to_model (next_scan_of ws w) row = Inr acc \<and> ca_id acc = next_uuid w"
    "accounts_ok (appended row ev w)"
proof -
  note row = imported_row_fields [OF assms(3), of w m ws a n, folded row_def]
  let ?acc = "fresh_account (next_uuid w) a ws cloud (Configured access e e) n (clock w)"
  have new: "new_row ?acc = row" by (simp add: row_def e_def imported_row_def Let_def)
  have fresh: "\<forall>r\<in>set (accounts w). r_id r \<noteq> next_uuid w \<and> (r_tenant_id r, r_account_id r) \<noteq> (ws, a)"
    using assms(1,2) by (auto simp: accounts_ok_def row_ok_def has_account_def)
  have cloud: "cloud \<in> {''aws'', ''gcp'', ''azure''}" using assms(3) by (cases access) auto
  show "repo_create ?acc (w\<lparr>next_uuid := Suc (next_uuid w)\<rparr>) =
      (to_model (next_scan_of ws w) row, w\<lparr>next_uuid := Suc (next_uuid w), accounts := accounts w @ [row]\<rparr>)"
    using fresh cloud row new
    by (auto simp: repo_create_def insert_account_def bind_def next_scan_of_def fresh_account_def)
  have readable: "readable row" using new readable_new [of ?acc] assms(3) by (simp add: fresh_account_def)
  from readable_to_model [OF this] row(1) show "\<exists>acc. to_model (next_scan_of ws w) row = Inr acc \<and> ca_id acc = next_uuid w"
    by (metis to_model_fields(1))
  show "accounts_ok (appended row ev w)"
    using assms(1,4) fresh readable row(1-4)
    by (auto simp: accounts_ok_def appended_def row_ok_def less_Suc_eq)
qed

lemma get_workspace_id: "get_workspace ws w = (Inr (Some m), w') \<Longrightarrow> ws_id m = ws"
  by (auto simp: get_workspace_run org_to_model_fields(1) dest!: tfind_Some split: option.splits sum.splits)

lemma create_known:
  assumes "accounts_ok w" and "get_workspace ws w = (Inr (Some m), w)" and "has_account ws a w"
  shows "\<exists>acc. create_gcp_account ws a k n w = (Inr acc, w)" "\<exists>acc. create_azure_account ws a k n w = (Inr acc, w)"
  using assms(2) find_account_run [OF assms(1,3)]
  by (auto simp: create_gcp_account_def create_azure_account_def)

lemma create_unknown:
  fixes n :: "string option" and k :: uuid
  assumes "accounts_ok w" and "get_workspace ws w = (Inr (Some m), w)" and "\<not> has_account ws a w"
    and "\<not> aws_account_id a"
  shows "\<exists>acc. create_gcp_account ws a k n w = (Inr acc, appended (imported_row w m ''gcp'' (GcpCloudAccess k) ws a n)
      (CloudAccountConfigured ''gcp'' (next_uuid w) ws a) w)"
    "\<exists>acc. create_azure_account ws a k n w = (Inr acc, appended (imported_row w m ''azure'' (AzureCloudAccess k) ws a n)
      (CloudAccountConfigured ''azure'' (next_uuid w) ws a) w)"
proof -
  have ws: "ws_id m = ws" using get_workspace_id [OF assms(2)] .
  note run = assms(2) find_account_none [OF assms(3)] should_be_enabled_run ws
  have aws: "''gcp'' = ''aws'' \<longleftrightarrow> aws_account_id a" "''azure'' = ''aws'' \<longleftrightarrow> aws_account_id a"
    using assms(4) by simp_all
  note gcp = insert_imported [where n = n and m = m, OF assms(1,3) _ aws(1), of "GcpCloudAccess k"]
  note azure = insert_imported [where n = n and m = m, OF assms(1,3) _ aws(2), of "AzureCloudAccess k"]
  show "\<exists>acc. create_gcp_account ws a k n w = (Inr acc, appended (imported_row w m ''gcp'' (GcpCloudAccess k) ws a n)
      (CloudAccountConfigured ''gcp'' (next_uuid w) ws a) w)"
    using gcp(1,2) by (auto simp: create_gcp_account_def run appended_def)
  show "\<exists>acc. create_azure_account ws a k n w = (Inr acc, appended (imported_row w m ''azure'' (AzureCloudAccess k) ws a n)
      (CloudAccountConfigured ''azure'' (next_uuid w) ws a) w)"
    using azure(1,2) by (auto simp: create_azure_account_def run appended_def)
qed

subsection \<open>The loop over what a credential lists\<close>

text \<open>
  The result of an import: the rows \<open>news\<close> for the ids that were unknown, one for each, configured
  with the credential \<open>k\<close>; the first of them are enabled as far as the limit goes.
\<close>

definition imported ::
  "uuid \<Rightarrow> workspace \<Rightarrow> string \<Rightarrow> cloud_access \<Rightarrow> string list \<Rightarrow> world \<Rightarrow> world \<Rightarrow> account_row list \<Rightarrow> bool" where
  "imported ws m cloud access ids w w' news \<longleftrightarrow>
     w' = w\<lparr>accounts := accounts w @ news, next_uuid := next_uuid w', events := events w'\<rparr> \<and> accounts_ok w' \<and>
     r_account_id ` set news = {i \<in> set ids. \<not> has_account ws i w} \<and>
     (\<forall>r\<in>set news. r_tenant_id r = ws \<and> r_cloud r = cloud \<and>
        row_state r = Inr (Configured access (r_enabled r) (r_enabled r)) \<and> non_deleted_row r) \<and>
     map r_enabled news = map (\<lambda>j. may_enable m (clock w) (live_count ws w + j)) [0..<length news] \<and>
     length (events w') = length (events w) + length news"

lemma imported_facts:
  assumes "imported ws m cloud access ids w w' news"
  shows "accounts w' = accounts w @ news" "accounts_ok w'" "r_account_id ` set news = {i \<in> set ids. \<not> has_account ws i w}"
    "r \<in> set news \<Longrightarrow> r_tenant_id r = ws \<and> r_cloud r = cloud \<and>
       row_state r = Inr (Configured access (r_enabled r) (r_enabled r)) \<and> non_deleted_row r"
    "map r_enabled news = map (\<lambda>j. may_enable m (clock w) (live_count ws w + j)) [0..<length news]"
    "length (events w') = length (events w) + length news"
proof -
  have "w' = w\<lparr>accounts := accounts w @ news, next_uuid := next_uuid w', events := events w'\<rparr>"
    using assms by (simp add: imported_def)
  from arg_cong [OF this, of accounts] show "accounts w' = accounts w @ news" by simp
qed (use assms in \<open>unfold imported_def, blast+\<close>)

lemma imported_frame:
  assumes "imported ws m cloud access ids w w' news"
  shows "orgs w' = orgs w" "members w' = members w" "gcp_keys w' = gcp_keys w"
    "azure_credentials w' = azure_credentials w" "clock w' = clock w"
proof -
  have "w' = w\<lparr>accounts := accounts w @ news, next_uuid := next_uuid w', events := events w'\<rparr>"
    using assms by (simp add: imported_def)
  from arg_cong [OF this, of orgs] arg_cong [OF this, of members] arg_cong [OF this, of gcp_keys]
    arg_cong [OF this, of azure_credentials] arg_cong [OF this, of clock]
  show "orgs w' = orgs w" "members w' = members w" "gcp_keys w' = gcp_keys w"
    "azure_credentials w' = azure_credentials w" "clock w' = clock w" by simp_all
qed

lemma get_workspace_tables:
  "orgs w' = orgs w \<Longrightarrow> members w' = members w \<Longrightarrow> get_workspace ws w = (r, w) \<Longrightarrow> get_workspace ws w' = (r, w')"
  by (simp add: get_workspace_run members_of_def split: option.splits sum.splits)

lemma imported_workspace:
  "imported ws' m cloud access ids w w' news \<Longrightarrow> get_workspace ws w = (r, w) \<Longrightarrow> get_workspace ws w' = (r, w')"
  using get_workspace_tables imported_frame by blast

definition create_each ::
  "(uuid \<Rightarrow> string \<Rightarrow> uuid \<Rightarrow> string option \<Rightarrow> account io) \<Rightarrow> uuid \<Rightarrow> uuid \<Rightarrow> (string \<times> string option) list \<Rightarrow> unit io" where
  "create_each create ws k ps = for_each (\<lambda>p. bind (create ws (fst p) k (snd p)) (\<lambda>_. ret ())) ps"

lemma create_each_simps:
  "create_each create ws k [] w = (Inr (), w)"
  "create ws a k n w = (Inr acc, w1) \<Longrightarrow> create_each create ws k ((a, n) # ps) w = create_each create ws k ps w1"
  by (simp_all add: create_each_def)

locale account_import =
  fixes create :: "uuid \<Rightarrow> string \<Rightarrow> uuid \<Rightarrow> string option \<Rightarrow> account io"
    and cloud :: string and access :: "uuid \<Rightarrow> cloud_access"
  assumes access: "access_cloud (access k) = cloud" and not_aws: "cloud \<noteq> ''aws''"
    and known: "accounts_ok w \<Longrightarrow> get_workspace ws w = (Inr (Some m), w) \<Longrightarrow> has_account ws a w \<Longrightarrow>
      \<exists>acc. create ws a k n w = (Inr acc, w)"
    and unknown: "accounts_ok w \<Longrightarrow> get_workspace ws w = (Inr (Some m), w) \<Longrightarrow> \<not> has_account ws a w \<Longrightarrow>
      \<not> aws_account_id a \<Longrightarrow> \<exists>acc ev. create ws a k n w =
        (Inr acc, appended (imported_row w m cloud (access k) ws a n) ev w)"
begin

lemma step:
  assumes "accounts_ok w" and "get_workspace ws w = (Inr (Some m), w)" and "\<not> has_account ws a w"
    and "\<not> aws_account_id a"
  shows "\<exists>acc w' row. create ws a k n w = (Inr acc, w') \<and> imported ws m cloud (access k) [a] w w' [row]"
proof -
  let ?row = "imported_row w m cloud (access k) ws a n"
  obtain acc ev where run: "create ws a k n w = (Inr acc, appended ?row ev w)"
    using unknown [OF assms] by blast
  have ok: "accounts_ok (appended ?row ev w)"
    by (rule insert_imported(3)) (use assms access not_aws in auto)
  have "imported ws m cloud (access k) [a] w (appended ?row ev w) [?row]"
    using ok assms(3) imported_row_fields [OF access [of k], where w = w and m = m and ws = ws and a = a and n = n]
    by (auto simp: imported_def appended_def non_deleted_row_def)
  with run show ?thesis by blast
qed

lemma extend:
  assumes "imported ws m cloud (access k) [a] w w1 [row]" and "imported ws m cloud (access k) ids w1 w2 news"
  shows "imported ws m cloud (access k) (a # ids) w w2 (row # news)"
proof -
  have w1: "w1 = w\<lparr>accounts := accounts w @ [row], next_uuid := next_uuid w1, events := events w1\<rparr>"
    and w2: "w2 = w1\<lparr>accounts := accounts w1 @ news, next_uuid := next_uuid w2, events := events w2\<rparr>"
    using assms by (simp_all add: imported_def)
  note one = imported_facts [OF assms(1)] imported_frame [OF assms(1)] and rest = imported_facts [OF assms(2)]
  have acc: "accounts w1 = accounts w @ [row]" "clock w1 = clock w" using one by simp_all
  have "r_account_id row \<in> {i \<in> set [a]. \<not> has_account ws i w}"
    unfolding one(3) [symmetric] by simp
  then have row: "r_tenant_id row = ws" "r_account_id row = a" "non_deleted_row row" "\<not> has_account ws a w"
    using one(4) [of row] by auto
  have has: "has_account ws i w1 \<longleftrightarrow> has_account ws i w \<or> i = a" for i
    unfolding has_account_def acc(1) by (auto simp: row)
  have count: "live_count ws w1 = Suc (live_count ws w)"
    unfolding live_count_def acc(1) by (simp add: row)
  have "map r_enabled [row] = [may_enable m (clock w) (live_count ws w)]"
    "map r_enabled news = map (\<lambda>j. may_enable m (clock w1) (live_count ws w1 + j)) [0..<length news]"
    using one(5) rest(5) by simp_all
  then have "map r_enabled (row # news) = map (\<lambda>j. may_enable m (clock w) (live_count ws w + j)) [0..<length (row # news)]"
    by (simp add: acc count map_upt_Suc del: upt_Suc)
  moreover have "w2 = w\<lparr>accounts := accounts w @ row # news, next_uuid := next_uuid w2, events := events w2\<rparr>"
    using w2 unfolding acc(1) by (subst (asm) w1) simp
  moreover have "r_account_id ` set (row # news) = {i \<in> set (a # ids). \<not> has_account ws i w}"
    using row by (simp add: rest(3) has) blast
  moreover have "\<forall>r\<in>set (row # news). r_tenant_id r = ws \<and> r_cloud r = cloud \<and>
       row_state r = Inr (Configured (access k) (r_enabled r) (r_enabled r)) \<and> non_deleted_row r"
    using one(4) rest(4) by simp
  moreover have "length (events w2) = length (events w) + length (row # news)" using one(6) rest(6) by simp
  ultimately show ?thesis using rest(2) unfolding imported_def by blast
qed

lemma import_all:
  assumes "accounts_ok w" and "get_workspace ws w = (Inr (Some m), w)" and "\<forall>p\<in>set ps. \<not> aws_account_id (fst p)"
  shows "\<exists>w' news. create_each create ws k ps w = (Inr (), w') \<and>
    imported ws m cloud (access k) (map fst ps) w w' news"
  using assms
proof (induction ps arbitrary: w)
  case Nil
  then show ?case by (intro exI [of _ w] exI [of _ "[]"]) (simp add: imported_def create_each_simps)
next
  case (Cons p ps)
  obtain a n where p: "p = (a, n)" by force
  show ?case
  proof (cases "has_account ws a w")
    case True
    with known [OF Cons.prems(1,2), where a = a and k = k and n = n] obtain acc where run: "create ws a k n w = (Inr acc, w)" by blast
    obtain w' news where rest: "create_each create ws k ps w = (Inr (), w')"
      "imported ws m cloud (access k) (map fst ps) w w' news"
      using Cons.IH [OF Cons.prems(1,2)] Cons.prems(3) by auto
    have "{i \<in> set (map fst (p # ps)). \<not> has_account ws i w} = {i \<in> set (map fst ps). \<not> has_account ws i w}"
      using True p by auto
    with rest(2) have "imported ws m cloud (access k) (map fst (p # ps)) w w' news"
      unfolding imported_def by presburger
    then show ?thesis using rest(1) run p by (auto simp: create_each_simps)
  next
    case False
    obtain acc w1 row where one: "create ws a k n w = (Inr acc, w1)" "imported ws m cloud (access k) [a] w w1 [row]"
      using step [OF Cons.prems(1,2) False] Cons.prems(3) p by fastforce
    have "get_workspace ws w1 = (Inr (Some m), w1)" "accounts_ok w1"
      using imported_workspace [OF one(2) Cons.prems(2)] imported_facts(2) [OF one(2)] by simp_all
    then obtain w' news where rest: "create_each create ws k ps w1 = (Inr (), w')"
      "imported ws m cloud (access k) (map fst ps) w1 w' news"
      using Cons.IH [of w1] Cons.prems(3) by auto
    have "imported ws m cloud (access k) (map fst (p # ps)) w w' (row # news)"
      using extend [OF one(2) rest(2)] p by simp
    then show ?thesis using one(1) rest(1) p by (auto simp: create_each_simps)
  qed
qed

end

interpretation gcp_import: account_import create_gcp_account "''gcp''" GcpCloudAccess
  by unfold_locales (simp, simp, rule create_known(1), assumption+, meson create_unknown(1))

interpretation azure_import: account_import create_azure_account "''azure''" AzureCloudAccess
  by unfold_locales (simp, simp, rule create_known(2), assumption+, meson create_unknown(2))

end
