(* ===== verification/Gcp_Credentials.thy ===== *)
theory Gcp_Credentials
  imports Account_Import
begin

section \<open>GCP service account keys\<close>

text \<open>
  \<open>GcpServiceAccountKeyRepository\<close> of \<open>cloud_accounts/gcp_service_account_repo.py\<close> over the table
  \<open>gcp_service_account_key\<close>, and \<open>GcpServiceAccountService\<close> of \<open>cloud_accounts/gcp_service_account_service.py\<close>,
  which checks the keys and creates an account for each project they reach. The resource manager of
  Google is a parameter: for a key it answers with the pages of projects or with an exception. The
  tasks of a task group run in the order in which they are created; a failed task ends the group.
\<close>

subsection \<open>The repository\<close>

text \<open>A workspace has at most one key: a new value replaces the old one and its verdict.\<close>

definition gcp_upsert :: "uuid \<Rightarrow> string \<Rightarrow> gcp_key_row io" where
  "gcp_upsert tenant_id v =
     bind (gets (\<lambda>w. find (\<lambda>k. gk_tenant_id k = tenant_id) (gcp_keys w))) (\<lambda>found.
     bind utc (\<lambda>now.
     case found of
       Some existing \<Rightarrow>
         let model = existing\<lparr>gk_value := v, gk_can_access_sa := None, gk_created_at := now, gk_error := None\<rparr> in
         bind (modify (\<lambda>w. w\<lparr>gcp_keys := tput gk_id model (gcp_keys w)\<rparr>)) (\<lambda>_. ret model)
     | None \<Rightarrow>
         bind uuid4 (\<lambda>i.
         let entity = \<lparr>gk_id = i, gk_tenant_id = tenant_id, gk_value = v, gk_can_access_sa = None,
               gk_error = None, gk_created_at = now, gk_updated_at = now\<rparr> in
         bind (modify (\<lambda>w. w\<lparr>gcp_keys := gcp_keys w @ [entity]\<rparr>)) (\<lambda>_. ret entity))))"

definition gcp_get :: "uuid \<Rightarrow> gcp_key_row option io" where
  "gcp_get key_id = gets (\<lambda>w. tfind gk_id key_id (gcp_keys w))"

definition gcp_get_by_tenant :: "uuid \<Rightarrow> gcp_key_row option io" where
  "gcp_get_by_tenant tenant_id = gets (\<lambda>w. find (\<lambda>k. gk_tenant_id k = tenant_id) (gcp_keys w))"

definition gcp_list_created_after :: "datetime \<Rightarrow> bool \<Rightarrow> gcp_key_row list io" where
  "gcp_list_created_after time only_valid_keys =
     gets (\<lambda>w. filter (\<lambda>k. time < gk_created_at k \<and>
       (only_valid_keys \<longrightarrow> gk_can_access_sa k = Some True \<or> gk_can_access_sa k = None)) (gcp_keys w))"

definition gcp_list_created_before :: "datetime \<Rightarrow> bool \<Rightarrow> gcp_key_row list io" where
  "gcp_list_created_before time only_valid_keys =
     gets (\<lambda>w. filter (\<lambda>k. gk_created_at k < time \<and>
       (only_valid_keys \<longrightarrow> gk_can_access_sa k = Some True \<or> gk_can_access_sa k = None)) (gcp_keys w))"

definition gcp_update_status :: "uuid \<Rightarrow> bool \<Rightarrow> string option \<Rightarrow> gcp_key_row io" where
  "gcp_update_status key_id can_access_sa err =
     bind (gets (\<lambda>w. tfind gk_id key_id (gcp_keys w))) (\<lambda>found.
     case found of None \<Rightarrow> raise ResourceNotFound
     | Some entity \<Rightarrow>
         let entity = entity\<lparr>gk_can_access_sa := Some can_access_sa, gk_error := err\<rparr> in
         bind (modify (\<lambda>w. w\<lparr>gcp_keys := tput gk_id entity (gcp_keys w)\<rparr>)) (\<lambda>_. ret entity))"

definition gcp_delete :: "uuid \<Rightarrow> unit io" where
  "gcp_delete key_id =
     bind (gets (\<lambda>w. tfind gk_id key_id (gcp_keys w))) (\<lambda>found.
     case found of None \<Rightarrow> ret ()
     | Some _ \<Rightarrow> modify (\<lambda>w. w\<lparr>gcp_keys := tdel gk_id key_id (gcp_keys w)\<rparr>))"

subsection \<open>The service\<close>

datatype gcp_failure =
    MalformedError
  | HttpError string
      \<comment> \<open>the reason\<close>
  | OtherError string
      \<comment> \<open>the text of any other exception\<close>

record gcp_project =
  gp_project_id :: "string option"
  gp_name :: "string option"

type_synonym gcp_api = "string \<Rightarrow> gcp_failure + gcp_project list list"

text \<open>The loop over the pages; the projects that GCP creates for itself are left out.\<close>

definition internal_project :: "gcp_project \<Rightarrow> bool" where
  "internal_project p \<longleftrightarrow> take 4 (case gp_project_id p of None \<Rightarrow> [] | Some i \<Rightarrow> i) = ''sys-''"

fun collect_pages :: "gcp_project list list \<Rightarrow> gcp_project list" where
  "collect_pages [] = []"
| "collect_pages (page # pages) = filter (\<lambda>p. \<not> internal_project p) page @ collect_pages pages"

definition list_projects :: "gcp_api \<Rightarrow> string \<Rightarrow> gcp_failure + gcp_project list" where
  "list_projects gcp service_account_key =
     (case gcp service_account_key of Inl e \<Rightarrow> Inl e | Inr pages \<Rightarrow> Inr (collect_pages pages))"

definition gcp_update_cloud_accounts :: "gcp_project list \<Rightarrow> uuid \<Rightarrow> uuid \<Rightarrow> unit io" where
  "gcp_update_cloud_accounts projects tenant_id key_id =
     for_each (\<lambda>project. case gp_project_id project of None \<Rightarrow> raise KeyError
       | Some i \<Rightarrow> bind (create_gcp_account tenant_id i key_id (gp_name project)) (\<lambda>_. ret ())) projects"

definition import_projects :: "gcp_api \<Rightarrow> gcp_key_row \<Rightarrow> unit io" where
  "import_projects gcp key =
     (case list_projects gcp (gk_value key) of
        Inl MalformedError \<Rightarrow> bind (gcp_update_status (gk_id key) False (Some ''Malformed JSON'')) (\<lambda>_. ret ())
      | Inl (HttpError reason) \<Rightarrow> bind (gcp_update_status (gk_id key) False (Some reason)) (\<lambda>_. ret ())
      | Inl (OtherError e) \<Rightarrow> bind (gcp_update_status (gk_id key) False (Some e)) (\<lambda>_. ret ())
      | Inr projects \<Rightarrow>
          bind (gcp_update_status (gk_id key) True None) (\<lambda>_.
          gcp_update_cloud_accounts projects (gk_tenant_id key) (gk_id key)))"

definition ping_new_service_account_keys :: "gcp_api \<Rightarrow> unit io" where
  "ping_new_service_account_keys gcp =
     bind utc (\<lambda>now.
     bind (gcp_list_created_after (now - td_minutes 30) False) (\<lambda>keys.
     for_each (import_projects gcp) keys))"

definition service_account_healthcheck :: "gcp_api \<Rightarrow> unit io" where
  "service_account_healthcheck gcp =
     bind utc (\<lambda>now.
     bind (gcp_list_created_before (now - td_hours 1) True) (\<lambda>keys.
     for_each (import_projects gcp) keys))"

subsection \<open>What a check of a key leaves behind\<close>

interpretation gcp_key_table: db_table gcp_keys "\<lambda>rs w. w\<lparr>gcp_keys := rs\<rparr>" gk_id
  by unfold_locales simp_all

definition verdict :: "gcp_api \<Rightarrow> gcp_key_row \<Rightarrow> bool \<times> string option" where
  "verdict gcp key = (case list_projects gcp (gk_value key) of
       Inl MalformedError \<Rightarrow> (False, Some ''Malformed JSON'') | Inl (HttpError reason) \<Rightarrow> (False, Some reason)
     | Inl (OtherError e) \<Rightarrow> (False, Some e) | Inr _ \<Rightarrow> (True, None))"

definition judge :: "gcp_api \<Rightarrow> gcp_key_row \<Rightarrow> gcp_key_row" where
  "judge gcp key = key\<lparr>gk_can_access_sa := Some (fst (verdict gcp key)), gk_error := snd (verdict gcp key)\<rparr>"

definition judged :: "gcp_api \<Rightarrow> gcp_key_row \<Rightarrow> world \<Rightarrow> world" where
  "judged gcp key w = w\<lparr>gcp_keys := tput gk_id (judge gcp key) (gcp_keys w)\<rparr>"

definition reached :: "gcp_api \<Rightarrow> gcp_key_row \<Rightarrow> string list" where
  "reached gcp key = (case list_projects gcp (gk_value key) of Inl _ \<Rightarrow> []
     | Inr projects \<Rightarrow> map (the \<circ> gp_project_id) projects)"

text \<open>Documented behaviour of GCP: a project has an id, which starts with a letter.\<close>

definition projects_named :: "gcp_api \<Rightarrow> string \<Rightarrow> bool" where
  "projects_named gcp v \<longleftrightarrow> (\<forall>pages page p. gcp v = Inr pages \<longrightarrow> page \<in> set pages \<longrightarrow> p \<in> set page \<longrightarrow>
     (\<exists>i. gp_project_id p = Some i \<and> \<not> aws_account_id i))"

lemma collect_pages_concat: "collect_pages pages = filter (\<lambda>p. \<not> internal_project p) (concat pages)"
  by (induction pages) auto

lemma judge_fields [simp]: "gk_id (judge gcp key) = gk_id key" "gk_tenant_id (judge gcp key) = gk_tenant_id key"
  "gk_value (judge gcp key) = gk_value key" "gk_created_at (judge gcp key) = gk_created_at key"
  by (simp_all add: judge_def)

lemma gcp_update_status_run:
  "tfind gk_id i (gcp_keys w) = Some key \<Longrightarrow>
   gcp_update_status i ok err w = (Inr (key\<lparr>gk_can_access_sa := Some ok, gk_error := err\<rparr>),
     w\<lparr>gcp_keys := tput gk_id (key\<lparr>gk_can_access_sa := Some ok, gk_error := err\<rparr>) (gcp_keys w)\<rparr>)"
  by (simp add: gcp_update_status_def Let_def)

lemma gcp_updates_each:
  assumes "\<forall>p\<in>set projects. \<exists>i. gp_project_id p = Some i"
  shows "gcp_update_cloud_accounts projects ws k =
    create_each create_gcp_account ws k (map (\<lambda>p. (the (gp_project_id p), gp_name p)) projects)"
  using assms by (induction projects) (auto simp: gcp_update_cloud_accounts_def create_each_def)

lemma import_projects_run:
  assumes ok: "accounts_ok w" and key: "tfind gk_id (gk_id key) (gcp_keys w) = Some key"
    and ws: "get_workspace (gk_tenant_id key) w = (Inr (Some m), w)" and named: "projects_named gcp (gk_value key)"
  shows "\<exists>w' news. import_projects gcp key w = (Inr (), w') \<and>
    imported (gk_tenant_id key) m ''gcp'' (GcpCloudAccess (gk_id key)) (reached gcp key) (judged gcp key w) w' news"
proof (cases "gcp (gk_value key)")
  case (Inl e)
  have "import_projects gcp key w = (Inr (), judged gcp key w)"
    using Inl key by (cases e) (simp_all add: import_projects_def list_projects_def gcp_update_status_run
      judged_def judge_def verdict_def)
  moreover have "accounts_ok (judged gcp key w)" using ok by (simp add: judged_def accounts_ok_def)
  ultimately show ?thesis using Inl by (auto simp: imported_def reached_def list_projects_def)
next
  case (Inr pages)
  let ?projects = "collect_pages pages"
  have named': "\<forall>p\<in>set ?projects. \<exists>i. gp_project_id p = Some i \<and> \<not> aws_account_id i"
    using named Inr by (auto simp: projects_named_def collect_pages_concat)
  have "import_projects gcp key w = gcp_update_cloud_accounts ?projects (gk_tenant_id key) (gk_id key) (judged gcp key w)"
    using Inr key by (simp add: import_projects_def list_projects_def gcp_update_status_run judged_def judge_def verdict_def)
  moreover have "accounts_ok (judged gcp key w)" using ok by (simp add: judged_def accounts_ok_def)
  moreover have "get_workspace (gk_tenant_id key) (judged gcp key w) = (Inr (Some m), judged gcp key w)"
    using get_workspace_tables [OF _ _ ws, of "judged gcp key w"] by (simp add: judged_def)
  ultimately show ?thesis
    using gcp_import.import_all [of "judged gcp key w" "gk_tenant_id key" m "map (\<lambda>p. (the (gp_project_id p), gp_name p)) ?projects" "gk_id key"]
      gcp_updates_each [of ?projects] named' Inr
    by (fastforce simp: reached_def list_projects_def comp_def)
qed

text \<open>The loop over the keys: each of them is judged and what it reaches has an account.\<close>

definition known_keys :: "gcp_api \<Rightarrow> gcp_key_row list \<Rightarrow> world \<Rightarrow> bool" where
  "known_keys gcp keys w \<longleftrightarrow> accounts_ok w \<and> distinct (map gk_id keys) \<and>
     (\<forall>k\<in>set keys. tfind gk_id (gk_id k) (gcp_keys w) = Some k \<and> projects_named gcp (gk_value k) \<and>
        (\<exists>m. get_workspace (gk_tenant_id k) w = (Inr (Some m), w)))"

lemma import_projects_step:
  assumes "known_keys gcp (key # keys) w"
  shows "\<exists>w1 news. import_projects gcp key w = (Inr (), w1) \<and> known_keys gcp keys w1 \<and>
    accounts w1 = accounts w @ news \<and> gcp_keys w1 = tput gk_id (judge gcp key) (gcp_keys w) \<and>
    (\<forall>i\<in>set (reached gcp key). has_account (gk_tenant_id key) i w1)"
proof -
  obtain m where ok: "accounts_ok w" and key: "tfind gk_id (gk_id key) (gcp_keys w) = Some key"
    and m: "get_workspace (gk_tenant_id key) w = (Inr (Some m), w)" and named: "projects_named gcp (gk_value key)"
    and ids: "gk_id key \<notin> gk_id ` set keys" "distinct (map gk_id keys)"
    using assms by (auto simp: known_keys_def)
  obtain w1 news where run: "import_projects gcp key w = (Inr (), w1)"
    and imp: "imported (gk_tenant_id key) m ''gcp'' (GcpCloudAccess (gk_id key)) (reached gcp key) (judged gcp key w) w1 news"
    using import_projects_run [OF ok key m named] by blast
  note facts = imported_facts [OF imp] and frame = imported_frame [OF imp]
  have same: "accounts w1 = accounts w @ news" "gcp_keys w1 = tput gk_id (judge gcp key) (gcp_keys w)"
    "orgs w1 = orgs w" "members w1 = members w"
    using facts(1) frame by (simp_all add: judged_def)
  have "has_account (gk_tenant_id key) i w1" if "i \<in> set (reached gcp key)" for i
  proof (cases "has_account (gk_tenant_id key) i (judged gcp key w)")
    case True
    then show ?thesis using same(1) by (auto simp: has_account_def judged_def)
  next
    case False
    with that have "i \<in> r_account_id ` set news" by (simp add: facts(3))
    then show ?thesis using facts(4) same(1) by (auto simp: has_account_def)
  qed
  moreover have "known_keys gcp keys w1"
    unfolding known_keys_def
  proof (intro conjI ballI)
    fix k assume k: "k \<in> set keys"
    then obtain m' where "tfind gk_id (gk_id k) (gcp_keys w) = Some k" "projects_named gcp (gk_value k)"
      "get_workspace (gk_tenant_id k) w = (Inr (Some m'), w)"
      using assms unfolding known_keys_def by auto
    moreover have "gk_id k \<noteq> gk_id key" using k ids(1) by (metis image_eqI)
    ultimately show "tfind gk_id (gk_id k) (gcp_keys w1) = Some k" "projects_named gcp (gk_value k)"
      "\<exists>m. get_workspace (gk_tenant_id k) w1 = (Inr (Some m), w1)"
      using get_workspace_tables [OF same(3,4)] by (auto simp: same(2))
  qed (use facts(2) ids in auto)
  ultimately show ?thesis using run same(1,2) by blast
qed

lemma import_projects_all:
  assumes "known_keys gcp keys w"
  shows "\<exists>w' news. for_each (import_projects gcp) keys w = (Inr (), w') \<and> accounts w' = accounts w @ news \<and>
    (\<forall>k\<in>set keys. tfind gk_id (gk_id k) (gcp_keys w') = Some (judge gcp k) \<and>
       (\<forall>i\<in>set (reached gcp k). has_account (gk_tenant_id k) i w')) \<and>
    (\<forall>i. i \<notin> gk_id ` set keys \<longrightarrow> tfind gk_id i (gcp_keys w') = tfind gk_id i (gcp_keys w))"
  using assms
proof (induction keys arbitrary: w)
  case (Cons key keys)
  obtain w1 n1 where one: "import_projects gcp key w = (Inr (), w1)" "known_keys gcp keys w1" "accounts w1 = accounts w @ n1"
    "gcp_keys w1 = tput gk_id (judge gcp key) (gcp_keys w)" "\<forall>i\<in>set (reached gcp key). has_account (gk_tenant_id key) i w1"
    using import_projects_step [OF Cons.prems] by blast
  obtain w' n2 where rest: "for_each (import_projects gcp) keys w1 = (Inr (), w')" "accounts w' = accounts w1 @ n2"
    "\<forall>k\<in>set keys. tfind gk_id (gk_id k) (gcp_keys w') = Some (judge gcp k) \<and>
       (\<forall>i\<in>set (reached gcp k). has_account (gk_tenant_id k) i w')"
    "\<forall>i. i \<notin> gk_id ` set keys \<longrightarrow> tfind gk_id i (gcp_keys w') = tfind gk_id i (gcp_keys w1)"
    using Cons.IH [OF one(2)] by blast
  have new: "gk_id key \<notin> gk_id ` set keys" using Cons.prems by (simp add: known_keys_def)
  have "tfind gk_id (gk_id key) (gcp_keys w') = Some (judge gcp key)"
    using rest(4) new one(4) tfind_tput_same [of gk_id "judge gcp key" "gcp_keys w"] by simp
  moreover have "\<forall>i\<in>set (reached gcp key). has_account (gk_tenant_id key) i w'"
    using one(5) rest(2) by (auto simp: has_account_def)
  moreover have "\<forall>i. i \<notin> gk_id ` set (key # keys) \<longrightarrow> tfind gk_id i (gcp_keys w') = tfind gk_id i (gcp_keys w)"
    using rest(4) one(4) by simp
  ultimately show ?case using one(1,3) rest(1,2,3) by simp
qed simp

lemma judge_cases:
  "judge gcp k = (case gcp (gk_value k) of
       Inl MalformedError \<Rightarrow> k\<lparr>gk_can_access_sa := Some False, gk_error := Some ''Malformed JSON''\<rparr>
     | Inl (HttpError e) \<Rightarrow> k\<lparr>gk_can_access_sa := Some False, gk_error := Some e\<rparr>
     | Inl (OtherError e) \<Rightarrow> k\<lparr>gk_can_access_sa := Some False, gk_error := Some e\<rparr>
     | Inr _ \<Rightarrow> k\<lparr>gk_can_access_sa := Some True, gk_error := None\<rparr>)"
  by (auto simp: judge_def verdict_def list_projects_def split: sum.splits gcp_failure.splits)

lemma reached_page:
  assumes "gcp (gk_value k) = Inr pages" and "p \<in> set (concat pages)" and "gp_project_id p = Some i"
    and "take 4 i \<noteq> ''sys-''"
  shows "i \<in> set (reached gcp k)"
  using assms by (force simp: reached_def list_projects_def collect_pages_concat internal_project_def)

lemma ping_judges:
  fixes w :: world
  assumes keys: "distinct (map gk_id (gcp_keys w))" and "accounts_ok w"
    and "\<forall>k\<in>set (gcp_keys w). projects_named gcp (gk_value k) \<and> (\<exists>m. get_workspace (gk_tenant_id k) w = (Inr (Some m), w))"
  defines "young \<equiv> \<lambda>k. clock w - td_minutes 30 < gk_created_at k"
  shows "\<exists>w' news. ping_new_service_account_keys gcp w = (Inr (), w') \<and> accounts w' = accounts w @ news \<and>
    (\<forall>k\<in>set (gcp_keys w). tfind gk_id (gk_id k) (gcp_keys w') = Some (if young k then judge gcp k else k)) \<and>
    (\<forall>k\<in>set (gcp_keys w). young k \<longrightarrow> (\<forall>i\<in>set (reached gcp k). has_account (gk_tenant_id k) i w'))"
proof -
  let ?recent = "filter young (gcp_keys w)"
  have "known_keys gcp ?recent w"
    using assms tfind_in [OF keys] by (auto simp: known_keys_def distinct_map_filter)
  then obtain w' news where w': "for_each (import_projects gcp) ?recent w = (Inr (), w')" "accounts w' = accounts w @ news"
    "\<forall>k\<in>set ?recent. tfind gk_id (gk_id k) (gcp_keys w') = Some (judge gcp k) \<and>
       (\<forall>i\<in>set (reached gcp k). has_account (gk_tenant_id k) i w')"
    "\<forall>i. i \<notin> gk_id ` set ?recent \<longrightarrow> tfind gk_id i (gcp_keys w') = tfind gk_id i (gcp_keys w)"
    using import_projects_all by blast
  have run: "ping_new_service_account_keys gcp w = (Inr (), w')"
    using w'(1) by (simp add: ping_new_service_account_keys_def gcp_list_created_after_def young_def)
  have old: "tfind gk_id (gk_id k) (gcp_keys w') = Some k" if k: "k \<in> set (gcp_keys w)" "\<not> young k" for k
  proof -
    have "gk_id k \<notin> gk_id ` set ?recent"
      using k inj_onD [of gk_id "set (gcp_keys w)"] keys by (auto simp: distinct_map)
    then show ?thesis using w'(4) tfind_in [OF keys k(1)] by simp
  qed
  show ?thesis using run w'(2,3) old by (intro exI [of _ w'] exI [of _ news]) auto
qed

text \<open>
  C24: One run of the pinger settles every GCP key that is younger than thirty minutes: a key whose
  projects can be listed is marked as usable and every project it reaches, except those that GCP
  creates for itself, has an account in the key's workspace; any other key is marked as unusable with
  the error. No account that existed changes, and no other key does.
\<close>

theorem gcp_keys_settled:
  assumes keys: "distinct (map gk_id (gcp_keys w))" and ok: "accounts_ok w"
    and known: "\<forall>k\<in>set (gcp_keys w). projects_named gcp (gk_value k) \<and> (\<exists>m. get_workspace (gk_tenant_id k) w = (Inr (Some m), w))"
  shows "\<exists>w' news. ping_new_service_account_keys gcp w = (Inr (), w') \<and> accounts w' = accounts w @ news \<and>
    (\<forall>k\<in>set (gcp_keys w). tfind gk_id (gk_id k) (gcp_keys w') = Some
       (if clock w - td_minutes 30 < gk_created_at k
        then case gcp (gk_value k) of
           Inl MalformedError \<Rightarrow> k\<lparr>gk_can_access_sa := Some False, gk_error := Some ''Malformed JSON''\<rparr>
         | Inl (HttpError e) \<Rightarrow> k\<lparr>gk_can_access_sa := Some False, gk_error := Some e\<rparr>
         | Inl (OtherError e) \<Rightarrow> k\<lparr>gk_can_access_sa := Some False, gk_error := Some e\<rparr>
         | Inr _ \<Rightarrow> k\<lparr>gk_can_access_sa := Some True, gk_error := None\<rparr>
        else k)) \<and>
    (\<forall>k\<in>set (gcp_keys w). clock w - td_minutes 30 < gk_created_at k \<longrightarrow>
       (\<forall>pages p i. gcp (gk_value k) = Inr pages \<longrightarrow> p \<in> set (concat pages) \<longrightarrow> gp_project_id p = Some i \<longrightarrow>
          take 4 i \<noteq> ''sys-'' \<longrightarrow> has_account (gk_tenant_id k) i w'))"
proof -
  obtain w' news where w': "ping_new_service_account_keys gcp w = (Inr (), w')" "accounts w' = accounts w @ news"
    "\<forall>k\<in>set (gcp_keys w). tfind gk_id (gk_id k) (gcp_keys w') =
       Some (if clock w - td_minutes 30 < gk_created_at k then judge gcp k else k)"
    "\<forall>k\<in>set (gcp_keys w). clock w - td_minutes 30 < gk_created_at k \<longrightarrow>
       (\<forall>i\<in>set (reached gcp k). has_account (gk_tenant_id k) i w')"
    using ping_judges [OF assms] by blast
  show ?thesis
    by (intro exI [of _ w'] exI [of _ news] conjI w'(1,2) w'(3) [unfolded judge_cases]) (use w'(4) reached_page in blast)
qed

text \<open>A workspace with a key that reaches one project besides an internal one.\<close>

definition sample_gcp :: gcp_api where
  "sample_gcp v = (if v = ''key'' then Inr [[\<lparr>gp_project_id = Some ''sys-1'', gp_name = None\<rparr>],
     [\<lparr>gp_project_id = Some ''shop'', gp_name = Some ''Shop''\<rparr>]] else Inl MalformedError)"

definition gcp_world :: world where
  "gcp_world = (empty_world (td_days 19000) 100)\<lparr>orgs := [sample_org],
     gcp_keys := [\<lparr>gk_id = 1, gk_tenant_id = o_id sample_org, gk_value = ''key'', gk_can_access_sa = None, gk_error = None,
       gk_created_at = td_days 19000, gk_updated_at = td_days 19000\<rparr>]\<rparr>"

lemma gcp_keys_settled_witness:
  "\<exists>w' news. ping_new_service_account_keys sample_gcp gcp_world = (Inr (), w') \<and>
     accounts w' = accounts gcp_world @ news \<and> has_account (o_id sample_org) ''shop'' w'"
proof -
  have "projects_named sample_gcp ''key''"
    by (auto simp: projects_named_def sample_gcp_def aws_account_id_def)
  moreover have "\<exists>m. get_workspace (o_id sample_org) gcp_world = (Inr (Some m), gcp_world)"
    by (simp add: get_workspace_run gcp_world_def empty_world_def sample_org_def org_to_model_def tier_from_str_def members_of_def)
  ultimately have "\<exists>w' news. ping_new_service_account_keys sample_gcp gcp_world = (Inr (), w') \<and>
     accounts w' = accounts gcp_world @ news \<and>
    (\<forall>pages p i. sample_gcp ''key'' = Inr pages \<longrightarrow> p \<in> set (concat pages) \<longrightarrow> gp_project_id p = Some i \<longrightarrow>
          take 4 i \<noteq> ''sys-'' \<longrightarrow> has_account (o_id sample_org) i w')"
    using gcp_keys_settled [of gcp_world sample_gcp]
    by (auto simp: gcp_world_def accounts_ok_def empty_world_def td_defs)
  then show ?thesis by (force simp: sample_gcp_def)
qed

end
