(* ===== verification/Azure_Credentials.thy ===== *)
theory Azure_Credentials
  imports Account_Import
begin

section \<open>Azure credentials\<close>

text \<open>
  \<open>AzureSubscriptionCredentialsRepository\<close> of \<open>cloud_accounts/azure_subscription_repo.py\<close> over the table
  \<open>azure_subscription_credential\<close>, and \<open>AzureSubscriptionService\<close> of
  \<open>cloud_accounts/azure_subscription_service.py\<close>: it imports the subscriptions of young credentials and
  registers an application in the tenant of a user, with the reader role on every management group or
  subscription. The clients of Azure and the graph library are parameters; every call of Azure that
  changes something is logged in \<open>azure_calls\<close>.
\<close>

subsection \<open>The repository\<close>

text \<open>New credentials of a workspace replace the old ones, but keep their verdict and their age.\<close>

definition azure_upsert :: "uuid \<Rightarrow> string \<Rightarrow> string \<Rightarrow> string \<Rightarrow> azure_credential_row io" where
  "azure_upsert tenant_id azure_tenant_id client_id client_secret =
     bind (gets (\<lambda>w. find (\<lambda>c. az_tenant_id c = tenant_id) (azure_credentials w))) (\<lambda>found.
     case found of
       Some existing \<Rightarrow>
         let model = existing\<lparr>az_azure_tenant_id := azure_tenant_id, az_client_id := client_id,
               az_client_secret := client_secret\<rparr> in
         bind (modify (\<lambda>w. w\<lparr>azure_credentials := tput az_id model (azure_credentials w)\<rparr>)) (\<lambda>_. ret model)
     | None \<Rightarrow>
         bind uuid4 (\<lambda>i.
         bind utc (\<lambda>now.
         let entity = \<lparr>az_id = i, az_tenant_id = tenant_id, az_azure_tenant_id = azure_tenant_id,
               az_client_id = client_id, az_client_secret = client_secret, az_can_access = None,
               az_created_at = now, az_updated_at = now\<rparr> in
         bind (modify (\<lambda>w. w\<lparr>azure_credentials := azure_credentials w @ [entity]\<rparr>)) (\<lambda>_. ret entity))))"

definition azure_get :: "uuid \<Rightarrow> azure_credential_row option io" where
  "azure_get key_id = gets (\<lambda>w. tfind az_id key_id (azure_credentials w))"

definition azure_get_by_tenant :: "uuid \<Rightarrow> azure_credential_row option io" where
  "azure_get_by_tenant tenant_id = gets (\<lambda>w. find (\<lambda>c. az_tenant_id c = tenant_id) (azure_credentials w))"

definition azure_list_created_after :: "datetime \<Rightarrow> azure_credential_row list io" where
  "azure_list_created_after time = gets (\<lambda>w. filter (\<lambda>c. time < az_created_at c) (azure_credentials w))"

definition azure_list_created_before :: "datetime \<Rightarrow> azure_credential_row list io" where
  "azure_list_created_before time = gets (\<lambda>w. filter (\<lambda>c. az_created_at c < time) (azure_credentials w))"

definition azure_update_status :: "uuid \<Rightarrow> bool \<Rightarrow> azure_credential_row io" where
  "azure_update_status key_id can_access_accounts =
     bind (gets (\<lambda>w. tfind az_id key_id (azure_credentials w))) (\<lambda>found.
     case found of None \<Rightarrow> raise ResourceNotFound
     | Some entity \<Rightarrow>
         let entity = entity\<lparr>az_can_access := Some can_access_accounts\<rparr> in
         bind (modify (\<lambda>w. w\<lparr>azure_credentials := tput az_id entity (azure_credentials w)\<rparr>)) (\<lambda>_. ret entity))"

definition azure_delete :: "uuid \<Rightarrow> unit io" where
  "azure_delete key_id =
     bind (gets (\<lambda>w. tfind az_id key_id (azure_credentials w))) (\<lambda>found.
     case found of None \<Rightarrow> ret ()
     | Some _ \<Rightarrow> modify (\<lambda>w. w\<lparr>azure_credentials := tdel az_id key_id (azure_credentials w)\<rparr>))"

subsection \<open>Importing subscriptions\<close>

text \<open>
  The answer of the subscription client for a tenant, a client and its secret: ids and display names,
  or None for an exception.
\<close>

type_synonym subscriptions_api = "string \<Rightarrow> string \<Rightarrow> string \<Rightarrow> (string option \<times> string option) list option"

definition list_subscriptions ::
  "subscriptions_api \<Rightarrow> string \<Rightarrow> string \<Rightarrow> string \<Rightarrow> (string \<times> string option) list option" where
  "list_subscriptions api azure_tenant_id client_id client_secret =
     map_option (\<lambda>subs. map (\<lambda>s. (the (fst s), snd s)) (filter (\<lambda>s. str_true (fst s)) subs))
       (api azure_tenant_id client_id client_secret)"

definition azure_update_cloud_accounts :: "(string \<times> string option) list \<Rightarrow> uuid \<Rightarrow> uuid \<Rightarrow> unit io" where
  "azure_update_cloud_accounts subs tenant_id credentials_id =
     for_each (\<lambda>s. bind (create_azure_account tenant_id (fst s) credentials_id
       (if str_true (snd s) then snd s else None)) (\<lambda>_. ret ())) subs"

definition import_subscriptions :: "subscriptions_api \<Rightarrow> azure_credential_row \<Rightarrow> unit io" where
  "import_subscriptions api creds =
     (case list_subscriptions api (az_azure_tenant_id creds) (az_client_id creds) (az_client_secret creds) of
        None \<Rightarrow> bind (azure_update_status (az_id creds) False) (\<lambda>_. ret ())
      | Some subs \<Rightarrow>
          bind (azure_update_status (az_id creds) True) (\<lambda>_.
          azure_update_cloud_accounts subs (az_tenant_id creds) (az_id creds)))"

definition ping_new_subscriptions :: "subscriptions_api \<Rightarrow> unit io" where
  "ping_new_subscriptions api =
     bind utc (\<lambda>now.
     bind (azure_list_created_after (now - td_minutes 30)) (\<lambda>creds.
     for_each (import_subscriptions api) creds))"

subsection \<open>The hierarchy of a tenant\<close>

text \<open>
  The directed graph of management groups and subscriptions as the calls that build it: nodes in the
  order in which they are added and edges from a parent to its child. The chain of ancestors of a
  subscription runs from the root down; the code reverses it and links each ancestor to the one before.
\<close>

record digraph =
  dg_nodes :: "string list"
  dg_edges :: "(string \<times> string) list"

definition add_node :: "string \<Rightarrow> digraph \<Rightarrow> digraph" where
  "add_node n g = g\<lparr>dg_nodes := (if n \<in> set (dg_nodes g) then dg_nodes g else dg_nodes g @ [n])\<rparr>"

definition add_edge :: "string \<Rightarrow> string \<Rightarrow> digraph \<Rightarrow> digraph" where
  "add_edge u v g = (add_node v (add_node u g))\<lparr>
     dg_edges := (if (u, v) \<in> set (dg_edges g) then dg_edges g else dg_edges g @ [(u, v)])\<rparr>"

definition successors :: "digraph \<Rightarrow> string \<Rightarrow> string list" where
  "successors g n = map snd (filter (\<lambda>e. fst e = n) (dg_edges g))"

definition mg_id :: "string \<Rightarrow> string" where
  "mg_id name = ''/providers/Microsoft.Management/managementGroups/'' @ name"

fun link_ancestors :: "string \<Rightarrow> string list \<Rightarrow> digraph \<Rightarrow> digraph" where
  "link_ancestors child [] g = g"
| "link_ancestors child (name # ancestors) g = link_ancestors (mg_id name) ancestors (add_edge (mg_id name) child g)"

definition tenant_graph :: "string list \<Rightarrow> (string \<times> string list) list \<Rightarrow> digraph" where
  "tenant_graph management_groups sub_ancestors =
     fold (\<lambda>(sub_id, chain) g. link_ancestors sub_id (rev chain) (add_node sub_id g)) sub_ancestors
       (fold add_node management_groups \<lparr>dg_nodes = [], dg_edges = []\<rparr>)"

subsection \<open>Assigning the reader role\<close>

text \<open>
  \<open>assign_role_dfs\<close> over a list of nodes: the loops over the children of a node and over the topological
  order are the same recursion. \<open>grant\<close> says for which scopes Azure accepts the assignment. The state is the
  set of visited nodes and the scopes for which an assignment was tried, in order; below a scope with
  the role no further assignment is tried.
\<close>

function assign_role_dfs ::
  "digraph \<Rightarrow> (string \<Rightarrow> bool) \<Rightarrow> bool \<Rightarrow> string list \<Rightarrow> string list \<times> string list \<Rightarrow> string list \<times> string list" where
  "assign_role_dfs g grant already_assigned [] s = s"
| "assign_role_dfs g grant already_assigned (node # nodes) (visited, tried) =
     (if node \<in> set visited then assign_role_dfs g grant already_assigned nodes (visited, tried)
      else assign_role_dfs g grant already_assigned nodes
        (assign_role_dfs g grant (already_assigned \<or> grant node) (successors g node)
           (node # visited, if already_assigned then tried else tried @ [node])))"
  by pat_completeness auto

definition sources_left :: "digraph \<Rightarrow> string list \<Rightarrow> nat" where
  "sources_left g visited = card (fst ` set (dg_edges g) - set visited)"

lemma sources_left_mono: "set vis \<subseteq> set vis' \<Longrightarrow> sources_left g vis' \<le> sources_left g vis"
  unfolding sources_left_def by (intro card_mono) auto

lemma sources_left_visit:
  assumes "node \<notin> set vis" and "successors g node \<noteq> []"
  shows "sources_left g (node # vis) < sources_left g vis"
proof -
  have "node \<in> fst ` set (dg_edges g)"
    using assms(2) by (force simp: successors_def filter_empty_conv)
  then show ?thesis unfolding sources_left_def using assms(1) by (intro psubset_card_mono) auto
qed

lemma assign_role_dfs_visited:
  "assign_role_dfs_dom (g, grant, already, nodes, s) \<Longrightarrow>
   set (fst s) \<subseteq> set (fst (assign_role_dfs g grant already nodes s))"
proof (induction g grant already nodes s rule: assign_role_dfs.pinduct)
  case (2 g grant already node nodes visited tried)
  then show ?case by (auto simp: assign_role_dfs.psimps) blast+
qed (simp add: assign_role_dfs.psimps)

termination assign_role_dfs
proof (relation "measures [\<lambda>(g, _, _, _, s). sources_left g (fst s), \<lambda>(_, _, _, nodes, _). length nodes]", goal_cases)
  case (3 g grant already node nodes visited tried)
  then show ?case using sources_left_visit [of node visited g] sources_left_mono [of visited "node # visited" g]
    by (cases "successors g node = []") (auto simp: le_less)
next
  case (4 g grant already node nodes visited tried)
  then have "set (node # visited) \<subseteq> set (fst (assign_role_dfs g grant (already \<or> grant node) (successors g node)
      (node # visited, if already then tried else tried @ [node])))"
    using assign_role_dfs_visited by fastforce
  then have "set visited \<subseteq> set (fst (assign_role_dfs g grant (already \<or> grant node) (successors g node)
      (node # visited, if already then tried else tried @ [node])))" by auto
  from sources_left_mono [OF this, of g] show ?case by (auto simp: le_less)
qed auto

text \<open>In a tenant every management group and every subscription has at most one parent.\<close>

definition one_parent :: "digraph \<Rightarrow> bool" where
  "one_parent g \<longleftrightarrow> (\<forall>a b n. (a, n) \<in> set (dg_edges g) \<longrightarrow> (b, n) \<in> set (dg_edges g) \<longrightarrow> a = b)"

definition granted_above :: "digraph \<Rightarrow> (string \<Rightarrow> bool) \<Rightarrow> string \<Rightarrow> bool" where
  "granted_above g grant n \<longleftrightarrow> (\<exists>m. (m, n) \<in> (set (dg_edges g))\<^sup>+ \<and> grant m)"

lemma set_successors: "c \<in> set (successors g n) \<longleftrightarrow> (n, c) \<in> set (dg_edges g)"
  by (auto simp: successors_def image_iff)

lemma granted_above_child:
  assumes "one_parent g" and "(p, n) \<in> set (dg_edges g)"
  shows "granted_above g grant n \<longleftrightarrow> grant p \<or> granted_above g grant p"
proof -
  have "(m, p) \<in> (set (dg_edges g))\<^sup>*" if "(m, n) \<in> (set (dg_edges g))\<^sup>+" for m
  proof -
    from that obtain z where "(m, z) \<in> (set (dg_edges g))\<^sup>*" "(z, n) \<in> set (dg_edges g)" by (blast dest: tranclD2)
    then show ?thesis using assms unfolding one_parent_def by blast
  qed
  moreover have "(m, n) \<in> (set (dg_edges g))\<^sup>+" if "(m, p) \<in> (set (dg_edges g))\<^sup>*" for m
    using that assms(2) by (rule rtrancl_into_trancl1)
  moreover have "(m, p) \<in> (set (dg_edges g))\<^sup>* \<longleftrightarrow> m = p \<or> (m, p) \<in> (set (dg_edges g))\<^sup>+" for m
    unfolding rtrancl_eq_or_trancl by blast
  ultimately have "(m, n) \<in> (set (dg_edges g))\<^sup>+ \<longleftrightarrow> m = p \<or> (m, p) \<in> (set (dg_edges g))\<^sup>+" for m
    by metis
  then show ?thesis by (simp only: granted_above_def) blast
qed

lemma granted_above_root: "\<forall>p. (p, n) \<notin> set (dg_edges g) \<Longrightarrow> \<not> granted_above g grant n"
  unfolding granted_above_def by (blast dest: tranclD2)

text \<open>What a traversal adds to the visited nodes and to the scopes that were tried.\<close>

definition traversed ::
  "digraph \<Rightarrow> (string \<Rightarrow> bool) \<Rightarrow> string list \<Rightarrow> string list \<times> string list \<Rightarrow> string list \<times> string list \<Rightarrow> bool" where
  "traversed g grant nodes s s' \<longleftrightarrow>
     set (fst s) \<union> set nodes \<subseteq> set (fst s') \<and> set (fst s') \<subseteq> set (fst s) \<union> set nodes \<union> snd ` set (dg_edges g) \<and>
     (\<forall>n\<in>set (fst s') - set (fst s). set (successors g n) \<subseteq> set (fst s')) \<and>
     (\<forall>n\<in>set (fst s'). n \<in> set (snd s') \<longleftrightarrow> (if n \<in> set (fst s) then n \<in> set (snd s) else \<not> granted_above g grant n)) \<and>
     set (snd s') \<subseteq> set (fst s') \<and> distinct (snd s')"

lemma traversed_node:
  assumes "traversed g grant (successors g node) (node # visited, tried1) s1" and "traversed g grant nodes s1 s2"
    and "node \<notin> set visited" and "set tried \<subseteq> set visited"
    and "set tried1 = (if granted_above g grant node then set tried else insert node (set tried))"
  shows "traversed g grant (node # nodes) (visited, tried) s2"
proof -
  note one = assms(1) [unfolded traversed_def, simplified] and two = assms(2) [unfolded traversed_def]
  have sub: "insert node (set visited) \<subseteq> set (fst s1)" "set (fst s1) \<subseteq> set (fst s2)"
    using one two by blast+
  have closed: "set (successors g n) \<subseteq> set (fst s2)" if n: "n \<in> set (fst s2)" "n \<notin> set visited" for n
  proof (cases "n \<in> set (fst s1)")
    case True
    then have "set (successors g n) \<subseteq> set (fst s1)" using one n by (cases "n = node") blast+
    with sub(2) show ?thesis by blast
  qed (use two n in blast)
  moreover have "n \<in> set (snd s2) \<longleftrightarrow> (if n \<in> set visited then n \<in> set tried else \<not> granted_above g grant n)"
    if n: "n \<in> set (fst s2)" for n
  proof (cases "n \<in> set (fst s1)")
    case True
    then have "n \<in> set (snd s2) \<longleftrightarrow> n \<in> set (snd s1)" using two n by simp
    also have "\<dots> \<longleftrightarrow> (if n = node \<or> n \<in> set visited then n \<in> set tried1 else \<not> granted_above g grant n)"
      using one True by simp
    finally show ?thesis using assms(3-5) by auto
  qed (use two sub n in auto)
  moreover have "set (fst s2) \<subseteq> set visited \<union> insert node (set nodes) \<union> snd ` set (dg_edges g)"
  proof -
    have "set (successors g node) \<subseteq> snd ` set (dg_edges g)" by (auto simp: successors_def)
    moreover have "set (fst s1) \<subseteq> insert node (set visited) \<union> set (successors g node) \<union> snd ` set (dg_edges g)"
      using one by simp
    moreover have "set (fst s2) \<subseteq> set (fst s1) \<union> set nodes \<union> snd ` set (dg_edges g)" using two by simp
    ultimately show ?thesis by blast
  qed
  moreover have "insert node (set visited) \<subseteq> set (fst s2)" using sub by blast
  ultimately show ?thesis using two by (simp add: traversed_def)
qed

lemma assign_role_dfs_spec:
  "one_parent g \<Longrightarrow> \<forall>n\<in>set nodes. n \<notin> set (fst s) \<longrightarrow> already = granted_above g grant n \<Longrightarrow>
    set (snd s) \<subseteq> set (fst s) \<Longrightarrow> distinct (snd s) \<Longrightarrow> traversed g grant nodes s (assign_role_dfs g grant already nodes s)"
proof (induction g grant already nodes s rule: assign_role_dfs.induct)
  case (2 g grant already node nodes visited tried)
  show ?case
  proof (cases "node \<in> set visited")
    case True
    then show ?thesis using 2 by (auto simp: traversed_def)
  next
    case False
    let ?tried = "if already then tried else tried @ [node]"
    let ?s = "assign_role_dfs g grant (already \<or> grant node) (successors g node) (node # visited, ?tried)"
    have above: "already = granted_above g grant node" using 2(5) False by simp
    have inner: "traversed g grant (successors g node) (node # visited, ?tried) ?s"
    proof (rule 2(2) [OF False 2(4)])
      show "\<forall>n\<in>set (successors g node). n \<notin> set (fst (node # visited, ?tried)) \<longrightarrow>
          (already \<or> grant node) = granted_above g grant n"
        using granted_above_child [OF 2(4)] above by (auto simp: set_successors)
    qed (use 2(6,7) False in auto)
    moreover have "traversed g grant nodes ?s (assign_role_dfs g grant already nodes ?s)"
    proof (rule 2(3) [OF False 2(4)])
      have "set visited \<subseteq> set (fst ?s)" using inner unfolding traversed_def by simp
      then show "\<forall>n\<in>set nodes. n \<notin> set (fst ?s) \<longrightarrow> already = granted_above g grant n" using 2(5) by auto
    qed (use inner in \<open>simp_all only: traversed_def\<close>)
    ultimately have "traversed g grant (node # nodes) (visited, tried) (assign_role_dfs g grant already nodes ?s)"
      by (rule traversed_node) (use False 2(6) above in simp_all)
    then show ?thesis using False by simp
  qed
qed (auto simp: traversed_def)

text \<open>
  Documented behaviour of the graph library: the topological order lists the nodes of the graph, each
  after its parents.
\<close>

definition topological :: "digraph \<Rightarrow> string list \<Rightarrow> bool" where
  "topological g order \<longleftrightarrow> set order = set (dg_nodes g) \<and>
     (\<forall>earlier n later p. order = earlier @ n # later \<longrightarrow> (p, n) \<in> set (dg_edges g) \<longrightarrow> p \<in> set earlier)"

definition traversal_ok :: "digraph \<Rightarrow> (string \<Rightarrow> bool) \<Rightarrow> string list \<times> string list \<Rightarrow> bool" where
  "traversal_ok g grant s \<longleftrightarrow> (\<forall>n\<in>set (fst s). set (successors g n) \<subseteq> set (fst s)) \<and>
     (\<forall>n\<in>set (fst s). n \<in> set (snd s) \<longleftrightarrow> \<not> granted_above g grant n) \<and>
     set (snd s) \<subseteq> set (fst s) \<and> distinct (snd s)"

lemma traversal_node:
  assumes "one_parent g" and "traversal_ok g grant s" and "set earlier \<subseteq> set (fst s)"
    and parents: "\<And>p. (p, n) \<in> set (dg_edges g) \<Longrightarrow> p \<in> set earlier"
  shows "traversal_ok g grant (assign_role_dfs g grant False [n] s) \<and>
    insert n (set (fst s)) \<subseteq> set (fst (assign_role_dfs g grant False [n] s))"
proof (cases "n \<in> set (fst s)")
  case True
  then show ?thesis using assms(2) by (cases s) simp
next
  case False
  then have "\<forall>p. (p, n) \<notin> set (dg_edges g)"
    using parents assms(2,3) unfolding traversal_ok_def by (metis set_successors subset_iff)
  then have "\<not> granted_above g grant n" by (rule granted_above_root)
  then have "traversed g grant [n] s (assign_role_dfs g grant False [n] s)"
    by (intro assign_role_dfs_spec) (use assms(1,2) in \<open>auto simp: traversal_ok_def\<close>)
  then show ?thesis using assms(2) unfolding traversed_def traversal_ok_def
    by (intro conjI ballI; (elim conjE)?) (auto split: if_splits, blast)
qed

lemma traversal_all:
  assumes "one_parent g"
  shows "order = earlier @ rest \<Longrightarrow> topological g order \<Longrightarrow> traversal_ok g grant s \<Longrightarrow> set earlier \<subseteq> set (fst s) \<Longrightarrow>
    traversal_ok g grant (assign_role_dfs g grant False rest s) \<and> set order \<subseteq> set (fst (assign_role_dfs g grant False rest s))"
proof (induction rest arbitrary: earlier s)
  case (Cons n rest)
  let ?s = "assign_role_dfs g grant False [n] s"
  have "\<And>p. (p, n) \<in> set (dg_edges g) \<Longrightarrow> p \<in> set earlier"
    using Cons.prems(1,2) unfolding topological_def by blast
  from traversal_node [OF assms Cons.prems(3,4) this]
  have s: "traversal_ok g grant ?s" "insert n (set (fst s)) \<subseteq> set (fst ?s)" by blast+
  have "assign_role_dfs g grant False (n # rest) s = assign_role_dfs g grant False rest ?s"
    by (cases s) simp
  then show ?case using Cons.IH [of "earlier @ [n]" ?s] Cons.prems s by auto
qed simp

definition role_scopes :: "digraph \<Rightarrow> (string \<Rightarrow> bool) \<Rightarrow> string list \<Rightarrow> string list" where
  "role_scopes g grant order = snd (assign_role_dfs g grant False order ([], []))"

definition edges_in_nodes :: "digraph \<Rightarrow> bool" where
  "edges_in_nodes g \<longleftrightarrow> (\<forall>(u, v)\<in>set (dg_edges g). u \<in> set (dg_nodes g) \<and> v \<in> set (dg_nodes g))"

lemma visited_nodes:
  "set (fst (assign_role_dfs g grant already nodes s)) \<subseteq> set (fst s) \<union> set nodes \<union> snd ` set (dg_edges g)"
proof (induction g grant already nodes s rule: assign_role_dfs.induct)
  case (2 g grant already node nodes visited tried)
  define targets where "targets = snd ` set (dg_edges g)"
  have "set (successors g node) \<subseteq> targets" by (auto simp: successors_def targets_def)
  then show ?case using 2 unfolding targets_def [symmetric]
    by (cases "node \<in> set visited"; cases already) (simp_all, blast+)
qed simp

lemma role_scopes_top:
  assumes "one_parent g" and "topological g order" and "edges_in_nodes g"
  shows "distinct (role_scopes g grant order)"
    "{n \<in> set (role_scopes g grant order). grant n} = {n \<in> set (dg_nodes g). grant n \<and> \<not> granted_above g grant n}"
proof -
  let ?s = "assign_role_dfs g grant False order ([], [])"
  have ok: "traversal_ok g grant ?s" "set order \<subseteq> set (fst ?s)"
    using traversal_all [of g order "[]" order grant "([], [])"] assms(1,2) by (auto simp: traversal_ok_def)
  have targets: "snd ` set (dg_edges g) \<subseteq> set (dg_nodes g)" using assms(3) by (auto simp: edges_in_nodes_def)
  have order: "set order = set (dg_nodes g)" using assms(2) by (simp add: topological_def)
  have "set (fst ?s) \<subseteq> set (dg_nodes g)"
    using visited_nodes [of g grant False order "([], [])"] targets order by (simp add: Un_absorb2)
  with ok(2) order have "set (fst ?s) = set (dg_nodes g)" by (intro subset_antisym) simp_all
  then show "distinct (role_scopes g grant order)"
    "{n \<in> set (role_scopes g grant order). grant n} = {n \<in> set (dg_nodes g). grant n \<and> \<not> granted_above g grant n}"
    using ok(1) by (auto simp: role_scopes_def traversal_ok_def)
qed

lemma edges_add: "edges_in_nodes g \<Longrightarrow> edges_in_nodes (add_node n g)" "edges_in_nodes g \<Longrightarrow> edges_in_nodes (add_edge u v g)"
  by (auto simp: edges_in_nodes_def add_node_def add_edge_def)

lemma edges_link: "edges_in_nodes g \<Longrightarrow> edges_in_nodes (link_ancestors c ancestors g)"
  by (induction c ancestors g rule: link_ancestors.induct) (simp_all add: edges_add)

lemma edges_tenant_graph: "edges_in_nodes (tenant_graph management_groups sub_ancestors)"
proof -
  have "edges_in_nodes (fold add_node ns g)" if "edges_in_nodes g" for ns g
    using that by (induction ns arbitrary: g) (simp_all add: edges_add)
  moreover have "edges_in_nodes (fold (\<lambda>(sub_id, chain) g. link_ancestors sub_id (rev chain) (add_node sub_id g)) subs g)"
    if "edges_in_nodes g" for subs g
    using that by (induction subs arbitrary: g) (auto simp: edges_add edges_link)
  ultimately show ?thesis by (simp add: tenant_graph_def edges_in_nodes_def)
qed

subsection \<open>Registering an application\<close>

text \<open>
  What the clients of Azure answer: an exception, None, or a value. A new application has an id and an
  application id, each of which may be missing.
\<close>

datatype 'a reply = Reply_raises | Reply_none | Reply 'a

record azure_mgmt =
  am_post_application :: "string \<Rightarrow> (string option \<times> string option) reply"
  am_add_password :: "string \<Rightarrow> string option reply"
  am_post_service_principal :: "string \<Rightarrow> string option reply"
  am_subscriptions :: "string list option"
  am_management_groups :: "string list option"
  am_sub_ancestors :: "(string \<times> string list) list option"
  am_topological_sort :: "digraph \<Rightarrow> string list option"
  am_grant :: "string \<Rightarrow> string \<Rightarrow> string \<Rightarrow> bool"
  am_principal_subscriptions :: "string list option"

definition log_azure :: "azure_call \<Rightarrow> unit io" where
  "log_azure c = modify (\<lambda>w. w\<lparr>azure_calls := azure_calls w @ [c]\<rparr>)"

lemma log_azure_run [simp]: "log_azure c w = (Inr (), w\<lparr>azure_calls := azure_calls w @ [c]\<rparr>)"
  by (simp add: log_azure_def)

definition reader_role_definition_id :: string where
  "reader_role_definition_id =
     ''/providers/Microsoft.Authorization/roleDefinitions/acdd72a7-3385-48ef-bd42-f606fba81ae7''"

definition create_role_assignment :: "azure_mgmt \<Rightarrow> string \<Rightarrow> string \<Rightarrow> string \<Rightarrow> bool io" where
  "create_role_assignment am service_principal_id scope role_definition_id =
     bind uuid4 (\<lambda>_.
     if am_grant am service_principal_id scope role_definition_id
     then bind (log_azure (AzureCreateRoleAssignment service_principal_id scope role_definition_id)) (\<lambda>_. ret True)
     else ret False)"

text \<open>
  \<open>create_user_app_registration\<close>. An exception inside the try block, also of an empty list of subscriptions,
  ends it with None, as do the missing values; what was created in Azure before stays there.
\<close>

definition assign_reader_role :: "azure_mgmt \<Rightarrow> string \<Rightarrow> bool io" where
  "assign_reader_role am service_principal_id =
     (case (am_subscriptions am, am_management_groups am, am_sub_ancestors am) of
        (Some subs, Some groups, Some ancestors) \<Rightarrow>
          if subs = [] then ret False
          else
            (let g = tenant_graph groups ancestors in
             case am_topological_sort am g of None \<Rightarrow> ret False
             | Some order \<Rightarrow>
                 seq (for_each (\<lambda>scope. bind (create_role_assignment am service_principal_id scope reader_role_definition_id) (\<lambda>_. ret ()))
                        (role_scopes g (\<lambda>scope. am_grant am service_principal_id scope reader_role_definition_id) order))
                     (ret (case am_principal_subscriptions am of None \<Rightarrow> False | Some own \<Rightarrow> own \<noteq> [])))
      | _ \<Rightarrow> ret False)"

definition app_name :: "uuid \<Rightarrow> string" where
  "app_name workspace_id = ''Fix Access for Workspace '' @ uuid_str workspace_id"

definition create_user_app_registration :: "azure_mgmt \<Rightarrow> uuid \<Rightarrow> string \<Rightarrow> azure_credential_row option io" where
  "create_user_app_registration am workspace_id azure_tenant_id =
     (let name = app_name workspace_id in
      case am_post_application am name of
        Reply_raises \<Rightarrow> ret None
      | Reply_none \<Rightarrow> ret None
      | Reply (app, app_id) \<Rightarrow>
          seq (log_azure (AzureCreateApplication name))
          (case (app, app_id) of
             (Some i, Some client_id) \<Rightarrow>
               bind utc (\<lambda>now.
               case am_add_password am i of
                 Reply (Some secret) \<Rightarrow>
                   seq (log_azure (AzureAddPassword i (now + td_days 3650)))
                   (case am_post_service_principal am client_id of
                      Reply (Some service_principal_id) \<Rightarrow>
                        seq (log_azure (AzureCreateServicePrincipal client_id))
                        (bind (assign_reader_role am service_principal_id) (\<lambda>ok.
                         if ok then bind (azure_upsert workspace_id azure_tenant_id client_id secret) (\<lambda>result. ret (Some result))
                         else ret None))
                    | Reply None \<Rightarrow> seq (log_azure (AzureCreateServicePrincipal client_id)) (ret None)
                    | _ \<Rightarrow> ret None)
               | Reply None \<Rightarrow> seq (log_azure (AzureAddPassword i (now + td_days 3650))) (ret None)
               | _ \<Rightarrow> ret None)
           | _ \<Rightarrow> ret None))"

lemma create_role_assignments_run:
  "for_each (\<lambda>scope. bind (create_role_assignment am sp scope role) (\<lambda>_. ret ())) scopes w =
     (Inr (), w\<lparr>next_uuid := next_uuid w + length scopes,
        azure_calls := azure_calls w @ map (\<lambda>scope. AzureCreateRoleAssignment sp scope role)
          (filter (\<lambda>scope. am_grant am sp scope role) scopes)\<rparr>)"
  by (induction scopes arbitrary: w) (simp_all add: create_role_assignment_def)

lemma assign_reader_role_run:
  "\<exists>b w'. assign_reader_role am sp w = (Inr b, w') \<and> azure_credentials w' = azure_credentials w \<and>
    (b \<longrightarrow> (\<exists>groups ancestors order. am_management_groups am = Some groups \<and> am_sub_ancestors am = Some ancestors \<and>
       am_topological_sort am (tenant_graph groups ancestors) = Some order \<and>
       azure_calls w' = azure_calls w @ map (\<lambda>scope. AzureCreateRoleAssignment sp scope reader_role_definition_id)
         (filter (\<lambda>scope. am_grant am sp scope reader_role_definition_id)
           (role_scopes (tenant_graph groups ancestors) (\<lambda>scope. am_grant am sp scope reader_role_definition_id) order))))"
  by (auto simp: assign_reader_role_def Let_def seq_def bind_def create_role_assignments_run split: option.splits)

lemma azure_upsert_run:
  "\<exists>row w'. azure_upsert ws t c s w = (Inr row, w') \<and> azure_calls w' = azure_calls w \<and> row \<in> set (azure_credentials w') \<and>
    az_tenant_id row = ws \<and> az_azure_tenant_id row = t \<and> az_client_id row = c \<and> az_client_secret row = s"
proof (cases "find (\<lambda>c. az_tenant_id c = ws) (azure_credentials w)")
  case (Some e)
  have "az_tenant_id e = ws" using Some by (auto simp: find_Some_iff)
  moreover have "r \<in> set (tput az_id r rs)" for r rs by (induction rs) auto
  ultimately show ?thesis using Some by (simp add: azure_upsert_def Let_def)
qed (simp add: azure_upsert_def Let_def)

text \<open>A registration that gets as far as a service principal \<open>sp\<close> has made three calls.\<close>

definition registered :: "uuid \<Rightarrow> string \<Rightarrow> string \<Rightarrow> string \<Rightarrow> world \<Rightarrow> world" where
  "registered ws i client_id sp w = w\<lparr>azure_calls := azure_calls w @
     [AzureCreateApplication (app_name ws), AzureAddPassword i (clock w + td_days 3650),
      AzureCreateServicePrincipal client_id]\<rparr>"

definition gives_up :: "azure_mgmt \<Rightarrow> uuid \<Rightarrow> string \<Rightarrow> world \<Rightarrow> bool" where
  "gives_up am ws t w \<longleftrightarrow> (\<exists>w'. create_user_app_registration am ws t w = (Inr None, w') \<and>
     azure_credentials w' = azure_credentials w)"

lemma gives_up_early:
  "am_post_application am (app_name ws) = Reply_raises \<Longrightarrow> gives_up am ws t w"
  "am_post_application am (app_name ws) = Reply_none \<Longrightarrow> gives_up am ws t w"
  "am_post_application am (app_name ws) = Reply (None, k) \<Longrightarrow> gives_up am ws t w"
  "am_post_application am (app_name ws) = Reply (Some i, None) \<Longrightarrow> gives_up am ws t w"
  by (simp_all add: create_user_app_registration_def gives_up_def)

lemma gives_up_later:
  assumes "am_post_application am (app_name ws) = Reply (Some i, Some c)"
  shows "am_add_password am i = Reply_raises \<Longrightarrow> gives_up am ws t w"
    "am_add_password am i = Reply_none \<Longrightarrow> gives_up am ws t w" "am_add_password am i = Reply None \<Longrightarrow> gives_up am ws t w"
    "am_add_password am i = Reply (Some s) \<Longrightarrow> am_post_service_principal am c = Reply_raises \<Longrightarrow> gives_up am ws t w"
    "am_add_password am i = Reply (Some s) \<Longrightarrow> am_post_service_principal am c = Reply_none \<Longrightarrow> gives_up am ws t w"
    "am_add_password am i = Reply (Some s) \<Longrightarrow> am_post_service_principal am c = Reply None \<Longrightarrow> gives_up am ws t w"
  using assms by (simp_all add: create_user_app_registration_def gives_up_def)

lemma goes_on:
  assumes "am_post_application am (app_name ws) = Reply (Some i, Some c)" "am_add_password am i = Reply (Some secret)"
    "am_post_service_principal am c = Reply (Some sp)"
  shows "create_user_app_registration am ws t w =
      bind (assign_reader_role am sp) (\<lambda>ok.
        if ok then bind (azure_upsert ws t c secret) (\<lambda>result. ret (Some result)) else ret None)
      (registered ws i c sp w)"
  using assms by (simp add: create_user_app_registration_def registered_def)

lemma registration_steps:
  obtains "gives_up am ws t w"
  | i client_id secret sp where "create_user_app_registration am ws t w =
      bind (assign_reader_role am sp) (\<lambda>ok.
        if ok then bind (azure_upsert ws t client_id secret) (\<lambda>result. ret (Some result)) else ret None)
      (registered ws i client_id sp w)"
proof (cases "am_post_application am (app_name ws)")
  case app: (Reply ids)
  obtain j k where ids: "ids = (j, k)" by force
  show thesis
  proof (cases "j = None \<or> k = None")
    case True
    then show thesis using app ids gives_up_early(3,4) that(1) by (metis not_None_eq)
  next
    case False
    then obtain i c where ic: "ids = (Some i, Some c)" using ids by auto
    note app' = app [unfolded ic]
    show thesis
    proof (cases "\<exists>s sp. am_add_password am i = Reply (Some s) \<and> am_post_service_principal am c = Reply (Some sp)")
      case True
      then show thesis using goes_on [OF app'] that(2) by blast
    next
      case False
      then show thesis using gives_up_later [OF app'] that(1) by (metis option.exhaust reply.exhaust)
    qed
  qed
qed (use gives_up_early that(1) in blast)+

text \<open>
  Registering an application in the tenant of a user never raises. When it succeeds, the workspace
  has the new credentials, and the reader role was assigned at exactly the topmost scopes for which
  Azure accepts it, so that every subscription below them is readable and none gets the role twice.
  When it fails, the stored credentials are those from before.
\<close>

theorem azure_registration:
  assumes run: "create_user_app_registration am ws t w = (r, w')"
    and sort: "\<And>g order. am_topological_sort am g = Some order \<Longrightarrow> topological g order"
    and parents: "\<And>groups ancestors. am_management_groups am = Some groups \<Longrightarrow> am_sub_ancestors am = Some ancestors \<Longrightarrow>
      one_parent (tenant_graph groups ancestors)"
  shows "r = Inr None \<and> azure_credentials w' = azure_credentials w \<or>
    (\<exists>row sp groups ancestors scopes g. r = Inr (Some row) \<and> row \<in> set (azure_credentials w') \<and> az_tenant_id row = ws \<and>
       am_management_groups am = Some groups \<and> am_sub_ancestors am = Some ancestors \<and> g = tenant_graph groups ancestors \<and>
       (\<exists>setup. azure_calls w' = azure_calls w @ setup @
          map (\<lambda>scope. AzureCreateRoleAssignment sp scope reader_role_definition_id) scopes) \<and> distinct scopes \<and>
       set scopes = {n \<in> set (dg_nodes g). am_grant am sp n reader_role_definition_id \<and>
          (\<forall>m. (m, n) \<in> (set (dg_edges g))\<^sup>+ \<longrightarrow> \<not> am_grant am sp m reader_role_definition_id)})"
proof (cases rule: registration_steps [of am ws t w])
  case 1
  then show ?thesis using run by (auto simp: gives_up_def)
next
  case (2 i client_id secret sp)
  let ?w = "registered ws i client_id sp w"
  let ?grant = "\<lambda>scope. am_grant am sp scope reader_role_definition_id"
  obtain b w1 where assign: "assign_reader_role am sp ?w = (Inr b, w1)" "azure_credentials w1 = azure_credentials w"
    and roles: "b \<Longrightarrow> \<exists>groups ancestors order. am_management_groups am = Some groups \<and> am_sub_ancestors am = Some ancestors \<and>
       am_topological_sort am (tenant_graph groups ancestors) = Some order \<and>
       azure_calls w1 = azure_calls ?w @ map (\<lambda>scope. AzureCreateRoleAssignment sp scope reader_role_definition_id)
         (filter ?grant (role_scopes (tenant_graph groups ancestors) ?grant order))"
    using assign_reader_role_run [of am sp ?w] by (auto simp: registered_def)
  show ?thesis
  proof (cases b)
    case True
    obtain groups ancestors order where g: "am_management_groups am = Some groups" "am_sub_ancestors am = Some ancestors"
      "am_topological_sort am (tenant_graph groups ancestors) = Some order"
      "azure_calls w1 = azure_calls ?w @ map (\<lambda>scope. AzureCreateRoleAssignment sp scope reader_role_definition_id)
         (filter ?grant (role_scopes (tenant_graph groups ancestors) ?grant order))"
      using roles [OF True] by blast
    obtain row where row: "azure_upsert ws t client_id secret w1 = (Inr row, w')" "azure_calls w' = azure_calls w1"
      "row \<in> set (azure_credentials w')" "az_tenant_id row = ws" "r = Inr (Some row)"
      using azure_upsert_run [of ws t client_id secret w1] run 2 assign(1) True by auto
    define G where "G = tenant_graph groups ancestors"
    define scopes where "scopes = filter ?grant (role_scopes G ?grant order)"
    note top = role_scopes_top [OF parents [OF g(1,2)] sort [OF g(3)] edges_tenant_graph, of ?grant, folded G_def]
    have "set scopes = {n \<in> set (dg_nodes G). ?grant n \<and> (\<forall>m. (m, n) \<in> (set (dg_edges G))\<^sup>+ \<longrightarrow> \<not> ?grant m)}"
      using top(2) by (simp add: scopes_def granted_above_def)
    moreover have "\<exists>setup. azure_calls w' = azure_calls w @ setup @
        map (\<lambda>scope. AzureCreateRoleAssignment sp scope reader_role_definition_id) scopes"
      using g(4) row(2) by (simp add: registered_def scopes_def G_def)
    moreover have "distinct scopes" using top(1) by (simp add: scopes_def)
    ultimately show ?thesis using row(3-5) g(1,2) G_def by blast
  next
    case False
    then show ?thesis using run 2 assign by simp
  qed
qed

text \<open>A tenant with a root group that the user may not grant and two subscriptions below a group he may.\<close>

definition sample_mgmt :: azure_mgmt where
  "sample_mgmt = \<lparr>am_post_application = (\<lambda>_. Reply (Some ''a'', Some ''c'')), am_add_password = (\<lambda>_. Reply (Some ''s'')),
     am_post_service_principal = (\<lambda>_. Reply (Some ''p'')), am_subscriptions = Some [''s1''], am_management_groups = Some [],
     am_sub_ancestors = Some [(''s1'', [''r''])], am_topological_sort = (\<lambda>g. if g = tenant_graph [] [(''s1'', [''r''])]
       then Some [mg_id ''r'', ''s1''] else None),
     am_grant = (\<lambda>_ n _. n = ''s1''), am_principal_subscriptions = Some [''s1'']\<rparr>"

lemma sample_graph: "tenant_graph [] [(''s1'', [''r''])] = \<lparr>dg_nodes = [''s1'', mg_id ''r''], dg_edges = [(mg_id ''r'', ''s1'')]\<rparr>"
  by (simp add: tenant_graph_def add_node_def add_edge_def mg_id_def)

lemma sample_topological: "topological (tenant_graph [] [(''s1'', [''r''])]) [mg_id ''r'', ''s1'']"
  unfolding topological_def sample_graph by (auto simp: mg_id_def Cons_eq_append_conv)

lemma azure_registration_witness:
  "\<exists>row w' sp. create_user_app_registration sample_mgmt 7 ''t'' (empty_world 0 1) = (Inr (Some row), w') \<and>
    row \<in> set (azure_credentials w') \<and>
    AzureCreateRoleAssignment sp ''s1'' reader_role_definition_id \<in> set (azure_calls w')"
proof -
  obtain r w' where run: "create_user_app_registration sample_mgmt 7 ''t'' (empty_world 0 1) = (r, w')" by force
  have scopes: "role_scopes (tenant_graph [] [(''s1'', [''r''])]) (\<lambda>n. n = ''s1'') [mg_id ''r'', ''s1''] = [mg_id ''r'', ''s1'']"
    unfolding role_scopes_def sample_graph by (simp add: successors_def mg_id_def)
  have "assign_reader_role sample_mgmt ''p'' w = (Inr True, snd (assign_reader_role sample_mgmt ''p'' w))" for w
    by (simp add: assign_reader_role_def sample_mgmt_def scopes seq_def bind_def create_role_assignment_def)
  then obtain w1 where w1: "assign_reader_role sample_mgmt ''p'' (registered 7 ''a'' ''c'' ''p'' (empty_world 0 1)) = (Inr True, w1)"
    by blast
  obtain row w2 where w2: "azure_upsert 7 ''t'' ''c'' ''s'' w1 = (Inr row, w2)"
    using azure_upsert_run [of 7 "''t''" "''c''" "''s''" w1] by blast
  have "create_user_app_registration sample_mgmt 7 ''t'' (empty_world 0 1) = (Inr (Some row), w2)"
    by (subst goes_on [of _ _ "''a''" "''c''" "''s''" "''p''"]) (simp_all add: sample_mgmt_def w1 [unfolded sample_mgmt_def] w2 del: One_nat_def)
  then have some: "r \<noteq> Inr None" using run by auto
  have "r = Inr None \<and> azure_credentials w' = azure_credentials (empty_world 0 1) \<or>
    (\<exists>row sp groups ancestors scopes g. r = Inr (Some row) \<and> row \<in> set (azure_credentials w') \<and> az_tenant_id row = 7 \<and>
       am_management_groups sample_mgmt = Some groups \<and> am_sub_ancestors sample_mgmt = Some ancestors \<and> g = tenant_graph groups ancestors \<and>
       (\<exists>setup. azure_calls w' = azure_calls (empty_world 0 1) @ setup @
          map (\<lambda>scope. AzureCreateRoleAssignment sp scope reader_role_definition_id) scopes) \<and> distinct scopes \<and>
       set scopes = {n \<in> set (dg_nodes g). am_grant sample_mgmt sp n reader_role_definition_id \<and>
          (\<forall>m. (m, n) \<in> (set (dg_edges g))\<^sup>+ \<longrightarrow> \<not> am_grant sample_mgmt sp m reader_role_definition_id)})"
  proof (rule azure_registration [OF run])
    show "topological g order" if "am_topological_sort sample_mgmt g = Some order" for g order
      using that sample_topological by (auto simp: sample_mgmt_def split: if_splits)
    show "one_parent (tenant_graph groups ancestors)"
      if "am_management_groups sample_mgmt = Some groups" "am_sub_ancestors sample_mgmt = Some ancestors" for groups ancestors
      using that by (auto simp: sample_mgmt_def sample_graph one_parent_def)
  qed
  then obtain row sp scopes where res: "r = Inr (Some row)" "row \<in> set (azure_credentials w')"
    "\<exists>setup. azure_calls w' = azure_calls (empty_world 0 1) @ setup @
        map (\<lambda>scope. AzureCreateRoleAssignment sp scope reader_role_definition_id) scopes"
    "set scopes = {n \<in> set (dg_nodes (tenant_graph [] [(''s1'', [''r''])])). n = ''s1'' \<and>
        (\<forall>m. (m, n) \<in> (set (dg_edges (tenant_graph [] [(''s1'', [''r''])])))\<^sup>+ \<longrightarrow> m \<noteq> ''s1'')}"
    using some by (auto simp: sample_mgmt_def)
  have "(m, n) \<in> {(mg_id ''r'', ''s1'')}\<^sup>+ \<Longrightarrow> m = mg_id ''r''" for m n
    by (drule tranclD) simp
  then have "''s1'' \<in> set scopes" using res(4) unfolding sample_graph by (auto simp: mg_id_def)
  with res(3) have "AzureCreateRoleAssignment sp ''s1'' reader_role_definition_id \<in> set (azure_calls w')" by force
  then show ?thesis using res(1,2) run by blast
qed

end
