(* ===== verification/One_Time_Emails.thy ===== *)
theory One_Time_Emails
  imports User_Repository Workspace_Repository
begin

section \<open>E-mails that are sent once\<close>

text \<open>
  The e-mail part of \<open>NotificationService\<close> (\<open>notification/notification_service.py\<close>), \<open>OneTimeEmailService\<close> of
  \<open>notification/email/one_time_email.py\<close> over the table \<open>fire_and_forget_email\<close>, and the three consumers of
  \<open>domain_events/consumers.py\<close> that greet a user and remind a workspace of the end of its trial. Whether the
  mail server accepts an e-mail to an address, and the texts of the templates, are parameters.
\<close>

subsection \<open>The notification service\<close>

record mail_env =
  me_accepts :: "string \<Rightarrow> bool"
  me_render :: "email_message \<Rightarrow> string \<times> string \<times> string option"

definition send_email :: "mail_env \<Rightarrow> string \<Rightarrow> string \<Rightarrow> string \<Rightarrow> string option \<Rightarrow> unit io" where
  "send_email env to subject txt html =
     (if me_accepts env to then send_mail (MailTo to (PlainEmail subject txt html)) else raise ExternalError)"

definition send_message :: "mail_env \<Rightarrow> string \<Rightarrow> email_message \<Rightarrow> unit io" where
  "send_message env to message = (case me_render env message of (subject, txt, html) \<Rightarrow> send_email env to subject txt html)"

definition send_email_to_workspace :: "mail_env \<Rightarrow> uuid \<Rightarrow> string \<Rightarrow> string \<Rightarrow> string option \<Rightarrow> unit io" where
  "send_email_to_workspace env workspace_id subject txt html =
     bind (get_workspace workspace_id) (\<lambda>workspace.
     case workspace of None \<Rightarrow> ret ()
     | Some ws \<Rightarrow>
         bind (user_get_by_ids (all_users ws)) (\<lambda>found.
         for_each (\<lambda>email. catch (send_email env email subject txt html) (\<lambda>_. ret ())) (map u_email found)))"

definition send_message_to_workspace :: "mail_env \<Rightarrow> uuid \<Rightarrow> email_message \<Rightarrow> unit io" where
  "send_message_to_workspace env workspace_id message =
     (case me_render env message of (subject, txt, html) \<Rightarrow> send_email_to_workspace env workspace_id subject txt html)"

definition send_welcome_email_to_new_user :: "mail_env \<Rightarrow> uuid \<Rightarrow> uuid \<Rightarrow> unit io" where
  "send_welcome_email_to_new_user env workspace_id user_id =
     bind (user_get user_id) (\<lambda>found. case found of None \<Rightarrow> ret ()
     | Some user \<Rightarrow>
         bind (get_workspace workspace_id) (\<lambda>workspace. case workspace of None \<Rightarrow> ret ()
         | Some ws \<Rightarrow> send_message env (u_email user) (UserJoinedWorkspaceMail (u_id user) (ws_id ws))))"

subsection \<open>The one time e-mails\<close>

definition trial_end_notification :: string where
  "trial_end_notification = ''trial_end''"

definition one_time_to_model :: "one_time_email_row \<Rightarrow> exn + one_time_email_row" where
  "one_time_to_model r = (if ot_kind r = trial_end_notification then Inr r else Inl ValueError)"

definition list_pending_emails :: "one_time_email_row list io" where
  "list_pending_emails =
     bind utc (\<lambda>now.
     bind (gets (\<lambda>w. filter (\<lambda>r. ot_sent_at r = None \<and> ot_scheduled_at r \<le> now) (one_time_emails w))) (\<lambda>rows.
     lift (traverse one_time_to_model rows)))"

text \<open>An exception leaves the row as it was, so that the next run tries again.\<close>

definition send_pending_email :: "mail_env \<Rightarrow> one_time_email_row \<Rightarrow> unit io" where
  "send_pending_email env to_send =
     bind (gets (\<lambda>w. tfind ot_id (ot_id to_send) (one_time_emails w))) (\<lambda>found.
     case found of None \<Rightarrow> ret ()
     | Some entity \<Rightarrow>
         catch
           (seq (case ot_user_id to_send of None \<Rightarrow> ret ()
                 | Some i \<Rightarrow>
                     bind (user_get i) (\<lambda>user. case user of None \<Rightarrow> ret ()
                     | Some u \<Rightarrow> send_email env (u_email u) (ot_subject entity) (ot_text_content entity) (ot_html_content entity)))
           (seq (case ot_workspace_id to_send of None \<Rightarrow> ret ()
                 | Some ws \<Rightarrow> send_email_to_workspace env ws (ot_subject entity) (ot_text_content entity) (ot_html_content entity))
           (bind utc (\<lambda>now.
            modify (\<lambda>w. w\<lparr>one_time_emails := tput ot_id (entity\<lparr>ot_sent_at := Some now\<rparr>) (one_time_emails w)\<rparr>)))))
           (\<lambda>_. ret ()))"

definition send_emails_job :: "mail_env \<Rightarrow> unit io" where
  "send_emails_job env = bind list_pending_emails (\<lambda>pending. for_each (send_pending_email env) pending)"

definition schedule_one_time_email ::
  "mail_env \<Rightarrow> string \<Rightarrow> datetime \<Rightarrow> uuid option \<Rightarrow> uuid option \<Rightarrow> email_message \<Rightarrow> one_time_email_row io" where
  "schedule_one_time_email env kind scheduled_at user_id workspace_id message =
     (if user_id = None \<and> workspace_id = None then raise ValueError
      else if user_id \<noteq> None \<and> workspace_id \<noteq> None then raise ValueError
      else
        bind uuid4 (\<lambda>i.
        case me_render env message of (subject, txt, html) \<Rightarrow>
          let model = \<lparr>ot_id = i, ot_kind = kind, ot_user_id = user_id, ot_workspace_id = workspace_id,
                ot_subject = subject, ot_text_content = txt, ot_html_content = html,
                ot_scheduled_at = scheduled_at, ot_sent_at = None\<rparr> in
          bind (modify (\<lambda>w. w\<lparr>one_time_emails := one_time_emails w @ [model]\<rparr>)) (\<lambda>_. ret model)))"

text \<open>A comparison with None selects the rows where the column is null.\<close>

definition unschedule_one_time_email :: "uuid option \<Rightarrow> uuid option \<Rightarrow> string \<Rightarrow> unit io" where
  "unschedule_one_time_email user_id workspace_id kind =
     (if user_id = None \<and> workspace_id = None then raise ValueError
      else modify (\<lambda>w. w\<lparr>one_time_emails := filter (\<lambda>r. \<not> (ot_kind r = kind \<and>
             (ot_user_id r = user_id \<or> ot_workspace_id r = workspace_id))) (one_time_emails w)\<rparr>))"

definition cleanup_old_emails_job :: "unit io" where
  "cleanup_old_emails_job =
     bind utc (\<lambda>now.
     modify (\<lambda>w. w\<lparr>one_time_emails := filter (\<lambda>r. \<not> (case ot_sent_at r of None \<Rightarrow> False
       | Some t \<Rightarrow> t < now - td_days 30)) (one_time_emails w)\<rparr>))"

subsection \<open>The consumers\<close>

definition process_user_registered_event :: "mail_env \<Rightarrow> string \<Rightarrow> unit io" where
  "process_user_registered_event env email = send_message env email (Signup email)"

definition schedule_trial_end_reminder :: "mail_env \<Rightarrow> uuid \<Rightarrow> datetime \<Rightarrow> string \<Rightarrow> unit io" where
  "schedule_trial_end_reminder env workspace_id schedule_at kind =
     seq (for_each (\<lambda>days. bind (schedule_one_time_email env kind (schedule_at - td_days (int days)) None (Some workspace_id)
            (TrialExpiresSoon days)) (\<lambda>_. ret ())) [2, 1])
         (bind (schedule_one_time_email env kind schedule_at None (Some workspace_id) TrialExpired) (\<lambda>_. ret ()))"

definition workspace_created_handler :: "mail_env \<Rightarrow> uuid \<Rightarrow> unit io" where
  "workspace_created_handler env workspace_id =
     bind utc (\<lambda>now. schedule_trial_end_reminder env workspace_id (now + trial_period_duration) trial_end_notification)"

definition product_tier_changed_handler :: "uuid \<Rightarrow> product_tier \<Rightarrow> product_tier \<Rightarrow> unit io" where
  "product_tier_changed_handler workspace_id product_tier previous_tier =
     (if previous_tier = Trial \<and> product_tier \<noteq> Trial
      then unschedule_one_time_email None (Some workspace_id) trial_end_notification
      else ret ())"

subsection \<open>What a run of the job sends\<close>

definition due :: "world \<Rightarrow> one_time_email_row \<Rightarrow> bool" where
  "due w r \<longleftrightarrow> ot_sent_at r = None \<and> ot_scheduled_at r \<le> clock w"

definition user_mails :: "mail_env \<Rightarrow> world \<Rightarrow> one_time_email_row \<Rightarrow> mail list" where
  "user_mails env w r = (case ot_user_id r of None \<Rightarrow> [] | Some i \<Rightarrow>
     (case tfind u_id i (users w) of None \<Rightarrow> []
      | Some u \<Rightarrow> [MailTo (u_email u) (PlainEmail (ot_subject r) (ot_text_content r) (ot_html_content r))]))"

text \<open>The members of a workspace whose address the server accepts.\<close>

definition workspace_mails :: "mail_env \<Rightarrow> world \<Rightarrow> one_time_email_row \<Rightarrow> mail list" where
  "workspace_mails env w r = (case ot_workspace_id r of None \<Rightarrow> [] | Some ws \<Rightarrow>
     (case get_workspace ws w of (Inr (Some m), _) \<Rightarrow>
        map (\<lambda>e. MailTo e (PlainEmail (ot_subject r) (ot_text_content r) (ot_html_content r)))
          (filter (me_accepts env) (map u_email (filter (\<lambda>u. u_id u \<in> set (all_users m)) (users w))))
      | _ \<Rightarrow> []))"

text \<open>
  A row that can be sent: its workspace can be read and the server accepts the address of its user.
\<close>

definition deliverable :: "mail_env \<Rightarrow> world \<Rightarrow> one_time_email_row \<Rightarrow> bool" where
  "deliverable env w r \<longleftrightarrow> ot_kind r = trial_end_notification \<and>
     (\<forall>i. ot_user_id r = Some i \<longrightarrow> (case tfind u_id i (users w) of None \<Rightarrow> True | Some u \<Rightarrow> me_accepts env (u_email u))) \<and>
     (\<forall>ws. ot_workspace_id r = Some ws \<longrightarrow> \<not> isl (fst (get_workspace ws w)))"

definition sent :: "mail_env \<Rightarrow> one_time_email_row \<Rightarrow> world \<Rightarrow> world" where
  "sent env r w = w\<lparr>mails := mails w @ user_mails env w r @ workspace_mails env w r,
     one_time_emails := tput ot_id (r\<lparr>ot_sent_at := Some (clock w)\<rparr>) (one_time_emails w)\<rparr>"

lemma send_each:
  "for_each (\<lambda>email. catch (send_email env email s t h) (\<lambda>_. ret ())) emails w =
     (Inr (), w\<lparr>mails := mails w @ map (\<lambda>e. MailTo e (PlainEmail s t h)) (filter (me_accepts env) emails)\<rparr>)"
  by (induction emails arbitrary: w) (simp_all add: send_email_def)

lemma get_workspace_mails [simp]: "get_workspace ws (w\<lparr>mails := ms\<rparr>) = (fst (get_workspace ws w), w\<lparr>mails := ms\<rparr>)"
  by (simp add: get_workspace_run members_of_def split: option.splits sum.splits)

lemma user_get_run [simp]: "user_get i w = (Inr (map_option (load_user w) (tfind u_id i (users w))), w)"
  by (simp add: user_get_def)

lemma load_user_email [simp]: "u_email (load_user w u) = u_email u"
  by (simp add: load_user_def)

lemma send_to_workspace_run:
  assumes "ot_workspace_id r = Some ws" and "\<not> isl (fst (get_workspace ws w))"
  shows "send_email_to_workspace env ws (ot_subject r) (ot_text_content r) (ot_html_content r) w =
    (Inr (), w\<lparr>mails := mails w @ workspace_mails env w r\<rparr>)"
proof -
  obtain x where "get_workspace ws w = (Inr x, w)"
    using assms(2) get_workspace_same [of ws w] by (cases "get_workspace ws w"; cases "fst (get_workspace ws w)") auto
  then show ?thesis using assms(1)
    by (cases x) (simp_all add: send_email_to_workspace_def workspace_mails_def user_get_by_ids_def send_each comp_def)
qed

lemma workspace_mails_log [simp]: "workspace_mails env (w\<lparr>mails := ms\<rparr>) r = workspace_mails env w r"
  by (auto simp: workspace_mails_def split: option.splits sum.splits prod.splits)

lemma send_pending_email_run:
  assumes "tfind ot_id (ot_id r) (one_time_emails w) = Some r" and ok: "deliverable env w r"
  shows "send_pending_email env r w = (Inr (), sent env r w)"
proof -
  define user where "user = (case ot_user_id r of None \<Rightarrow> ret () | Some i \<Rightarrow>
     bind (user_get i) (\<lambda>user. case user of None \<Rightarrow> ret ()
       | Some u \<Rightarrow> send_email env (u_email u) (ot_subject r) (ot_text_content r) (ot_html_content r)))"
  have user: "user w = (Inr (), w\<lparr>mails := mails w @ user_mails env w r\<rparr>)"
    using ok by (auto simp: user_def user_mails_def deliverable_def send_email_def split: option.splits)
  define rest where "rest = (case ot_workspace_id r of None \<Rightarrow> ret ()
     | Some ws \<Rightarrow> send_email_to_workspace env ws (ot_subject r) (ot_text_content r) (ot_html_content r))"
  let ?w = "w\<lparr>mails := mails w @ user_mails env w r\<rparr>"
  have rest: "rest ?w = (Inr (), ?w\<lparr>mails := mails ?w @ workspace_mails env w r\<rparr>)"
    using ok send_to_workspace_run [of r _ ?w]
    by (cases "ot_workspace_id r") (auto simp: rest_def deliverable_def workspace_mails_def [of env w])
  show ?thesis
    using assms(1) user rest unfolding send_pending_email_def
    by (simp add: user_def [symmetric] rest_def [symmetric] sent_def)
qed

text \<open>The loop over rows with different ids.\<close>

definition stamped :: "datetime \<Rightarrow> uuid set \<Rightarrow> one_time_email_row list \<Rightarrow> one_time_email_row list" where
  "stamped now ids rs = map (\<lambda>r. if ot_id r \<in> ids then r\<lparr>ot_sent_at := Some now\<rparr> else r) rs"

lemma tput_stamped:
  assumes "tfind ot_id (ot_id r) rs = Some r" and "distinct (map ot_id rs)"
  shows "tput ot_id (r\<lparr>ot_sent_at := Some now\<rparr>) rs = stamped now {ot_id r} rs"
  using assms
proof (induction rs)
  case (Cons x rs)
  show ?case
  proof (cases "ot_id x = ot_id r")
    case True
    then have "ot_id r \<notin> ot_id ` set rs" using Cons.prems(2) by auto
    then have "stamped now {ot_id r} rs = rs"
      unfolding stamped_def by (intro map_idI) (metis image_eqI singletonD)
    then show ?thesis using True Cons.prems(1) by (simp add: stamped_def)
  qed (use Cons in \<open>simp add: stamped_def\<close>)
qed simp

lemma stamped_stamped: "stamped now A (stamped now {i} rs) = stamped now (insert i A) rs"
  by (auto simp: stamped_def)

lemma tfind_stamped:
  "tfind ot_id i rs = Some r \<Longrightarrow> i \<notin> ids \<Longrightarrow> tfind ot_id i (stamped now ids rs) = Some r"
  by (induction rs) (auto simp: stamped_def)

lemma map_id_stamped [simp]: "map ot_id (stamped now ids rs) = map ot_id rs"
  by (simp add: stamped_def)

lemma mails_frame [simp]:
  "user_mails env (w\<lparr>one_time_emails := rs\<rparr>) r = user_mails env w r" "user_mails env (w\<lparr>mails := ms\<rparr>) r = user_mails env w r"
  "workspace_mails env (w\<lparr>one_time_emails := rs\<rparr>) r = workspace_mails env w r"
  "deliverable env (w\<lparr>one_time_emails := rs\<rparr>) r = deliverable env w r" "deliverable env (w\<lparr>mails := ms\<rparr>) r = deliverable env w r"
  by (auto simp: user_mails_def workspace_mails_def deliverable_def get_workspace_run members_of_def
      split: option.splits sum.splits prod.splits)

lemma send_all_run:
  assumes "distinct (map ot_id (one_time_emails w))" and "distinct (map ot_id rs)"
    and "\<forall>r\<in>set rs. tfind ot_id (ot_id r) (one_time_emails w) = Some r \<and> deliverable env w r"
  shows "for_each (send_pending_email env) rs w = (Inr (), w\<lparr>
    mails := mails w @ concat (map (\<lambda>r. user_mails env w r @ workspace_mails env w r) rs),
    one_time_emails := stamped (clock w) (ot_id ` set rs) (one_time_emails w)\<rparr>)"
  using assms
proof (induction rs arbitrary: w)
  case Nil
  then show ?case by (simp add: stamped_def)
next
  case (Cons r rs)
  have r: "tfind ot_id (ot_id r) (one_time_emails w) = Some r" "deliverable env w r" using Cons.prems(3) by simp_all
  have one: "send_pending_email env r w = (Inr (), sent env r w)" by (rule send_pending_email_run [OF r])
  have rows: "one_time_emails (sent env r w) = stamped (clock w) {ot_id r} (one_time_emails w)"
    using tput_stamped [OF r(1) Cons.prems(1)] by (simp add: sent_def)
  have "tfind ot_id (ot_id x) (one_time_emails (sent env r w)) = Some x \<and> deliverable env (sent env r w) x"
    if x: "x \<in> set rs" for x
  proof -
    have "ot_id x \<notin> {ot_id r}" using x Cons.prems(2) by (metis distinct.simps(2) image_eqI list.set_map list.simps(9) singletonD)
    with x Cons.prems(3) show ?thesis unfolding rows by (auto intro: tfind_stamped simp: sent_def)
  qed
  then have "for_each (send_pending_email env) rs (sent env r w) = (Inr (), (sent env r w)\<lparr>
    mails := mails (sent env r w) @ concat (map (\<lambda>x. user_mails env (sent env r w) x @ workspace_mails env (sent env r w) x) rs),
    one_time_emails := stamped (clock (sent env r w)) (ot_id ` set rs) (one_time_emails (sent env r w))\<rparr>)"
    using Cons.prems(1,2) by (intro Cons.IH) (simp_all add: rows)
  then show ?case using one
    by (simp add: rows) (simp add: sent_def stamped_stamped)
qed

text \<open>
  C27: A run of the job sends every one time e-mail that is due, to its user or to each member of its
  workspace whose address the server accepts, marks it as sent and leaves nothing pending; all other
  e-mails stay as they are, and running the job again sends nothing.
\<close>

theorem due_emails_sent_once:
  assumes ids: "distinct (map ot_id (one_time_emails w))"
    and ok: "\<forall>r\<in>set (one_time_emails w). ot_sent_at r = None \<longrightarrow> ot_scheduled_at r \<le> clock w \<longrightarrow> deliverable env w r"
  shows "\<exists>w'. send_emails_job env w = (Inr (), w') \<and>
    mails w' = mails w @ concat (map (\<lambda>r. user_mails env w r @ workspace_mails env w r) (filter (due w) (one_time_emails w))) \<and>
    one_time_emails w' = map (\<lambda>r. if due w r then r\<lparr>ot_sent_at := Some (clock w)\<rparr> else r) (one_time_emails w) \<and>
    list_pending_emails w' = (Inr [], w') \<and> send_emails_job env w' = (Inr (), w')"
proof -
  let ?rs = "filter (due w) (one_time_emails w)"
  have "traverse one_time_to_model ?rs = Inr (map (\<lambda>r. r) ?rs)"
    by (rule traverse_ok) (use ok in \<open>auto simp: one_time_to_model_def due_def deliverable_def\<close>)
  then have pending: "list_pending_emails w = (Inr ?rs, w)"
    by (simp add: list_pending_emails_def due_def [abs_def])
  define w' where "w' = w\<lparr>mails := mails w @ concat (map (\<lambda>r. user_mails env w r @ workspace_mails env w r) ?rs),
    one_time_emails := stamped (clock w) (ot_id ` set ?rs) (one_time_emails w)\<rparr>"
  have run: "send_emails_job env w = (Inr (), w')"
    unfolding w'_def send_emails_job_def bind_Inr [where m = list_pending_emails and w = w, OF pending]
    by (rule send_all_run) (use ids ok tfind_in [OF ids] in \<open>auto simp: distinct_map_filter due_def\<close>)
  have "ot_id r \<in> ot_id ` set ?rs \<longleftrightarrow> due w r" if "r \<in> set (one_time_emails w)" for r
    using that inj_onD [of ot_id "set (one_time_emails w)"] ids by (auto simp: distinct_map)
  then have rows: "one_time_emails w' = map (\<lambda>r. if due w r then r\<lparr>ot_sent_at := Some (clock w)\<rparr> else r) (one_time_emails w)"
    by (simp add: w'_def stamped_def)
  have "filter (due w') (one_time_emails w') = []"
    unfolding rows by (auto simp: filter_empty_conv due_def w'_def)
  then have none: "list_pending_emails w' = (Inr [], w')" by (simp add: list_pending_emails_def due_def [abs_def])
  then have "send_emails_job env w' = (Inr (), w')" by (simp add: send_emails_job_def)
  with run rows none show ?thesis by (auto simp: w'_def)
qed

subsection \<open>The reminders of the end of a trial\<close>

lemma schedule_one_time_email_run:
  "schedule_one_time_email env kind at None (Some ws) m w = (Inr (r (next_uuid w)), w\<lparr>next_uuid := Suc (next_uuid w),
     one_time_emails := one_time_emails w @ [r (next_uuid w)]\<rparr>)"
  if "r = (\<lambda>i. \<lparr>ot_id = i, ot_kind = kind, ot_user_id = None, ot_workspace_id = Some ws, ot_subject = fst (me_render env m),
     ot_text_content = fst (snd (me_render env m)), ot_html_content = snd (snd (me_render env m)),
     ot_scheduled_at = at, ot_sent_at = None\<rparr>)"
  using that by (cases "me_render env m") (simp add: schedule_one_time_email_def Let_def)

text \<open>
  A new workspace gets three reminders of the end of its trial, two days before, one day before and
  at the end. But when any other workspace leaves the trial, the reminders of all workspaces are
  deleted: its reminders are looked for by a user that is null or by the workspace, and the user of
  every reminder is null.
\<close>

theorem trial_reminders_lost:
  assumes "w1 = snd (workspace_created_handler env a w)" and "w2 = snd (product_tier_changed_handler b tier Trial w1)"
    and "tier \<noteq> Trial"
  shows "(\<exists>new. one_time_emails w1 = one_time_emails w @ new \<and>
      map (\<lambda>r. (ot_workspace_id r, ot_scheduled_at r, ot_sent_at r)) new =
        [(Some a, clock w + td_days 12, None), (Some a, clock w + td_days 13, None), (Some a, clock w + td_days 14, None)]) \<and>
    (\<forall>r\<in>set (one_time_emails w2). ot_kind r = trial_end_notification \<longrightarrow> ot_user_id r \<noteq> None \<and> ot_workspace_id r \<noteq> Some b)"
  using assms
  by (auto simp: workspace_created_handler_def schedule_trial_end_reminder_def schedule_one_time_email_run [OF refl]
      product_tier_changed_handler_def unschedule_one_time_email_def trial_period_duration_def td_defs)

text \<open>Two workspaces: the second leaves its trial, the first loses its reminders.\<close>

definition sample_mail :: mail_env where
  "sample_mail = \<lparr>me_accepts = (\<lambda>_. True), me_render = (\<lambda>_. (''s'', ''t'', None))\<rparr>"

lemma trial_reminders_lost_witness:
  "\<exists>w1 w2. w1 = snd (workspace_created_handler sample_mail 7 (empty_world 0 1)) \<and>
     w2 = snd (product_tier_changed_handler 8 Plus Trial w1) \<and> length (one_time_emails w1) = 3 \<and>
     (\<forall>r\<in>set (one_time_emails w2). ot_kind r = trial_end_notification \<longrightarrow> ot_user_id r \<noteq> None \<and> ot_workspace_id r \<noteq> Some 8)"
proof -
  define w1 where "w1 = snd (workspace_created_handler sample_mail 7 (empty_world 0 1))"
  define w2 where "w2 = snd (product_tier_changed_handler 8 Plus Trial w1)"
  have "length (one_time_emails w1) = 3"
    by (simp add: w1_def workspace_created_handler_def schedule_trial_end_reminder_def schedule_one_time_email_run [OF refl] empty_world_def)
  then show ?thesis using trial_reminders_lost [OF w1_def w2_def] w1_def w2_def by blast
qed

definition reminder :: one_time_email_row where
  "reminder = \<lparr>ot_id = 1, ot_kind = trial_end_notification, ot_user_id = None, ot_workspace_id = Some 7, ot_subject = ''s'',
     ot_text_content = ''t'', ot_html_content = None, ot_scheduled_at = 0, ot_sent_at = None\<rparr>"

lemma due_emails_sent_once_witness:
  "\<exists>w'. send_emails_job sample_mail ((empty_world 5 50)\<lparr>one_time_emails := [reminder]\<rparr>) = (Inr (), w') \<and>
    one_time_emails w' = [reminder\<lparr>ot_sent_at := Some 5\<rparr>] \<and> send_emails_job sample_mail w' = (Inr (), w')"
  using due_emails_sent_once [of "(empty_world 5 50)\<lparr>one_time_emails := [reminder]\<rparr>" sample_mail]
  by (auto simp: reminder_def empty_world_def deliverable_def get_workspace_run due_def)

end
