(* ===== verification/Scheduled_Emails.thy ===== *)
theory Scheduled_Emails
  imports One_Time_Emails Calendar
begin

section \<open>Recurring and scheduled e-mails\<close>

text \<open>
  \<open>UserNotificationSettingsRepository\<close> of \<open>notification/user_notification_repo.py\<close> and
  \<open>ScheduledEmailSender\<close> of \<open>notification/email/scheduled_email.py\<close>: every ten minutes it reminds the members
  of young workspaces without a cloud account, sends the weekly or monthly report and the e-mails that
  are scheduled some time after the registration of a user. What was sent is recorded per user and kind;
  the records of a run are committed at its end. Templates, the report and the mail server are parameters.
\<close>

subsection \<open>Notification settings\<close>

definition default_settings :: "uuid \<Rightarrow> notification_settings_row" where
  "default_settings user_id = \<lparr>ns_user_id = user_id, ns_weekly_report = True, ns_inactivity_reminder = True,
     ns_tutorial = True, ns_marketing = True\<rparr>"

definition get_notification_settings :: "uuid \<Rightarrow> notification_settings_row io" where
  "get_notification_settings user_id =
     gets (\<lambda>w. case tfind ns_user_id user_id (notification_settings w) of
       Some r \<Rightarrow> r | None \<Rightarrow> default_settings user_id)"

datatype user_ref = User_id uuid | User_email string

definition resolve_user :: "user_ref \<Rightarrow> uuid io" where
  "resolve_user ref =
     (case ref of User_id i \<Rightarrow> ret i
      | User_email email \<Rightarrow>
          bind (gets (\<lambda>w. filter (\<lambda>u. u_email u = email) (users w))) (\<lambda>found.
          case found of [] \<Rightarrow> raise ValueError | [u] \<Rightarrow> ret (u_id u) | _ \<Rightarrow> raise MultipleResultsFound))"

definition update_settings ::
  "bool option \<Rightarrow> bool option \<Rightarrow> bool option \<Rightarrow> bool option \<Rightarrow> notification_settings_row \<Rightarrow> notification_settings_row" where
  "update_settings weekly_report inactivity_reminder tutorial marketing r = r\<lparr>
     ns_weekly_report := (case weekly_report of None \<Rightarrow> ns_weekly_report r | Some b \<Rightarrow> b),
     ns_inactivity_reminder := (case inactivity_reminder of None \<Rightarrow> ns_inactivity_reminder r | Some b \<Rightarrow> b),
     ns_tutorial := (case tutorial of None \<Rightarrow> ns_tutorial r | Some b \<Rightarrow> b),
     ns_marketing := (case marketing of None \<Rightarrow> ns_marketing r | Some b \<Rightarrow> b)\<rparr>"

definition update_notification_settings ::
  "user_ref \<Rightarrow> bool option \<Rightarrow> bool option \<Rightarrow> bool option \<Rightarrow> bool option \<Rightarrow> notification_settings_row io" where
  "update_notification_settings ref weekly_report inactivity_reminder tutorial marketing =
     bind (resolve_user ref) (\<lambda>user_id.
     bind (get_notification_settings user_id) (\<lambda>value.
     let settings = update_settings weekly_report inactivity_reminder tutorial marketing value in
     bind (modify (\<lambda>w. w\<lparr>notification_settings := tput ns_user_id settings (notification_settings w)\<rparr>)) (\<lambda>_.
     ret settings)))"

subsection \<open>The sender\<close>

text \<open>A rendered template for a user: subject, text and HTML text, or None when rendering raises.\<close>

type_synonym rendered = "string \<times> string \<times> string"

record sender_env =
  se_mail :: mail_env
  se_render :: "string \<Rightarrow> uuid \<Rightarrow> rendered option"
  se_report :: "workspace \<Rightarrow> datetime \<Rightarrow> timedelta \<Rightarrow> (user \<Rightarrow> rendered option) option"
  se_customer_support_users :: "string list"

definition no_cloud_account :: string where
  "no_cloud_account = ''no_cloud_account''"

definition was_sent :: "world \<Rightarrow> uuid \<Rightarrow> string \<Rightarrow> bool" where
  "was_sent w user_id kind \<longleftrightarrow> (\<exists>s\<in>set (emails_sent w). es_user_id s = user_id \<and> es_kind s = kind)"

definition send_list_email :: "sender_env \<Rightarrow> string \<Rightarrow> rendered \<Rightarrow> string \<Rightarrow> unit io" where
  "send_list_email env to r unsubscribe =
     (case r of (subject, txt, html) \<Rightarrow>
        if me_accepts (se_mail env) to then send_mail (MailTo to (ListEmail subject txt html unsubscribe))
        else raise ExternalError)"

text \<open>
  A loop that sends one e-mail per element and adds a record to the session; the records are only
  written by the commit after the loop, so an exception loses all of them.
\<close>

fun send_marking :: "('a \<Rightarrow> unit io) \<Rightarrow> ('a \<Rightarrow> uuid) \<Rightarrow> ('a \<Rightarrow> string) \<Rightarrow> datetime \<Rightarrow> 'a list \<Rightarrow> email_sent_row list io" where
  "send_marking send user kind at [] = ret []"
| "send_marking send user kind at (x # xs) =
     seq (send x)
     (bind uuid4 (\<lambda>i.
      bind (send_marking send user kind at xs) (\<lambda>rows.
      ret (\<lparr>es_id = i, es_user_id = user x, es_kind = kind x, es_at = at\<rparr> # rows))))"

definition commit_marks :: "email_sent_row list \<Rightarrow> unit io" where
  "commit_marks rows = modify (\<lambda>w. w\<lparr>emails_sent := emails_sent w @ rows\<rparr>)"

definition young_workspaces :: "datetime \<Rightarrow> world \<Rightarrow> uuid list" where
  "young_workspaces now w = map o_id (filter (\<lambda>og. (\<forall>a\<in>set (accounts w). r_tenant_id a \<noteq> o_id og) \<and>
     o_created_at og < now - td_days 1 \<and> now - td_days 2 < o_created_at og) (orgs w))"

definition remind_no_account :: "sender_env \<Rightarrow> user \<Rightarrow> unit io" where
  "remind_no_account env user =
     (case se_render env no_cloud_account (u_id user) of None \<Rightarrow> raise ExternalError
      | Some (subject, txt, html) \<Rightarrow> send_email (se_mail env) (u_email user) subject txt (Some html))"

definition new_workspaces_without_cloud_account :: "sender_env \<Rightarrow> datetime \<Rightarrow> unit io" where
  "new_workspaces_without_cloud_account env now =
     bind (gets (young_workspaces now)) (\<lambda>workspace_ids.
     if workspace_ids = [] then ret ()
     else
       bind (gets (\<lambda>w. filter (\<lambda>u. (\<exists>m\<in>set (members w). snd m = u_id u \<and> fst m \<in> set workspace_ids) \<and>
               \<not> was_sent w (u_id u) no_cloud_account) (users w))) (\<lambda>all_users.
       bind (send_marking (remind_no_account env) u_id (\<lambda>_. no_cloud_account) now all_users) commit_marks))"

definition send_scheduled :: "sender_env \<Rightarrow> user \<times> scheduled_email_row \<Rightarrow> unit io" where
  "send_scheduled env = (\<lambda>(user, to_send).
     case se_render env (sch_kind to_send) (u_id user) of None \<Rightarrow> raise ExternalError
     | Some r \<Rightarrow> send_list_email env (u_email user) r ''tutorial'')"

text \<open>The cross join of users and scheduled e-mails, less what was sent, unsubscribed or is not due.\<close>

definition scheduled_pairs :: "world \<Rightarrow> (user \<times> scheduled_email_row) list" where
  "scheduled_pairs w = filter (\<lambda>(u, s). u_created_at u + td_seconds (sch_after s) < clock w \<and>
       \<not> was_sent w (u_id u) (sch_kind s) \<and>
       (\<forall>r\<in>set (notification_settings w). ns_user_id r = u_id u \<longrightarrow> ns_tutorial r))
     (List.product (users w) (scheduled_emails w))"

definition send_scheduled_emails :: "sender_env \<Rightarrow> unit io" where
  "send_scheduled_emails env =
     bind (gets scheduled_pairs) (\<lambda>pairs.
     bind utc (\<lambda>now.
     bind (send_marking (send_scheduled env) (\<lambda>p. u_id (fst p)) (\<lambda>p. sch_kind (snd p)) now pairs) commit_marks))"


subsection \<open>The status update\<close>

text \<open>
  \<open>datetime.weekday\<close> (Monday is 0), \<open>day\<close> and \<open>hour\<close>, and \<open>strftime("%y%m%d")\<close>.
\<close>

definition dt_weekday :: "datetime \<Rightarrow> int" where
  "dt_weekday t = day_number t mod 7"

definition dt_day :: "datetime \<Rightarrow> nat" where
  "dt_day t = nat (day_number t) - days_before_year (dt_year t) - days_before_month (dt_year t) (dt_month t) + 1"

definition dt_hour :: "datetime \<Rightarrow> int" where
  "dt_hour t = t mod day_length div 3600000000"

definition two_digits :: "nat \<Rightarrow> string" where
  "two_digits n = [char_of (48 + n div 10), char_of (48 + n mod 10)]"

definition update_id :: "string \<Rightarrow> datetime \<Rightarrow> string" where
  "update_id kind now = ''update-'' @ kind @ ''-'' @ two_digits (dt_year now mod 100) @ two_digits (dt_month now) @ two_digits (dt_day now)"

text \<open>The join of workspaces, members and users, ordered by workspace and user.\<close>

definition status_rows :: "datetime \<Rightarrow> string \<Rightarrow> timedelta \<Rightarrow> (org_row \<Rightarrow> user \<Rightarrow> bool) \<Rightarrow> world \<Rightarrow> (org_row \<times> user) list" where
  "status_rows now unique_id duration email_filter w =
     sort_key (\<lambda>p. o_id (fst p)) (sort_key (\<lambda>p. u_id (snd p)) (remdups
       (filter (\<lambda>(og, u). (o_id og, u_id u) \<in> set (members w) \<and> email_filter og u \<and> o_created_at og < now - duration \<and>
           \<not> was_sent w (u_id u) unique_id \<and>
           (\<forall>r\<in>set (notification_settings w). ns_user_id r = u_id u \<longrightarrow> ns_weekly_report r))
         (List.product (orgs w) (users w)))))"

text \<open>
  One e-mail: an exception of the report, of the rendering or of the mail server is logged and the loop goes
  on. The result says whether the e-mail was sent. The condition \<open>last_workspace != workspace\<close> always holds,
  because \<open>last_workspace\<close> is never assigned: the report is created anew for every member.
\<close>

definition send_update :: "sender_env \<Rightarrow> datetime \<Rightarrow> timedelta \<Rightarrow> workspace \<Rightarrow> user \<Rightarrow> bool io" where
  "send_update env now duration workspace user =
     catch
       (case se_report env workspace now duration of None \<Rightarrow> raise ExternalError
        | Some send_fn \<Rightarrow>
            (case send_fn user of None \<Rightarrow> raise ExternalError
             | Some r \<Rightarrow> seq (send_list_email env (u_email user) r ''weekly_report'') (ret True)))
       (\<lambda>_. ret False)"

fun send_updates ::
  "sender_env \<Rightarrow> datetime \<Rightarrow> timedelta \<Rightarrow> string \<Rightarrow> (org_row \<times> user) list \<Rightarrow> uuid list \<Rightarrow> (nat \<times> email_sent_row list) io" where
  "send_updates env now duration unique_id [] marked = ret (0, [])"
| "send_updates env now duration unique_id ((og, orm_user) # rows) marked =
     bind (gets (\<lambda>w. load_user w orm_user)) (\<lambda>user.
     bind (load_org og) (\<lambda>workspace.
     bind (send_update env now duration workspace user) (\<lambda>sent.
     if \<not> sent then send_updates env now duration unique_id rows marked
     else if u_id user \<in> set marked
       then bind (send_updates env now duration unique_id rows marked) (\<lambda>(n, ms). ret (n + 1, ms))
     else
       bind uuid4 (\<lambda>i.
       bind (send_updates env now duration unique_id rows (u_id user # marked)) (\<lambda>(n, ms).
       ret (n + 1, \<lparr>es_id = i, es_user_id = u_id user, es_kind = unique_id, es_at = now\<rparr> # ms))))))"

definition send_update_kind :: "sender_env \<Rightarrow> datetime \<Rightarrow> string \<Rightarrow> timedelta \<Rightarrow> (org_row \<Rightarrow> user \<Rightarrow> bool) \<Rightarrow> nat io" where
  "send_update_kind env now kind duration email_filter =
     bind (gets (status_rows now (update_id kind now) duration email_filter)) (\<lambda>rows.
     bind (send_updates env now duration (update_id kind now) rows []) (\<lambda>(n, marks).
     bind (commit_marks marks) (\<lambda>_. ret n)))"

definition when_due :: "bool \<Rightarrow> nat io \<Rightarrow> nat io" where
  "when_due b m = (if b then m else ret 0)"

definition send_scheduled_status_update :: "sender_env \<Rightarrow> datetime \<Rightarrow> nat io" where
  "send_scheduled_status_update env now =
     bind (when_due (dt_weekday now = 4 \<and> 7 \<le> dt_hour now \<and> dt_hour now \<le> 8)
       (send_update_kind env now ''test'' (td_days 7) (\<lambda>og u. u_email u \<in> set (se_customer_support_users env)))) (\<lambda>a.
     bind (when_due (dt_weekday now = 6 \<and> 9 \<le> dt_hour now \<and> dt_hour now \<le> 12)
       (send_update_kind env now ''week'' (td_days 7) (\<lambda>og u. o_tier og \<noteq> tier_value Free))) (\<lambda>b.
     bind (when_due (dt_weekday now = 6 \<and> dt_day now \<le> 7 \<and> 9 \<le> dt_hour now \<and> dt_hour now \<le> 12)
       (let ten_days_ago = now - td_days 10 in
        send_update_kind env now ''month'' (td_days (int (days_in_month (dt_year ten_days_ago) (dt_month ten_days_ago))))
          (\<lambda>og u. o_tier og = tier_value Free))) (\<lambda>c.
     ret (a + b + c))))"

definition send_emails :: "sender_env \<Rightarrow> unit io" where
  "send_emails env =
     bind utc (\<lambda>now.
     seq (new_workspaces_without_cloud_account env now)
     (bind (send_scheduled_status_update env now) (\<lambda>_.
     send_scheduled_emails env)))"

subsection \<open>What a run sends\<close>

text \<open>A loop whose step either sends one e-mail or raises; the records of a list of sent e-mails.\<close>

fun marks :: "('a \<Rightarrow> uuid) \<Rightarrow> ('a \<Rightarrow> string) \<Rightarrow> datetime \<Rightarrow> nat \<Rightarrow> 'a list \<Rightarrow> email_sent_row list" where
  "marks user kind at i [] = []"
| "marks user kind at i (x # xs) = \<lparr>es_id = i, es_user_id = user x, es_kind = kind x, es_at = at\<rparr> # marks user kind at (Suc i) xs"

lemma was_sent_append: "was_sent (w\<lparr>emails_sent := emails_sent w @ ms\<rparr>) i k \<longleftrightarrow>
    was_sent w i k \<or> (\<exists>m\<in>set ms. es_user_id m = i \<and> es_kind m = k)"
  by (auto simp: was_sent_def)

lemma marks_user: "x \<in> set xs \<Longrightarrow> \<exists>m\<in>set (marks user kind at i xs). es_user_id m = user x \<and> es_kind m = kind x"
  by (induction xs arbitrary: i) auto

lemma send_marking_run:
  assumes "\<And>x w. send x w = (if good x then (Inr (), w\<lparr>mails := mails w @ [msg x]\<rparr>) else (Inl ExternalError, w))"
  shows "send_marking send user kind at xs w =
    (let handled = takeWhile good xs; w' = w\<lparr>mails := mails w @ map msg handled, next_uuid := next_uuid w + length handled\<rparr> in
     if list_all good xs then (Inr (marks user kind at (next_uuid w) xs), w') else (Inl ExternalError, w'))"
proof (induction xs arbitrary: w)
  case (Cons x xs)
  show ?case
  proof (cases "good x")
    case True
    let ?w = "w\<lparr>mails := mails w @ [msg x], next_uuid := Suc (next_uuid w)\<rparr>"
    show ?thesis using True Cons.IH [of ?w] assms [of x w] by (simp add: Let_def)
  qed (simp add: assms)
qed simp

definition scheduled_ok :: "sender_env \<Rightarrow> user \<times> scheduled_email_row \<Rightarrow> bool" where
  "scheduled_ok env = (\<lambda>(u, s). se_render env (sch_kind s) (u_id u) \<noteq> None \<and> me_accepts (se_mail env) (u_email u))"

definition scheduled_mail :: "sender_env \<Rightarrow> user \<times> scheduled_email_row \<Rightarrow> mail" where
  "scheduled_mail env = (\<lambda>(u, s). case the (se_render env (sch_kind s) (u_id u)) of
     (subject, txt, html) \<Rightarrow> MailTo (u_email u) (ListEmail subject txt html ''tutorial''))"

lemma send_scheduled_run:
  "send_scheduled env x w = (if scheduled_ok env x then (Inr (), w\<lparr>mails := mails w @ [scheduled_mail env x]\<rparr>) else (Inl ExternalError, w))"
  by (cases x) (auto simp: send_scheduled_def scheduled_ok_def scheduled_mail_def send_list_email_def split: option.splits prod.splits)

lemma scheduled_pairs_log [simp]:
  "scheduled_pairs (w\<lparr>mails := ms, next_uuid := n\<rparr>) = scheduled_pairs w"
  by (simp add: scheduled_pairs_def was_sent_def)

text \<open>
  A run that can send every scheduled e-mail that is due sends them all, and the next run sends nothing. When
  one e-mail can not be rendered or its address is refused, the run raises at that e-mail, records none of the
  e-mails it sent before, and finds the same list again, so the next run sends those again.
\<close>

theorem scheduled_emails_repeat:
  shows "if list_all (scheduled_ok env) (scheduled_pairs w)
    then \<exists>w'. send_scheduled_emails env w = (Inr (), w') \<and>
      mails w' = mails w @ map (scheduled_mail env) (scheduled_pairs w) \<and> send_scheduled_emails env w' = (Inr (), w')
    else \<exists>w'. send_scheduled_emails env w = (Inl ExternalError, w') \<and>
      mails w' = mails w @ map (scheduled_mail env) (takeWhile (scheduled_ok env) (scheduled_pairs w)) \<and>
      emails_sent w' = emails_sent w \<and> scheduled_pairs w' = scheduled_pairs w"
proof -
  let ?ps = "scheduled_pairs w" and ?run = "send_marking (send_scheduled env) (\<lambda>p. u_id (fst p)) (\<lambda>p. sch_kind (snd p)) (clock w)"
  note run = send_marking_run [of "send_scheduled env" "scheduled_ok env" "scheduled_mail env", OF send_scheduled_run]
  show ?thesis
  proof (cases "list_all (scheduled_ok env) ?ps")
    case True
    define ms where "ms = marks (\<lambda>p. u_id (fst p)) (\<lambda>p. sch_kind (snd p)) (clock w) (next_uuid w) ?ps"
    define w1 where "w1 = w\<lparr>mails := mails w @ map (scheduled_mail env) ?ps, next_uuid := next_uuid w + length ?ps\<rparr>"
    define w' where "w' = w1\<lparr>emails_sent := emails_sent w1 @ ms\<rparr>"
    have "takeWhile (scheduled_ok env) ?ps = ?ps" using True by (simp add: list_all_iff takeWhile_eq_all_conv)
    with True have "send_scheduled_emails env w = (Inr (), w')"
      by (simp add: send_scheduled_emails_def run Let_def commit_marks_def w'_def w1_def ms_def del: takeWhile_eq_all_conv)
    moreover have "scheduled_pairs w' = []"
    proof -
      have "was_sent w' (u_id u) (sch_kind s)" if "(u, s) \<in> set ?ps" for u s
        unfolding w'_def was_sent_append using marks_user [OF that] ms_def by fastforce
      moreover have "(u, s) \<in> set ?ps \<or> was_sent w' (u_id u) (sch_kind s)" if "(u, s) \<in> set (scheduled_pairs w')" for u s
        using that by (auto simp: scheduled_pairs_def w'_def w1_def was_sent_def)
      moreover have "\<not> was_sent w' (u_id u) (sch_kind s)" if "(u, s) \<in> set (scheduled_pairs w')" for u s
        using that by (auto simp: scheduled_pairs_def)
      ultimately have "p \<notin> set (scheduled_pairs w')" for p by (cases p) blast
      then show ?thesis by (cases "scheduled_pairs w'") auto
    qed
    then have "send_scheduled_emails env w' = (Inr (), w')"
      by (simp add: send_scheduled_emails_def commit_marks_def)
    ultimately show ?thesis using True by (auto simp: w'_def w1_def)
  next
    case False
    let ?d = "takeWhile (scheduled_ok env) ?ps"
    let ?w = "w\<lparr>mails := mails w @ map (scheduled_mail env) ?d, next_uuid := next_uuid w + length ?d\<rparr>"
    have "send_scheduled_emails env w = (Inl ExternalError, ?w)"
      using False by (simp add: send_scheduled_emails_def run Let_def)
    then show ?thesis using False by auto
  qed
qed

text \<open>
  The settings of a user are those that were set last: an update sets what it names, keeps the rest (all
  switched on for a user without settings), and is read back.
\<close>

theorem notification_settings_round_trip:
  shows "\<exists>w' s. update_notification_settings (User_id i) weekly_report inactivity_reminder tutorial marketing w = (Inr s, w') \<and>
    get_notification_settings i w' = (Inr s, w') \<and>
    (\<exists>old. get_notification_settings i w = (Inr old, w) \<and> s = update_settings weekly_report inactivity_reminder tutorial marketing old) \<and>
    (j = i \<or> fst (get_notification_settings j w') = fst (get_notification_settings j w))"
proof -
  define old where "old = (case tfind ns_user_id i (notification_settings w) of Some r \<Rightarrow> r | None \<Rightarrow> default_settings i)"
  define s where "s = update_settings weekly_report inactivity_reminder tutorial marketing old"
  define w' where "w' = w\<lparr>notification_settings := tput ns_user_id s (notification_settings w)\<rparr>"
  have old: "get_notification_settings i w = (Inr old, w)" by (simp add: get_notification_settings_def old_def)
  have "ns_user_id old = i"
    by (auto simp: old_def default_settings_def dest: tfind_Some split: option.splits)
  then have s: "ns_user_id s = i" by (simp add: s_def update_settings_def)
  have "update_notification_settings (User_id i) weekly_report inactivity_reminder tutorial marketing w = (Inr s, w')"
    by (simp add: update_notification_settings_def resolve_user_def old s_def w'_def Let_def)
  moreover have "get_notification_settings i w' = (Inr s, w')"
    using tfind_tput_same [of ns_user_id s] s by (simp add: get_notification_settings_def w'_def)
  moreover have "j = i \<or> fst (get_notification_settings j w') = fst (get_notification_settings j w)"
    unfolding s [symmetric] by (cases "j = ns_user_id s") (simp_all add: get_notification_settings_def w'_def)
  ultimately show ?thesis using old s_def by blast
qed

end
