(* ===== verification/Alerts.thy ===== *)
theory Alerts
  imports Dispatcher One_Time_Emails
begin

section \<open>Alerts\<close>

text \<open>
  \<open>NotificationProviderConfigRepository\<close>, \<open>WorkspaceAlertRepository\<close> and the alert part of
  \<open>NotificationService\<close> (\<open>notification/notification_service.py\<close>): after a collect run the inventory is asked which
  checks of a benchmark fail now, an alert goes to every channel of the benchmark's setting through a Redis
  stream, and a listener hands it to the sender of the channel. The inventory, the links and digests,
  the HTTP services behind the channels and the mail server are parameters.
\<close>

subsection \<open>Severities\<close>

text \<open>\<open>ReportSeverityPriority\<close> and \<open>ReportSeverityIncluded\<close> of \<open>inventory/inventory_service.py\<close>.\<close>

definition severity_list :: "report_severity list" where
  "severity_list = [Severity_info, Severity_low, Severity_medium, Severity_high, Severity_critical]"

fun severity_priority :: "report_severity \<Rightarrow> nat" where
  "severity_priority Severity_info = 0"
| "severity_priority Severity_low = 1"
| "severity_priority Severity_medium = 2"
| "severity_priority Severity_high = 3"
| "severity_priority Severity_critical = 4"

definition severity_included :: "report_severity \<Rightarrow> report_severity list" where
  "severity_included s = drop (severity_priority s) severity_list"

fun severity_name :: "report_severity \<Rightarrow> string" where
  "severity_name Severity_info = ''info''"
| "severity_name Severity_low = ''low''"
| "severity_name Severity_medium = ''medium''"
| "severity_name Severity_high = ''high''"
| "severity_name Severity_critical = ''critical''"

fun comma_join :: "string list \<Rightarrow> string" where
  "comma_join [] = []"
| "comma_join [x] = x"
| "comma_join (x # xs) = x @ '','' @ comma_join xs"

subsection \<open>The repositories\<close>

definition config_get :: "string \<Rightarrow> provider_config \<Rightarrow> config_value option" where
  "config_get key cfg = map_of cfg key"

fun config_true :: "config_value \<Rightarrow> bool" where
  "config_true (Config_str s) \<longleftrightarrow> s \<noteq> []"
| "config_true (Config_list xs) \<longleftrightarrow> xs \<noteq> []"

definition readable_config :: "provider_config_row \<Rightarrow> provider_config" where
  "readable_config r = (case config_get ''email'' (pc_config r) of
     Some email \<Rightarrow> if config_true email then [(''email'', email)] else [] | None \<Rightarrow> [])"

abbreviation pc_key :: "provider_config_row \<Rightarrow> uuid \<times> notification_provider" where
  "pc_key r \<equiv> (pc_workspace_id r, pc_provider r)"

definition all_messaging_configs_for_workspace :: "uuid \<Rightarrow> provider_config_row list io" where
  "all_messaging_configs_for_workspace ws = gets (\<lambda>w. filter (\<lambda>r. pc_workspace_id r = ws) (provider_configs w))"

definition get_messaging_config_for_workspace :: "uuid \<Rightarrow> notification_provider \<Rightarrow> provider_config option io" where
  "get_messaging_config_for_workspace ws provider =
     gets (\<lambda>w. map_option pc_config (tfind pc_key (ws, provider) (provider_configs w)))"

definition update_messaging_config_for_workspace ::
  "uuid \<Rightarrow> notification_provider \<Rightarrow> string \<Rightarrow> provider_config \<Rightarrow> unit io" where
  "update_messaging_config_for_workspace ws provider name config =
     modify (\<lambda>w. w\<lparr>provider_configs := tput pc_key
       \<lparr>pc_workspace_id = ws, pc_provider = provider, pc_name = take 63 name, pc_config = config\<rparr> (provider_configs w)\<rparr>)"

definition delete_messaging_config_for_workspace :: "uuid \<Rightarrow> notification_provider \<Rightarrow> unit io" where
  "delete_messaging_config_for_workspace ws provider =
     modify (\<lambda>w. w\<lparr>provider_configs := filter (\<lambda>r. \<not> (pc_workspace_id r = ws \<and> pc_provider r = provider)) (provider_configs w)\<rparr>)"

definition repo_alerting_for :: "uuid \<Rightarrow> workspace_alert option io" where
  "repo_alerting_for ws = gets (\<lambda>w. tfind wa_workspace_id ws (alert_configs w))"

definition set_alerting_for_workspace :: "workspace_alert \<Rightarrow> workspace_alert io" where
  "set_alerting_for_workspace alert =
     bind (modify (\<lambda>w. w\<lparr>alert_configs := tput wa_workspace_id alert (alert_configs w)\<rparr>)) (\<lambda>_. ret alert)"

subsection \<open>The settings\<close>

definition list_notification_provider_configs :: "uuid \<Rightarrow> (notification_provider \<times> provider_config) list io" where
  "list_notification_provider_configs ws =
     bind (all_messaging_configs_for_workspace ws) (\<lambda>configs.
     ret (map (\<lambda>c. (pc_provider c, (''name'', Config_str (pc_name c)) # readable_config c)) configs))"

text \<open>\<open>list.remove\<close> takes out the first occurrence.\<close>

definition drop_channel :: "notification_provider \<Rightarrow> workspace_alert \<Rightarrow> workspace_alert" where
  "drop_channel provider a =
     a\<lparr>wa_alerts := map (\<lambda>(b, s). (b, s\<lparr>as_channels := remove1 provider (as_channels s)\<rparr>)) (wa_alerts a)\<rparr>"

definition delete_notification_provider_config :: "uuid \<Rightarrow> notification_provider \<Rightarrow> unit io" where
  "delete_notification_provider_config ws provider =
     bind (repo_alerting_for ws) (\<lambda>alerting.
     seq (case alerting of None \<Rightarrow> ret ()
          | Some a \<Rightarrow>
              if \<exists>(b, s)\<in>set (wa_alerts a). provider \<in> set (as_channels s)
              then bind (set_alerting_for_workspace (drop_channel provider a)) (\<lambda>_. ret ())
              else ret ())
         (delete_messaging_config_for_workspace ws provider))"

definition update_notification_provider_config ::
  "uuid \<Rightarrow> uuid \<Rightarrow> notification_provider \<Rightarrow> string \<Rightarrow> provider_config \<Rightarrow> unit io" where
  "update_notification_provider_config ws user_id provider name config =
     seq (publish (AlertNotificationSetupUpdated ws user_id provider))
         (update_messaging_config_for_workspace ws provider name config)"

definition alerting_for :: "uuid \<Rightarrow> workspace_alert option io" where
  "alerting_for ws = repo_alerting_for ws"

text \<open>What the inventory answers; None is an exception of its client.\<close>

record check_count =
  ag_count :: "int option"
  ag_check :: "string option"
  ag_severity :: "report_severity option"
  ag_benchmark :: "string option"

text \<open>A node of the history with its checks; None when it is not a \<open>VulnerableResource\<close>.\<close>

record history_node =
  hn_resource :: "vulnerable_resource option"
  hn_checks :: "string list"

record check_def =
  cd_id :: "string option"
  cd_title :: "string option"
  cd_severity :: "report_severity option"

datatype post_result = Post_success | Post_server_error | Post_other_error | Post_raises

record alert_env =
  ae_benchmarks :: "graph_database_access \<Rightarrow> string list option"
  ae_search_history :: "graph_database_access \<Rightarrow> string \<Rightarrow> datetime \<Rightarrow> datetime \<Rightarrow> check_count list option"
  ae_history :: "graph_database_access \<Rightarrow> string list \<Rightarrow> string \<Rightarrow> datetime \<Rightarrow> datetime \<Rightarrow> history_node list option"
  ae_checks :: "graph_database_access \<Rightarrow> string list \<Rightarrow> check_def list option"
  ae_md5 :: "string list \<Rightarrow> string"
  ae_resource_link :: "uuid \<Rightarrow> vulnerable_resource \<Rightarrow> string"
  ae_search_link :: "uuid \<Rightarrow> string \<Rightarrow> (datetime \<times> datetime) option \<Rightarrow> string"
  ae_post :: "notification_provider \<Rightarrow> string \<Rightarrow> failing_checks_detected \<Rightarrow> post_result"
  ae_mail :: mail_env

definition update_alerting_for :: "alert_env \<Rightarrow> workspace_alert \<Rightarrow> workspace_alert io" where
  "update_alerting_for env alert =
     bind (get_database_access (wa_workspace_id alert)) (\<lambda>access.
     case access of None \<Rightarrow> raise ValueError
     | Some db \<Rightarrow>
         (case ae_benchmarks env db of None \<Rightarrow> raise ExternalError
          | Some benchmark_ids \<Rightarrow>
              if \<forall>(b, s)\<in>set (wa_alerts alert). b \<in> set benchmark_ids then set_alerting_for_workspace alert
              else raise ValueError))"

subsection \<open>Loading an alert\<close>

definition raises_on_none :: "'a option \<Rightarrow> exn + 'a" where
  "raises_on_none x = (case x of None \<Rightarrow> Inl ExternalError | Some a \<Rightarrow> Inr a)"

text \<open>The condition on an issue and the query of the inventory.\<close>

definition issue_condition :: "string \<Rightarrow> report_severity \<Rightarrow> string" where
  "issue_condition benchmark severity = ''benchmarks[]=='' @ benchmark @ '' and severity in ['' @
     comma_join (map severity_name (severity_included severity)) @ '']''"

definition issue_query :: "string \<Rightarrow> string list \<Rightarrow> report_severity \<Rightarrow> string" where
  "issue_query benchmark task_ids severity =
     ''/security.has_issues==true and /security.run_id in ['' @ comma_join task_ids @
     ''] and /diff.node_vulnerable[].{'' @ issue_condition benchmark severity @ ''}''"

text \<open>
  The failing checks: a dictionary from check to severity, the number of resources per check and the number of
  rows. A row counts when it has a count, a check, a severity and the benchmark that was asked for.
\<close>

type_synonym check_severities = "(string \<times> report_severity) list"

definition relevant :: "string \<Rightarrow> check_count \<Rightarrow> bool" where
  "relevant benchmark agg \<longleftrightarrow> ag_count agg \<noteq> None \<and> ag_count agg \<noteq> Some 0 \<and> str_true (ag_check agg) \<and>
     ag_severity agg \<noteq> None \<and> str_true (ag_benchmark agg) \<and> ag_benchmark agg = Some benchmark"

fun count_failing :: "string \<Rightarrow> check_count list \<Rightarrow> check_severities \<times> (string \<Rightarrow> int) \<times> nat \<Rightarrow> check_severities \<times> (string \<Rightarrow> int) \<times> nat" where
  "count_failing benchmark [] s = s"
| "count_failing benchmark (agg # aggs) (checks, counts, n) =
     count_failing benchmark aggs
       (if relevant benchmark agg
        then let check = the (ag_check agg) in
          (tput fst (check, the (ag_severity agg)) checks, counts(check := the (ag_count agg)), n + 1)
        else (checks, counts, n))"

definition top_checks :: "check_severities \<Rightarrow> string list" where
  "top_checks failing = take 5 (map fst (sort_key (\<lambda>(c, s). - int (severity_priority s)) failing))"

text \<open>
  The examples: at most three per top check; the loop over the checks of a node ends when the 25th example was
  added. \<open>link\<close> computes the link of a resource.
\<close>

type_synonym example_map = "string \<Rightarrow> vulnerable_resource list"

fun node_examples ::
  "(vulnerable_resource \<Rightarrow> string) \<Rightarrow> string list \<Rightarrow> vulnerable_resource option \<Rightarrow> string list \<Rightarrow> example_map \<times> nat \<Rightarrow> exn + example_map \<times> nat" where
  "node_examples link tops resource [] s = Inr s"
| "node_examples link tops resource (check # checks) (examples, n) =
     (if check \<in> set tops \<and> length (examples check) < 3 then
        (case resource of None \<Rightarrow> Inl ExternalError
         | Some r \<Rightarrow>
             let s = (examples(check := examples check @ [r\<lparr>vr_ui_link := link r\<rparr>]), n + 1) in
             if n + 1 = 25 then Inr s else node_examples link tops resource checks s)
      else node_examples link tops resource checks (examples, n))"

fun load_examples ::
  "(vulnerable_resource \<Rightarrow> string) \<Rightarrow> string list \<Rightarrow> history_node list \<Rightarrow> example_map \<times> nat \<Rightarrow> exn + example_map \<times> nat" where
  "load_examples link tops [] s = Inr s"
| "load_examples link tops (node # nodes) s =
     (case node_examples link tops (hn_resource node) (hn_checks node) s of
        Inl e \<Rightarrow> Inl e | Inr s' \<Rightarrow> load_examples link tops nodes s')"

definition check_of :: "(string \<Rightarrow> int) \<Rightarrow> example_map \<Rightarrow> check_def \<Rightarrow> failed_check list" where
  "check_of counts examples c =
     (case (cd_id c, cd_title c, cd_severity c) of
        (Some cid, Some title, Some sev) \<Rightarrow>
          if cid \<noteq> [] \<and> title \<noteq> []
          then [\<lparr>fc_check_id = cid, fc_title = title, fc_severity = sev, fc_failed_resources = nat (counts cid), fc_examples = examples cid\<rparr>]
          else []
      | _ \<Rightarrow> [])"

definition load_alert ::
  "alert_env \<Rightarrow> graph_database_access \<Rightarrow> string \<Rightarrow> string list \<Rightarrow> report_severity \<Rightarrow> datetime \<Rightarrow> datetime \<Rightarrow>
   exn + failing_checks_detected option" where
  "load_alert env access benchmark task_ids severity after before =
     (let query = issue_query benchmark task_ids severity; ws = g_workspace_id access in
      case raises_on_none (ae_search_history env access query before after) of Inl e \<Rightarrow> Inl e
      | Inr aggs \<Rightarrow>
          (case count_failing benchmark aggs ([], \<lambda>_. 0, 0) of (failing, counts, n) \<Rightarrow>
           if n = 0 then Inr None
           else
             (let tops = top_checks failing in
              case raises_on_none (ae_history env access tops (issue_condition benchmark severity) before after) of Inl e \<Rightarrow> Inl e
              | Inr nodes \<Rightarrow>
                  (case load_examples (ae_resource_link env ws) tops nodes (\<lambda>_. [], 0) of Inl e \<Rightarrow> Inl e
                   | Inr (examples, _) \<Rightarrow>
                       (case raises_on_none (ae_checks env access tops) of Inl e \<Rightarrow> Inl e
                        | Inr defs \<Rightarrow>
                            (case concat (map (check_of counts examples) defs) of
                               [] \<Rightarrow> Inl IndexError
                             | first # others \<Rightarrow>
                                 Inr (Some \<lparr>fd_id = ae_md5 env (benchmark # task_ids), fd_workspace_id = ws,
                                   fd_benchmark = benchmark, fd_severity = fc_severity first,
                                   fd_failed_checks_count_total = n, fd_examples = first # others,
                                   fd_ui_link = ae_search_link env ws query (Some (after, before))\<rparr>)))))))"

subsection \<open>Sending\<close>

fun config_key :: "notification_provider \<Rightarrow> string" where
  "config_key Via_discord = ''webhook_url''"
| "config_key Via_slack = ''webhook_url''"
| "config_key Via_teams = ''webhook_url''"
| "config_key Via_pagerduty = ''integration_key''"
| "config_key Via_opsgenie = ''api_key''"
| "config_key Via_email = ''email''"

fun targets :: "config_value \<Rightarrow> string list" where
  "targets (Config_str s) = [s]"
| "targets (Config_list xs) = xs"

definition log_alert :: "failing_checks_detected \<Rightarrow> notification_provider \<Rightarrow> string \<Rightarrow> unit io" where
  "log_alert alert channel target = modify (\<lambda>w. w\<lparr>alerts_sent := alerts_sent w @ [(alert, channel, target)]\<rparr>)"

text \<open>A server error makes the listener of the stream try again, any other refusal is logged.\<close>

definition post_alert :: "alert_env \<Rightarrow> notification_provider \<Rightarrow> failing_checks_detected \<Rightarrow> string \<Rightarrow> unit io" where
  "post_alert env channel alert target =
     (if channel = Via_email
      then (if me_accepts (ae_mail env) target then log_alert alert channel target else raise ExternalError)
      else (case ae_post env channel target alert of
              Post_success \<Rightarrow> log_alert alert channel target
            | Post_other_error \<Rightarrow> ret ()
            | _ \<Rightarrow> raise ExternalError))"

definition sender_send_alert :: "alert_env \<Rightarrow> notification_provider \<Rightarrow> failing_checks_detected \<Rightarrow> provider_config \<Rightarrow> unit io" where
  "sender_send_alert env channel alert config =
     (case config_get (config_key channel) config of None \<Rightarrow> ret ()
      | Some v \<Rightarrow> if config_true v then for_each (post_alert env channel alert) (targets v) else ret ())"

definition vulnerable_resources_detected :: string where
  "vulnerable_resources_detected = ''vulnerable_resources_detected''"

definition send_alert :: "alert_env \<Rightarrow> string \<Rightarrow> failing_checks_detected \<times> notification_provider \<Rightarrow> unit io" where
  "send_alert env kind = (\<lambda>(alert, channel).
     if kind \<noteq> vulnerable_resources_detected then raise ValueError
     else
       bind (get_messaging_config_for_workspace (fd_workspace_id alert) channel) (\<lambda>cfg.
       case cfg of None \<Rightarrow> ret ()
       | Some c \<Rightarrow> if c = [] then ret () else sender_send_alert env channel alert c))"

definition publish_alert :: "failing_checks_detected \<Rightarrow> notification_provider \<Rightarrow> unit io" where
  "publish_alert alert channel = modify (\<lambda>w. w\<lparr>alert_stream := alert_stream w @ [(alert, channel)]\<rparr>)"

definition alert_on_benchmark ::
  "alert_env \<Rightarrow> graph_database_access \<Rightarrow> uuid \<Rightarrow> string list \<Rightarrow> datetime \<Rightarrow> datetime \<Rightarrow> string \<times> alert_setting \<Rightarrow> unit io" where
  "alert_on_benchmark env access ws task_ids after now = (\<lambda>(benchmark, s).
     bind (lift (load_alert env access benchmark task_ids (as_severity s) after now)) (\<lambda>alert.
     case alert of None \<Rightarrow> ret ()
     | Some a \<Rightarrow>
         seq (for_each (publish_alert a) (as_channels s))
             (publish (FailingBenchmarkChecksAlertSend ws benchmark (fd_severity a) (fd_failed_checks_count_total a) (as_channels s)))))"

fun min_list_or :: "datetime \<Rightarrow> datetime list \<Rightarrow> datetime" where
  "min_list_or d [] = d"
| "min_list_or d (x # xs) = fold min xs x"

definition alert_on_changed :: "alert_env \<Rightarrow> uuid \<Rightarrow> (uuid \<times> collect_info) list \<Rightarrow> unit io" where
  "alert_on_changed env ws cloud_accounts =
     bind utc (\<lambda>now.
     let infos = map snd cloud_accounts; earliest_started_at = min_list_or now (map ci_started_at infos);
         task_ids = concat (map (\<lambda>a. case ci_task_id a of None \<Rightarrow> [] | Some t \<Rightarrow> [t]) infos) in
     if sum_list (map ci_scanned_resources infos) \<le> 0 then ret ()
     else
       bind (repo_alerting_for ws) (\<lambda>cfg.
       case cfg of None \<Rightarrow> ret ()
       | Some c \<Rightarrow>
           if non_empty_alerts c = [] then ret ()
           else
             bind (get_database_access ws) (\<lambda>access.
             case access of None \<Rightarrow> ret ()
             | Some db \<Rightarrow> for_each (alert_on_benchmark env db ws task_ids earliest_started_at now) (non_empty_alerts c))))"

definition test_alert :: "alert_env \<Rightarrow> uuid \<Rightarrow> string \<Rightarrow> failing_checks_detected" where
  "test_alert env ws ui_link =
     (let resource = \<lparr>vr_id = ''example'', vr_kind = ''account'', vr_name = Some ''example'', vr_cloud = None, vr_account = None,
            vr_region = None, vr_zone = None, vr_ui_link = ui_link\<rparr>;
          check = (\<lambda>i title. \<lparr>fc_check_id = i, fc_title = title, fc_severity = Severity_info, fc_failed_resources = 1, fc_examples = [resource]\<rparr>) in
      \<lparr>fd_id = ae_md5 env [''test'', uuid_str ws], fd_workspace_id = ws, fd_benchmark = ''Example Benchmark'',
       fd_severity = Severity_info, fd_failed_checks_count_total = 2,
       fd_examples = [check ''test-1'' ''Example Check Only For Testing!'', check ''test-2'' ''Please Ignore.''],
       fd_ui_link = ui_link\<rparr>)"

definition send_test_alert :: "alert_env \<Rightarrow> uuid \<Rightarrow> notification_provider \<Rightarrow> unit io" where
  "send_test_alert env ws provider =
     bind (get_database_access ws) (\<lambda>access.
     case access of None \<Rightarrow> ret ()
     | Some db \<Rightarrow>
         send_alert env vulnerable_resources_detected
           (test_alert env ws (ae_search_link env (g_workspace_id db) ''all'' None), provider))"

subsection \<open>What an alert holds\<close>

text \<open>The examples are within three per top check, and their number is the counter of the loop.\<close>

definition examples_ok :: "string list \<Rightarrow> example_map \<times> nat \<Rightarrow> bool" where
  "examples_ok tops = (\<lambda>(examples, n). (\<forall>c. length (examples c) \<le> 3) \<and>
     n = sum_list (map (\<lambda>c. length (examples c)) (remdups tops)) \<and> (\<forall>c. c \<notin> set tops \<longrightarrow> examples c = []))"

lemma sum_list_fun_upd:
  "distinct xs \<Longrightarrow> x \<in> set xs \<Longrightarrow>
    sum_list (map (\<lambda>c. length ((f(x := ys)) c)) xs) + length (f x) = sum_list (map (\<lambda>c. length (f c)) xs) + length ys"
proof (induction xs)
  case (Cons y ys')
  then show ?case
    by (cases "x = y") (auto simp: fun_upd_def cong: map_cong intro!: arg_cong [where f = sum_list])
qed simp

lemma node_examples_ok:
  "node_examples link tops resource checks s = Inr s' \<Longrightarrow> examples_ok tops s \<Longrightarrow> examples_ok tops s'"
proof (induction link tops resource checks s rule: node_examples.induct)
  case (2 link tops resource check checks examples n)
  show ?case
  proof (cases "check \<in> set tops \<and> length (examples check) < 3")
    case True
    then obtain r where r: "resource = Some r" using "2.prems"(1) by (cases resource) simp_all
    let ?ex = "examples(check := examples check @ [r\<lparr>vr_ui_link := link r\<rparr>])"
    have "examples_ok tops (?ex, n + 1)"
      using "2.prems"(2) True sum_list_fun_upd [of "remdups tops" check examples "?ex check"]
      by (auto simp: examples_ok_def)
    then show ?thesis using 2 True r by (auto simp: Let_def split: if_splits)
  qed (use 2 in auto)
qed simp

lemma load_examples_ok:
  "load_examples link tops nodes s = Inr s' \<Longrightarrow> examples_ok tops s \<Longrightarrow> examples_ok tops s'"
  by (induction link tops nodes s rule: load_examples.induct) (auto split: sum.splits dest: node_examples_ok)

lemma examples_at_most: "examples_ok tops (ex, n) \<Longrightarrow> length tops \<le> 5 \<Longrightarrow> n \<le> 15"
proof -
  assume ok: "examples_ok tops (ex, n)" and "length tops \<le> 5"
  have "sum_list (map (\<lambda>c. length (ex c)) xs) \<le> 3 * length xs" for xs
    using ok by (induction xs) (auto simp: examples_ok_def intro: add_mono)
  then have "n \<le> 3 * length (remdups tops)" using ok by (simp add: examples_ok_def)
  also have "\<dots> \<le> 15" using le_trans [OF length_remdups_leq \<open>length tops \<le> 5\<close>] by simp
  finally show "n \<le> 15" .
qed

lemma load_alert_facts:
  assumes "load_alert env access benchmark task_ids severity after before = Inr (Some a)"
  obtains aggs failing counts n nodes examples m defs where
    "ae_search_history env access (issue_query benchmark task_ids severity) before after = Some aggs"
    "count_failing benchmark aggs ([], \<lambda>_. 0, 0) = (failing, counts, n)" "0 < n"
    "load_examples (ae_resource_link env (g_workspace_id access)) (top_checks failing) nodes (\<lambda>_. [], 0) = Inr (examples, m)"
    "ae_checks env access (top_checks failing) = Some defs"
    "fd_examples a = concat (map (check_of counts examples) defs)" "fd_examples a \<noteq> []"
    "fd_severity a = fc_severity (hd (fd_examples a))" "fd_failed_checks_count_total a = n"
    "fd_workspace_id a = g_workspace_id access" "fd_benchmark a = benchmark"
proof -
  show thesis
    using assms
    apply (clarsimp simp: load_alert_def Let_def raises_on_none_def split: option.splits prod.splits if_splits sum.splits list.splits)
    apply (rule that)
              apply (assumption | simp)+
    done
qed

text \<open>
  An alert tells of at least one failing check, is for the workspace and benchmark that were asked for, has the
  severity of the first check it names, and gives at most three examples per check: at most fifteen in all, so the
  limit of 25 in the loop is never reached.
\<close>

theorem alert_content:
  assumes "load_alert env access benchmark task_ids severity after before = Inr (Some a)"
  shows "0 < fd_failed_checks_count_total a \<and> fd_workspace_id a = g_workspace_id access \<and> fd_benchmark a = benchmark \<and>
    fd_examples a \<noteq> [] \<and> fd_severity a = fc_severity (hd (fd_examples a)) \<and>
    (\<forall>c\<in>set (fd_examples a). length (fc_examples c) \<le> 3) \<and>
    (\<exists>tops nodes examples m. length tops \<le> 5 \<and> m \<le> 15 \<and>
       load_examples (ae_resource_link env (g_workspace_id access)) tops nodes (\<lambda>_. [], 0) = Inr (examples, m) \<and>
       (\<forall>c\<in>set (fd_examples a). fc_examples c = examples (fc_check_id c)))"
  using assms
proof (rule load_alert_facts)
  fix aggs failing counts n nodes examples m defs
  assume load: "load_examples (ae_resource_link env (g_workspace_id access)) (top_checks failing) nodes (\<lambda>_. [], 0) = Inr (examples, m)"
    and fex: "fd_examples a = concat (map (check_of counts examples) defs)"
    and rest: "0 < n" "fd_examples a \<noteq> []" "fd_severity a = fc_severity (hd (fd_examples a))"
      "fd_failed_checks_count_total a = n" "fd_workspace_id a = g_workspace_id access" "fd_benchmark a = benchmark"
  have "examples_ok (top_checks failing) (\<lambda>_. [], 0)" by (simp add: examples_ok_def)
  then have ok: "examples_ok (top_checks failing) (examples, m)" by (rule load_examples_ok [OF load])
  have five: "length (top_checks failing) \<le> 5" by (simp add: top_checks_def)
  have "m \<le> 15" by (rule examples_at_most [OF ok five])
  moreover have same: "fc_examples c = examples (fc_check_id c)" if "c \<in> set (fd_examples a)" for c
    using that unfolding fex by (auto simp: check_of_def split: option.splits if_splits)
  moreover have "length (fc_examples c) \<le> 3" if "c \<in> set (fd_examples a)" for c
    using ok same [OF that] by (simp add: examples_ok_def)
  ultimately show ?thesis using rest load five by blast
qed

subsection \<open>The channels of a workspace\<close>

lemma remove_channel:
  "list_ex (\<lambda>(b, s). \<not> distinct (as_channels s)) al \<or> list_all (\<lambda>(b, s). p \<notin> set (as_channels s))
     (map (\<lambda>(b, s). (b, s\<lparr>as_channels := remove1 p (as_channels s)\<rparr>)) al)"
  by (induction al) auto

text \<open>
  After a channel of a workspace was deleted, no alert goes out on it any more, also none that is still in the
  stream, and no benchmark of the workspace names it if no benchmark named it twice. The other channels and the
  other workspaces keep their configuration.
\<close>

theorem deleted_channel_silent:
  fixes w :: world and ws :: uuid and provider :: notification_provider
  defines "w' \<equiv> snd (delete_notification_provider_config ws provider w)"
  shows "fst (delete_notification_provider_config ws provider w) = Inr () \<and>
    (fd_workspace_id a \<noteq> ws \<or> send_alert env vulnerable_resources_detected (a, provider) w' = (Inr (), w')) \<and>
    (case tfind wa_workspace_id ws (alert_configs w) of None \<Rightarrow> tfind wa_workspace_id ws (alert_configs w') = None
     | Some c \<Rightarrow> \<exists>c'. tfind wa_workspace_id ws (alert_configs w') = Some c' \<and>
         (list_ex (\<lambda>(b, s). \<not> distinct (as_channels s)) (wa_alerts c) \<or>
          list_all (\<lambda>(b, s). provider \<notin> set (as_channels s)) (wa_alerts c'))) \<and>
    ((ws', p') = (ws, provider) \<or> tfind pc_key (ws', p') (provider_configs w') = tfind pc_key (ws', p') (provider_configs w))"
proof -
  let ?drop = "\<lambda>rs. filter (\<lambda>r. \<not> (pc_workspace_id r = ws \<and> pc_provider r = provider)) rs"
  have gone: "tfind pc_key (ws, provider) (?drop rs) = None" for rs
    by (auto simp: tfind_None)
  have kept: "(ws', p') = (ws, provider) \<or> tfind pc_key (ws', p') (?drop rs) = tfind pc_key (ws', p') rs" for rs
    by (induction rs) auto
  have run: "delete_notification_provider_config ws provider w = (Inr (), w')" and configs: "provider_configs w' = ?drop (provider_configs w)"
    by (auto simp: w'_def delete_notification_provider_config_def repo_alerting_for_def set_alerting_for_workspace_def
        delete_messaging_config_for_workspace_def split: option.splits)
  have no_config: "tfind pc_key (ws, provider) (provider_configs w') = None" unfolding configs by (rule gone)
  have silent: "send_alert env vulnerable_resources_detected (a, provider) w' = (Inr (), w')" if "fd_workspace_id a = ws"
    using that no_config by (simp add: send_alert_def get_messaging_config_for_workspace_def)
  have setting: "case tfind wa_workspace_id ws (alert_configs w) of None \<Rightarrow> tfind wa_workspace_id ws (alert_configs w') = None
     | Some c \<Rightarrow> \<exists>c'. tfind wa_workspace_id ws (alert_configs w') = Some c' \<and>
         (list_ex (\<lambda>(b, s). \<not> distinct (as_channels s)) (wa_alerts c) \<or>
          list_all (\<lambda>(b, s). provider \<notin> set (as_channels s)) (wa_alerts c'))"
  proof (cases "tfind wa_workspace_id ws (alert_configs w)")
    case (Some c)
    then have ws: "wa_workspace_id (drop_channel provider c) = ws" by (auto simp: drop_channel_def dest: tfind_Some)
    have dropped: "list_ex (\<lambda>(b, s). \<not> distinct (as_channels s)) (wa_alerts c) \<or>
        list_all (\<lambda>(b, s). provider \<notin> set (as_channels s)) (wa_alerts (drop_channel provider c))"
      by (simp add: drop_channel_def remove_channel)
    show ?thesis
    proof (cases "\<exists>(b, s)\<in>set (wa_alerts c). provider \<in> set (as_channels s)")
      case True
      then have "alert_configs w' = tput wa_workspace_id (drop_channel provider c) (alert_configs w)"
        by (simp add: w'_def delete_notification_provider_config_def repo_alerting_for_def Some set_alerting_for_workspace_def
            delete_messaging_config_for_workspace_def)
      then show ?thesis using Some dropped tfind_tput_same [of wa_workspace_id "drop_channel provider c"] ws by simp
    next
      case False
      then have "alert_configs w' = alert_configs w"
        by (simp add: w'_def delete_notification_provider_config_def repo_alerting_for_def Some
            delete_messaging_config_for_workspace_def)
      then show ?thesis using Some False by (auto simp: list_all_iff)
    qed
  qed (simp add: w'_def delete_notification_provider_config_def repo_alerting_for_def delete_messaging_config_for_workspace_def)
  show ?thesis unfolding configs
    by (intro conjI setting kept) (use run silent in auto)
qed

text \<open>What a run of the collector publishes: one message per channel and one event per benchmark that fails.\<close>

definition loaded :: "alert_env \<Rightarrow> graph_database_access \<Rightarrow> string list \<Rightarrow> datetime \<Rightarrow> datetime \<Rightarrow> string \<times> alert_setting \<Rightarrow> failing_checks_detected option" where
  "loaded env access task_ids after now = (\<lambda>(b, s).
     case load_alert env access b task_ids (as_severity s) after now of Inr r \<Rightarrow> r | Inl _ \<Rightarrow> None)"

definition messages_of :: "(string \<times> alert_setting \<Rightarrow> failing_checks_detected option) \<Rightarrow> string \<times> alert_setting \<Rightarrow> (failing_checks_detected \<times> notification_provider) list" where
  "messages_of load x = (case load x of None \<Rightarrow> [] | Some a \<Rightarrow> map (Pair a) (as_channels (snd x)))"

definition alert_events_of :: "uuid \<Rightarrow> (string \<times> alert_setting \<Rightarrow> failing_checks_detected option) \<Rightarrow> string \<times> alert_setting \<Rightarrow> domain_event list" where
  "alert_events_of ws load x = (case load x of None \<Rightarrow> []
     | Some a \<Rightarrow> [FailingBenchmarkChecksAlertSend ws (fst x) (fd_severity a) (fd_failed_checks_count_total a) (as_channels (snd x))])"

lemma publish_alerts: "for_each (publish_alert a) cs w = (Inr (), w\<lparr>alert_stream := alert_stream w @ map (Pair a) cs\<rparr>)"
  by (induction cs arbitrary: w) (simp_all add: publish_alert_def)

definition load_fails :: "alert_env \<Rightarrow> graph_database_access \<Rightarrow> string list \<Rightarrow> datetime \<Rightarrow> datetime \<Rightarrow> string \<times> alert_setting \<Rightarrow> bool" where
  "load_fails env access task_ids after now = (\<lambda>(b, s). isl (load_alert env access b task_ids (as_severity s) after now))"

lemma alert_on_benchmarks_run:
  fixes env access task_ids after now
  defines "load \<equiv> loaded env access task_ids after now" and "fails \<equiv> load_fails env access task_ids after now"
  shows "for_each (alert_on_benchmark env access ws task_ids after now) xs w =
    (let ys = takeWhile (\<lambda>x. \<not> fails x) xs in
     ((case dropWhile (\<lambda>x. \<not> fails x) xs of [] \<Rightarrow> Inr ()
       | (b, s) # _ \<Rightarrow> Inl (projl (load_alert env access b task_ids (as_severity s) after now))),
      w\<lparr>alert_stream := alert_stream w @ concat (map (messages_of load) ys),
        events := events w @ concat (map (alert_events_of ws load) ys)\<rparr>))"
proof (induction xs arbitrary: w)
  case (Cons x xs)
  obtain b s where x: "x = (b, s)" by (cases x)
  show ?case
  proof (cases "load_alert env access b task_ids (as_severity s) after now")
    case (Inl e)
    then show ?thesis by (simp add: x alert_on_benchmark_def fails_def load_fails_def)
  next
    case (Inr r)
    let ?w = "w\<lparr>alert_stream := alert_stream w @ messages_of load x, events := events w @ alert_events_of ws load x\<rparr>"
    have "alert_on_benchmark env access ws task_ids after now x w = (Inr (), ?w)"
      using Inr by (cases r) (simp_all add: x alert_on_benchmark_def load_def loaded_def messages_of_def alert_events_of_def publish_alerts publish_def)
    moreover have "\<not> fails x" using Inr by (simp add: x fails_def load_fails_def)
    ultimately show ?thesis using Cons.IH [of ?w] by (simp add: Let_def)
  qed
qed simp

text \<open>
  After a run that scanned resources, every benchmark with channels is checked in the order of the settings. Each
  one that fails puts one message per channel into the stream and publishes one event. When the inventory can not be
  read for a benchmark, the handler raises there: the alerts of the benchmarks before are in the stream, and the ones
  after get none.
\<close>

theorem alerts_after_collect:
  fixes env ws infos w
  defines "started \<equiv> min_list_or (clock w) (map (ci_started_at \<circ> snd) infos)"
    and "tasks \<equiv> concat (map (\<lambda>a. case ci_task_id a of None \<Rightarrow> [] | Some t \<Rightarrow> [t]) (map snd infos))"
  assumes scanned: "0 < sum_list (map (ci_scanned_resources \<circ> snd) infos)"
    and settings: "tfind wa_workspace_id ws (alert_configs w) = Some c"
    and graph: "tfind g_workspace_id ws (graph_access w) = Some db"
  shows "let load = loaded env db tasks started (clock w); fails = load_fails env db tasks started (clock w);
      ys = takeWhile (\<lambda>x. \<not> fails x) (non_empty_alerts c) in
    \<exists>r. alert_on_changed env ws infos w =
      (r, w\<lparr>alert_stream := alert_stream w @ concat (map (messages_of load) ys),
            events := events w @ concat (map (alert_events_of ws load) ys)\<rparr>) \<and>
    (isl r \<longleftrightarrow> list_ex fails (non_empty_alerts c))"
proof -
  let ?fails = "load_fails env db tasks started (clock w)"
  have "alert_on_changed env ws infos w =
    for_each (alert_on_benchmark env db ws tasks started (clock w)) (non_empty_alerts c) w"
    using scanned by (simp add: alert_on_changed_def Let_def repo_alerting_for_def get_database_access_def settings graph
        started_def tasks_def comp_def)
  moreover have "list_ex ?fails (non_empty_alerts c) \<longleftrightarrow> dropWhile (\<lambda>x. \<not> ?fails x) (non_empty_alerts c) \<noteq> []"
    by (simp add: list_ex_iff dropWhile_eq_Nil_conv)
  ultimately show ?thesis
    by (auto simp: Let_def alert_on_benchmarks_run simp del: dropWhile_eq_Nil_conv split: list.splits)
qed

subsection \<open>A concrete run\<close>

definition sample_alerting :: alert_env where
  "sample_alerting = \<lparr>ae_benchmarks = \<lambda>_. Some [''b''],
     ae_search_history = \<lambda>_ _ _ _. Some [\<lparr>ag_count = Some 2, ag_check = Some ''c'', ag_severity = Some Severity_high, ag_benchmark = Some ''b''\<rparr>],
     ae_history = \<lambda>_ _ _ _ _. Some [], ae_checks = \<lambda>_ _. Some [\<lparr>cd_id = Some ''c'', cd_title = Some ''t'', cd_severity = Some Severity_high\<rparr>],
     ae_md5 = \<lambda>_. ''i'', ae_resource_link = \<lambda>_ _. ''l'', ae_search_link = \<lambda>_ _ _. ''l'', ae_post = \<lambda>_ _ _. Post_success,
     ae_mail = sample_mail\<rparr>"

definition sample_db :: graph_database_access where
  "sample_db = \<lparr>g_workspace_id = 7, g_server = ''s'', g_username = ''u'', g_password = ''p'', g_database = ''d''\<rparr>"

definition sample_alert :: failing_checks_detected where
  "sample_alert = \<lparr>fd_id = ''i'', fd_workspace_id = 7, fd_benchmark = ''b'', fd_severity = Severity_high, fd_failed_checks_count_total = 1,
     fd_examples = [\<lparr>fc_check_id = ''c'', fc_title = ''t'', fc_severity = Severity_high, fc_failed_resources = 2, fc_examples = []\<rparr>],
     fd_ui_link = ''l''\<rparr>"

definition connected_world :: world where
  "connected_world = (empty_world 0 1)\<lparr>provider_configs := [\<lparr>pc_workspace_id = 7, pc_provider = Via_slack, pc_name = ''c'',
     pc_config = [(''webhook_url'', Config_str ''u'')]\<rparr>]\<rparr>"

lemma deleted_channel_silent_witness:
  "let w' = snd (delete_notification_provider_config 7 Via_slack connected_world) in
     send_alert sample_alerting vulnerable_resources_detected (sample_alert, Via_slack) w' = (Inr (), w')"
proof -
  have "fd_workspace_id sample_alert = 7" by (simp add: sample_alert_def)
  then show ?thesis
    using deleted_channel_silent [where ws = 7 and provider = Via_slack and w = connected_world and a = sample_alert and env = sample_alerting]
    by (simp add: Let_def)
qed

lemma sample_load: "load_alert sample_alerting sample_db ''b'' tasks severity after before = Inr (Some sample_alert)"
  by (simp add: load_alert_def Let_def sample_alerting_def sample_db_def sample_alert_def raises_on_none_def relevant_def top_checks_def check_of_def)

lemma alert_content_witness:
  "0 < fd_failed_checks_count_total sample_alert \<and> fd_severity sample_alert = Severity_high \<and>
    (\<forall>c\<in>set (fd_examples sample_alert). length (fc_examples c) \<le> 3)"
  using alert_content [OF sample_load [of "[''t'']" Severity_high 0 5]] by (simp add: sample_alert_def)

definition sample_setting :: workspace_alert where
  "sample_setting = \<lparr>wa_workspace_id = 7, wa_alerts = [(''b'', \<lparr>as_severity = Severity_high, as_channels = [Via_slack, Via_email]\<rparr>)]\<rparr>"

definition sample_infos :: "(uuid \<times> collect_info) list" where
  "sample_infos = [(1, \<lparr>ci_account_id = ''a'', ci_scanned_resources = 3, ci_duration_seconds = 1, ci_started_at = 2, ci_task_id = Some ''t'', ci_errors = []\<rparr>)]"

lemma not_isl_unit: "\<not> isl r \<Longrightarrow> r = Inr ()" for r :: "exn + unit"
  by (cases r) simp_all

lemma alerts_after_collect_witness:
  "\<exists>w'. alert_on_changed sample_alerting 7 sample_infos ((empty_world 5 50)\<lparr>alert_configs := [sample_setting], graph_access := [sample_db]\<rparr>) = (Inr (), w') \<and>
    alert_stream w' = [(sample_alert, Via_slack), (sample_alert, Via_email)] \<and>
    events w' = [FailingBenchmarkChecksAlertSend 7 ''b'' Severity_high 1 [Via_slack, Via_email]]"
proof -
  let ?w = "(empty_world 5 50)\<lparr>alert_configs := [sample_setting], graph_access := [sample_db]\<rparr>"
  have load: "loaded sample_alerting sample_db t a n x = Some sample_alert" "\<not> load_fails sample_alerting sample_db t a n x"
    if "fst x = ''b''" for t a n x
    using that by (cases x; simp add: loaded_def load_fails_def sample_load)+
  have settings: "non_empty_alerts sample_setting = [(''b'', \<lparr>as_severity = Severity_high, as_channels = [Via_slack, Via_email]\<rparr>)]"
    by (simp add: sample_setting_def non_empty_alerts_def)
  have a: "0 < sum_list (map (ci_scanned_resources \<circ> snd) sample_infos)" by (simp add: sample_infos_def)
  have b: "tfind wa_workspace_id 7 (alert_configs ?w) = Some sample_setting" "tfind g_workspace_id 7 (graph_access ?w) = Some sample_db"
    by (simp_all add: sample_setting_def sample_db_def)
  show ?thesis
    using alerts_after_collect [OF a b, of sample_alerting] unfolding settings Let_def
    by (auto simp: load messages_of_def alert_events_of_def empty_world_def sample_alert_def dest: not_isl_unit)
qed

end
