(* ===== verification/Notification_Router.thy ===== *)
theory Notification_Router
  imports Alerts Scheduled_Emails Workspace_Access
begin

section \<open>The API of notifications\<close>

text \<open>
  \<open>notification_router\<close> and \<open>unsubscribe_router\<close> of \<open>notification/notification_router.py\<close>. A handler gets the
  authenticated user; the permission of its dependency is checked first. Slack and Discord are added in two
  requests: the first redirects to the provider with a signed state that names user and workspace and lives for
  thirty minutes, the second has no user, trusts the state and trades the code of the provider for a hook. The
  signing of tokens and the answers of the providers are parameters.
\<close>

datatype http_reply =
    Redirect_settings string bool "uuid option"
      \<comment> \<open>message, success, workspace\<close>
  | Redirect_provider notification_provider string
      \<comment> \<open>provider, state\<close>
  | No_content
  | Unprocessable
  | Page string

text \<open>
  \<open>decode_jwt\<close>: a state, an expired or malformed token, or another exception of the library. A token for
  unsubscribing has a subject and a kind.
\<close>

datatype 'a decoded = Decoded 'a | Undecodable | Invalid_token

record state_codec =
  st_encode :: "uuid \<Rightarrow> uuid \<Rightarrow> datetime \<Rightarrow> string"
  st_decode :: "datetime \<Rightarrow> string \<Rightarrow> (uuid \<times> uuid) decoded"

record slack_hook =
  sh_access_token :: string
  sh_url :: string
  sh_channel :: string

text \<open>The answer of Slack: an exception, a refusal, or the hook.\<close>

datatype slack_answer = Slack_raises | Slack_not_ok | Slack_ok slack_hook

definition generate_state_token :: "state_codec \<Rightarrow> uuid \<Rightarrow> uuid \<Rightarrow> string io" where
  "generate_state_token codec user_id ws = bind utc (\<lambda>now. ret (st_encode codec user_id ws (now + td_minutes 30)))"

definition notifications :: "user \<Rightarrow> uuid \<Rightarrow> (notification_provider \<times> provider_config) list io" where
  "notifications u ws = seq (require ''read_settings'' u ws) (list_notification_provider_configs ws)"

definition add_slack :: "state_codec \<Rightarrow> user \<Rightarrow> uuid \<Rightarrow> http_reply io" where
  "add_slack codec u ws =
     seq (require ''read_settings'' u ws)
     (bind (generate_state_token codec (u_id u) ws) (\<lambda>state. ret (Redirect_provider Via_slack state)))"

definition add_slack_confirm ::
  "state_codec \<Rightarrow> (string \<Rightarrow> slack_answer) \<Rightarrow> string option \<Rightarrow> string option \<Rightarrow> string option \<Rightarrow> http_reply io" where
  "add_slack_confirm codec slack code state error =
     (if error \<noteq> None then ret (Redirect_settings ''slack_added'' False None)
      else case (state, code) of
        (Some s, Some c) \<Rightarrow>
          bind utc (\<lambda>now.
          case st_decode codec now s of
            Undecodable \<Rightarrow> ret (Redirect_settings ''slack_added'' False None)
          | Invalid_token \<Rightarrow> raise ExternalError
          | Decoded (user_id, ws) \<Rightarrow>
              (case slack c of
                 Slack_raises \<Rightarrow> ret (Redirect_settings ''slack_added'' False (Some ws))
               | Slack_not_ok \<Rightarrow> ret (Redirect_settings ''slack_added'' False (Some ws))
               | Slack_ok hook \<Rightarrow>
                   seq (update_notification_provider_config ws user_id Via_slack (sh_channel hook)
                          [(''access_token'', Config_str (sh_access_token hook)), (''webhook_url'', Config_str (sh_url hook)),
                           (''channel'', Config_str (sh_channel hook))])
                       (ret (Redirect_settings ''slack_added'' True (Some ws)))))
      | _ \<Rightarrow> ret (Redirect_settings ''slack_added'' False None))"

definition add_discord :: "state_codec \<Rightarrow> user \<Rightarrow> uuid \<Rightarrow> http_reply io" where
  "add_discord codec u ws =
     seq (require ''update_settings'' u ws)
     (bind (generate_state_token codec (u_id u) ws) (\<lambda>state. ret (Redirect_provider Via_discord state)))"

text \<open>The request to Discord: no answer at all, an answer without a hook, or the address of the hook.\<close>

datatype discord_answer = Discord_raises | Discord_no_hook | Discord_hook string

definition add_discord_confirm ::
  "state_codec \<Rightarrow> (string \<Rightarrow> discord_answer) \<Rightarrow> string option \<Rightarrow> string option \<Rightarrow> string option \<Rightarrow> http_reply io" where
  "add_discord_confirm codec discord code state error =
     (if error \<noteq> None then ret (Redirect_settings ''discord_added'' False None)
      else case (state, code) of
        (Some s, Some c) \<Rightarrow>
          bind utc (\<lambda>now.
          case st_decode codec now s of
            Undecodable \<Rightarrow> ret (Redirect_settings ''discord_added'' False None)
          | Invalid_token \<Rightarrow> raise ExternalError
          | Decoded (user_id, ws) \<Rightarrow>
              (case discord c of
                 Discord_raises \<Rightarrow> raise ExternalError
               | Discord_no_hook \<Rightarrow> ret (Redirect_settings ''discord_added'' False (Some ws))
               | Discord_hook url \<Rightarrow>
                   seq (update_notification_provider_config ws user_id Via_discord ''alert'' [(''webhook_url'', Config_str url)])
                       (ret (Redirect_settings ''discord_added'' True (Some ws)))))
      | _ \<Rightarrow> ret (Redirect_settings ''discord_added'' False None))"

text \<open>The other channels are added at once. A name and a value are needed.\<close>

definition add_channel :: "notification_provider \<Rightarrow> string \<Rightarrow> user \<Rightarrow> uuid \<Rightarrow> string \<Rightarrow> config_value \<Rightarrow> http_reply io" where
  "add_channel provider missing u ws name v =
     seq (require ''update_settings'' u ws)
     (if name = [] \<or> \<not> config_true v then raise (HTTPException 400 missing)
      else seq (update_notification_provider_config ws (u_id u) provider name [(config_key provider, v)]) (ret No_content))"

definition add_pagerduty :: "user \<Rightarrow> uuid \<Rightarrow> string \<Rightarrow> string \<Rightarrow> http_reply io" where
  "add_pagerduty u ws name integration_key =
     add_channel Via_pagerduty ''Missing integration key'' u ws name (Config_str integration_key)"

definition add_opsgenie :: "user \<Rightarrow> uuid \<Rightarrow> string \<Rightarrow> string \<Rightarrow> http_reply io" where
  "add_opsgenie u ws name api_key = add_channel Via_opsgenie ''Missing api key'' u ws name (Config_str api_key)"

definition add_teams :: "user \<Rightarrow> uuid \<Rightarrow> string \<Rightarrow> string \<Rightarrow> http_reply io" where
  "add_teams u ws name webhook_url =
     add_channel Via_teams ''Missing name or webhook URL'' u ws name (Config_str webhook_url)"

definition add_email :: "user \<Rightarrow> uuid \<Rightarrow> string \<Rightarrow> string list \<Rightarrow> http_reply io" where
  "add_email u ws name email = add_channel Via_email ''Missing name or email address'' u ws name (Config_list email)"

text \<open>Reading the alert settings has no permission in its dependencies.\<close>

definition get_alerting_setting :: "user \<Rightarrow> uuid \<Rightarrow> alerts io" where
  "get_alerting_setting u ws =
     bind (alerting_for ws) (\<lambda>setting. ret (case setting of None \<Rightarrow> [] | Some s \<Rightarrow> wa_alerts s))"

definition put_alerting_setting :: "alert_env \<Rightarrow> user \<Rightarrow> uuid \<Rightarrow> alerts \<Rightarrow> http_reply io" where
  "put_alerting_setting env u ws setting =
     seq (require ''update_settings'' u ws)
     (catch (bind (update_alerting_for env \<lparr>wa_workspace_id = ws, wa_alerts = setting\<rparr>) (\<lambda>_. ret No_content))
        (\<lambda>e. if e = ValueError then ret Unprocessable else raise e))"

definition delete_channel :: "user \<Rightarrow> uuid \<Rightarrow> notification_provider \<Rightarrow> http_reply io" where
  "delete_channel u ws channel =
     seq (require ''update_settings'' u ws) (seq (delete_notification_provider_config ws channel) (ret No_content))"

definition post_test_alert :: "alert_env \<Rightarrow> user \<Rightarrow> uuid \<Rightarrow> notification_provider \<Rightarrow> http_reply io" where
  "post_test_alert env u ws channel =
     seq (require ''update_settings'' u ws) (seq (send_test_alert env ws channel) (ret No_content))"

text \<open>The kind of the token is the name of the setting that is switched off.\<close>

definition unsubscribe_kind :: "string \<Rightarrow> string \<Rightarrow> notification_settings_row io" where
  "unsubscribe_kind email kind =
     (if kind = ''weekly_report'' then update_notification_settings (User_email email) (Some False) None None None
      else if kind = ''inactivity_reminder'' then update_notification_settings (User_email email) None (Some False) None None
      else if kind = ''tutorial'' then update_notification_settings (User_email email) None None (Some False) None
      else if kind = ''marketing'' then update_notification_settings (User_email email) None None None (Some False)
      else raise TypeError)"

definition unsubscribe :: "(string \<Rightarrow> (string option \<times> string option) option) \<Rightarrow> string \<Rightarrow> http_reply io" where
  "unsubscribe decode token =
     (case decode token of None \<Rightarrow> raise (NotAllowed ''Invalid token'')
      | Some (sub, kind) \<Rightarrow>
          if \<not> str_true sub \<or> \<not> str_true kind then raise (NotAllowed ''Invalid token'')
          else bind (unsubscribe_kind (the sub) (the kind)) (\<lambda>_. ret (Page (the kind))))"

subsection \<open>Who may change the channels\<close>

text \<open>
  C26: A user without the permission to update the settings of a workspace changes none of them through the
  handlers that ask for it: they raise and leave the state as it was. But whoever has an account can read the alert
  settings of every workspace.
\<close>

theorem settings_guarded:
  assumes denied: "check_permission (perm ''update_settings'') u ws = Inl e"
  shows "add_discord codec u ws w = (Inl e, w) \<and> add_pagerduty u ws name key w = (Inl e, w) \<and>
    add_opsgenie u ws name key w = (Inl e, w) \<and> add_teams u ws name key w = (Inl e, w) \<and>
    add_email u ws name addresses w = (Inl e, w) \<and> put_alerting_setting env u ws setting w = (Inl e, w) \<and>
    delete_channel u ws channel w = (Inl e, w) \<and> post_test_alert env u ws channel w = (Inl e, w) \<and>
    get_alerting_setting u ws w =
      (Inr (case tfind wa_workspace_id ws (alert_configs w) of None \<Rightarrow> [] | Some s \<Rightarrow> wa_alerts s), w)"
  by (simp add: add_discord_def add_pagerduty_def add_opsgenie_def add_teams_def add_email_def add_channel_def
      put_alerting_setting_def delete_channel_def post_test_alert_def get_alerting_setting_def alerting_for_def
      repo_alerting_for_def require_denied [OF denied])

text \<open>
  A member who may only read the settings can still make a Slack channel of his own the channel of the workspace:
  the first request asks for the permission to read, and the second one asks for none. From then on the alerts of the
  workspace go to his hook.
\<close>

theorem reader_connects_slack:
  assumes reads: "check_permission (perm ''read_settings'') u ws = Inr True"
    and state: "st_decode codec t (st_encode codec (u_id u) ws (clock w + td_minutes 30)) = Decoded (u_id u, ws)"
    and later: "clock w2 = t" and hook: "slack code = Slack_ok hook" and url: "sh_url hook \<noteq> []"
    and alert: "fd_workspace_id alert = ws" and sends: "ae_post env Via_slack (sh_url hook) alert = Post_success"
  shows "\<exists>token w3. add_slack codec u ws w = (Inr (Redirect_provider Via_slack token), w) \<and>
    add_slack_confirm codec slack (Some code) (Some token) None w2 = (Inr (Redirect_settings ''slack_added'' True (Some ws)), w3) \<and>
    send_alert env vulnerable_resources_detected (alert, Via_slack) w3 =
      (Inr (), w3\<lparr>alerts_sent := alerts_sent w3 @ [(alert, Via_slack, sh_url hook)]\<rparr>)"
proof -
  define token where "token = st_encode codec (u_id u) ws (clock w + td_minutes 30)"
  define config where "config = [(''access_token'', Config_str (sh_access_token hook)), (''webhook_url'', Config_str (sh_url hook)),
     (''channel'', Config_str (sh_channel hook))]"
  define row where "row = \<lparr>pc_workspace_id = ws, pc_provider = Via_slack, pc_name = take 63 (sh_channel hook), pc_config = config\<rparr>"
  define w3 where "w3 = w2\<lparr>events := events w2 @ [AlertNotificationSetupUpdated ws (u_id u) Via_slack],
     provider_configs := tput pc_key row (provider_configs w2)\<rparr>"
  have "add_slack codec u ws w = (Inr (Redirect_provider Via_slack token), w)"
    by (simp add: add_slack_def require_granted [OF reads] generate_state_token_def token_def)
  moreover have "add_slack_confirm codec slack (Some code) (Some token) None w2 = (Inr (Redirect_settings ''slack_added'' True (Some ws)), w3)"
    using state by (simp add: add_slack_confirm_def token_def later hook update_notification_provider_config_def publish_def
        update_messaging_config_for_workspace_def w3_def row_def config_def)
  moreover have "tfind pc_key (ws, Via_slack) (provider_configs w3) = Some row"
    using tfind_tput_same [of pc_key row] by (simp add: w3_def row_def)
  then have "send_alert env vulnerable_resources_detected (alert, Via_slack) w3 =
      (Inr (), w3\<lparr>alerts_sent := alerts_sent w3 @ [(alert, Via_slack, sh_url hook)]\<rparr>)"
    by (simp add: send_alert_def alert get_messaging_config_for_workspace_def row_def config_def sender_send_alert_def
        config_get_def url post_alert_def sends log_alert_def)
  ultimately show ?thesis by blast
qed

subsection \<open>A concrete member\<close>

definition plain_member :: user where
  "plain_member = \<lparr>u_id = 3, u_email = ''m'', hashed_password = [], is_active = True, is_superuser = False, is_verified = True,
     is_mfa_active = False, otp_secret = None,
     u_roles = [\<lparr>ur_user_id = 3, ur_workspace_id = 7, role_names = workspace_member\<rparr>], u_created_at = 0, auth_min_time = None\<rparr>"

lemma plain_member_permissions:
  "check_permission (perm ''read_settings'') plain_member 7 = Inr True"
  "check_permission (perm ''update_settings'') plain_member 7 = Inl (HTTPException 403 ''Missing permission update_settings'')"
  by code_simp+

lemma settings_guarded_witness:
  "add_email plain_member 7 ''n'' [''a''] (empty_world 0 1) =
     (Inl (HTTPException 403 ''Missing permission update_settings''), empty_world 0 1)"
  using settings_guarded [OF plain_member_permissions(2)] by blast

definition own_hook :: slack_hook where
  "own_hook = \<lparr>sh_access_token = ''t'', sh_url = ''u'', sh_channel = ''c''\<rparr>"

lemma reader_connects_slack_witness:
  "\<exists>w3. send_alert sample_alerting vulnerable_resources_detected (sample_alert, Via_slack) w3 =
      (Inr (), w3\<lparr>alerts_sent := alerts_sent w3 @ [(sample_alert, Via_slack, ''u'')]\<rparr>)"
  using reader_connects_slack [of plain_member 7 "\<lparr>st_encode = \<lambda>_ _ _. ''s'', st_decode = \<lambda>_ _. Decoded (3, 7)\<rparr>" 5
      "empty_world 0 1" "empty_world 5 1" "\<lambda>_. Slack_ok own_hook" "''x''" own_hook sample_alert sample_alerting] plain_member_permissions(1)
  by (auto simp: own_hook_def sample_alert_def sample_alerting_def empty_world_def plain_member_def)

end
