(* ===== verification/Inventory_Events.thy ===== *)
theory Inventory_Events
  imports Dispatcher
begin

section \<open>The inventory follows the events of the backend\<close>

text \<open>
  The handlers of domain events in \<open>InventoryService\<close> (\<open>inventory/inventory_service.py\<close>): they tell the graph database of
  a workspace about deleted, renamed and disabled accounts, new workspaces and changed tiers. What is sent to the
  database is recorded in order; whether it knows an account is a parameter, and a call that fails is not modelled.
\<close>

definition inventory_call :: "inventory_call \<Rightarrow> unit io" where
  "inventory_call c = modify (\<lambda>w. w\<lparr>inventory_calls := inventory_calls w @ [c]\<rparr>)"

lemma inventory_call_run [simp]: "inventory_call c w = (Inr (), w\<lparr>inventory_calls := inventory_calls w @ [c]\<rparr>)"
  by (simp add: inventory_call_def)

definition evict_cache :: "uuid \<Rightarrow> unit io" where
  "evict_cache ws = inventory_call (InvEvictCache ws)"

definition process_account_deleted :: "uuid \<Rightarrow> string \<Rightarrow> string \<Rightarrow> unit io" where
  "process_account_deleted tenant_id cloud account_id =
     bind (get_database_access tenant_id) (\<lambda>access.
     case access of None \<Rightarrow> ret () | Some db \<Rightarrow> inventory_call (InvDeleteAccount (g_workspace_id db) cloud account_id))"

definition process_tenant_collected :: "uuid \<Rightarrow> unit io" where
  "process_tenant_collected tenant_id = evict_cache tenant_id"

text \<open>The nodes of an account in the graph, by cloud and account id: the first one may lack an id.\<close>

type_synonym account_search = "graph_database_access \<Rightarrow> string \<Rightarrow> string \<Rightarrow> string option list"

definition update_cloud_account_name :: "account_search \<Rightarrow> uuid \<Rightarrow> string \<Rightarrow> string \<Rightarrow> string option \<Rightarrow> bool io" where
  "update_cloud_account_name search tenant_id cloud account_id fname =
     (if \<not> str_true fname then ret False
      else
        bind (get_database_access tenant_id) (\<lambda>access.
        case access of None \<Rightarrow> ret False
        | Some db \<Rightarrow>
            (case search db cloud account_id of
               Some node_id # _ \<Rightarrow>
                 if node_id = [] then ret False
                 else
                   seq (inventory_call (InvUpdateName (g_workspace_id db) node_id (the fname)))
                   (seq (evict_cache tenant_id) (ret True))
             | _ \<Rightarrow> ret False)))"

definition update_name_again_after :: timedelta where
  "update_name_again_after = td_hours 1"

definition process_account_name_changed ::
  "account_search \<Rightarrow> uuid \<Rightarrow> uuid \<Rightarrow> string \<Rightarrow> string \<Rightarrow> string \<Rightarrow> string option \<Rightarrow> string option \<Rightarrow> unit io" where
  "process_account_name_changed search cloud_account_id tenant_id cloud account_id state name fname =
     bind (update_cloud_account_name search tenant_id cloud account_id fname) (\<lambda>updated.
     if updated
     then inventory_call (InvUpdateNameAgain
            (CloudAccountNameChanged cloud_account_id tenant_id cloud account_id state name fname) update_name_again_after)
     else ret ())"

definition update_cloud_account_name_again :: "account_search \<Rightarrow> uuid \<Rightarrow> string \<Rightarrow> string \<Rightarrow> string option \<Rightarrow> unit io" where
  "update_cloud_account_name_again search tenant_id cloud account_id fname =
     bind (update_cloud_account_name search tenant_id cloud account_id fname) (\<lambda>_. ret ())"

text \<open>\<open>timedelta.days\<close>\<close>

definition td_whole_days :: "timedelta \<Rightarrow> int" where
  "td_whole_days t = t div 86400000000"

definition change_db_retention_period :: "uuid \<Rightarrow> timedelta \<Rightarrow> unit io" where
  "change_db_retention_period workspace_id retention =
     bind (get_database_access workspace_id) (\<lambda>access.
     case access of None \<Rightarrow> ret ()
     | Some db \<Rightarrow> inventory_call (InvKeepHistory (g_workspace_id db) (td_whole_days retention)))"

definition inventory_workspace_created :: "uuid \<Rightarrow> unit io" where
  "inventory_workspace_created workspace_id =
     bind (get_database_access workspace_id) (\<lambda>access.
     case access of None \<Rightarrow> ret ()
     | Some db \<Rightarrow>
         seq (inventory_call (InvCreateDatabase (g_workspace_id db)))
             (change_db_retention_period workspace_id (retention_period trial_setting)))"

definition process_product_tier_changed :: "uuid \<Rightarrow> product_tier \<Rightarrow> unit io" where
  "process_product_tier_changed workspace_id tier =
     change_db_retention_period workspace_id (retention_period (product_tier_settings tier))"

definition configure_disabled_accounts :: "uuid \<Rightarrow> unit io" where
  "configure_disabled_accounts tenant_id =
     bind (get_database_access tenant_id) (\<lambda>access.
     case access of None \<Rightarrow> ret ()
     | Some db \<Rightarrow>
         bind (list_by_workspace_id tenant_id True False) (\<lambda>acs.
         inventory_call (InvIgnoreAccounts (g_workspace_id db) (map ca_account_id (filter (\<lambda>a. \<not> enabled_for_scanning a) acs)))))"

definition on_inventory_event :: "account_search \<Rightarrow> domain_event \<Rightarrow> unit io" where
  "on_inventory_event search e =
     (case e of
        CloudAccountDeleted cloud user_id cloud_account_id tenant_id account_id \<Rightarrow> process_account_deleted tenant_id cloud account_id
      | TenantAccountsCollected tenant_id collected failed_ones run_at \<Rightarrow> process_tenant_collected tenant_id
      | CloudAccountNameChanged i tenant_id cloud account_id state name fname \<Rightarrow>
          process_account_name_changed search i tenant_id cloud account_id state name fname
      | WorkspaceCreated workspace_id name slug user_id \<Rightarrow> inventory_workspace_created workspace_id
      | ProductTierChanged workspace_id user_id tier is_paid is_higher previous \<Rightarrow> process_product_tier_changed workspace_id tier
      | CloudAccountScanToggled tenant_id i account_id is_enabled scan \<Rightarrow> configure_disabled_accounts tenant_id
      | CloudAccountActiveToggled tenant_id i account_id is_enabled \<Rightarrow> configure_disabled_accounts tenant_id
      | _ \<Rightarrow> ret ())"

subsection \<open>Which accounts the reports ignore\<close>

definition ignored_rows :: "uuid \<Rightarrow> world \<Rightarrow> account_row list" where
  "ignored_rows ws w = filter (\<lambda>r. r_tenant_id r = ws \<and> r_state r = Some ''configured'' \<and> r_enabled r \<and> \<not> r_scan r) (accounts w)"

lemma traverse_to_model:
  assumes "\<forall>r\<in>set rs. readable r"
  obtains acs where "traverse (to_model n) rs = Inr acs" "list_all2 (\<lambda>r a. to_model n r = Inr a) rs acs"
proof -
  have "\<exists>acs. traverse (to_model n) rs = Inr acs \<and> list_all2 (\<lambda>r a. to_model n r = Inr a) rs acs"
    using assms
  proof (induction rs)
    case (Cons r rs)
    obtain a where "to_model n r = Inr a" using Cons.prems readable_to_model [of r n] by auto
    then show ?case using Cons by auto
  qed simp
  then show thesis using that by blast
qed

lemma ready_not_scanned:
  assumes "to_model n r = Inr a" and "ready_row r"
  shows "enabled_for_scanning a \<longleftrightarrow> r_scan r" and "ca_account_id a = r_account_id r"
proof -
  have "\<exists>x. Configured x (r_enabled r) (r_scan r) = ca_state a"
    using to_model_fields(5) [OF assms(1)] assms(2) by (auto simp: ready_row_def row_state_def split: sum.splits)
  then obtain x where "ca_state a = Configured x (r_enabled r) (r_scan r)" by (metis)
  then show "enabled_for_scanning a \<longleftrightarrow> r_scan r" by (simp add: enabled_for_scanning_def)
  show "ca_account_id a = r_account_id r" by (rule to_model_fields(2) [OF assms(1)])
qed

text \<open>
  When an account is switched off or its scan is, the reports of the workspace are told to ignore exactly the
  accounts that are configured and switched on but not scanned. An account that was switched off is not among them.
\<close>

theorem ignored_accounts:
  assumes graph: "tfind g_workspace_id ws (graph_access w) = Some db"
    and readable: "\<forall>r\<in>set (accounts w). r_tenant_id r = ws \<longrightarrow> readable r"
  shows "configure_disabled_accounts ws w = (Inr (), w\<lparr>inventory_calls := inventory_calls w @
      [InvIgnoreAccounts (g_workspace_id db) (map r_account_id (ignored_rows ws w))]\<rparr>) \<and>
    (\<forall>r\<in>set (ignored_rows ws w). r_enabled r)"
proof -
  let ?rs = "filter (\<lambda>r. r_tenant_id r = ws \<and> ready_row r) (accounts w)"
  define n where "n = map_option n_at (tfind n_tenant_id ws (next_runs w))"
  obtain acs where acs: "traverse (to_model n) ?rs = Inr acs" "list_all2 (\<lambda>r a. to_model n r = Inr a) ?rs acs"
    using readable by (auto intro: traverse_to_model [of ?rs n])
  have "map ca_account_id (filter (\<lambda>a. \<not> enabled_for_scanning a) bs) = map r_account_id (filter (\<lambda>r. \<not> r_scan r) rs)"
    if "list_all2 (\<lambda>r a. to_model n r = Inr a) rs bs" "\<forall>r\<in>set rs. ready_row r" for rs bs
    using that by (induction rs bs) (auto simp: ready_not_scanned)
  from this [OF acs(2)] have "map ca_account_id (filter (\<lambda>a. \<not> enabled_for_scanning a) acs) = map r_account_id (ignored_rows ws w)"
    by (auto simp: ignored_rows_def ready_row_def intro!: arg_cong [where f = "map r_account_id"] filter_cong)
  moreover have "list_by_workspace_id ws True False w = (Inr acs, w)"
    using acs(1) by (simp add: list_by_workspace_id_def n_def get_next_scan_def)
  ultimately show ?thesis
    by (simp add: configure_disabled_accounts_def get_database_access_def graph) (simp add: ignored_rows_def)
qed

definition unscanned_world :: world where
  "unscanned_world = (empty_world 0 1)\<lparr>accounts := [sample_row\<lparr>r_scan := False\<rparr>, sample_row\<lparr>r_id := 2, r_enabled := False\<rparr>],
     graph_access := [\<lparr>g_workspace_id = 7, g_server = ''s'', g_username = ''u'', g_password = ''p'', g_database = ''d''\<rparr>]\<rparr>"

lemma ignored_accounts_witness:
  "snd (configure_disabled_accounts 7 unscanned_world) =
     unscanned_world\<lparr>inventory_calls := [InvIgnoreAccounts 7 [''123456789012'']]\<rparr>"
proof -
  have "tfind g_workspace_id 7 (graph_access unscanned_world) =
      Some \<lparr>g_workspace_id = 7, g_server = ''s'', g_username = ''u'', g_password = ''p'', g_database = ''d''\<rparr>"
    by (simp add: unscanned_world_def)
  moreover have "\<forall>r\<in>set (accounts unscanned_world). r_tenant_id r = 7 \<longrightarrow> readable r"
    by (simp add: unscanned_world_def readable_def row_state_def row_access_def sample_row_def)
  moreover have "map r_account_id (ignored_rows 7 unscanned_world) = [''123456789012'']" "inventory_calls unscanned_world = []"
    by (simp_all add: ignored_rows_def unscanned_world_def sample_row_def empty_world_def)
  ultimately show ?thesis using ignored_accounts [of 7 unscanned_world] by simp
qed

end
