(* ===== verification/Inventory_Usage.thy ===== *)
theory Inventory_Usage
  imports Prelude
begin

section \<open>The usage of resource kinds\<close>

text \<open>
  \<open>AccountRegionSummary\<close> and \<open>InventoryService.descendant_summary\<close> of \<open>inventory/inventory_service.py\<close>: how many
  accounts, regions and resources there are of each kind, filtered by cloud, account, region and kind. A dictionary is
  an association list in insertion order. The nodes of accounts and regions come from the inventory: a node gives the
  values at the paths the code reads. The cache is not modelled: it returns what was computed before.
\<close>

subsection \<open>Dictionaries with defaults\<close>

text \<open>\<open>d[k] = f(d[k])\<close> for a \<open>defaultdict\<close>.\<close>

fun dict_upd :: "('v \<Rightarrow> 'v) \<Rightarrow> 'v \<Rightarrow> 'k \<Rightarrow> ('k \<times> 'v) list \<Rightarrow> ('k \<times> 'v) list" where
  "dict_upd f d k [] = [(k, f d)]"
| "dict_upd f d k ((k', v) # r) = (if k' = k then (k', f v) # r else (k', v) # dict_upd f d k r)"

definition dict_get :: "'v \<Rightarrow> ('k \<times> 'v) list \<Rightarrow> 'k \<Rightarrow> 'v" where
  "dict_get d dict k = (case map_of dict k of None \<Rightarrow> d | Some v \<Rightarrow> v)"

lemma dict_get_simps [simp]:
  "dict_get d [] k = d" "dict_get d ((k', v) # r) k = (if k' = k then v else dict_get d r k)"
  by (auto simp: dict_get_def)

lemma map_of_dict_upd: "map_of (dict_upd f d k dict) = (map_of dict)(k \<mapsto> f (dict_get d dict k))"
  by (induction dict) auto

lemma keys_dict_upd: "fst ` set (dict_upd f d k dict) = insert k (fst ` set dict)"
proof (induction dict)
  case (Cons p r)
  then show ?case by (cases p) (simp add: insert_commute)
qed simp

lemma distinct_dict_upd: "distinct (map fst dict) \<Longrightarrow> distinct (map fst (dict_upd f d k dict))"
proof (induction dict)
  case (Cons p r)
  then show ?case using keys_dict_upd [of f d k r] by (cases p) auto
qed simp

text \<open>A loop that updates one entry per element.\<close>

lemma map_of_dict_fold:
  "map_of (fold (\<lambda>x. dict_upd (f x) d (key x)) xs dict) k =
    (if k \<in> key ` set xs \<union> fst ` set dict then Some (fold f (filter (\<lambda>x. key x = k) xs) (dict_get d dict k)) else None)"
proof (induction xs arbitrary: dict)
  case Nil
  show ?case by (auto simp: dict_get_def map_of_eq_None_iff split: option.splits)
next
  case (Cons x xs)
  have get: "dict_get d (dict_upd (f x) d (key x) dict) k = (if key x = k then f x (dict_get d dict k) else dict_get d dict k)"
    by (simp add: dict_get_def map_of_dict_upd)
  show ?case by (auto simp: Cons.IH get keys_dict_upd)
qed

lemma keys_dict_fold: "fst ` set (fold (\<lambda>x. dict_upd (f x) d (key x)) xs dict) = key ` set xs \<union> fst ` set dict"
  by (induction xs arbitrary: dict) (auto simp: keys_dict_upd)

lemma distinct_dict_fold:
  "distinct (map fst dict) \<Longrightarrow> distinct (map fst (fold (\<lambda>x. dict_upd (f x) d (key x)) xs dict))"
  by (induction xs arbitrary: dict) (auto intro: distinct_dict_upd)

lemma length_dict_fold: "length (fold (\<lambda>x. dict_upd (f x) d (key x)) xs []) = card (key ` set xs)"
  using distinct_card [OF distinct_dict_fold [of "[]" f d key xs]] keys_dict_fold [of f d key xs "[]"] by simp

lemma sum_dict_upd: "sum_list (map snd (dict_upd (\<lambda>n. n + c) 0 k dict)) = sum_list (map snd dict) + (c :: int)"
  by (induction dict) auto

lemma sum_dict_fold:
  "sum_list (map snd (fold (\<lambda>x. dict_upd (\<lambda>n. n + g x) 0 (key x)) xs dict)) = sum_list (map snd dict) + sum_list (map g xs)"
  for g :: "'a \<Rightarrow> int"
  by (induction xs arbitrary: dict) (auto simp: sum_dict_upd)

lemma fold_plus: "fold (\<lambda>x n. n + g x) xs a = a + sum_list (map g xs)" for g :: "'a \<Rightarrow> int"
  by (induction xs arbitrary: a) auto

subsection \<open>The summary of an account\<close>

type_synonym counts = "(string \<times> int) list"

record account_usage =
  au_account_id :: string
  au_cloud_id :: string
  au_count :: counts
  au_regions :: "(string \<times> counts) list"

definition for_regions :: "string list \<Rightarrow> account_usage \<Rightarrow> account_usage" where
  "for_regions regions a = a\<lparr>au_regions := filter (\<lambda>(r, c). r \<in> set regions) (au_regions a)\<rparr>"

definition for_kinds :: "string list \<Rightarrow> account_usage \<Rightarrow> account_usage" where
  "for_kinds kinds a = a\<lparr>au_count := filter (\<lambda>(k, c). k \<in> set kinds) (au_count a),
     au_regions := map (\<lambda>(r, kc). (r, filter (\<lambda>(k, c). k \<in> set kinds) kc)) (au_regions a)\<rparr>"

text \<open>\<open>ancestors.cloud\<close>, the account, the region and \<open>metadata.descendant_summary\<close> of a node.\<close>

record usage_node =
  un_cloud :: "string option"
  un_account :: "string option"
  un_region :: "string option"
  un_summary :: "counts option"

definition summary_counts :: "usage_node \<Rightarrow> counts" where
  "summary_counts n = (case un_summary n of None \<Rightarrow> [] | Some s \<Rightarrow> s)"

text \<open>The first node of an account decides about its cloud.\<close>

definition new_usage :: "string \<Rightarrow> string \<Rightarrow> account_usage" where
  "new_usage account_id cloud_id = \<lparr>au_account_id = account_id, au_cloud_id = cloud_id, au_count = [], au_regions = []\<rparr>"

definition add_counts :: "counts \<Rightarrow> counts \<Rightarrow> counts" where
  "add_counts summary count = fold (\<lambda>(kind, n). dict_upd (\<lambda>m. m + n) 0 kind) summary count"

definition add_account :: "usage_node \<Rightarrow> (string \<times> account_usage) list \<Rightarrow> (string \<times> account_usage) list" where
  "add_account n usage =
     (if str_true (un_cloud n) \<and> str_true (un_account n)
      then dict_upd (\<lambda>a. a\<lparr>au_count := add_counts (summary_counts n) (au_count a)\<rparr>)
             (new_usage (the (un_account n)) (the (un_cloud n))) (the (un_account n)) usage
      else usage)"

text \<open>A region without descendants gets no entry, but its account does.\<close>

definition add_region_counts :: "string \<Rightarrow> counts \<Rightarrow> account_usage \<Rightarrow> account_usage" where
  "add_region_counts region summary a =
     (if summary = [] then a else a\<lparr>au_regions := dict_upd (add_counts summary) [] region (au_regions a)\<rparr>)"

definition add_region :: "usage_node \<Rightarrow> (string \<times> account_usage) list \<Rightarrow> (string \<times> account_usage) list" where
  "add_region n usage =
     (if str_true (un_cloud n) \<and> str_true (un_account n) \<and> str_true (un_region n)
      then dict_upd (add_region_counts (the (un_region n)) (summary_counts n))
             (new_usage (the (un_account n)) (the (un_cloud n))) (the (un_account n)) usage
      else usage)"

definition account_region_summary :: "usage_node list \<Rightarrow> usage_node list \<Rightarrow> (string \<times> account_usage) list" where
  "account_region_summary account_nodes region_nodes = fold add_region region_nodes (fold add_account account_nodes [])"

subsection \<open>The usage per kind\<close>

record kind_usage =
  ku_accounts :: nat
  ku_regions :: nat
  ku_resources :: int

definition no_usage :: kind_usage where
  "no_usage = \<lparr>ku_accounts = 0, ku_regions = 0, ku_resources = 0\<rparr>"

definition filtered_usage :: "string list \<Rightarrow> string list \<Rightarrow> string list \<Rightarrow> string list \<Rightarrow> (string \<times> account_usage) list \<Rightarrow> account_usage list" where
  "filtered_usage cloud_ids account_ids region_ids kinds summary =
     (let s1 = map snd summary;
          s2 = (if cloud_ids = [] then s1 else filter (\<lambda>a. au_cloud_id a \<in> set cloud_ids) s1);
          s3 = (if account_ids = [] then s2 else filter (\<lambda>a. au_account_id a \<in> set account_ids) s2);
          s4 = (if region_ids = [] then s3 else map (for_regions region_ids) s3)
      in if kinds = [] then s4 else map (for_kinds kinds) s4)"

text \<open>The counts of the accounts, and those of the regions with region and account.\<close>

definition account_counts :: "account_usage list \<Rightarrow> (string \<times> int) list" where
  "account_counts summary = concat (map au_count summary)"

definition region_counts :: "account_usage list \<Rightarrow> (string \<times> string \<times> int \<times> string) list" where
  "region_counts summary =
     concat (map (\<lambda>a. concat (map (\<lambda>(r, kc). map (\<lambda>(k, c). (k, r, c, au_account_id a)) kc) (au_regions a))) summary)"

definition account_usage_of :: "account_usage list \<Rightarrow> (string \<times> int) list" where
  "account_usage_of summary = fold (\<lambda>x. dict_upd (\<lambda>n. n + snd x) 0 (fst x)) (account_counts summary) []"

definition region_usage_of :: "account_usage list \<Rightarrow> (string \<times> counts) list" where
  "region_usage_of summary =
     fold (\<lambda>x. dict_upd (dict_upd (\<lambda>n. n + fst (snd (snd x))) 0 (fst (snd x))) [] (fst x)) (region_counts summary) []"

definition account_region_usage_of :: "account_usage list \<Rightarrow> (string \<times> string list) list" where
  "account_region_usage_of summary =
     fold (\<lambda>x. dict_upd (List.insert (snd (snd (snd x)))) [] (fst x)) (region_counts summary) []"

text \<open>
  Without a filter on regions the loop runs over the kinds, not over the accounts: the number of accounts is
  increased once per kind. Reading \<open>region_usage[kind]\<close> adds an empty entry.
\<close>

definition usage_by_region :: "account_usage list \<Rightarrow> (string \<times> kind_usage) list" where
  "usage_by_region summary =
     fold (\<lambda>x. dict_upd (\<lambda>kd. \<lparr>ku_accounts = length (dict_get [] (account_region_usage_of summary) (fst x)),
         ku_regions = length (snd x), ku_resources = sum_list (map snd (snd x))\<rparr>) no_usage (fst x)) (region_usage_of summary) []"

definition usage_by_account :: "account_usage list \<Rightarrow> (string \<times> kind_usage) list" where
  "usage_by_account summary =
     fold (\<lambda>x. dict_upd (\<lambda>kd. \<lparr>ku_accounts = ku_accounts kd + 1,
         ku_regions = length (dict_get [] (region_usage_of summary) (fst x)), ku_resources = ku_resources kd + snd x\<rparr>) no_usage (fst x))
       (account_usage_of summary) []"

definition set_regions :: "account_usage list \<Rightarrow> (string \<times> kind_usage) list \<Rightarrow> (string \<times> kind_usage) list" where
  "set_regions summary usage =
     fold (\<lambda>x. dict_upd (\<lambda>kd. kd\<lparr>ku_regions := length (snd x)\<rparr>) no_usage (fst x)) (region_usage_of summary) usage"

definition descendant_summary ::
  "usage_node list \<Rightarrow> usage_node list \<Rightarrow> string list \<Rightarrow> string list \<Rightarrow> string list \<Rightarrow> string list \<Rightarrow> (string \<times> kind_usage) list" where
  "descendant_summary account_nodes region_nodes cloud_ids account_ids region_ids kinds =
     (let summary = filtered_usage cloud_ids account_ids region_ids kinds (account_region_summary account_nodes region_nodes)
      in set_regions summary (if region_ids \<noteq> [] then usage_by_region summary else usage_by_account summary))"

subsection \<open>What the usage counts\<close>

lemma region_usage_at:
  "map_of (region_usage_of summary) kind =
    (let xs = filter (\<lambda>x. fst x = kind) (region_counts summary) in
     if xs = [] then None else Some (fold (\<lambda>x. dict_upd (\<lambda>n. n + fst (snd (snd x))) 0 (fst (snd x))) xs []))"
  by (auto simp: region_usage_of_def map_of_dict_fold Let_def filter_empty_conv image_iff)

lemma account_usage_at:
  "map_of (account_usage_of summary) kind =
    (let xs = filter (\<lambda>x. fst x = kind) (account_counts summary) in
     if xs = [] then None else Some (sum_list (map snd xs)))"
  by (auto simp: account_usage_of_def map_of_dict_fold Let_def filter_empty_conv image_iff fold_plus)

lemma filter_no_key: "k \<notin> fst ` set xs \<Longrightarrow> filter (\<lambda>x. fst x = k) xs = []"
  by (auto simp: filter_empty_conv)

lemma set_fold_insert: "set (fold (\<lambda>x. List.insert (g x)) xs ys) = g ` set xs \<union> set ys"
  by (induction xs arbitrary: ys) auto

lemma distinct_fold_insert: "distinct ys \<Longrightarrow> distinct (fold (\<lambda>x. List.insert (g x)) xs ys)"
  by (induction xs arbitrary: ys) auto

lemma account_region_usage_at:
  "length (dict_get [] (account_region_usage_of summary) kind) =
    card ((\<lambda>x. snd (snd (snd x))) ` set (filter (\<lambda>x. fst x = kind) (region_counts summary)))"
proof -
  let ?xs = "filter (\<lambda>x. fst x = kind) (region_counts summary)"
  have "dict_get [] (account_region_usage_of summary) kind = fold (\<lambda>x. List.insert (snd (snd (snd x)))) ?xs []"
    by (simp add: dict_get_def account_region_usage_of_def map_of_dict_fold filter_no_key)
  moreover have "distinct (fold (\<lambda>x. List.insert (snd (snd (snd x)))) ?xs [])" by (simp add: distinct_fold_insert)
  ultimately show ?thesis
    using distinct_card [of "fold (\<lambda>x. List.insert (snd (snd (snd x)))) ?xs []"] by (simp add: set_fold_insert)
qed

text \<open>A loop over a dictionary visits each key once.\<close>

lemma filter_key: "distinct (map fst dict) \<Longrightarrow>
    filter (\<lambda>x. fst x = k) dict = (case map_of dict k of None \<Rightarrow> [] | Some v \<Rightarrow> [(k, v)])"
proof (induction dict)
  case (Cons p r)
  then show ?case by (cases p) (auto simp: map_of_eq_None_iff split: option.splits dest: map_of_SomeD intro: rev_image_eqI)
qed simp

lemma map_of_dict_loop:
  assumes "distinct (map fst dict)"
  shows "map_of (fold (\<lambda>x. dict_upd (f x) d (fst x)) dict start) k =
    (case map_of dict k of None \<Rightarrow> map_of start k | Some v \<Rightarrow> Some (f (k, v) (dict_get d start k)))"
proof (cases "map_of dict k")
  case None
  then have "k \<notin> fst ` set dict" by (simp add: map_of_eq_None_iff)
  then have "map_of (fold (\<lambda>x. dict_upd (f x) d (fst x)) dict start) k =
      (if k \<in> fst ` set start then Some (dict_get d start k) else None)"
    by (simp add: map_of_dict_fold filter_no_key)
  also have "\<dots> = map_of start k"
    using map_of_eq_None_iff [of start k] by (cases "map_of start k") (auto simp: dict_get_def)
  finally show ?thesis using None by simp
next
  case (Some v)
  then have "k \<in> fst ` set dict" by (metis map_of_eq_None_iff option.distinct(1))
  then show ?thesis using Some filter_key [OF assms, of k] by (simp add: map_of_dict_fold)
qed

text \<open>The regions, accounts and resources of a kind in the counts of the regions.\<close>

definition counts_of :: "string \<Rightarrow> account_usage list \<Rightarrow> (string \<times> string \<times> int \<times> string) list" where
  "counts_of kind summary = filter (\<lambda>x. fst x = kind) (region_counts summary)"

definition regions_of :: "string \<Rightarrow> account_usage list \<Rightarrow> string set" where
  "regions_of kind summary = (\<lambda>x. fst (snd x)) ` set (counts_of kind summary)"

definition accounts_of :: "string \<Rightarrow> account_usage list \<Rightarrow> string set" where
  "accounts_of kind summary = (\<lambda>x. snd (snd (snd x))) ` set (counts_of kind summary)"

definition resources_of :: "string \<Rightarrow> account_usage list \<Rightarrow> int" where
  "resources_of kind summary = sum_list (map snd (filter (\<lambda>x. fst x = kind) (account_counts summary)))"

lemma region_usage_kind:
  "map_of (region_usage_of summary) kind = None \<longleftrightarrow> counts_of kind summary = []"
  "map_of (region_usage_of summary) kind = Some rs \<Longrightarrow> length rs = card (regions_of kind summary) \<and>
     sum_list (map snd rs) = sum_list (map (\<lambda>x. fst (snd (snd x))) (counts_of kind summary))"
  by (auto simp: region_usage_at counts_of_def regions_of_def Let_def length_dict_fold sum_dict_fold split: if_splits)

lemma distinct_usage [simp]: "distinct (map fst (region_usage_of summary))" "distinct (map fst (account_usage_of summary))"
  by (simp_all add: region_usage_of_def account_usage_of_def distinct_dict_fold)

lemma set_regions_at:
  "map_of (set_regions summary usage) kind =
    (if counts_of kind summary = [] then map_of usage kind
     else Some ((dict_get no_usage usage kind)\<lparr>ku_regions := card (regions_of kind summary)\<rparr>))"
  using region_usage_kind [of summary kind]
  by (cases "map_of (region_usage_of summary) kind") (simp_all add: set_regions_def map_of_dict_loop)

lemma regions_empty: "counts_of kind summary = [] \<Longrightarrow> card (regions_of kind summary) = 0"
  by (simp add: regions_of_def)

text \<open>
  The usage of a kind, against its counts. With a filter on regions: the accounts and regions in which it is
  counted and the sum of the counts. Without one the resources are the sum over the accounts and the regions are those
  in which it is counted, but the number of accounts is one for every kind that an account has, however many accounts
  have it.
\<close>

theorem usage_of_kind:
  fixes account_nodes region_nodes cloud_ids account_ids region_ids kinds
  defines "summary \<equiv> filtered_usage cloud_ids account_ids region_ids kinds (account_region_summary account_nodes region_nodes)"
  shows "map_of (descendant_summary account_nodes region_nodes cloud_ids account_ids region_ids kinds) kind =
    (let regions = card (regions_of kind summary); counted = counts_of kind summary \<noteq> [];
         owned = kind \<in> fst ` set (account_counts summary) in
     if region_ids \<noteq> [] then
       if counted then Some \<lparr>ku_accounts = card (accounts_of kind summary), ku_regions = regions,
         ku_resources = sum_list (map (\<lambda>x. fst (snd (snd x))) (counts_of kind summary))\<rparr>
       else None
     else if owned then Some \<lparr>ku_accounts = 1, ku_regions = regions, ku_resources = resources_of kind summary\<rparr>
     else if counted then Some \<lparr>ku_accounts = 0, ku_regions = regions, ku_resources = 0\<rparr>
     else None)"
proof -
  have result: "descendant_summary account_nodes region_nodes cloud_ids account_ids region_ids kinds =
      set_regions summary (if region_ids \<noteq> [] then usage_by_region summary else usage_by_account summary)"
    by (simp add: descendant_summary_def summary_def Let_def)
  show ?thesis
  proof (cases "region_ids = []")
    case False
    have "map_of (usage_by_region summary) kind = (case map_of (region_usage_of summary) kind of None \<Rightarrow> None
       | Some rs \<Rightarrow> Some \<lparr>ku_accounts = card (accounts_of kind summary), ku_regions = length rs, ku_resources = sum_list (map snd rs)\<rparr>)"
      by (simp add: usage_by_region_def map_of_dict_loop account_region_usage_at accounts_of_def counts_of_def split: option.split)
    then show ?thesis
      using False region_usage_kind [of summary kind]
      by (cases "map_of (region_usage_of summary) kind")
        (simp_all add: result Let_def set_regions_at dict_get_def)
  next
    case True
    let ?cs = "filter (\<lambda>x. fst x = kind) (account_counts summary)"
    have regions: "length (dict_get [] (region_usage_of summary) kind) = card (regions_of kind summary)"
      using region_usage_kind [of summary kind]
      by (cases "map_of (region_usage_of summary) kind") (auto simp: dict_get_def regions_empty)
    have owned: "kind \<in> fst ` set (account_counts summary) \<longleftrightarrow> ?cs \<noteq> []" by (auto simp: filter_empty_conv)
    have "map_of (usage_by_account summary) kind =
      (if ?cs = [] then None else Some \<lparr>ku_accounts = 1, ku_regions = card (regions_of kind summary), ku_resources = resources_of kind summary\<rparr>)"
      by (simp add: usage_by_account_def map_of_dict_loop account_usage_at Let_def regions resources_of_def no_usage_def)
    then show ?thesis
      using True unfolding Let_def owned result
      by (simp add: set_regions_at dict_get_def no_usage_def regions_empty)
  qed
qed

end
