(* ===== verification/Inventory_Report.thy ===== *)
theory Inventory_Report
  imports Inventory_Usage Workspace_Model Complex_Main "HOL-Library.Multiset"
begin

section \<open>The report of a workspace\<close>

text \<open>
  \<open>InventoryService.summary\<close> of \<open>inventory/inventory_service.py\<close>: from the accounts, benchmarks and changes that the
  inventory returns it computes the scores, the failing resources by severity, a selection of changed accounts
  and kinds, and the top checks. Severities are the strings of the JSON documents. A key that the code reads with
  an index and the document lacks is None here and raises KeyError. The order in which Python visits a set is a
  parameter. The answers of the inventory are arguments here (None is an \<open>InventoryException\<close>); Report_Requests asks
  for them. The calls that run concurrently are taken in order. The cache is not modelled.
\<close>

subsection \<open>Severities and rounding\<close>

definition severity_names :: "string list" where
  "severity_names = [''info'', ''low'', ''medium'', ''high'', ''critical'']"

text \<open>\<open>ReportSeverityPriority\<close>, a \<open>defaultdict\<close>.\<close>

fun position :: "'a \<Rightarrow> 'a list \<Rightarrow> nat" where
  "position x [] = 0"
| "position x (y # ys) = (if x = y then 0 else Suc (position x ys))"

definition priority :: "string \<Rightarrow> nat" where
  "priority s = (if s \<in> set severity_names then position s severity_names else 0)"

text \<open>\<open>round\<close>: halves go to the even neighbour.\<close>

definition py_round :: "rat \<Rightarrow> int" where
  "py_round q = (let f = floor q; d = q - of_int f in
     if d < 1 / 2 then f else if d > 1 / 2 then f + 1 else if even f then f else f + 1)"

definition required :: "'a option \<Rightarrow> exn + 'a" where
  "required x = (case x of None \<Rightarrow> Inl KeyError | Some a \<Rightarrow> Inr a)"

text \<open>
  \<open>dict_values_by\<close>: the values of a dictionary of sets by falling value of the function, each once. \<open>visit\<close> is the
  order in which the elements of a set come.
\<close>

definition dict_values_by :: "('v list \<Rightarrow> 'v list) \<Rightarrow> ('k \<times> 'v list) list \<Rightarrow> ('k \<Rightarrow> nat) \<Rightarrow> 'v list" where
  "dict_values_by visit d fn = rev (remdups (rev (concat (map (\<lambda>(k, vs). visit vs) (sort_key (\<lambda>(k, vs). - int (fn k)) d)))))"

subsection \<open>What the inventory returns\<close>

record failed_info =
  fi_checks :: "int option"
  fi_resources :: "int option"

record benchmark_info =
  bi_failed :: "(string \<times> failed_info) list"
  bi_score :: "int option"

text \<open>An account: a benchmark entry that is not a dictionary is None.\<close>

record account_entry =
  en_id :: "string option"
  en_name :: "string option"
  en_cloud :: "string option"
  en_benchmarks :: "(string \<times> benchmark_info option) list"
  en_exported_at :: "datetime option"
  en_failed :: "(string \<times> failed_info) list"
  en_descendant_count :: "int option"
  en_score :: "rat option"

record change_count =
  cc_account_id :: "string option"
  cc_severity :: "string option"
  cc_kind :: string
  cc_count :: int

record benchmark_def =
  bd_id :: string
  bd_title :: string
  bd_framework :: string
  bd_version :: string
  bd_clouds :: "string list"
  bd_description :: string
  bd_checks :: "(string \<times> string) list"

text \<open>The definition of a check: its id and its severity, if it has one.\<close>

type_synonym check_info = "string \<times> string option"

subsection \<open>The schemas\<close>

record account_summary =
  as_id :: string
  as_name :: string
  as_cloud :: string
  as_resource_count :: int
  as_failed :: counts
  as_score :: int
  as_exported_at :: "datetime option"

record benchmark_account =
  ba_score :: int
  ba_failed_checks :: "counts option"
  ba_failed_resource_checks :: "counts option"

record benchmark_summary =
  bs_id :: string
  bs_title :: string
  bs_framework :: string
  bs_version :: string
  bs_clouds :: "string list"
  bs_description :: string
  bs_nr_of_checks :: nat
  bs_accounts :: "(string \<times> benchmark_account) list"

record vulnerabilities_changed =
  vc_since :: timedelta
  vc_accounts :: "string list"
  vc_by_severity :: counts
  vc_by_kind :: counts

record report_summary =
  rp_available_resources :: int
  rp_failed_by_severity :: counts
  rp_overall_score :: int
  rp_accounts :: "account_summary list"
  rp_benchmarks :: "benchmark_summary list"
  rp_changed_vulnerable :: vulnerabilities_changed
  rp_changed_compliant :: vulnerabilities_changed
  rp_top_checks :: "(check_info \<times> (string \<times> string) list) list"
  rp_series :: "(datetime \<times> datetime \<times> timedelta) option"

subsection \<open>The accounts\<close>

definition put :: "'k \<Rightarrow> 'v \<Rightarrow> ('k \<times> 'v) list \<Rightarrow> ('k \<times> 'v) list" where
  "put k v d = dict_upd (\<lambda>_. v) v k d"

text \<open>The failed checks and resources of a benchmark in one account.\<close>

fun benchmark_failures :: "(string \<times> failed_info) list \<Rightarrow> counts \<times> counts \<Rightarrow> exn + counts \<times> counts" where
  "benchmark_failures [] s = Inr s"
| "benchmark_failures ((severity, info) # rest) (checks, resources) =
     (case (required (fi_checks info), required (fi_resources info)) of
        (Inr c, Inr r) \<Rightarrow> benchmark_failures rest (put severity c checks, put severity r resources)
      | _ \<Rightarrow> Inl KeyError)"

definition some_if_any :: "'a list \<Rightarrow> 'a list option" where
  "some_if_any xs = (if xs = [] then None else Some xs)"

type_synonym benchmark_accounts = "(string \<times> (string \<times> benchmark_account) list) list"

fun populate_benchmarks :: "string \<Rightarrow> (string \<times> benchmark_info option) list \<Rightarrow> benchmark_accounts \<Rightarrow> exn + benchmark_accounts" where
  "populate_benchmarks account_id [] s = Inr s"
| "populate_benchmarks account_id ((benchmark_id, None) # rest) s = populate_benchmarks account_id rest s"
| "populate_benchmarks account_id ((benchmark_id, Some info) # rest) s =
     (case benchmark_failures (bi_failed info) ([], []) of Inl e \<Rightarrow> Inl e
      | Inr (checks, resources) \<Rightarrow>
          let b = \<lparr>ba_score = (case bi_score info of None \<Rightarrow> 100 | Some n \<Rightarrow> n), ba_failed_checks = some_if_any checks,
                ba_failed_resource_checks = some_if_any resources\<rparr> in
          populate_benchmarks account_id rest (dict_upd (put account_id b) [] benchmark_id s))"

text \<open>The failed resources of an account, which also go into the counter of the workspace.\<close>

fun account_failures :: "(string \<times> failed_info) list \<Rightarrow> counts \<Rightarrow> counts \<Rightarrow> exn + counts \<times> counts" where
  "account_failures [] by_severity counter = Inr (by_severity, counter)"
| "account_failures ((severity, info) # rest) by_severity counter =
     (case required (fi_resources info) of Inl e \<Rightarrow> Inl e
      | Inr n \<Rightarrow> account_failures rest (put severity n by_severity) (dict_upd (\<lambda>m. m + n) 0 severity counter))"

record populated =
  po_benchmarks :: benchmark_accounts
  po_accounts :: "(string \<times> account_summary) list"
  po_counter :: counts

definition populate_entry :: "account_entry \<Rightarrow> populated \<Rightarrow> exn + populated" where
  "populate_entry entry s =
     (case required (en_id entry) of Inl e \<Rightarrow> Inl e | Inr account_id \<Rightarrow>
     (case populate_benchmarks account_id (en_benchmarks entry) (po_benchmarks s) of Inl e \<Rightarrow> Inl e | Inr bs \<Rightarrow>
     (case account_failures (en_failed entry) [] (po_counter s) of Inl e \<Rightarrow> Inl e | Inr (by_severity, counter) \<Rightarrow>
     (case (required (en_name entry), required (en_cloud entry)) of
        (Inr name, Inr cloud) \<Rightarrow>
          let summary = \<lparr>as_id = account_id, as_name = name, as_cloud = cloud,
                as_resource_count = (case en_descendant_count entry of None \<Rightarrow> 0 | Some n \<Rightarrow> n), as_failed = by_severity,
                as_score = py_round (case en_score entry of None \<Rightarrow> 100 | Some q \<Rightarrow> q), as_exported_at = en_exported_at entry\<rparr>
          in Inr \<lparr>po_benchmarks = bs, po_accounts = put account_id summary (po_accounts s), po_counter = counter\<rparr>
      | _ \<Rightarrow> Inl KeyError))))"

fun populate_info :: "account_entry list \<Rightarrow> populated \<Rightarrow> exn + populated" where
  "populate_info [] s = Inr s"
| "populate_info (entry # entries) s =
     (case populate_entry entry s of Inl e \<Rightarrow> Inl e | Inr s' \<Rightarrow> populate_info entries s')"

definition overall_score :: "(string \<times> account_summary) list \<Rightarrow> datetime \<Rightarrow> timedelta \<Rightarrow> int" where
  "overall_score accounts now duration =
     (let scores = map as_score (filter (\<lambda>a. case as_exported_at a of None \<Rightarrow> True | Some t \<Rightarrow> now - duration < t) (map snd accounts))
      in if accounts = [] then 100 else sum_list scores div int (length accounts))"

subsection \<open>The changes\<close>

definition top_counts :: "nat \<Rightarrow> counts \<Rightarrow> counts" where
  "top_counts n d = take n (sort_key (\<lambda>(k, c). - c) d)"

definition issues_since :: "(string list \<Rightarrow> string list) \<Rightarrow> timedelta \<Rightarrow> change_count list \<Rightarrow> vulnerabilities_changed" where
  "issues_since visit duration elems =
     (let known = filter (\<lambda>e. cc_severity e \<noteq> None) elems;
          accounts = fold (\<lambda>e. case cc_account_id e of None \<Rightarrow> id
            | Some a \<Rightarrow> dict_upd (List.insert a) [] (the (cc_severity e))) known [];
          by_severity = fold (\<lambda>e. dict_upd (\<lambda>n. n + cc_count e) 0 (the (cc_severity e))) known [];
          by_kind = fold (\<lambda>e. dict_upd (\<lambda>n. n + cc_count e) 0 (cc_kind e)) known []
      in \<lparr>vc_since = duration, vc_accounts = take 3 (dict_values_by visit accounts priority), vc_by_severity = by_severity,
          vc_by_kind = top_counts 3 by_kind\<rparr>)"

definition sort_accounts_by_score :: "(string \<times> account_summary) list \<Rightarrow> vulnerabilities_changed \<Rightarrow> vulnerabilities_changed" where
  "sort_accounts_by_score accounts c =
     c\<lparr>vc_accounts := sort_key (\<lambda>x. case map_of accounts x of None \<Rightarrow> 100 | Some a \<Rightarrow> as_score a) (vc_accounts c)\<rparr>"

subsection \<open>Benchmarks and checks\<close>

text \<open>Every check of every benchmark is filed under its severity, whether it fails or not.\<close>

record filed_checks =
  fl_summaries :: "(string \<times> benchmark_summary) list"
  fl_by_severity :: "(string \<times> string list) list"
  fl_benchmarks :: "(string \<times> string list) list"

fun file_checks :: "string \<Rightarrow> (string \<times> string) list \<Rightarrow> filed_checks \<Rightarrow> exn + filed_checks" where
  "file_checks benchmark_id [] s = Inr s"
| "file_checks benchmark_id ((check_id, severity) # rest) s =
     (if severity \<notin> set severity_names then Inl ValueError
      else file_checks benchmark_id rest
        (s\<lparr>fl_by_severity := dict_upd (List.insert check_id) [] severity (fl_by_severity s),
           fl_benchmarks := dict_upd (List.insert benchmark_id) [] check_id (fl_benchmarks s)\<rparr>))"

fun summarise_benchmarks :: "benchmark_accounts \<Rightarrow> benchmark_def list \<Rightarrow> filed_checks \<Rightarrow> exn + filed_checks" where
  "summarise_benchmarks accounts [] s = Inr s"
| "summarise_benchmarks accounts (b # bs) s =
     (let summary = \<lparr>bs_id = bd_id b, bs_title = bd_title b, bs_framework = bd_framework b, bs_version = bd_version b,
            bs_clouds = bd_clouds b, bs_description = bd_description b, bs_nr_of_checks = length (bd_checks b),
            bs_accounts = dict_get [] accounts (bd_id b)\<rparr> in
      case file_checks (bd_id b) (bd_checks b) (s\<lparr>fl_summaries := put (bd_id b) summary (fl_summaries s)\<rparr>) of Inl e \<Rightarrow> Inl e
      | Inr s' \<Rightarrow> summarise_benchmarks accounts bs s')"

definition top_check_ids :: "(string list \<Rightarrow> string list) \<Rightarrow> filed_checks \<Rightarrow> nat \<Rightarrow> string list" where
  "top_check_ids visit filed num = take num (dict_values_by visit (fl_by_severity filed) priority)"

definition top_issues :: "(string list \<Rightarrow> string list) \<Rightarrow> filed_checks \<Rightarrow> check_info list \<Rightarrow> (check_info \<times> (string \<times> string) list) list" where
  "top_issues visit filed checks =
     sort_key (\<lambda>(c, bs). - int (priority (case snd c of None \<Rightarrow> ''info'' | Some s \<Rightarrow> s)))
       (map (\<lambda>c. (c, concat (map (\<lambda>b. case map_of (fl_summaries filed) b of None \<Rightarrow> [] | Some s \<Rightarrow> [(bs_id s, bs_title s)])
          (visit (dict_get [] (fl_benchmarks filed) (fst c)))))) checks)"

subsection \<open>The summary\<close>

record inventory_answers =
  ia_accounts :: "datetime \<Rightarrow> account_entry list option"
  ia_benchmarks :: "benchmark_def list option"
  ia_vulnerable :: "timedelta \<Rightarrow> change_count list option"
  ia_compliant :: "timedelta \<Rightarrow> change_count list option"
  ia_infected :: "datetime \<Rightarrow> datetime \<Rightarrow> timedelta \<Rightarrow> bool"
  ia_checks :: "string list \<Rightarrow> check_info list option"

text \<open>The window of the time series: two months by week on the free tier, two weeks by day otherwise.\<close>

definition infected_window :: "bool \<Rightarrow> datetime \<Rightarrow> datetime \<times> datetime \<times> timedelta" where
  "infected_window is_free now = (now - td_days (if is_free then 62 else 14), now, td_days (if is_free then 7 else 1))"

definition no_changes :: vulnerabilities_changed where
  "no_changes = \<lparr>vc_since = 0, vc_accounts = [], vc_by_severity = [], vc_by_kind = []\<rparr>"

definition empty_report :: report_summary where
  "empty_report = \<lparr>rp_available_resources = 0, rp_failed_by_severity = [], rp_overall_score = 0, rp_accounts = [], rp_benchmarks = [],
     rp_changed_vulnerable = no_changes, rp_changed_compliant = no_changes, rp_top_checks = [], rp_series = None\<rparr>"

definition compute_summary ::
  "(string list \<Rightarrow> string list) \<Rightarrow> inventory_answers \<Rightarrow> bool \<Rightarrow> datetime \<Rightarrow> timedelta \<Rightarrow> exn + report_summary" where
  "compute_summary visit inventory is_free now duration =
     (case ia_accounts inventory (now - duration) of None \<Rightarrow> Inl ExternalError | Some entries \<Rightarrow>
     (case populate_info entries \<lparr>po_benchmarks = [], po_accounts = [], po_counter = []\<rparr> of Inl e \<Rightarrow> Inl e | Inr po \<Rightarrow>
     (case ia_benchmarks inventory of None \<Rightarrow> Inl ExternalError | Some bs \<Rightarrow>
     (case summarise_benchmarks (po_benchmarks po) bs \<lparr>fl_summaries = [], fl_by_severity = [], fl_benchmarks = []\<rparr> of Inl e \<Rightarrow> Inl e | Inr filed \<Rightarrow>
     (case (ia_vulnerable inventory duration, ia_compliant inventory duration) of
        (Some vulnerable, Some compliant) \<Rightarrow>
          (let (s, e, g) = infected_window is_free now in
           if \<not> ia_infected inventory s e g then Inl ExternalError
           else
             (case ia_checks inventory (top_check_ids visit filed 5) of None \<Rightarrow> Inl ExternalError | Some checks \<Rightarrow>
              Inr \<lparr>rp_available_resources = sum_list (map (as_resource_count \<circ> snd) (po_accounts po)),
                   rp_failed_by_severity = po_counter po,
                   rp_overall_score = overall_score (po_accounts po) now duration,
                   rp_accounts = sort_key as_score (map snd (po_accounts po)),
                   rp_benchmarks = map snd (fl_summaries filed),
                   rp_changed_vulnerable = sort_accounts_by_score (po_accounts po) (issues_since visit duration vulnerable),
                   rp_changed_compliant = sort_accounts_by_score (po_accounts po) (issues_since visit duration compliant),
                   rp_top_checks = top_issues visit filed checks, rp_series = Some (s, e, g)\<rparr>))
      | _ \<Rightarrow> Inl ExternalError)))))"

subsection \<open>The numbers of the report agree\<close>

lemma dict_get_upd: "dict_get d (dict_upd f d k dict) j = (if j = k then f (dict_get d dict k) else dict_get d dict j)"
  by (simp add: dict_get_def map_of_dict_upd)

lemma put_new: "k \<notin> fst ` set d \<Longrightarrow> put k v d = d @ [(k, v)]"
  unfolding put_def by (induction d) auto

lemma dict_get_put: "dict_get d0 (put k v d) j = (if j = k then v else dict_get d0 d j)"
  by (simp add: put_def dict_get_def map_of_dict_upd)

lemma keys_put: "fst ` set (put k v d) = insert k (fst ` set d)"
  by (simp add: put_def keys_dict_upd)

lemma account_failures_counts:
  "account_failures failed by counter = Inr (by', counter') \<Longrightarrow> distinct (map fst failed) \<Longrightarrow> fst ` set failed \<inter> fst ` set by = {} \<Longrightarrow>
   dict_get 0 counter' s - dict_get 0 counter s = dict_get 0 by' s - dict_get 0 by s"
proof (induction failed "by" counter rule: account_failures.induct)
  case (2 severity info rest "by" counter)
  then obtain n where n: "required (fi_resources info) = Inr n" by (auto split: sum.splits)
  have fresh: "dict_get 0 by severity = 0"
    using "2.prems"(3) by (auto simp: dict_get_def map_of_eq_None_iff dest: map_of_SomeD split: option.splits intro: rev_image_eqI)
  have "dict_get 0 counter' s - dict_get 0 (dict_upd (\<lambda>m. m + n) 0 severity counter) s = dict_get 0 by' s - dict_get 0 (put severity n by) s"
    using 2 n by (auto simp: keys_put)
  then show ?case using fresh by (auto simp: dict_get_upd dict_get_put split: if_splits)
qed simp

definition counts_agree :: "populated \<Rightarrow> bool" where
  "counts_agree s \<longleftrightarrow> distinct (map fst (po_accounts s)) \<and>
     (\<forall>sev. dict_get 0 (po_counter s) sev = sum_list (map (\<lambda>a. dict_get 0 (as_failed (snd a)) sev) (po_accounts s)))"

lemma populate_entry_agrees:
  assumes "populate_entry entry s = Inr s'" and "counts_agree s" and "distinct (map fst (en_failed entry))"
    and "\<forall>i. en_id entry = Some i \<longrightarrow> i \<notin> fst ` set (po_accounts s)"
  obtains i a where "en_id entry = Some i" "po_accounts s' = po_accounts s @ [(i, a)]" "counts_agree s'" "as_id a = i"
    "as_score a = py_round (case en_score entry of None \<Rightarrow> 100 | Some q \<Rightarrow> q)"
proof -
  obtain i bs by' counter' a where i: "en_id entry = Some i" "s' = \<lparr>po_benchmarks = bs, po_accounts = put i a (po_accounts s), po_counter = counter'\<rparr>"
    and f: "account_failures (en_failed entry) [] (po_counter s) = Inr (by', counter')" and a: "as_failed a = by'" "as_id a = i"
      "as_score a = py_round (case en_score entry of None \<Rightarrow> 100 | Some q \<Rightarrow> q)"
    using assms(1) by (auto simp: populate_entry_def required_def Let_def split: option.splits sum.splits prod.splits)
  have new: "put i a (po_accounts s) = po_accounts s @ [(i, a)]" using assms(4) i(1) by (simp add: put_new)
  have "dict_get 0 counter' sev = dict_get 0 (po_counter s) sev + dict_get 0 by' sev" for sev
    using account_failures_counts [OF f assms(3), of sev] by simp
  then have "counts_agree s'" using assms(2,4) i new a(1) by (auto simp: counts_agree_def)
  then show thesis using that i new a(2,3) by simp
qed

lemma populate_info_agrees:
  "populate_info entries s = Inr s' \<Longrightarrow> counts_agree s \<Longrightarrow> \<forall>e\<in>set entries. distinct (map fst (en_failed e)) \<Longrightarrow>
   distinct (map en_id entries) \<Longrightarrow> \<forall>e\<in>set entries. \<forall>i. en_id e = Some i \<longrightarrow> i \<notin> fst ` set (po_accounts s) \<Longrightarrow>
   counts_agree s' \<and> (\<exists>news. po_accounts s' = po_accounts s @ news \<and>
     list_all2 (\<lambda>e x. en_id e = Some (as_id (snd x)) \<and> as_score (snd x) = py_round (case en_score e of None \<Rightarrow> 100 | Some q \<Rightarrow> q)) entries news)"
proof (induction entries s rule: populate_info.induct)
  case (2 entry entries s)
  then obtain s1 where s1: "populate_entry entry s = Inr s1" "populate_info entries s1 = Inr s'" by (auto split: sum.splits)
  obtain i a where a: "en_id entry = Some i" "po_accounts s1 = po_accounts s @ [(i, a)]" "counts_agree s1" "as_id a = i"
      "as_score a = py_round (case en_score entry of None \<Rightarrow> 100 | Some q \<Rightarrow> q)"
    using populate_entry_agrees [OF s1(1)] 2 by auto
  have "\<forall>e\<in>set entries. \<forall>j. en_id e = Some j \<longrightarrow> j \<notin> fst ` set (po_accounts s1)"
    using "2.prems"(4,5) a(1,2) by (force simp: image_iff)
  then obtain news where "counts_agree s'" "po_accounts s' = po_accounts s1 @ news"
      "list_all2 (\<lambda>e x. en_id e = Some (as_id (snd x)) \<and> as_score (snd x) = py_round (case en_score e of None \<Rightarrow> 100 | Some q \<Rightarrow> q)) entries news"
    using "2.IH" [OF s1(1) s1(2) a(3)] "2.prems"(3,4) by auto
  then show ?case using a(1,2,4,5) by auto
qed simp

lemma py_round_bounds: "0 \<le> q \<Longrightarrow> q \<le> 100 \<Longrightarrow> 0 \<le> py_round q \<and> py_round q \<le> 100"
proof -
  assume q: "0 \<le> q" "q \<le> 100"
  define n where "n = floor q"
  have n: "0 \<le> n" "n \<le> 100" using q by (simp_all add: n_def floor_le_iff)
  show ?thesis
  proof (cases "n = 100")
    case True
    then have "q - of_int n < 1 / 2" using q by simp
    then show ?thesis using True by (simp add: py_round_def Let_def n_def [symmetric])
  next
    case False
    then have "n + 1 \<le> 100" using n by linarith
    then show ?thesis using n by (simp add: py_round_def Let_def n_def [symmetric])
  qed
qed

lemma sum_list_bound: "(\<And>x. x \<in> set xs \<Longrightarrow> 0 \<le> f x \<and> f x \<le> c) \<Longrightarrow> 0 \<le> sum_list (map f xs) \<and> sum_list (map f xs) \<le> c * int (length xs)"
  for f :: "'a \<Rightarrow> int"
  by (induction xs) (force simp: algebra_simps)+

lemma overall_score_bounds:
  assumes "\<And>x. x \<in> set accounts \<Longrightarrow> 0 \<le> as_score (snd x) \<and> as_score (snd x) \<le> 100"
  shows "0 \<le> overall_score accounts now duration \<and> overall_score accounts now duration \<le> 100"
proof (cases "accounts = []")
  case False
  let ?recent = "filter (\<lambda>a. case as_exported_at a of None \<Rightarrow> True | Some t \<Rightarrow> now - duration < t) (map snd accounts)"
  have "0 \<le> sum_list (map as_score ?recent) \<and> sum_list (map as_score ?recent) \<le> 100 * int (length ?recent)"
    by (rule sum_list_bound) (use assms in auto)
  moreover have "100 * int (length ?recent) \<le> 100 * int (length accounts)"
    using length_filter_le [of _ "map snd accounts"] by simp
  ultimately have S: "0 \<le> sum_list (map as_score ?recent)" "sum_list (map as_score ?recent) \<le> 100 * int (length accounts)"
    by linarith+
  have n: "0 < int (length accounts)" using False by simp
  have "sum_list (map as_score ?recent) div int (length accounts) \<le> 100 * int (length accounts) div int (length accounts)"
    by (rule zdiv_mono1 [OF S(2) n])
  then have "sum_list (map as_score ?recent) div int (length accounts) \<le> 100" using n by simp
  moreover have "0 \<le> sum_list (map as_score ?recent) div int (length accounts)" by (rule div_int_pos_iff [THEN iffD2]) (use S n in simp)
  ultimately show ?thesis using False by (simp add: overall_score_def Let_def)
qed (simp add: overall_score_def)

text \<open>
  C28: A report that was computed is consistent: its accounts are those of the inventory, each once, sorted by score, its failing
  resources of a severity are the sum over its accounts, its available resources are the sum over its accounts, and at
  most three changed accounts and kinds are selected. With scores from 0 to 100 the score of the workspace
  is in this range.
\<close>

theorem report_consistent:
  assumes entries: "ia_accounts inventory (now - duration) = Some entries"
    and dicts: "distinct (map en_id entries)" "\<forall>e\<in>set entries. distinct (map fst (en_failed e))"
    and scores: "\<forall>e\<in>set entries. \<forall>q. en_score e = Some q \<longrightarrow> 0 \<le> q \<and> q \<le> 100"
    and report: "compute_summary visit inventory is_free now duration = Inr rp"
  shows "length (rp_accounts rp) = length entries \<and>
    mset (map (Some \<circ> as_id) (rp_accounts rp)) = mset (map en_id entries) \<and> sorted (map as_score (rp_accounts rp)) \<and>
    (\<forall>sev. dict_get 0 (rp_failed_by_severity rp) sev = sum_list (map (\<lambda>a. dict_get 0 (as_failed a) sev) (rp_accounts rp))) \<and>
    rp_available_resources rp = sum_list (map as_resource_count (rp_accounts rp)) \<and>
    0 \<le> rp_overall_score rp \<and> rp_overall_score rp \<le> 100 \<and>
    length (vc_accounts (rp_changed_vulnerable rp)) \<le> 3 \<and> length (vc_by_kind (rp_changed_vulnerable rp)) \<le> 3 \<and>
    length (vc_accounts (rp_changed_compliant rp)) \<le> 3 \<and> length (vc_by_kind (rp_changed_compliant rp)) \<le> 3"
proof -
  let ?start = "\<lparr>po_benchmarks = [], po_accounts = [], po_counter = []\<rparr>"
  obtain po v c where po: "populate_info entries ?start = Inr po" and rp: "rp_accounts rp = sort_key as_score (map snd (po_accounts po))"
      "rp_failed_by_severity rp = po_counter po" "rp_available_resources rp = sum_list (map (as_resource_count \<circ> snd) (po_accounts po))"
      "rp_overall_score rp = overall_score (po_accounts po) now duration"
    and changed: "rp_changed_vulnerable rp = sort_accounts_by_score (po_accounts po) (issues_since visit duration v)"
      "rp_changed_compliant rp = sort_accounts_by_score (po_accounts po) (issues_since visit duration c)"
    using report entries by (auto simp: compute_summary_def Let_def split: option.splits sum.splits prod.splits if_splits)
  have "counts_agree ?start" by (simp add: counts_agree_def)
  then obtain agree: "counts_agree po" and len: "list_all2 (\<lambda>e x. en_id e = Some (as_id (snd x)) \<and> as_score (snd x) = py_round (case en_score e of None \<Rightarrow> 100 | Some q \<Rightarrow> q)) entries (po_accounts po)"
    using populate_info_agrees [OF po] dicts by auto
  have sums: "sum_list (map f (rp_accounts rp)) = sum_list (map (f \<circ> snd) (po_accounts po))" for f :: "account_summary \<Rightarrow> int"
    unfolding rp(1) by (simp flip: sum_mset_sum_list add: mset_map image_mset.compositionality)
  have small: "length (vc_accounts (sort_accounts_by_score acs (issues_since visit d es))) \<le> 3"
      "length (vc_by_kind (sort_accounts_by_score acs (issues_since visit d es))) \<le> 3" for acs d es
    by (simp_all add: sort_accounts_by_score_def issues_since_def Let_def top_counts_def)
  have "0 \<le> as_score (snd x) \<and> as_score (snd x) \<le> 100" if "x \<in> set (po_accounts po)" for x
  proof -
    obtain i where i: "i < length (po_accounts po)" "x = po_accounts po ! i" using \<open>x \<in> set (po_accounts po)\<close> by (auto simp: in_set_conv_nth)
    then obtain e where "e \<in> set entries" "as_score (snd x) = py_round (case en_score e of None \<Rightarrow> 100 | Some q \<Rightarrow> q)"
      using list_all2_lengthD [OF len] list_all2_nthD2 [OF len] by (metis nth_mem)
    then show ?thesis using scores py_round_bounds by (auto split: option.split)
  qed
  then have "0 \<le> overall_score (po_accounts po) now duration \<and> overall_score (po_accounts po) now duration \<le> 100"
    by (rule overall_score_bounds)
  moreover have "length (po_accounts po) = length entries" using list_all2_lengthD [OF len] by simp
  moreover have "map (Some \<circ> as_id \<circ> snd) (po_accounts po) = map en_id entries"
    using len by (induction rule: list_all2_induct) auto
  then have "mset (map (Some \<circ> as_id) (rp_accounts rp)) = mset (map en_id entries)"
    unfolding rp(1) by (simp flip: mset_map add: comp_assoc) (metis comp_assoc map_map mset_map mset_sort)
  ultimately show ?thesis
    using agree rp sums changed small by (auto simp: counts_agree_def comp_def)
qed

subsection \<open>A concrete report\<close>

definition sample_entry :: account_entry where
  "sample_entry = \<lparr>en_id = Some ''a'', en_name = Some ''n'', en_cloud = Some ''aws'', en_benchmarks = [], en_exported_at = Some 5,
     en_failed = [(''high'', \<lparr>fi_checks = Some 1, fi_resources = Some 4\<rparr>)], en_descendant_count = Some 9, en_score = Some (165 / 2)\<rparr>"

definition sample_inventory :: inventory_answers where
  "sample_inventory = \<lparr>ia_accounts = \<lambda>_. Some [sample_entry], ia_benchmarks = Some [], ia_vulnerable = \<lambda>_. Some [],
     ia_compliant = \<lambda>_. Some [], ia_infected = \<lambda>_ _ _. True, ia_checks = \<lambda>_. Some []\<rparr>"

lemma report_consistent_witness:
  "\<exists>rp. compute_summary id sample_inventory False 10 8 = Inr rp \<and> length (rp_accounts rp) = 1 \<and> rp_overall_score rp \<le> 100 \<and>
    dict_get 0 (rp_failed_by_severity rp) ''high'' = sum_list (map (\<lambda>a. dict_get 0 (as_failed a) ''high'') (rp_accounts rp))"
proof -
  have "\<exists>rp. compute_summary id sample_inventory False 10 8 = Inr rp"
    by (simp add: compute_summary_def sample_inventory_def populate_entry_def sample_entry_def required_def infected_window_def)
  then obtain rp where rp: "compute_summary id sample_inventory False 10 8 = Inr rp" ..
  have "ia_accounts sample_inventory (10 - 8) = Some [sample_entry]" by (simp add: sample_inventory_def)
  from report_consistent [OF this _ _ _ rp] rp show ?thesis by (simp add: sample_entry_def)
qed

end
