(* ===== verification/Analytics.thy ===== *)
theory Analytics
  imports Cloud_Account_Events
begin

section \<open>Analytics\<close>

text \<open>
  \<open>DomainEventToAnalyticsEventHandler\<close> of \<open>analytics/domain_event_to_analytics.py\<close> turns domain events into analytics
  events; the senders of \<open>analytics/analytics_event_sender.py\<close> queue them and pass them on to Google Analytics, in requests
  of at most 25 events of one user, or to PostHog. What the two services are sent is recorded in order; they
  answer nothing that the code depends on.
\<close>

subsection \<open>Users and workspaces of events\<close>

fun ae_user :: "analytics_event \<Rightarrow> uuid" where
  "ae_user (AEUserRegistered u _ _) = u"
| "ae_user (AEAccountDiscovered u _ _) = u"
| "ae_user (AEAccountConfigured u _ _) = u"
| "ae_user (AEAccountDeleted u _ _) = u"
| "ae_user (AEAccountDegraded u _ _ _) = u"
| "ae_user (AEAccountNameChanged u _ _) = u"
| "ae_user (AEFirstWorkspaceCollectFinished u _) = u"
| "ae_user (AEWorkspaceCollectFinished u _ _ _) = u"
| "ae_user (AEFirstAccountCollectFinished u _) = u"
| "ae_user (AEWorkspaceCreated u _ _ _) = u"
| "ae_user (AEInvitationAccepted u _) = u"
| "ae_user (AEUserJoinedWorkspace u _) = u"
| "ae_user (AEProductTierChanged u _ _) = u"
| "ae_user (AESubscriptionCreated u _ _) = u"
| "ae_user (AEUserLoggedIn u) = u"
| "ae_user (AEFailingBenchmarkChecksAlertSend u _ _ _) = u"
| "ae_user (AEBillingEntryCreated u _ _ _) = u"
| "ae_user (AEAlertNotificationSetupUpdated u _ _) = u"

fun ae_workspace :: "analytics_event \<Rightarrow> uuid option" where
  "ae_workspace (AEUserRegistered _ ws _) = Some ws"
| "ae_workspace (AEAccountDiscovered _ ws _) = Some ws"
| "ae_workspace (AEAccountConfigured _ ws _) = Some ws"
| "ae_workspace (AEAccountDeleted _ ws _) = Some ws"
| "ae_workspace (AEAccountDegraded _ ws _ _) = Some ws"
| "ae_workspace (AEAccountNameChanged _ ws _) = Some ws"
| "ae_workspace (AEFirstWorkspaceCollectFinished _ ws) = Some ws"
| "ae_workspace (AEWorkspaceCollectFinished _ ws _ _) = Some ws"
| "ae_workspace (AEFirstAccountCollectFinished _ ws) = Some ws"
| "ae_workspace (AEWorkspaceCreated _ ws _ _) = Some ws"
| "ae_workspace (AEInvitationAccepted _ ws) = Some ws"
| "ae_workspace (AEUserJoinedWorkspace _ ws) = Some ws"
| "ae_workspace (AEProductTierChanged _ ws _) = Some ws"
| "ae_workspace (AESubscriptionCreated _ ws _) = Some ws"
| "ae_workspace (AEUserLoggedIn _) = None"
| "ae_workspace (AEFailingBenchmarkChecksAlertSend _ ws _ _) = Some ws"
| "ae_workspace (AEBillingEntryCreated _ ws _ _) = Some ws"
| "ae_workspace (AEAlertNotificationSetupUpdated _ ws _) = Some ws"

subsection \<open>From domain events\<close>

definition as_owner :: "service_env \<Rightarrow> uuid \<Rightarrow> (uuid \<Rightarrow> analytics_event) \<Rightarrow> unit io" where
  "as_owner env ws event = bind (user_id_from_workspace env ws) (\<lambda>user_id. send_analytics (event user_id))"

text \<open>A new subscription is reported as one of the AWS Marketplace whatever its method.\<close>

definition handle :: "service_env \<Rightarrow> domain_event \<Rightarrow> unit io" where
  "handle env event =
     (case event of
        UserRegistered user_id email tenant_id \<Rightarrow> send_analytics (AEUserRegistered user_id tenant_id email)
      | CloudAccountDiscovered cloud i tenant_id account_id \<Rightarrow> as_owner env tenant_id (\<lambda>u. AEAccountDiscovered u tenant_id cloud)
      | CloudAccountConfigured cloud i tenant_id account_id \<Rightarrow> as_owner env tenant_id (\<lambda>u. AEAccountConfigured u tenant_id cloud)
      | CloudAccountDeleted cloud user_id i tenant_id account_id \<Rightarrow> send_analytics (AEAccountDeleted user_id tenant_id cloud)
      | CloudAccountDegraded cloud i tenant_id account_id name error reason \<Rightarrow>
          as_owner env tenant_id (\<lambda>u. AEAccountDegraded u tenant_id cloud error)
      | CloudAccountNameChanged i tenant_id cloud account_id state name fname \<Rightarrow>
          as_owner env tenant_id (\<lambda>u. AEAccountNameChanged u tenant_id cloud)
      | WorkspaceCreated workspace_id name slug user_id \<Rightarrow> send_analytics (AEWorkspaceCreated user_id workspace_id name slug)
      | InvitationAccepted workspace_id user_id email \<Rightarrow>
          (case user_id of Some u \<Rightarrow> send_analytics (AEInvitationAccepted u workspace_id)
           | None \<Rightarrow> as_owner env workspace_id (\<lambda>u. AEInvitationAccepted u workspace_id))
      | UserJoinedWorkspace workspace_id user_id \<Rightarrow> send_analytics (AEUserJoinedWorkspace user_id workspace_id)
      | ProductTierChanged workspace_id user_id tier is_paid is_higher previous \<Rightarrow>
          send_analytics (AEProductTierChanged user_id workspace_id tier)
      | SubscriptionCreated workspace_id user_id subscription_id subscription_kind \<Rightarrow>
          (case workspace_id of None \<Rightarrow> ret ()
           | Some ws \<Rightarrow> send_analytics (AESubscriptionCreated user_id ws ''aws_marketplace''))
      | UserLoggedIn user_id email \<Rightarrow> send_analytics (AEUserLoggedIn user_id)
      | FailingBenchmarkChecksAlertSend workspace_id benchmark severity failed channels \<Rightarrow>
          as_owner env workspace_id (\<lambda>u. AEFailingBenchmarkChecksAlertSend u workspace_id benchmark failed)
      | BillingEntryCreated tenant_id subscription_id tier usage \<Rightarrow>
          as_owner env tenant_id (\<lambda>u. AEBillingEntryCreated u tenant_id tier usage)
      | AlertNotificationSetupUpdated tenant_id user_id provider \<Rightarrow>
          send_analytics (AEAlertNotificationSetupUpdated user_id tenant_id provider)
      | _ \<Rightarrow> ret ())"

subsection \<open>Google Analytics\<close>

record google_sender =
  ga_events :: "analytics_event list"
  ga_requests :: "(uuid \<times> analytics_event list) list"

definition google_send :: "analytics_event \<Rightarrow> google_sender \<Rightarrow> google_sender" where
  "google_send event s = s\<lparr>ga_events := ga_events s @ [event]\<rparr>"

text \<open>\<open>group_by\<close> of \<open>utils.py\<close>: the groups in the order of their first element.\<close>

fun group_by :: "('a \<Rightarrow> 'k) \<Rightarrow> 'a list \<Rightarrow> ('k \<times> 'a list) list \<Rightarrow> ('k \<times> 'a list) list" where
  "group_by f [] groups = groups"
| "group_by f (x # xs) groups =
     group_by f xs (tput fst (f x, (case tfind fst (f x) groups of None \<Rightarrow> [] | Some g \<Rightarrow> snd g) @ [x]) groups)"

function batches :: "'a list \<Rightarrow> 'a list list" where
  "batches xs = (if xs = [] then [] else take 25 xs # batches (drop 25 xs))"
  by pat_completeness auto
termination by (relation "measure length") auto

declare batches.simps [simp del]

text \<open>The queue is emptied before anything is sent; a request that fails is only logged.\<close>

definition google_send_events :: "google_sender \<Rightarrow> google_sender" where
  "google_send_events s =
     (if ga_events s = [] then s
      else s\<lparr>ga_events := [], ga_requests := ga_requests s @
        concat (map (\<lambda>(u, es). map (Pair u) (batches es)) (group_by ae_user (ga_events s) []))\<rparr>)"

subsection \<open>PostHog\<close>

datatype posthog_call =
    Identify uuid string
  | Group_identify uuid string string
  | Capture analytics_event "uuid option"

record posthog_sender =
  ph_queue :: "analytics_event list"
  ph_calls :: "posthog_call list"

fun posthog_calls :: "analytics_event \<Rightarrow> posthog_call list" where
  "posthog_calls (AEUserRegistered u ws email) = [Identify u email, Capture (AEUserRegistered u ws email) (Some ws)]"
| "posthog_calls (AEWorkspaceCreated u ws name slug) = [Group_identify ws name slug, Capture (AEWorkspaceCreated u ws name slug) (Some ws)]"
| "posthog_calls e = [Capture e (ae_workspace e)]"

definition posthog_flush :: "posthog_sender \<Rightarrow> posthog_sender" where
  "posthog_flush s = s\<lparr>ph_queue := [], ph_calls := ph_calls s @ concat (map posthog_calls (ph_queue s))\<rparr>"

definition posthog_send :: "nat \<Rightarrow> analytics_event \<Rightarrow> posthog_sender \<Rightarrow> posthog_sender" where
  "posthog_send flush_at event s =
     (let s' = s\<lparr>ph_queue := ph_queue s @ [event]\<rparr> in if flush_at \<le> length (ph_queue s') then posthog_flush s' else s')"

subsection \<open>All senders\<close>

datatype event_sender = Google google_sender | Posthog nat posthog_sender | No_sender

fun sender_send :: "analytics_event \<Rightarrow> event_sender \<Rightarrow> event_sender" where
  "sender_send event (Google s) = Google (google_send event s)"
| "sender_send event (Posthog flush_at s) = Posthog flush_at (posthog_send flush_at event s)"
| "sender_send event No_sender = No_sender"

definition multi_send :: "analytics_event \<Rightarrow> event_sender list \<Rightarrow> event_sender list" where
  "multi_send event senders = map (sender_send event) senders"

fun sender_user_id :: "event_sender \<Rightarrow> service_env \<Rightarrow> uuid \<Rightarrow> uuid io" where
  "sender_user_id (Google s) env ws = user_id_from_workspace env ws"
| "sender_user_id (Posthog n s) env ws =
     bind (get_workspace ws) (\<lambda>workspace. case workspace of Some m \<Rightarrow> ret (ws_owner_id m) | None \<Rightarrow> raise ValueError)"
| "sender_user_id No_sender env ws = ret (unknown_workspace_user env)"

definition multi_user_id :: "event_sender list \<Rightarrow> service_env \<Rightarrow> uuid \<Rightarrow> uuid io" where
  "multi_user_id senders env ws = (case senders of [] \<Rightarrow> raise ValueError | s # _ \<Rightarrow> sender_user_id s env ws)"

subsection \<open>Nothing is lost on the way to the requests\<close>

lemma batches_concat: "concat (batches xs) = xs"
  by (induction xs rule: batches.induct) (subst batches.simps, simp)

lemma batches_size: "b \<in> set (batches xs) \<Longrightarrow> b \<noteq> [] \<and> length b \<le> 25"
proof (induction xs rule: batches.induct)
  case (1 xs)
  then show ?case by (cases "xs = []") (subst (asm) batches.simps, auto)+
qed

definition group_of :: "'k \<Rightarrow> ('k \<times> 'a list) list \<Rightarrow> 'a list" where
  "group_of k groups = concat (map snd (filter (\<lambda>g. fst g = k) groups))"

lemma group_of_find:
  "distinct (map fst groups) \<Longrightarrow> group_of k groups = (case tfind fst k groups of None \<Rightarrow> [] | Some g \<Rightarrow> snd g)"
proof (induction groups)
  case (Cons g groups)
  show ?case
  proof (cases "fst g = k")
    case True
    then have "filter (\<lambda>x. fst x = k) groups = []" using Cons.prems by (auto simp: filter_empty_conv image_iff)
    then show ?thesis using True by (simp add: group_of_def)
  qed (use Cons in \<open>simp add: group_of_def\<close>)
qed (simp add: group_of_def)

lemma group_by_groups:
  "distinct (map fst groups) \<Longrightarrow> distinct (map fst (group_by f xs groups)) \<and>
   group_of k (group_by f xs groups) = group_of k groups @ filter (\<lambda>x. f x = k) xs"
proof (induction f xs groups rule: group_by.induct)
  case (2 f x xs groups)
  let ?old = "case tfind fst (f x) groups of None \<Rightarrow> [] | Some g \<Rightarrow> snd g"
  let ?gs = "tput fst (f x, ?old @ [x]) groups"
  have d: "distinct (map fst ?gs)" using 2(2) by (simp add: distinct_tput)
  have "group_of k ?gs = group_of k groups @ (if f x = k then [x] else [])"
    using tfind_tput_same [of fst "(f x, ?old @ [x])" groups]
      tfind_tput_other [of k fst "(f x, ?old @ [x])" groups]
    by (auto simp: group_of_find [OF d] group_of_find [OF 2(2)])
  then show ?case using 2(1) [OF d] by simp
qed simp

text \<open>
  What is queued for Google Analytics is sent once: after a run the queue is empty, the requests of a
  user hold his events in the order in which they were queued, and a request has at least one and at most 25 events,
  all of one user.
\<close>

theorem google_requests:
  fixes s u
  defines "s' \<equiv> google_send_events s"
  shows "\<exists>requests. ga_events s' = [] \<and> ga_requests s' = ga_requests s @ requests \<and>
    concat (map snd (filter (\<lambda>r. fst r = u) requests)) = filter (\<lambda>e. ae_user e = u) (ga_events s) \<and>
    list_all (\<lambda>(v, es). es \<noteq> [] \<and> length es \<le> 25) requests"
proof -
  define groups where "groups = group_by ae_user (ga_events s) []"
  define requests where "requests = concat (map (\<lambda>(u, es). map (Pair u) (batches es)) groups)"
  have g: "distinct (map fst groups)" "group_of u groups = filter (\<lambda>e. ae_user e = u) (ga_events s)"
    using group_by_groups [of "[]" ae_user "ga_events s" u] by (simp_all add: groups_def group_of_def)
  have "concat (map snd (filter (\<lambda>r. fst r = u) (concat (map (\<lambda>(u, es). map (Pair u) (batches es)) gs)))) = group_of u gs" for gs
    by (induction gs) (auto simp: group_of_def filter_map comp_def batches_concat split: prod.split)
  then have "concat (map snd (filter (\<lambda>r. fst r = u) requests)) = filter (\<lambda>e. ae_user e = u) (ga_events s)"
    unfolding requests_def g(2) [symmetric] .
  moreover have "list_all (\<lambda>(v, es). es \<noteq> [] \<and> length es \<le> 25) requests"
    by (auto simp: requests_def list_all_iff dest: batches_size)
  moreover have "ga_events s' = []" "ga_requests s' = ga_requests s @ requests"
    by (auto simp: s'_def google_send_events_def requests_def groups_def)
  ultimately show ?thesis by blast
qed

text \<open>What PostHog has been told and what waits, in order.\<close>

definition captured :: "posthog_call list \<Rightarrow> analytics_event list" where
  "captured calls = concat (map (\<lambda>c. case c of Capture e ws \<Rightarrow> [e] | _ \<Rightarrow> []) calls)"

lemma captured_calls [simp]: "captured (posthog_calls e) = [e]"
  by (cases e) (simp_all add: captured_def)

lemma captured_append [simp]: "captured (xs @ ys) = captured xs @ captured ys"
  by (simp add: captured_def)

lemma captured_all: "captured (concat (map posthog_calls es)) = es"
  by (induction es) (simp_all, simp add: captured_def)

text \<open>
  PostHog gets every event once and in the order of the events: what was captured followed by the queue grows by
  the event that is sent. The queue stays shorter than the limit at which it is flushed.
\<close>

theorem posthog_in_order:
  assumes limit: "0 < flush_at"
  shows "captured (ph_calls (fold (posthog_send flush_at) es s)) @ ph_queue (fold (posthog_send flush_at) es s) =
      captured (ph_calls s) @ ph_queue s @ es \<and>
    (length (ph_queue s) < flush_at \<longrightarrow> length (ph_queue (fold (posthog_send flush_at) es s)) < flush_at)"
proof (induction es arbitrary: s)
  case (Cons e es)
  let ?s = "posthog_send flush_at e s"
  have "captured (ph_calls ?s) @ ph_queue ?s = captured (ph_calls s) @ ph_queue s @ [e]"
    by (simp add: posthog_send_def posthog_flush_def captured_all Let_def)
  moreover have "length (ph_queue ?s) < flush_at"
    using limit by (simp add: posthog_send_def posthog_flush_def Let_def)
  ultimately show ?case using Cons.IH [of ?s] by simp
qed simp

lemma posthog_in_order_witness:
  "captured (ph_calls (fold (posthog_send 2) [AEUserLoggedIn 1, AEUserLoggedIn 2, AEUserLoggedIn 3] \<lparr>ph_queue = [], ph_calls = []\<rparr>)) @
     ph_queue (fold (posthog_send 2) [AEUserLoggedIn 1, AEUserLoggedIn 2, AEUserLoggedIn 3] \<lparr>ph_queue = [], ph_calls = []\<rparr>) =
   [AEUserLoggedIn 1, AEUserLoggedIn 2, AEUserLoggedIn 3]"
  using posthog_in_order [of 2 "[AEUserLoggedIn 1, AEUserLoggedIn 2, AEUserLoggedIn 3]" "\<lparr>ph_queue = [], ph_calls = []\<rparr>"]
  by (simp add: captured_def)

end
