(* ===== verification/Cloud_Account_Router.thy ===== *)
theory Cloud_Account_Router
  imports Cloud_Account_Service Workspace_Access Gcp_Credentials Azure_Credentials "HOL-Library.Multiset"
begin

section \<open>The API of cloud accounts\<close>

text \<open>
  \<open>cloud_accounts_router\<close> and \<open>cloud_accounts_callback_router\<close> of \<open>cloud_accounts/router.py\<close> with their schemas
  (\<open>cloud_accounts/schemas.py\<close>). A handler of a workspace gets it through the dependency of \<open>workspaces/dependencies.py\<close>;
  the permission of the handler is checked after that. The callback of Azure has no user: it trusts the signed
  state. The signing of tokens and the APIs of the clouds are parameters. Streaming the log of a scan is not modelled.
\<close>

subsection \<open>The schemas\<close>

record cloud_account_read =
  cr_id :: uuid
  cr_cloud :: string
  cr_account_id :: string
  cr_enabled :: bool
  cr_scan :: bool
  cr_is_configured :: bool
  cr_resources :: int
  cr_next_scan :: "datetime option"
  cr_user_account_name :: "string option"
  cr_api_account_alias :: "string option"
  cr_api_account_name :: "string option"
  cr_state :: string
  cr_privileged :: bool
  cr_last_scan_started_at :: "datetime option"
  cr_last_scan_finished_at :: "datetime option"
  cr_cf_stack_version :: "int option"
  cr_errors :: int

text \<open>The schema refuses a name of more than 64 characters.\<close>

definition short_name :: "string option \<Rightarrow> bool" where
  "short_name n = (case n of None \<Rightarrow> True | Some s \<Rightarrow> length s \<le> 64)"

definition fits_schema :: "account \<Rightarrow> bool" where
  "fits_schema a \<longleftrightarrow> short_name (ca_user_account_name a) \<and> short_name (ca_account_alias a) \<and> short_name (ca_account_name a)"

definition read_of :: "account \<Rightarrow> cloud_account_read" where
  "read_of a =
     (let (is_enabled, scan, is_configured) = (case ca_state a of
            Configured access e s \<Rightarrow> (e, s, True) | Degraded access e s err \<Rightarrow> (e, s, False) | _ \<Rightarrow> (False, False, False)) in
      \<lparr>cr_id = ca_id a, cr_cloud = ca_cloud a, cr_account_id = ca_account_id a, cr_enabled = is_enabled, cr_scan = scan,
       cr_is_configured = is_configured, cr_resources = ca_last_scan_resources_scanned a, cr_next_scan = ca_next_scan a,
       cr_user_account_name = ca_user_account_name a, cr_api_account_alias = ca_account_alias a,
       cr_api_account_name = ca_account_name a, cr_state = state_name (ca_state a), cr_privileged = ca_privileged a,
       cr_last_scan_started_at = ca_last_scan_started_at a,
       cr_last_scan_finished_at = map_option (\<lambda>t. t + td_seconds (ca_last_scan_duration_seconds a)) (ca_last_scan_started_at a),
       cr_cf_stack_version = ca_cf_stack_version a, cr_errors = ca_last_scan_resources_errors a\<rparr>)"

definition account_read :: "account \<Rightarrow> exn + cloud_account_read" where
  "account_read a = (if fits_schema a then Inr (read_of a) else Inl ValueError)"

record cloud_account_list =
  cl_recent :: "cloud_account_read list"
  cl_added :: "cloud_account_read list"
  cl_discovered :: "cloud_account_read list"

record scanned_account =
  sa_account_id :: string
  sa_resource_scanned :: int
  sa_duration :: int
  sa_started_at :: datetime

record last_scan_info =
  ls_workspace_id :: uuid
  ls_accounts :: "scanned_account list"
  ls_next_scan :: "datetime option"

text \<open>The keys as the API shows them, without their secret.\<close>

record gcp_key_read =
  gr_id :: uuid
  gr_workspace_id :: uuid
  gr_can_access_sa :: "bool option"
  gr_created_at :: datetime
  gr_error :: "string option"

definition gcp_key_read_of :: "gcp_key_row \<Rightarrow> gcp_key_read" where
  "gcp_key_read_of k = \<lparr>gr_id = gk_id k, gr_workspace_id = gk_tenant_id k, gr_can_access_sa = gk_can_access_sa k,
     gr_created_at = gk_created_at k, gr_error = gk_error k\<rparr>"

record azure_credentials_read =
  ar_id :: uuid
  ar_workspace_id :: uuid
  ar_can_access :: "bool option"
  ar_created_at :: datetime
  ar_azure_tenant_id :: string
  ar_client_id :: string

definition azure_credentials_read_of :: "azure_credential_row \<Rightarrow> azure_credentials_read" where
  "azure_credentials_read_of c = \<lparr>ar_id = az_id c, ar_workspace_id = az_tenant_id c, ar_can_access = az_can_access c,
     ar_created_at = az_created_at c, ar_azure_tenant_id = az_azure_tenant_id c, ar_client_id = az_client_id c\<rparr>"

subsection \<open>The handlers of a workspace\<close>

definition changing_accounts :: "user \<Rightarrow> uuid \<Rightarrow> (workspace \<Rightarrow> 'a io) \<Rightarrow> 'a io" where
  "changing_accounts u ws handler = permitted ''update_cloud_accounts'' u ws handler"

definition api_get_cloud_account :: "user \<Rightarrow> uuid \<Rightarrow> uuid \<Rightarrow> cloud_account_read io" where
  "api_get_cloud_account u ws i =
     in_workspace u ws (\<lambda>m. bind (get_cloud_account i (ws_id m)) (\<lambda>a. lift (account_read a)))"

fun sort_into_lists :: "datetime \<Rightarrow> account list \<Rightarrow> cloud_account_list \<Rightarrow> exn + cloud_account_list" where
  "sort_into_lists last24hours [] l = Inr l"
| "sort_into_lists last24hours (a # as) l =
     (case account_read a of Inl e \<Rightarrow> Inl e
      | Inr r \<Rightarrow> sort_into_lists last24hours as
          (if ca_state a = Detected then l\<lparr>cl_discovered := cl_discovered l @ [r]\<rparr>
           else if last24hours < ca_created_at a then l\<lparr>cl_recent := cl_recent l @ [r]\<rparr>
           else l\<lparr>cl_added := cl_added l @ [r]\<rparr>))"

definition no_lists :: cloud_account_list where
  "no_lists = \<lparr>cl_recent = [], cl_added = [], cl_discovered = []\<rparr>"

definition api_list_cloud_accounts :: "user \<Rightarrow> uuid \<Rightarrow> cloud_account_list io" where
  "api_list_cloud_accounts u ws =
     in_workspace u ws (\<lambda>m.
     bind (list_accounts (ws_id m)) (\<lambda>cloud_accounts.
     bind utc (\<lambda>now.
     lift (sort_into_lists (now - td_days 1) (sort_key (\<lambda>a. - ca_created_at a) cloud_accounts) no_lists))))"

definition api_update_cloud_account :: "user \<Rightarrow> uuid \<Rightarrow> uuid \<Rightarrow> string option \<Rightarrow> cloud_account_read io" where
  "api_update_cloud_account u ws i name =
     changing_accounts u ws (\<lambda>m.
     if short_name name then bind (update_cloud_account_name (ws_id m) i name) (\<lambda>a. lift (account_read a))
     else raise (HTTPException 422 ''name''))"

definition api_delete_cloud_account :: "user \<Rightarrow> uuid \<Rightarrow> uuid \<Rightarrow> unit io" where
  "api_delete_cloud_account u ws i = changing_accounts u ws (\<lambda>m. delete_cloud_account (u_id u) i (ws_id m))"

definition api_enable_cloud_account :: "user \<Rightarrow> uuid \<Rightarrow> uuid \<Rightarrow> cloud_account_read io" where
  "api_enable_cloud_account u ws i =
     changing_accounts u ws (\<lambda>m. bind (update_cloud_account_enabled (ws_id m) i True) (\<lambda>a. lift (account_read a)))"

definition api_disable_cloud_account :: "user \<Rightarrow> uuid \<Rightarrow> uuid \<Rightarrow> cloud_account_read io" where
  "api_disable_cloud_account u ws i =
     changing_accounts u ws (\<lambda>m. bind (update_cloud_account_enabled (ws_id m) i False) (\<lambda>a. lift (account_read a)))"

definition api_enable_cloud_account_scan :: "user \<Rightarrow> uuid \<Rightarrow> uuid \<Rightarrow> cloud_account_read io" where
  "api_enable_cloud_account_scan u ws i =
     changing_accounts u ws (\<lambda>m. bind (update_cloud_account_scan_enabled (ws_id m) i True) (\<lambda>a. lift (account_read a)))"

definition api_disable_cloud_account_scan :: "user \<Rightarrow> uuid \<Rightarrow> uuid \<Rightarrow> cloud_account_read io" where
  "api_disable_cloud_account_scan u ws i =
     changing_accounts u ws (\<lambda>m. bind (update_cloud_account_scan_enabled (ws_id m) i False) (\<lambda>a. lift (account_read a)))"

definition last_scan :: "user \<Rightarrow> uuid \<Rightarrow> last_scan_info io" where
  "last_scan u ws =
     in_workspace u ws (\<lambda>m.
     bind (list_accounts (ws_id m)) (\<lambda>as.
     ret (case as of
        [] \<Rightarrow> \<lparr>ls_workspace_id = ws_id m, ls_accounts = [], ls_next_scan = None\<rparr>
      | first # _ \<Rightarrow> \<lparr>ls_workspace_id = ws_id m,
          ls_accounts = concat (map (\<lambda>a. case ca_last_scan_started_at a of None \<Rightarrow> []
            | Some t \<Rightarrow> [\<lparr>sa_account_id = ca_account_id a, sa_resource_scanned = ca_last_scan_resources_scanned a,
                 sa_duration = ca_last_scan_duration_seconds a, sa_started_at = t\<rparr>]) as),
          ls_next_scan = ca_next_scan first\<rparr>)))"

text \<open>The upload is None when its bytes are not UTF-8 or the text is not JSON.\<close>

definition add_gcp_service_account_key :: "gcp_api \<Rightarrow> user \<Rightarrow> uuid \<Rightarrow> string option \<Rightarrow> unit io" where
  "add_gcp_service_account_key gcp u ws upload =
     changing_accounts u ws (\<lambda>m.
     case upload of None \<Rightarrow> raise (HTTPException 400 ''invalid_json'')
     | Some string_key \<Rightarrow>
         (case list_projects gcp string_key of
            Inl MalformedError \<Rightarrow> raise (HTTPException 400 ''invalid_json'')
          | Inl (HttpError reason) \<Rightarrow> raise (HTTPException 422 reason)
          | Inl (OtherError e) \<Rightarrow> raise (HTTPException 422 e)
          | Inr projects \<Rightarrow> bind (gcp_upsert (ws_id m) string_key) (\<lambda>_. ret ())))"

definition get_gcp_service_account_keys :: "user \<Rightarrow> uuid \<Rightarrow> gcp_key_read io" where
  "get_gcp_service_account_keys u ws =
     in_workspace u ws (\<lambda>m.
     bind (gcp_get_by_tenant (ws_id m)) (\<lambda>key.
     case key of None \<Rightarrow> raise (HTTPException 404 ''no_key_found'') | Some k \<Rightarrow> ret (gcp_key_read_of k)))"

definition add_azure_subscription_credentials ::
  "subscriptions_api \<Rightarrow> user \<Rightarrow> uuid \<Rightarrow> string \<Rightarrow> string \<Rightarrow> string \<Rightarrow> unit io" where
  "add_azure_subscription_credentials azure u ws azure_tenant_id client_id client_secret =
     changing_accounts u ws (\<lambda>m.
     case list_subscriptions azure azure_tenant_id client_id client_secret of
       None \<Rightarrow> raise (HTTPException 422 ''invalid_credentials'')
     | Some infos \<Rightarrow> bind (azure_upsert (ws_id m) azure_tenant_id client_id client_secret) (\<lambda>_. ret ()))"

definition get_azure_credentials :: "user \<Rightarrow> uuid \<Rightarrow> azure_credentials_read io" where
  "get_azure_credentials u ws =
     in_workspace u ws (\<lambda>m.
     bind (azure_get_by_tenant (ws_id m)) (\<lambda>creds.
     case creds of None \<Rightarrow> raise (HTTPException 404 ''no_credentials_found'') | Some c \<Rightarrow> ret (azure_credentials_read_of c)))"

subsection \<open>The consent of an Azure administrator\<close>

datatype azure_step = Admin_consent | Get_management_credentials | Unknown_step

record azure_state =
  st_workspace_id :: "uuid option"
  st_step :: azure_step
  st_azure_tenant_id :: "string option"

record azure_codec =
  ac_encode :: "azure_state \<Rightarrow> string"
  ac_decode :: "string \<Rightarrow> azure_state option"

datatype azure_redirect = To_ui | To_consent string | To_login string

definition consent_state :: "uuid \<Rightarrow> azure_state" where
  "consent_state ws = \<lparr>st_workspace_id = Some ws, st_step = Admin_consent, st_azure_tenant_id = None\<rparr>"

definition login_state :: "string option \<Rightarrow> azure_state \<Rightarrow> azure_state" where
  "login_state tenant payload = payload\<lparr>st_step := Get_management_credentials, st_azure_tenant_id := tenant\<rparr>"

definition azure_admin_consent :: "azure_codec \<Rightarrow> user \<Rightarrow> uuid \<Rightarrow> azure_redirect io" where
  "azure_admin_consent codec u ws =
     in_workspace u ws (\<lambda>m. ret (To_consent (ac_encode codec (consent_state (ws_id m)))))"

text \<open>The redirect for a missing tenant lacks its return: the handler goes on without a tenant.\<close>

definition azure_oauth_callback ::
  "azure_codec \<Rightarrow> (string \<Rightarrow> azure_mgmt) \<Rightarrow> string \<Rightarrow> string option \<Rightarrow> string option \<Rightarrow> azure_redirect io" where
  "azure_oauth_callback codec management state tenant code =
     (case ac_decode codec state of None \<Rightarrow> ret To_ui
      | Some payload \<Rightarrow>
          (case st_workspace_id payload of None \<Rightarrow> ret To_ui
           | Some ws \<Rightarrow>
               (case st_step payload of
                  Admin_consent \<Rightarrow>
                    ret (To_login (ac_encode codec (login_state tenant payload)))
                | Get_management_credentials \<Rightarrow>
                    (case (code, st_azure_tenant_id payload) of
                       (Some c, Some azure_tenant_id) \<Rightarrow>
                         bind (create_user_app_registration (management c) ws azure_tenant_id) (\<lambda>_. ret To_ui)
                     | _ \<Rightarrow> ret To_ui)
                | Unknown_step \<Rightarrow> ret To_ui)))"

definition aws_cloudformation_callback :: "uuid \<Rightarrow> string \<Rightarrow> string \<Rightarrow> uuid \<Rightarrow> unit io" where
  "aws_cloudformation_callback workspace_id account_id role_name external_id =
     bind (create_aws_account workspace_id account_id (Some role_name) external_id None) (\<lambda>_. ret ())"

subsection \<open>Who may change the accounts of a workspace\<close>

text \<open>
  C25: The eight handlers that rename, delete, enable or disable an account of a workspace, switch its scan on or off, or store
  a service account key of GCP or credentials of Azure for it, ask for the permission to update cloud accounts:
  for a user without it each of them raises and changes nothing. These are not the only ways to change an account: the
  two callbacks know no user and ask for no permission. The callback of the CloudFormation stack creates or configures the
  account of any workspace it names, as \<open>create_aws_account\<close> does, and the one of the Azure consent stores credentials (see below).
\<close>

theorem account_api_guarded:
  assumes denied: "check_permission (perm ''update_cloud_accounts'') u ws = Inl e"
  shows "(\<exists>e'. api_update_cloud_account u ws i name w = (Inl e', w) \<and> api_delete_cloud_account u ws i w = (Inl e', w) \<and>
    api_enable_cloud_account u ws i w = (Inl e', w) \<and> api_disable_cloud_account u ws i w = (Inl e', w) \<and>
    api_enable_cloud_account_scan u ws i w = (Inl e', w) \<and> api_disable_cloud_account_scan u ws i w = (Inl e', w) \<and>
    add_gcp_service_account_key gcp u ws upload w = (Inl e', w) \<and>
    add_azure_subscription_credentials azure u ws t c s w = (Inl e', w)) \<and>
   snd (aws_cloudformation_callback ws account_id role_name external_id w) =
     snd (create_aws_account ws account_id (Some role_name) external_id None w)"
proof -
  have "snd (aws_cloudformation_callback ws account_id role_name external_id w) =
     snd (create_aws_account ws account_id (Some role_name) external_id None w)"
    by (simp add: aws_cloudformation_callback_def bind_def split: prod.split sum.split)
  then show ?thesis
    unfolding api_update_cloud_account_def api_delete_cloud_account_def api_enable_cloud_account_def api_disable_cloud_account_def
      api_enable_cloud_account_scan_def api_disable_cloud_account_scan_def add_gcp_service_account_key_def
      add_azure_subscription_credentials_def changing_accounts_def permitted_denied [OF denied]
    by simp
qed

text \<open>
  The consent of Azure goes around this permission: a member without it gets a signed state, an administrator of
  any Azure tenant consents, and the callback, which knows no user, registers the application and stores its
  credentials for the workspace as \<open>create_user_app_registration\<close> does.
\<close>

theorem member_registers_azure:
  assumes access: "user_workspace ws (Some u) w = (Inr m, w)" "ws_id m = ws"
    and codec: "\<And>p. p \<in> {consent_state ws, login_state (Some tenant) (consent_state ws)} \<Longrightarrow> ac_decode codec (ac_encode codec p) = Some p"
    and denied: "check_permission (perm ''update_cloud_accounts'') u ws = Inl e"
  shows "\<exists>consent login. azure_admin_consent codec u ws w = (Inr (To_consent consent), w) \<and>
    azure_oauth_callback codec management consent (Some tenant) None w = (Inr (To_login login), w) \<and>
    snd (azure_oauth_callback codec management login None (Some code) w) =
      snd (create_user_app_registration (management code) ws tenant w) \<and>
    (\<exists>e'. add_azure_subscription_credentials azure u ws t c s w = (Inl e', w))"
proof -
  let ?p = "consent_state ws" and ?q = "login_state (Some tenant) (consent_state ws)"
  have "azure_admin_consent codec u ws w = (Inr (To_consent (ac_encode codec ?p)), w)"
    by (simp add: azure_admin_consent_def in_workspace_def access)
  moreover have "azure_oauth_callback codec management (ac_encode codec ?p) (Some tenant) None w = (Inr (To_login (ac_encode codec ?q)), w)"
    using codec [of ?p] by (simp add: azure_oauth_callback_def) (simp add: consent_state_def)
  moreover have "st_workspace_id ?q = Some ws" "st_step ?q = Get_management_credentials" "st_azure_tenant_id ?q = Some tenant"
    by (simp_all add: consent_state_def login_state_def)
  then have "snd (azure_oauth_callback codec management (ac_encode codec ?q) None (Some code) w) =
      snd (create_user_app_registration (management code) ws tenant w)"
    using codec [of ?q] by (simp add: azure_oauth_callback_def bind_def split: prod.split sum.split)
  moreover have "\<exists>e'. add_azure_subscription_credentials azure u ws t c s w = (Inl e', w)"
    unfolding add_azure_subscription_credentials_def changing_accounts_def permitted_denied [OF denied] by simp
  ultimately show ?thesis by blast
qed

subsection \<open>The lists of accounts\<close>

lemma sort_into_lists_run:
  "list_all fits_schema as \<Longrightarrow> sort_into_lists t as l = Inr
     \<lparr>cl_recent = cl_recent l @ map read_of (filter (\<lambda>a. ca_state a \<noteq> Detected \<and> t < ca_created_at a) as),
      cl_added = cl_added l @ map read_of (filter (\<lambda>a. ca_state a \<noteq> Detected \<and> ca_created_at a \<le> t) as),
      cl_discovered = cl_discovered l @ map read_of (filter (\<lambda>a. ca_state a = Detected) as)\<rparr>"
  by (induction as arbitrary: l) (auto simp: account_read_def)

lemma sort_into_lists_fails: "\<not> list_all fits_schema as \<Longrightarrow> sort_into_lists t as l = Inl ValueError"
  by (induction as arbitrary: l) (auto simp: account_read_def)

text \<open>
  The list of accounts shows every account that is not deleted once: the detected ones, those created within
  the last day, and the others, each part with the newest account first. If one account has a name of more than 64
  characters the whole list fails.
\<close>

theorem account_lists:
  assumes access: "user_workspace ws (Some u) w = (Inr m, w)" and listed: "list_accounts (ws_id m) w = (Inr as, w)"
  shows "if list_all fits_schema as
    then \<exists>l. api_list_cloud_accounts u ws w = (Inr l, w) \<and>
      mset (cl_recent l) + mset (cl_added l) + mset (cl_discovered l) = image_mset read_of (mset as) \<and>
      cl_recent l = map read_of (filter (\<lambda>a. ca_state a \<noteq> Detected \<and> clock w - td_days 1 < ca_created_at a) (sort_key (\<lambda>a. - ca_created_at a) as)) \<and>
      cl_discovered l = map read_of (filter (\<lambda>a. ca_state a = Detected) (sort_key (\<lambda>a. - ca_created_at a) as))
    else api_list_cloud_accounts u ws w = (Inl ValueError, w)"
proof -
  let ?as = "sort_key (\<lambda>a. - ca_created_at a) as" and ?t = "clock w - td_days 1"
  have run: "api_list_cloud_accounts u ws w = (sort_into_lists ?t ?as no_lists, w)"
    by (simp add: api_list_cloud_accounts_def in_workspace_def access listed)
  have same: "list_all fits_schema ?as \<longleftrightarrow> list_all fits_schema as" by (simp add: list_all_iff)
  show ?thesis
  proof (cases "list_all fits_schema as")
    case True
    define l where "l = \<lparr>cl_recent = map read_of (filter (\<lambda>a. ca_state a \<noteq> Detected \<and> ?t < ca_created_at a) ?as),
      cl_added = map read_of (filter (\<lambda>a. ca_state a \<noteq> Detected \<and> ca_created_at a \<le> ?t) ?as),
      cl_discovered = map read_of (filter (\<lambda>a. ca_state a = Detected) ?as)\<rparr>"
    have "mset (filter (\<lambda>a. ca_state a \<noteq> Detected \<and> ?t < ca_created_at a) xs) +
        mset (filter (\<lambda>a. ca_state a \<noteq> Detected \<and> ca_created_at a \<le> ?t) xs) + mset (filter (\<lambda>a. ca_state a = Detected) xs) = mset xs" for xs
      by (induction xs) auto
    from arg_cong [OF this, of "image_mset read_of" ?as]
    have "mset (cl_recent l) + mset (cl_added l) + mset (cl_discovered l) = image_mset read_of (mset as)"
      by (simp add: l_def)
    moreover have "api_list_cloud_accounts u ws w = (Inr l, w)"
      using sort_into_lists_run [of ?as ?t no_lists] True same run by (simp add: l_def no_lists_def)
    ultimately show ?thesis using True by (auto simp: l_def)
  next
    case False
    then have "sort_into_lists ?t ?as no_lists = Inl ValueError" using same sort_into_lists_fails by blast
    then show ?thesis using False run by simp
  qed
qed

subsection \<open>A concrete member\<close>

definition viewer :: user where
  "viewer = \<lparr>u_id = 2, u_email = ''v'', hashed_password = [], is_active = True, is_superuser = False, is_verified = True,
     is_mfa_active = False, otp_secret = None,
     u_roles = [\<lparr>ur_user_id = 2, ur_workspace_id = 7, role_names = workspace_member\<rparr>], u_created_at = 0, auth_min_time = None\<rparr>"

definition viewer_world :: world where
  "viewer_world = (empty_world 5 50)\<lparr>orgs := [sample_org], members := [(7, 2)]\<rparr>"

lemma viewer_denied:
  "check_permission (perm ''update_cloud_accounts'') viewer 7 = Inl (HTTPException 403 ''Missing permission update_cloud_accounts'')"
  by code_simp

lemma viewer_access: "\<exists>m. user_workspace 7 (Some viewer) viewer_world = (Inr m, viewer_world) \<and> ws_id m = 7"
proof -
  have "\<exists>m. get_workspace 7 viewer_world = (Inr (Some m), viewer_world) \<and> ws_id m = 7 \<and> ws_owner_id m = 1 \<and>
      ws_members m = [2] \<and> ws_payment_on_hold_since m = None"
    by (simp add: viewer_world_def get_workspace_run empty_world_def sample_org_def org_to_model_def tier_from_str_def members_of_def)
  then obtain m where "get_workspace 7 viewer_world = (Inr (Some m), viewer_world)" "ws_id m = 7" "ws_owner_id m = 1"
      "ws_members m = [2]" "ws_payment_on_hold_since m = None" by blast
  then show ?thesis
    by (simp add: user_workspace_def get_optional_user_workspace_def get_user_workspace_def paid_tier_access_iff viewer_def all_users_set)
qed

lemma account_api_guarded_witness:
  "\<exists>e. api_delete_cloud_account viewer 7 1 viewer_world = (Inl e, viewer_world)"
  using account_api_guarded [OF viewer_denied, of 1 None viewer_world] by blast

definition sample_azure_codec :: azure_codec where
  "sample_azure_codec = \<lparr>ac_encode = \<lambda>p. if st_step p = Admin_consent then ''c'' else ''l'',
     ac_decode = \<lambda>s. Some (if s = ''c'' then consent_state 7 else login_state (Some ''t'') (consent_state 7))\<rparr>"

lemma member_registers_azure_witness:
  "\<exists>consent login. azure_admin_consent sample_azure_codec viewer 7 viewer_world = (Inr (To_consent consent), viewer_world) \<and>
    azure_oauth_callback sample_azure_codec (\<lambda>_. sample_mgmt) consent (Some ''t'') None viewer_world = (Inr (To_login login), viewer_world) \<and>
    snd (azure_oauth_callback sample_azure_codec (\<lambda>_. sample_mgmt) login None (Some ''x'') viewer_world) =
      snd (create_user_app_registration sample_mgmt 7 ''t'' viewer_world)"
proof -
  obtain m where m: "user_workspace 7 (Some viewer) viewer_world = (Inr m, viewer_world)" "ws_id m = 7" using viewer_access by blast
  have codec: "ac_decode sample_azure_codec (ac_encode sample_azure_codec p) = Some p"
    if "p \<in> {consent_state 7, login_state (Some ''t'') (consent_state 7)}" for p
    using that by (auto simp: sample_azure_codec_def consent_state_def login_state_def)
  show ?thesis using member_registers_azure [OF m codec viewer_denied, where management = "\<lambda>_. sample_mgmt" and code = "''x''"] by blast
qed

lemma account_lists_witness:
  "\<exists>l. api_list_cloud_accounts viewer 7 viewer_world = (Inr l, viewer_world) \<and> cl_recent l = []"
proof -
  obtain m where m: "user_workspace 7 (Some viewer) viewer_world = (Inr m, viewer_world)" "ws_id m = 7" using viewer_access by blast
  have "list_accounts (ws_id m) viewer_world = (Inr [], viewer_world)"
    by (simp add: list_accounts_def list_by_workspace_id_def viewer_world_def empty_world_def)
  from account_lists [OF m(1) this] show ?thesis by auto
qed

end
