(* ===== verification/Billing_Router.thy ===== *)
theory Billing_Router
  imports Aws_Marketplace Stripe_Service Workspace_Access
begin

section \<open>The API of billing and subscriptions\<close>

text \<open>
  \<open>billing_info_router\<close> of \<open>billing/router.py\<close> with the schemas of \<open>billing/schemas.py\<close>, and \<open>subscription_router\<close> of
  \<open>subscription/router.py\<close>. Requests are modelled after their body was parsed; the verification of a Stripe
  signature is a parameter. Cookies and the addresses of redirects are values of \<open>subscription_reply\<close>.
\<close>

subsection \<open>The schemas\<close>

datatype product_tier_read = Trial_read | Free_read | Plus_read | Business_read | Enterprise_read

fun to_tier :: "product_tier_read \<Rightarrow> product_tier" where
  "to_tier Trial_read = Trial"
| "to_tier Free_read = Free"
| "to_tier Plus_read = Plus"
| "to_tier Business_read = Business"
| "to_tier Enterprise_read = Enterprise"

fun from_tier :: "product_tier \<Rightarrow> product_tier_read" where
  "from_tier Trial = Trial_read"
| "from_tier Free = Free_read"
| "from_tier Plus = Plus_read"
| "from_tier Business = Business_read"
| "from_tier Enterprise = Enterprise_read"

lemma to_tier_from_tier [simp]: "to_tier (from_tier t) = t"
  by (cases t) simp_all

lemma from_tier_to_tier [simp]: "from_tier (to_tier t) = t"
  by (cases t) simp_all

record billing_entry_read =
  br_id :: uuid
  br_workspace_id :: uuid
  br_subscription_id :: uuid
  br_tier :: product_tier_read
  br_period_start :: datetime
  br_period_end :: datetime
  br_nr_of_accounts_charged :: int

definition billing_entry_read_of :: "billing_entry \<Rightarrow> billing_entry_read" where
  "billing_entry_read_of e =
     \<lparr>br_id = be_id e, br_workspace_id = be_workspace_id e, br_subscription_id = be_subscription_id e,
      br_tier = from_tier (be_tier e), br_period_start = be_period_start e, br_period_end = be_period_end e,
      br_nr_of_accounts_charged = be_nr_of_accounts_charged e\<rparr>"

datatype payment_method_read =
    Aws_subscription uuid
  | Stripe_subscription uuid
  | No_payment_method

fun payment :: "payment_method \<Rightarrow> payment_method_read" where
  "payment (AwsPayment subscription_id) = Aws_subscription subscription_id"
| "payment (StripePayment subscription_id) = Stripe_subscription subscription_id"
| "payment NoPaymentMethod = No_payment_method"

fun payment_method_from :: "payment_method_read \<Rightarrow> payment_method" where
  "payment_method_from No_payment_method = NoPaymentMethod"
| "payment_method_from (Stripe_subscription subscription_id) = StripePayment subscription_id"
| "payment_method_from (Aws_subscription subscription_id) = AwsPayment subscription_id"

record billing_settings_read =
  bs_payment_method :: payment_method_read
  bs_available :: "payment_method_read list"
  bs_product_tier :: product_tier_read
  bs_selected_product_tier :: product_tier_read

definition billing_settings_read_of ::
  "datetime \<Rightarrow> workspace \<Rightarrow> workspace_payment_methods \<Rightarrow> billing_settings_read" where
  "billing_settings_read_of now ws methods =
     \<lparr>bs_payment_method = payment (pm_current methods), bs_available = map payment (pm_available methods),
      bs_product_tier = from_tier (current_product_tier now ws),
      bs_selected_product_tier = from_tier (ws_selected_product_tier ws)\<rparr>"

record billing_settings_update =
  bu_payment_method :: "payment_method_read option"
  bu_product_tier :: "product_tier_read option"

subsection \<open>Billing\<close>

definition list_billing_entries :: "user \<Rightarrow> uuid \<Rightarrow> billing_entry_read list io" where
  "list_billing_entries u ws =
     permitted ''read_billing'' u ws (\<lambda>m.
     bind (list_billing_info (ws_id m)) (\<lambda>entries. ret (map billing_entry_read_of entries)))"

definition get_billing :: "user \<Rightarrow> uuid \<Rightarrow> billing_settings_read io" where
  "get_billing u ws =
     permitted ''read_billing'' u ws (\<lambda>m.
     bind (get_payment_methods m (Some (u_id u))) (\<lambda>methods.
     bind utc (\<lambda>now. ret (billing_settings_read_of now m methods))))"

text \<open>The payment methods of the answer are those of the workspace as it was before the change.\<close>

definition api_update_billing :: "user \<Rightarrow> uuid \<Rightarrow> billing_settings_update \<Rightarrow> billing_settings_read io" where
  "api_update_billing u ws billing =
     permitted ''update_billing'' u ws (\<lambda>workspace.
     bind (update_billing (Some (u_id u)) workspace (map_option to_tier (bu_product_tier billing))
       (map_option payment_method_from (bu_payment_method billing))) (\<lambda>updated.
     bind (get_payment_methods workspace (Some (u_id u))) (\<lambda>methods.
     bind utc (\<lambda>now. ret (billing_settings_read_of now updated methods)))))"

definition assign_subscription :: "user \<Rightarrow> uuid \<Rightarrow> uuid \<Rightarrow> unit io" where
  "assign_subscription u ws subscription_id =
     permitted ''update_billing'' u ws (\<lambda>m.
     bind (user_has_subscription (u_id u) subscription_id) (\<lambda>has.
     if \<not> has then raise ResourceNotFound
     else bind (update_subscription (ws_id m) (Some subscription_id)) (\<lambda>_. ret ())))"

definition get_product_tiers :: "(product_tier \<times> tier_setting) list" where
  "get_product_tiers = map (\<lambda>t. (t, product_tier_settings t)) [Free, Trial, Plus, Business, Enterprise]"

subsection \<open>Subscriptions\<close>

datatype subscription_reply =
    Set_token_cookie string
      \<comment> \<open>303 to the page that adds the subscription\<close>
  | To_login_page
  | Choose_workspace uuid
  | Aws_subscribed
  | See_other string
  | To_stripe string
  | Stripe_subscribed
  | Billing_receipts
  | Stripe_success
  | Stripe_failure exn

definition aws_marketplace_fulfillment :: "string \<Rightarrow> subscription_reply io" where
  "aws_marketplace_fulfillment token = ret (Set_token_cookie token)"

definition aws_marketplace_fulfillment_after_login ::
  "marketplace_api \<Rightarrow> billing_period \<Rightarrow> user option \<Rightarrow> string option \<Rightarrow> subscription_reply io" where
  "aws_marketplace_fulfillment_after_login mp period maybe_user token =
     (case (maybe_user, token) of
        (None, _) \<Rightarrow> ret To_login_page
      | (Some u, Some t) \<Rightarrow>
          bind (subscribed mp period u t) (\<lambda>result.
          case result of (subscription, workspace_assigned) \<Rightarrow>
            ret (if workspace_assigned then Aws_subscribed else Choose_workspace (sub_id subscription)))
      | (Some u, None) \<Rightarrow> raise ValueError)"

text \<open>Nobody needs to be logged in for this one.\<close>

definition redirect_to_aws_marketplace_product :: "string \<Rightarrow> uuid \<Rightarrow> product_tier_read option \<Rightarrow> subscription_reply io" where
  "redirect_to_aws_marketplace_product aws_marketplace_url workspace_id product_tier =
     bind (case product_tier of None \<Rightarrow> ret () | Some t \<Rightarrow> aws_tier_preference_create workspace_id (to_tier t)) (\<lambda>_.
     ret (See_other aws_marketplace_url))"

definition api_redirect_to_stripe :: "stripe_api \<Rightarrow> user \<Rightarrow> uuid \<Rightarrow> product_tier_read option \<Rightarrow> subscription_reply io" where
  "api_redirect_to_stripe st u ws product_tier =
     in_workspace u ws (\<lambda>m.
     bind (lift (check_permission workspace_billing_admin_permissions u ws)) (\<lambda>_.
     bind (redirect_to_stripe st m (map_option to_tier product_tier)) (\<lambda>url. ret (To_stripe url))))"

definition back_from_stripe :: "user \<Rightarrow> bool option \<Rightarrow> subscription_reply io" where
  "back_from_stripe u success = ret (if success = Some True then Stripe_subscribed else Billing_receipts)"

definition stripe_callback ::
  "stripe_api \<Rightarrow> billing_period \<Rightarrow> (string \<Rightarrow> string \<Rightarrow> exn + stripe_event) \<Rightarrow> string option \<Rightarrow> string \<Rightarrow> subscription_reply io" where
  "stripe_callback st period verify signature body =
     (case signature of None \<Rightarrow> raise AssertionError
      | Some s \<Rightarrow>
          catch (bind (lift (verify body s)) (\<lambda>event. seq (handle_verified_event st period event) (ret Stripe_success)))
            (\<lambda>e. ret (Stripe_failure e)))"

subsection \<open>Who may change the billing\<close>

text \<open>
  Without the permission to update the billing a user changes neither the tier nor the subscription of a workspace
  through these handlers.
\<close>

theorem billing_api_guarded:
  assumes denied: "check_permission (perm ''update_billing'') u ws = Inl e"
  shows "\<exists>e'. api_update_billing u ws billing w = (Inl e', w) \<and> assign_subscription u ws sid w = (Inl e', w)"
  by (simp add: api_update_billing_def assign_subscription_def permitted_denied [OF denied])

lemma get_payment_methods_frame:
  assumes "subscription_rows w' = subscription_rows w" and "clock w' = clock w"
  shows "fst (get_payment_methods m u w') = fst (get_payment_methods m u w)"
proof -
  let ?f = "no_filter\<lparr>f_user_id := u, f_active := Some True\<rparr>"
    and ?g = "no_filter\<lparr>f_stripe_workspace_id := Some (ws_id m), f_active := Some True\<rparr>"
  have s: "\<exists>r. subscriptions f w = (r, w) \<and> subscriptions f w' = (r, w')" for f
    by (simp add: subscriptions_def assms)
  have c: "\<exists>r. get_current_subscription m w = (r, w) \<and> get_current_subscription m w' = (r, w')"
  proof (cases "ws_subscription_id m")
    case (Some i)
    have "\<exists>r. get_subscription i w = (r, w) \<and> get_subscription i w' = (r, w')"
      by (simp add: get_subscription_def assms)
    then obtain r where "get_subscription i w = (r, w)" "get_subscription i w' = (r, w')" by blast
    then show ?thesis using Some by (cases r) (simp_all add: get_current_subscription_def split: option.splits)
  qed (simp add: get_current_subscription_def)
  obtain a b d where "get_current_subscription m w = (a, w)" "get_current_subscription m w' = (a, w')"
    "subscriptions ?f w = (b, w)" "subscriptions ?f w' = (b, w')" "subscriptions ?g w = (d, w)" "subscriptions ?g w' = (d, w')"
    using c s [of ?f] s [of ?g] by blast
  then show ?thesis
    by (cases a; cases b; cases d) (simp_all add: get_payment_methods_def Let_def assms(2))
qed

text \<open>
  The answer to a change of the payment method is out of date: the new subscription is stored, but the
  answer still shows the method that was replaced, because it is computed from the workspace as it was before.
\<close>

theorem billing_answer_stale:
  assumes access: "user_workspace ws (Some u) w = (Inr m, w)" and granted: "check_permission (perm ''update_billing'') u ws = Inr True"
    and before: "get_payment_methods m (Some (u_id u)) w = (Inr ms, w)"
    and new: "p \<in> {Aws_subscription sid, Stripe_subscription sid}"
      "payment_method_from p \<in> set (pm_available ms)" "payment_method_from p \<noteq> pm_current ms"
  shows "\<exists>answer w' r. api_update_billing u ws \<lparr>bu_payment_method = Some p, bu_product_tier = None\<rparr> w = (Inr answer, w') \<and>
    tfind o_id ws (orgs w') = Some r \<and> o_subscription_id r = Some sid \<and>
    bs_payment_method answer = payment (pm_current ms) \<and> bs_payment_method answer \<noteq> p"
proof -
  from user_workspace_Inr [OF access] obtain r where r: "ws_id m = ws" "tfind o_id ws (orgs w) = Some r"
    "org_to_model (members_of ws w) None r = Inr m" by blast
  let ?r = "r\<lparr>o_subscription_id := Some sid\<rparr>"
  let ?w = "w\<lparr>orgs := tput o_id ?r (orgs w)\<rparr>" and ?m = "m\<lparr>ws_subscription_id := Some sid\<rparr>"
  have valid: "validate_payment_method (Payment_object a (payment_method_from p)) (pm_available ms) = Inr ()" for a
    using new(2) by (simp add: validate_payment_method_cases)
  have change: "update_payment_method m (pm_current ms) (payment_method_from p) w = (Inr ?m, ?w)"
    using new(1,3) update_subscription_run [OF r(2,3)] r(1) by (auto simp: update_payment_method_def)
  have "update_billing (Some (u_id u)) m None (Some (payment_method_from p)) w = (Inr ?m, ?w)"
    by (simp add: update_billing_def before count_by_workspace_id_def valid change Let_def)
  moreover have "fst (get_payment_methods m (Some (u_id u)) ?w) = Inr ms"
    using get_payment_methods_frame [of ?w w m "Some (u_id u)"] before by simp
  then have "get_payment_methods m (Some (u_id u)) ?w = (Inr ms, ?w)"
    using get_payment_methods_same [of m "Some (u_id u)" ?w] by (cases "get_payment_methods m (Some (u_id u)) ?w") simp
  ultimately have "api_update_billing u ws \<lparr>bu_payment_method = Some p, bu_product_tier = None\<rparr> w =
      (Inr (billing_settings_read_of (clock w) ?m ms), ?w)"
    by (simp add: api_update_billing_def permitted_granted [OF access granted])
  moreover have "tfind o_id ws (orgs ?w) = Some ?r"
    using tfind_tput_same [of o_id ?r "orgs w"] tfind_Some [OF r(2)] by simp
  moreover have "payment (pm_current ms) \<noteq> p"
    using new(1,3) by (cases "pm_current ms") auto
  ultimately show ?thesis by (simp add: billing_settings_read_of_def)
qed

subsection \<open>The tier that a stranger chooses\<close>

lemma get_payment_methods_ok:
  assumes "\<forall>r\<in>set (subscription_rows w). \<exists>s. sub_to_model r = Inr s" and "ws_subscription_id m = None"
  shows "\<exists>ms. get_payment_methods m u w = (Inr ms, w)"
proof -
  have "traverse sub_to_model rs = Inr (map (projr \<circ> sub_to_model) rs)" if "set rs \<subseteq> set (subscription_rows w)" for rs
    using that assms(1) by (intro traverse_ok) (metis comp_apply subset_iff sum.sel(2))
  then have "\<exists>s. subscriptions f w = (Inr s, w)" for f by (simp add: subscriptions_def)
  then obtain a b where "subscriptions (no_filter\<lparr>f_user_id := u, f_active := Some True\<rparr>) w = (Inr a, w)"
    "subscriptions (no_filter\<lparr>f_stripe_workspace_id := Some (ws_id m), f_active := Some True\<rparr>) w = (Inr b, w)" by blast
  then show ?thesis by (simp add: get_payment_methods_def get_current_subscription_def assms(2) Let_def)
qed

text \<open>
  C38: The tier that a workspace gets with its first AWS subscription can be chosen by anybody: the page that
  redirects to the marketplace stores the wanted tier for any workspace without asking who calls, and
  when the owner subscribes later the workspace moves to that tier, if its members fit the included seats.
\<close>

theorem stranger_chooses_tier:
  assumes row: "tfind o_id i (orgs w) = Some r" "org_to_model (members_of i w) None r = Inr ws"
    and fresh: "ws_subscription_id ws = None" and subs: "\<forall>r\<in>set (subscription_rows w). \<exists>s. sub_to_model r = Inr s"
    and tier: "to_tier t \<noteq> current_product_tier (clock w) ws" "to_tier t \<noteq> Free"
      "length (all_users ws) \<le> seats_included (product_tier_settings (to_tier t))"
  shows "\<exists>w1 w2 m. redirect_to_aws_marketplace_product url i (Some t) w = (Inr (See_other url), w1) \<and>
    assign_workspace sid (Some ws) w1 = (Inr True, w2) \<and> get_workspace i w2 = (Inr (Some m), w2) \<and>
    ws_selected_product_tier m = to_tier t \<and> ws_subscription_id m = Some sid"
proof -
  let ?pref = "\<lparr>ap_workspace_id = i, ap_desired_product_tier = Some (tier_value (to_tier t))\<rparr>"
  let ?w1 = "w\<lparr>aws_tier_preferences := tput ap_workspace_id ?pref (aws_tier_preferences w)\<rparr>"
  let ?r = "r\<lparr>o_subscription_id := Some sid\<rparr>"
  let ?w2 = "?w1\<lparr>orgs := tput o_id ?r (orgs w)\<rparr>"
  have id: "o_id r = i" "ws_id ws = i"
    using tfind_Some [OF row(1)] org_to_model_fields(1) [OF row(2)] by simp_all
  have red: "redirect_to_aws_marketplace_product url i (Some t) w = (Inr (See_other url), ?w1)"
    by (simp add: redirect_to_aws_marketplace_product_def aws_tier_preference_create_def)
  have sub: "update_subscription i (Some sid) ?w1 = (Inr (ws\<lparr>ws_subscription_id := Some sid\<rparr>), ?w2)"
    using update_subscription_run [of i ?w1 r ws] row by (simp add: members_of_def)
  have pref: "aws_get_product_tier i ?w2 = (Inr (Some (to_tier t)), ?w2)"
    using tfind_tput_same [of ap_workspace_id ?pref "aws_tier_preferences w"]
    by (cases t) (simp_all add: aws_get_product_tier_def desired_tier_def tier_from_str_def)
  obtain ms where ms: "get_payment_methods ws None ?w2 = (Inr ms, ?w2)"
    using get_payment_methods_ok [of ?w2 ws None] subs fresh by auto
  have valid: "validate_tier (to_tier t) None c n ws = Inr ()" for c n
    using tier(2,3) validate_tier_Inr [of "to_tier t" None c n ws "()"] by blast
  obtain r' m' where r': "change_tier (clock w) (to_tier t) ?r = Inr r'"
    "org_to_model (members_of i w) None r' = Inr m'" "o_id r' = i" "ws_selected_product_tier m' = to_tier t"
    "ws_subscription_id m' = Some sid"
    using change_tier_readable [OF org_to_model_subscription [OF row(2), of "Some sid"], of "to_tier t" "clock w"] id by auto
  have found: "tfind o_id i (orgs ?w2) = Some ?r"
    using tfind_tput_same [of o_id ?r "orgs w"] id by simp
  let ?ev = "ProductTierChanged i (ws_owner_id ws) (to_tier t) (paid (to_tier t))
    (current_product_tier (clock w) ws < to_tier t) (current_product_tier (clock w) ws)"
  let ?w3 = "?w2\<lparr>orgs := tput o_id r' (orgs ?w2), events := events w @ [?ev]\<rparr>"
  have "update_product_tier i (to_tier t) ?w2 = (Inr m', ?w2\<lparr>orgs := tput o_id r' (orgs ?w2)\<rparr>)"
    using r' found by (simp add: update_product_tier_def update_org_run members_of_def)
  then have "update_billing None ws (Some (to_tier t)) None ?w2 = (Inr m', ?w3)"
    using tier(1) by (simp add: update_billing_run ms valid change_product_tier_def id publish_def)
  then have "assign_workspace sid (Some ws) ?w1 = (Inr True, ?w3)"
    using sub pref fresh by (simp add: assign_workspace_def id)
  moreover have "get_workspace i ?w3 = (Inr (Some m'), ?w3)"
    using r'(2,3) tfind_tput_same [of o_id r' "tput o_id ?r (orgs w)"]
    by (simp add: get_workspace_run members_of_def)
  ultimately show ?thesis using red r'(4,5) by blast
qed

lemma stranger_chooses_tier_witness:
  "\<exists>w1 w2 m. redirect_to_aws_marketplace_product ''url'' 7 (Some Plus_read) ((empty_world 5 50)\<lparr>orgs := [sample_org]\<rparr>) =
      (Inr (See_other ''url''), w1) \<and> get_workspace 7 w2 = (Inr (Some m), w2) \<and> ws_selected_product_tier m = Plus"
proof -
  let ?w = "(empty_world 5 50)\<lparr>orgs := [sample_org]\<rparr>"
  have "\<exists>m. org_to_model (members_of 7 ?w) None sample_org = Inr m \<and> ws_subscription_id m = None \<and>
      current_product_tier 5 m = Free \<and> all_users m = [1]"
    by (simp add: empty_world_def sample_org_def org_to_model_def tier_from_str_def members_of_def current_product_tier_def
        all_users_def)
  then obtain m where m: "org_to_model (members_of 7 ?w) None sample_org = Inr m" "ws_subscription_id m = None"
    "current_product_tier 5 m = Free" "all_users m = [1]" by blast
  have "tfind o_id 7 (orgs ?w) = Some sample_org" by (simp add: sample_org_def)
  from stranger_chooses_tier [OF this m(1,2), of Plus_read "''url''"] m(3,4) show ?thesis
    by (fastforce simp: empty_world_def)
qed

definition two_subscriptions :: world where
  "two_subscriptions = (empty_world 5 50)\<lparr>orgs := [sample_org\<lparr>o_subscription_id := Some 3\<rparr>],
     subscription_rows := [sub_from_model (AwsMarketplaceSubscription \<lparr>aws_id = 3, aws_user_id = Some 1,
         aws_customer_identifier = ''c'', aws_customer_account_id = ''a'', aws_product_code = ''p'', aws_active = True,
         aws_last_charge_timestamp = None, aws_next_charge_timestamp = None\<rparr>),
       sub_from_model (AwsMarketplaceSubscription \<lparr>aws_id = 4, aws_user_id = Some 1,
         aws_customer_identifier = ''c'', aws_customer_account_id = ''a'', aws_product_code = ''p'', aws_active = True,
         aws_last_charge_timestamp = None, aws_next_charge_timestamp = None\<rparr>)]\<rparr>"

definition org_owner :: user where
  "org_owner = \<lparr>u_id = 1, u_email = ''o'', hashed_password = [], is_active = True, is_superuser = False, is_verified = True,
     is_mfa_active = False, otp_secret = None,
     u_roles = [\<lparr>ur_user_id = 1, ur_workspace_id = 7, role_names = workspace_owner\<rparr>], u_created_at = 0, auth_min_time = None\<rparr>"

lemma org_owner_permissions: "check_permission (perm ''update_billing'') org_owner 7 = Inr True"
  by code_simp

lemma billing_answer_stale_witness:
  "\<exists>answer w'. api_update_billing org_owner 7 \<lparr>bu_payment_method = Some (Aws_subscription 4), bu_product_tier = None\<rparr>
      two_subscriptions = (Inr answer, w') \<and> bs_payment_method answer = Aws_subscription 3"
proof -
  have "\<exists>m. get_workspace 7 two_subscriptions = (Inr (Some m), two_subscriptions) \<and> ws_owner_id m = 1 \<and> ws_id m = 7 \<and>
      ws_subscription_id m = Some 3 \<and> ws_payment_on_hold_since m = None"
    by (simp add: two_subscriptions_def get_workspace_run empty_world_def sample_org_def org_to_model_def tier_from_str_def members_of_def)
  then obtain m where m: "get_workspace 7 two_subscriptions = (Inr (Some m), two_subscriptions)" "ws_owner_id m = 1" "ws_id m = 7"
      "ws_subscription_id m = Some 3" "ws_payment_on_hold_since m = None" by blast
  have access: "user_workspace 7 (Some org_owner) two_subscriptions = (Inr m, two_subscriptions)"
    using m by (simp add: user_workspace_def get_optional_user_workspace_def get_user_workspace_def paid_tier_access_iff org_owner_def)
  have "\<exists>ms. get_payment_methods m (Some 1) two_subscriptions = (Inr ms, two_subscriptions) \<and> pm_current ms = AwsPayment 3 \<and>
      AwsPayment 4 \<in> set (pm_available ms)"
    using m by (simp add: get_payment_methods_def get_current_subscription_def get_subscription_def subscriptions_def
        two_subscriptions_def empty_world_def sub_to_model_def sub_matches_def no_filter_def where_id_def where_str_def
        where_time_def Let_def run_defs read_row_def)
  then obtain ms where ms: "get_payment_methods m (Some (u_id org_owner)) two_subscriptions = (Inr ms, two_subscriptions)"
    "pm_current ms = AwsPayment 3" "AwsPayment 4 \<in> set (pm_available ms)" by (auto simp: org_owner_def)
  from billing_answer_stale [OF access org_owner_permissions ms(1), of "Aws_subscription 4" 4] ms(2,3) show ?thesis by auto
qed

end
