(* ===== verification/Workspace_Router.thy ===== *)
theory Workspace_Router
  imports Billing_Router Invitations Notification_Router
begin

section \<open>The API of workspaces\<close>

text \<open>
  \<open>workspaces_router\<close> of \<open>workspaces/router.py\<close> with the schemas of \<open>workspaces/schemas.py\<close>. The list of disposable
  e-mail domains, the codec of invitation tokens and the access object of a new graph database are parameters; the
  link of an invitation is the token in it. Sources, deprecated fields and the name of an invited user, which
  nothing reads, are left out of the schemas.
\<close>

subsection \<open>The schemas\<close>

datatype role_read = Member | Admin | Owner | Billing_admin

fun to_role :: "role_read \<Rightarrow> roles" where
  "to_role Member = workspace_member"
| "to_role Admin = workspace_admin"
| "to_role Owner = workspace_owner"
| "to_role Billing_admin = workspace_billing_admin"

definition from_role :: "roles \<Rightarrow> role_read list" where
  "from_role roles =
     (if has_flag workspace_member roles then [Member] else []) @ (if has_flag workspace_admin roles then [Admin] else []) @
     (if has_flag workspace_owner roles then [Owner] else []) @
     (if has_flag workspace_billing_admin roles then [Billing_admin] else [])"

record workspace_read =
  wr_id :: uuid
  wr_slug :: string
  wr_name :: string
  wr_on_hold_since :: "datetime option"
  wr_created_at :: datetime
  wr_trial_end_days :: "int option"
  wr_user_has_access :: bool
  wr_user_permissions :: permission
  wr_tier :: product_tier_read
  wr_move_to_free_acknowledged_at :: "datetime option"

definition workspace_read_of :: "datetime \<Rightarrow> workspace \<Rightarrow> uuid \<Rightarrow> user_role option \<Rightarrow> workspace_read" where
  "workspace_read_of now m user_id user_roles =
     \<lparr>wr_id = ws_id m, wr_slug = ws_slug m, wr_name = ws_name m, wr_on_hold_since = ws_payment_on_hold_since m,
      wr_created_at = ws_created_at m, wr_trial_end_days = trial_end_days now m,
      wr_user_has_access = paid_tier_access now m user_id,
      wr_user_permissions = (case user_roles of None \<Rightarrow> 0 | Some r \<Rightarrow> role_permissions r),
      wr_tier = from_tier (current_product_tier now m),
      wr_move_to_free_acknowledged_at = ws_move_to_free_acknowledged_at m\<rparr>"

record workspace_settings_read =
  se_id :: uuid
  se_slug :: string
  se_name :: string
  se_external_id :: uuid

definition workspace_settings_read_of :: "workspace \<Rightarrow> workspace_settings_read" where
  "workspace_settings_read_of m =
     \<lparr>se_id = ws_id m, se_slug = ws_slug m, se_name = ws_name m, se_external_id = ws_external_id m\<rparr>"

record workspace_invite_read =
  wi_invite_id :: uuid
  wi_workspace_id :: uuid
  wi_workspace_name :: string
  wi_user_email :: string
  wi_expires_at :: datetime
  wi_accepted_at :: "datetime option"

definition workspace_invite_read_of :: "invitation \<Rightarrow> workspace \<Rightarrow> workspace_invite_read" where
  "workspace_invite_read_of invite m =
     \<lparr>wi_invite_id = inv_id invite, wi_workspace_id = inv_workspace_id invite, wi_workspace_name = ws_name m,
      wi_user_email = inv_email invite, wi_expires_at = inv_expires_at invite, wi_accepted_at = inv_accepted_at invite\<rparr>"

record workspace_user_role_read =
  wu_member :: bool
  wu_admin :: bool
  wu_owner :: bool
  wu_billing_admin :: bool

definition workspace_user_role_read_of :: "user_role list \<Rightarrow> workspace_user_role_read" where
  "workspace_user_role_read_of rs =
     (let names = fold (\<lambda>r acc. acc OR role_names r) rs 0 in
      \<lparr>wu_member = has_flag workspace_member names, wu_admin = has_flag workspace_admin names,
       wu_owner = has_flag workspace_owner names, wu_billing_admin = has_flag workspace_billing_admin names\<rparr>)"

record workspace_user_read =
  wu_id :: uuid
  wu_name :: string
  wu_email :: string
  wu_roles :: workspace_user_role_read
  wu_last_login :: "datetime option"

definition workspace_user_read_of :: "user \<Rightarrow> uuid \<Rightarrow> workspace_user_read" where
  "workspace_user_read_of u workspace_id =
     \<lparr>wu_id = u_id u, wu_name = u_email u, wu_email = u_email u,
      wu_roles = workspace_user_role_read_of (filter (\<lambda>r. ur_workspace_id r = workspace_id) (u_roles u)),
      wu_last_login = None\<rparr>"

text \<open>\<open>^[a-z0-9-]+$\<close>\<close>

definition valid_slug :: "string \<Rightarrow> bool" where
  "valid_slug s \<longleftrightarrow> s \<noteq> [] \<and> list_all (\<lambda>c. let n = of_char c :: nat in
     (97 \<le> n \<and> n \<le> 122) \<or> (48 \<le> n \<and> n \<le> 57) \<or> n = 45) s"

subsection \<open>The handlers\<close>

definition roles_in :: "user \<Rightarrow> uuid \<Rightarrow> user_role option" where
  "roles_in u workspace_id = find (\<lambda>r. ur_workspace_id r = workspace_id) (u_roles u)"

text \<open>The parameter \<open>can_assign_subscriptions\<close> is not passed on; of two roles for a workspace the later one counts.\<close>

definition api_list_workspaces :: "user \<Rightarrow> bool \<Rightarrow> workspace_read list io" where
  "api_list_workspaces u can_assign_subscriptions =
     bind (list_workspaces u False) (\<lambda>workspaces.
     bind utc (\<lambda>now.
     ret (map (\<lambda>m. workspace_read_of now m (u_id u) (find (\<lambda>r. ur_workspace_id r = ws_id m) (rev (u_roles u)))) workspaces)))"

definition api_get_workspace :: "user \<Rightarrow> uuid \<Rightarrow> workspace_read io" where
  "api_get_workspace u workspace_id =
     seq (require ''read'' u workspace_id)
     (bind (get_workspace workspace_id) (\<lambda>org.
      case org of None \<Rightarrow> raise (HTTPException 404 ''Workspace not found'')
      | Some m \<Rightarrow>
          if u_id u \<notin> set (all_users m) then raise (HTTPException 403 ''You are not a member of this workspace'')
          else bind utc (\<lambda>now. ret (workspace_read_of now m (u_id u) (roles_in u (ws_id m))))))"

definition get_workspace_settings :: "user \<Rightarrow> uuid \<Rightarrow> workspace_settings_read io" where
  "get_workspace_settings u ws = permitted ''read_settings'' u ws (\<lambda>m. ret (workspace_settings_read_of m))"

definition update_workspace_settings :: "user \<Rightarrow> uuid \<Rightarrow> string \<Rightarrow> bool \<Rightarrow> workspace_settings_read io" where
  "update_workspace_settings u ws name generate_new_external_id =
     permitted ''update_settings'' u ws (\<lambda>m.
     bind (update_workspace (ws_id m) name generate_new_external_id) (\<lambda>org. ret (workspace_settings_read_of org)))"

definition api_create_workspace ::
  "(uuid \<Rightarrow> exn + graph_database_access) \<Rightarrow> user \<Rightarrow> string \<Rightarrow> string \<Rightarrow> workspace_read io" where
  "api_create_workspace db_access u name slug =
     (if \<not> valid_slug slug then raise (HTTPException 422 ''slug'')
      else
        bind (catch (create_workspace db_access name slug u)
          (\<lambda>e. raise (if e = IntegrityError then HTTPException 409 ''Organization with this slug already exists'' else e))) (\<lambda>org.
        bind (user_get (u_id u)) (\<lambda>updated_user.
        case updated_user of None \<Rightarrow> raise ValueError
        | Some v \<Rightarrow> bind utc (\<lambda>now. ret (workspace_read_of now org (u_id u) (roles_in v (ws_id org)))))))"

definition list_invites :: "user \<Rightarrow> uuid \<Rightarrow> workspace_invite_read list io" where
  "list_invites u ws =
     permitted ''read'' u ws (\<lambda>m.
     bind (list_invitations (ws_id m)) (\<lambda>invites. ret (map (\<lambda>i. workspace_invite_read_of i m) invites)))"

definition api_list_roles :: "user \<Rightarrow> uuid \<Rightarrow> role_read list io" where
  "api_list_roles u ws = permitted ''read'' u ws (\<lambda>m. ret (from_role (fold (\<lambda>r acc. acc OR r) all_roles 0)))"

definition list_users :: "user \<Rightarrow> uuid \<Rightarrow> workspace_user_read list io" where
  "list_users u ws =
     permitted ''read'' u ws (\<lambda>m.
     bind (user_get_by_ids (all_users m)) (\<lambda>users. ret (map (\<lambda>v. workspace_user_read_of v (ws_id m)) users)))"

definition email_domain :: "string \<Rightarrow> string" where
  "email_domain email = rev (takeWhile (\<lambda>c. c \<noteq> CHR ''@'') (rev (lower email)))"

definition invited_roles :: "role_read list \<Rightarrow> roles" where
  "invited_roles names = fold (\<lambda>name acc. to_role name OR acc) names workspace_member"

text \<open>The domain that is looked up is that of the inviter.\<close>

definition invite_to_organization ::
  "token_codec \<Rightarrow> (string \<Rightarrow> bool) \<Rightarrow> user \<Rightarrow> uuid \<Rightarrow> string \<Rightarrow> role_read list \<Rightarrow> workspace_invite_read io" where
  "invite_to_organization codec blocklist u ws email role_list =
     permitted ''invite_to'' u ws (\<lambda>m.
     if blocklist (email_domain (u_email u)) then raise (HTTPException 400 ''Disposable email domains are not allowed'')
     else
       bind (invite_user codec (ws_id m) u email (invited_roles role_list)) (\<lambda>result.
       ret (workspace_invite_read_of (fst result) m)))"

definition remove_user :: "user \<Rightarrow> uuid \<Rightarrow> uuid \<Rightarrow> unit io" where
  "remove_user u ws user_id =
     permitted ''remove_from'' u ws (\<lambda>m.
     bind (user_get user_id) (\<lambda>found.
     case found of None \<Rightarrow> raise (HTTPException 404 ''User not found'')
     | Some v \<Rightarrow>
         if user_id = ws_owner_id m then raise (HTTPException 403 ''Cannot remove the owner of the workspace'')
         else remove_from_workspace (ws_id m) (u_id v)))"

definition delete_invite :: "user \<Rightarrow> uuid \<Rightarrow> uuid \<Rightarrow> unit io" where
  "delete_invite u ws invite_id = permitted ''update'' u ws (\<lambda>m. revoke_invitation (ws_id m) invite_id)"

text \<open>The message and the workspace of the redirect.\<close>

definition api_accept_invitation :: "token_codec \<Rightarrow> string \<Rightarrow> uuid \<Rightarrow> user option \<Rightarrow> (string \<times> uuid) io" where
  "api_accept_invitation codec token workspace_id maybe_user =
     bind (get_optional_user_workspace workspace_id maybe_user) (\<lambda>maybe_workspace.
     bind (accept_invitation codec token) (\<lambda>result.
     ret (case result of
            InvitationNotFound \<Rightarrow> (case maybe_workspace of
              Inr m \<Rightarrow> (''invitation-accepted'', ws_id m) | Inl _ \<Rightarrow> (''invitation-not-found'', workspace_id))
          | accept_result.WorkspaceNotFound \<Rightarrow> (''workspace-not-found'', workspace_id)
          | NoFreeSeats \<Rightarrow> (''no-free-seats'', workspace_id)
          | Accepted invitation \<Rightarrow> (''invitation-accepted'', inv_workspace_id invitation))))"

definition get_cf_url :: "string \<Rightarrow> user \<Rightarrow> uuid \<Rightarrow> string io" where
  "get_cf_url cf_template_url u ws =
     in_workspace u ws (\<lambda>m.
     ret (''https://console.aws.amazon.com/cloudformation/home#/stacks/create/review?templateURL='' @ cf_template_url @
       ''&stackName=FixAccess&param_WorkspaceId='' @ uuid_str (ws_id m) @
       ''&param_ExternalId='' @ uuid_str (ws_external_id m)))"

definition get_external_id :: "user \<Rightarrow> uuid \<Rightarrow> uuid io" where
  "get_external_id u ws = in_workspace u ws (\<lambda>m. ret (ws_external_id m))"

definition acknowledge_move_to_free :: "user \<Rightarrow> uuid \<Rightarrow> workspace_read io" where
  "acknowledge_move_to_free u ws =
     in_workspace u ws (\<lambda>m.
     bind (ack_move_to_free (ws_id m) (u_id u)) (\<lambda>workspace.
     bind utc (\<lambda>now. ret (workspace_read_of now workspace (u_id u) (roles_in u (ws_id workspace))))))"

text \<open>
  Without the permission of the handler nothing changes.
\<close>

theorem workspace_api_guarded:
  "check_permission (perm ''update_settings'') u ws = Inl e \<Longrightarrow> snd (update_workspace_settings u ws name g w) = w"
  "check_permission (perm ''invite_to'') u ws = Inl e \<Longrightarrow> snd (invite_to_organization codec b u ws email names w) = w"
  "check_permission (perm ''remove_from'') u ws = Inl e \<Longrightarrow> snd (remove_user u ws i w) = w"
  "check_permission (perm ''update'') u ws = Inl e \<Longrightarrow> snd (delete_invite u ws i w) = w"
  by (simp_all add: update_workspace_settings_def invite_to_organization_def remove_user_def delete_invite_def permitted_denied)

subsection \<open>A member who was removed\<close>

text \<open>
  Removing a member does not take his permissions away. The workspace itself is closed to him, but the handlers that
  ask only for a permission, those of the notifications, still let him in: a removed member who could update the
  settings can still make a hook of his own a channel of the workspace, and its alerts go there.
\<close>

theorem removed_member_configures:
  assumes removed: "remove_user a ws i w = (Inr (), w')" and member: "user_get i w = (Inr (Some v), w)"
    and could: "check_permission (perm ''update_settings'') v ws = Inr True"
    and hook: "name \<noteq> []" "url \<noteq> []"
    and alert: "fd_workspace_id alert = ws" "ae_post env Via_teams url alert = Post_success"
  shows "user_get i w' = (Inr (Some v), w') \<and>
    user_workspace ws (Some v) w' = (Inl (HTTPException 403 ''not_a_workspace_member''), w') \<and>
    (\<exists>w2. add_teams v ws name url w' = (Inr No_content, w2) \<and>
      send_alert env vulnerable_resources_detected (alert, Via_teams) w2 =
        (Inr (), w2\<lparr>alerts_sent := alerts_sent w2 @ [(alert, Via_teams, url)]\<rparr>))"
proof -
  from permitted_Inr [OF removed [unfolded remove_user_def]] obtain m where
    access: "user_workspace ws (Some a) w = (Inr m, w)" and
    run: "bind (user_get i) (\<lambda>found. case found of None \<Rightarrow> raise (HTTPException 404 ''User not found'')
      | Some v \<Rightarrow> if i = ws_owner_id m then raise (HTTPException 403 ''Cannot remove the owner of the workspace'')
        else remove_from_workspace (ws_id m) (u_id v)) w = (Inr (), w')" by blast
  from user_workspace_Inr [OF access] obtain r where r: "ws_id m = ws" "tfind o_id ws (orgs w) = Some r"
    "org_to_model (members_of ws w) None r = Inr m" by blast
  have id: "u_id v = i" using member by (auto simp: user_get_def load_user_def dest!: tfind_Some)
  have other: "i \<noteq> ws_owner_id m" and gone: "remove_from_workspace ws i w = (Inr (), w')"
    using run [unfolded bind_Inr [where m = "user_get i" and w = w, OF member]] r(1) id by (simp_all split: if_splits)
  have w': "(ws, i) \<notin> set (members w')" "orgs w' = orgs w" "users w' = users w" "role_rows w' = role_rows w"
    using gone by (auto simp: remove_from_workspace_def split: if_splits)
  have "load_user w' x = load_user w x" for x by (simp add: load_user_def w')
  then have "user_get i w' = (Inr (Some v), w')" using member w'(3) by (simp add: user_get_def)
  moreover obtain m' where m': "org_to_model (members_of ws w') None r = Inr m'" "ws_owner_id m' = ws_owner_id m"
    "ws_members m' = members_of ws w'" using r(3) by (auto simp: org_to_model_def split: sum.splits)
  have "i \<notin> set (ws_members m')" using w'(1) m'(3) by (force simp: members_of_def)
  moreover have "get_workspace ws w' = (Inr (Some m'), w')" by (simp add: get_workspace_run w'(2) r(2) m'(1))
  ultimately have "user_get i w' = (Inr (Some v), w') \<and>
      user_workspace ws (Some v) w' = (Inl (HTTPException 403 ''not_a_workspace_member''), w')"
    using workspace_access [of ws w' "Some m'" "Some v"] id other m'(2) by simp
  moreover define row where "row = \<lparr>pc_workspace_id = ws, pc_provider = Via_teams, pc_name = take 63 name,
    pc_config = [(config_key Via_teams, Config_str url)]\<rparr>"
  define w2 where "w2 = w'\<lparr>events := events w' @ [AlertNotificationSetupUpdated ws i Via_teams],
    provider_configs := tput pc_key row (provider_configs w')\<rparr>"
  have "add_teams v ws name url w' = (Inr No_content, w2)"
    using hook by (simp add: add_teams_def add_channel_def require_granted [OF could] update_notification_provider_config_def
        publish_def update_messaging_config_for_workspace_def w2_def row_def id)
  moreover have "tfind pc_key (ws, Via_teams) (provider_configs w2) = Some row"
    using tfind_tput_same [of pc_key row] by (simp add: w2_def row_def)
  then have "send_alert env vulnerable_resources_detected (alert, Via_teams) w2 =
      (Inr (), w2\<lparr>alerts_sent := alerts_sent w2 @ [(alert, Via_teams, url)]\<rparr>)"
    using hook alert by (simp add: send_alert_def get_messaging_config_for_workspace_def row_def sender_send_alert_def
        config_get_def post_alert_def log_alert_def)
  ultimately show ?thesis by blast
qed

subsection \<open>From an invitation to the workspace\<close>

lemma roles_in_load:
  "find (\<lambda>r. ur_workspace_id r = ws) (map role_to_model (filter (\<lambda>r. rr_user_id r = i) rows)) =
   map_option role_to_model (tfind role_key (i, ws) rows)"
  by (induction rows) (auto simp: role_to_model_def role_key_def)

lemma invited_roles_bit:
  "bit (invited_roles names) k \<longleftrightarrow> k = 0 \<or> (\<exists>n\<in>set names. bit (to_role n) k)"
proof -
  have "bit (fold (\<lambda>name acc. to_role name OR acc) names a) k \<longleftrightarrow> bit a k \<or> (\<exists>n\<in>set names. bit (to_role n) k)" for a
    by (induction names arbitrary: a) (auto simp: bit_or_iff)
  then show ?thesis by (simp add: invited_roles_def workspace_member_def bit_1_iff)
qed

lemma member_reads:
  assumes "tfind role_key (i, ws) (role_rows w) = Some row" and "bit (rr_role_names row) 0" and "u_id y = i"
    and "u_roles y = map role_to_model (filter (\<lambda>r. rr_user_id r = i) (role_rows w))"
  shows "roles_in y ws = Some (role_to_model row)" and "check_permission (perm ''read'') y ws = Inr True"
proof -
  show r: "roles_in y ws = Some (role_to_model row)"
    using assms by (simp add: roles_in_def roles_in_load)
  then have "role_to_model row \<in> set (u_roles y)" "ur_workspace_id (role_to_model row) = ws"
    by (auto simp: roles_in_def find_Some_iff)
  moreover have "bit (role_permissions (role_to_model row)) 1"
    using assms(2) by (simp add: role_permissions_bit role_to_model_def)
  ultimately have "permission_granted (2 ^ 1) ws (u_roles y)"
    unfolding permission_granted_iff has_flag_bit by blast
  moreover have "filter (\<lambda>(n, p). has_flag p (perm ''read'')) workspace_permissions = [(''read'', 2 ^ 1)]" by code_simp
  ultimately show "check_permission (perm ''read'') y ws = Inr True"
    by (simp add: check_permission_def validate_workspace_permissions_def)
qed

lemma role_granted:
  assumes "\<And>k. bit (to_role n) k \<Longrightarrow> bit (role_names r) k"
  shows "has_flag (roles_to_permissions (to_role n)) (role_permissions r)"
proof -
  have covers: "has_flag mask (role_permissions r)" if "\<And>i. bit mask i \<Longrightarrow> bit (role_permissions r) i" for mask
    unfolding has_flag_def by (intro bit_eqI) (auto simp: bit_and_iff that)
  show ?thesis
  proof (cases n)
    case Member
    then have "bit (role_names r) 0" using assms [of 0] by (simp add: role_flag_defs)
    with Member show ?thesis by (auto intro!: covers simp: role_permissions_bit)
  next
    case Admin
    then have "bit (role_names r) 1" using assms [of 1] by (simp add: role_flag_defs)
    with Admin show ?thesis by (auto intro!: covers simp: role_permissions_bit)
  next
    case Owner
    then have "bit (role_names r) 2" using assms [of 2] by (simp add: role_flag_defs)
    with Owner show ?thesis by (auto intro!: covers simp: role_permissions_bit)
  next
    case Billing_admin
    then have "bit (role_names r) 3" using assms [of 3] by (simp add: role_flag_defs)
    with Billing_admin show ?thesis by (auto intro!: covers simp: role_permissions_bit)
  qed
qed

lemma user_by_email_stored:
  assumes "user_get_by_email email w = (Inr (Some x), w)"
  shows "\<exists>z. tfind u_id (u_id x) (users w) = Some z"
proof -
  let ?found = "map (load_user w) (filter (\<lambda>u. lower (u_email u) = lower email) (users w))"
  have "remdups ?found = [x]"
    using assms by (simp add: user_get_by_email_def scalar_unique_def split: list.splits)
  then have "x \<in> set ?found" by (metis list.set_intros(1) set_remdups)
  then have "u_id x \<in> u_id ` set (users w)" by (auto simp: load_user_def)
  then show ?thesis by (meson tfind_None not_None_eq)
qed

lemma invite_run:
  assumes "invite_to_organization codec blocklist u ws email names w = (Inr v, w1)"
    and "\<forall>i\<in>set (invites w). \<not> (i_organization_id i = ws \<and> i_user_email i = email)"
  shows "\<exists>m r usr. ws_id m = ws \<and> tfind o_id ws (orgs w) = Some r \<and> org_to_model (members_of ws w) None r = Inr m \<and>
    ws_payment_on_hold_since m = None \<and> seats_left (product_tier_settings (current_product_tier (clock w) m)) m \<and>
    \<not> blocklist (email_domain (u_email u)) \<and> user_get_by_email email w = (Inr usr, w) \<and>
    (\<forall>x. usr = Some x \<longrightarrow> u_id x \<notin> set (all_users m)) \<and> wi_invite_id v = next_uuid w \<and>
    w1 = w\<lparr>next_uuid := next_uuid w + 1, mails := mails w @ [MailTo email (Invite (u_email u) (next_uuid w) email)], invites := invites w @
      [\<lparr>i_id = next_uuid w, i_organization_id = ws, i_user_email = email, i_role = invited_roles names,
        i_expires_at = clock w + td_days 7, i_accepted_at = None\<rparr>]\<rparr>"
proof -
  from permitted_Inr [OF assms(1) [unfolded invite_to_organization_def]] obtain m where
    access: "user_workspace ws (Some u) w = (Inr m, w)" and
    run: "(if blocklist (email_domain (u_email u)) then raise (HTTPException 400 ''Disposable email domains are not allowed'')
      else bind (invite_user codec (ws_id m) u email (invited_roles names)) (\<lambda>result. ret (workspace_invite_read_of (fst result) m))) w =
      (Inr v, w1)" by blast
  from user_workspace_Inr [OF access] obtain r where r: "ws_id m = ws" "tfind o_id ws (orgs w) = Some r"
    "org_to_model (members_of ws w) None r = Inr m" by blast
  have g: "get_workspace ws w = (Inr (Some m), w)" by (simp add: get_workspace_run r)
  have none: "filter (\<lambda>i. i_organization_id i = ws \<and> i_user_email i = email) (invites w) = []"
    using assms(2) by (simp add: filter_empty_conv)
  obtain usr where usr: "user_get_by_email email w = (usr, w)" by (metis user_get_by_email_same prod.collapse)
  let ?row = "\<lparr>i_id = next_uuid w, i_organization_id = ws, i_user_email = email, i_role = invited_roles names,
        i_expires_at = clock w + td_days 7, i_accepted_at = None\<rparr>"
  let ?w = "w\<lparr>next_uuid := next_uuid w + 1, invites := invites w @ [?row]\<rparr>"
  have create: "create_invitation ws email (invited_roles names) w =
      (case usr of Inl e \<Rightarrow> (Inl e, w)
       | Inr found \<Rightarrow> if (case found of None \<Rightarrow> False | Some x \<Rightarrow> u_id x \<in> set (all_users m)) then (Inl WrongState, w)
           else (Inr (invite_to_model ?row), ?w))"
    using g usr none by (cases usr) (simp_all add: create_invitation_def uuid4_def Let_def del: all_users_set)
  let ?token = "token_codec.generate_state_token codec (next_uuid w) (clock w + td_days 7)"
  let ?mail = "MailTo email (Invite (u_email u) (next_uuid w) email)"
  have inv: "invite_user codec ws u email (invited_roles names) w =
      (if ws_payment_on_hold_since m \<noteq> None then (Inl (NotAllowed ''payment_on_hold''), w)
       else if \<not> seats_left (product_tier_settings (current_product_tier (clock w) m)) m then (Inl (NotAllowed ''user_limit_reached''), w)
       else case fst (create_invitation ws email (invited_roles names) w) of Inl e \<Rightarrow> (Inl e, w)
         | Inr i \<Rightarrow> (Inr (i, ?token), ?w\<lparr>mails := mails w @ [?mail]\<rparr>))"
    using g create by (cases usr) (auto simp: invite_user_def Let_def send_mail_def invite_to_model_def)
  show ?thesis
    using run r inv create usr
    by (cases usr) (auto simp: workspace_invite_read_of_def invite_to_model_def split: if_splits option.splits)
qed

text \<open>
  From the invitation to the workspace: a registered user who follows the link of a new invitation becomes a member
  with the roles he was invited to, can read the workspace, and sees at least the permissions of these roles. The
  check of disposable domains looks at the address of the inviter, so the address that is invited can be of any domain.
\<close>

theorem invited_user_reads:
  assumes invite: "invite_to_organization codec blocklist u ws email names w = (Inr v, w1)"
    and fresh: "\<forall>i\<in>set (invites w). \<not> (i_organization_id i = ws \<and> i_user_email i = email)" "tfind i_id (next_uuid w) (invites w) = None"
    and user: "user_get_by_email email w = (Inr (Some x), w)"
    and codec: "\<And>i t. clock w < t \<Longrightarrow> decode_jwt codec (clock w) (token_codec.generate_state_token codec i t) = ValidToken i"
  shows "\<exists>w2 y r. api_accept_invitation codec (token_codec.generate_state_token codec (wi_invite_id v) (clock w + td_days 7)) ws None w1 =
      (Inr (''invitation-accepted'', ws), w2) \<and>
    user_get (u_id x) w2 = (Inr (Some y), w2) \<and> api_get_workspace y ws w2 = (Inr r, w2) \<and> wr_id r = ws \<and>
    (\<forall>n\<in>set names. has_flag (roles_to_permissions (to_role n)) (wr_user_permissions r))"
proof -
  let ?token = "token_codec.generate_state_token codec (wi_invite_id v) (clock w + td_days 7)"
  let ?row = "\<lparr>i_id = next_uuid w, i_organization_id = ws, i_user_email = email, i_role = invited_roles names,
        i_expires_at = clock w + td_days 7, i_accepted_at = None\<rparr>"
  from invite_run [OF invite fresh(1)] user obtain m r where m: "ws_id m = ws" "tfind o_id ws (orgs w) = Some r"
    "org_to_model (members_of ws w) None r = Inr m" "ws_payment_on_hold_since m = None"
    "seats_left (product_tier_settings (current_product_tier (clock w) m)) m" "u_id x \<notin> set (all_users m)" "wi_invite_id v = next_uuid w"
    and w1: "w1 = w\<lparr>next_uuid := next_uuid w + 1, mails := mails w @ [MailTo email (Invite (u_email u) (next_uuid w) email)],
      invites := invites w @ [?row]\<rparr>" by auto
  have row: "tfind i_id (next_uuid w) (invites w1) = Some ?row"
    using fresh(2) unfolding w1 by (simp add: tfind_append)
  have same: "members_of ws w1 = members_of ws w" "orgs w1 = orgs w" "users w1 = users w" "clock w1 = clock w"
    by (simp_all add: w1 members_of_def)
  have ws: "get_workspace ws w1 = (Inr (Some m), w1)" by (simp add: get_workspace_run same m)
  have x: "user_get_by_email email w1 = (Inr (Some x), w1)"
    using user unfolding w1 by (simp add: user_get_by_email_def load_user_def cong: map_cong)
  have token: "decode_jwt codec (clock w1) ?token = ValidToken (next_uuid w)"
    using codec [of "clock w + td_days 7" "next_uuid w"] m(7) by (simp add: same td_defs)
  obtain w2 where w2: "accept_invitation codec ?token w1 = (Inr (Accepted (invite_to_model (accepted (clock w1) ?row))), w2)"
    "set (members w2) = insert (ws, u_id x) (set (members w1))" "users w2 = users w1" "orgs w2 = orgs w1"
    "(ws, u_id x) \<notin> set (members w1) \<longrightarrow> roles_of (u_id x) ws w2 = roles_of (u_id x) ws w1 OR invited_roles names"
    using accept_run [OF token row, of m "Some x"] ws m(1,4,5) x by (auto simp: same)
  have "api_accept_invitation codec ?token ws None w1 = (Inr (''invitation-accepted'', ws), w2)"
    using w2(1) by (simp add: api_accept_invitation_def get_optional_user_workspace_def invite_to_model_def)
  moreover have "(ws, u_id x) \<notin> set (members w1)"
  proof
    assume "(ws, u_id x) \<in> set (members w1)"
    then have "u_id x \<in> set (members_of ws w1)" by (force simp: members_of_def)
    then show False using m(6) org_to_model_fields(3) [OF m(3)] same(1) by simp
  qed
  then have roles: "roles_of (u_id x) ws w2 = roles_of (u_id x) ws w1 OR invited_roles names" using w2(5) by blast
  then have "bit (roles_of (u_id x) ws w2) 0" using invited_roles_bit [of names 0] by (simp add: bit_or_iff)
  then obtain rr where found: "tfind role_key (u_id x, ws) (role_rows w2) = Some rr"
    by (cases "tfind role_key (u_id x, ws) (role_rows w2)") (simp_all add: roles_of_def)
  then have "rr_role_names rr = roles_of (u_id x) ws w2" by (simp add: roles_of_def)
  with roles found have rr: "tfind role_key (u_id x, ws) (role_rows w2) = Some rr"
    "rr_role_names rr = roles_of (u_id x) ws w1 OR invited_roles names" by simp_all
  obtain z where z: "tfind u_id (u_id x) (users w2) = Some z" "u_id z = u_id x"
    using user_by_email_stored [OF user] w2(3) same(3) by (metis tfind_Some)
  then have y: "user_get (u_id x) w2 = (Inr (Some (load_user w2 z)), w2)" "u_id (load_user w2 z) = u_id x"
    "u_roles (load_user w2 z) = map role_to_model (filter (\<lambda>r. rr_user_id r = u_id x) (role_rows w2))"
    by (simp_all add: user_get_def load_user_def)
  let ?y = "load_user w2 z"
  have bits: "bit (rr_role_names rr) k" if "bit (invited_roles names) k" for k using that rr(2) by (simp add: bit_or_iff)
  have "bit (rr_role_names rr) 0" using bits [of 0] invited_roles_bit by blast
  note reads = member_reads [OF rr(1) this y(2,3)]
  have gw: "get_workspace ws w2 = (Inr (Some (m\<lparr>ws_members := members_of ws w2\<rparr>)), w2)"
    using m(2,3) w2(4) same(2) by (auto simp: get_workspace_run org_to_model_def split: sum.splits)
  have mem: "u_id x \<in> set (members_of ws w2)" using w2(2) by (force simp: members_of_def)
  let ?r = "workspace_read_of (clock w2) (m\<lparr>ws_members := members_of ws w2\<rparr>) (u_id ?y) (Some (role_to_model rr))"
  have "api_get_workspace ?y ws w2 = (Inr ?r, w2)"
    using gw mem y(2) m(1) by (simp add: api_get_workspace_def require_granted [OF reads(2)] reads(1))
  moreover have "has_flag (roles_to_permissions (to_role n)) (wr_user_permissions ?r)" if n: "n \<in> set names" for n
  proof -
    have "bit (to_role n) k \<Longrightarrow> bit (rr_role_names rr) k" for k using bits invited_roles_bit n by blast
    then show ?thesis using role_granted [of n "role_to_model rr"] by (simp add: workspace_read_of_def role_to_model_def)
  qed
  ultimately show ?thesis using y(1) m(1) by (auto simp: workspace_read_of_def)
qed

subsection \<open>Concrete users\<close>

definition former_admin :: user where
  "former_admin = org_owner\<lparr>u_id := 2, u_roles := [\<lparr>ur_user_id = 2, ur_workspace_id = 7, role_names = workspace_admin\<rparr>]\<rparr>"

definition staffed_world :: world where
  "staffed_world = (empty_world 5 50)\<lparr>orgs := [sample_org\<lparr>o_tier := ''Plus''\<rparr>], members := [(7, 2)], users := [former_admin],
     role_rows := [\<lparr>rr_user_id = 2, rr_workspace_id = 7, rr_role_names = workspace_admin\<rparr>]\<rparr>"

lemma org_owner_access:
  assumes "orgs w = [sample_org\<lparr>o_tier := ''Plus''\<rparr>]"
  shows "\<exists>m. user_workspace 7 (Some org_owner) w = (Inr m, w) \<and> ws_id m = 7 \<and> ws_owner_id m = 1 \<and>
    ws_payment_on_hold_since m = None \<and> ws_members m = members_of 7 w \<and> current_product_tier (clock w) m = Plus"
proof -
  have "\<exists>m. get_workspace 7 w = (Inr (Some m), w) \<and> ws_owner_id m = 1 \<and> ws_id m = 7 \<and> ws_payment_on_hold_since m = None \<and>
      ws_members m = members_of 7 w \<and> current_product_tier (clock w) m = Plus"
    by (simp add: get_workspace_run assms sample_org_def org_to_model_def tier_from_str_def current_product_tier_def)
  then obtain m where "get_workspace 7 w = (Inr (Some m), w)" "ws_owner_id m = 1" "ws_id m = 7"
    "ws_payment_on_hold_since m = None" "ws_members m = members_of 7 w" "current_product_tier (clock w) m = Plus" by blast
  then show ?thesis
    by (simp add: user_workspace_def get_optional_user_workspace_def get_user_workspace_def paid_tier_access_iff org_owner_def)
qed

lemma org_owner_may:
  "check_permission (perm ''remove_from'') org_owner 7 = Inr True" "check_permission (perm ''invite_to'') org_owner 7 = Inr True"
  by code_simp+

lemma removed_member_configures_witness:
  "\<exists>w' w2. remove_user org_owner 7 2 staffed_world = (Inr (), w') \<and>
     send_alert sample_alerting vulnerable_resources_detected (sample_alert, Via_teams) w2 =
       (Inr (), w2\<lparr>alerts_sent := alerts_sent w2 @ [(sample_alert, Via_teams, ''his hook'')]\<rparr>)"
proof -
  obtain m where m: "user_workspace 7 (Some org_owner) staffed_world = (Inr m, staffed_world)" "ws_id m = 7" "ws_owner_id m = 1"
    using org_owner_access [of staffed_world] by (auto simp: staffed_world_def)
  have v: "user_get 2 staffed_world = (Inr (Some former_admin), staffed_world)"
    by (simp add: user_get_def staffed_world_def load_user_def former_admin_def role_to_model_def org_owner_def)
  have "u_id former_admin = 2" by (simp add: former_admin_def)
  then obtain w' where run: "remove_user org_owner 7 2 staffed_world = (Inr (), w')"
    using v m(2,3) unfolding remove_user_def permitted_granted [OF m(1) org_owner_may(1)]
    by (simp add: remove_from_workspace_def staffed_world_def)
  have "check_permission (perm ''update_settings'') former_admin 7 = Inr True" by code_simp
  from removed_member_configures [OF run v this, of "''n''" "''his hook''" sample_alert sample_alerting] run show ?thesis
    by (auto simp: sample_alert_def sample_alerting_def)
qed

lemma invited_user_reads_witness:
  "\<exists>v w1 y r w2. invite_to_organization sample_codec (\<lambda>d. d = ''example.com'') org_owner 7 ''ann@example.com'' [Billing_admin]
      (staffed_world\<lparr>members := [], users := [sample_user]\<rparr>) = (Inr v, w1) \<and>
    api_get_workspace y 7 w2 = (Inr r, w2) \<and> has_flag 3651 (wr_user_permissions r)"
proof -
  let ?w = "staffed_world\<lparr>members := [], users := [sample_user]\<rparr>" and ?block = "\<lambda>d. d = ''example.com''"
  obtain m where m: "user_workspace 7 (Some org_owner) ?w = (Inr m, ?w)" "ws_id m = 7" "ws_owner_id m = 1"
    "ws_payment_on_hold_since m = None" "ws_members m = []" "current_product_tier 5 m = Plus"
    using org_owner_access [of ?w] by (auto simp: staffed_world_def members_of_def empty_world_def)
  have "lower ''Ann@example.com'' = ''ann@example.com''" "lower ''ann@example.com'' = ''ann@example.com''" by code_simp+
  then obtain x where x: "user_get_by_email ''ann@example.com'' ?w = (Inr (Some x), ?w)" "u_id x = 2"
    by (simp add: user_get_by_email_def staffed_world_def sample_user_def load_user_def scalar_unique_def)
  have g: "get_workspace 7 ?w = (Inr (Some m), ?w)"
    using user_workspace_Inr [OF m(1)] by (auto simp: get_workspace_run)
  have domain: "email_domain ''o'' \<noteq> ''example.com''" by code_simp
  have none: "invites ?w = []" and now: "clock ?w = 5" by (simp_all add: staffed_world_def empty_world_def)
  have seats: "seats_left (product_tier_settings Plus) m" using m(3,5) by (simp add: seats_left_def limit_of_def all_users_def)
  have "\<exists>i w1. create_invitation 7 ''ann@example.com'' (invited_roles [Billing_admin]) ?w = (Inr i, w1)"
    using g x m(3,5) none by (simp add: create_invitation_def uuid4_def Let_def)
  then obtain i w1 where "create_invitation 7 ''ann@example.com'' (invited_roles [Billing_admin]) ?w = (Inr i, w1)" by blast
  then have "\<exists>z w1. invite_user sample_codec 7 org_owner ''ann@example.com'' (invited_roles [Billing_admin]) ?w = (Inr z, w1)"
    using g m(4,6) seats now by (simp add: invite_user_def Let_def send_mail_def)
  then obtain z w1 where z: "invite_user sample_codec 7 org_owner ''ann@example.com'' (invited_roles [Billing_admin]) ?w = (Inr z, w1)" by blast
  have inviter: "u_email org_owner = ''o''" by (simp add: org_owner_def)
  have run: "invite_to_organization sample_codec ?block org_owner 7 ''ann@example.com'' [Billing_admin] ?w =
      (Inr (workspace_invite_read_of (fst z) m), w1)"
    using z domain m(2) inviter
    unfolding invite_to_organization_def permitted_granted [OF m(1) org_owner_may(2)] by simp
  from invited_user_reads [OF run _ _ x(1)] none run show ?thesis
    by (fastforce simp: sample_codec_def)
qed

end
