(* ===== verification/Jwt_Service.thy ===== *)
theory Jwt_Service
  imports World
begin

section \<open>Signed web tokens\<close>

text \<open>
  \<open>fix_jwt/__init__.py\<close> and the part of \<open>certificates/cert_store.py\<close> that orders the two signing keys of the
  service. A key is the text of its file; the hash, the RSA arithmetic and the library that signs and verifies
  are parameters, and so is what the key files hold at a time. The payload type is arbitrary.
\<close>

record cert_key_pair =
  ck_not_after :: datetime
    \<comment> \<open>\<open>cert.not_valid_after_utc\<close>\<close>
  ck_private_key :: string

record cert_store =
  signing_pair_1 :: cert_key_pair
  signing_pair_2 :: cert_key_pair

record 'c jwt_lib =
  jl_public_key :: "string \<Rightarrow> string"
  jl_sha256 :: "string \<Rightarrow> string"
  jl_encode :: "string \<Rightarrow> string list \<Rightarrow> 'c \<Rightarrow> string \<Rightarrow> string"
    \<comment> \<open>key id for the header, audience, payload, private key\<close>
  jl_unverified_kid :: "string \<Rightarrow> string option option"
    \<comment> \<open>None: not a token; otherwise the key id of the header, if it has one\<close>
  jl_decode :: "datetime \<Rightarrow> string \<Rightarrow> string \<Rightarrow> string list \<Rightarrow> 'c option"
    \<comment> \<open>time, token, public key, audience; None for every error of the library\<close>

subsection \<open>The store\<close>

text \<open>\<open>bundle.sort(key=..., reverse=True)\<close>: the pair that is valid longer comes first, and the first of equals.\<close>

definition get_signing_cert_key_pair :: "cert_store \<Rightarrow> cert_key_pair list" where
  "get_signing_cert_key_pair cs = sort_key (\<lambda>p. - ck_not_after p) [signing_pair_1 cs, signing_pair_2 cs]"

definition private_key :: "cert_store \<Rightarrow> string" where
  "private_key cs = ck_private_key (hd (get_signing_cert_key_pair cs))"

definition public_keys :: "'c jwt_lib \<Rightarrow> cert_store \<Rightarrow> string list" where
  "public_keys lib cs = map (\<lambda>p. jl_public_key lib (ck_private_key p)) (get_signing_cert_key_pair cs)"

subsection \<open>Encoding and decoding\<close>

definition kid :: "'c jwt_lib \<Rightarrow> string \<Rightarrow> string" where
  "kid lib key = take 8 (jl_sha256 lib key)"

definition encode_token :: "'c jwt_lib \<Rightarrow> 'c \<Rightarrow> string list \<Rightarrow> string \<Rightarrow> string" where
  "encode_token lib payload audience key = jl_encode lib (kid lib (jl_public_key lib key)) audience payload key"

text \<open>In the dictionary of the available keys a later key replaces an earlier one with the same id.\<close>

definition available_keys :: "'c jwt_lib \<Rightarrow> string list \<Rightarrow> (string \<times> string) list" where
  "available_keys lib keys = rev (map (\<lambda>key. (kid lib key, key)) keys)"

definition decode_token :: "'c jwt_lib \<Rightarrow> datetime \<Rightarrow> string \<Rightarrow> string list \<Rightarrow> string list \<Rightarrow> 'c option" where
  "decode_token lib now tkn audience keys =
     (case jl_unverified_kid lib tkn of None \<Rightarrow> None
      | Some key_id \<Rightarrow>
          (case Option.bind key_id (map_of (available_keys lib keys)) of None \<Rightarrow> None
           | Some public_key \<Rightarrow> jl_decode lib now tkn public_key audience))"

text \<open>The class \<open>JwtService\<close>: it signs with the newest key and accepts both.\<close>

definition jwt_encode :: "'c jwt_lib \<Rightarrow> cert_store \<Rightarrow> 'c \<Rightarrow> string list \<Rightarrow> string" where
  "jwt_encode lib cs payload audience = encode_token lib payload audience (private_key cs)"

definition jwt_decode :: "'c jwt_lib \<Rightarrow> cert_store \<Rightarrow> datetime \<Rightarrow> string \<Rightarrow> string list \<Rightarrow> 'c option" where
  "jwt_decode lib cs now tkn audience = decode_token lib now tkn audience (public_keys lib cs)"

subsection \<open>Rotating the keys\<close>

text \<open>
  What is used of the library: a signed token is not empty, its header names its key, and it is decoded with the
  public key of the key that signed it, for the same audience, as long as \<open>live\<close> holds of the time and the payload.
\<close>

definition jwt_laws :: "(datetime \<Rightarrow> 'c \<Rightarrow> bool) \<Rightarrow> 'c jwt_lib \<Rightarrow> bool" where
  "jwt_laws live lib \<longleftrightarrow>
     (\<forall>i aud c key. jl_encode lib i aud c key \<noteq> []) \<and>
     (\<forall>i aud c key. jl_unverified_kid lib (jl_encode lib i aud c key) = Some (Some i)) \<and>
     (\<forall>i aud c key now. jl_decode lib now (jl_encode lib i aud c key) (jl_public_key lib key) aud =
        (if live now c then Some c else None))"

definition distinct_kids :: "'c jwt_lib \<Rightarrow> cert_store \<Rightarrow> bool" where
  "distinct_kids lib cs \<longleftrightarrow> distinct (map (kid lib) (public_keys lib cs))"

lemma signing_pairs:
  "get_signing_cert_key_pair cs =
     (if ck_not_after (signing_pair_1 cs) < ck_not_after (signing_pair_2 cs)
      then [signing_pair_2 cs, signing_pair_1 cs] else [signing_pair_1 cs, signing_pair_2 cs])"
  by (simp add: get_signing_cert_key_pair_def)

lemma own_key: "jl_public_key lib (private_key cs) \<in> set (public_keys lib cs)"
  by (simp add: private_key_def public_keys_def signing_pairs)

lemma decode_encoded:
  assumes "jwt_laws live lib" and "jl_public_key lib key \<in> set (public_keys lib cs)" and "distinct_kids lib cs"
  shows "decode_token lib now (encode_token lib c aud key) aud (public_keys lib cs) = (if live now c then Some c else None)"
proof -
  have "distinct (map fst (available_keys lib (public_keys lib cs)))"
    using assms(3) by (simp add: available_keys_def distinct_kids_def rev_map [symmetric] comp_def)
  moreover have "(kid lib (jl_public_key lib key), jl_public_key lib key) \<in> set (available_keys lib (public_keys lib cs))"
    using assms(2) by (simp add: available_keys_def)
  ultimately have "map_of (available_keys lib (public_keys lib cs)) (kid lib (jl_public_key lib key)) =
    Some (jl_public_key lib key)" by (rule map_of_is_SomeI)
  with assms(1) show ?thesis by (simp add: decode_token_def encode_token_def jwt_laws_def)
qed

text \<open>
  A token outlives one rotation of the keys and not two: what the service signed is decoded by every later
  store that still holds the newest key of that time, in either place and however long the certificates are valid,
  until the token expires; a store that holds none of the key's id refuses it.
\<close>

theorem rotation_keeps_tokens:
  assumes laws: "jwt_laws live lib" and kids: "distinct_kids lib cs'"
  shows "(private_key cs \<in> {ck_private_key (signing_pair_1 cs'), ck_private_key (signing_pair_2 cs')} \<longrightarrow>
      jwt_decode lib cs' now (jwt_encode lib cs c aud) aud = (if live now c then Some c else None)) \<and>
    (kid lib (jl_public_key lib (private_key cs)) \<notin> kid lib ` set (public_keys lib cs') \<longrightarrow>
      jwt_decode lib cs' now (jwt_encode lib cs c aud) aud = None)"
proof (intro conjI impI)
  assume "private_key cs \<in> {ck_private_key (signing_pair_1 cs'), ck_private_key (signing_pair_2 cs')}"
  then have "jl_public_key lib (private_key cs) \<in> set (public_keys lib cs')"
    by (auto simp: public_keys_def signing_pairs)
  then show "jwt_decode lib cs' now (jwt_encode lib cs c aud) aud = (if live now c then Some c else None)"
    by (simp add: jwt_decode_def jwt_encode_def decode_encoded [OF laws _ kids])
next
  assume none: "kid lib (jl_public_key lib (private_key cs)) \<notin> kid lib ` set (public_keys lib cs')"
  have "fst ` set (available_keys lib keys) = kid lib ` set keys" for keys
    by (simp add: available_keys_def image_image)
  with none have "map_of (available_keys lib (public_keys lib cs')) (kid lib (jl_public_key lib (private_key cs))) = None"
    unfolding map_of_eq_None_iff by simp
  with laws show "jwt_decode lib cs' now (jwt_encode lib cs c aud) aud = None"
    by (simp add: jwt_decode_def jwt_encode_def decode_token_def encode_token_def jwt_laws_def)
qed

text \<open>A library in which a token is written out in full: a payload is encoded as a number, and expires as it says.\<close>

definition written_jwt :: "('c \<Rightarrow> nat) \<Rightarrow> (nat \<Rightarrow> 'c) \<Rightarrow> (datetime \<Rightarrow> 'c \<Rightarrow> bool) \<Rightarrow> 'c jwt_lib" where
  "written_jwt enc dec live = \<lparr>jl_public_key = (\<lambda>k. k), jl_sha256 = (\<lambda>k. k),
     jl_encode = (\<lambda>i aud c key. replicate (enc c) CHR ''.'' @ CHR '':'' # i),
     jl_unverified_kid = (\<lambda>t. Some (Some (tl (dropWhile (\<lambda>x. x = CHR ''.'') t)))),
     jl_decode = (\<lambda>now t key aud. let c = dec (length (takeWhile (\<lambda>x. x = CHR ''.'') t)) in
       if live now c then Some c else None)\<rparr>"

lemma written_jwt_laws:
  assumes "\<And>c. dec (enc c) = c"
  shows "jwt_laws live (written_jwt enc dec live)"
proof -
  have d: "dropWhile (\<lambda>x. x = CHR ''.'') (replicate n CHR ''.'' @ CHR '':'' # i) = CHR '':'' # i" for n i
    by (induction n) simp_all
  have t: "takeWhile (\<lambda>x. x = CHR ''.'') (replicate n CHR ''.'' @ CHR '':'' # i) = replicate n CHR ''.''" for n i
    by (induction n) simp_all
  show ?thesis by (simp add: jwt_laws_def written_jwt_def d t assms Let_def)
qed

definition sample_jwt :: "nat jwt_lib" where
  "sample_jwt = written_jwt (\<lambda>c. c) (\<lambda>n. n) (\<lambda>now c. now < 100)"

lemma sample_jwt_laws: "jwt_laws (\<lambda>now c. now < 100) sample_jwt"
  by (simp add: sample_jwt_def written_jwt_laws)

definition rotated :: cert_store where
  "rotated = \<lparr>signing_pair_1 = \<lparr>ck_not_after = 900, ck_private_key = ''new''\<rparr>,
     signing_pair_2 = \<lparr>ck_not_after = 500, ck_private_key = ''old''\<rparr>\<rparr>"

lemma rotation_keeps_tokens_witness:
  "let cs = rotated\<lparr>signing_pair_1 := \<lparr>ck_not_after = 100, ck_private_key = ''older''\<rparr>\<rparr> in
   jwt_decode sample_jwt rotated 50 (jwt_encode sample_jwt cs 7 [''a'']) [''a''] = Some 7"
proof -
  let ?cs = "rotated\<lparr>signing_pair_1 := \<lparr>ck_not_after = 100, ck_private_key = ''older''\<rparr>\<rparr>"
  have kids: "distinct_kids sample_jwt rotated"
    by (simp add: distinct_kids_def public_keys_def signing_pairs kid_def sample_jwt_def written_jwt_def rotated_def)
  have "private_key ?cs \<in> {ck_private_key (signing_pair_1 rotated), ck_private_key (signing_pair_2 rotated)}"
    by (simp add: private_key_def signing_pairs rotated_def)
  from mp [OF conjunct1 [OF rotation_keeps_tokens [OF sample_jwt_laws kids, of ?cs 50 7 "[''a'']"]] this]
  show ?thesis by (simp only: Let_def) simp
qed

end
