(* ===== verification/Session.thy ===== *)
theory Session
  imports Jwt_Service User_Manager "HOL-Library.Countable"
begin

section \<open>Sessions\<close>

text \<open>
  \<open>FixJWTStrategy\<close> of \<open>auth/auth_backend.py\<close>, the cookies of \<open>auth/transport.py\<close> and \<open>auth/cookies.py\<close> and the
  dependencies of \<open>auth/depedencies.py\<close> that give a handler its authenticated user. A session is a signed token in
  a cookie; nothing is stored. What \<open>current_user\<close> of \<open>fastapi_users\<close> makes of the user that the strategy found is
  a parameter. Times are integers here: the float of \<open>time.time\<close> is cut to milliseconds without rounding errors.
\<close>

subsection \<open>Responses and cookies\<close>

record cookie =
  ck_name :: string
  ck_value :: string
  ck_max_age :: "int option"
  ck_path :: string
  ck_secure :: bool
  ck_httponly :: bool
  ck_samesite :: string

datatype redirect =
    Location string
  | Location_error string string
    \<comment> \<open>an address with the parameter \<open>oauth_associate_error\<close> added to its query\<close>

record http_response =
  re_status :: nat
  re_location :: "redirect option"
  re_cookies :: "cookie list"

record cookie_transport =
  ct_name :: string
  ct_max_age :: "int option"
  ct_path :: string
  ct_secure :: bool
  ct_httponly :: bool
  ct_samesite :: string

definition session_cookie :: string where
  "session_cookie = ''session_token''"

definition fix_authenticated_cookie :: string where
  "fix_authenticated_cookie = ''fix.authenticated''"

definition session_transport :: "int \<Rightarrow> cookie_transport" where
  "session_transport session_ttl = \<lparr>ct_name = session_cookie, ct_max_age = Some session_ttl, ct_path = ''/'',
     ct_secure = True, ct_httponly = True, ct_samesite = ''lax''\<rparr>"

definition no_content :: http_response where
  "no_content = \<lparr>re_status = 204, re_location = None, re_cookies = []\<rparr>"

definition marker_cookie :: "cookie_transport \<Rightarrow> string \<Rightarrow> cookie" where
  "marker_cookie ct v = \<lparr>ck_name = fix_authenticated_cookie, ck_value = v, ck_max_age = ct_max_age ct, ck_path = ''/'',
     ck_secure = False, ck_httponly = False, ck_samesite = ''lax''\<rparr>"

definition token_cookie :: "cookie_transport \<Rightarrow> string \<Rightarrow> int option \<Rightarrow> cookie" where
  "token_cookie ct v age = \<lparr>ck_name = ct_name ct, ck_value = v, ck_max_age = age, ck_path = ct_path ct,
     ck_secure = ct_secure ct, ck_httponly = ct_httponly ct, ck_samesite = ct_samesite ct\<rparr>"

definition set_login_cookie :: "cookie_transport \<Rightarrow> http_response \<Rightarrow> string \<Rightarrow> http_response" where
  "set_login_cookie ct response tkn =
     response\<lparr>re_cookies := re_cookies response @ [marker_cookie ct ''1'', token_cookie ct tkn (ct_max_age ct)]\<rparr>"

definition set_logout_cookie :: "cookie_transport \<Rightarrow> http_response \<Rightarrow> http_response" where
  "set_logout_cookie ct response =
     response\<lparr>re_cookies := re_cookies response @ [marker_cookie ct ''0'', token_cookie ct [] (Some 0)]\<rparr>"

definition get_login_response :: "cookie_transport \<Rightarrow> string \<Rightarrow> http_response" where
  "get_login_response ct tkn = set_login_cookie ct no_content tkn"

definition get_logout_response :: "cookie_transport \<Rightarrow> http_response" where
  "get_logout_response ct = set_logout_cookie ct no_content"

text \<open>The jar holds the cookies of a request; an empty value is like none.\<close>

definition api_key_cookie :: "bool \<Rightarrow> string \<Rightarrow> (string \<times> string) list \<Rightarrow> string option io" where
  "api_key_cookie auto_error name jar =
     (case map_of jar name of
        Some v \<Rightarrow> if v \<noteq> [] then ret (Some v)
          else if auto_error then raise (HTTPException 403 ''Not authenticated'') else ret None
      | None \<Rightarrow> if auto_error then raise (HTTPException 403 ''Not authenticated'') else ret None)"

subsection \<open>The tokens of a session\<close>

datatype jwt_sub = Sub_uuid uuid | Sub_other string

record session_claims =
  jc_sub :: "jwt_sub option"
  jc_token_origin :: string
  jc_permissions :: "(uuid \<times> permission) list"
  jc_at :: "int option"
    \<comment> \<open>milliseconds\<close>
  jc_exp :: "int option"
    \<comment> \<open>seconds\<close>

record strategy =
  st_certstore :: cert_store
  st_lifetime_seconds :: int
    \<comment> \<open>zero stands for none\<close>
  st_token_audience :: "string list"
  st_lib :: "session_claims jwt_lib"

definition strategy_decode_token :: "strategy \<Rightarrow> string \<Rightarrow> session_claims option io" where
  "strategy_decode_token st tkn =
     bind utc (\<lambda>now.
     ret (decode_token (st_lib st) now tkn (st_token_audience st) (public_keys (st_lib st) (st_certstore st))))"

definition session_claims_at :: "strategy \<Rightarrow> datetime \<Rightarrow> uuid \<Rightarrow> string \<Rightarrow> (uuid \<times> permission) list \<Rightarrow> session_claims" where
  "session_claims_at st now sub token_origin permissions =
     \<lparr>jc_sub = Some (Sub_uuid sub), jc_token_origin = token_origin, jc_permissions = permissions,
      jc_at = Some (now div 1000),
      jc_exp = (if st_lifetime_seconds st \<noteq> 0 then Some ((now + td_seconds (st_lifetime_seconds st)) div 1000000) else None)\<rparr>"

definition strategy_create_token :: "strategy \<Rightarrow> uuid \<Rightarrow> string \<Rightarrow> (uuid \<times> permission) list \<Rightarrow> string io" where
  "strategy_create_token st sub token_origin permissions =
     bind utc (\<lambda>now.
     ret (encode_token (st_lib st) (session_claims_at st now sub token_origin permissions) (st_token_audience st)
       (private_key (st_certstore st))))"

definition all_role_permissions :: "user \<Rightarrow> (uuid \<times> permission) list" where
  "all_role_permissions u = map (\<lambda>role. (ur_workspace_id role, role_permissions role)) (u_roles u)"

definition write_token :: "strategy \<Rightarrow> user \<Rightarrow> string io" where
  "write_token st u = strategy_create_token st (u_id u) ''login'' (all_role_permissions u)"

text \<open>\<open>InvalidID\<close> is a \<open>ValueError\<close> here.\<close>

definition parse_id :: "jwt_sub \<Rightarrow> exn + uuid" where
  "parse_id s = (case s of Sub_uuid i \<Rightarrow> Inr i | Sub_other _ \<Rightarrow> Inl ValueError)"

definition issued_in_time :: "user \<Rightarrow> session_claims \<Rightarrow> bool" where
  "issued_in_time u data =
     (case auth_min_time u of None \<Rightarrow> True
      | Some amt \<Rightarrow> (case jc_at data of None \<Rightarrow> False | Some at \<Rightarrow> \<not> at * 1000 < amt))"

definition read_token :: "strategy \<Rightarrow> string option \<Rightarrow> user option io" where
  "read_token st tkn =
     (case tkn of None \<Rightarrow> ret None
      | Some t \<Rightarrow>
          bind (strategy_decode_token st t) (\<lambda>data.
          case data of None \<Rightarrow> ret None
          | Some data \<Rightarrow>
              (case jc_sub data of None \<Rightarrow> ret None
               | Some user_id \<Rightarrow>
                   catch
                     (bind (lift (parse_id user_id)) (\<lambda>parsed_id.
                      bind (user_of (user_get parsed_id)) (\<lambda>u.
                      ret (if issued_in_time u data then Some u else None))))
                     (\<lambda>e. if e \<in> {UserNotExists, ValueError} then ret None else raise e))))"

subsection \<open>The authenticated user of a request\<close>

text \<open>A request, other than a websocket, that comes with a token about to expire brings a new session.\<close>

definition get_current_active_verified_user :: "strategy \<Rightarrow> bool \<Rightarrow> string option \<Rightarrow> user \<Rightarrow> (user \<times> string option) io" where
  "get_current_active_verified_user st is_request session_token u =
     (if \<not> is_request \<or> \<not> str_true session_token then ret (u, None)
      else
        bind (strategy_decode_token st (the session_token)) (\<lambda>data.
        bind utc (\<lambda>now.
        case data of None \<Rightarrow> ret (u, None)
        | Some data \<Rightarrow>
            let expiry = (case jc_exp data of None \<Rightarrow> 0 | Some e \<Rightarrow> e) in
            if expiry * 1000000 < now + td_hours 1
            then bind (write_token st u) (\<lambda>refreshed. ret (u, Some refreshed))
            else ret (u, None))))"

definition authenticated_user ::
  "(user option \<Rightarrow> exn + user) \<Rightarrow> strategy \<Rightarrow> bool \<Rightarrow> (string \<times> string) list \<Rightarrow> (user \<times> string option) io" where
  "authenticated_user current_user st is_request jar =
     bind (api_key_cookie False session_cookie jar) (\<lambda>tkn.
     bind (read_token st tkn) (\<lambda>found.
     bind (lift (current_user found)) (\<lambda>u.
     get_current_active_verified_user st is_request (map_of jar session_cookie) u)))"

text \<open>The middleware \<open>refresh_session\<close> of \<open>app.py\<close> adds the new session to the response.\<close>

definition refresh_session :: "int \<Rightarrow> string option \<Rightarrow> http_response \<Rightarrow> http_response" where
  "refresh_session session_ttl refreshed response =
     (if str_true refreshed then set_login_cookie (session_transport session_ttl) response (the refreshed) else response)"

subsection \<open>What a token is worth\<close>

text \<open>PyJWT refuses a token from the second of its expiry on.\<close>

definition unexpired :: "datetime \<Rightarrow> session_claims \<Rightarrow> bool" where
  "unexpired now c = (case jc_exp c of None \<Rightarrow> True | Some e \<Rightarrow> now div 1000000 < e)"

definition sound_strategy :: "strategy \<Rightarrow> bool" where
  "sound_strategy st \<longleftrightarrow> jwt_laws unexpired (st_lib st) \<and> distinct_kids (st_lib st) (st_certstore st)"

lemma user_of_get: "user_of (user_get i) w = (case tfind u_id i (users w) of None \<Rightarrow> (Inl UserNotExists, w) | Some u \<Rightarrow> (Inr (load_user w u), w))"
  by (simp add: user_of_def user_get_def split: option.splits)

lemma create_token_claims:
  "strategy_create_token st sub token_origin permissions w =
    (Inr (encode_token (st_lib st) (session_claims_at st (clock w) sub token_origin permissions) (st_token_audience st)
       (private_key (st_certstore st))), w)"
  by (simp add: strategy_create_token_def)

lemma decode_created:
  assumes "sound_strategy st" and "strategy_create_token st sub token_origin permissions w = (Inr t, w')"
  shows "strategy_decode_token st t v =
    (Inr (if unexpired (clock v) (session_claims_at st (clock w) sub token_origin permissions)
          then Some (session_claims_at st (clock w) sub token_origin permissions) else None), v)"
proof -
  have laws: "jwt_laws unexpired (st_lib st)" "distinct_kids (st_lib st) (st_certstore st)"
    using assms(1) by (simp_all add: sound_strategy_def)
  show ?thesis
    using assms(2) by (auto simp: create_token_claims strategy_decode_token_def decode_encoded [OF laws(1) own_key laws(2)])
qed

lemma read_token_user:
  assumes "strategy_decode_token st t w = (Inr (Some data), w)" and "jc_sub data = Some (Sub_uuid i)"
  shows "read_token st (Some t) w =
    (Inr (case tfind u_id i (users w) of None \<Rightarrow> None
          | Some u \<Rightarrow> if issued_in_time (load_user w u) data then Some (load_user w u) else None), w)"
  using assms by (cases "tfind u_id i (users w)") (simp_all add: read_token_def parse_id_def user_of_get)

text \<open>
  A session is what its token says, and no more than its user: a token the strategy created gives, at any
  later state, the user as he is stored then, unless the token has expired, the user is gone or has declared
  tokens of that time invalid. The permissions written into the token and where it came from play no part.
\<close>

theorem session_reads_user:
  assumes st: "sound_strategy st" and created: "strategy_create_token st i token_origin permissions w = (Inr t, w')"
  shows "read_token st (Some t) v =
    (Inr (if st_lifetime_seconds st \<noteq> 0 \<and> (clock w + td_seconds (st_lifetime_seconds st)) div 1000000 \<le> clock v div 1000000
          then None
          else case tfind u_id i (users v) of None \<Rightarrow> None
            | Some u \<Rightarrow>
                (case auth_min_time u of
                   None \<Rightarrow> Some (load_user v u)
                 | Some amt \<Rightarrow> if clock w div 1000 * 1000 < amt then None else Some (load_user v u))), v)"
proof -
  let ?c = "session_claims_at st (clock w) i token_origin permissions"
  have live: "unexpired (clock v) ?c \<longleftrightarrow>
      \<not> (st_lifetime_seconds st \<noteq> 0 \<and> (clock w + td_seconds (st_lifetime_seconds st)) div 1000000 \<le> clock v div 1000000)"
    by (auto simp: unexpired_def session_claims_at_def)
  have sub: "jc_sub ?c = Some (Sub_uuid i)" by (simp add: session_claims_at_def)
  note dec = decode_created [OF st created, of v]
  show ?thesis
  proof (cases "unexpired (clock v) ?c")
    case True
    then have "strategy_decode_token st t v = (Inr (Some ?c), v)" using dec by simp
    from read_token_user [OF this sub] True show ?thesis
      unfolding live
      by (cases "tfind u_id i (users v)")
        (auto simp: issued_in_time_def session_claims_at_def load_user_def split: option.splits)
  next
    case False
    then have "strategy_decode_token st t v = (Inr None, v)" using dec by simp
    with False show ?thesis by (simp add: read_token_def live)
  qed
qed

subsection \<open>A strategy whose tokens are written out\<close>

definition option_code :: "int option \<Rightarrow> nat" where
  "option_code p = (case p of None \<Rightarrow> 0 | Some i \<Rightarrow> Suc (int_encode i))"

definition option_decode :: "nat \<Rightarrow> int option" where
  "option_decode n = (case n of 0 \<Rightarrow> None | Suc m \<Rightarrow> Some (int_decode m))"

definition string_code :: "string \<Rightarrow> nat" where
  "string_code s = list_encode (map of_char s)"

definition string_decode :: "nat \<Rightarrow> string" where
  "string_decode n = map char_of (list_decode n)"

definition sub_code :: "jwt_sub option \<Rightarrow> nat" where
  "sub_code s = (case s of None \<Rightarrow> 0 | Some (Sub_uuid i) \<Rightarrow> 2 * i + 1 | Some (Sub_other t) \<Rightarrow> 2 * string_code t + 2)"

definition sub_decode :: "nat \<Rightarrow> jwt_sub option" where
  "sub_decode n = (if n = 0 then None else if odd n then Some (Sub_uuid ((n - 1) div 2))
     else Some (Sub_other (string_decode ((n - 2) div 2))))"

definition claims_code :: "session_claims \<Rightarrow> nat" where
  "claims_code c = list_encode [sub_code (jc_sub c), string_code (jc_token_origin c),
     list_encode (map (\<lambda>(ws, p). prod_encode (ws, int_encode p)) (jc_permissions c)),
     option_code (jc_at c), option_code (jc_exp c)]"

definition claims_decode :: "nat \<Rightarrow> session_claims" where
  "claims_decode n = (let xs = list_decode n in
     \<lparr>jc_sub = sub_decode (xs ! 0), jc_token_origin = string_decode (xs ! 1),
      jc_permissions = map (\<lambda>k. let (ws, p) = prod_decode k in (ws, int_decode p)) (list_decode (xs ! 2)),
      jc_at = option_decode (xs ! 3), jc_exp = option_decode (xs ! 4)\<rparr>)"

lemma option_decode_code [simp]: "option_decode (option_code p) = p"
  by (simp add: option_decode_def option_code_def split: option.splits)

lemma string_decode_code [simp]: "string_decode (string_code s) = s"
  by (simp add: string_decode_def string_code_def comp_def)

lemma sub_decode_code [simp]: "sub_decode (sub_code s) = s"
  by (auto simp: sub_decode_def sub_code_def split: option.splits jwt_sub.splits)

lemma claims_decode_code: "claims_decode (claims_code c) = c"
  by (cases c) (simp add: claims_decode_def claims_code_def comp_def case_prod_unfold nth_Cons')

definition sample_strategy :: strategy where
  "sample_strategy = \<lparr>st_certstore = rotated, st_lifetime_seconds = 7200, st_token_audience = [''fastapi-users:auth''],
     st_lib = written_jwt claims_code claims_decode unexpired\<rparr>"

lemma sample_strategy_sound: "sound_strategy sample_strategy"
  by (simp add: sound_strategy_def sample_strategy_def written_jwt_laws claims_decode_code distinct_kids_def public_keys_def
      signing_pairs kid_def rotated_def) (simp add: written_jwt_def)

lemma session_reads_user_witness:
  "let w = (empty_world 5 50)\<lparr>users := [sample_user]\<rparr>; v = w\<lparr>clock := 3600 * 1000000\<rparr> in
   \<exists>t. strategy_create_token sample_strategy 2 ''login'' [] w = (Inr t, w) \<and>
     read_token sample_strategy (Some t) v = (Inr (Some sample_user), v)"
proof -
  let ?w = "(empty_world 5 50)\<lparr>users := [sample_user]\<rparr>"
  let ?v = "?w\<lparr>clock := 3600 * 1000000\<rparr>"
  obtain t where t: "strategy_create_token sample_strategy 2 ''login'' [] ?w = (Inr t, ?w)"
    by (simp add: strategy_create_token_def)
  have u: "tfind u_id 2 (users ?v) = Some sample_user" "load_user ?v sample_user = sample_user" "auth_min_time sample_user = None"
    by (simp_all add: sample_user_def load_user_def empty_world_def)
  have "clock ?w = 5" "st_lifetime_seconds sample_strategy = 7200" by (simp_all add: empty_world_def sample_strategy_def)
  with session_reads_user [OF sample_strategy_sound t, of ?v] u
  have "read_token sample_strategy (Some t) ?v = (Inr (Some sample_user), ?v)" by (simp add: td_defs)
  with t show ?thesis by (simp only: Let_def) blast
qed

end
