(* ===== verification/Login_Router.thy ===== *)
theory Login_Router
  imports Session Rate_Limiter Api_Tokens Scheduled_Emails
begin

section \<open>The API of the login\<close>

text \<open>
  \<open>auth/auth_router.py\<close>, \<open>auth/oauth_router.py\<close>, \<open>auth/api_token_router.py\<close> and \<open>auth/users_router.py\<close> with the
  schemas of \<open>auth/schemas.py\<close>. The base classes of \<open>fastapi_users\<close> (which check a password and create a user), the
  identity providers and the signing of their states are parameters; the counter of failed logins is left out. A
  state holds the address to go to after the login and, to link an account, the user.
\<close>

record login_env =
  le_auth :: auth_env
  le_authenticate :: "string \<Rightarrow> string \<Rightarrow> user option io"
    \<comment> \<open>user name and password\<close>
  le_create :: "string \<Rightarrow> string \<Rightarrow> user io"
    \<comment> \<open>e-mail address and password; raises \<open>UserAlreadyExists\<close> and \<open>InvalidPassword\<close>\<close>
  le_current_user :: "user option \<Rightarrow> exn + user"
  le_blocklist :: "string \<Rightarrow> bool"
  le_strategy :: strategy
  le_transport :: cookie_transport

text \<open>\<open>AuthenticationBackend.login\<close> and \<open>logout\<close>: a token cannot be destroyed, only the cookies are.\<close>

definition backend_login :: "login_env \<Rightarrow> user \<Rightarrow> http_response io" where
  "backend_login env u = bind (write_token (le_strategy env) u) (\<lambda>tkn. ret (get_login_response (le_transport env) tkn))"

subsection \<open>The second factor\<close>

definition add_mfa :: "login_env \<Rightarrow> user \<Rightarrow> (string \<times> string list) io" where
  "add_mfa env u =
     (if is_mfa_active u then raise (HTTPException 400 ''MFA already enabled'') else recreate_mfa (le_auth env) u)"

definition api_enable_mfa :: "login_env \<Rightarrow> user \<Rightarrow> string \<Rightarrow> http_response io" where
  "api_enable_mfa env u otp =
     (if is_mfa_active u then raise (HTTPException 400 ''MFA already enabled'')
      else bind (enable_mfa (le_auth env) u otp) (\<lambda>ok.
        if \<not> ok then raise (HTTPException 428 ''OTP_NOT_PROVIDED_OR_INVALID'') else ret no_content))"

definition api_disable_mfa :: "login_env \<Rightarrow> user \<Rightarrow> string option \<Rightarrow> string option \<Rightarrow> http_response io" where
  "api_disable_mfa env u otp recovery_code =
     (if is_mfa_active u then
        bind (disable_mfa (le_auth env) u otp recovery_code) (\<lambda>ok.
        if \<not> ok then raise (HTTPException 428 ''OTP_NOT_PROVIDED_OR_INVALID'') else ret no_content)
      else ret no_content)"

subsection \<open>Login, logout and registration\<close>

record login_form =
  lf_username :: string
  lf_password :: string
  lf_otp :: "string option"
  lf_recovery_code :: "string option"

definition rate_limiter_key :: "login_form \<Rightarrow> string option \<Rightarrow> string" where
  "rate_limiter_key credentials host =
     (case host of None \<Rightarrow> lf_username credentials | Some h \<Rightarrow> lf_username credentials @ '':'' @ h)"

text \<open>What \<open>login\<close> does with an active user whose password was right.\<close>

definition login_verified :: "login_env \<Rightarrow> login_form \<Rightarrow> user \<Rightarrow> http_response io" where
  "login_verified env credentials u =
     (if \<not> is_verified u then raise (HTTPException 400 ''LOGIN_USER_NOT_VERIFIED'')
      else
        bind (if is_mfa_active u then check_otp (le_auth env) u (lf_otp credentials) (lf_recovery_code credentials)
          else ret True) (\<lambda>passed.
        if \<not> passed then raise (HTTPException 428 ''OTP_NOT_PROVIDED_OR_INVALID'')
        else
          bind (backend_login env u) (\<lambda>response.
          bind (on_after_login u) (\<lambda>_. ret response))))"

definition api_login :: "login_env \<Rightarrow> limiter \<Rightarrow> login_form \<Rightarrow> string option \<Rightarrow> http_response io" where
  "api_login env l credentials host =
     bind (consume l (rate_limiter_key credentials host)) (\<lambda>allowed.
     if \<not> allowed
     then raise (HTTPException 429 ''Too many login attempts, please try again in 15 seconds'')
     else
       bind (le_authenticate env (lf_username credentials) (lf_password credentials)) (\<lambda>found.
       if (case found of None \<Rightarrow> True | Some u \<Rightarrow> \<not> is_active u)
       then bind (user_get_by_email (lf_username credentials)) (\<lambda>_. raise (HTTPException 400 ''LOGIN_BAD_CREDENTIALS''))
       else login_verified env credentials (the found)))"

definition logout :: "login_env \<Rightarrow> (user option \<times> string option) \<Rightarrow> http_response io" where
  "logout env user_token =
     (case user_token of
        (Some u, Some tkn) \<Rightarrow> ret (get_logout_response (le_transport env))
      | _ \<Rightarrow> ret no_content)"

definition jwt_expire :: "user \<Rightarrow> datetime option \<Rightarrow> http_response io" where
  "jwt_expire u expire_older_than =
     bind utc (\<lambda>now.
     let ts = (case expire_older_than of Some t \<Rightarrow> t | None \<Rightarrow> now) in
     bind (update_partial (u_id u) None None (Some ts)) (\<lambda>_. ret no_content))"

record user_read =
  us_id :: uuid
  us_email :: string
  us_is_active :: bool
  us_is_superuser :: bool
  us_is_verified :: bool
  us_is_mfa_active :: bool

definition user_read_of :: "user \<Rightarrow> user_read" where
  "user_read_of u = \<lparr>us_id = u_id u, us_email = u_email u, us_is_active = is_active u, us_is_superuser = is_superuser u,
     us_is_verified = is_verified u, us_is_mfa_active = is_mfa_active u\<rparr>"

text \<open>\<open>email.split("@")[-1]\<close>; the reason is a part of the detail of a refused password.\<close>

definition last_part :: "string \<Rightarrow> string" where
  "last_part email = rev (takeWhile (\<lambda>c. c \<noteq> CHR ''@'') (rev email))"

definition register :: "login_env \<Rightarrow> string \<Rightarrow> string \<Rightarrow> user_read io" where
  "register env email password =
     (if le_blocklist env (last_part email)
      then raise (HTTPException 400 ''Disposable email domains are not allowed'')
      else
        bind (catch (le_create env email password)
          (\<lambda>e. case e of
             UserAlreadyExists \<Rightarrow> raise (HTTPException 400 ''REGISTER_USER_ALREADY_EXISTS'')
           | InvalidPassword reason \<Rightarrow> raise (HTTPException 400 (''REGISTER_INVALID_PASSWORD: '' @ reason))
           | _ \<Rightarrow> raise e)) (\<lambda>u.
        ret (user_read_of u)))"

subsection \<open>Identity providers\<close>

record oauth_provider =
  op_name :: string
  op_is_github :: bool
  op_authorization_url :: "string \<Rightarrow> string \<Rightarrow> string"
    \<comment> \<open>callback, state\<close>
  op_get_id_email :: "string \<Rightarrow> exn + (string \<times> string option)"
  op_get_id_email_username :: "string \<Rightarrow> exn + (string \<times> string option \<times> string option)"
    \<comment> \<open>only of GitHub\<close>

record oauth_token =
  ot_access_token :: string
  ot_expires_at :: "int option"
  ot_refresh_token :: "string option"

text \<open>What the library makes of a state: its data, an expired or malformed token, or another exception.\<close>

datatype oauth_state =
    State_data "(string \<times> string) list"
  | State_undecodable
  | State_refused

record oauth_codec =
  oc_generate :: "(string \<times> string) list \<Rightarrow> datetime \<Rightarrow> string"
  oc_decode :: "datetime \<Rightarrow> string \<Rightarrow> oauth_state"

definition oauth_audience :: string where
  "oauth_audience = ''fastapi-users:oauth-state''"

definition generate_oauth_state :: "oauth_codec \<Rightarrow> (string \<times> string) list \<Rightarrow> int \<Rightarrow> string io" where
  "generate_oauth_state codec state_data lifetime_seconds =
     bind utc (\<lambda>now.
     ret (oc_generate codec (state_data @ [(''aud'', oauth_audience)]) (now + td_seconds lifetime_seconds)))"

definition login_route :: "oauth_provider \<Rightarrow> string" where
  "login_route p = ''oauth:'' @ op_name p @ ''.jwt.callback''"

definition associate_route :: "oauth_provider \<Rightarrow> string" where
  "associate_route p = ''oauth-associate:'' @ op_name p @ ''.callback''"

text \<open>\<open>url_for\<close> is the address of a route of the application.\<close>

definition get_auth_url :: "(string \<Rightarrow> string) \<Rightarrow> string \<Rightarrow> oauth_provider \<Rightarrow> string \<times> string" where
  "get_auth_url url_for state p = (op_name p, op_authorization_url p (url_for (login_route p)) state)"

definition get_associate_url :: "(string \<Rightarrow> string) \<Rightarrow> string \<Rightarrow> oauth_provider \<Rightarrow> string" where
  "get_associate_url url_for state p = op_authorization_url p (url_for (associate_route p)) state"

definition list_all_oauth_providers ::
  "oauth_codec \<Rightarrow> int \<Rightarrow> (string \<Rightarrow> string) \<Rightarrow> oauth_provider list \<Rightarrow> string \<Rightarrow> (string \<times> string) list io" where
  "list_all_oauth_providers codec ttl url_for clients redirect_url =
     bind (generate_oauth_state codec [(''redirect_url'', redirect_url)] ttl) (\<lambda>state.
     ret (map (get_auth_url url_for state) clients))"

text \<open>\<open>authorize\<close> of both routers; without a redirect address the default is used later.\<close>

definition authorize :: "oauth_codec \<Rightarrow> (string \<Rightarrow> string) \<Rightarrow> oauth_provider \<Rightarrow> string io" where
  "authorize codec url_for p =
     bind (generate_oauth_state codec [] 3600) (\<lambda>state.
     ret (op_authorization_url p (url_for (login_route p)) state))"

definition authorize_associate :: "oauth_codec \<Rightarrow> (string \<Rightarrow> string) \<Rightarrow> oauth_provider \<Rightarrow> user \<Rightarrow> string io" where
  "authorize_associate codec url_for p u =
     bind (generate_oauth_state codec [(''sub'', uuid_str (u_id u))] 3600) (\<lambda>state.
     ret (op_authorization_url p (url_for (associate_route p)) state))"

definition links_of :: "user \<Rightarrow> oauth_account_row list io" where
  "links_of u = gets (\<lambda>w. filter (\<lambda>a. oa_user_id a = u_id u) (oauth_accounts w))"

definition unlink_oauth_account :: "user \<Rightarrow> uuid \<Rightarrow> unit io" where
  "unlink_oauth_account u provider_id =
     bind (links_of u) (\<lambda>links.
     if provider_id \<notin> oa_id ` set links then raise (HTTPException 403 ''Not allowed to unlink this provider'')
     else remove_oauth_account provider_id)"

record associate_url =
  as_name :: string
  as_associated :: bool
  as_account_email :: "string option"
  as_account_id :: "uuid option"
  as_auth_url :: string

definition linked_url :: "(string \<Rightarrow> string) \<Rightarrow> string \<Rightarrow> oauth_provider list \<Rightarrow> oauth_account_row \<Rightarrow> associate_url option" where
  "linked_url url_for state clients a =
     map_option (\<lambda>p. \<lparr>as_name = oa_oauth_name a, as_associated = True,
         as_account_email = (if str_true (oa_username a) then oa_username a else Some (oa_account_email a)),
         as_account_id = Some (oa_id a), as_auth_url = get_associate_url url_for state p\<rparr>)
       (find (\<lambda>p. op_name p = oa_oauth_name a) clients)"

definition unlinked_url :: "(string \<Rightarrow> string) \<Rightarrow> string \<Rightarrow> oauth_provider \<Rightarrow> associate_url" where
  "unlinked_url url_for state p = \<lparr>as_name = op_name p, as_associated = False, as_account_email = None,
     as_account_id = None, as_auth_url = get_associate_url url_for state p\<rparr>"

definition list_oauth_associate_providers ::
  "oauth_codec \<Rightarrow> int \<Rightarrow> (string \<Rightarrow> string) \<Rightarrow> oauth_provider list \<Rightarrow> user \<Rightarrow> string \<Rightarrow> associate_url list io" where
  "list_oauth_associate_providers codec ttl url_for clients u redirect_url =
     bind (generate_oauth_state codec [(''redirect_url'', redirect_url), (''sub'', uuid_str (u_id u))] ttl) (\<lambda>state.
     bind (links_of u) (\<lambda>links.
     ret (List.map_filter (linked_url url_for state clients) links @
       map (unlinked_url url_for state) (filter (\<lambda>p. op_name p \<notin> oa_oauth_name ` set links) clients))))"

subsection \<open>Coming back from the provider\<close>

text \<open>\<open>urllib.parse.quote\<close> on the bytes of an address, with the safe characters of the call.\<close>

definition hex_upper :: "nat \<Rightarrow> char" where
  "hex_upper d = ''0123456789ABCDEF'' ! (d mod 16)"

definition url_safe :: "char \<Rightarrow> bool" where
  "url_safe c \<longleftrightarrow> in_range 65 90 c \<or> in_range 97 122 c \<or> in_range 48 57 c \<or>
     c \<in> set ''_.-~'' \<or> c \<in> set '':/%#?=@[]!$&'' \<or> c \<in> set ''()*+,;'' \<or> c = CHR 0x27"

definition quote :: "string \<Rightarrow> string" where
  "quote s = concat (map (\<lambda>c. if url_safe c then [c]
     else [CHR ''%'', hex_upper (of_char c div 16), hex_upper (of_char c)]) s)"

definition redirect_response :: "redirect \<Rightarrow> http_response" where
  "redirect_response l = \<lparr>re_status = 303, re_location = Some l, re_cookies = []\<rparr>"

definition redirect_to_root :: http_response where
  "redirect_to_root = redirect_response (Location ''/'')"

definition state_redirect :: "(string \<times> string) list \<Rightarrow> string" where
  "state_redirect d = (case map_of d ''redirect_url'' of None \<Rightarrow> ''/'' | Some url \<Rightarrow> url)"

definition oauth_data_of :: "oauth_provider \<Rightarrow> oauth_token \<Rightarrow> string \<Rightarrow> string \<Rightarrow> string option \<Rightarrow> oauth_data" where
  "oauth_data_of p tkn account_id account_email username =
     \<lparr>od_oauth_name = op_name p, od_access_token = ot_access_token tkn, od_account_id = account_id,
      od_account_email = account_email, od_expires_at = ot_expires_at tkn, od_refresh_token = ot_refresh_token tkn,
      od_username = username\<rparr>"

text \<open>The provider is asked twice; only the user name of the first answer is used.\<close>

definition first_answer :: "oauth_provider \<Rightarrow> oauth_token \<Rightarrow> exn + string option" where
  "first_answer p tkn =
     (if op_is_github p then map_sum id (\<lambda>(_, _, username). username) (op_get_id_email_username p (ot_access_token tkn))
      else map_sum id (\<lambda>_. None) (op_get_id_email p (ot_access_token tkn)))"

definition oauth_login_callback :: "login_env \<Rightarrow> oauth_codec \<Rightarrow> oauth_provider \<Rightarrow> oauth_token \<Rightarrow> string \<Rightarrow> http_response io" where
  "oauth_login_callback env codec p tkn state =
     bind (lift (first_answer p tkn)) (\<lambda>username.
     bind utc (\<lambda>now.
     case oc_decode codec now state of
       State_undecodable \<Rightarrow> ret redirect_to_root
     | State_refused \<Rightarrow> raise ExternalError
     | State_data decoded_state \<Rightarrow>
         bind (lift (op_get_id_email p (ot_access_token tkn))) (\<lambda>(account_id, account_email).
         case account_email of None \<Rightarrow> ret redirect_to_root
         | Some email \<Rightarrow>
             bind (catch
               (bind (oauth_callback (le_auth env) (oauth_data_of p tkn account_id email username) True True)
                 (\<lambda>u. ret (Some u)))
               (\<lambda>e. if e = UserAlreadyExists then ret None else raise e)) (\<lambda>found.
             case found of None \<Rightarrow> ret redirect_to_root
             | Some u \<Rightarrow>
                 if \<not> is_active u then ret redirect_to_root
                 else
                   bind (backend_login env u) (\<lambda>response.
                   let answer = response\<lparr>re_location := Some (Location (quote (state_redirect decoded_state))), re_status := 303\<rparr> in
                   bind (on_after_login u) (\<lambda>_. ret answer))))))"

definition redirect_with_error :: "string \<Rightarrow> string \<Rightarrow> http_response" where
  "redirect_with_error url error = redirect_response (Location_error url error)"

definition oauth_associate_handler :: "oauth_codec \<Rightarrow> oauth_provider \<Rightarrow> user \<Rightarrow> oauth_token \<Rightarrow> string \<Rightarrow> http_response io" where
  "oauth_associate_handler codec p u tkn state =
     bind (if op_is_github p then lift (first_answer p tkn) else ret None) (\<lambda>username.
     bind utc (\<lambda>now.
     case oc_decode codec now state of
       State_undecodable \<Rightarrow> ret (redirect_with_error ''/'' ''invalid_state_token'')
     | State_refused \<Rightarrow> raise ExternalError
     | State_data state_data \<Rightarrow>
         let redirect_url = state_redirect state_data in
         bind (lift (op_get_id_email p (ot_access_token tkn))) (\<lambda>(account_id, account_email).
         case account_email of None \<Rightarrow> ret (redirect_with_error redirect_url ''no_email_returned_by_provider'')
         | Some email \<Rightarrow>
             if map_of state_data ''sub'' \<noteq> Some (uuid_str (u_id u)) then ret (redirect_with_error redirect_url ''invalid_user'')
             else
               catch
                 (bind (oauth_associate_callback u (oauth_data_of p tkn account_id email username)) (\<lambda>_.
                  ret (redirect_response (Location (quote redirect_url)))))
                 (\<lambda>e. if e = UserAlreadyExists then ret (redirect_with_error redirect_url ''account_already_associated'')
                   else raise e))))"

subsection \<open>API tokens\<close>

record api_token_details =
  td_name :: string
  td_workspace_id :: "uuid option"
  td_permission :: "int option"
  td_last_used_at :: "datetime option"
  td_created_at :: datetime
  td_updated_at :: datetime

definition details_from_token :: "api_token_row \<Rightarrow> api_token_details" where
  "details_from_token t = \<lparr>td_name = tk_name t, td_workspace_id = tk_workspace_id t, td_permission = tk_permission t,
     td_last_used_at = tk_last_used_at t, td_created_at = tk_created_at t, td_updated_at = tk_updated_at t\<rparr>"

definition access :: "crypt \<Rightarrow> strategy \<Rightarrow> string \<Rightarrow> string io" where
  "access cr st api_token =
     bind (login cr api_token) (\<lambda>claims.
     strategy_create_token st (cl_user claims) ''api_token'' (cl_permissions claims))"

definition api_create_token :: "crypt \<Rightarrow> string \<Rightarrow> user \<Rightarrow> string \<Rightarrow> int option \<Rightarrow> uuid option \<Rightarrow> string io" where
  "api_create_token cr password u name permission workspace_id =
     bind (create_token cr password u name permission workspace_id) (\<lambda>created. ret (snd created))"

definition api_delete_token :: "crypt \<Rightarrow> user \<Rightarrow> string option \<Rightarrow> string option \<Rightarrow> http_response io" where
  "api_delete_token cr u tkn name = bind (delete_token cr u name tkn) (\<lambda>_. ret no_content)"

definition api_token_info :: "crypt \<Rightarrow> user \<Rightarrow> string option \<Rightarrow> string option \<Rightarrow> api_token_details option io" where
  "api_token_info cr u tkn name = bind (token_info cr u name tkn) (\<lambda>info. ret (map_option details_from_token info))"

definition list_token :: "user \<Rightarrow> api_token_details list io" where
  "list_token u = bind (list_tokens u) (\<lambda>ts. ret (map details_from_token ts))"

subsection \<open>The settings of a user\<close>

record user_notification_settings_read =
  nr_weekly_report :: bool
  nr_inactivity_reminder :: bool
  nr_tutorial :: bool
  nr_marketing :: bool

definition settings_from_model :: "notification_settings_row \<Rightarrow> user_notification_settings_read" where
  "settings_from_model s = \<lparr>nr_weekly_report = ns_weekly_report s, nr_inactivity_reminder = ns_inactivity_reminder s,
     nr_tutorial = ns_tutorial s, nr_marketing = ns_marketing s\<rparr>"

definition get_user_notification_settings :: "user \<Rightarrow> user_notification_settings_read io" where
  "get_user_notification_settings u = bind (get_notification_settings (u_id u)) (\<lambda>s. ret (settings_from_model s))"

definition update_user_notification_settings ::
  "user \<Rightarrow> bool option \<Rightarrow> bool option \<Rightarrow> bool option \<Rightarrow> bool option \<Rightarrow> user_notification_settings_read io" where
  "update_user_notification_settings u weekly_report inactivity_reminder tutorial marketing =
     bind (update_notification_settings (User_id (u_id u)) weekly_report inactivity_reminder tutorial marketing) (\<lambda>s.
     ret (settings_from_model s))"

definition signal_active :: "user \<Rightarrow> http_response io" where
  "signal_active u = bind utc (\<lambda>now. bind (update_partial (u_id u) None (Some now) None) (\<lambda>_. ret no_content))"

subsection \<open>Who gets a session\<close>

lemma check_otp_passed:
  assumes "is_mfa_active u" and "check_otp env u otp code w = (Inr True, w')"
  shows "(\<exists>secret p. otp_secret u = Some secret \<and> secret \<noteq> [] \<and> otp = Some p \<and> au_totp env secret p) \<or>
    (\<exists>c\<in>set (recovery_codes w). \<exists>k. code = Some k \<and> rc_user_id c = u_id u \<and>
      au_verify_password env k (rc_code_hash c) \<and> c \<notin> set (recovery_codes w'))"
proof -
  consider (otp) secret p where "otp_secret u = Some secret" "secret \<noteq> []" "otp = Some p" "p \<noteq> []"
    | (code) k where "\<not> (str_true (otp_secret u) \<and> str_true otp)" "code = Some k" "k \<noteq> []"
    | (none) "\<not> (str_true (otp_secret u) \<and> str_true otp)" "\<not> str_true code"
    by (cases "otp_secret u"; cases otp; cases code) auto
  then show ?thesis
  proof cases
    case code
    with assms have "delete_recovery_code (au_verify_password env) (u_id u) k w = (Inr True, w')"
      by (simp add: check_otp_def)
    with delete_recovery_code_cases [of "au_verify_password env" "u_id u" k w] code(2) show ?thesis by auto
  qed (use assms in \<open>auto simp: check_otp_def\<close>)
qed

lemma on_after_login_run:
  assumes "on_after_login u w = (Inr (), w')"
  shows "recovery_codes w' = recovery_codes w \<and> events w' = events w @ [UserLoggedIn (u_id u) (u_email u)]"
  using assms by (auto simp: on_after_login_def publish_def update_partial_def user_update_def bind_def split: option.splits)

lemma backend_login_run:
  "\<exists>tkn. write_token (le_strategy env) u w = (Inr tkn, w) \<and>
     backend_login env u w = (Inr (get_login_response (le_transport env) tkn), w)"
  by (simp add: backend_login_def write_token_def create_token_claims)

lemma login_verified_run:
  assumes "login_verified env credentials u w = (Inr r, w')"
  shows "\<exists>w3 tkn. is_verified u \<and>
    (is_mfa_active u \<longrightarrow> check_otp (le_auth env) u (lf_otp credentials) (lf_recovery_code credentials) w = (Inr True, w3)) \<and>
    write_token (le_strategy env) u w3 = (Inr tkn, w3) \<and> r = get_login_response (le_transport env) tkn \<and>
    recovery_codes w' = recovery_codes w3 \<and> events w' = events w3 @ [UserLoggedIn (u_id u) (u_email u)]"
proof -
  have v: "is_verified u" using assms by (auto simp: login_verified_def split: if_splits)
  with assms obtain passed w3 where
    p: "(if is_mfa_active u then check_otp (le_auth env) u (lf_otp credentials) (lf_recovery_code credentials)
      else ret True) w = (Inr passed, w3)" and
    rest: "(if \<not> passed then raise (HTTPException 428 ''OTP_NOT_PROVIDED_OR_INVALID'')
      else bind (backend_login env u) (\<lambda>response. bind (on_after_login u) (\<lambda>_. ret response))) w3 = (Inr r, w')"
    by (auto simp: login_verified_def elim: bind_InrE)
  have passed using rest by (cases passed) simp_all
  obtain tkn where t: "write_token (le_strategy env) u w3 = (Inr tkn, w3)"
    "backend_login env u w3 = (Inr (get_login_response (le_transport env) tkn), w3)" using backend_login_run by blast
  have "on_after_login u w3 = (Inr (), w')" and r: "r = get_login_response (le_transport env) tkn"
    using rest \<open>passed\<close> t(2) by (auto elim: bind_InrE)
  moreover have "is_mfa_active u \<longrightarrow>
      check_otp (le_auth env) u (lf_otp credentials) (lf_recovery_code credentials) w = (Inr True, w3)"
    using p \<open>passed\<close> by (intro impI) simp
  ultimately show ?thesis using on_after_login_run v t(1) by (intro exI [where x = w3] exI [where x = tkn]) blast
qed

text \<open>
  C13: A login with a password gives a session only to its user: when it answers at all, the limiter has let the
  attempt pass, the password was that of an active and verified user, and a user with a second factor has shown a
  valid one-time password or a recovery code of his that is gone now; the session in the answer is a login token of
  this user, and the login is announced. In every other case it raises and no cookie is set.
\<close>

theorem login_guarded:
  assumes answer: "api_login env l credentials host w = (Inr r, w')"
  shows "\<exists>u w1 w2 w3 tkn. consume l (rate_limiter_key credentials host) w = (Inr True, w1) \<and>
    le_authenticate env (lf_username credentials) (lf_password credentials) w1 = (Inr (Some u), w2) \<and>
    is_active u \<and> is_verified u \<and>
    (is_mfa_active u \<longrightarrow>
      (\<exists>secret p. otp_secret u = Some secret \<and> secret \<noteq> [] \<and> lf_otp credentials = Some p \<and> au_totp (le_auth env) secret p) \<or>
      (\<exists>c\<in>set (recovery_codes w2). \<exists>k. lf_recovery_code credentials = Some k \<and> rc_user_id c = u_id u \<and>
        au_verify_password (le_auth env) k (rc_code_hash c) \<and> c \<notin> set (recovery_codes w'))) \<and>
    strategy_create_token (le_strategy env) (u_id u) ''login'' (all_role_permissions u) w3 = (Inr tkn, w3) \<and>
    r = get_login_response (le_transport env) tkn \<and>
    events w' = events w3 @ [UserLoggedIn (u_id u) (u_email u)]"
proof -
  from answer [unfolded api_login_def] obtain allowed w1 where
    c: "consume l (rate_limiter_key credentials host) w = (Inr allowed, w1)" and
    rest: "(if \<not> allowed then raise (HTTPException 429 ''Too many login attempts, please try again in 15 seconds'')
     else bind (le_authenticate env (lf_username credentials) (lf_password credentials)) (\<lambda>found.
       if (case found of None \<Rightarrow> True | Some u \<Rightarrow> \<not> is_active u)
       then bind (user_get_by_email (lf_username credentials)) (\<lambda>_. raise (HTTPException 400 ''LOGIN_BAD_CREDENTIALS''))
       else login_verified env credentials (the found))) w1 = (Inr r, w')" by (rule bind_InrE)
  have allowed using rest by (cases allowed) simp_all
  with rest obtain found w2 where
    a: "le_authenticate env (lf_username credentials) (lf_password credentials) w1 = (Inr found, w2)" and
    rest: "(if (case found of None \<Rightarrow> True | Some u \<Rightarrow> \<not> is_active u)
       then bind (user_get_by_email (lf_username credentials)) (\<lambda>_. raise (HTTPException 400 ''LOGIN_BAD_CREDENTIALS''))
       else login_verified env credentials (the found)) w2 = (Inr r, w')"
    by (auto elim: bind_InrE)
  have bad: "bind (user_get_by_email e) (\<lambda>_. raise x) v \<noteq> (Inr r, w')" for e x v by (auto elim!: bind_InrE)
  obtain u where u: "found = Some u" "is_active u" and run: "login_verified env credentials u w2 = (Inr r, w')"
    using rest bad by (cases found) (auto split: if_splits)
  from login_verified_run [OF run] obtain w3 tkn where ran: "is_verified u"
    "is_mfa_active u \<longrightarrow> check_otp (le_auth env) u (lf_otp credentials) (lf_recovery_code credentials) w2 = (Inr True, w3)"
    "write_token (le_strategy env) u w3 = (Inr tkn, w3)" "r = get_login_response (le_transport env) tkn"
    "recovery_codes w' = recovery_codes w3" "events w' = events w3 @ [UserLoggedIn (u_id u) (u_email u)]" by blast
  have factor: "is_mfa_active u \<longrightarrow>
      (\<exists>secret p. otp_secret u = Some secret \<and> secret \<noteq> [] \<and> lf_otp credentials = Some p \<and> au_totp (le_auth env) secret p) \<or>
      (\<exists>c\<in>set (recovery_codes w2). \<exists>k. lf_recovery_code credentials = Some k \<and> rc_user_id c = u_id u \<and>
        au_verify_password (le_auth env) k (rc_code_hash c) \<and> c \<notin> set (recovery_codes w'))"
    unfolding ran(5) using ran(2) by (intro impI check_otp_passed) simp_all
  show ?thesis
    by (intro exI conjI)
      (use c \<open>allowed\<close> in simp, use a u(1) in simp, rule u(2), rule ran(1), rule factor,
        rule ran(3) [unfolded write_token_def], rule ran(4), rule ran(6))
qed

definition sample_login :: login_env where
  "sample_login = \<lparr>le_auth = sample_auth, le_authenticate = (\<lambda>name password. if password = ''pw'' then user_get_by_email name else ret None),
     le_create = (\<lambda>email password. user_create email password False), le_current_user = (\<lambda>found. case found of
       Some u \<Rightarrow> if \<not> is_active u then Inl (HTTPException 401 ''Unauthorized'')
         else if \<not> is_verified u then Inl (HTTPException 403 ''Forbidden'') else Inr u
     | None \<Rightarrow> Inl (HTTPException 401 ''Unauthorized'')),
     le_blocklist = (\<lambda>d. d = ''spam''), le_strategy = sample_strategy, le_transport = session_transport 7200\<rparr>"

definition sample_limiter :: limiter where
  "sample_limiter = \<lparr>rl_limit = 5, rl_window = 60\<rparr>"

lemma login_guarded_witness:
  "let w = (empty_world 5 50)\<lparr>users := [sample_user]\<rparr>;
       form = \<lparr>lf_username = ''Ann@example.com'', lf_password = ''pw'', lf_otp = Some ''s'', lf_recovery_code = None\<rparr> in
   \<exists>r w'. api_login sample_login sample_limiter form None w = (Inr r, w') \<and>
     last (events w') = UserLoggedIn 2 ''Ann@example.com'' \<and> map ck_name (re_cookies r) = [''fix.authenticated'', ''session_token'']"
proof -
  let ?w = "(empty_world 5 50)\<lparr>users := [sample_user]\<rparr>"
  let ?form = "\<lparr>lf_username = ''Ann@example.com'', lf_password = ''pw'', lf_otp = Some ''s'', lf_recovery_code = None\<rparr>"
  have key: "rate_limiter_key ?form None = ''Ann@example.com''" by (simp add: rate_limiter_key_def)
  obtain w1 where c: "consume sample_limiter ''Ann@example.com'' ?w = (Inr True, w1)" "users w1 = [sample_user]" "role_rows w1 = []"
    using below_one_now [of sample_limiter 5] by (simp add: consume_def sample_limiter_def empty_world_def Let_def)
  have id: "load_user w1 sample_user = sample_user" using c(3) by (simp add: load_user_def sample_user_def)
  have a: "le_authenticate sample_login ''Ann@example.com'' ''pw'' w1 = (Inr (Some sample_user), w1)"
    by (simp add: sample_login_def user_get_by_email_def c(2) id scalar_unique_def) (simp add: sample_user_def)
  have u: "is_active sample_user" "is_verified sample_user" "is_mfa_active sample_user"
    "check_otp (le_auth sample_login) sample_user (Some ''s'') None w1 = (Inr True, w1)" "u_id sample_user = 2"
    by (simp_all add: sample_user_def check_otp_def sample_login_def sample_auth_def)
  have "\<exists>w'. on_after_login sample_user w1 = (Inr (), w')"
    using c(2) by (simp add: on_after_login_def publish_def update_partial_def user_update_def)
  then obtain w' r where "login_verified sample_login ?form sample_user w1 = (Inr r, w')"
    using u backend_login_run [of sample_login sample_user w1] by (auto simp: login_verified_def)
  then have run: "api_login sample_login sample_limiter ?form None ?w = (Inr r, w')"
    by (simp add: api_login_def key c(1) a u(1))
  from login_guarded [OF run] obtain v x1 x2 tkn and x3 :: world where *: "consume sample_limiter (rate_limiter_key ?form None) ?w = (Inr True, x1)"
    "le_authenticate sample_login (lf_username ?form) (lf_password ?form) x1 = (Inr (Some v), x2)"
    "r = get_login_response (le_transport sample_login) tkn" "events w' = events x3 @ [UserLoggedIn (u_id v) (u_email v)]"
    by blast
  have "x1 = w1" using *(1) c(1) unfolding key by simp
  then have "v = sample_user" using *(2) a by simp
  then have "last (events w') = UserLoggedIn 2 ''Ann@example.com''" using *(4) by (simp add: sample_user_def)
  moreover have "map ck_name (re_cookies r) = [''fix.authenticated'', ''session_token'']"
    by (simp add: *(3) get_login_response_def set_login_cookie_def no_content_def marker_cookie_def token_cookie_def
        sample_login_def session_transport_def fix_authenticated_cookie_def session_cookie_def)
  ultimately show ?thesis
    unfolding Let_def by (intro exI [where x = r] exI [where x = w'] conjI) (rule run)
qed

subsection \<open>What an API token becomes\<close>

text \<open>
  C15: A token for the API becomes a full session: the web token that \<open>access\<close> trades for an API token, whatever
  workspace and permissions this one is restricted to, is accepted as the cookie of a session. The handlers see the
  user with all his roles, and in the last hour before it expires the answer brings a login token with all their
  permissions.
\<close>

theorem api_token_becomes_session:
  assumes st: "sound_strategy st" "0 < st_lifetime_seconds st"
    and login: "login cr api_token w = (Inr claims, w1)"
    and stored: "tfind u_id (cl_user claims) (users v) = Some u" "auth_min_time u = None"
    and accepted: "current_user (Some (load_user v u)) = Inr (load_user v u)"
    and near: "clock v div 1000000 < (clock w1 + td_seconds (st_lifetime_seconds st)) div 1000000"
      "clock w1 + td_seconds (st_lifetime_seconds st) < clock v + td_hours 1"
  shows "\<exists>jwt session claims'. access cr st api_token w = (Inr jwt, w1) \<and>
    authenticated_user current_user st True [(session_cookie, jwt)] v = (Inr (load_user v u, Some session), v) \<and>
    strategy_decode_token st session v = (Inr (Some claims'), v) \<and> jc_token_origin claims' = ''login'' \<and>
    jc_permissions claims' = all_role_permissions (load_user v u)"
proof -
  obtain jwt where jwt: "strategy_create_token st (cl_user claims) ''api_token'' (cl_permissions claims) w1 = (Inr jwt, w1)"
    by (simp add: create_token_claims)
  have acc: "access cr st api_token w = (Inr jwt, w1)" using login jwt by (simp add: access_def)
  have laws: "jwt_laws unexpired (st_lib st)" using st(1) by (simp add: sound_strategy_def)
  have ne: "jwt \<noteq> []" using jwt laws by (auto simp: create_token_claims encode_token_def jwt_laws_def)
  have read: "read_token st (Some jwt) v = (Inr (Some (load_user v u)), v)"
    using session_reads_user [OF st(1) jwt, of v] near(1) stored by simp
  let ?c = "session_claims_at st (clock w1) (cl_user claims) ''api_token'' (cl_permissions claims)"
  have "unexpired (clock v) ?c" using near(1) by (simp add: unexpired_def session_claims_at_def)
  then have dec: "strategy_decode_token st jwt v = (Inr (Some ?c), v)" using decode_created [OF st(1) jwt, of v] by simp
  obtain session where session: "write_token st (load_user v u) v = (Inr session, v)"
    by (simp add: write_token_def create_token_claims)
  have exp: "jc_exp ?c = Some ((clock w1 + td_seconds (st_lifetime_seconds st)) div 1000000)"
    using st(2) by (simp add: session_claims_at_def)
  have "(clock w1 + td_seconds (st_lifetime_seconds st)) div 1000000 * 1000000 < clock v + td_hours 1"
    using near(2) by linarith
  then have auth: "authenticated_user current_user st True [(session_cookie, jwt)] v = (Inr (load_user v u, Some session), v)"
    using ne read accepted dec session exp
    by (simp add: authenticated_user_def api_key_cookie_def get_current_active_verified_user_def)
  have now: "clock v div 1000000 < (clock v + td_seconds (st_lifetime_seconds st)) div 1000000"
    using st(2) by (simp add: td_defs)
  let ?d = "session_claims_at st (clock v) (u_id (load_user v u)) ''login'' (all_role_permissions (load_user v u))"
  have "unexpired (clock v) ?d" using now by (simp add: unexpired_def session_claims_at_def)
  then have "strategy_decode_token st session v = (Inr (Some ?d), v)"
    using decode_created [OF st(1) session [unfolded write_token_def], of v] by simp
  with acc auth show ?thesis by (intro exI conjI) (assumption | simp add: session_claims_at_def)+
qed

lemma api_token_becomes_session_witness:
  "let row = \<lparr>tk_id = 10, tk_name = ''ci'', tk_hash = token_text 10 (replicate 32 CHR ''a''), tk_user_id = 2,
        tk_workspace_id = Some 9, tk_permission = Some 1, tk_created_at = 0, tk_updated_at = 0, tk_last_used_at = None\<rparr>;
       w = (empty_world 5 50)\<lparr>users := [sample_user], api_tokens := [row]\<rparr>; v = w\<lparr>clock := 5000 * 1000000\<rparr> in
   \<exists>jwt w1 session. access sample_crypt sample_strategy (token_text 10 (replicate 32 CHR ''a'')) w = (Inr jwt, w1) \<and>
     authenticated_user (le_current_user sample_login) sample_strategy True [(session_cookie, jwt)] v =
       (Inr (sample_user, Some session), v)"
proof -
  let ?api_token = "token_text 10 (replicate 32 CHR ''a'')"
  let ?row = "\<lparr>tk_id = 10, tk_name = ''ci'', tk_hash = ?api_token, tk_user_id = 2,
        tk_workspace_id = Some 9, tk_permission = Some 1, tk_created_at = 0, tk_updated_at = 0, tk_last_used_at = None\<rparr>"
  let ?w = "(empty_world 5 50)\<lparr>users := [sample_user], api_tokens := [?row]\<rparr>"
  let ?v = "?w\<lparr>clock := 5000 * 1000000\<rparr>"
  have "length ?api_token = 68" "take 4 ?api_token = ''fix_''" "take 32 (drop 4 ?api_token) = hex_digits 32 10"
    by (simp_all add: token_text_def del: hex_digits.simps replicate.simps)
  moreover have "uuid_of_hex (hex_digits 32 10) = Inr 10" using uuid_of_hex_digits [of 10] by simp
  ultimately have "\<exists>claims w1. login sample_crypt ?api_token ?w = (Inr claims, w1) \<and> cl_user claims = 2 \<and> clock w1 = 5"
    by (simp add: login_def get_user_token_def sample_crypt_def user_get_def sample_user_def load_user_def Let_def empty_world_def
        del: hex_digits.simps replicate.simps)
  then obtain claims w1 where run: "login sample_crypt ?api_token ?w = (Inr claims, w1)" "cl_user claims = 2" "clock w1 = 5"
    by blast
  have id: "load_user ?v sample_user = sample_user" by (simp add: load_user_def sample_user_def empty_world_def)
  have stored: "tfind u_id (cl_user claims) (users ?v) = Some sample_user" "auth_min_time sample_user = None"
    using run(2) by (simp_all add: sample_user_def)
  have accepted: "le_current_user sample_login (Some (load_user ?v sample_user)) = Inr (load_user ?v sample_user)"
    unfolding id by (simp add: sample_login_def) (simp add: sample_user_def)
  have lifetime: "st_lifetime_seconds sample_strategy = 7200" by (simp add: sample_strategy_def)
  have "0 < st_lifetime_seconds sample_strategy"
    "clock ?v div 1000000 < (clock w1 + td_seconds (st_lifetime_seconds sample_strategy)) div 1000000"
    "clock w1 + td_seconds (st_lifetime_seconds sample_strategy) < clock ?v + td_hours 1"
    by (simp_all add: lifetime run(3) td_defs)
  from api_token_becomes_session [where v = ?v and u = sample_user and current_user = "le_current_user sample_login", OF sample_strategy_sound this(1) run(1) stored accepted this(2,3)] obtain jwt session where
    "access sample_crypt sample_strategy ?api_token ?w = (Inr jwt, w1)"
    "authenticated_user (le_current_user sample_login) sample_strategy True [(session_cookie, jwt)] ?v =
      (Inr (sample_user, Some session), ?v)" unfolding id by blast
  then show ?thesis
    unfolding Let_def by (intro exI [where x = jwt] exI [where x = w1] exI [where x = session] conjI)
qed

subsection \<open>Identity providers\<close>

text \<open>
  A session from an identity provider is for the active user that \<open>oauth_callback\<close> finds or creates for the address
  the provider names, and comes only with a state this service signed; every other answer is a redirect without
  cookies. Neither a second factor nor a verified address is asked for, and the browser is sent to the address in the
  state.
\<close>

theorem oauth_session_guarded:
  assumes answer: "oauth_login_callback env codec p tkn state w = (Inr r, w')" and cookies: "re_cookies r \<noteq> []"
  shows "\<exists>decoded_state account_id email username u w1 session. oc_decode codec (clock w) state = State_data decoded_state \<and>
    op_get_id_email p (ot_access_token tkn) = Inr (account_id, Some email) \<and>
    oauth_callback (le_auth env) (oauth_data_of p tkn account_id email username) True True w = (Inr u, w1) \<and>
    is_active u \<and> write_token (le_strategy env) u w1 = (Inr session, w1) \<and>
    re_cookies r = re_cookies (get_login_response (le_transport env) session) \<and>
    re_location r = Some (Location (quote (state_redirect decoded_state)))"
proof -
  have root: "re_cookies redirect_to_root = []" by (simp add: redirect_to_root_def redirect_response_def)
  obtain username where first: "first_answer p tkn = Inr username"
    using answer by (cases "first_answer p tkn") (simp_all add: oauth_login_callback_def)
  obtain d where d: "oc_decode codec (clock w) state = State_data d"
    using answer cookies root first by (cases "oc_decode codec (clock w) state") (auto simp: oauth_login_callback_def)
  obtain i e where ie: "op_get_id_email p (ot_access_token tkn) = Inr (i, e)"
    using answer first d by (cases "op_get_id_email p (ot_access_token tkn)") (auto simp: oauth_login_callback_def)
  obtain email where e: "e = Some email"
    using answer cookies root first d ie by (cases e) (auto simp: oauth_login_callback_def)
  let ?m = "oauth_callback (le_auth env) (oauth_data_of p tkn i email username) True True"
  obtain x w1 where run: "?m w = (x, w1)" by fastforce
  have "\<exists>u. x = Inr u"
  proof (cases x)
    case (Inl a)
    with run have "catch (bind ?m (\<lambda>u. ret (Some u))) (\<lambda>e. if e = UserAlreadyExists then ret None else raise e) w =
      (if a = UserAlreadyExists then (Inr None, w1) else (Inl a, w1))" by simp
    with answer cookies root first d ie e show ?thesis by (simp add: oauth_login_callback_def split: if_splits)
  qed simp
  then obtain u where u: "?m w = (Inr u, w1)" using run by blast
  have active: "is_active u"
    using answer cookies root first d ie e u by (cases "is_active u") (auto simp: oauth_login_callback_def)
  obtain session where s: "write_token (le_strategy env) u w1 = (Inr session, w1)"
    "backend_login env u w1 = (Inr (get_login_response (le_transport env) session), w1)" using backend_login_run by blast
  have "r = (get_login_response (le_transport env) session)
      \<lparr>re_location := Some (Location (quote (state_redirect d))), re_status := 303\<rparr>"
    using answer first d ie e u active s(2)
    by (auto simp: oauth_login_callback_def Let_def elim: bind_InrE)
  with d ie e u active s(1) show ?thesis
    by (intro exI [where x = d] exI [where x = i] exI [where x = email] exI [where x = username] exI [where x = u]
        exI [where x = w1] exI [where x = session]) simp
qed

text \<open>
  Linking an account changes the state only when the state that came back names the user himself: the answer to
  somebody else's request links nothing, whatever the provider says.
\<close>

theorem link_only_own:
  assumes "snd (oauth_associate_handler codec p u tkn state w) \<noteq> w"
  shows "\<exists>d. oc_decode codec (clock w) state = State_data d \<and> map_of d ''sub'' = Some (uuid_str (u_id u))"
proof (cases "oc_decode codec (clock w) state")
  case (State_data d)
  have "map_of d ''sub'' = Some (uuid_str (u_id u))"
  proof (rule ccontr)
    assume "map_of d ''sub'' \<noteq> Some (uuid_str (u_id u))"
    with State_data have "snd (oauth_associate_handler codec p u tkn state w) = w"
      by (cases "first_answer p tkn"; cases "op_get_id_email p (ot_access_token tkn)";
          cases "snd (projr (op_get_id_email p (ot_access_token tkn)))")
        (auto simp: oauth_associate_handler_def Let_def)
    with assms show False by simp
  qed
  with State_data show ?thesis by simp
next
  case State_undecodable
  with assms show ?thesis by (cases "first_answer p tkn") (auto simp: oauth_associate_handler_def split: if_splits)
next
  case State_refused
  with assms show ?thesis by (cases "first_answer p tkn") (auto simp: oauth_associate_handler_def split: if_splits)
qed

text \<open>
  A login can be made to end anywhere: whatever address the request for the providers names is signed into the
  state, and the provider's callback sends the browser there.
\<close>

theorem login_ends_anywhere:
  assumes codec: "\<And>d t now. now < t \<Longrightarrow> oc_decode codec now (oc_generate codec d t) = State_data d" and "0 < ttl"
  shows "\<exists>state. list_all_oauth_providers codec ttl url_for clients url w = (Inr (map (get_auth_url url_for state) clients), w) \<and>
    (\<exists>d. oc_decode codec (clock w) state = State_data d \<and> state_redirect d = url)"
proof -
  let ?state = "oc_generate codec [(''redirect_url'', url), (''aud'', oauth_audience)] (clock w + td_seconds ttl)"
  have "clock w < clock w + td_seconds ttl" using assms(2) by (simp add: td_defs)
  then show ?thesis
    by (intro exI [where x = ?state])
      (simp add: list_all_oauth_providers_def generate_oauth_state_def codec state_redirect_def)
qed

text \<open>
  C39: Expiring the tokens of a user ends exactly the earlier sessions: what was issued in an earlier millisecond than
  the time given, or than now without one, is refused, whether it came from a login or from an API token; what was
  issued then or later, also by another login, still gives the user as long as it lives.
\<close>

theorem earlier_sessions_end:
  assumes st: "sound_strategy st" and created: "strategy_create_token st (u_id u) token_origin permissions w0 = (Inr t, x)"
    and expired: "jwt_expire u expire_older_than w = (Inr r, w')"
  shows "let time = (case expire_older_than of None \<Rightarrow> clock w | Some since \<Rightarrow> since) in
    (clock w0 div 1000 * 1000 < time \<longrightarrow> read_token st (Some t) w' = (Inr None, w')) \<and>
    (time \<le> clock w0 div 1000 * 1000 \<and>
      (st_lifetime_seconds st = 0 \<or> clock w' div 1000000 < (clock w0 + td_seconds (st_lifetime_seconds st)) div 1000000) \<longrightarrow>
        (\<exists>v. read_token st (Some t) w' = (Inr (Some v), w') \<and> u_id v = u_id u))"
proof -
  let ?ts = "case expire_older_than of None \<Rightarrow> clock w | Some since \<Rightarrow> since"
  obtain row where row: "tfind u_id (u_id u) (users w) = Some row"
    using expired by (cases "tfind u_id (u_id u) (users w)")
      (simp_all add: jwt_expire_def update_partial_def user_update_def Let_def)
  let ?row = "row\<lparr>auth_min_time := Some ?ts\<rparr>"
  have key: "u_id ?row = u_id u" using tfind_Some [OF row] by simp
  have "users w' = tput u_id ?row (users w)"
    using expired row by (auto simp: jwt_expire_def update_partial_def user_update_def Let_def)
  then have "tfind u_id (u_id u) (users w') = Some ?row" using tfind_tput_same [of u_id ?row "users w"] key by simp
  moreover have "u_id (load_user w' ?row) = u_id u" using key by (simp add: load_user_def)
  ultimately show ?thesis
    using session_reads_user [OF st created, of w'] by (auto simp: Let_def simp del: td_seconds_def)
qed

lemma earlier_sessions_end_witness:
  "let w = (empty_world 5000 50)\<lparr>users := [sample_user]\<rparr> in
   \<exists>t r w'. strategy_create_token sample_strategy 2 ''login'' [] w = (Inr t, w) \<and>
     jwt_expire sample_user (Some 7000) w = (Inr r, w') \<and> read_token sample_strategy (Some t) w' = (Inr None, w')"
proof -
  let ?w = "(empty_world 5000 50)\<lparr>users := [sample_user]\<rparr>"
  have i: "u_id sample_user = 2" by (simp add: sample_user_def)
  obtain t where t: "strategy_create_token sample_strategy (u_id sample_user) ''login'' [] ?w = (Inr t, ?w)"
    by (simp add: strategy_create_token_def)
  obtain r w' where e: "jwt_expire sample_user (Some 7000) ?w = (Inr r, w')"
    by (simp add: jwt_expire_def update_partial_def user_update_def Let_def)
  have "clock ?w div 1000 * 1000 < 7000" by (simp add: empty_world_def)
  with earlier_sessions_end [OF sample_strategy_sound t e]
  have "read_token sample_strategy (Some t) w' = (Inr None, w')" by (simp add: Let_def)
  with t e show ?thesis unfolding i Let_def by (intro exI conjI)
qed

end
