(* ===== verification/Graph_Database.thy ===== *)
theory Graph_Database
  imports Dispatcher Api_Tokens
begin

section \<open>The graph database of a workspace\<close>

text \<open>
  \<open>GraphDatabaseAccessManager\<close> of \<open>graph_db/service.py\<close>: a workspace has a database, a user and a password of its own
  on one of the configured servers. The hash of SHA-256 as a number and the random password are parameters. Reading the
  access is \<open>get_database_access\<close> of Dispatcher.
\<close>

record graph_config =
  gd_available_servers :: "string list"
  gd_sha256 :: "string \<Rightarrow> nat"
  gd_password :: string

definition database_for :: "graph_config \<Rightarrow> uuid \<Rightarrow> exn + string" where
  "database_for cfg workspace_id =
     (let hashed_key = gd_sha256 cfg (uuid_str workspace_id); servers = gd_available_servers cfg in
      if servers = [] \<or> servers = [''''] then Inl RuntimeError
      else Inr (servers ! (hashed_key mod length servers)))"

definition new_database_access :: "graph_config \<Rightarrow> uuid \<Rightarrow> exn + graph_database_access" where
  "new_database_access cfg workspace_id =
     map_sum id (\<lambda>server. \<lparr>g_workspace_id = workspace_id, g_server = server, g_username = uuid_str workspace_id,
         g_password = gd_password cfg, g_database = ''db-'' @ uuid_str workspace_id\<rparr>)
       (database_for cfg workspace_id)"

text \<open>Without a session of the caller; \<open>create_workspace\<close> adds the row to its own transaction.\<close>

definition create_database_access :: "graph_config \<Rightarrow> uuid \<Rightarrow> graph_database_access io" where
  "create_database_access cfg workspace_id =
     bind (lift (new_database_access cfg workspace_id)) (\<lambda>access.
     bind (gets (\<lambda>w. tfind g_workspace_id workspace_id (graph_access w))) (\<lambda>existing.
     if existing \<noteq> None then raise IntegrityError
     else bind (modify (\<lambda>w. w\<lparr>graph_access := graph_access w @ [access]\<rparr>)) (\<lambda>_. ret access)))"

subsection \<open>Every workspace has a database of its own\<close>

lemma uuid_str_digits: "filter (\<lambda>c. c \<noteq> CHR ''-'') (uuid_str i) = hex_digits 32 i"
proof -
  have plain: "\<forall>c\<in>set (hex_digits 32 i). c \<noteq> CHR ''-''"
    using hex_digits_plain hex_char_plain by fastforce
  have part: "filter (\<lambda>c. c \<noteq> CHR ''-'') xs = xs" if "set xs \<subseteq> set (hex_digits 32 i)" for xs
    using that plain by (auto simp: filter_id_conv)
  have sub: "set (take n (drop m (hex_digits 32 i))) \<subseteq> set (hex_digits 32 i)"
    "set (take n (hex_digits 32 i)) \<subseteq> set (hex_digits 32 i)" "set (drop m (hex_digits 32 i)) \<subseteq> set (hex_digits 32 i)" for n m
    by (meson order_trans set_drop_subset set_take_subset)+
  have glue: "take 8 h @ take 4 (drop 8 h) @ take 4 (drop 12 h) @ take 4 (drop 16 h) @ drop 20 h = h" for h :: string
  proof -
    have "take n (drop m h) @ drop (m + n) h = drop m h" for n m
      by (metis append_take_drop_id drop_drop add.commute)
    from this [of 4 8] this [of 4 12] this [of 4 16] show ?thesis by simp
  qed
  show ?thesis by (simp add: uuid_str_def Let_def part sub glue del: hex_digits.simps)
qed

lemma uuid_str_inject:
  assumes "uuid_str i = uuid_str j" and "i < 16 ^ 32" and "j < 16 ^ 32"
  shows "i = j"
proof -
  have "hex_digits 32 i = hex_digits 32 j" using arg_cong [OF assms(1), of "filter (\<lambda>c. c \<noteq> CHR ''-'')"] by (simp only: uuid_str_digits)
  then have "i mod 16 ^ 32 = j mod 16 ^ 32" using uuid_of_hex_digits [of i] uuid_of_hex_digits [of j] by simp
  with assms(2,3) show ?thesis by simp
qed

definition databases_ok :: "graph_config \<Rightarrow> world \<Rightarrow> bool" where
  "databases_ok cfg w \<longleftrightarrow> distinct (map g_workspace_id (graph_access w)) \<and>
     (\<forall>a\<in>set (graph_access w). g_workspace_id a < next_uuid w \<and> g_server a \<in> set (gd_available_servers cfg) \<and>
        g_username a = uuid_str (g_workspace_id a) \<and> g_database a = ''db-'' @ uuid_str (g_workspace_id a))"

lemma new_access_ok:
  assumes "new_database_access cfg i = Inr a"
  shows "g_workspace_id a = i \<and> g_server a \<in> set (gd_available_servers cfg) \<and> g_username a = uuid_str i \<and>
    g_database a = ''db-'' @ uuid_str i"
  using assms by (auto simp: new_database_access_def database_for_def Let_def split: if_splits)

lemma databases_ok_added:
  assumes ok: "databases_ok cfg w" and new: "new_database_access cfg i = Inr a"
    and fresh: "i \<notin> g_workspace_id ` set (graph_access w)" and later: "next_uuid w \<le> n" "i < n"
    and w': "graph_access w' = graph_access w @ [a]" "next_uuid w' = n"
  shows "databases_ok cfg w'"
proof -
  note a = new_access_ok [OF new]
  have "distinct (map g_workspace_id (graph_access w'))"
    using ok a fresh by (simp add: databases_ok_def w'(1))
  moreover have "g_workspace_id b < n" if "b \<in> set (graph_access w)" for b
    using ok that later(1) by (force simp: databases_ok_def)
  ultimately show ?thesis using ok a later(2) by (auto simp: databases_ok_def w')
qed

lemma create_database_access_run:
  "create_database_access cfg i w =
    (case new_database_access cfg i of Inl e \<Rightarrow> (Inl e, w)
     | Inr access \<Rightarrow> if i \<in> g_workspace_id ` set (graph_access w) then (Inl IntegrityError, w)
         else (Inr access, w\<lparr>graph_access := graph_access w @ [access]\<rparr>))"
  using tfind_None [of g_workspace_id i "graph_access w"]
  by (auto simp: create_database_access_def split: sum.split)

text \<open>Every workspace has its row.\<close>

definition all_stored :: "world \<Rightarrow> bool" where
  "all_stored w \<longleftrightarrow> o_id ` set (orgs w) \<subseteq> g_workspace_id ` set (graph_access w)"

lemma create_workspace_access:
  assumes "create_workspace db_access name slug owner w = (Inr ws, w')"
  shows "\<exists>a. db_access (next_uuid w) = Inr a \<and> graph_access w' = graph_access w @ [a] \<and>
    next_uuid w' = Suc (Suc (next_uuid w)) \<and> ws_id ws = next_uuid w \<and> o_id ` set (orgs w') = insert (next_uuid w) (o_id ` set (orgs w))"
  using assms unfolding create_workspace_def Let_def
  by (cases "db_access (next_uuid w)")
    (auto simp: bind_def insert_org_def add_roles_def publish_def load_org_def org_to_model_def Let_def
      split: if_splits prod.splits sum.splits option.splits)

text \<open>
  C40: The data of two workspaces never share a database. Creating a workspace stores exactly one more row, for the new
  workspace, keeps all others, and keeps that every workspace has a row. The console's repair of a workspace stores exactly one more row
  if it has none and a server is configured, and otherwise raises and changes nothing. Both
  keep every row on one of the configured servers with a database and a user named after its workspace, at
  most one row for a workspace; the row that is stored is the one that is read afterwards; and as long as ids fit into a
  UUID the names of different workspaces differ.
\<close>

theorem databases_separate:
  assumes ok: "databases_ok cfg w"
  shows "(create_workspace (new_database_access cfg) name slug owner w = (Inr ws, w1) \<longrightarrow>
      databases_ok cfg w1 \<and> (all_stored w \<longrightarrow> all_stored w1) \<and>
      (\<exists>access. graph_access w1 = graph_access w @ [access] \<and> new_database_access cfg (ws_id ws) = Inr access \<and>
        get_database_access (ws_id ws) w1 = (Inr (Some access), w1) \<and> g_database access = ''db-'' @ uuid_str (ws_id ws))) \<and>
    create_database_access cfg i w =
      (case new_database_access cfg i of Inl e \<Rightarrow> (Inl e, w)
       | Inr access \<Rightarrow> if i \<in> g_workspace_id ` set (graph_access w) then (Inl IntegrityError, w)
           else (Inr access, w\<lparr>graph_access := graph_access w @ [access]\<rparr>)) \<and>
    (i < next_uuid w \<longrightarrow> databases_ok cfg (snd (create_database_access cfg i w))) \<and>
    (\<forall>access w'. create_database_access cfg i w = (Inr access, w') \<longrightarrow> get_database_access i w' = (Inr (Some access), w')) \<and>
    (next_uuid w \<le> 16 ^ 32 \<longrightarrow> (\<forall>a\<in>set (graph_access w). \<forall>b\<in>set (graph_access w).
      g_database a = g_database b \<or> g_username a = g_username b \<longrightarrow> a = b))"
proof (intro conjI impI ballI allI create_database_access_run)
  assume run: "create_workspace (new_database_access cfg) name slug owner w = (Inr ws, w1)"
  from create_workspace_access [OF run] obtain a where a: "new_database_access cfg (next_uuid w) = Inr a"
    "graph_access w1 = graph_access w @ [a]" "next_uuid w1 = Suc (Suc (next_uuid w))" "ws_id ws = next_uuid w"
    "o_id ` set (orgs w1) = insert (next_uuid w) (o_id ` set (orgs w))" by blast
  note new = new_access_ok [OF a(1)]
  have fresh: "next_uuid w \<notin> g_workspace_id ` set (graph_access w)" using ok by (auto simp: databases_ok_def)
  show "databases_ok cfg w1" by (rule databases_ok_added [OF ok a(1) fresh _ _ a(2,3)]) simp_all
  show "all_stored w1" if "all_stored w" using that new by (auto simp: all_stored_def a(2,5))
  have "tfind g_workspace_id (next_uuid w) (graph_access w) = None"
    using fresh by (simp add: tfind_None)
  then show "\<exists>access. graph_access w1 = graph_access w @ [access] \<and> new_database_access cfg (ws_id ws) = Inr access \<and>
      get_database_access (ws_id ws) w1 = (Inr (Some access), w1) \<and> g_database access = ''db-'' @ uuid_str (ws_id ws)"
    using new a(1) by (simp add: get_database_access_def a(2,4) tfind_append)
next
  assume i: "i < next_uuid w"
  show "databases_ok cfg (snd (create_database_access cfg i w))"
  proof (cases "new_database_access cfg i")
    case (Inr a)
    show ?thesis
    proof (cases "i \<in> g_workspace_id ` set (graph_access w)")
      case False
      show ?thesis
        by (rule databases_ok_added [OF ok Inr False _ i]) (simp_all add: create_database_access_run Inr False)
    qed (simp add: create_database_access_run Inr ok)
  qed (simp add: create_database_access_run ok)
next
  fix access w' assume "create_database_access cfg i w = (Inr access, w')"
  then have "new_database_access cfg i = Inr access" "i \<notin> g_workspace_id ` set (graph_access w)"
    "w' = w\<lparr>graph_access := graph_access w @ [access]\<rparr>"
    by (auto simp: create_database_access_run split: sum.splits if_splits)
  then show "get_database_access i w' = (Inr (Some access), w')"
    using new_access_ok [of cfg i access] tfind_None [of g_workspace_id i "graph_access w"]
    by (simp add: get_database_access_def tfind_append)
next
  fix a b
  assume n: "next_uuid w \<le> 16 ^ 32" and ab: "a \<in> set (graph_access w)" "b \<in> set (graph_access w)"
    and same: "g_database a = g_database b \<or> g_username a = g_username b"
  have "g_workspace_id a < 16 ^ 32" "g_workspace_id b < 16 ^ 32" "uuid_str (g_workspace_id a) = uuid_str (g_workspace_id b)"
    using ok ab n same by (auto simp: databases_ok_def)
  then have "g_workspace_id a = g_workspace_id b" using uuid_str_inject by blast
  with ok ab show "a = b" by (auto simp: databases_ok_def distinct_map dest: inj_onD)
qed

definition sample_graph :: graph_config where
  "sample_graph = \<lparr>gd_available_servers = [''a'', ''b''], gd_sha256 = size, gd_password = ''secret''\<rparr>"

lemma databases_separate_witness:
  "\<exists>ws w1. create_workspace (new_database_access sample_graph) ''n'' ''s'' sample_user (empty_world 5 50) = (Inr ws, w1) \<and>
     databases_ok sample_graph w1 \<and> all_stored w1 \<and> length (graph_access w1) = 1"
proof -
  have ok: "databases_ok sample_graph (empty_world 5 50)" "all_stored (empty_world 5 50)" "graph_access (empty_world 5 50) = []"
    by (simp_all add: databases_ok_def all_stored_def empty_world_def)
  have "new_database_access sample_graph 50 \<noteq> Inl e" for e
    by (simp add: new_database_access_def database_for_def sample_graph_def Let_def)
  then obtain a where "new_database_access sample_graph 50 = Inr a" by (cases "new_database_access sample_graph 50") auto
  then obtain ws w1 where run: "create_workspace (new_database_access sample_graph) ''n'' ''s'' sample_user (empty_world 5 50) = (Inr ws, w1)"
    by (simp add: create_workspace_def empty_world_def Let_def insert_org_def add_roles_def publish_def load_org_def org_to_model_def
        tier_from_str_def)
  with ok databases_separate [OF ok(1), of "''n''" "''s''" sample_user ws w1 0] show ?thesis by force
qed

end
