(* ===== verification/Customer_Support.thy ===== *)
theory Customer_Support
  imports Login_Router Account_Import Graph_Database One_Time_Emails
begin

section \<open>The console of the customer support\<close>

text \<open>
  \<open>customer_support/\<close>: an application of its own for the users that the configuration names. It shows users and
  workspaces, switches users off and on, verifies them, changes their roles, repairs and starts workspaces and
  schedules the e-mails at the end of a trial. A page is modelled by what its template gets. \<open>UserManager.update\<close> with
  a value for \<open>is_active\<close> and without a password is the parameter \<open>set_active\<close>, the update of the base class.
\<close>

subsection \<open>Who may use the console\<close>

datatype 'a page = To_login | To_users | Shown 'a

definition get_customer_support_user :: "string list \<Rightarrow> user \<Rightarrow> user io" where
  "get_customer_support_user customer_support_users u =
     (if u_email u \<in> set customer_support_users then ret u else raise (HTTPException 401 ''Unauthorized''))"

text \<open>\<open>authenticate\<close> is the dependency that finds the user of a request, see Session.\<close>

fun unauthorized :: "exn \<Rightarrow> bool" where
  "unauthorized (HTTPException status _) = (status = 401)"
| "unauthorized _ = False"

definition protected_route :: "string list \<Rightarrow> user io \<Rightarrow> 'a page io \<Rightarrow> 'a page io" where
  "protected_route customer_support_users authenticate handler =
     catch (bind authenticate (\<lambda>u. bind (get_customer_support_user customer_support_users u) (\<lambda>_. handler)))
       (\<lambda>e. if unauthorized e then ret To_login else raise e)"

definition support_index :: "'a page io" where
  "support_index = ret To_users"

subsection \<open>Finding users\<close>

text \<open>\<open>UUID(text)\<close>: prefixes, braces and hyphens are dropped, and 32 hexadecimal digits are left.\<close>

fun remove_from :: "nat \<Rightarrow> string \<Rightarrow> string \<Rightarrow> string" where
  "remove_from k sub [] = []"
| "remove_from (Suc k) sub (c # cs) = remove_from k sub cs"
| "remove_from 0 sub (c # cs) =
     (if take (length sub) (c # cs) = sub then remove_from (length sub - 1) sub cs else c # remove_from 0 sub cs)"

definition strip_braces :: "string \<Rightarrow> string" where
  "strip_braces s = (let brace = (\<lambda>c. c = CHR ''{'' \<or> c = CHR ''}'') in rev (dropWhile brace (rev (dropWhile brace s))))"

definition uuid_parse :: "string \<Rightarrow> exn + uuid" where
  "uuid_parse s =
     (let hex = filter (\<lambda>c. c \<noteq> CHR ''-'') (strip_braces (remove_from 0 ''uuid:'' (remove_from 0 ''urn:'' s))) in
      if length hex \<noteq> 32 then Inl ValueError
      else case int16 hex of None \<Rightarrow> Inl ValueError | Some n \<Rightarrow> Inr n)"

text \<open>\<open>LIKE\<close> of SQL; the escape character of the database is left out.\<close>

fun sql_like :: "string \<Rightarrow> string \<Rightarrow> bool" where
  "sql_like [] s \<longleftrightarrow> s = []"
| "sql_like (c # p) [] \<longleftrightarrow> c = CHR ''%'' \<and> sql_like p []"
| "sql_like (c # p) (x # s) \<longleftrightarrow>
     (if c = CHR ''%'' then sql_like p (x # s) \<or> sql_like (c # p) s else (c = CHR ''_'' \<or> c = x) \<and> sql_like p s)"

text \<open>\<open>UserRepository.search\<close>; an id that is zero is false, as an id that is none.\<close>

definition user_search :: "string \<Rightarrow> user list io" where
  "user_search query =
     gets (\<lambda>w. map (load_user w)
       (case uuid_parse query of
          Inr i \<Rightarrow> filter (\<lambda>u. u_id u = i) (users w)
        | Inl _ \<Rightarrow> filter (\<lambda>u. sql_like (''%'' @ lower query @ ''%'') (lower (u_email u))) (users w)))"

record users_page =
  up_users :: "user list"
  up_current_page :: "int option"
  up_total :: "nat option"
  up_paging :: bool

definition entries_per_page :: nat where
  "entries_per_page = 25"

text \<open>The database refuses a negative offset.\<close>

definition users_index :: "string option \<Rightarrow> string option \<Rightarrow> int option \<Rightarrow> users_page page io" where
  "users_index i email page_nr =
     (if str_true i then
        bind (case uuid_parse (the i) of Inl _ \<Rightarrow> ret None | Inr n \<Rightarrow> user_get n) (\<lambda>found.
        ret (Shown \<lparr>up_users = (case found of None \<Rightarrow> [] | Some u \<Rightarrow> [u]), up_current_page = page_nr,
          up_total = None, up_paging = False\<rparr>))
      else if str_true email then
        bind (user_search (the email)) (\<lambda>found.
        ret (Shown \<lparr>up_users = found, up_current_page = page_nr, up_total = None, up_paging = False\<rparr>))
      else
        let offset = (case page_nr of None \<Rightarrow> 0 | Some p \<Rightarrow> if p = 0 then 0 else (p - 1) * int entries_per_page) in
        if offset < 0 then raise ExternalError
        else
          bind (user_list entries_per_page (nat offset)) (\<lambda>found.
          bind user_count (\<lambda>count.
          ret (Shown \<lparr>up_users = found, up_current_page = page_nr, up_total = Some (count div entries_per_page),
            up_paging = True\<rparr>))))"

text \<open>\<open>range(1, total + 1)\<close> of the template: the pages that are linked.\<close>

definition linked_pages :: "users_page \<Rightarrow> int list" where
  "linked_pages p = (case up_total p of None \<Rightarrow> [] | Some total_pages \<Rightarrow> [1..int total_pages])"

subsection \<open>A user and his workspaces\<close>

record workspace_table_row =
  wt_workspace :: workspace
  wt_roles :: "(string \<times> bool) list"
  wt_cloud_accounts :: nat

definition role_names_list :: "(string \<times> roles) list" where
  "role_names_list = [(''workspace_member'', workspace_member), (''workspace_admin'', workspace_admin),
     (''workspace_owner'', workspace_owner), (''workspace_billing_admin'', workspace_billing_admin)]"

definition from_user_role :: "workspace \<Rightarrow> roles \<Rightarrow> nat \<Rightarrow> workspace_table_row" where
  "from_user_role ws r n = \<lparr>wt_workspace = ws, wt_roles = map (\<lambda>(name, flag). (name, flag AND r \<noteq> 0)) role_names_list,
     wt_cloud_accounts = n\<rparr>"

definition existing_user :: "string \<Rightarrow> uuid \<Rightarrow> user io" where
  "existing_user detail user_id =
     bind (user_get user_id) (\<lambda>found. case found of None \<Rightarrow> raise (HTTPException 404 detail) | Some u \<Rightarrow> ret u)"

definition existing_workspace :: "string \<Rightarrow> uuid \<Rightarrow> workspace io" where
  "existing_workspace detail workspace_id =
     bind (get_workspace workspace_id) (\<lambda>found. case found of None \<Rightarrow> raise (HTTPException 404 detail) | Some m \<Rightarrow> ret m)"

definition workspace_row :: "user \<Rightarrow> workspace \<Rightarrow> workspace_table_row io" where
  "workspace_row u m =
     bind (count_by_workspace_id (ws_id m) False False) (\<lambda>n.
     ret (from_user_role m
       (case map_of (rev (map (\<lambda>r. (ur_workspace_id r, role_names r)) (u_roles u))) (ws_id m) of None \<Rightarrow> 0 | Some r \<Rightarrow> r) n))"

fun workspace_rows :: "user \<Rightarrow> workspace list \<Rightarrow> workspace_table_row list io" where
  "workspace_rows u [] = ret []"
| "workspace_rows u (m # ms) = bind (workspace_row u m) (\<lambda>r. bind (workspace_rows u ms) (\<lambda>rs. ret (r # rs)))"

definition get_user :: "uuid \<Rightarrow> (user \<times> workspace_table_row list) page io" where
  "get_user user_id =
     bind (existing_user ''User not found'' user_id) (\<lambda>u.
     bind (list_workspaces u False) (\<lambda>workspaces.
     bind (workspace_rows u workspaces) (\<lambda>rows. ret (Shown (u, rows)))))"

definition workspaces_table :: "uuid \<Rightarrow> (user \<times> workspace_table_row list) page io" where
  "workspaces_table user_id = get_user user_id"

definition delete_user :: "(bool \<Rightarrow> user \<Rightarrow> user io) \<Rightarrow> uuid \<Rightarrow> unit page io" where
  "delete_user set_active user_id =
     bind (existing_user ''User not found'' user_id) (\<lambda>u. bind (set_active False u) (\<lambda>_. ret (Shown ())))"

definition restore_user :: "(bool \<Rightarrow> user \<Rightarrow> user io) \<Rightarrow> uuid \<Rightarrow> unit page io" where
  "restore_user set_active user_id =
     bind (existing_user ''User not found'' user_id) (\<lambda>u. bind (set_active True u) (\<lambda>_. ret (Shown ())))"

definition add_to_workspace_modal :: "uuid \<Rightarrow> (user \<times> string list) page io" where
  "add_to_workspace_modal user_id =
     bind (existing_user '''' user_id) (\<lambda>u. ret (Shown (u, map fst role_names_list)))"

text \<open>A key of the form that names no role is skipped.\<close>

definition roles_of_form :: "string list \<Rightarrow> roles" where
  "roles_of_form keys =
     fold (\<lambda>key acc. case map_of role_names_list key of None \<Rightarrow> acc | Some r \<Rightarrow> acc OR r) keys 0"

definition support_add_to_workspace :: "uuid \<Rightarrow> string \<Rightarrow> string list \<Rightarrow> (user \<times> uuid) page io" where
  "support_add_to_workspace user_id workspace_id form_keys =
     bind (lift (uuid_parse (strip workspace_id))) (\<lambda>workspace_uuid.
     bind (existing_user '''' user_id) (\<lambda>u.
     bind (add_to_workspace workspace_uuid user_id (roles_of_form form_keys)) (\<lambda>_.
     ret (Shown (u, workspace_uuid)))))"

definition workspace_roles :: "uuid \<Rightarrow> uuid \<Rightarrow> workspace_table_row page io" where
  "workspace_roles user_id workspace_id =
     bind (existing_user '''' user_id) (\<lambda>u.
     bind (existing_workspace '''' workspace_id) (\<lambda>m.
     let r = (case find (\<lambda>r. ur_workspace_id r = workspace_id) (u_roles u) of None \<Rightarrow> 0 | Some r \<Rightarrow> role_names r) in
     ret (Shown (from_user_role m r 0))))"

definition support_update_roles :: "uuid \<Rightarrow> uuid \<Rightarrow> string list \<Rightarrow> workspace_table_row page io" where
  "support_update_roles user_id workspace_id form_keys =
     bind (existing_user '''' user_id) (\<lambda>u.
     bind (existing_workspace '''' workspace_id) (\<lambda>m.
     bind (add_roles user_id workspace_id (roles_of_form form_keys) True) (\<lambda>updated.
     ret (Shown (from_user_role m (role_names updated) 0)))))"

definition resend_verification_email :: "auth_env \<Rightarrow> uuid \<Rightarrow> unit page io" where
  "resend_verification_email env user_id =
     bind (existing_user '''' user_id) (\<lambda>u. bind (au_request_verify env u) (\<lambda>_. ret (Shown ())))"

definition verify_manually :: "auth_env \<Rightarrow> uuid \<Rightarrow> unit page io" where
  "verify_manually env user_id =
     bind (existing_user '''' user_id) (\<lambda>u.
     bind (user_update (u_id u) (\<lambda>r. r\<lparr>is_verified := True\<rparr>)) (\<lambda>_.
     bind (on_after_verify env u) (\<lambda>_. ret (Shown ()))))"

subsection \<open>Workspaces\<close>

record workspace_page =
  wp_workspace :: workspace
  wp_cloud_accounts :: "account list"
  wp_next_run :: "datetime option"
  wp_db_access_not_existent :: bool

definition support_get_workspace :: "uuid \<Rightarrow> workspace_page page io" where
  "support_get_workspace workspace_id =
     bind (existing_workspace ''Workspace not found'' workspace_id) (\<lambda>m.
     bind (list_by_workspace_id (ws_id m) False False) (\<lambda>cloud_accounts.
     bind (next_run_get (ws_id m)) (\<lambda>next_run.
     bind (get_database_access (ws_id m)) (\<lambda>db_access.
     ret (Shown \<lparr>wp_workspace = m, wp_cloud_accounts = cloud_accounts, wp_next_run = next_run,
       wp_db_access_not_existent = (db_access = None)\<rparr>)))))"

definition create_graph_db_access :: "graph_config \<Rightarrow> uuid \<Rightarrow> unit page io" where
  "create_graph_db_access cfg workspace_id =
     bind (existing_workspace ''Workspace not found'' workspace_id) (\<lambda>m.
     bind (get_database_access (ws_id m)) (\<lambda>existing_db_access.
     if existing_db_access \<noteq> None then raise (HTTPException 400 ''Database access already exists'')
     else
       bind (create_database_access cfg (ws_id m)) (\<lambda>_.
       bind (publish (WorkspaceCreated (ws_id m) (ws_name m) (ws_slug m) (ws_owner_id m))) (\<lambda>_. ret (Shown ())))))"

text \<open>The account is looked up, and nothing is started.\<close>

definition trigger_collect_account :: "uuid \<Rightarrow> uuid \<Rightarrow> unit page io" where
  "trigger_collect_account workspace_id cloud_account_id =
     bind (existing_workspace ''Workspace not found'' workspace_id) (\<lambda>m.
     bind (repo_get cloud_account_id) (\<lambda>cloud_account.
     if cloud_account = None then raise (HTTPException 404 ''Cloud account not found'') else ret (Shown ())))"

definition reset_next_run :: "uuid \<Rightarrow> datetime page io" where
  "reset_next_run workspace_id =
     bind (existing_workspace ''Workspace not found'' workspace_id) (\<lambda>m.
     bind utc (\<lambda>now.
     let next_run_time = now div 1000000 * 1000000 - td_minutes 5 in
     bind (update_next_run_at (ws_id m) next_run_time) (\<lambda>_. ret (Shown next_run_time))))"

subsection \<open>E-mails at the end of a trial\<close>

definition scheduled_emails_index :: "string list page io" where
  "scheduled_emails_index = ret (Shown [trial_end_notification])"

definition schedule_trial_end_emails :: "mail_env \<Rightarrow> int \<Rightarrow> datetime \<Rightarrow> string \<Rightarrow> (uuid list \<times> string) page io" where
  "schedule_trial_end_emails env days_in_trial schedule_at email_kind =
     bind (list_expired_trials (td_days days_in_trial)) (\<lambda>workspaces.
     bind (for_each (\<lambda>m. schedule_trial_end_reminder env (ws_id m) schedule_at email_kind) workspaces) (\<lambda>_.
     ret (Shown (map ws_id workspaces, email_kind))))"

definition unschedule_trial_end_emails :: "uuid list \<Rightarrow> string \<Rightarrow> unit page io" where
  "unschedule_trial_end_emails workspace_ids email_kind =
     bind (for_each (\<lambda>i. unschedule_one_time_email None (Some i) email_kind) workspace_ids) (\<lambda>_. ret (Shown ()))"

subsection \<open>What the console does\<close>

text \<open>
  Nobody but the configured users gets to a handler of the console: for everybody else, logged in or not, the answer
  is the way to the login and the state is what the authentication left.
\<close>

theorem support_guarded:
  assumes "authenticate w = (r, w1)"
    and "case r of Inl e \<Rightarrow> unauthorized e | Inr u \<Rightarrow> u_email u \<notin> set customer_support_users"
  shows "protected_route customer_support_users authenticate handler w = (Inr To_login, w1)"
  using assms by (cases r) (simp_all add: protected_route_def get_customer_support_user_def)

lemma user_list_run:
  "user_list n k w = (Inr (map (load_user w) (take n (drop k (sort_key (\<lambda>u. - u_created_at u) (users w))))), w)"
  by (simp add: user_list_def)

lemma concat_chunks:
  "concat (map (\<lambda>k. take n (drop (k * n) xs)) [0..<m]) = take (m * n) xs"
proof (induction m)
  case (Suc m)
  have "take (Suc m * n) xs = take (m * n) xs @ take n (drop (m * n) xs)"
    by (metis add.commute mult_Suc take_add)
  with Suc show ?case by simp
qed simp

text \<open>
  The list of the users ends too early: the linked pages together show the newest users, as many as fill whole
  pages of 25; the rest, the oldest users, are on no linked page, and with less than 25 users no page is linked.
\<close>

theorem linked_users:
  shows "\<exists>pages. (\<forall>k. fst (users_index None None (Some k) w) =
        (if k < 0 then Inl ExternalError else Inr (Shown (pages k)))) \<and>
    concat (map (\<lambda>k. up_users (pages k)) (linked_pages (pages 1))) =
      map (load_user w) (take (length (users w) - length (users w) mod 25) (sort_key (\<lambda>u. - u_created_at u) (users w)))"
proof -
  let ?all = "sort_key (\<lambda>u. - u_created_at u) (users w)"
  let ?n = "length (users w) div 25"
  define pages where "pages k = \<lparr>up_users = map (load_user w) (take 25 (drop (nat ((k - 1) * 25)) ?all)),
    up_current_page = Some k, up_total = Some ?n, up_paging = True\<rparr>" for k
  have run: "fst (users_index None None (Some k) w) = (if k < 0 then Inl ExternalError else Inr (Shown (pages k)))" for k
    by (cases "k = 0") (simp_all add: users_index_def entries_per_page_def user_list_run user_count_def pages_def Let_def)
  have "[1..int m] = map (\<lambda>k. int k + 1) [0..<m]" for m
    by (induction m) (simp_all add: upto_rec2)
  then have linked: "linked_pages (pages 1) = map (\<lambda>k. int k + 1) [0..<?n]" by (simp add: linked_pages_def pages_def)
  have "up_users (pages (int k + 1)) = map (load_user w) (take 25 (drop (k * 25) ?all))" for k
    by (simp add: pages_def nat_mult_distrib)
  then have "concat (map (\<lambda>k. up_users (pages k)) (linked_pages (pages 1))) =
      map (load_user w) (concat (map (\<lambda>k. take 25 (drop (k * 25) ?all)) [0..<?n]))"
    by (simp add: linked map_concat comp_def)
  also have "\<dots> = map (load_user w) (take (?n * 25) ?all)" by (simp only: concat_chunks)
  also have "?n * 25 = length (users w) - length (users w) mod 25" by (simp add: minus_mod_eq_div_mult)
  finally show ?thesis using run by (intro exI [where x = pages]) blast
qed

text \<open>
  A user who is switched off is out at once: no session of his, from a login or from an API token, gets him to a
  handler any more, although the tokens themselves are still good.
\<close>

theorem switched_off_is_out:
  assumes base: "\<And>b u. set_active b u = user_update (u_id u) (\<lambda>r. r\<lparr>is_active := b\<rparr>)"
    and current: "\<And>found v. current_user found = Inr v \<Longrightarrow> found = Some v \<and> is_active v \<and> is_verified v"
    and st: "sound_strategy st" and created: "strategy_create_token st i token_origin permissions w0 = (Inr t, x)"
    and off: "delete_user set_active i w = (Inr r, w1)"
  shows "\<exists>e. authenticated_user current_user st is_request [(session_cookie, t)] w1 = (Inl e, w1)"
proof -
  obtain row where row: "tfind u_id i (users w) = Some row"
    using off by (cases "tfind u_id i (users w)") (simp_all add: delete_user_def existing_user_def user_get_def)
  let ?row = "row\<lparr>is_active := False\<rparr>"
  have key: "u_id row = i" using tfind_Some [OF row] by simp
  have "users w1 = tput u_id ?row (users w)"
    using off row by (auto simp: delete_user_def existing_user_def user_get_def base user_update_def load_user_def key)
  then have stored: "tfind u_id i (users w1) = Some ?row" using tfind_tput_same [of u_id ?row "users w"] key by simp
  obtain found where read: "read_token st (Some t) w1 = (Inr found, w1)" and "found = None \<or> found = Some (load_user w1 ?row)"
    using session_reads_user [OF st created, of w1] stored by (auto split: option.splits)
  then have "current_user found \<noteq> Inr v" for v using current [of found v] by (auto simp: load_user_def)
  then obtain e where e: "current_user found = Inl e" by (cases "current_user found") auto
  have none: "read_token st None w1 = (Inr None, w1)" by (simp add: read_token_def)
  have "current_user None \<noteq> Inr v" for v using current [of None v] by auto
  then obtain e' where e': "current_user None = Inl e'" by (cases "current_user None") auto
  show ?thesis
    using read e none e' by (cases "t = []") (simp_all add: authenticated_user_def api_key_cookie_def)
qed

text \<open>
  Resetting the next run makes the workspace due: for a workspace that has a next run the time answered is stored
  and lies in the past, so that the next look of the dispatcher for due workspaces finds it, with this time.
\<close>

theorem reset_run_due:
  assumes reset: "reset_next_run ws w = (Inr r, w')" and row: "tfind n_tenant_id ws (next_runs w) = Some n"
  shows "\<exists>time. r = Shown time \<and> time < clock w' \<and> next_run_get ws w' = (Inr (Some time), w') \<and>
    (ws, time) \<in> set (projr (fst (older_than (clock w') w')))"
proof -
  let ?time = "clock w div 1000000 * 1000000 - td_minutes 5"
  obtain m where m: "get_workspace ws w = (Inr (Some m), w)"
    and run: "update_next_run_at (ws_id m) ?time w = (Inr (), w')" "r = Shown ?time"
    using reset get_workspace_same [of ws w]
    by (auto simp: reset_next_run_def existing_workspace_def Let_def elim!: bind_InrE split: option.splits)
  have id: "ws_id m = ws" using get_workspace_id m by blast
  have w': "w' = w\<lparr>next_runs := tput n_tenant_id (n\<lparr>n_at := ?time\<rparr>) (next_runs w)\<rparr>"
    using run(1) row by (simp add: update_next_run_at_def id)
  have key: "n_tenant_id (n\<lparr>n_at := ?time\<rparr>) = ws" using tfind_Some [OF row] by simp
  have found: "tfind n_tenant_id ws (next_runs w') = Some (n\<lparr>n_at := ?time\<rparr>)"
    using tfind_tput_same [of n_tenant_id "n\<lparr>n_at := ?time\<rparr>" "next_runs w"] key by (simp add: w')
  have past: "?time < clock w'" by (simp add: w' td_defs)
  have "n\<lparr>n_at := ?time\<rparr> \<in> set (next_runs w')" using tfind_Some [OF found] by simp
  then have "(ws, ?time) \<in> set (projr (fst (older_than (clock w') w')))"
    using past key
    by (auto simp: older_than_def intro!: rev_image_eqI [of "n\<lparr>n_at := ?time\<rparr>"])
  with found past run(2) show ?thesis by (simp add: next_run_get_def)
qed

lemma switched_off_is_out_witness:
  "let w = (empty_world 5 50)\<lparr>users := [sample_user]\<rparr>; switch = (\<lambda>b u. user_update (u_id u) (\<lambda>r. r\<lparr>is_active := b\<rparr>)) in
   \<exists>t r w1 e. write_token sample_strategy sample_user w = (Inr t, w) \<and> delete_user switch 2 w = (Inr r, w1) \<and>
     authenticated_user (le_current_user sample_login) sample_strategy True [(session_cookie, t)] w1 = (Inl e, w1)"
proof -
  let ?w = "(empty_world 5 50)\<lparr>users := [sample_user]\<rparr>"
  let ?switch = "\<lambda>b u. user_update (u_id u) (\<lambda>r. r\<lparr>is_active := b\<rparr>)"
  have id: "u_id sample_user = 2" by (simp add: sample_user_def)
  have current: "found = Some v \<and> is_active v \<and> is_verified v" if "le_current_user sample_login found = Inr v" for found v
    using that by (cases found) (auto simp: sample_login_def split: if_splits)
  obtain t where t: "write_token sample_strategy sample_user ?w = (Inr t, ?w)"
    by (simp add: write_token_def create_token_claims)
  obtain r w1 where off: "delete_user ?switch 2 ?w = (Inr r, w1)"
    by (simp add: delete_user_def existing_user_def user_get_def user_update_def id load_user_def)
  from switched_off_is_out [OF refl current sample_strategy_sound t [unfolded write_token_def id] off] obtain e where
    "authenticated_user (le_current_user sample_login) sample_strategy True [(session_cookie, t)] w1 = (Inl e, w1)" by blast
  with t off show ?thesis unfolding Let_def by (intro exI conjI)
qed

lemma reset_run_due_witness:
  "let w = (empty_world 900000000 50)\<lparr>orgs := [sample_org], next_runs := [\<lparr>n_tenant_id = 7, n_at = 990000000\<rparr>]\<rparr> in
   \<exists>w'. reset_next_run 7 w = (Inr (Shown 600000000), w') \<and> (7, 600000000) \<in> set (projr (fst (older_than (clock w') w')))"
proof -
  let ?w = "(empty_world 900000000 50)\<lparr>orgs := [sample_org], next_runs := [\<lparr>n_tenant_id = 7, n_at = 990000000\<rparr>]\<rparr>"
  have "\<exists>m. get_workspace 7 ?w = (Inr (Some m), ?w)"
    by (simp add: get_workspace_run sample_org_def org_to_model_def tier_from_str_def)
  then obtain m where m: "get_workspace 7 ?w = (Inr (Some m), ?w)" by blast
  obtain w' where run: "reset_next_run 7 ?w = (Inr (Shown 600000000), w')"
    using m by (simp add: reset_next_run_def existing_workspace_def update_next_run_at_def td_defs empty_world_def Let_def)
  have "tfind n_tenant_id 7 (next_runs ?w) = Some \<lparr>n_tenant_id = 7, n_at = 990000000\<rparr>" by simp
  from reset_run_due [OF run this] have "(7, 600000000) \<in> set (projr (fst (older_than (clock w') w')))" by auto
  with run show ?thesis unfolding Let_def by blast
qed

end
