(* ===== verification/Inventory_Client.thy ===== *)
theory Inventory_Client
  imports World Complex_Main
begin

section \<open>The client of the inventory service\<close>

text \<open>
  \<open>InventoryClient\<close> of \<open>inventory/inventory_client.py\<close>. The inventory is another service: what it answers to a
  request may depend on all requests it got before, and is a parameter. A program of the client keeps a log of the
  requests it sent. The names of the headers of an answer are in lower case; a JSON number is a rational; a parameter
  of a query that is a Boolean is the text the HTTP library makes of it. How the library writes a point in time and the
  seconds of a duration are parameters. A stream is its list of lines.
\<close>

datatype json =
    Jnull
  | Jbool bool
  | Jnum rat
  | Jstr string
  | Jarr "json list"
  | Jobj "(string \<times> json) list"

record http_request =
  rq_method :: string
  rq_path :: string
  rq_params :: "(string \<times> string option) list"
  rq_headers :: "(string \<times> string) list"
  rq_content :: "string option"
  rq_json :: "json option"

record inventory_response =
  rs_status :: nat
  rs_headers :: "(string \<times> string) list"
  rs_text :: string
  rs_json :: "json option"
    \<comment> \<open>what the body is as JSON, if it is\<close>
  rs_lines :: "json list"

datatype http_answer =
    Connect_error string
  | Read_timeout string
  | Answered inventory_response

record inventory_server =
  is_answer :: "http_request list \<Rightarrow> http_answer"
    \<comment> \<open>all requests so far, the newest last\<close>
  is_log :: "http_request list"
  is_cached_roots :: "(string \<times> json) list option"
    \<comment> \<open>the model of the kinds that \<open>InventoryService\<close> keeps\<close>

type_synonym 'a inv = "(inventory_server, 'a) prog"

record client_env =
  ce_utc_str :: "datetime \<Rightarrow> string"
  ce_seconds :: "timedelta \<Rightarrow> string"
    \<comment> \<open>\<open>f"{granularity.total_seconds()}s"\<close>\<close>

subsection \<open>Text and JSON\<close>

fun decimal :: "nat \<Rightarrow> string" where
  "decimal n = (if n < 10 then [char_of (48 + n)] else decimal (n div 10) @ [char_of (48 + n mod 10)])"

declare decimal.simps [simp del]

definition int_str :: "int \<Rightarrow> string" where
  "int_str i = (if i < 0 then CHR ''-'' # decimal (nat (- i)) else decimal (nat i))"

definition bool_str :: "bool \<Rightarrow> string" where
  "bool_str b = (if b then ''true'' else ''false'')"

fun join :: "string \<Rightarrow> string list \<Rightarrow> string" where
  "join sep [] = []"
| "join sep [s] = s"
| "join sep (s # t # ss) = s @ sep @ join sep (t # ss)"

fun contains :: "string \<Rightarrow> string \<Rightarrow> bool" where
  "contains sub [] \<longleftrightarrow> sub = []"
| "contains sub (c # s) \<longleftrightarrow> take (length sub) (c # s) = sub \<or> contains sub s"

definition opt_str :: "string option \<Rightarrow> json" where
  "opt_str v = (case v of None \<Rightarrow> Jnull | Some s \<Rightarrow> Jstr s)"

definition strings :: "string list \<Rightarrow> json" where
  "strings ss = Jarr (map Jstr ss)"

fun json_get :: "string \<Rightarrow> json \<Rightarrow> json option" where
  "json_get k (Jobj obj) = map_of obj k"
| "json_get k _ = None"

fun int_of_text :: "nat \<Rightarrow> bool \<Rightarrow> string \<Rightarrow> int option" where
  "int_of_text acc some [] = (if some then Some (int acc) else None)"
| "int_of_text acc some (c # cs) =
     (let n = of_char c :: nat in
      if 48 \<le> n \<and> n \<le> 57 then int_of_text (10 * acc + (n - 48)) True cs else None)"

subsection \<open>Requests\<close>

definition default_graph :: string where "default_graph = ''fix''"
definition default_section :: string where "default_section = ''reported''"
definition media_text :: string where "media_text = ''text/plain''"
definition media_json :: string where "media_json = ''application/json''"
definition media_ndjson :: string where "media_ndjson = ''application/ndjson''"
definition expect_ndjson :: "string list" where "expect_ndjson = [''application/x-ndjson'', media_ndjson]"

definition access_headers :: "graph_database_access \<Rightarrow> string option \<Rightarrow> string option \<Rightarrow> (string \<times> string) list \<Rightarrow> (string \<times> string) list" where
  "access_headers access accept content_type additional =
     [(''FixGraphDbServer'', g_server access), (''FixGraphDbDatabase'', g_database access),
      (''FixGraphDbUsername'', g_username access), (''FixGraphDbPassword'', g_password access)] @ additional @
     (if str_true accept then [(''Accept'', the accept)] else []) @
     (if str_true content_type then [(''Content-Type'', the content_type)] else [])"

definition is_error :: "inventory_response \<Rightarrow> bool" where
  "is_error r \<longleftrightarrow> 400 \<le> rs_status r \<and> rs_status r \<le> 599"

definition media_type :: "inventory_response \<Rightarrow> string" where
  "media_type r = (case map_of (rs_headers r) ''content-type'' of None \<Rightarrow> [] | Some v \<Rightarrow> takeWhile (\<lambda>c. c \<noteq> CHR '';'') v)"

definition check_response :: "inventory_response \<Rightarrow> string list option \<Rightarrow> nat list option \<Rightarrow> unit inv" where
  "check_response response expected_media_types allowed_error_codes =
     (if is_error response \<and> (case allowed_error_codes of None \<Rightarrow> True | Some codes \<Rightarrow> rs_status response \<in> set codes)
      then
        (if rs_status response = 401 then raise (InventoryException Graph_database_forbidden 401 (rs_text response))
         else if rs_status response = 400 \<and> contains ''[HTTP 401][ERR 11]'' (rs_text response)
         then raise (InventoryException Graph_database_not_available 404 (rs_text response))
         else if rs_status response = 404 \<and> contains ''NoSuchGraph'' (rs_text response)
         then raise (InventoryException No_such_graph 404 (rs_text response))
         else raise (InventoryException Inventory_error (rs_status response) (rs_text response)))
      else
        case expected_media_types of None \<Rightarrow> ret ()
        | Some types \<Rightarrow>
            if is_error response \<or> media_type response \<in> set types then ret () else raise AssertionError)"

definition send :: "http_request \<Rightarrow> http_answer inv" where
  "send q s = (let log = is_log s @ [q] in (Inr (is_answer s log), s\<lparr>is_log := log\<rparr>))"

definition inv_request :: "http_request \<Rightarrow> string list option \<Rightarrow> nat list option \<Rightarrow> inventory_response inv" where
  "inv_request q expected_media_types allowed_error_codes =
     bind (send q) (\<lambda>answer.
     case answer of
       Connect_error e \<Rightarrow> raise (InventoryException Inventory_error 502 (''Can not connect to inventory: '' @ e))
     | Read_timeout e \<Rightarrow> raise (InventoryException Inventory_request_took_too_long 408 (''Request took too long: '' @ e))
     | Answered response \<Rightarrow>
         bind (check_response response expected_media_types allowed_error_codes) (\<lambda>_. ret response))"

text \<open>\<open>AsyncIteratorWithContext\<close>: the lines, and the headers that count them.\<close>

record stream =
  sm_items :: "json list"
  sm_context :: "(string \<times> string) list"

definition iterator_with_context :: "inventory_response \<Rightarrow> stream" where
  "iterator_with_context r = \<lparr>sm_items = rs_lines r,
     sm_context = filter (\<lambda>(k, v). k \<in> {''total-count'', ''result-count''}) (rs_headers r)\<rparr>"

definition inv_stream :: "http_request \<Rightarrow> string list option \<Rightarrow> stream inv" where
  "inv_stream q expected_media_types =
     bind (inv_request q expected_media_types None) (\<lambda>response. ret (iterator_with_context response))"

definition post_query :: "graph_database_access \<Rightarrow> string \<Rightarrow> string \<Rightarrow> (string \<times> string option) list \<Rightarrow> http_request" where
  "post_query access path query params = \<lparr>rq_method = ''POST'', rq_path = path, rq_params = params,
     rq_headers = access_headers access (Some media_ndjson) (Some media_text) [], rq_content = Some query, rq_json = None\<rparr>"

definition get_request :: "string \<Rightarrow> (string \<times> string option) list \<Rightarrow> (string \<times> string) list \<Rightarrow> http_request" where
  "get_request path params headers = \<lparr>rq_method = ''GET'', rq_path = path, rq_params = params, rq_headers = headers,
     rq_content = None, rq_json = None\<rparr>"

definition graph_path :: "string \<Rightarrow> string" where
  "graph_path rest = ''/graph/'' @ default_graph @ rest"

text \<open>\<open>response.json()\<close>: a body that is no JSON raises \<open>JSONDecodeError\<close>, a \<open>ValueError\<close>.\<close>

definition body_json :: "inventory_response \<Rightarrow> json inv" where
  "body_json response = (case rs_json response of None \<Rightarrow> raise ValueError | Some j \<Rightarrow> ret j)"

lemma preserves_body_json [pres]: "preserves I (body_json response)"
  unfolding body_json_def by (intro pres)

lemma body_json_same [simp]: "snd (body_json response s) = s" "snd (bind (body_json response) (\<lambda>body. ret (f body)) s) = s"
  by (simp_all add: body_json_def split: option.split)

lemma body_json_Some [simp]: "rs_json response = Some j \<Longrightarrow> body_json response = ret j"
  by (simp add: body_json_def)

subsection \<open>The operations\<close>

definition create_database :: "graph_database_access \<Rightarrow> unit inv" where
  "create_database access =
     bind (inv_request \<lparr>rq_method = ''POST'', rq_path = graph_path [], rq_params = [],
       rq_headers = access_headers access (Some media_json) (Some media_text) [(''FixGraphDbCreateDatabase'', ''true'')],
       rq_content = None, rq_json = None\<rparr> None None) (\<lambda>_. ret ())"

definition execute_single :: "graph_database_access \<Rightarrow> string \<Rightarrow> (string \<times> string) list \<Rightarrow> stream inv" where
  "execute_single access command env =
     inv_stream (post_query access ''/cli/execute'' command (map (\<lambda>(k, v). (k, Some v)) env)) (Some expect_ndjson)"

definition search :: "graph_database_access \<Rightarrow> string \<Rightarrow> bool \<Rightarrow> stream inv" where
  "search access query with_edges =
     (let list_or_graph = (if with_edges then ''graph'' else ''list'') in
      inv_stream (post_query access (graph_path (''/search/'' @ list_or_graph)) query [(''section'', Some default_section)])
        (Some expect_ndjson))"

definition history_params :: "client_env \<Rightarrow> datetime option \<Rightarrow> datetime option \<Rightarrow> string list option \<Rightarrow> (string \<times> string option) list" where
  "history_params env before after change =
     [(''section'', Some default_section)] @
     (case before of None \<Rightarrow> [] | Some t \<Rightarrow> [(''before'', Some (ce_utc_str env t))]) @
     (case after of None \<Rightarrow> [] | Some t \<Rightarrow> [(''after'', Some (ce_utc_str env t))]) @
     (case change of None \<Rightarrow> [] | Some cs \<Rightarrow> if cs = [] then [] else [(''change'', Some (join '','' cs))])"

definition search_history ::
  "client_env \<Rightarrow> graph_database_access \<Rightarrow> string \<Rightarrow> datetime option \<Rightarrow> datetime option \<Rightarrow> string list option \<Rightarrow> stream inv" where
  "search_history env access query before after change =
     inv_stream (post_query access (graph_path ''/search/history/list'') query (history_params env before after change))
       (Some expect_ndjson)"

definition history_timeline ::
  "client_env \<Rightarrow> graph_database_access \<Rightarrow> string \<Rightarrow> datetime \<Rightarrow> datetime \<Rightarrow> string option \<Rightarrow> string list \<Rightarrow> stream inv" where
  "history_timeline env access query after before granularity change =
     inv_stream (post_query access (graph_path ''/search/history/timeline'') query
       ([(''after'', Some (ce_utc_str env after)), (''before'', Some (ce_utc_str env before)), (''section'', Some default_section)] @
        (if str_true granularity then [(''granularity'', granularity)] else []) @
        (if change \<noteq> [] then [(''change'', Some (join '','' change))] else [])))
       (Some expect_ndjson)"

definition aggregate :: "graph_database_access \<Rightarrow> string \<Rightarrow> stream inv" where
  "aggregate access query =
     inv_stream (post_query access (graph_path ''/search/aggregate'') query [(''section'', Some default_section)]) (Some expect_ndjson)"

definition flag_param :: "string \<Rightarrow> bool option \<Rightarrow> (string \<times> string option) list" where
  "flag_param name v = (case v of None \<Rightarrow> [] | Some b \<Rightarrow> [(name, Some (bool_str b))])"

definition text_param :: "string \<Rightarrow> string option \<Rightarrow> (string \<times> string option) list" where
  "text_param name v = (case v of None \<Rightarrow> [] | Some s \<Rightarrow> [(name, Some s)])"

definition list_param :: "string \<Rightarrow> string list option \<Rightarrow> (string \<times> string option) list" where
  "list_param name v = (case v of None \<Rightarrow> [] | Some ss \<Rightarrow> if ss = [] then [] else [(name, Some (join '','' ss))])"

fun json_list :: "json \<Rightarrow> json list" where
  "json_list (Jarr js) = js"
| "json_list _ = []"

definition client_benchmarks ::
  "graph_database_access \<Rightarrow> string list option \<Rightarrow> bool option \<Rightarrow> bool option \<Rightarrow> bool option \<Rightarrow> json inv" where
  "client_benchmarks access benchmarks short with_checks ids_only =
     (if benchmarks = Some [] then ret (Jarr [])
      else
        bind (inv_request (get_request ''/report/benchmarks''
            (list_param ''benchmarks'' benchmarks @ flag_param ''short'' short @ flag_param ''with_checks'' with_checks @
             flag_param ''ids_only'' ids_only)
            (access_headers access (Some media_json) None [])) (Some [media_json]) None) (\<lambda>response.
        body_json response))"

definition client_checks ::
  "graph_database_access \<Rightarrow> string option \<Rightarrow> string option \<Rightarrow> string option \<Rightarrow> string option \<Rightarrow> string list option \<Rightarrow>
   bool option \<Rightarrow> json inv" where
  "client_checks access provider service category kind check_ids ids_only =
     (if check_ids = Some [] then ret (Jarr [])
      else
        bind (inv_request (get_request ''/report/checks''
            (text_param ''provider'' provider @ text_param ''service'' service @ text_param ''category'' category @
             text_param ''kind'' kind @ list_param ''id'' check_ids @ flag_param ''ids_only'' ids_only)
            (access_headers access (Some media_json) None [])) (Some [media_json]) None) (\<lambda>response.
        body_json response))"

text \<open>A node without an id raises \<open>KeyError\<close>; the id of a node is a text.\<close>

fun delete_nodes :: "graph_database_access \<Rightarrow> json list \<Rightarrow> unit inv" where
  "delete_nodes access [] = ret ()"
| "delete_nodes access (node # nodes) =
     (case json_get ''id'' node of
        Some (Jstr node_id) \<Rightarrow>
          bind (inv_request \<lparr>rq_method = ''DELETE'', rq_path = graph_path (''/node/'' @ node_id), rq_params = [],
              rq_headers = access_headers access (Some media_json) None [], rq_content = None, rq_json = None\<rparr> None None) (\<lambda>_.
          delete_nodes access nodes)
      | _ \<Rightarrow> raise KeyError)"

definition client_delete_account :: "graph_database_access \<Rightarrow> string \<Rightarrow> string \<Rightarrow> unit inv" where
  "client_delete_account access cloud account_id =
     bind (search access (''is(account) and id=='' @ account_id @ '' and /ancestors.cloud.reported.name=='' @ [CHR 0x22] @ cloud @
         [CHR 0x22] @ '' limit 1'') False) (\<lambda>results.
     delete_nodes access (sm_items results))"

record complete_path_request =
  cp_path :: "string option"
  cp_prop :: "string option"
  cp_kinds :: "string list option"
  cp_fuzzy :: bool
  cp_limit :: int
  cp_skip :: int

definition complete_path_json :: "complete_path_request \<Rightarrow> json" where
  "complete_path_json r = Jobj [(''path'', opt_str (cp_path r)), (''prop'', opt_str (cp_prop r)),
     (''kinds'', case cp_kinds r of None \<Rightarrow> Jnull | Some ks \<Rightarrow> strings ks), (''fuzzy'', Jbool (cp_fuzzy r)),
     (''limit'', Jnum (of_int (cp_limit r))), (''skip'', Jnum (of_int (cp_skip r)))]"

definition complete_property_path :: "graph_database_access \<Rightarrow> complete_path_request \<Rightarrow> (int \<times> json) inv" where
  "complete_property_path access request =
     bind (inv_request \<lparr>rq_method = ''POST'', rq_path = graph_path ''/property/path/complete'',
       rq_params = [(''section'', Some default_section)], rq_headers = access_headers access (Some media_json) None [],
       rq_content = None, rq_json = Some (complete_path_json request)\<rparr> (Some [media_json]) None) (\<lambda>response.
     case map_of (rs_headers response) ''total-count'' of
       None \<Rightarrow> bind (body_json response) (\<lambda>body. ret (0, body))
     | Some n \<Rightarrow> (case int_of_text 0 False n of None \<Rightarrow> raise ValueError
         | Some c \<Rightarrow> bind (body_json response) (\<lambda>body. ret (c, body))))"

definition possible_values ::
  "graph_database_access \<Rightarrow> string \<Rightarrow> string \<Rightarrow> string \<Rightarrow> int \<Rightarrow> int \<Rightarrow> bool \<Rightarrow> stream inv" where
  "possible_values access query prop_or_predicate detail limit skip count =
     inv_stream (post_query access (graph_path (''/property/'' @ detail)) query
       [(''section'', Some default_section), (''prop'', Some prop_or_predicate), (''limit'', Some (int_str limit)),
        (''skip'', Some (int_str skip)), (''count'', Some (bool_str count))]) (Some expect_ndjson)"

definition client_resource :: "graph_database_access \<Rightarrow> string \<Rightarrow> json option inv" where
  "client_resource access node_id =
     bind (inv_request (get_request (graph_path (''/node/'' @ node_id)) []
         (access_headers access (Some media_json) (Some media_text) [])) (Some [media_json]) (Some [404])) (\<lambda>response.
     if rs_status response = 404 then ret None else bind (body_json response) (\<lambda>body. ret (Some body)))"

datatype metadata_option = With_metadata bool | Metadata_of "string list"

record model_options =
  mo_format :: "string option"
  mo_flat :: bool
  mo_with_bases :: bool
  mo_with_property_kinds :: bool
  mo_kind :: "string list option"
  mo_kind_filter :: "string list option"
  mo_aggregate_roots_only :: bool
  mo_with_properties :: bool
  mo_with_relatives :: bool
  mo_with_metadata :: metadata_option

definition joined :: "string list option \<Rightarrow> string option" where
  "joined v = (case v of None \<Rightarrow> None | Some ss \<Rightarrow> if ss = [] then None else Some (join '','' ss))"

definition model_params :: "model_options \<Rightarrow> (string \<times> string option) list" where
  "model_params m = [(''format'', mo_format m), (''kind'', joined (mo_kind m)), (''filter'', joined (mo_kind_filter m)),
     (''with_bases'', Some (bool_str (mo_with_bases m))), (''with_property_kinds'', Some (bool_str (mo_with_property_kinds m))),
     (''flat'', Some (bool_str (mo_flat m))), (''aggregate_roots_only'', Some (bool_str (mo_aggregate_roots_only m))),
     (''with_properties'', Some (bool_str (mo_with_properties m))), (''with_relatives'', Some (bool_str (mo_with_relatives m))),
     (''with_metadata'', Some (case mo_with_metadata m of With_metadata b \<Rightarrow> bool_str b | Metadata_of ks \<Rightarrow> join '','' ks))]"

definition client_model :: "graph_database_access \<Rightarrow> model_options \<Rightarrow> json inv" where
  "client_model access m =
     bind (inv_request (get_request (graph_path ''/model'') (model_params m)
         (access_headers access (Some media_json) (Some media_text) [])) (Some [media_json]) None) (\<lambda>response.
     body_json response)"

record timeseries_options =
  to_start :: "datetime option"
  to_end :: "datetime option"
  to_group :: "string list option"
  to_filter_group :: "string list option"
  to_granularity :: "timedelta option"
  to_aggregation :: "string option"

definition timeseries_body :: "client_env \<Rightarrow> timeseries_options \<Rightarrow> json" where
  "timeseries_body env t = Jobj (
     (case to_start t of None \<Rightarrow> [] | Some d \<Rightarrow> [(''start'', Jstr (ce_utc_str env d))]) @
     (case to_end t of None \<Rightarrow> [] | Some d \<Rightarrow> [(''end'', Jstr (ce_utc_str env d))]) @
     (case to_group t of None \<Rightarrow> [] | Some g \<Rightarrow> [(''group'', strings g)]) @
     (case to_filter_group t of None \<Rightarrow> [] | Some g \<Rightarrow> [(''filter'', strings g)]) @
     (case to_granularity t of None \<Rightarrow> [] | Some d \<Rightarrow> if d = 0 then [] else [(''granularity'', Jstr (ce_seconds env d))]) @
     (if str_true (to_aggregation t) then [(''aggregation'', Jstr (the (to_aggregation t)))] else []))"

definition client_timeseries :: "client_env \<Rightarrow> graph_database_access \<Rightarrow> string \<Rightarrow> timeseries_options \<Rightarrow> stream inv" where
  "client_timeseries env access name t =
     inv_stream \<lparr>rq_method = ''POST'', rq_path = ''/timeseries/'' @ name, rq_params = [],
       rq_headers = access_headers access (Some media_ndjson) (Some media_json) [], rq_content = None,
       rq_json = Some (timeseries_body env t)\<rparr> (Some expect_ndjson)"

definition json_request :: "string \<Rightarrow> string \<Rightarrow> graph_database_access \<Rightarrow> (string \<times> string option) list \<Rightarrow> json \<Rightarrow> json inv" where
  "json_request method path access params body =
     bind (inv_request \<lparr>rq_method = method, rq_path = path, rq_params = params,
       rq_headers = access_headers access (Some media_json) (Some media_json) [], rq_content = None, rq_json = Some body\<rparr>
       (Some [media_json]) None) (\<lambda>response. body_json response)"

definition update_node :: "graph_database_access \<Rightarrow> string \<Rightarrow> json \<Rightarrow> string \<Rightarrow> bool \<Rightarrow> json inv" where
  "update_node access node_id patch section force =
     json_request ''PATCH'' (graph_path (''/node/'' @ node_id)) access
       [(''section'', Some section), (''force'', Some (bool_str force))] patch"

definition client_config :: "graph_database_access \<Rightarrow> string \<Rightarrow> json inv" where
  "client_config access config_id =
     bind (inv_request (get_request (''/config/'' @ config_id) [] (access_headers access (Some media_json) (Some media_json) []))
       (Some [media_json]) None) (\<lambda>response. body_json response)"

definition update_config :: "graph_database_access \<Rightarrow> string \<Rightarrow> json \<Rightarrow> bool \<Rightarrow> json inv" where
  "update_config access config_id update patch =
     json_request (if patch then ''PATCH'' else ''PUT'') (''/config/'' @ config_id) access [] update"

text \<open>A body that is empty, like none at all, gets no content type.\<close>

definition json_true :: "json option \<Rightarrow> bool" where
  "json_true b \<longleftrightarrow> (case b of None \<Rightarrow> False | Some j \<Rightarrow> j \<notin> {Jnull, Jbool False, Jnum 0, Jstr [], Jarr [], Jobj []})"

definition call_json :: "graph_database_access \<Rightarrow> string \<Rightarrow> string \<Rightarrow> json option \<Rightarrow> bool \<Rightarrow> json option inv" where
  "call_json access method path body expect_result =
     bind (inv_request \<lparr>rq_method = method, rq_path = path, rq_params = [],
       rq_headers = access_headers access (if expect_result then Some media_json else None)
         (if json_true body then Some media_json else None) [], rq_content = None, rq_json = body\<rparr>
       (if expect_result then Some [media_json] else None) None) (\<lambda>response.
     if expect_result then bind (body_json response) (\<lambda>body. ret (Some body)) else ret None)"


subsection \<open>Every request carries the credentials of its workspace\<close>

definition carries :: "graph_database_access \<Rightarrow> http_request \<Rightarrow> bool" where
  "carries access q \<longleftrightarrow>
     map_of (rq_headers q) ''FixGraphDbServer'' = Some (g_server access) \<and>
     map_of (rq_headers q) ''FixGraphDbDatabase'' = Some (g_database access) \<and>
     map_of (rq_headers q) ''FixGraphDbUsername'' = Some (g_username access) \<and>
     map_of (rq_headers q) ''FixGraphDbPassword'' = Some (g_password access)"

text \<open>\<open>asks access sent s\<close>: since the log was \<open>sent\<close>, only requests with this access were sent.\<close>

definition asks :: "graph_database_access \<Rightarrow> http_request list \<Rightarrow> inventory_server \<Rightarrow> bool" where
  "asks access sent s \<longleftrightarrow> (\<exists>qs. is_log s = sent @ qs \<and> (\<forall>q\<in>set qs. carries access q))"

lemma asks_start: "asks access (is_log s) s"
  by (simp add: asks_def)

lemma map_of_access_headers:
  "map_of (access_headers access accept content additional) ''FixGraphDbServer'' = Some (g_server access)"
  "map_of (access_headers access accept content additional) ''FixGraphDbDatabase'' = Some (g_database access)"
  "map_of (access_headers access accept content additional) ''FixGraphDbUsername'' = Some (g_username access)"
  "map_of (access_headers access accept content additional) ''FixGraphDbPassword'' = Some (g_password access)"
  by (simp_all add: access_headers_def)

lemma carries_access_headers: "rq_headers q = access_headers access accept content additional \<Longrightarrow> carries access q"
  by (simp add: carries_def map_of_access_headers)

lemma preserves_send [pres]: "carries access q \<Longrightarrow> preserves (asks access sent) (send q)"
  by (fastforce simp: preserves_def asks_def send_def Let_def)

lemma preserves_json [pres]:
  "preserves I a \<Longrightarrow> (\<And>v. preserves I (b v)) \<Longrightarrow> (\<And>v. preserves I (c v)) \<Longrightarrow> (\<And>v. preserves I (d v)) \<Longrightarrow>
   (\<And>v. preserves I (e v)) \<Longrightarrow> (\<And>v. preserves I (f v)) \<Longrightarrow>
   preserves I (case j of Jnull \<Rightarrow> a | Jbool v \<Rightarrow> b v | Jnum v \<Rightarrow> c v | Jstr v \<Rightarrow> d v | Jarr v \<Rightarrow> e v | Jobj v \<Rightarrow> f v)"
  by (cases j) auto

lemma preserves_check_response [pres]: "preserves I (check_response r types codes)"
  unfolding check_response_def by (intro pres)

lemma preserves_answer [pres]:
  "(\<And>e. preserves I (f e)) \<Longrightarrow> (\<And>e. preserves I (g e)) \<Longrightarrow> (\<And>r. preserves I (h r)) \<Longrightarrow>
   preserves I (case answer of Connect_error e \<Rightarrow> f e | Read_timeout e \<Rightarrow> g e | Answered r \<Rightarrow> h r)"
  by (cases answer) auto

lemma preserves_inv_request [pres]: "carries access q \<Longrightarrow> preserves (asks access sent) (inv_request q types codes)"
  unfolding inv_request_def by (intro pres)

lemma preserves_inv_stream [pres]: "carries access q \<Longrightarrow> preserves (asks access sent) (inv_stream q types)"
  unfolding inv_stream_def by (intro pres)

lemma carries_requests:
  "carries access (post_query access path query params)"
  "carries access (get_request path params (access_headers access accept content additional))"
  by (rule carries_access_headers, simp add: post_query_def get_request_def)+

lemma preserves_delete_nodes: "preserves (asks access sent) (delete_nodes access nodes)"
proof (induction nodes)
  case Nil
  show ?case unfolding delete_nodes.simps by (rule preserves_ret)
next
  case (Cons node nodes)
  then show ?case by (auto intro!: pres carries_access_headers)
qed

lemmas client_defs = create_database_def execute_single_def search_def search_history_def history_timeline_def aggregate_def
  client_benchmarks_def client_checks_def client_delete_account_def complete_property_path_def possible_values_def
  client_resource_def client_model_def client_timeseries_def update_node_def client_config_def update_config_def
  call_json_def json_request_def

lemma preserves_client [pres]:
  "preserves (asks access sent) (create_database access)"
  "preserves (asks access sent) (execute_single access command env)"
  "preserves (asks access sent) (search access query with_edges)"
  "preserves (asks access sent) (search_history cenv access query before after change)"
  "preserves (asks access sent) (history_timeline cenv access query after' before' granularity changes)"
  "preserves (asks access sent) (aggregate access query)"
  "preserves (asks access sent) (client_benchmarks access benchmarks short with_checks ids_only)"
  "preserves (asks access sent) (client_checks access provider service category kind check_ids ids_only)"
  "preserves (asks access sent) (client_delete_account access cloud account_id)"
  "preserves (asks access sent) (complete_property_path access request)"
  "preserves (asks access sent) (possible_values access query prop detail limit skip count)"
  "preserves (asks access sent) (client_resource access node_id)"
  "preserves (asks access sent) (client_model access m)"
  "preserves (asks access sent) (client_timeseries cenv access name t)"
  "preserves (asks access sent) (update_node access node_id patch section force)"
  "preserves (asks access sent) (client_config access config_id)"
  "preserves (asks access sent) (update_config access config_id update replace)"
  "preserves (asks access sent) (call_json access method path body expect_result)"
  unfolding client_defs Let_def
  by (intro pres carries_requests preserves_delete_nodes; simp add: carries_access_headers)+

subsection \<open>What the client makes of an error\<close>

lemma inv_request_run:
  "inv_request q types codes s =
    (let log = is_log s @ [q]; s' = s\<lparr>is_log := log\<rparr> in
     case is_answer s log of
       Connect_error e \<Rightarrow> (Inl (InventoryException Inventory_error 502 (''Can not connect to inventory: '' @ e)), s')
     | Read_timeout e \<Rightarrow> (Inl (InventoryException Inventory_request_took_too_long 408 (''Request took too long: '' @ e)), s')
     | Answered r \<Rightarrow> (case fst (check_response r types codes s') of Inl e \<Rightarrow> Inl e | Inr _ \<Rightarrow> Inr r, s'))"
proof -
  have "check_response r types codes w = (fst (check_response r types codes w), w)" for r w
    by (auto simp: check_response_def split: option.splits)
  then show ?thesis
    by (auto simp: inv_request_def send_def bind_def Let_def split: http_answer.splits sum.splits prod.splits)
      (metis prod.inject)+
qed

text \<open>
  C34: Asking for a resource by its id never answers that there is none: that the inventory does not have it is raised as
  an error, although the caller allows this code and tests for it. Any other error of the inventory is not raised as
  such: if its body is JSON it is returned as if it were the resource, if not (as with most texts) the call fails with the
  \<open>ValueError\<close> of the parser. The test for the allowed codes is the wrong way round.
\<close>

theorem resource_errors_swapped:
  assumes "is_answer s (is_log s @ [q]) = Answered r" and "400 \<le> rs_status r" and "rs_status r \<le> 599"
    and "q = get_request (graph_path (''/node/'' @ node_id)) [] (access_headers access (Some media_json) (Some media_text) [])"
  shows "client_resource access node_id s =
    (if rs_status r = 404
     then Inl (InventoryException (if contains ''NoSuchGraph'' (rs_text r) then No_such_graph else Inventory_error) 404 (rs_text r))
     else (case rs_json r of Some body \<Rightarrow> Inr (Some body) | None \<Rightarrow> Inl ValueError), s\<lparr>is_log := is_log s @ [q]\<rparr>)"
  using assms
  by (auto simp: client_resource_def inv_request_run Let_def check_response_def is_error_def bind_def body_json_def
      split: sum.splits option.splits)

definition sample_access :: graph_database_access where
  "sample_access = \<lparr>g_workspace_id = 7, g_server = ''s1'', g_username = ''u'', g_password = ''p'', g_database = ''d''\<rparr>"

definition failing_server :: "nat \<Rightarrow> json option \<Rightarrow> inventory_server" where
  "failing_server status body = \<lparr>is_answer = (\<lambda>_. Answered \<lparr>rs_status = status, rs_headers = [], rs_text = ''e'',
     rs_json = body, rs_lines = []\<rparr>), is_log = [], is_cached_roots = None\<rparr>"

lemma resource_errors_swapped_witness:
  "fst (client_resource sample_access ''n'' (failing_server 404 None)) = Inl (InventoryException Inventory_error 404 ''e'') \<and>
   fst (client_resource sample_access ''n'' (failing_server 500 (Some (Jobj [])))) = Inr (Some (Jobj [])) \<and>
   fst (client_resource sample_access ''n'' (failing_server 401 None)) = Inl ValueError"
  using resource_errors_swapped [of "failing_server 404 None" _ _ "''n''" sample_access]
    resource_errors_swapped [of "failing_server 500 (Some (Jobj []))" _ _ "''n''" sample_access]
    resource_errors_swapped [of "failing_server 401 None" _ _ "''n''" sample_access]
  by (simp add: failing_server_def)

end
