(* ===== verification/Inventory_Search.thy ===== *)
theory Inventory_Search
  imports Inventory_Client Inventory_Report Domain_Events "HOL-Library.Char_ord" "HOL-Library.List_Lexorder"
begin

section \<open>Searching the inventory\<close>

text \<open>
  The operations of \<open>InventoryService\<close> (\<open>inventory/inventory_service.py\<close>) that put a question to the inventory
  together and prepare its answer, with the requests of \<open>inventory/inventory_schemas.py\<close>. The cache in front of them
  is left out, except for the model of the kinds, which the service keeps for good. Requests that the code starts
  together are sent in order. Floats are rationals: their sums and averages are exact here. Parsing a point in time,
  \<open>str\<close> of a JSON value and \<open>json.dumps\<close> are parameters, and so is \<open>value_in_path\<close> of the library \<open>fixcloudutils\<close>.
\<close>

record search_env =
  sv_client :: client_env
  sv_parse_utc :: "string \<Rightarrow> datetime option"
  sv_str :: "json \<Rightarrow> string"
  sv_value_in_path :: "json \<Rightarrow> string list \<Rightarrow> json option"

subsection \<open>Checks, benchmarks and the configuration of reports\<close>

definition report_info :: "graph_database_access \<Rightarrow> json inv" where
  "report_info db =
     bind (client_benchmarks db None None None (Some True)) (\<lambda>benchmark_ids.
     bind (client_checks db None None None None None (Some True)) (\<lambda>check_ids.
     ret (Jobj [(''benchmarks'', benchmark_ids), (''checks'', check_ids)])))"

record report_config =
  rc_ignore_checks :: "string list option"
  rc_ignore_benchmarks :: "string list option"
  rc_override_values :: "json option"

text \<open>The validation of a model: a missing field is None, a value of another type raises.\<close>

fun string_of_json :: "json \<Rightarrow> exn + string" where
  "string_of_json (Jstr s) = Inr s"
| "string_of_json _ = Inl ValueError"

fun strings_of_json :: "json option \<Rightarrow> exn + string list option" where
  "strings_of_json None = Inr None"
| "strings_of_json (Some Jnull) = Inr None"
| "strings_of_json (Some (Jarr js)) = map_sum id Some (traverse string_of_json js)"
| "strings_of_json (Some _) = Inl ValueError"

fun object_of_json :: "json option \<Rightarrow> exn + json option" where
  "object_of_json None = Inr None"
| "object_of_json (Some Jnull) = Inr None"
| "object_of_json (Some (Jobj obj)) = Inr (Some (Jobj obj))"
| "object_of_json (Some _) = Inl ValueError"

definition validate_report_config :: "json \<Rightarrow> exn + report_config" where
  "validate_report_config v =
     (case strings_of_json (json_get ''ignore_checks'' v) of Inl e \<Rightarrow> Inl e
      | Inr ignore_checks \<Rightarrow> (case strings_of_json (json_get ''ignore_benchmarks'' v) of Inl e \<Rightarrow> Inl e
      | Inr ignore_benchmarks \<Rightarrow> (case object_of_json (json_get ''override_values'' v) of Inl e \<Rightarrow> Inl e
      | Inr override_values \<Rightarrow> Inr \<lparr>rc_ignore_checks = ignore_checks, rc_ignore_benchmarks = ignore_benchmarks,
          rc_override_values = override_values\<rparr>)))"

text \<open>\<open>v["ignore_benchmarks"] = ...\<close> replaces or adds a field of a dictionary.\<close>

fun set_field :: "string \<Rightarrow> json \<Rightarrow> (string \<times> json) list \<Rightarrow> (string \<times> json) list" where
  "set_field k v [] = [(k, v)]"
| "set_field k v ((k', v') # r) = (if k' = k then (k, v) # r else (k', v') # set_field k v r)"

definition report_config_id :: string where
  "report_config_id = ''fix.report.config''"

definition read_report_config :: "json \<Rightarrow> exn + report_config" where
  "read_report_config js =
     (case js of
        Jobj obj \<Rightarrow>
          (case (case map_of obj ''report_config'' of None \<Rightarrow> Jobj [] | Some v \<Rightarrow> v) of
             Jobj v \<Rightarrow> validate_report_config (Jobj (set_field ''ignore_benchmarks''
               (case map_of obj ''ignore_benchmarks'' of None \<Rightarrow> Jarr [] | Some b \<Rightarrow> b) v))
           | _ \<Rightarrow> Inl TypeError)
      | _ \<Rightarrow> Inl AttributeError)"

definition get_report_config :: "graph_database_access \<Rightarrow> report_config inv" where
  "get_report_config db = bind (client_config db report_config_id) (\<lambda>js. lift (read_report_config js))"

definition opt_strings :: "string list option \<Rightarrow> json" where
  "opt_strings v = (case v of None \<Rightarrow> Jnull | Some ss \<Rightarrow> strings ss)"

definition report_config_json :: "report_config \<Rightarrow> json" where
  "report_config_json c = Jobj [(''ignore_benchmarks'', opt_strings (rc_ignore_benchmarks c)),
     (''report_config'', Jobj [(''ignore_checks'', opt_strings (rc_ignore_checks c)),
        (''override_values'', case rc_override_values c of None \<Rightarrow> Jnull | Some v \<Rightarrow> v)])]"

definition update_report_config :: "graph_database_access \<Rightarrow> report_config \<Rightarrow> unit inv" where
  "update_report_config db config = bind (update_config db report_config_id (report_config_json config) False) (\<lambda>_. ret ())"

definition benchmark_command :: "string \<Rightarrow> string list option \<Rightarrow> string option \<Rightarrow> bool \<Rightarrow> string" where
  "benchmark_command benchmark_name selected severity only_failing =
     ''report benchmark load '' @ benchmark_name @
     (case selected of None \<Rightarrow> [] | Some ss \<Rightarrow> if ss = [] then [] else '' --accounts '' @ join '' '' ss) @
     (if str_true severity then '' --severity '' @ the severity else []) @
     (if only_failing then '' --only-failing'' else []) @ '' | dump''"

definition load_benchmark :: "graph_database_access \<Rightarrow> string \<Rightarrow> string list option \<Rightarrow> string option \<Rightarrow> bool \<Rightarrow> stream inv" where
  "load_benchmark db benchmark_name selected severity only_failing =
     execute_single db (benchmark_command benchmark_name selected severity only_failing) []"

subsection \<open>The table of a search\<close>

record history_search =
  hs_before :: "datetime option"
  hs_after :: "datetime option"
  hs_change :: "string option"
  hs_changes :: "string list"

text \<open>The order of a set is open in Python; here the single change comes last.\<close>

definition all_changes :: "history_search \<Rightarrow> string list" where
  "all_changes h = (case hs_change h of Some c \<Rightarrow> remdups (hs_changes h @ [c]) | None \<Rightarrow> hs_changes h)"

record search_table_request =
  sr_query :: string
  sr_history :: "history_search option"
  sr_skip :: int
  sr_limit :: int
  sr_count :: bool
  sr_sort :: "(string \<times> string) list"
  sr_properties_to_show :: "(string \<times> string) list"
  sr_with_defaults :: bool

definition history_command :: "client_env \<Rightarrow> history_search \<Rightarrow> string \<Rightarrow> string" where
  "history_command env h query =
     ''history'' @ concat (map (\<lambda>c. '' --change '' @ c) (all_changes h)) @
     (case hs_before h of None \<Rightarrow> [] | Some t \<Rightarrow> '' --before '' @ ce_utc_str env t) @
     (case hs_after h of None \<Rightarrow> [] | Some t \<Rightarrow> '' --after '' @ ce_utc_str env t) @ '' '' @ query"

definition table_format :: "search_table_request \<Rightarrow> bool \<Rightarrow> string" where
  "table_format r csv =
     (if csv then ''--csv'' else ''--json-table'') @ (if sr_with_defaults r then '' --with-defaults'' else []) @
     (if sr_properties_to_show r = [] then []
      else '' '' @ join '', '' (map (\<lambda>(path, name). path @ '' as '' @ name) (sr_properties_to_show r)))"

definition table_command :: "client_env \<Rightarrow> search_table_request \<Rightarrow> bool \<Rightarrow> string" where
  "table_command env r csv =
     (case sr_history r of Some h \<Rightarrow> history_command env h (sr_query r) | None \<Rightarrow> ''search '' @ sr_query r) @
     (if sr_sort r = [] then []
      else '' | sort '' @ join '', '' (map (\<lambda>(path, direction). path @ '' '' @ direction) (sr_sort r))) @
     '' | limit '' @ int_str (sr_skip r) @ '', '' @ int_str (sr_limit r) @ '' | list '' @ table_format r csv"

definition search_table :: "client_env \<Rightarrow> graph_database_access \<Rightarrow> search_table_request \<Rightarrow> bool \<Rightarrow> stream inv" where
  "search_table env db r csv = execute_single db (table_command env r csv) [(''count'', bool_str (sr_count r))]"

subsection \<open>What a search can start with\<close>

record search_cloud_resource =
  sc_id :: string
  sc_name :: string
  sc_cloud :: string

definition cloud_resource_command :: "string \<Rightarrow> string \<Rightarrow> string \<Rightarrow> string" where
  "cloud_resource_command search_filter id_prop name_prop =
     ''search '' @ search_filter @ '' | aggregate '' @ id_prop @ '' as id, '' @ name_prop @
     '' as name, /ancestors.cloud.reported.name as cloud: sum(1) as count | jq --no-rewrite .group''"

definition validate_resource :: "json \<Rightarrow> exn + search_cloud_resource" where
  "validate_resource n =
     (case (json_get ''id'' n, json_get ''name'' n, json_get ''cloud'' n) of
        (Some (Jstr i), Some (Jstr name), Some (Jstr cloud)) \<Rightarrow> Inr \<lparr>sc_id = i, sc_name = name, sc_cloud = cloud\<rparr>
      | _ \<Rightarrow> Inl ValueError)"

fun in_a_cloud :: "json \<Rightarrow> bool" where
  "in_a_cloud (Jobj obj) \<longleftrightarrow> (case map_of obj ''cloud'' of None \<Rightarrow> False | Some c \<Rightarrow> c \<noteq> Jnull)"
| "in_a_cloud _ \<longleftrightarrow> False"

definition cloud_resources :: "graph_database_access \<Rightarrow> string \<Rightarrow> string \<Rightarrow> string \<Rightarrow> search_cloud_resource list inv" where
  "cloud_resources db search_filter id_prop name_prop =
     bind (execute_single db (cloud_resource_command search_filter id_prop name_prop) []) (\<lambda>result.
     bind (lift (traverse validate_resource (filter in_a_cloud (sm_items result)))) (\<lambda>found.
     ret (sort_key sc_name found)))"

text \<open>The model of the kinds is asked for once, by whichever workspace comes first, and kept for all.\<close>

fun fqn_entry :: "json \<Rightarrow> exn + string \<times> json" where
  "fqn_entry k = (case json_get ''fqn'' k of Some (Jstr n) \<Rightarrow> Inr (n, k) | _ \<Rightarrow> Inl KeyError)"

definition aggregate_roots :: "graph_database_access \<Rightarrow> (string \<times> json) list inv" where
  "aggregate_roots db =
     bind (gets is_cached_roots) (\<lambda>cached.
     case cached of Some roots \<Rightarrow> ret roots
     | None \<Rightarrow>
         bind (client_model db \<lparr>mo_format = None, mo_flat = False, mo_with_bases = False, mo_with_property_kinds = False,
             mo_kind = None, mo_kind_filter = None, mo_aggregate_roots_only = True, mo_with_properties = False,
             mo_with_relatives = False, mo_with_metadata = With_metadata True\<rparr>) (\<lambda>root_list.
         bind (lift (traverse fqn_entry (json_list root_list))) (\<lambda>roots.
         bind (modify (\<lambda>s. s\<lparr>is_cached_roots := Some (rev roots)\<rparr>)) (\<lambda>_. ret (rev roots)))))"

text \<open>A name that is not a text is assigned without validation; its text stands for it here.\<close>

definition kind_name :: "search_env \<Rightarrow> (string \<times> json) list \<Rightarrow> search_cloud_resource \<Rightarrow> search_cloud_resource" where
  "kind_name env roots k =
     (case map_of roots (sc_id k) of None \<Rightarrow> k
      | Some kind \<Rightarrow>
          (case sv_value_in_path env kind [''metadata'', ''name''] of
             Some (Jstr n) \<Rightarrow> if n \<noteq> [] then k\<lparr>sc_name := n\<rparr> else k
           | Some j \<Rightarrow> if json_true (Some j) then k\<lparr>sc_name := sv_str env j\<rparr> else k
           | None \<Rightarrow> k))"

record search_start_data =
  sd_accounts :: "search_cloud_resource list"
  sd_regions :: "search_cloud_resource list"
  sd_kinds :: "search_cloud_resource list"
  sd_severity :: "report_severity list"

definition search_start_data :: "search_env \<Rightarrow> graph_database_access \<Rightarrow> search_start_data inv" where
  "search_start_data env db =
     bind (cloud_resources db ''is(account)'' ''id'' ''name'') (\<lambda>accs.
     bind (cloud_resources db ''is(region)'' ''id'' ''name'') (\<lambda>regions.
     bind (cloud_resources db ''all'' ''kind'' ''kind'') (\<lambda>kinds.
     bind (aggregate_roots db) (\<lambda>roots.
     ret \<lparr>sd_accounts = accs, sd_regions = regions, sd_kinds = map (kind_name env roots) kinds,
       sd_severity = [Severity_info, Severity_low, Severity_medium, Severity_high, Severity_critical]\<rparr>))))"

subsection \<open>One resource\<close>

fun issue_check :: "json \<Rightarrow> exn + string" where
  "issue_check sc = (case json_get ''check'' sc of Some (Jstr c) \<Rightarrow> Inr c | _ \<Rightarrow> Inl KeyError)"

definition check_priority :: "json \<Rightarrow> nat" where
  "check_priority check = priority (case json_get ''severity'' check of None \<Rightarrow> ''info'' | Some (Jstr s) \<Rightarrow> s | Some _ \<Rightarrow> [])"

definition load_resource :: "search_env \<Rightarrow> graph_database_access \<Rightarrow> string \<Rightarrow> json inv" where
  "load_resource env db resource_id =
     bind (client_resource db resource_id) (\<lambda>found.
     let resource = (case found of None \<Rightarrow> Jnull | Some r \<Rightarrow> r);
         issues = (case sv_value_in_path env resource [''security'', ''issues''] of Some (Jarr js) \<Rightarrow> js | _ \<Rightarrow> []) in
     bind (lift (traverse issue_check issues)) (\<lambda>failing.
     let check_ids = failing @ (case sv_value_in_path env resource [''metadata'', ''security_ignore''] of
           Some (Jarr js) \<Rightarrow> map (sv_str env) js | _ \<Rightarrow> []) in
     bind (if check_ids = [] then ret (Jarr []) else client_checks db None None None None (Some check_ids) None) (\<lambda>checks.
     ret (Jobj [(''resource'', resource),
       (''checks'', Jarr (sort_key (\<lambda>c. - int (check_priority c)) (json_list checks)))]))))"

definition neighborhood_command :: "string \<Rightarrow> string" where
  "neighborhood_command resource_id =
     ''search --with-edges id('' @ [CHR 0x22] @ resource_id @ [CHR 0x22] @ '') <-[0:2]-> | refine-resource-data | jq --no-rewrite '' @
     [CHR 0x27] @
     ''{id:.id,type:.type,from:.from,to:.to,metadata:.kind.metadata,age:.reported.age,tags:.reported.tags,'' @
     ''reported: (if .reported!=null then {id: .reported.id, name: .reported.name, kind: .reported.kind} else null end) }'' @
     ''| walk(if type == '' @ [CHR 0x22] @ ''object'' @ [CHR 0x22] @ '' then with_entries(select(.value != null)) else . end)'' @
     [CHR 0x27]"

definition neighborhood :: "graph_database_access \<Rightarrow> string \<Rightarrow> stream inv" where
  "neighborhood db resource_id = execute_single db (neighborhood_command resource_id) [(''with-kind'', ''true'')]"

definition workflow_logs :: "graph_database_access \<Rightarrow> string \<Rightarrow> stream inv" where
  "workflow_logs db task_id = execute_single db (''workflows log '' @ task_id @ '' | dump'') []"


subsection \<open>Time series\<close>

record scatter =
  sc_group_name :: string
  sc_group :: "(string \<times> string option) list"
  sc_values :: "(datetime \<times> rat) list"
  sc_attributes :: "(string \<times> json) list"

record scatters =
  ss_start :: datetime
  ss_end :: datetime
  ss_granularity :: timedelta
  ss_ats :: "datetime list"
  ss_groups :: "scatter list"

definition scatter_avg :: "scatter \<Rightarrow> rat" where
  "scatter_avg s = (if sc_values s = [] then 0 else sum_list (map snd (sc_values s)) / of_nat (length (sc_values s)))"

text \<open>Values of a time series are numbers; a text that spells one is not taken for it here.\<close>

fun number_of_json :: "json \<Rightarrow> exn + rat" where
  "number_of_json (Jnum q) = Inr q"
| "number_of_json (Jbool b) = Inr (if b then 1 else 0)"
| "number_of_json _ = Inl ValueError"

fun label_of_json :: "string \<times> json \<Rightarrow> exn + string \<times> string option" where
  "label_of_json (k, Jstr s) = Inr (k, Some s)"
| "label_of_json (k, Jnull) = Inr (k, None)"
| "label_of_json (k, _) = Inl ValueError"

definition group_name_of :: "search_env \<Rightarrow> (string \<times> json) list \<Rightarrow> string" where
  "group_name_of env groups =
     (if groups = [] then ''all'' else join ''::'' (map (\<lambda>(k, v). k @ ''='' @ sv_str env v) (sort_key fst groups)))"

definition add_scatter :: "scatter \<Rightarrow> (string \<times> scatter) list \<Rightarrow> (string \<times> scatter) list" where
  "add_scatter new found =
     dict_upd (\<lambda>s. s\<lparr>sc_values := fold (\<lambda>(t, v). put t v) (sc_values new) (sc_values s)\<rparr>)
       (new\<lparr>sc_values := []\<rparr>) (sc_group_name new) found"

type_synonym points = "datetime list \<times> (string \<times> scatter) list"

definition add_entry :: "search_env \<Rightarrow> json \<Rightarrow> points \<Rightarrow> exn + points" where
  "add_entry env entry p =
     (case entry of
        Jobj obj \<Rightarrow>
          if \<not> (json_true (map_of obj ''at'') \<and> json_true (map_of obj ''v'')) then Inr p
          else
            (case sv_parse_utc env (sv_str env (the (map_of obj ''at''))) of
               None \<Rightarrow> Inl ValueError
             | Some t \<Rightarrow>
                 (case (if json_true (map_of obj ''group'') then the (map_of obj ''group'') else Jobj []) of
                    Jobj groups \<Rightarrow>
                      (case (traverse label_of_json groups, number_of_json (the (map_of obj ''v''))) of
                         (Inr labels, Inr v) \<Rightarrow>
                           Inr (insort t (filter (\<lambda>t1. t1 \<noteq> t) (fst p)),
                             add_scatter \<lparr>sc_group_name = group_name_of env groups, sc_group = labels, sc_values = [(t, v)],
                               sc_attributes = []\<rparr> (snd p))
                       | _ \<Rightarrow> Inl ValueError)
                  | _ \<Rightarrow> Inl AttributeError))
      | _ \<Rightarrow> Inl AttributeError)"

fun add_entries :: "search_env \<Rightarrow> json list \<Rightarrow> points \<Rightarrow> exn + points" where
  "add_entries env [] p = Inr p"
| "add_entries env (e # es) p = (case add_entry env e p of Inl x \<Rightarrow> Inl x | Inr p' \<Rightarrow> add_entries env es p')"

definition timeseries_scattered ::
  "search_env \<Rightarrow> graph_database_access \<Rightarrow> string \<Rightarrow> datetime \<Rightarrow> datetime \<Rightarrow> timedelta \<Rightarrow> string list option \<Rightarrow> string list option \<Rightarrow>
   string option \<Rightarrow> scatters inv" where
  "timeseries_scattered env db name start end_time granularity groups filter_group aggregation =
     bind (client_timeseries (sv_client env) db name \<lparr>to_start = Some start, to_end = Some end_time, to_group = groups,
         to_filter_group = filter_group, to_granularity = Some granularity, to_aggregation = aggregation\<rparr>) (\<lambda>cursor.
     bind (lift (add_entries env (sm_items cursor) ([], []))) (\<lambda>(ats, found).
     ret \<lparr>ss_start = start, ss_end = end_time, ss_granularity = granularity, ss_ats = ats,
       ss_groups = sort_key (\<lambda>s. - scatter_avg s) (map snd found)\<rparr>))"

subsection \<open>The summary of the inventory\<close>

definition value_or_null :: "search_env \<Rightarrow> json \<Rightarrow> string list \<Rightarrow> json" where
  "value_or_null env js path = (case sv_value_in_path env js path of None \<Rightarrow> Jnull | Some v \<Rightarrow> v)"

definition account_names :: "search_env \<Rightarrow> graph_database_access \<Rightarrow> (json \<times> json) list inv" where
  "account_names env db =
     bind (search db ''is(account)'' False) (\<lambda>response.
     ret (rev (map (\<lambda>a. (value_or_null env a [''reported'', ''id''], value_or_null env a [''reported'', ''name''])) (sm_items response))))"

fun rounded_value :: "json \<Rightarrow> exn + int" where
  "rounded_value (Jobj obj) =
     (case map_of obj ''v'' of
        None \<Rightarrow> Inl KeyError
      | Some (Jnum q) \<Rightarrow> Inr (py_round q)
      | Some (Jbool b) \<Rightarrow> Inr (if b then 1 else 0)
      | Some _ \<Rightarrow> Inl TypeError)"
| "rounded_value _ = Inl TypeError"

fun progress_of :: "int \<Rightarrow> int list \<Rightarrow> int \<times> int" where
  "progress_of not_exist [] = (not_exist, 0)"
| "progress_of not_exist [e] = (e, 0)"
| "progress_of not_exist (e0 # e1 # _) = (e1, e1 - e0)"

definition progress ::
  "search_env \<Rightarrow> graph_database_access \<Rightarrow> datetime \<Rightarrow> timedelta \<Rightarrow> string \<Rightarrow> int \<Rightarrow> string \<Rightarrow> string list option \<Rightarrow> (int \<times> int) inv" where
  "progress env db now duration metric not_exist aggregation filter_group =
     bind (client_timeseries (sv_client env) db metric \<lparr>to_start = Some (now - duration), to_end = Some now, to_group = Some [],
         to_filter_group = filter_group, to_granularity = Some duration, to_aggregation = Some aggregation\<rparr>) (\<lambda>response.
     bind (lift (traverse rounded_value (sm_items response))) (\<lambda>entries.
     ret (progress_of not_exist entries)))"

definition name_scatter :: "(json \<times> json) list \<Rightarrow> scatter \<Rightarrow> scatter" where
  "name_scatter names s =
     (let acc_id = (case map_of (sc_group s) ''account_id'' of None \<Rightarrow> Jstr ''<no account name>'' | Some i \<Rightarrow> opt_str i) in
      s\<lparr>sc_attributes := put ''name'' (case map_of names acc_id of None \<Rightarrow> acc_id | Some n \<Rightarrow> n) (sc_attributes s)\<rparr>)"

definition resources_per_account_timeline ::
  "search_env \<Rightarrow> graph_database_access \<Rightarrow> datetime \<Rightarrow> timedelta \<Rightarrow> (json \<times> json) list \<Rightarrow> scatters inv" where
  "resources_per_account_timeline env db now duration names =
     bind (timeseries_scattered env db ''resources'' (now - duration) now (td_days 1) (Some [''account_id''])
       (Some [''account_id!=null'']) (Some ''sum'')) (\<lambda>found.
     ret (found\<lparr>ss_groups := map (name_scatter names) (ss_groups found)\<rparr>))"

definition changes_command :: "search_env \<Rightarrow> datetime \<Rightarrow> string" where
  "changes_command env start =
     ''history --after '' @ ce_utc_str (sv_client env) start @
     '' --change node_created --change node_updated --change node_deleted | aggregate /change: sum(1) as count | dump''"

definition nr_of_changes :: "search_env \<Rightarrow> graph_database_access \<Rightarrow> datetime \<Rightarrow> (json \<times> json \<times> json) inv" where
  "nr_of_changes env db start =
     bind (execute_single db (changes_command env start) []) (\<lambda>result.
     let count = (\<lambda>r. case sv_value_in_path env r [''count''] of None \<Rightarrow> Jnum 0 | Some Jnull \<Rightarrow> Jnum 0 | Some v \<Rightarrow> v);
         changes = rev (map (\<lambda>r. (value_or_null env r [''group'', ''change''], count r)) (sm_items result));
         of_change = (\<lambda>c. case map_of changes (Jstr c) of None \<Rightarrow> Jnum 0 | Some n \<Rightarrow> n) in
     ret (of_change ''node_created'', of_change ''node_updated'', of_change ''node_deleted''))"

record inventory_summary =
  iv_resources_per_account_timeline :: scatters
  iv_score_progress :: "int \<times> int"
  iv_resource_changes :: "json \<times> json \<times> json"
  iv_instances_progress :: "int \<times> int"
  iv_cores_progress :: "int \<times> int"
  iv_memory_progress :: "int \<times> int"
  iv_volumes_progress :: "int \<times> int"
  iv_volume_bytes_progress :: "int \<times> int"
  iv_databases_progress :: "int \<times> int"
  iv_databases_bytes_progress :: "int \<times> int"
  iv_buckets_objects_progress :: "int \<times> int"
  iv_buckets_size_bytes_progress :: "int \<times> int"

definition inventory_summary :: "search_env \<Rightarrow> graph_database_access \<Rightarrow> datetime \<Rightarrow> timedelta \<Rightarrow> inventory_summary inv" where
  "inventory_summary env db now duration =
     (let total = (\<lambda>metric. progress env db now duration metric 0 ''sum'' None) in
      bind (account_names env db) (\<lambda>names.
      bind (resources_per_account_timeline env db now duration names) (\<lambda>timeline.
      bind (progress env db now duration ''account_score'' 100 ''avg'' None) (\<lambda>score.
      bind (nr_of_changes env db (now - duration)) (\<lambda>changes.
      bind (progress env db now duration ''instances_total'' 0 ''sum'' (Some [''status==running''])) (\<lambda>instances.
      bind (total ''cores_total'') (\<lambda>cores.
      bind (total ''memory_bytes'') (\<lambda>memory.
      bind (total ''volumes_total'') (\<lambda>volumes.
      bind (total ''volume_bytes'') (\<lambda>volume_bytes.
      bind (total ''databases_total'') (\<lambda>databases.
      bind (total ''databases_bytes'') (\<lambda>databases_bytes.
      bind (total ''buckets_objects_total'') (\<lambda>buckets_objects.
      bind (total ''buckets_size_bytes'') (\<lambda>buckets_size_bytes.
      ret \<lparr>iv_resources_per_account_timeline = timeline, iv_score_progress = score, iv_resource_changes = changes,
        iv_instances_progress = instances, iv_cores_progress = cores, iv_memory_progress = memory,
        iv_volumes_progress = volumes, iv_volume_bytes_progress = volume_bytes, iv_databases_progress = databases,
        iv_databases_bytes_progress = databases_bytes, iv_buckets_objects_progress = buckets_objects,
        iv_buckets_size_bytes_progress = buckets_size_bytes\<rparr>))))))))))))))"

subsection \<open>The usage of kinds\<close>

text \<open>Ids are texts, and \<open>metadata.descendant_summary\<close> is an object of whole numbers or absent, as the inventory writes them.\<close>

definition text_at :: "search_env \<Rightarrow> string list \<Rightarrow> json \<Rightarrow> string option" where
  "text_at env path js = (case sv_value_in_path env js path of Some (Jstr s) \<Rightarrow> Some s | _ \<Rightarrow> None)"

fun count_of_json :: "json \<Rightarrow> int" where
  "count_of_json (Jnum q) = \<lfloor>q\<rfloor>"
| "count_of_json _ = 0"

definition counts_at :: "search_env \<Rightarrow> string list \<Rightarrow> json \<Rightarrow> counts option" where
  "counts_at env path js = (case sv_value_in_path env js path of
     Some (Jobj obj) \<Rightarrow> Some (map (map_prod id count_of_json) obj) | _ \<Rightarrow> None)"

definition usage_nodes :: "search_env \<Rightarrow> graph_database_access \<Rightarrow> string \<Rightarrow> string list \<Rightarrow> usage_node list inv" where
  "usage_nodes env db kind account_path =
     bind (search db (''is('' @ kind @ '') and /metadata.descendant_count>0'') False) (\<lambda>response.
     ret (map (\<lambda>n. \<lparr>un_cloud = text_at env [''ancestors'', ''cloud'', ''reported'', ''id''] n, un_account = text_at env account_path n,
         un_region = text_at env [''reported'', ''id''] n, un_summary = counts_at env [''metadata'', ''descendant_summary''] n\<rparr>)
       (sm_items response)))"

definition load_descendant_summary ::
  "search_env \<Rightarrow> graph_database_access \<Rightarrow> string list \<Rightarrow> string list \<Rightarrow> string list \<Rightarrow> string list \<Rightarrow> (string \<times> kind_usage) list inv" where
  "load_descendant_summary env db cloud_ids account_ids region_ids kinds =
     bind (usage_nodes env db ''account'' [''reported'', ''id'']) (\<lambda>accs.
     bind (usage_nodes env db ''region'' [''ancestors'', ''account'', ''reported'', ''id'']) (\<lambda>regions.
     ret (descendant_summary accs regions cloud_ids account_ids region_ids kinds)))"

subsection \<open>Requests stay in the workspace\<close>

lemmas search_defs = report_info_def get_report_config_def update_report_config_def load_benchmark_def search_table_def
  cloud_resources_def search_start_data_def load_resource_def neighborhood_def workflow_logs_def timeseries_scattered_def
  account_names_def progress_def resources_per_account_timeline_def nr_of_changes_def inventory_summary_def
  usage_nodes_def load_descendant_summary_def

lemma preserves_aggregate_roots [pres]: "preserves (asks access sent) (aggregate_roots access)"
  unfolding aggregate_roots_def by (intro pres) (simp add: asks_def)

lemma preserves_search [pres]:
  "preserves (asks access sent) (report_info access)"
  "preserves (asks access sent) (get_report_config access)"
  "preserves (asks access sent) (update_report_config access config)"
  "preserves (asks access sent) (load_benchmark access name selected severity only_failing)"
  "preserves (asks access sent) (search_table cenv access request csv)"
  "preserves (asks access sent) (search_start_data env access)"
  "preserves (asks access sent) (load_resource env access resource_id)"
  "preserves (asks access sent) (neighborhood access resource_id)"
  "preserves (asks access sent) (workflow_logs access task_id)"
  "preserves (asks access sent) (timeseries_scattered env access name start end_time granularity groups filter_group aggregation)"
  "preserves (asks access sent) (inventory_summary env access now duration)"
  "preserves (asks access sent) (load_descendant_summary env access cloud_ids account_ids region_ids kinds)"
  unfolding search_defs Let_def by (intro pres)+


subsection \<open>The configuration of reports is read back\<close>

text \<open>
  What the inventory service promises about a configuration: it accepts a new one, and the next request for it by the
  same client is answered with it.
\<close>

definition json_ok :: "http_answer \<Rightarrow> json option \<Rightarrow> bool" where
  "json_ok a body \<longleftrightarrow> (case a of
     Answered r \<Rightarrow> rs_status r = 200 \<and> map_of (rs_headers r) ''content-type'' = Some media_json \<and>
       (case body of None \<Rightarrow> rs_json r \<noteq> None | Some b \<Rightarrow> rs_json r = Some b)
   | _ \<Rightarrow> False)"

definition keeps_config :: "(http_request list \<Rightarrow> http_answer) \<Rightarrow> bool" where
  "keeps_config answer \<longleftrightarrow>
     (\<forall>sent q. rq_method q = ''PUT'' \<and> rq_path q = ''/config/'' @ report_config_id \<longrightarrow>
        json_ok (answer (sent @ [q])) None \<and>
        (\<forall>g. rq_method g = ''GET'' \<and> rq_path g = rq_path q \<and> rq_headers g = rq_headers q \<longrightarrow>
           json_ok (answer (sent @ [q, g])) (rq_json q)))"

lemma traverse_strings: "traverse string_of_json (map Jstr ss) = Inr ss"
  by (induction ss) simp_all

lemma strings_of_json_opt: "strings_of_json (Some (opt_strings v)) = Inr v"
  by (cases v) (simp_all add: opt_strings_def strings_def traverse_strings)

lemma read_report_config_json:
  assumes "rc_override_values c \<in> {None} \<union> Some ` range Jobj"
  shows "read_report_config (report_config_json c) = Inr c"
proof -
  have "object_of_json (Some (case rc_override_values c of None \<Rightarrow> Jnull | Some v \<Rightarrow> v)) = Inr (rc_override_values c)"
    using assms by auto
  then show ?thesis
    by (simp add: read_report_config_def report_config_json_def validate_report_config_def strings_of_json_opt)
qed

lemma inv_request_ok:
  assumes "json_ok (is_answer s (is_log s @ [q])) body"
  obtains r where "inv_request q (Some [media_json]) None s = (Inr r, s\<lparr>is_log := is_log s @ [q]\<rparr>)"
    "\<exists>b. rs_json r = Some b \<and> (body = None \<or> body = Some b)"
  using assms
  by (auto simp: json_ok_def inv_request_run Let_def check_response_def is_error_def media_type_def media_json_def
      split: http_answer.splits option.splits)

lemma keeps_config_put:
  "keeps_config answer \<Longrightarrow> rq_method q = ''PUT'' \<Longrightarrow> rq_path q = ''/config/'' @ report_config_id \<Longrightarrow> json_ok (answer (sent @ [q])) None"
  unfolding keeps_config_def by blast

lemma keeps_config_get:
  "keeps_config answer \<Longrightarrow> rq_method q = ''PUT'' \<Longrightarrow> rq_path q = ''/config/'' @ report_config_id \<Longrightarrow> rq_method g = ''GET'' \<Longrightarrow>
   rq_path g = rq_path q \<Longrightarrow> rq_headers g = rq_headers q \<Longrightarrow> json_ok (answer (sent @ [q, g])) (rq_json q)"
  unfolding keeps_config_def by blast

text \<open>
  C31: If the inventory service keeps the configurations it is given, a configuration of reports that a workspace stores
  is the one it reads afterwards, whatever fields are set.
\<close>

theorem report_config_kept:
  assumes keeps: "keeps_config (is_answer s)" and override: "rc_override_values c \<in> {None} \<union> Some ` range Jobj"
  shows "\<exists>s'. update_report_config db c s = (Inr (), s') \<and> fst (get_report_config db s') = Inr c"
proof -
  let ?h = "access_headers db (Some media_json) (Some media_json) []"
  let ?p = "\<lparr>rq_method = ''PUT'', rq_path = ''/config/'' @ report_config_id, rq_params = [], rq_headers = ?h, rq_content = None,
    rq_json = Some (report_config_json c)\<rparr>"
  let ?g = "get_request (''/config/'' @ report_config_id) [] ?h"
  let ?s = "s\<lparr>is_log := is_log s @ [?p]\<rparr>"
  have put: "json_ok (is_answer s (is_log s @ [?p])) None"
    and got: "json_ok (is_answer ?s (is_log ?s @ [?g])) (Some (report_config_json c))"
    using keeps_config_put [OF keeps, of ?p "is_log s"] keeps_config_get [OF keeps, of ?p ?g "is_log s"]
    by (simp_all add: get_request_def)
  obtain r b where "inv_request ?p (Some [media_json]) None s = (Inr r, ?s)" "rs_json r = Some b" using inv_request_ok [OF put] by blast
  then have "update_report_config db c s = (Inr (), ?s)"
    by (simp add: update_report_config_def update_config_def json_request_def)
  moreover obtain r' where "inv_request ?g (Some [media_json]) None ?s = (Inr r', ?s\<lparr>is_log := is_log ?s @ [?g]\<rparr>)"
    "rs_json r' = Some (report_config_json c)"
    using inv_request_ok [OF got] by blast
  then have "fst (get_report_config db ?s) = Inr c"
    by (simp add: get_report_config_def client_config_def read_report_config_json [OF override])
  ultimately show ?thesis by blast
qed

definition sample_config_service :: "http_request list \<Rightarrow> http_answer" where
  "sample_config_service sent = (let ok = (\<lambda>b. Answered \<lparr>rs_status = 200, rs_headers = [(''content-type'', media_json)], rs_text = [],
     rs_json = Some b, rs_lines = []\<rparr>) in
     case rev sent of
       g # q # _ \<Rightarrow> (case rq_json q of Some b \<Rightarrow> ok b | None \<Rightarrow> ok Jnull)
     | _ \<Rightarrow> ok Jnull)"

lemma report_config_kept_witness:
  "let s = \<lparr>is_answer = sample_config_service, is_log = [], is_cached_roots = None\<rparr>;
       c = \<lparr>rc_ignore_checks = Some [''a'', ''b''], rc_ignore_benchmarks = None, rc_override_values = Some (Jobj [(''k'', Jnum 3)])\<rparr> in
   \<exists>s'. update_report_config sample_access c s = (Inr (), s') \<and> fst (get_report_config sample_access s') = Inr c"
  unfolding Let_def
  by (rule report_config_kept)
    (auto simp: keeps_config_def json_ok_def sample_config_service_def Let_def split: list.splits option.splits)

subsection \<open>Zeroes and the kept model\<close>

text \<open>A measured zero is dropped like a missing value: it is no point of the series and does not count for its average.\<close>

lemma zero_values_dropped:
  assumes "\<forall>e\<in>set entries. \<exists>obj. e = Jobj obj \<and> map_of obj ''v'' = Some (Jnum 0)"
  shows "add_entries env entries p = Inr p"
  using assms by (induction entries) (auto simp: add_entry_def json_true_def)

text \<open>The model of the kinds of the workspace that asks first answers for every other workspace.\<close>

lemma aggregate_roots_of_first:
  assumes "aggregate_roots db s = (Inr roots, s')"
  shows "aggregate_roots other s' = (Inr roots, s')"
proof -
  have "is_cached_roots s' = Some roots"
    using assms unfolding aggregate_roots_def
    by (auto elim!: bind_InrE split: option.splits)
  then show ?thesis by (simp add: aggregate_roots_def)
qed

end
