(* ===== verification/Report_Requests.thy ===== *)
theory Report_Requests
  imports Inventory_Search
begin

section \<open>The requests of the report\<close>

text \<open>
  How \<open>InventoryService.summary\<close> gets what Inventory_Report computes with: the search for the accounts, then the
  benchmarks, the two histories and the time series together, then the checks, all by the client with the access of
  the workspace. Tasks that are gathered have all sent their requests before one can fail; here they are sent in the order of
  the calls, and the first failure in this order is raised. A field of a JSON document that has another type than
  the schema of the inventory says is read as missing. The cache in front of the report is left out.
\<close>

subsection \<open>Reading the answers\<close>

fun value_at :: "string list \<Rightarrow> json \<Rightarrow> json option" where
  "value_at [] j = Some j"
| "value_at (k # ks) j = (case json_get k j of None \<Rightarrow> None | Some v \<Rightarrow> value_at ks v)"

definition text_at :: "string list \<Rightarrow> json \<Rightarrow> string option" where
  "text_at ks j = (case value_at ks j of Some (Jstr s) \<Rightarrow> Some s | _ \<Rightarrow> None)"

definition number_at :: "string list \<Rightarrow> json \<Rightarrow> rat option" where
  "number_at ks j = (case value_at ks j of Some (Jnum q) \<Rightarrow> Some q | _ \<Rightarrow> None)"

definition int_at :: "string list \<Rightarrow> json \<Rightarrow> int option" where
  "int_at ks j = map_option floor (number_at ks j)"

definition items_at :: "string list \<Rightarrow> json \<Rightarrow> (string \<times> json) list" where
  "items_at ks j = (case value_at ks j of Some (Jobj obj) \<Rightarrow> obj | _ \<Rightarrow> [])"

definition list_at :: "string list \<Rightarrow> json \<Rightarrow> exn + json list" where
  "list_at ks j = (case value_at ks j of Some (Jarr js) \<Rightarrow> Inr js | Some _ \<Rightarrow> Inl TypeError | None \<Rightarrow> Inl KeyError)"

definition failed_info_of :: "json \<Rightarrow> failed_info" where
  "failed_info_of j = \<lparr>fi_checks = int_at [''checks''] j, fi_resources = int_at [''resources''] j\<rparr>"

definition failed_of :: "string list \<Rightarrow> json \<Rightarrow> (string \<times> failed_info) list" where
  "failed_of ks j = map (\<lambda>(severity, info). (severity, failed_info_of info)) (items_at ks j)"

definition benchmark_info_of :: "json \<Rightarrow> benchmark_info option" where
  "benchmark_info_of j = (case j of
     Jobj _ \<Rightarrow> Some \<lparr>bi_failed = failed_of [''failed''] j, bi_score = int_at [''score''] j\<rparr> | _ \<Rightarrow> None)"

text \<open>An entry without \<open>metadata\<close> raises \<open>KeyError\<close>, like one without an id.\<close>

definition account_entry_of :: "(string \<Rightarrow> datetime option) \<Rightarrow> json \<Rightarrow> account_entry" where
  "account_entry_of parse_utc j = \<lparr>
     en_id = (if json_get ''metadata'' j = None then None else text_at [''reported'', ''id''] j),
     en_name = text_at [''reported'', ''name''] j,
     en_cloud = text_at [''ancestors'', ''cloud'', ''reported'', ''name''] j,
     en_benchmarks = map (\<lambda>(i, info). (i, benchmark_info_of info)) (items_at [''metadata'', ''benchmark''] j),
     en_exported_at = (case text_at [''metadata'', ''exported_at''] j of None \<Rightarrow> None | Some s \<Rightarrow> if s = [] then None else parse_utc s),
     en_failed = failed_of [''metadata'', ''failed''] j,
     en_descendant_count = int_at [''metadata'', ''descendant_count''] j,
     en_score = number_at [''metadata'', ''score''] j\<rparr>"

text \<open>A line of a history: one without a severity is an entry in an old format and is skipped.\<close>

definition change_count_of :: "json \<Rightarrow> exn + change_count" where
  "change_count_of j = (case j of
     Jobj _ \<Rightarrow>
       (case value_at [''group'', ''severity''] j of
          None \<Rightarrow> Inl KeyError
        | Some Jnull \<Rightarrow> Inr \<lparr>cc_account_id = None, cc_severity = None, cc_kind = [], cc_count = 0\<rparr>
        | Some _ \<Rightarrow>
            (case (text_at [''group'', ''severity''] j, value_at [''group'', ''account_id''] j, int_at [''count''] j,
                text_at [''group'', ''kind''] j) of
               (Some severity, Some account, Some n, Some kind) \<Rightarrow>
                 Inr \<lparr>cc_account_id = (case account of Jstr i \<Rightarrow> Some i | _ \<Rightarrow> None), cc_severity = Some severity, cc_kind = kind,
                   cc_count = n\<rparr>
             | _ \<Rightarrow> Inl KeyError))
   | _ \<Rightarrow> Inl AssertionError)"

definition check_of_benchmark :: "json \<Rightarrow> exn + string \<times> string" where
  "check_of_benchmark j = (case (text_at [''id''] j, text_at [''severity''] j) of
     (Some i, Some severity) \<Rightarrow> Inr (i, severity) | _ \<Rightarrow> Inl KeyError)"

definition benchmark_def_of :: "json \<Rightarrow> exn + benchmark_def" where
  "benchmark_def_of j =
     (case (text_at [''id''] j, text_at [''title''] j, text_at [''framework''] j, text_at [''version''] j, text_at [''description''] j) of
        (Some i, Some title, Some framework, Some version, Some description) \<Rightarrow>
          (case list_at [''clouds''] j of Inl e \<Rightarrow> Inl e | Inr clouds \<Rightarrow>
          (case traverse string_of_json clouds of Inl e \<Rightarrow> Inl e | Inr cloud_names \<Rightarrow>
          (case list_at [''report_checks''] j of Inl e \<Rightarrow> Inl e | Inr checks \<Rightarrow>
          (case traverse check_of_benchmark checks of Inl e \<Rightarrow> Inl e | Inr cs \<Rightarrow>
           Inr \<lparr>bd_id = i, bd_title = title, bd_framework = framework, bd_version = version, bd_clouds = cloud_names,
             bd_description = description, bd_checks = cs\<rparr>))))
      | _ \<Rightarrow> Inl KeyError)"

definition check_info_of :: "json \<Rightarrow> exn + check_info" where
  "check_info_of j = (case text_at [''id''] j of None \<Rightarrow> Inl KeyError | Some i \<Rightarrow> Inr (i, text_at [''severity''] j))"

definition read_list :: "(json \<Rightarrow> exn + 'a) \<Rightarrow> json \<Rightarrow> 'a list inv" where
  "read_list f j = lift (case list_at [] j of Inl e \<Rightarrow> Inl e | Inr js \<Rightarrow> traverse f js)"

subsection \<open>The requests\<close>

definition accounts_query :: "client_env \<Rightarrow> datetime \<Rightarrow> string" where
  "accounts_query env since = ''search is(account) and /metadata.exported_at>='' @ ce_utc_str env since @ '' and /metadata.score!=null''"

definition issues_command :: "client_env \<Rightarrow> timedelta \<Rightarrow> string \<Rightarrow> string" where
  "issues_command env duration change =
     ''history --change node_vulnerable --change node_compliant --after '' @ ce_seconds env duration @
     '' | aggregate /ancestors.account.reported.id as account_id, /diff.'' @ change @
     ''[*].severity as severity,kind as kind: sum(1) as count | dump''"

definition request_accounts :: "search_env \<Rightarrow> graph_database_access \<Rightarrow> datetime \<Rightarrow> account_entry list inv" where
  "request_accounts env db since =
     bind (search db (accounts_query (sv_client env) since) False) (\<lambda>result.
     ret (map (account_entry_of (sv_parse_utc env)) (sm_items result)))"

definition request_issues :: "search_env \<Rightarrow> graph_database_access \<Rightarrow> timedelta \<Rightarrow> string \<Rightarrow> change_count list inv" where
  "request_issues env db duration change =
     bind (execute_single db (issues_command (sv_client env) duration change) []) (\<lambda>result.
     lift (traverse change_count_of (sm_items result)))"

definition request_benchmarks :: "graph_database_access \<Rightarrow> benchmark_accounts \<Rightarrow> (benchmark_def list \<times> filed_checks) inv" where
  "request_benchmarks db summaries =
     bind (client_benchmarks db None (Some True) (Some True) None) (\<lambda>body.
     bind (read_list benchmark_def_of body) (\<lambda>benchmarks.
     bind (lift (summarise_benchmarks summaries benchmarks \<lparr>fl_summaries = [], fl_by_severity = [], fl_benchmarks = []\<rparr>)) (\<lambda>filed.
     ret (benchmarks, filed))))"

definition request_infected :: "search_env \<Rightarrow> graph_database_access \<Rightarrow> bool \<Rightarrow> datetime \<Rightarrow> unit inv" where
  "request_infected env db is_free now =
     (let (start, end_time, granularity) = infected_window is_free now in
      bind (client_timeseries (sv_client env) db ''infected_resources''
        \<lparr>to_start = Some start, to_end = Some end_time, to_group = Some [''severity''], to_filter_group = None,
         to_granularity = Some granularity, to_aggregation = None\<rparr>) (\<lambda>_. ret ()))"

text \<open>One of the gathered tasks: its failure is raised when all of them have sent their requests.\<close>

definition gathered :: "'a inv \<Rightarrow> (exn + 'a) inv" where
  "gathered m s = (case m s of (r, s') \<Rightarrow> (Inr r, s'))"

definition request_report ::
  "search_env \<Rightarrow> (string list \<Rightarrow> string list) \<Rightarrow> graph_database_access \<Rightarrow> bool \<Rightarrow> datetime \<Rightarrow> timedelta \<Rightarrow> report_summary inv" where
  "request_report env visit db is_free now duration =
     bind (request_accounts env db (now - duration)) (\<lambda>entries.
     bind (lift (populate_info entries \<lparr>po_benchmarks = [], po_accounts = [], po_counter = []\<rparr>)) (\<lambda>po.
     bind (gathered (request_benchmarks db (po_benchmarks po))) (\<lambda>benchmark_result.
     bind (gathered (request_issues env db duration ''node_vulnerable'')) (\<lambda>vulnerable_result.
     bind (gathered (request_issues env db duration ''node_compliant'')) (\<lambda>compliant_result.
     bind (gathered (request_infected env db is_free now)) (\<lambda>infected_result.
     bind (lift benchmark_result) (\<lambda>(benchmarks, filed).
     bind (lift vulnerable_result) (\<lambda>vulnerable.
     bind (lift compliant_result) (\<lambda>compliant.
     bind (lift infected_result) (\<lambda>_.
     bind (client_checks db None None None None (Some (top_check_ids visit filed 5)) None) (\<lambda>body.
     bind (read_list check_info_of body) (\<lambda>checks.
     lift (compute_summary visit \<lparr>ia_accounts = (\<lambda>_. Some entries), ia_benchmarks = Some benchmarks, ia_vulnerable = (\<lambda>_. Some vulnerable),
         ia_compliant = (\<lambda>_. Some compliant), ia_infected = (\<lambda>_ _ _. True), ia_checks = (\<lambda>_. Some checks)\<rparr> is_free now duration)))))))))))))"

text \<open>An exception of the inventory gives the empty report: there may be no graph yet.\<close>

definition workspace_summary ::
  "search_env \<Rightarrow> (string list \<Rightarrow> string list) \<Rightarrow> graph_database_access \<Rightarrow> workspace \<Rightarrow> datetime \<Rightarrow> timedelta \<Rightarrow> report_summary inv" where
  "workspace_summary env visit db ws now duration =
     catch (request_report env visit db (current_product_tier now ws = Free) now duration)
       (\<lambda>e. case e of InventoryException _ _ _ \<Rightarrow> ret empty_report | _ \<Rightarrow> raise e)"

subsection \<open>The report is asked for with one access\<close>

lemma preserves_gathered [pres]: "preserves I m \<Longrightarrow> preserves I (gathered m)"
  by (auto simp: preserves_def gathered_def split: prod.splits)

lemma preserves_read_list [pres]: "preserves I (read_list f j)"
  unfolding read_list_def by (intro pres)

lemma preserves_requests [pres]:
  "preserves (asks db sent) (request_accounts env db since)"
  "preserves (asks db sent) (request_issues env db duration change)"
  "preserves (asks db sent) (request_benchmarks db summaries)"
  "preserves (asks db sent) (request_infected env db is_free now)"
  unfolding request_accounts_def request_issues_def request_benchmarks_def request_infected_def Let_def by (intro pres)+

lemma preserves_report [pres]: "preserves (asks db sent) (workspace_summary env visit db ws now duration)"
proof -
  have "preserves (asks db sent) (request_report env visit db is_free now duration)" for is_free
    unfolding request_report_def by (intro pres)
  moreover have "preserves (asks db sent) (case e of InventoryException a b c \<Rightarrow> ret empty_report | _ \<Rightarrow> raise e)" for e
    by (cases e) (auto intro: pres)
  ultimately show ?thesis unfolding workspace_summary_def by (intro preserves_catch)
qed

text \<open>A report that comes back is the one that \<open>compute_summary\<close> makes of the entries that this access was answered with.\<close>

lemma lift_InrD: "lift r w = (Inr a, w') \<Longrightarrow> r = Inr a"
  by (simp add: lift_def)

lemma request_report_computes:
  assumes "request_report env visit db is_free now duration s = (Inr rp, s')"
  shows "\<exists>entries s1 answers. request_accounts env db (now - duration) s = (Inr entries, s1) \<and>
    compute_summary visit answers is_free now duration = Inr rp \<and> ia_accounts answers (now - duration) = Some entries"
  using assms unfolding request_report_def
  apply (elim bind_InrE)
  apply (unfold case_prod_beta)
  apply (elim bind_InrE)
  apply (intro exI conjI)
    apply assumption
   apply (erule lift_InrD)
  apply (simp only: inventory_answers.select_convs)
  done

end
