(* ===== verification/Inventory_Router.thy ===== *)
theory Inventory_Router
  imports Report_Requests Workspace_Access Dispatcher Api_Tokens
begin

section \<open>The inventory of a workspace in the API\<close>

text \<open>
  \<open>inventory/inventory_router.py\<close>, the serializers and the response of \<open>streaming_response.py\<close>, and the handlers
  of \<open>app.py\<close> that turn an exception into a status. Every route of the router finds the workspace of the path as the
  user gets it, then the database of that workspace, and asks the inventory service with it; the state is that of the
  backend and that of the inventory service. \<open>json.dumps\<close>, \<open>str\<close> of an exception and the order in which a set is
  visited are parameters.
\<close>

record router_env =
  re_search :: search_env
  re_dumps :: "json \<Rightarrow> string"
  re_exn_text :: "exn \<Rightarrow> string"
  re_visit :: "string list \<Rightarrow> string list"

type_synonym 'a api = "(world \<times> inventory_server, 'a) prog"

definition on_world :: "'a io \<Rightarrow> 'a api" where
  "on_world m s = (let (r, w) = m (fst s) in (r, (w, snd s)))"

definition on_inventory :: "'a inv \<Rightarrow> 'a api" where
  "on_inventory m s = (let (r, i) = m (snd s) in (r, (fst s, i)))"

subsection \<open>The status of an exception\<close>

text \<open>The exception handlers of the application; an exception without a handler is an internal error.\<close>

fun app_status :: "exn \<Rightarrow> nat" where
  "app_status (NotAllowed _) = 403"
| "app_status ResourceNotFound = 404"
| "app_status (InventoryException _ code _) = code"
| "app_status WrongState = 409"
| "app_status AssertionError = 422"
| "app_status UserNotExists = 400"
| "app_status UserAlreadyExists = 400"
| "app_status (InvalidPassword _) = 400"
| "app_status (HTTPException code _) = code"
| "app_status _ = 500"

text \<open>\<open>StreamOnSuccessResponse.stream_response\<close>: an exception before the first chunk.\<close>

fun stream_status :: "exn \<Rightarrow> nat" where
  "stream_status (NotAllowed _) = 403"
| "stream_status ResourceNotFound = 404"
| "stream_status WrongState = 409"
| "stream_status (InventoryException _ _ _) = 400"
| "stream_status _ = 500"

subsection \<open>Streams\<close>

fun json_chunks_from :: "(json \<Rightarrow> string) \<Rightarrow> bool \<Rightarrow> json list \<Rightarrow> string list" where
  "json_chunks_from dumps flag [] = ['']'']"
| "json_chunks_from dumps flag (item # items) =
     ((if flag then '','' else []) @ dumps item) # json_chunks_from dumps True items"

definition json_serializer :: "(json \<Rightarrow> string) \<Rightarrow> json list \<Rightarrow> string list" where
  "json_serializer dumps items = ''['' # json_chunks_from dumps False items"

definition newline :: string where "newline = [char_of (10 :: nat)]"

definition ndjson_serializer :: "(json \<Rightarrow> string) \<Rightarrow> json list \<Rightarrow> string list" where
  "ndjson_serializer dumps items = map (\<lambda>item. dumps item @ newline) items"

definition csv_serializer :: "(json \<Rightarrow> string) \<Rightarrow> json list \<Rightarrow> string list" where
  "csv_serializer str items = map (\<lambda>item. str item @ newline) items"

definition streaming_response ::
  "router_env \<Rightarrow> string \<Rightarrow> (json list \<Rightarrow> string list) \<times> string" where
  "streaming_response env accept =
     (if accept = ''application/x-ndjson'' \<or> accept = ''application/ndjson'' then (ndjson_serializer (re_dumps env), ''application/ndjson'')
      else if accept = ''application/json'' then (json_serializer (re_dumps env), ''application/json'')
      else if accept = ''text/csv'' then (csv_serializer (sv_str (re_search env)), ''text/csv'')
      else (json_serializer (re_dumps env), ''application/json''))"

record streamed =
  st_status :: nat
  st_media_type :: string
  st_headers :: "(string \<times> string) list"
  st_chunks :: "string list"

text \<open>
  The stream is opened when the body is sent, so an exception of the request is answered here. The headers are computed
  once the request was answered.
\<close>

definition stream_answer ::
  "router_env \<Rightarrow> string \<Rightarrow> (stream \<Rightarrow> (string \<times> string) list) \<Rightarrow>
   stream inv \<Rightarrow> streamed api" where
  "stream_answer env accept headers m s =
     (let (fn, media_type) = streaming_response env accept in
      case on_inventory m s of
        (Inl e, s') \<Rightarrow> (Inr \<lparr>st_status = stream_status e, st_media_type = media_type, st_headers = [], st_chunks = [re_exn_text env e]\<rparr>, s')
      | (Inr result, s') \<Rightarrow>
          (Inr \<lparr>st_status = 200, st_media_type = media_type, st_headers = headers result, st_chunks = fn (sm_items result)\<rparr>, s'))"

subsection \<open>The database of the workspace\<close>

definition get_current_graph_db :: "workspace \<Rightarrow> graph_database_access io" where
  "get_current_graph_db workspace =
     bind (get_database_access (ws_id workspace)) (\<lambda>access.
     case access of None \<Rightarrow> raise AttributeError | Some a \<Rightarrow> ret a)"

definition with_graph ::
  "uuid \<Rightarrow> user \<Rightarrow> (workspace \<Rightarrow> graph_database_access \<Rightarrow>
   'a api) \<Rightarrow> 'a api" where
  "with_graph workspace_id user handler =
     bind (on_world (user_workspace workspace_id (Some user))) (\<lambda>workspace.
     bind (on_world (get_current_graph_db workspace)) (\<lambda>graph_db.
     handler workspace graph_db))"

subsection \<open>The routes\<close>

datatype inventory_route =
    Report_config
  | Update_report_config report_config
  | Report_info
  | List_benchmarks "string list option" "bool option" "bool option" "bool option"
  | Get_benchmark string
  | Put_benchmark string json
  | Delete_benchmark string
  | List_checks "string option" "string option" "string option" "string option" "string option" "bool option"
  | Get_check string
  | Put_check string json
  | Delete_check string
  | Report string string "string list option" "string option" bool
  | Summary
  | Get_model model_options
  | Search_start
  | Property_attributes string string string int int bool
  | Property_values string string string int int bool
  | Complete_property_path complete_path_request
  | Aggregate string string
  | Search string string bool
  | History_timeline string string datetime datetime "string option" "string list"
  | Search_table string search_table_request
  | Get_node string
  | Ignore_security string json
  | Get_node_neighborhood string string
  | Get_node_history string string "datetime option" "datetime option" "string list option" int
  | Workspace_info
  | Timeseries string datetime datetime timedelta "string list option" "string list option" "string option"
  | Descendant_summary "string list option" "string list option" "string list option" "string list option"

datatype inventory_reply =
    Config_reply report_config
  | Json_reply "json option"
  | No_content
  | Stream_reply streamed
  | Report_reply report_summary
  | Start_reply search_start_data
  | Path_reply int json
  | Info_reply inventory_summary
  | Scatter_reply scatters
  | Usage_reply "(string \<times> kind_usage) list"

definition asking :: "'a inv \<Rightarrow> ('a \<Rightarrow> inventory_reply) \<Rightarrow> inventory_reply api" where
  "asking m reply = bind (on_inventory m) (\<lambda>a. ret (reply a))"

definition streaming ::
  "router_env \<Rightarrow> string \<Rightarrow> (stream \<Rightarrow> (string \<times> string) list) \<Rightarrow>
   stream inv \<Rightarrow> inventory_reply api" where
  "streaming env accept headers m = bind (stream_answer env accept headers m) (\<lambda>a. ret (Stream_reply a))"

fun split_text :: "char \<Rightarrow> string \<Rightarrow> string list" where
  "split_text sep [] = [[]]"
| "split_text sep (c # s) =
     (if c = sep then [] # split_text sep s
      else case split_text sep s of [] \<Rightarrow> [[c]] | t # ts \<Rightarrow> (c # t) # ts)"

definition check_ids_param :: "string option \<Rightarrow> string list option" where
  "check_ids_param v = (if str_true v then Some (map strip (split_text (CHR '','') (the v))) else None)"

definition summary_duration :: "datetime \<Rightarrow> workspace \<Rightarrow> timedelta" where
  "summary_duration now workspace = (if current_product_tier now workspace = Free then td_days 31 else td_days 7)"

definition table_headers :: "string \<Rightarrow> stream \<Rightarrow> (string \<times> string) list" where
  "table_headers accept result = sm_context result @
     (if accept = ''text/csv'' then [(''Content-Disposition'', ''attachment; filename='' @ [CHR 0x22] @ ''inventory.csv'' @ [CHR 0x22])] else [])"

definition ignored_checks :: "json \<Rightarrow> json" where
  "ignored_checks checks = Jobj [(''security_ignore'', if json_true (Some checks) then checks else Jnull)]"

definition node_history_query :: "string \<Rightarrow> int \<Rightarrow> string" where
  "node_history_query node_id limit =
     ''id('' @ [CHR 0x22] @ node_id @ [CHR 0x22] @ '') sort /changed_at desc limit '' @ int_str limit"

definition or_empty :: "string list option \<Rightarrow> string list" where
  "or_empty v = (case v of None \<Rightarrow> [] | Some xs \<Rightarrow> xs)"

definition api_report_config :: "graph_database_access \<Rightarrow> inventory_reply api" where
  "api_report_config db = asking (get_report_config db) Config_reply"

definition api_update_report_config ::
  "report_config \<Rightarrow> graph_database_access \<Rightarrow> inventory_reply api" where
  "api_update_report_config config db = asking (update_report_config db config) (\<lambda>_. No_content)"

definition api_report_info :: "graph_database_access \<Rightarrow> inventory_reply api" where
  "api_report_info db = asking (report_info db) (\<lambda>j. Json_reply (Some j))"

definition api_list_benchmarks ::
  "string list option \<Rightarrow> bool option \<Rightarrow> bool option \<Rightarrow> bool option \<Rightarrow>
   graph_database_access \<Rightarrow> inventory_reply api" where
  "api_list_benchmarks benchmarks short with_checks ids_only db =
     asking (client_benchmarks db benchmarks short with_checks ids_only) (\<lambda>j. Json_reply (Some j))"

definition api_get_benchmark :: "string \<Rightarrow> graph_database_access \<Rightarrow> inventory_reply api" where
  "api_get_benchmark name db =
     asking (call_json db ''get'' (''/report/benchmark/'' @ name) None True) Json_reply"

definition api_put_benchmark ::
  "string \<Rightarrow> json \<Rightarrow> graph_database_access \<Rightarrow> inventory_reply api" where
  "api_put_benchmark name body db =
     asking (call_json db ''put'' (''/report/benchmark/'' @ name) (Some body) True) Json_reply"

definition api_delete_benchmark :: "string \<Rightarrow> graph_database_access \<Rightarrow> inventory_reply api" where
  "api_delete_benchmark name db =
     asking (call_json db ''delete'' (''/report/benchmark/'' @ name) None False) (\<lambda>_. No_content)"

definition api_list_checks ::
  "string option \<Rightarrow> string option \<Rightarrow> string option \<Rightarrow> string option \<Rightarrow>
   string option \<Rightarrow> bool option \<Rightarrow> graph_database_access \<Rightarrow> inventory_reply api" where
  "api_list_checks provider service category kind check_ids ids_only db =
     asking (client_checks db provider service category kind (check_ids_param check_ids) ids_only) (\<lambda>j. Json_reply (Some j))"

definition api_get_check :: "string \<Rightarrow> graph_database_access \<Rightarrow> inventory_reply api" where
  "api_get_check check_id db =
     asking (call_json db ''get'' (''/report/check/'' @ check_id) None True) Json_reply"

definition api_put_check ::
  "string \<Rightarrow> json \<Rightarrow> graph_database_access \<Rightarrow> inventory_reply api" where
  "api_put_check check_id body db =
     asking (call_json db ''put'' (''/report/check/'' @ check_id) (Some body) True) Json_reply"

definition api_delete_check :: "string \<Rightarrow> graph_database_access \<Rightarrow> inventory_reply api" where
  "api_delete_check check_id db =
     asking (call_json db ''delete'' (''/report/check/'' @ check_id) None False) (\<lambda>_. No_content)"

definition api_report ::
  "router_env \<Rightarrow> string \<Rightarrow> string \<Rightarrow> string list option \<Rightarrow>
   string option \<Rightarrow> bool \<Rightarrow> graph_database_access \<Rightarrow> inventory_reply api" where
  "api_report env accept benchmark_name selected severity only_failing db =
     streaming env accept (\<lambda>_. []) (load_benchmark db benchmark_name selected severity only_failing)"

definition api_summary ::
  "router_env \<Rightarrow> workspace \<Rightarrow> graph_database_access \<Rightarrow> inventory_reply api" where
  "api_summary env ws db =
     bind (on_world utc) (\<lambda>now.
     asking (workspace_summary (re_search env) (re_visit env) db ws now (summary_duration now ws)) Report_reply)"

definition api_model :: "model_options \<Rightarrow> graph_database_access \<Rightarrow> inventory_reply api" where
  "api_model m db = asking (client_model db (m\<lparr>mo_format := Some ''simple''\<rparr>)) (\<lambda>j. Json_reply (Some j))"

definition api_search_start :: "router_env \<Rightarrow> graph_database_access \<Rightarrow> inventory_reply api" where
  "api_search_start env db = asking (search_start_data (re_search env) db) Start_reply"

definition api_property_attributes ::
  "router_env \<Rightarrow> string \<Rightarrow> string \<Rightarrow> string \<Rightarrow> int \<Rightarrow>
   int \<Rightarrow> bool \<Rightarrow> graph_database_access \<Rightarrow> inventory_reply api" where
  "api_property_attributes env accept query prop skip limit counted db =
     streaming env accept (\<lambda>_. []) (possible_values db query prop ''attributes'' limit skip counted)"

definition api_property_values ::
  "router_env \<Rightarrow> string \<Rightarrow> string \<Rightarrow> string \<Rightarrow> int \<Rightarrow>
   int \<Rightarrow> bool \<Rightarrow> graph_database_access \<Rightarrow> inventory_reply api" where
  "api_property_values env accept query prop skip limit counted db =
     streaming env accept (\<lambda>_. []) (possible_values db query prop ''values'' limit skip counted)"

definition api_complete_property_path ::
  "complete_path_request \<Rightarrow> graph_database_access \<Rightarrow> inventory_reply api" where
  "api_complete_property_path body db =
     asking (complete_property_path db body) (\<lambda>(total, result). Path_reply total result)"

definition api_aggregate ::
  "router_env \<Rightarrow> string \<Rightarrow> string \<Rightarrow> graph_database_access \<Rightarrow>
   inventory_reply api" where
  "api_aggregate env accept query db = streaming env accept (\<lambda>_. []) (aggregate db query)"

definition api_search ::
  "router_env \<Rightarrow> string \<Rightarrow> string \<Rightarrow> bool \<Rightarrow>
   graph_database_access \<Rightarrow> inventory_reply api" where
  "api_search env accept query with_edges db = streaming env accept (\<lambda>_. []) (search db query with_edges)"

definition api_history_timeline ::
  "router_env \<Rightarrow> string \<Rightarrow> string \<Rightarrow> datetime \<Rightarrow> datetime \<Rightarrow>
   string option \<Rightarrow> string list \<Rightarrow> graph_database_access \<Rightarrow> inventory_reply api" where
  "api_history_timeline env accept query after before granularity changes db =
     streaming env accept (\<lambda>_. []) (history_timeline (sv_client (re_search env)) db query after before granularity changes)"

definition api_search_table ::
  "router_env \<Rightarrow> string \<Rightarrow> search_table_request \<Rightarrow> graph_database_access \<Rightarrow>
   inventory_reply api" where
  "api_search_table env accept query db =
     streaming env accept (table_headers accept) (search_table (sv_client (re_search env)) db query (accept = ''text/csv''))"

definition api_get_node ::
  "router_env \<Rightarrow> string \<Rightarrow> graph_database_access \<Rightarrow> inventory_reply api" where
  "api_get_node env node_id db = asking (load_resource (re_search env) db node_id) (\<lambda>j. Json_reply (Some j))"

definition api_ignore_security ::
  "string \<Rightarrow> json \<Rightarrow> graph_database_access \<Rightarrow> inventory_reply api" where
  "api_ignore_security node_id checks db =
     asking (update_node db node_id (ignored_checks checks) ''metadata'' False) (\<lambda>j. Json_reply (Some j))"

definition api_get_node_neighborhood ::
  "router_env \<Rightarrow> string \<Rightarrow> string \<Rightarrow> graph_database_access \<Rightarrow>
   inventory_reply api" where
  "api_get_node_neighborhood env accept node_id db = streaming env accept (\<lambda>_. []) (neighborhood db node_id)"

definition api_get_node_history ::
  "router_env \<Rightarrow> string \<Rightarrow> string \<Rightarrow> datetime option \<Rightarrow>
   datetime option \<Rightarrow> string list option \<Rightarrow> int \<Rightarrow> graph_database_access \<Rightarrow> inventory_reply api" where
  "api_get_node_history env accept node_id before after changes limit db =
     streaming env accept (\<lambda>_. [])
       (search_history (sv_client (re_search env)) db (node_history_query node_id limit) before after changes)"

definition api_workspace_info ::
  "router_env \<Rightarrow> workspace \<Rightarrow> graph_database_access \<Rightarrow> inventory_reply api" where
  "api_workspace_info env ws db =
     bind (on_world utc) (\<lambda>now. asking (inventory_summary (re_search env) db now (summary_duration now ws)) Info_reply)"

definition api_timeseries ::
  "router_env \<Rightarrow> string \<Rightarrow> datetime \<Rightarrow> datetime \<Rightarrow> timedelta \<Rightarrow>
   string list option \<Rightarrow> string list option \<Rightarrow> string option \<Rightarrow> graph_database_access \<Rightarrow> inventory_reply api" where
  "api_timeseries env name start end_time granularity groups filter_group aggregation db =
     asking (timeseries_scattered (re_search env) db name start end_time granularity groups filter_group aggregation) Scatter_reply"

definition api_descendant_summary ::
  "router_env \<Rightarrow> string list option \<Rightarrow> string list option \<Rightarrow>
   string list option \<Rightarrow> string list option \<Rightarrow> graph_database_access \<Rightarrow> inventory_reply api" where
  "api_descendant_summary env cloud_ids account_ids region_ids kinds db =
     asking (load_descendant_summary (re_search env) db (or_empty cloud_ids) (or_empty account_ids) (or_empty region_ids) (or_empty kinds)) Usage_reply"

text \<open>The router: a request for a route runs its handler.\<close>

fun inventory_handler :: "router_env \<Rightarrow> inventory_route \<Rightarrow> workspace \<Rightarrow> graph_database_access \<Rightarrow> inventory_reply api" where
  "inventory_handler env Report_config ws db = api_report_config db"
| "inventory_handler env (Update_report_config config) ws db = api_update_report_config config db"
| "inventory_handler env Report_info ws db = api_report_info db"
| "inventory_handler env (List_benchmarks benchmarks short with_checks ids_only) ws db =
     api_list_benchmarks benchmarks short with_checks ids_only db"
| "inventory_handler env (Get_benchmark name) ws db = api_get_benchmark name db"
| "inventory_handler env (Put_benchmark name body) ws db = api_put_benchmark name body db"
| "inventory_handler env (Delete_benchmark name) ws db = api_delete_benchmark name db"
| "inventory_handler env (List_checks provider service category kind check_ids ids_only) ws db =
     api_list_checks provider service category kind check_ids ids_only db"
| "inventory_handler env (Get_check check_id) ws db = api_get_check check_id db"
| "inventory_handler env (Put_check check_id body) ws db = api_put_check check_id body db"
| "inventory_handler env (Delete_check check_id) ws db = api_delete_check check_id db"
| "inventory_handler env (Report accept benchmark_name selected severity only_failing) ws db =
     api_report env accept benchmark_name selected severity only_failing db"
| "inventory_handler env Summary ws db = api_summary env ws db"
| "inventory_handler env (Get_model m) ws db = api_model m db"
| "inventory_handler env Search_start ws db = api_search_start env db"
| "inventory_handler env (Property_attributes accept query prop skip limit counted) ws db =
     api_property_attributes env accept query prop skip limit counted db"
| "inventory_handler env (Property_values accept query prop skip limit counted) ws db =
     api_property_values env accept query prop skip limit counted db"
| "inventory_handler env (Complete_property_path body) ws db = api_complete_property_path body db"
| "inventory_handler env (Aggregate accept query) ws db = api_aggregate env accept query db"
| "inventory_handler env (Search accept query with_edges) ws db = api_search env accept query with_edges db"
| "inventory_handler env (History_timeline accept query after before granularity changes) ws db =
     api_history_timeline env accept query after before granularity changes db"
| "inventory_handler env (Search_table accept query) ws db = api_search_table env accept query db"
| "inventory_handler env (Get_node node_id) ws db = api_get_node env node_id db"
| "inventory_handler env (Ignore_security node_id checks) ws db = api_ignore_security node_id checks db"
| "inventory_handler env (Get_node_neighborhood accept node_id) ws db = api_get_node_neighborhood env accept node_id db"
| "inventory_handler env (Get_node_history accept node_id before after changes limit) ws db =
     api_get_node_history env accept node_id before after changes limit db"
| "inventory_handler env Workspace_info ws db = api_workspace_info env ws db"
| "inventory_handler env (Timeseries name start end_time granularity groups filter_group aggregation) ws db =
     api_timeseries env name start end_time granularity groups filter_group aggregation db"
| "inventory_handler env (Descendant_summary cloud_ids account_ids region_ids kinds) ws db =
     api_descendant_summary env cloud_ids account_ids region_ids kinds db"

lemmas route_defs = api_report_config_def api_update_report_config_def api_report_info_def api_list_benchmarks_def
  api_get_benchmark_def api_put_benchmark_def api_delete_benchmark_def api_list_checks_def api_get_check_def
  api_put_check_def api_delete_check_def api_report_def api_summary_def api_model_def api_search_start_def
  api_property_attributes_def api_property_values_def api_complete_property_path_def api_aggregate_def api_search_def
  api_history_timeline_def api_search_table_def api_get_node_def api_ignore_security_def api_get_node_neighborhood_def
  api_get_node_history_def api_workspace_info_def api_timeseries_def api_descendant_summary_def

definition inventory_api ::
  "router_env \<Rightarrow> uuid \<Rightarrow> user \<Rightarrow> inventory_route \<Rightarrow> inventory_reply api" where
  "inventory_api env workspace_id user route = with_graph workspace_id user (inventory_handler env route)"


subsection \<open>A workspace is asked for by its own users only\<close>

lemma preserves_stream_answer:
  "preserves I m \<Longrightarrow> preserves (\<lambda>s. fst s = w \<and> I (snd s)) (stream_answer env accept headers m)"
  by (force simp: preserves_def stream_answer_def on_inventory_def Let_def split: prod.splits sum.splits)

lemma preserves_on_inventory: "preserves I m \<Longrightarrow> preserves (\<lambda>s. fst s = w \<and> I (snd s)) (on_inventory m)"
  by (force simp: preserves_def on_inventory_def Let_def split: prod.splits)

lemma preserves_on_world: "keeps id m \<Longrightarrow> preserves (\<lambda>s. fst s = w \<and> I (snd s)) (on_world m)"
  by (auto simp: preserves_def keeps_def on_world_def Let_def split: prod.splits dest: meta_spec) (metis snd_conv)+

lemma preserves_asking [pres]: "preserves I m \<Longrightarrow> preserves (\<lambda>s. fst s = w \<and> I (snd s)) (asking m reply)"
  unfolding asking_def by (intro pres preserves_on_inventory)

lemma preserves_streaming [pres]:
  "preserves I m \<Longrightarrow> preserves (\<lambda>s. fst s = w \<and> I (snd s)) (streaming env accept headers m)"
  unfolding streaming_def by (intro pres preserves_stream_answer)

lemma inventory_handler_asks:
  "preserves (\<lambda>s. fst s = w \<and> asks db sent (snd s)) (inventory_handler env route ws db)"
proof -
  have now: "preserves (\<lambda>s. fst s = w \<and> asks db sent (snd s)) (on_world utc)"
    by (rule preserves_on_world) (simp add: keeps_def utc_def)
  show ?thesis by (cases route) (simp_all only: inventory_handler.simps route_defs, (intro pres now)+)
qed

lemma user_workspace_world: "user_workspace i u w = (fst (user_workspace i u w), w)"
  by (metis prod.collapse user_workspace_same)

text \<open>
  C14: Whatever a route of the inventory, that of the report included, asks the inventory service is asked for a user who gets the workspace of the path
  (its owner or a member), and every request carries the server, database, user and password that are stored for this
  very workspace. Who does not get the workspace gets its error, and nothing is asked. No route changes the backend.
\<close>

theorem inventory_isolated:
  shows "fst (snd (inventory_api env i u route (w, s))) = w \<and>
    (\<exists>qs. is_log (snd (snd (inventory_api env i u route (w, s)))) = is_log s @ qs \<and>
      (qs = [] \<or> (\<exists>ws access. user_workspace i (Some u) w = (Inr ws, w) \<and> (u_id u = ws_owner_id ws \<or> u_id u \<in> set (ws_members ws)) \<and>
         access \<in> set (graph_access w) \<and> g_workspace_id access = i \<and> (\<forall>q\<in>set qs. carries access q)))) \<and>
    (\<forall>e. fst (user_workspace i (Some u) w) = Inl e \<longrightarrow> inventory_api env i u route (w, s) = (Inl e, (w, s)))"
proof (cases "fst (user_workspace i (Some u) w)")
  case (Inl e)
  then have "on_world (user_workspace i (Some u)) (w, s) = (Inl e, (w, s))"
    using user_workspace_world [of i "Some u" w] by (simp add: on_world_def Let_def split: prod.splits)
  then have "inventory_api env i u route (w, s) = (Inl e, (w, s))" by (simp add: inventory_api_def with_graph_def)
  then show ?thesis using Inl by simp
next
  case (Inr ws)
  then have ws: "user_workspace i (Some u) w = (Inr ws, w)" using user_workspace_world [of i "Some u" w] by simp
  show ?thesis
  proof (cases "tfind g_workspace_id (ws_id ws) (graph_access w)")
    case None
    then have "inventory_api env i u route (w, s) = (Inl AttributeError, (w, s))"
      using ws by (simp add: inventory_api_def with_graph_def on_world_def get_current_graph_db_def get_database_access_def bind_def)
    then show ?thesis using Inr by simp
  next
    case (Some access)
    then have run: "inventory_api env i u route (w, s) = inventory_handler env route ws access (w, s)"
      using ws by (simp add: inventory_api_def with_graph_def on_world_def get_current_graph_db_def get_database_access_def bind_def)
    have a: "fst (snd (inventory_api env i u route (w, s))) = w \<and> asks access (is_log s) (snd (snd (inventory_api env i u route (w, s))))"
      unfolding run using inventory_handler_asks [of w access "is_log s" env route ws] asks_start [of access s]
      by (simp add: preserves_def)
    have "access \<in> set (graph_access w)" "g_workspace_id access = i"
      using tfind_Some [OF Some] user_workspace_Inr [OF ws] by auto
    then show ?thesis using a ws user_workspace_Inr [OF ws] unfolding asks_def by auto
  qed
qed


definition sample_member :: "uuid \<Rightarrow> user" where
  "sample_member i = \<lparr>u_id = i, u_email = [], hashed_password = [], is_active = True, is_superuser = False, is_verified = True,
     is_mfa_active = False, otp_secret = None, u_roles = [], u_created_at = 0, auth_min_time = None\<rparr>"

definition inventory_world :: world where
  "inventory_world = (empty_world 5 50)\<lparr>orgs := [sample_org], members := [(7, 2)], graph_access := [sample_access]\<rparr>"

lemma inventory_isolated_witness:
  "\<forall>env. inventory_api env 7 (sample_member 3) Report_info (inventory_world, failing_server 500 None) =
     (Inl (HTTPException 403 ''not_a_workspace_member''), (inventory_world, failing_server 500 None))"
proof
  fix env
  have "fst (user_workspace 7 (Some (sample_member 3)) inventory_world) = Inl (HTTPException 403 ''not_a_workspace_member'')"
    by code_simp
  then show "inventory_api env 7 (sample_member 3) Report_info (inventory_world, failing_server 500 None) =
     (Inl (HTTPException 403 ''not_a_workspace_member''), (inventory_world, failing_server 500 None))"
    using inventory_isolated [of env 7 "sample_member 3" Report_info inventory_world "failing_server 500 None"] by blast
qed

subsection \<open>Writing needs no permission\<close>

lemma inv_request_log: "is_log (snd (inv_request q types codes s)) = is_log s @ [q]"
  by (auto simp: inv_request_run Let_def split: http_answer.splits)

lemma bind_snd_log:
  assumes "\<And>a. keeps is_log (f a)"
  shows "is_log (snd (bind m f s)) = is_log (snd (m s))"
  using assms by (auto simp: bind_def keeps_def split: prod.splits sum.splits)

lemma inventory_api_run:
  assumes "user_workspace i (Some u) w = (Inr ws, w)" and "tfind g_workspace_id i (graph_access w) = Some access"
  shows "inventory_api env i u route (w, s) = inventory_handler env route ws access (w, s)"
  using assms user_workspace_Inr [OF assms(1)]
  by (simp add: inventory_api_def with_graph_def on_world_def get_current_graph_db_def get_database_access_def bind_def)

lemma asking_log: "is_log (snd (snd (asking m reply (w, s)))) = is_log (snd (m s))"
  by (auto simp: asking_def bind_def on_inventory_def Let_def split: prod.splits sum.splits)

lemma call_json_log:
  "\<exists>q. is_log (snd (call_json db method path body expect s)) = is_log s @ [q] \<and> rq_method q = method \<and> rq_path q = path \<and> rq_json q = body"
  unfolding call_json_def by (subst bind_snd_log) (simp_all add: inv_request_log keeps_def)

lemma json_request_log:
  "\<exists>q. is_log (snd (json_request method path db params body s)) = is_log s @ [q] \<and> rq_method q = method \<and> rq_path q = path \<and>
     rq_json q = Some body"
  unfolding json_request_def by (subst bind_snd_log) (simp_all add: inv_request_log keeps_def)

text \<open>
  C35: The routes that write to the inventory test no permission: a member without any role replaces and deletes
  benchmarks and checks, replaces the configuration of reports and hides resources from checks, and the inventory
  service gets his request.
\<close>

theorem member_without_role_writes:
  assumes member: "user_workspace i (Some u) w = (Inr ws, w)" and roleless: "u_roles u = []"
    and db: "tfind g_workspace_id i (graph_access w) = Some access"
    and wr: "(route, method, path, body) \<in> {(Put_benchmark x j, ''put'', ''/report/benchmark/'' @ x, Some j),
      (Delete_benchmark x, ''delete'', ''/report/benchmark/'' @ x, None), (Put_check x j, ''put'', ''/report/check/'' @ x, Some j),
      (Delete_check x, ''delete'', ''/report/check/'' @ x, None),
      (Update_report_config c, ''PUT'', ''/config/'' @ report_config_id, Some (report_config_json c)),
      (Ignore_security x j, ''PATCH'', graph_path (''/node/'' @ x), Some (ignored_checks j))}"
  shows "\<exists>q. is_log (snd (snd (inventory_api env i u route (w, s)))) = is_log s @ [q] \<and>
    rq_method q = method \<and> rq_path q = path \<and> rq_json q = body"
proof -
  note call = call_json_log [of access _ _ _ _ s] and json = json_request_log [of _ _ access _ _ s]
  have config: "is_log (snd (update_report_config access c s)) = is_log (snd (update_config access report_config_id (report_config_json c) False s))"
    unfolding update_report_config_def by (rule bind_snd_log) (simp add: keeps_def)
  from wr show ?thesis
    unfolding inventory_api_run [OF member db]
    by (elim insertE emptyE) (simp_all add: route_defs asking_log call config update_config_def update_node_def json)
qed

lemma member_without_role_writes_witness:
  "\<forall>env. \<exists>q. is_log (snd (snd (inventory_api env 7 (sample_member 2) (Delete_check ''c'') (inventory_world, failing_server 500 None)))) = [q] \<and>
     rq_method q = ''delete'' \<and> rq_path q = ''/report/check/c'' \<and> rq_json q = None"
proof
  fix env
  have member: "user_workspace 7 (Some (sample_member 2)) inventory_world =
      (Inr (projr (fst (user_workspace 7 (Some (sample_member 2)) inventory_world))), inventory_world)"
    using user_workspace_world [of 7 "Some (sample_member 2)" inventory_world]
    by (cases "fst (user_workspace 7 (Some (sample_member 2)) inventory_world)")
      (simp_all, (code_simp | simp)+)
  show "\<exists>q. is_log (snd (snd (inventory_api env 7 (sample_member 2) (Delete_check ''c'') (inventory_world, failing_server 500 None)))) = [q] \<and>
     rq_method q = ''delete'' \<and> rq_path q = ''/report/check/c'' \<and> rq_json q = None"
    using member_without_role_writes [OF member, of sample_access "Delete_check ''c''" "''delete''" "''/report/check/c''" None
      "''c''" Jnull _ env "failing_server 500 None"]
    by (simp add: sample_member_def inventory_world_def sample_access_def failing_server_def)
qed

subsection \<open>Status codes and streams\<close>

text \<open>
  The same exception has two statuses: an error of the inventory keeps its code when a route answers with a value, and
  becomes 400 when it answers with a stream; a failed assertion is 422 or 500.
\<close>

lemma stream_status_differs:
  "stream_status e \<noteq> app_status e \<longleftrightarrow>
    (case e of InventoryException _ code _ \<Rightarrow> code \<noteq> 400 | HTTPException code _ \<Rightarrow> code \<noteq> 500 | InvalidPassword _ \<Rightarrow> True
     | _ \<Rightarrow> e \<in> {AssertionError, UserNotExists, UserAlreadyExists})"
  by (cases e) auto

text \<open>The chunks of a JSON stream make one list, also when nothing is found.\<close>

lemma json_serializer_text:
  "concat (json_serializer dumps items) = ''['' @ join '','' (map dumps items) @ '']''"
proof -
  have "concat (json_chunks_from dumps True xs) = concat (map (\<lambda>i. '','' @ dumps i) xs) @ '']''" for xs
    by (induction xs) simp_all
  moreover have "join '','' (map dumps (x # xs)) = dumps x @ concat (map (\<lambda>i. '','' @ dumps i) xs)" for x xs
    by (induction xs arbitrary: x) simp_all
  ultimately show ?thesis by (cases items) (simp_all add: json_serializer_def)
qed

end
