(* ===== verification/Email_Messages.thy ===== *)
theory Email_Messages
  imports One_Time_Emails Inventory_Client
begin

section \<open>The texts of e-mails\<close>

text \<open>
  \<open>notification/email/email_messages.py\<close>: readable numbers and the subject, the text and the HTML of every message.
  What jinja makes of a template is a parameter that gets the name of the template, the message and the named texts.
  The links of a message, and the id that \<open>uid\<close> gives to each rendering, belong to the template too. None in an
  f-string is the text \<open>None\<close>.
\<close>

subsection \<open>Readable numbers\<close>

definition bytes_power :: "(nat \<times> string option) list" where
  "bytes_power = [(5, Some ''PiB''), (4, Some ''TiB''), (3, Some ''GiB''), (2, Some ''MiB''), (1, Some ''KiB''), (0, Some ''B'')]"

definition decimal_power :: "(nat \<times> string option) list" where
  "decimal_power = [(5, Some ''P''), (4, Some ''T''), (3, Some ''G''), (2, Some ''M''), (1, Some ''K''), (0, None)]"

definition unit_text :: "string option \<Rightarrow> string" where
  "unit_text u = (if str_true u then '' '' @ the u else [])"

definition sign_text :: "int \<Rightarrow> bool \<Rightarrow> string" where
  "sign_text number with_sign = (if number < 0 then ''-'' else if with_sign \<and> 0 < number then ''+'' else [])"

fun largest_unit :: "int \<Rightarrow> (nat \<times> string option) list \<Rightarrow> int \<Rightarrow> string option" where
  "largest_unit base [] number = None"
| "largest_unit base ((pw, u) # powers) number =
     (if base ^ pw \<le> number then Some (int_str (number div base ^ pw) @ unit_text u) else largest_unit base powers number)"

definition readable_unit :: "int \<Rightarrow> (nat \<times> string option) list \<Rightarrow> string option \<Rightarrow> int \<Rightarrow> bool \<Rightarrow> string" where
  "readable_unit base base_power base_unit number with_sign =
     (let bu = unit_text base_unit; s = sign_text number with_sign; n = \<bar>number\<bar> in
      if n < base then s @ int_str n @ bu
      else (case largest_unit base base_power n of Some t \<Rightarrow> s @ t | None \<Rightarrow> s @ int_str n @ bu))"

definition readable_number :: "int \<Rightarrow> bool \<Rightarrow> string" where
  "readable_number number with_sign = readable_unit 1000 decimal_power None number with_sign"

definition readable_bytes :: "int \<Rightarrow> bool \<Rightarrow> string" where
  "readable_bytes number with_sign = readable_unit 1024 bytes_power (Some ''B'') number with_sign"

definition pluralize :: "string \<Rightarrow> int \<Rightarrow> string" where
  "pluralize word number = readable_number number False @ '' '' @ word @ (if number = 1 then [] else ''s'')"

subsection \<open>The messages\<close>

definition new_line :: string where
  "new_line = [char_of (10 :: nat)]"

definition cloud_name :: "string \<Rightarrow> string" where
  "cloud_name cloud = (if cloud = ''aws'' then ''AWS'' else if cloud = ''gcp'' then ''GCP'' else if cloud = ''azure'' then ''Azure'' else [])"

definition account_info :: "string \<Rightarrow> string option \<Rightarrow> string" where
  "account_info cloud_account_id account_name =
     (if str_true account_name then the account_name @ '' ('' @ cloud_account_id @ '')'' else cloud_account_id)"

definition str_of_optional :: "string option \<Rightarrow> string" where
  "str_of_optional v = (case v of None \<Rightarrow> ''None'' | Some s \<Rightarrow> s)"

definition degraded_subject :: "string \<Rightarrow> string \<Rightarrow> string \<Rightarrow> string option \<Rightarrow> bool \<Rightarrow> string" where
  "degraded_subject cloud cloud_account_id workspace_name account_name cf_stack_deleted =
     (if cloud = ''aws'' \<and> cf_stack_deleted
      then ''Workspace '' @ workspace_name @ '': CloudFormation Stack for account '' @ account_info cloud_account_id account_name @ '' was deleted''
      else ''Workspace '' @ workspace_name @ '': unable to access '' @ cloud_name cloud @ '' account '' @ account_info cloud_account_id account_name)"

definition degraded_text :: "string \<Rightarrow> uuid \<Rightarrow> string \<Rightarrow> string option \<Rightarrow> bool \<Rightarrow> string" where
  "degraded_text cloud_account_id tenant_id workspace_name account_name cf_stack_deleted =
     (if cf_stack_deleted
      then ''We noticed that you deleted the AWS CloudFormation Stack for account '' @ account_info cloud_account_id account_name @
        '' in workspace '' @ workspace_name @ '' ('' @ uuid_str tenant_id @ '').The corresponding resources won'' @ [CHR 0x27] @ ''t be collected.''
      else ''Fix was not able to collect latest resource information for '' @ str_of_optional account_name @ '' account '' @
        account_info cloud_account_id account_name @ '' in workspace '' @ workspace_name @ '' ('' @ uuid_str tenant_id @
        ''). Please ensure the account exists and that the necessary access permissions have been granted.'' @ new_line @ new_line @
        ''View in Fix: https://app.fix.security/workspace-settings/accounts#'' @ uuid_str tenant_id)"

definition expires_days :: "nat \<Rightarrow> string" where
  "expires_days days = decimal days @ '' '' @ (if days = 1 then ''day'' else ''days'')"

definition trial_expires_text :: string where
  "trial_expires_text = join new_line
    [''We noticed you haven'' @ [CHR 0x27] @ ''t bought a Fix subscription yet, and your trial is about to expire.'',
     [],
     [],
     ''How to subscribe:'',
     [],
     '' - Log in to Fix (https://app.fix.security), then navigate to Workspace Settings, and click on the Billing tab.'',
     '' - Follow the instructions to add your payment method and subscribe to a plan.'',
     [],
     [],
     ''What happens next?'',
     [],
     ''If you don'' @ [CHR 0x27] @ ''t purchase a subscription, your account will downgraded to the Free plan after the trial expires.'',
     ''Only a single user will be able to log in, and the data we collected about your cloud accounts will no longer be available in Fix.'',
     ''You will also lose access to features only available in paid plans.'',
     [],
     [],
     ''Here for you'',
     [],
     ''If any step in the process feels unclear'',
     ''or if you encounter any bumps along the road, our team is standing by.'',
     ''Contact us at support@fix.security or ping us on Discord at https://discord.gg/fixsecurity.'',
     [],
     [],
     ''Warm regards,'',
     ''The Fix Team'',
     [],
     [],
     ''Log in to Fix: https://app.fix.security'',
     []]"

definition trial_expired_text :: string where
  "trial_expired_text = join new_line
    [''We noticed you haven'' @ [CHR 0x27] @ ''t bought a Fix subscription yet, and your trial has expired. Your account has been downgraded to the Free plan, and you have lost access to the features available in the paid plans.'',
     [],
     ''But don'' @ [CHR 0x27] @ ''t worry, your account data is still there and you can easily get back on track by subscribing to one of our'',
     ''plans.'',
     [],
     [],
     ''How to subscribe:'',
     [],
     '' - Log in to Fix (https://app.fix.security), then navigate to Workspace Settings, and click on the Billing tab.'',
     '' - Follow the instructions to add your payment method and subscribe to a plan.'',
     [],
     [],
     ''What happens next?'',
     [],
     ''Only a single user will be able to log in, and the data we collected about your cloud accounts will no longer be available in Fix.'',
     ''You will also lose access to features only available in paid plans.'',
     [],
     [],
     ''Here for you'',
     [],
     ''If any step in the process feels unclear'',
     ''or if you encounter any bumps along the road, our team is standing by.'',
     ''Contact us at support@fix.security or ping us on Discord at https://discord.gg/fixsecurity.'',
     [],
     [],
     ''Warm regards,'',
     ''The Fix Team'',
     [],
     [],
     ''Log in to Fix: https://app.fix.security'',
     []]"

record mail_templates =
  mt_render :: "string \<Rightarrow> email_message \<Rightarrow> (string \<times> string) list \<Rightarrow> string"
  mt_invitation_link :: "uuid \<Rightarrow> string"
  mt_verification_link :: "string \<Rightarrow> string"

definition support_links :: "(string \<times> string) list" where
  "support_links = [(''visit_our_blog_url'', ''https://fix.security/blog''),
     (''connect_with_fix_on_linkedin_url'', ''https://www.linkedin.com/company/fix/''),
     (''discord_url'', ''https://discord.gg/KQ3JeMbE''), (''support_email'', ''support@fix.security'')]"

text \<open>Subject, text and HTML of each kind of message.\<close>

type_synonym rendered = "string \<times> string \<times> string option"

definition signup_mail :: "mail_templates \<Rightarrow> string \<Rightarrow> rendered" where
  "signup_mail t recipient =
     (let subject = ''Welcome to Fix!'' in
      (subject, ''Welcome to Fix, '' @ recipient @ ''!'',
       Some (mt_render t ''signup.html'' (Signup recipient) ([(''title'', subject), (''email'', recipient)] @ support_links))))"

definition invite_mail :: "mail_templates \<Rightarrow> string \<Rightarrow> uuid \<Rightarrow> string \<Rightarrow> rendered" where
  "invite_mail t inviter invitation recipient =
     (let subject = ''You'' @ [CHR 0x27] @ ''ve been invited to join a Fix workspace''; link = mt_invitation_link t invitation in
      (subject,
       inviter @ '' has invited you to join their workspace. Please click on the link below to accept the invitation. '' @
         new_line @ new_line @ link,
       Some (mt_render t ''invite.html'' (Invite inviter invitation recipient) [(''title'', subject), (''inviter'', inviter),
         (''action_url'', link), (''email'', recipient), (''support_email'', ''support@fix.security'')])))"

definition verify_mail :: "mail_templates \<Rightarrow> string \<Rightarrow> rendered" where
  "verify_mail t recipient =
     (let subject = ''Verify your e-mail address''; link = mt_verification_link t recipient in
      (subject, ''Hello! Please click this link to verify your email. '' @ link,
       Some (mt_render t ''verify_email.html'' (VerifyEmail recipient) [(''title'', subject), (''email'', recipient),
         (''verification_link'', link), (''support_email'', ''support@fix.security'')])))"

definition scan_finished_mail :: "mail_templates \<Rightarrow> rendered" where
  "scan_finished_mail t =
     (let subject = ''Security scan complete'' in
      (subject,
       ''Your first security scan is complete! You can now view the results in the Fix console.'' @ new_line @ new_line @
         ''View in Fix: https://app.fix.security'',
       Some (mt_render t ''security_scan_finished.html'' SecurityScanFinished
         [(''title'', subject), (''fix_console_url'', ''https://app.fix.security'')])))"

definition degraded_mail :: "mail_templates \<Rightarrow> string \<Rightarrow> string \<Rightarrow> uuid \<Rightarrow> string \<Rightarrow> string option \<Rightarrow> bool \<Rightarrow> rendered" where
  "degraded_mail t cloud account_id tenant_id workspace_name name deleted =
     (degraded_subject cloud account_id workspace_name name deleted,
      degraded_text account_id tenant_id workspace_name name deleted,
      Some (mt_render t (if deleted then ''account_deleted.html'' else ''account_degraded.html'')
        (AccountDegraded cloud account_id tenant_id workspace_name name deleted) []))"

definition joined_mail :: "mail_templates \<Rightarrow> uuid \<Rightarrow> uuid \<Rightarrow> rendered" where
  "joined_mail t u ws =
     (let m = UserJoinedWorkspaceMail u ws in
      (''Welcome to Fix!'', mt_render t ''user_joined_workspace.txt'' m [],
       Some (mt_render t ''user_joined_workspace.html'' m [(''user_id'', uuid_str u)])))"

definition trial_expires_mail :: "mail_templates \<Rightarrow> nat \<Rightarrow> rendered" where
  "trial_expires_mail t days =
     (let subject = ''Your Fix trial ends in '' @ expires_days days in
      (subject, trial_expires_text,
       Some (mt_render t ''trial_expires.html'' (TrialExpiresSoon days) ([(''title'', subject), (''period'', expires_days days)] @ support_links))))"

definition trial_expired_mail :: "mail_templates \<Rightarrow> rendered" where
  "trial_expired_mail t =
     (let subject = ''Your Fix trial has ended'' in
      (subject, trial_expired_text, Some (mt_render t ''trial_expired.html'' TrialExpired ([(''title'', subject)] @ support_links))))"

text \<open>An e-mail that was put together elsewhere is what it is.\<close>

fun render_message :: "mail_templates \<Rightarrow> email_message \<Rightarrow> rendered" where
  "render_message t (Signup recipient) = signup_mail t recipient"
| "render_message t (Invite inviter invitation recipient) = invite_mail t inviter invitation recipient"
| "render_message t (VerifyEmail recipient) = verify_mail t recipient"
| "render_message t SecurityScanFinished = scan_finished_mail t"
| "render_message t (AccountDegraded cloud account_id tenant_id workspace_name name deleted) =
     degraded_mail t cloud account_id tenant_id workspace_name name deleted"
| "render_message t (UserJoinedWorkspaceMail u ws) = joined_mail t u ws"
| "render_message t (TrialExpiresSoon days) = trial_expires_mail t days"
| "render_message t TrialExpired = trial_expired_mail t"
| "render_message t (PlainEmail subject txt html) = (subject, txt, html)"
| "render_message t (ListEmail subject txt html _) = (subject, txt, Some html)"

text \<open>\<open>PasswordReset\<close> is sent by its text and HTML.\<close>

definition password_reset :: "(string \<Rightarrow> (string \<times> string) list \<Rightarrow> string) \<Rightarrow> string \<Rightarrow> string \<Rightarrow> string \<times> string \<times> string" where
  "password_reset render recipient link =
     (let subject = ''Reset your Fix password'' in
      (subject,
       ''We received a request to reset the password for your Fix account. To set a new password, click this link: '' @ link,
       render ''password_reset.html'' [(''title'', subject), (''email'', recipient), (''action_link'', link),
         (''support_email'', ''support@fix.security'')]))"

subsection \<open>What a readable number says\<close>

lemma div_power_bounds:
  assumes "1 < (base :: int)" and "base ^ p \<le> number" and "number < base ^ Suc p"
  shows "1 \<le> number div base ^ p" "number div base ^ p < base" "number div base ^ p * base ^ p \<le> number"
    "number < (number div base ^ p + 1) * base ^ p"
proof -
  have pos: "0 < base ^ p" using assms(1) by simp
  show "1 \<le> number div base ^ p" using assms(2) pos by (simp add: pos_imp_zdiv_pos_iff int_one_le_iff_zero_less)
  show below: "number div base ^ p * base ^ p \<le> number" using pos by (simp add: minus_mod_eq_div_mult [symmetric])
  show "number div base ^ p < base"
  proof (rule ccontr)
    assume "\<not> number div base ^ p < base"
    then have "base * base ^ p \<le> number div base ^ p * base ^ p" using pos by (intro mult_right_mono) auto
    then show False using below assms(3) by simp
  qed
  have "(number div base ^ p + 1) * base ^ p = number div base ^ p * base ^ p + base ^ p" by (simp add: distrib_right)
  then show "number < (number div base ^ p + 1) * base ^ p"
    using pos pos_mod_bound [OF pos, of number] div_mult_mod_eq [of number "base ^ p"] by linarith
qed

text \<open>
  A readable number shows at most one digit less than its base and the largest unit that fits: for a number below
  the sixth power of the base, the text is a sign, a number below the base and the unit of a power, and the true number
  lies between the number shown and the next one, in that unit.
\<close>

theorem readable_units:
  assumes base: "1 < base" and small: "\<bar>n\<bar> < base ^ 6"
    and powers: "powers = map (\<lambda>p. (p, u p)) [5, 4, 3, 2, 1, 0]" and unit: "u 0 = base_unit"
  shows "\<exists>p m. p \<le> 5 \<and> 0 \<le> m \<and> m < base \<and> m * base ^ p \<le> \<bar>n\<bar> \<and> \<bar>n\<bar> < (m + 1) * base ^ p \<and> (m = 0 \<longrightarrow> n = 0) \<and>
    readable_unit base powers base_unit n with_sign = sign_text n with_sign @ int_str m @ unit_text (u p)"
proof (cases "\<bar>n\<bar> < base")
  case True
  then show ?thesis
    by (intro exI [of _ 0] exI [of _ "\<bar>n\<bar>"]) (simp add: readable_unit_def unit)
next
  case False
  define p where "p = Max {p \<in> {..5}. base ^ p \<le> \<bar>n\<bar>}"
  have ne: "{p \<in> {..5::nat}. base ^ p \<le> \<bar>n\<bar>} \<noteq> {}" using False by (auto intro!: exI [of _ 1])
  have "p \<in> {p \<in> {..5}. base ^ p \<le> \<bar>n\<bar>}" unfolding p_def by (rule Max_in) (use ne in auto)
  then have p: "p \<le> 5" "base ^ p \<le> \<bar>n\<bar>" by auto
  have above: "\<bar>n\<bar> < base ^ q" if "p < q" "q \<le> 6" for q
  proof (cases "q = 6")
    case False
    show ?thesis
    proof (rule ccontr)
      assume "\<not> \<bar>n\<bar> < base ^ q"
      then have "q \<le> p" unfolding p_def using that False by (intro Max_ge) auto
      then show False using that by simp
    qed
  qed (use small in simp)
  have "p \<noteq> 0" using above [of 1] False by (cases "p = 0") auto
  then have "p \<in> {1, 2, 3, 4, 5}" using p(1) by auto
  then have "largest_unit base powers \<bar>n\<bar> = Some (int_str (\<bar>n\<bar> div base ^ p) @ unit_text (u p))"
    using p(2) not_le [THEN iffD2, OF above] unfolding powers by (elim insertE emptyE) simp_all
  then show ?thesis
    using False p(1) div_power_bounds [OF base p(2) above [of "Suc p"]]
    by (intro exI [of _ p] exI [of _ "\<bar>n\<bar> div base ^ p"]) (auto simp: readable_unit_def Let_def)
qed

lemma readable_units_witness:
  "let u = (\<lambda>p. the (map_of bytes_power p)) in
   \<exists>p m. p \<le> 5 \<and> 0 \<le> m \<and> m < 1024 \<and> m * 1024 ^ p \<le> \<bar>1536\<bar> \<and> \<bar>1536\<bar> < (m + 1) * 1024 ^ p \<and> (m = 0 \<longrightarrow> (1536 :: int) = 0) \<and>
    readable_unit 1024 bytes_power (Some ''B'') 1536 True = sign_text 1536 True @ int_str m @ unit_text (u p)"
  unfolding Let_def by (rule readable_units) (simp_all add: bytes_power_def)

text \<open>
  The e-mail about an account that can not be accessed names the cloud in its subject but not in its text: where
  the text should say the cloud it says the name of the account, and \<open>None\<close> for an account without a name.
\<close>

theorem degraded_text_names_no_cloud:
  "\<exists>html. render_message t (AccountDegraded cloud account_id tenant_id workspace_name None False) =
    (''Workspace '' @ workspace_name @ '': unable to access '' @ cloud_name cloud @ '' account '' @ account_id,
     ''Fix was not able to collect latest resource information for None account '' @ account_id @ '' in workspace '' @ workspace_name @
       '' ('' @ uuid_str tenant_id @ ''). Please ensure the account exists and that the necessary access permissions have been granted.'' @
       new_line @ new_line @ ''View in Fix: https://app.fix.security/workspace-settings/accounts#'' @ uuid_str tenant_id,
     html)"
  by (simp add: degraded_mail_def degraded_text_def degraded_subject_def account_info_def str_of_optional_def)

end
