(* ===== verification/Status_Update.thy ===== *)
theory Status_Update
  imports Inventory_Router Email_Messages
begin

section \<open>The status update of a workspace\<close>

text \<open>
  \<open>StatusUpdateEmailCreator\<close> of \<open>notification/email/status_update_email_creator.py\<close>: what the regular e-mail tells
  about the resources, scores and changes of a workspace. Drawing a figure, the names of dates and the templates are
  parameters; the data of a figure is what the code hands to the plotting library.
\<close>

definition color_codes :: "string list" where
  "color_codes = [''#B7B8D3'', ''#FF9E80'', ''#FFD580'', ''#74C2BD'', ''#D3B5E5'', ''#B16228'', ''#8FBF88'', ''#F47373'', ''#95DEE3'', ''#6D4C41'']"

definition color_of :: "nat \<Rightarrow> string" where
  "color_of num = color_codes ! (num mod length color_codes)"

text \<open>\<open>Scatter.get_values\<close>.\<close>

definition get_values :: "scatter \<Rightarrow> datetime list \<Rightarrow> rat list" where
  "get_values s ats = map (\<lambda>t. dict_get 0 (sc_values s) t) ats"

record trace =
  tr_x :: "string list"
  tr_y :: "rat list"
  tr_name :: json
  tr_color :: string
  tr_stackgroup :: "string option"

record timeline_figure =
  fg_title :: "string option"
  fg_x_axis :: "string option"
  fg_y_axis :: "string option"
  fg_legend_title :: "string option"
  fg_traces :: "trace list"

datatype status_figure =
    Timeline timeline_figure
  | Gauge_percent string int int

record status_env =
  se_router :: router_env
  se_strftime :: "string \<Rightarrow> datetime \<Rightarrow> string"
  se_image :: "status_figure \<Rightarrow> string"

definition date_format :: "timedelta \<Rightarrow> string" where
  "date_format granularity = (if td_days 1 \<le> granularity then ''%d.%m.%y'' else ''%d.%m.%y %H:%M'')"

definition scatter_title :: "scatter \<Rightarrow> json" where
  "scatter_title s = (if json_true (map_of (sc_attributes s) ''name'') then the (map_of (sc_attributes s) ''name'') else Jstr (sc_group_name s))"

definition create_timeline_figure ::
  "status_env \<Rightarrow> scatters \<Rightarrow> string option \<Rightarrow> string option \<Rightarrow> string option \<Rightarrow> string option \<Rightarrow> bool \<Rightarrow> timeline_figure" where
  "create_timeline_figure env found title x_axis y_axis legend_title stacked =
     (let x = map (se_strftime env (date_format (ss_granularity found))) (ss_ats found) in
      \<lparr>fg_title = title, fg_x_axis = x_axis, fg_y_axis = y_axis, fg_legend_title = legend_title,
       fg_traces = map (\<lambda>(idx, s). \<lparr>tr_x = x, tr_y = get_values s (ss_ats found), tr_name = scatter_title s, tr_color = color_of idx,
         tr_stackgroup = if stacked then Some ''one'' else None\<rparr>) (enumerate 0 (ss_groups found))\<rparr>)"

text \<open>\<open>int\<close> cuts a float towards zero.\<close>

definition py_int :: "rat \<Rightarrow> int" where
  "py_int q = (if q < 0 then - \<lfloor>- q\<rfloor> else \<lfloor>q\<rfloor>)"

fun cut_value :: "json \<Rightarrow> exn + int" where
  "cut_value (Jobj obj) =
     (case map_of obj ''v'' of
        None \<Rightarrow> Inl KeyError
      | Some (Jnum q) \<Rightarrow> Inr (py_int q)
      | Some (Jbool b) \<Rightarrow> Inr (if b then 1 else 0)
      | Some _ \<Rightarrow> Inl TypeError)"
| "cut_value _ = Inl TypeError"

definition status_progress ::
  "search_env \<Rightarrow> graph_database_access \<Rightarrow> datetime \<Rightarrow> timedelta \<Rightarrow> string \<Rightarrow> int \<Rightarrow> string \<Rightarrow> string list option \<Rightarrow> (int \<times> int) inv" where
  "status_progress env db now duration metric not_exist aggregation filter_group =
     bind (client_timeseries (sv_client env) db metric \<lparr>to_start = Some (now - duration), to_end = Some now, to_group = Some [],
         to_filter_group = filter_group, to_granularity = Some duration, to_aggregation = Some aggregation\<rparr>) (\<lambda>response.
     bind (lift (traverse cut_value (sm_items response))) (\<lambda>entries.
     ret (progress_of not_exist entries)))"

definition duration_name :: "timedelta \<Rightarrow> string" where
  "duration_name duration = (if 27 < duration div td_days 1 then ''month'' else ''week'')"

record status_update =
  su_workspace_id :: uuid
  su_workspace_name :: string
  su_duration :: string
  su_accounts :: nat
  su_resource_changes :: "json \<times> json \<times> json"
  su_score_progress :: "int \<times> int"
  su_instances_progress :: "int \<times> int"
  su_cores_progress :: "int \<times> int"
  su_memory_progress :: "int \<times> int"
  su_volumes_progress :: "int \<times> int"
  su_volume_bytes_progress :: "int \<times> int"
  su_databases_progress :: "int \<times> int"
  su_databases_bytes_progress :: "int \<times> int"
  su_buckets_objects_progress :: "int \<times> int"
  su_buckets_size_bytes_progress :: "int \<times> int"
  su_images :: "(string \<times> string) list"

definition status_of_inventory ::
  "status_env \<Rightarrow> workspace \<Rightarrow> graph_database_access \<Rightarrow> datetime \<Rightarrow> timedelta \<Rightarrow> status_update inv" where
  "status_of_inventory env ws db now duration =
     (let sv = re_search (se_router env); figure = (\<lambda>f. se_image env f);
          sum = (\<lambda>metric. status_progress sv db now duration metric 0 ''sum'' None) in
      bind (account_names sv db) (\<lambda>names.
      bind (resources_per_account_timeline sv db now duration names) (\<lambda>timeline.
      bind (status_progress sv db now duration ''account_score'' 100 ''avg'' None) (\<lambda>score.
      bind (nr_of_changes sv db (now - duration)) (\<lambda>changes.
      bind (status_progress sv db now duration ''instances_total'' 0 ''sum'' (Some [''status==running''])) (\<lambda>instances.
      bind (sum ''cores_total'') (\<lambda>cores.
      bind (sum ''memory_bytes'') (\<lambda>memory.
      bind (sum ''volumes_total'') (\<lambda>volumes.
      bind (sum ''volume_bytes'') (\<lambda>volume_bytes.
      bind (sum ''databases_total'') (\<lambda>databases.
      bind (sum ''databases_bytes'') (\<lambda>databases_bytes.
      bind (sum ''buckets_objects_total'') (\<lambda>buckets_objects.
      bind (sum ''buckets_size_bytes'') (\<lambda>buckets_size_bytes.
      ret \<lparr>su_workspace_id = ws_id ws, su_workspace_name = ws_name ws, su_duration = duration_name duration,
        su_accounts = length (ss_groups timeline), su_resource_changes = changes, su_score_progress = score,
        su_instances_progress = instances, su_cores_progress = cores, su_memory_progress = memory, su_volumes_progress = volumes,
        su_volume_bytes_progress = volume_bytes, su_databases_progress = databases, su_databases_bytes_progress = databases_bytes,
        su_buckets_objects_progress = buckets_objects, su_buckets_size_bytes_progress = buckets_size_bytes,
        su_images = [(''account_timeline.png'', figure (Timeline (create_timeline_figure env timeline (Some ''Resources per account'') None
            (Some ''Nr of Resources'') (Some ''Accounts'') True))),
          (''score.png'', figure (Gauge_percent ''Security Score'' (fst score) (fst score - snd score)))]\<rparr>))))))))))))))"

definition create_messages_dict :: "status_env \<Rightarrow> workspace \<Rightarrow> datetime \<Rightarrow> timedelta \<Rightarrow> status_update api" where
  "create_messages_dict env ws now duration =
     bind (on_world (get_database_access (ws_id ws))) (\<lambda>dba.
     case dba of None \<Rightarrow> raise AssertionError
     | Some db \<Rightarrow> on_inventory (status_of_inventory env ws db now duration))"

text \<open>The message of a user: subject, HTML, text and images. \<open>render\<close> is the template with the arguments of the user.\<close>

definition for_user ::
  "(string \<Rightarrow> status_update \<Rightarrow> uuid \<Rightarrow> string) \<Rightarrow> status_update \<Rightarrow> uuid \<Rightarrow> string \<times> string \<times> string \<times> (string \<times> string) list" where
  "for_user render args user_id =
     (strip (render ''status-update.subject'' args user_id), render ''status-update.html'' args user_id,
      render ''status-update.txt'' args user_id, su_images args)"

definition create_messages_fn ::
  "(string \<Rightarrow> status_update \<Rightarrow> uuid \<Rightarrow> string) \<Rightarrow> status_env \<Rightarrow> workspace \<Rightarrow> datetime \<Rightarrow> timedelta \<Rightarrow>
   (uuid \<Rightarrow> string \<times> string \<times> string \<times> (string \<times> string) list) api" where
  "create_messages_fn render env ws now duration =
     bind (create_messages_dict env ws now duration) (\<lambda>args. ret (for_user render args))"

subsection \<open>What the update is made of\<close>

lemma preserves_status [pres]:
  "preserves (asks access since) (account_names sv access)"
  "preserves (asks access since) (resources_per_account_timeline sv access now duration names)"
  "preserves (asks access since) (nr_of_changes sv access start)"
  "preserves (asks access since) (status_progress sv access now duration metric not_exist aggregation filter_group)"
  unfolding status_progress_def account_names_def resources_per_account_timeline_def nr_of_changes_def Let_def by (intro pres)+

lemma preserves_status_of_inventory [pres]: "preserves (asks access since) (status_of_inventory env ws access now duration)"
  unfolding status_of_inventory_def Let_def by (intro pres)

text \<open>
  The status update of a workspace is made of answers to requests that carry the access of this workspace, for all of
  its users alike, and it is not made at all for a workspace without a database.
\<close>

theorem status_update_isolated:
  "case create_messages_fn render env ws now duration (w, s) of
     (r, w', s') \<Rightarrow> w' = w \<and>
       (case tfind g_workspace_id (ws_id ws) (graph_access w) of
          None \<Rightarrow> s' = s \<and> r = Inl AssertionError
        | Some access \<Rightarrow> g_workspace_id access = ws_id ws \<and> asks access (is_log s) s')"
proof (cases "tfind g_workspace_id (ws_id ws) (graph_access w)")
  case None
  then show ?thesis
    by (simp add: create_messages_fn_def create_messages_dict_def on_world_def get_database_access_def bind_def)
next
  case (Some access)
  obtain r s' where run: "status_of_inventory env ws access now duration s = (r, s')" by (cases "status_of_inventory env ws access now duration s")
  have "asks access (is_log s) s'"
    using preservesD [OF preserves_status_of_inventory asks_start run] .
  then show ?thesis
    using Some run tfind_Some [OF Some]
    by (cases r) (simp_all add: create_messages_fn_def create_messages_dict_def on_world_def on_inventory_def get_database_access_def bind_def)
qed

text \<open>
  The e-mail and the API of the inventory give different numbers for the same series: the e-mail cuts a value, the API
  rounds it, so that the e-mail never shows more and may show one less.
\<close>

lemma py_int_le_round:
  assumes "0 \<le> q"
  shows "py_int q \<le> py_round q" "py_round q \<le> py_int q + 1"
  using assms by (auto simp: py_int_def py_round_def Let_def)

lemma mail_and_api_differ: "cut_value (Jobj [(''v'', Jnum (27 / 10))]) = Inr 2 \<and> rounded_value (Jobj [(''v'', Jnum (27 / 10))]) = Inr 3"
proof -
  have "\<lfloor>27 / 10 :: rat\<rfloor> = 2" by (rule floor_unique) simp_all
  then show ?thesis by (simp add: py_int_def py_round_def Let_def)
qed

text \<open>The figure has a point for every time and account; a missing or a dropped value is zero.\<close>

lemma timeline_points:
  "length (fg_traces (create_timeline_figure env found title x y legend stacked)) = length (ss_groups found) \<and>
   (\<forall>t\<in>set (fg_traces (create_timeline_figure env found title x y legend stacked)). length (tr_y t) = length (tr_x t))"
  by (auto simp: create_timeline_figure_def Let_def get_values_def)

end
