(* ===== verification/Message_Queues.thy ===== *)
theory Message_Queues
  imports Inventory_Client Domain_Events Workspace_Access
begin

section \<open>Queues and events\<close>

text \<open>
  How messages get from one process to another: the listener and the publisher of an SQS queue (\<open>sqs.py\<close>), the
  publisher and the subscriber of domain events (\<open>domain_events/publisher_impl.py\<close>, \<open>domain_events/subscriber.py\<close>)
  and the websocket of a workspace (\<open>events/router.py\<close>, \<open>events/websocket_event_handler.py\<close>). The processor of a
  message, with the retries that the library makes of it, and the queue are parameters, as are \<open>json.dumps\<close>,
  \<open>json.loads\<close>, the text of a point in time and the conversion of events by \<open>cattrs\<close>.
\<close>

subsection \<open>The listener of a queue\<close>

record sqs_message =
  qm_id :: string
  qm_receipt :: string
  qm_count :: nat
    \<comment> \<open>\<open>ApproximateReceiveCount\<close>, 0 if the queue does not tell\<close>
  qm_body :: string

record listener =
  ln_consider_failed_after :: int
  ln_max_batch :: nat
  ln_wait :: int
  ln_retries :: nat

definition int_seconds :: "timedelta \<Rightarrow> int" where
  "int_seconds d = (if d < 0 then - (- d div 1000000) else d div 1000000)"

definition seconds_or :: "int \<Rightarrow> timedelta option \<Rightarrow> int" where
  "seconds_or d0 d = (case d of None \<Rightarrow> d0 | Some t \<Rightarrow> if t = 0 then d0 else int_seconds t)"

definition new_listener :: "timedelta option \<Rightarrow> nat option \<Rightarrow> timedelta option \<Rightarrow> nat \<Rightarrow> listener" where
  "new_listener consider_failed_after max_batch wait retries =
     \<lparr>ln_consider_failed_after = seconds_or 30 consider_failed_after,
      ln_max_batch = (case max_batch of None \<Rightarrow> 1 | Some n \<Rightarrow> if n = 0 then 1 else n),
      ln_wait = seconds_or 20 wait, ln_retries = retries\<rparr>"

text \<open>The state around the processor: the receipts of deleted messages and the counted failures (last attempt or not).\<close>

record 'w queue_state =
  qs_world :: 'w
  qs_deleted :: "string list"
  qs_marks :: "bool list"

record 'w queue_api =
  qa_now :: "'w \<Rightarrow> datetime"
  qa_process :: "sqs_message \<Rightarrow> ('w, unit) prog"
  qa_delete :: "string \<Rightarrow> 'w \<Rightarrow> exn option"
  qa_client_error :: "exn \<Rightarrow> bool"

definition mark_message_failed :: "bool \<Rightarrow> ('w queue_state, unit) prog" where
  "mark_message_failed last_attempt = modify (\<lambda>s. s\<lparr>qs_marks := qs_marks s @ [last_attempt]\<rparr>)"

definition delete_message :: "'w queue_api \<Rightarrow> string \<Rightarrow> ('w queue_state, unit) prog" where
  "delete_message q receipt s = (case qa_delete q receipt (qs_world s) of
     Some e \<Rightarrow> (Inl e, s) | None \<Rightarrow> (Inr (), s\<lparr>qs_deleted := qs_deleted s @ [receipt]\<rparr>))"

definition attempt :: "'w queue_api \<Rightarrow> sqs_message \<Rightarrow> ('w queue_state, bool) prog" where
  "attempt q m s = (case qa_process q m (qs_world s) of
     (Inr _, w) \<Rightarrow> (Inr True, s\<lparr>qs_world := w\<rparr>) | (Inl _, w) \<Rightarrow> (Inr False, s\<lparr>qs_world := w\<rparr>))"

fun handle_messages :: "listener \<Rightarrow> 'w queue_api \<Rightarrow> datetime \<Rightarrow> sqs_message list \<Rightarrow> ('w queue_state, unit) prog" where
  "handle_messages l q started [] = ret ()"
| "handle_messages l q started (m # ms) =
     bind (gets (\<lambda>s. td_seconds (ln_consider_failed_after l) \<le> qa_now q (qs_world s) - started)) (\<lambda>overdue.
     if overdue then ret ()
     else if qm_count m \<le> ln_retries l then
       bind (attempt q m) (\<lambda>ok.
       seq (if ok then delete_message q (qm_receipt m) else mark_message_failed False) (handle_messages l q started ms))
     else seq (mark_message_failed True) (seq (delete_message q (qm_receipt m)) (handle_messages l q started ms)))"

text \<open>One round of \<open>_listen\<close>; the answer of the queue is an exception or the messages.\<close>

definition listen_once :: "listener \<Rightarrow> 'w queue_api \<Rightarrow> exn + sqs_message list \<Rightarrow> ('w queue_state, unit) prog" where
  "listen_once l q response =
     catch (bind (lift response) (\<lambda>messages. bind (gets (\<lambda>s. qa_now q (qs_world s))) (\<lambda>started. handle_messages l q started messages)))
       (\<lambda>e. if qa_client_error q e then ret () else mark_message_failed False)"

definition listen :: "listener \<Rightarrow> 'w queue_api \<Rightarrow> (exn + sqs_message list) list \<Rightarrow> ('w queue_state, unit) prog" where
  "listen l q responses = for_each (listen_once l q) responses"

lemma listen_once_returns: "\<exists>s'. listen_once l q response s = (Inr (), s')"
  by (auto simp: listen_once_def catch_def mark_message_failed_def split: prod.splits sum.splits)

lemma listen_returns: "\<exists>s'. listen l q responses s = (Inr (), s')"
proof (induction responses arbitrary: s)
  case (Cons r rs)
  obtain s1 where "listen_once l q r s = (Inr (), s1)" using listen_once_returns by blast
  then show ?case using Cons [of s1] by (simp add: listen_def)
qed (simp add: listen_def)

text \<open>
  A message of a batch that can not be handled does not hold up the others: those that are handled, or were received
  too often, are deleted, in their order, and the others stay in the queue.
\<close>

theorem batch_independent:
  assumes process: "\<And>m w. qa_process q m w = (if good m then Inr () else Inl (e m), w)"
    and delete: "\<And>r w. qa_delete q r w = None" and now: "\<And>w. qa_now q w = t" and time: "0 < ln_consider_failed_after l"
  shows "\<exists>s'. listen_once l q (Inr ms) s = (Inr (), s') \<and>
    qs_deleted s' = qs_deleted s @ map qm_receipt (filter (\<lambda>m. good m \<or> ln_retries l < qm_count m) ms) \<and>
    qs_marks s' = qs_marks s @ map (\<lambda>m. ln_retries l < qm_count m) (filter (\<lambda>m. \<not> good m \<or> ln_retries l < qm_count m) ms)"
proof -
  have "\<exists>s'. handle_messages l q t ms s = (Inr (), s') \<and>
    qs_deleted s' = qs_deleted s @ map qm_receipt (filter (\<lambda>m. good m \<or> ln_retries l < qm_count m) ms) \<and>
    qs_marks s' = qs_marks s @ map (\<lambda>m. ln_retries l < qm_count m) (filter (\<lambda>m. \<not> good m \<or> ln_retries l < qm_count m) ms)" for s
  proof (induction ms arbitrary: s)
    case (Cons m ms)
    obtain s1 where step: "handle_messages l q t (m # ms) s = handle_messages l q t ms s1"
      "qs_deleted s1 = qs_deleted s @ (if good m \<or> ln_retries l < qm_count m then [qm_receipt m] else [])"
      "qs_marks s1 = qs_marks s @ (if \<not> good m \<or> ln_retries l < qm_count m then [ln_retries l < qm_count m] else [])"
      using time by (cases "good m"; cases "qm_count m \<le> ln_retries l")
        (auto simp: now td_seconds_def bind_def seq_def attempt_def process delete_message_def delete mark_message_failed_def)
    show ?case using Cons [of s1] step by auto
  qed simp
  from this [of s] show ?thesis by (auto simp: listen_once_def catch_def bind_def now)
qed

text \<open>
  C32: A message that always fails is tried as often as configured and then deleted: while the queue delivers it again and
  again with a growing count, each of the first rounds runs the processor once and keeps the message, and the round after
  them deletes it without running the processor.
\<close>

theorem poison_message_dropped:
  assumes fails: "\<And>k w. qa_process q (m\<lparr>qm_count := k\<rparr>) w = (Inl e, step w)" and delete: "\<And>w. qa_delete q (qm_receipt m) w = None"
    and now: "\<And>w. qa_now q w = t" and time: "0 < ln_consider_failed_after l"
  shows "listen l q (map (\<lambda>k. Inr [m\<lparr>qm_count := k\<rparr>]) [1..<Suc n]) s =
    (Inr (), s\<lparr>qs_world := (step ^^ min n (ln_retries l)) (qs_world s),
      qs_deleted := qs_deleted s @ replicate (n - ln_retries l) (qm_receipt m),
      qs_marks := qs_marks s @ replicate (min n (ln_retries l)) False @ replicate (n - ln_retries l) True\<rparr>)"
proof (induction n)
  case 0
  show ?case by (simp add: listen_def)
next
  case (Suc n)
  let ?m = "m\<lparr>qm_count := Suc n\<rparr>" and ?rounds = "listen l q (map (\<lambda>k. Inr [m\<lparr>qm_count := k\<rparr>]) [1..<Suc n])"
  have once: "listen_once l q (Inr [?m]) s' =
      (if Suc n \<le> ln_retries l then (Inr (), s'\<lparr>qs_world := step (qs_world s'), qs_marks := qs_marks s' @ [False]\<rparr>)
       else (Inr (), s'\<lparr>qs_deleted := qs_deleted s' @ [qm_receipt m], qs_marks := qs_marks s' @ [True]\<rparr>))" for s'
    using time by (simp add: listen_once_def catch_def bind_def seq_def now td_seconds_def attempt_def fails mark_message_failed_def
        delete_message_def delete)
  have split: "listen l q (map (\<lambda>k. Inr [m\<lparr>qm_count := k\<rparr>]) [1..<Suc (Suc n)]) =
      seq ?rounds (seq (listen_once l q (Inr [?m])) (ret ()))"
    by (simp add: listen_def for_each_append)
  show ?case
  proof (cases "Suc n \<le> ln_retries l")
    case True
    then show ?thesis
      unfolding split seq_Inr [where m = ?rounds and w = s, OF Suc.IH] by (simp add: once replicate_append_same [symmetric])
  next
    case False
    then have "min (Suc n) (ln_retries l) = ln_retries l" "min n (ln_retries l) = ln_retries l" "Suc n - ln_retries l = Suc (n - ln_retries l)"
      by auto
    with False show ?thesis
      unfolding split seq_Inr [where m = ?rounds and w = s, OF Suc.IH] by (simp add: once replicate_append_same [symmetric])
  qed
qed


definition counting_queue :: "nat queue_api" where
  "counting_queue = \<lparr>qa_now = (\<lambda>_. 0), qa_process = (\<lambda>m w. if qm_id m = ''good'' then (Inr (), w) else (Inl ValueError, w + 1)),
     qa_delete = (\<lambda>_ _. None), qa_client_error = (\<lambda>_. False)\<rparr>"

lemma poison_message_dropped_witness:
  "let m = \<lparr>qm_id = ''m'', qm_receipt = ''r'', qm_count = 0, qm_body = []\<rparr>; l = new_listener None None None 5 in
   listen l counting_queue (map (\<lambda>k. Inr [m\<lparr>qm_count := k\<rparr>]) [1..<Suc 6]) \<lparr>qs_world = 0, qs_deleted = [], qs_marks = []\<rparr> =
     (Inr (), \<lparr>qs_world = 5, qs_deleted = [''r''], qs_marks = [False, False, False, False, False, True]\<rparr>)"
proof -
  let ?m = "\<lparr>qm_id = ''m'', qm_receipt = ''r'', qm_count = 0, qm_body = []\<rparr>"
  have five: "(Suc ^^ 5) 0 = 5" by (simp add: eval_nat_numeral)
  have "replicate 5 False = [False, False, False, False, False]" by (simp add: eval_nat_numeral)
  then show ?thesis
    unfolding Let_def
    by (subst poison_message_dropped [where e = ValueError and step = Suc and t = 0])
      (simp_all add: counting_queue_def new_listener_def seconds_or_def five)
qed

lemma batch_independent_witness:
  "let l = new_listener None None None 5;
       q = counting_queue\<lparr>qa_process := (\<lambda>m w. if qm_id m = ''good'' then (Inr (), w) else (Inl ValueError, w))\<rparr>;
       ms = [\<lparr>qm_id = ''bad'', qm_receipt = ''r1'', qm_count = 1, qm_body = []\<rparr>, \<lparr>qm_id = ''good'', qm_receipt = ''r2'', qm_count = 1, qm_body = []\<rparr>,
         \<lparr>qm_id = ''bad'', qm_receipt = ''r3'', qm_count = 6, qm_body = []\<rparr>] in
   \<exists>s'. listen_once l q (Inr ms) \<lparr>qs_world = 0, qs_deleted = [], qs_marks = []\<rparr> = (Inr (), s') \<and> qs_deleted s' = [''r2'', ''r3'']"
proof -
  let ?l = "new_listener None None None 5"
  let ?q = "counting_queue\<lparr>qa_process := (\<lambda>m w. if qm_id m = ''good'' then (Inr (), w) else (Inl ValueError, w))\<rparr>"
  have "\<exists>s'. listen_once ?l ?q (Inr ms) s = (Inr (), s') \<and>
    qs_deleted s' = qs_deleted s @ map qm_receipt (filter (\<lambda>m. qm_id m = ''good'' \<or> ln_retries ?l < qm_count m) ms) \<and>
    qs_marks s' = qs_marks s @ map (\<lambda>m. ln_retries ?l < qm_count m) (filter (\<lambda>m. \<not> qm_id m = ''good'' \<or> ln_retries ?l < qm_count m) ms)" for ms s
    by (rule batch_independent [where e = "\<lambda>_. ValueError" and t = 0])
      (simp_all add: counting_queue_def new_listener_def seconds_or_def)
  then show ?thesis unfolding Let_def
    by (elim meta_allE [of _ "[\<lparr>qm_id = ''bad'', qm_receipt = ''r1'', qm_count = 1, qm_body = []\<rparr>, \<lparr>qm_id = ''good'', qm_receipt = ''r2'', qm_count = 1, qm_body = []\<rparr>,
         \<lparr>qm_id = ''bad'', qm_receipt = ''r3'', qm_count = 6, qm_body = []\<rparr>]"] meta_allE [of _ "\<lparr>qs_world = 0, qs_deleted = [], qs_marks = []\<rparr>"])
      (auto simp: new_listener_def)
qed

subsection \<open>The envelope of a message\<close>

record message_context =
  mc_id :: string
  mc_kind :: string
  mc_publisher :: string
  mc_sent_at :: datetime
  mc_received_at :: datetime

record codec =
  cd_dumps :: "json \<Rightarrow> string"
  cd_loads :: "string \<Rightarrow> json option"
  cd_utc_str :: "datetime \<Rightarrow> string"
  cd_parse_utc :: "string \<Rightarrow> datetime option"

definition to_send :: "codec \<Rightarrow> string \<Rightarrow> datetime \<Rightarrow> string \<Rightarrow> json \<Rightarrow> json" where
  "to_send c publisher_name now kind message =
     Jobj [(''at'', Jstr (cd_utc_str c now)), (''publisher'', Jstr publisher_name), (''kind'', Jstr kind),
       (''data'', Jstr (cd_dumps c message))]"

definition publish_body :: "codec \<Rightarrow> string \<Rightarrow> datetime \<Rightarrow> string \<Rightarrow> json \<Rightarrow> string" where
  "publish_body c publisher_name now kind message = cd_dumps c (to_send c publisher_name now kind message)"

text \<open>A body that is no JSON raises \<open>ValueError\<close>, a missing field \<open>KeyError\<close>; the fields of the context are texts.\<close>

definition body_text :: "string \<Rightarrow> json \<Rightarrow> exn + string" where
  "body_text k body = (case json_get k body of Some (Jstr s) \<Rightarrow> Inr s | Some _ \<Rightarrow> Inl TypeError | None \<Rightarrow> Inl KeyError)"

definition context_of :: "codec \<Rightarrow> datetime \<Rightarrow> sqs_message \<Rightarrow> json \<Rightarrow> exn + message_context" where
  "context_of c now m body =
     (case (body_text ''kind'' body, body_text ''publisher'' body, body_text ''at'' body) of
        (Inr k, Inr p, Inr t) \<Rightarrow>
          (case cd_parse_utc c t of None \<Rightarrow> Inl ValueError
           | Some at_time \<Rightarrow> Inr \<lparr>mc_id = qm_id m, mc_kind = k, mc_publisher = p, mc_sent_at = at_time, mc_received_at = now\<rparr>)
      | (Inl e, _, _) \<Rightarrow> Inl e | (_, Inl e, _) \<Rightarrow> Inl e | (_, _, Inl e) \<Rightarrow> Inl e)"

definition context_handler :: "codec \<Rightarrow> ('w \<Rightarrow> datetime) \<Rightarrow> (json \<Rightarrow> message_context \<Rightarrow> ('w, unit) prog) \<Rightarrow> sqs_message \<Rightarrow> ('w, unit) prog" where
  "context_handler c time_of fn m =
     (case cd_loads c (qm_body m) of None \<Rightarrow> raise ValueError
      | Some body \<Rightarrow>
          bind (gets time_of) (\<lambda>now.
          bind (lift (context_of c now m body)) (\<lambda>context.
          case json_get ''data'' body of None \<Rightarrow> raise KeyError | Some data \<Rightarrow> fn data context)))"

text \<open>
  What \<open>SQSPublisher\<close> publishes, \<open>SQSListener\<close> does not give to its processor: kind, publisher and time arrive, but
  the data is encoded once more than it is decoded, so the processor gets the text of the message and not the message.
\<close>

theorem published_data_stays_text:
  assumes json: "cd_loads c (cd_dumps c (to_send c publisher_name sent_at kind message)) = Some (to_send c publisher_name sent_at kind message)"
    and time: "cd_parse_utc c (cd_utc_str c sent_at) = Some sent_at"
    and body: "qm_body m = publish_body c publisher_name sent_at kind message"
  shows "context_handler c time_of fn m w =
    fn (Jstr (cd_dumps c message)) \<lparr>mc_id = qm_id m, mc_kind = kind, mc_publisher = publisher_name, mc_sent_at = sent_at,
      mc_received_at = time_of w\<rparr> w"
  by (simp add: context_handler_def body publish_body_def json) (simp add: context_of_def body_text_def time to_send_def)

definition sample_codec :: codec where
  "sample_codec = \<lparr>cd_dumps = (\<lambda>_. ''x''), cd_loads = (\<lambda>_. Some (Jobj [(''at'', Jstr ''t''), (''publisher'', Jstr ''p''), (''kind'', Jstr ''k''),
     (''data'', Jstr ''x'')])), cd_utc_str = (\<lambda>_. ''t''), cd_parse_utc = (\<lambda>_. Some 3)\<rparr>"

lemma published_data_stays_text_witness:
  "context_handler sample_codec (\<lambda>w. 5) (\<lambda>data ctx w. (Inr (), (data, mc_kind ctx))) \<lparr>qm_id = ''i'', qm_receipt = ''r'', qm_count = 1,
     qm_body = publish_body sample_codec ''p'' 3 ''k'' (Jobj [])\<rparr> (Jnull, []) = (Inr (), (Jstr ''x'', ''k''))"
  by (subst published_data_stays_text [where publisher_name = "''p''" and sent_at = 3 and kind = "''k''" and message = "Jobj []"])
    (simp_all add: sample_codec_def to_send_def)

subsection \<open>Domain events\<close>

text \<open>
  A callback is a coroutine: it runs in stretches between its awaits, and it may end or raise in any of them. What
  \<open>Backoff\<close> makes of it, retries included, is a parameter.
\<close>

datatype 'w coroutine =
    Returned
  | Raised exn
  | Stretch "'w \<Rightarrow> 'w coroutine \<times> 'w"

fun advance :: "'w coroutine \<Rightarrow> 'w \<Rightarrow> 'w coroutine \<times> 'w" where
  "advance (Stretch f) w = f w"
| "advance t w = (t, w)"

record 'w callback =
  cb_handler :: "domain_event \<Rightarrow> 'w coroutine"
  cb_name :: string
  cb_backoff :: "'w coroutine \<Rightarrow> 'w coroutine"

record 'w handler_descriptor =
  hd_callbacks :: "'w callback list"
  hd_event_kind :: string

definition callback_call :: "'w callback \<Rightarrow> domain_event \<Rightarrow> 'w coroutine" where
  "callback_call c event = cb_backoff c (cb_handler c event)"

text \<open>
  A task group of \<open>asyncio\<close>. In each round of the event loop the tasks that are ready run up to their next await;
  which these are, after the first round, is up to the outside: the parameter \<open>rounds\<close>. In the first round all
  tasks begin, in the order of their creation. When tasks have failed in a round, the group cancels those that are
  not finished (what their \<open>finally\<close> clauses do is not modelled) and raises the failures as a group.
\<close>

datatype group_outcome =
    Group_done
  | Group_failed "exn list"
  | Group_waiting

fun run_round :: "nat list \<Rightarrow> 'w coroutine list \<Rightarrow> 'w \<Rightarrow> 'w coroutine list \<times> 'w" where
  "run_round [] ts w = (ts, w)"
| "run_round (i # is) ts w =
     (if i < length ts then (case advance (ts ! i) w of (t, w') \<Rightarrow> run_round is (ts[i := t]) w') else run_round is ts w)"

fun failures :: "'w coroutine list \<Rightarrow> exn list" where
  "failures [] = []"
| "failures (Raised e # ts) = e # failures ts"
| "failures (_ # ts) = failures ts"

fun run_group :: "nat list list \<Rightarrow> 'w coroutine list \<Rightarrow> 'w \<Rightarrow> group_outcome \<times> 'w" where
  "run_group rounds ts w =
     (if failures ts \<noteq> [] then (Group_failed (failures ts), w)
      else if list_all (\<lambda>t. case t of Returned \<Rightarrow> True | _ \<Rightarrow> False) ts then (Group_done, w)
      else case rounds of [] \<Rightarrow> (Group_waiting, w)
        | ready # later \<Rightarrow> (case run_round ready ts w of (ts', w') \<Rightarrow> run_group later ts' w'))"

declare run_group.simps [simp del]

definition descriptor_call :: "'w handler_descriptor \<Rightarrow> domain_event \<Rightarrow> nat list list \<Rightarrow> 'w \<Rightarrow> group_outcome \<times> 'w" where
  "descriptor_call d event rounds w =
     (let tasks = map (\<lambda>c. callback_call c event) (hd_callbacks d) in
      case run_round [0..<length tasks] tasks w of (started, w') \<Rightarrow> run_group rounds started w')"

definition with_callback :: "'w callback \<Rightarrow> 'w handler_descriptor \<Rightarrow> 'w handler_descriptor" where
  "with_callback c d = d\<lparr>hd_callbacks := hd_callbacks d @ [c]\<rparr>"

type_synonym 'w subscribers = "string \<rightharpoonup> 'w handler_descriptor"

definition subscribe :: "string \<Rightarrow> 'w callback \<Rightarrow> 'w subscribers \<Rightarrow> 'w subscribers" where
  "subscribe kind c subs =
     subs(kind \<mapsto> with_callback c (case subs kind of None \<Rightarrow> \<lparr>hd_callbacks = [], hd_event_kind = kind\<rparr> | Some d \<Rightarrow> d))"

record event_codec =
  ev_to_json :: "domain_event \<Rightarrow> json"
  ev_from_json :: "string \<Rightarrow> json \<Rightarrow> exn + domain_event"

text \<open>\<open>DomainEventPublisherImpl.publish\<close> hands kind and message to the stream.\<close>

definition published :: "event_codec \<Rightarrow> domain_event \<Rightarrow> string \<times> json" where
  "published c event = (event_kind event, ev_to_json c event)"

definition process_event_message ::
  "event_codec \<Rightarrow> 'w subscribers \<Rightarrow> nat list list \<Rightarrow> string \<times> json \<Rightarrow> 'w \<Rightarrow> (exn + group_outcome) \<times> 'w" where
  "process_event_message c subs rounds message w =
     (case subs (fst message) of None \<Rightarrow> (Inr Group_done, w)
      | Some d \<Rightarrow>
         (case ev_from_json c (hd_event_kind d) (snd message) of Inl e \<Rightarrow> (Inl e, w)
          | Inr event \<Rightarrow> apfst Inr (descriptor_call d event rounds w)))"

lemma subscribe_at:
  "subscribe kind c subs k =
    (if k = kind then Some (with_callback c (case subs k of None \<Rightarrow> \<lparr>hd_callbacks = [], hd_event_kind = kind\<rparr> | Some d \<Rightarrow> d)) else subs k)"
  by (simp add: subscribe_def)

lemma subscribe_all:
  "fold (\<lambda>(kind, c). subscribe kind c) regs subs k =
    (let new = map snd (filter (\<lambda>(kind, c). kind = k) regs) in
     case subs k of
       None \<Rightarrow> if new = [] then None else Some \<lparr>hd_callbacks = new, hd_event_kind = k\<rparr>
     | Some d \<Rightarrow> Some (d\<lparr>hd_callbacks := hd_callbacks d @ new\<rparr>))"
proof (induction regs arbitrary: subs)
  case Nil
  show ?case by (simp split: option.split)
next
  case (Cons r regs)
  obtain kind c where r: "r = (kind, c)" by (cases r)
  note here = subscribe_at [of kind c subs k]
  show ?case
  proof (cases "kind = k")
    case True
    then show ?thesis by (cases "subs k") (simp_all add: r Cons.IH here [unfolded True] True with_callback_def Let_def)
  next
    case False
    then show ?thesis by (cases "subs k") (simp_all add: r Cons.IH here Let_def)
  qed
qed

text \<open>The first round of a group: every task makes its first stretch, in order, whatever the others do.\<close>

definition begin_all :: "'w coroutine list \<Rightarrow> 'w \<Rightarrow> 'w" where
  "begin_all tasks = fold (\<lambda>t w. snd (advance t w)) tasks"

lemma run_round_append: "run_round (is @ js) ts w = (case run_round is ts w of (ts', w') \<Rightarrow> run_round js ts' w')"
  by (induction "is" arbitrary: ts w) (auto split: prod.split)

lemma first_round:
  "n \<le> length tasks \<Longrightarrow> run_round [0..<n] tasks w =
    (map (\<lambda>i. fst (advance (tasks ! i) (begin_all (take i tasks) w))) [0..<n] @ drop n tasks, begin_all (take n tasks) w)"
proof (induction n)
  case (Suc n)
  let ?began = "map (\<lambda>i. fst (advance (tasks ! i) (begin_all (take i tasks) w))) [0..<n]"
  obtain t w' where step: "advance (tasks ! n) (begin_all (take n tasks) w) = (t, w')" by (cases "advance (tasks ! n) (begin_all (take n tasks) w)")
  have rest: "drop n tasks = tasks ! n # drop (Suc n) tasks" "take (Suc n) tasks = take n tasks @ [tasks ! n]"
    using Suc.prems by (simp_all add: Cons_nth_drop_Suc take_Suc_conv_app_nth)
  then have "begin_all (take (Suc n) tasks) w = w'" using step by (simp add: begin_all_def)
  moreover have "(?began @ drop n tasks) ! n = tasks ! n" "(?began @ drop n tasks)[n := t] = (?began @ [t]) @ drop (Suc n) tasks"
    unfolding rest(1) by (simp_all add: nth_append list_update_append)
  ultimately show ?case
    using Suc step by (simp add: run_round_append)
qed (simp add: begin_all_def)

lemma failures_in: "Raised e \<in> set ts \<Longrightarrow> e \<in> set (failures ts)"
  by (induction ts rule: failures.induct) auto

text \<open>
  C33: Every callback that was subscribed to the kind of a published event is called with this event, once and in the
  order of the subscriptions, and no other callback is called: all of them begin before anything else happens, also
  when some of them fail at once; the group then goes on from there with each as far as it came. If some failed at once, the failures of
  all of these are raised together, and every callback has nevertheless begun.
\<close>

theorem event_reaches_subscribers:
  assumes "ev_from_json c (event_kind event) (ev_to_json c event) = Inr event"
  shows "let tasks = map (\<lambda>(kind, cb). callback_call cb event) (filter (\<lambda>(kind, cb). kind = event_kind event) regs);
      started = map (\<lambda>i. fst (advance (tasks ! i) (begin_all (take i tasks) w))) [0..<length tasks];
      result = process_event_message c (fold (\<lambda>(kind, cb). subscribe kind cb) regs Map.empty) rounds (published c event) w in
    result = apfst Inr (run_group rounds started (begin_all tasks w)) \<and>
    (\<forall>e. Raised e \<in> set started \<longrightarrow> (\<exists>es. e \<in> set es \<and> result = (Inr (Group_failed es), begin_all tasks w)))"
proof -
  let ?tasks = "map (\<lambda>(kind, cb). callback_call cb event) (filter (\<lambda>(kind, cb). kind = event_kind event) regs)"
  let ?started = "map (\<lambda>i. fst (advance (?tasks ! i) (begin_all (take i ?tasks) w))) [0..<length ?tasks]"
  have same: "map (\<lambda>cb. callback_call cb event) (map snd (filter (\<lambda>(kind, cb). kind = event_kind event) regs)) = ?tasks"
    by (simp add: case_prod_beta)
  have none: "run_group rounds [] w = (Group_done, w)" by (simp add: run_group.simps)
  have result: "process_event_message c (fold (\<lambda>(kind, cb). subscribe kind cb) regs Map.empty) rounds (published c event) w =
      apfst Inr (run_group rounds ?started (begin_all ?tasks w))"
  proof (cases "filter (\<lambda>(kind, cb). kind = event_kind event) regs")
    case Nil
    then show ?thesis by (simp add: process_event_message_def published_def subscribe_all none begin_all_def Let_def)
  next
    case (Cons r rs)
    then have some: "fold (\<lambda>(kind, cb). subscribe kind cb) regs Map.empty (event_kind event) =
        Some \<lparr>hd_callbacks = map snd (filter (\<lambda>(kind, cb). kind = event_kind event) regs), hd_event_kind = event_kind event\<rparr>"
      by (simp add: subscribe_all Let_def)
    show ?thesis
      using assms first_round [of "length ?tasks" ?tasks w]
      by (simp add: process_event_message_def published_def some descriptor_call_def same Let_def del: map_map)
  qed
  have failed: "\<exists>es. e \<in> set es \<and> apfst Inr (run_group rounds ?started v) = (Inr (Group_failed es), v)"
    if "Raised e \<in> set ?started" for e v
  proof -
    have "e \<in> set (failures ?started)" using that by (rule failures_in)
    moreover from this have "run_group rounds ?started v = (Group_failed (failures ?started), v)"
      by (subst run_group.simps) (metis (no_types) empty_iff list.set(1))
    ultimately show ?thesis by (intro exI [of _ "failures ?started"]) simp
  qed
  show ?thesis unfolding Let_def result using failed by blast
qed

text \<open>The second of three callbacks fails at once; the third begins all the same.\<close>

lemma event_reaches_subscribers_witness:
  "let c = \<lparr>ev_to_json = (\<lambda>_. Jnull), ev_from_json = (\<lambda>_ _. Inr (UserLoggedIn 3 ''a''))\<rparr>;
       cb = \<lambda>n. \<lparr>cb_handler = (\<lambda>e. Stretch (\<lambda>w. (if n = 2 then Raised ValueError else Returned, w @ [n :: nat]))), cb_name = [], cb_backoff = id\<rparr> in
   process_event_message c (fold (\<lambda>(kind, cb). subscribe kind cb)
       [(''user_logged_in'', cb 1), (''user_logged_in'', cb 2), (''user_registered'', cb 4), (''user_logged_in'', cb 3)] Map.empty) []
       (published c (UserLoggedIn 3 ''a'')) [] =
     (Inr (Group_failed [ValueError]), [1, 2, 3])"
proof -
  let ?c = "\<lparr>ev_to_json = (\<lambda>_. Jnull), ev_from_json = (\<lambda>_ _. Inr (UserLoggedIn 3 ''a''))\<rparr>"
  let ?cb = "\<lambda>n. \<lparr>cb_handler = (\<lambda>e. Stretch (\<lambda>w. (if n = 2 then Raised ValueError else Returned, w @ [n :: nat]))), cb_name = [], cb_backoff = id\<rparr>"
  have "ev_from_json ?c (event_kind (UserLoggedIn 3 ''a'')) (ev_to_json ?c (UserLoggedIn 3 ''a'')) = Inr (UserLoggedIn 3 ''a'')" by simp
  from event_reaches_subscribers [OF this, where rounds = "[]" and w = "[]" and regs = "[(''user_logged_in'', ?cb 1),
      (''user_logged_in'', ?cb 2), (''user_registered'', ?cb 4), (''user_logged_in'', ?cb 3)]"]
  show ?thesis unfolding Let_def
    by (simp add: callback_call_def begin_all_def upt_rec run_group.simps)
qed

subsection \<open>The websocket of a workspace\<close>

datatype websocket =
    Socket_closed nat string
  | Socket_listens string

fun workspace_error_name :: "workspace_error \<Rightarrow> string" where
  "workspace_error_name WorkspaceNotFound = ''WorkspaceNotFound''"
| "workspace_error_name Unauthorized = ''Unauthorized''"
| "workspace_error_name Forbidden = ''Forbidden''"
| "workspace_error_name TrialEnded = ''TrialEnded''"
| "workspace_error_name PaymentOnHold = ''PaymentOnHold''"

definition tenant_channel :: "uuid \<Rightarrow> string" where
  "tenant_channel workspace_id = ''tenant-events::'' @ uuid_str workspace_id"

definition websocket_events :: "uuid \<Rightarrow> user option \<Rightarrow> websocket io" where
  "websocket_events workspace_id user =
     bind (get_optional_user_workspace workspace_id user) (\<lambda>workspace.
     case workspace of Inl e \<Rightarrow> ret (Socket_closed 4401 (workspace_error_name e))
     | Inr ws \<Rightarrow> ret (Socket_listens (tenant_channel (ws_id ws))))"

definition websocket_message :: "(datetime \<Rightarrow> string) \<Rightarrow> string \<Rightarrow> datetime \<Rightarrow> string \<Rightarrow> string \<Rightarrow> json \<Rightarrow> json" where
  "websocket_message str id_text sent_at publisher kind data =
     Jobj [(''type'', Jstr ''event''), (''id'', Jstr id_text), (''at'', Jstr (str sent_at)), (''publisher'', Jstr publisher),
       (''kind'', Jstr kind), (''data'', data)]"

text \<open>
  A websocket listens only to the events of the workspace of its path, and only for a user who may reach the
  workspace as any endpoint requires it.
\<close>

theorem websocket_guarded:
  "fst (websocket_events i user w) = Inr (Socket_listens c) \<longleftrightarrow>
    (\<exists>ws. fst (user_workspace i user w) = Inr ws) \<and> c = tenant_channel i"
proof (cases user)
  case None
  then show ?thesis
    by (simp add: websocket_events_def user_workspace_def get_optional_user_workspace_def get_user_workspace_def)
next
  case (Some u)
  show ?thesis
  proof (cases "user_workspace i (Some u) w")
    case (Pair r w')
    then show ?thesis
      using user_workspace_Inr [of i u w]
      unfolding Some websocket_events_def user_workspace_def get_user_workspace_def
      by (cases "get_optional_user_workspace i (Some u) w") (auto simp: bind_def split: sum.splits)
  qed
qed

end
