(* ===== verification/Alert_Messages.thy ===== *)
theory Alert_Messages
  imports Alerts Inventory_Client Inventory_Report
begin

section \<open>The messages of an alert\<close>

text \<open>
  What the senders of \<open>notification/slack\<close>, \<open>notification/discord\<close>, \<open>notification/teams\<close>, \<open>notification/pagerduty\<close>,
  \<open>notification/opsgenie\<close> and \<open>notification/email\<close> say about failing checks, and where they post it. When they post and
  what they do about the answer is in Alerts. An emoji is its bytes in UTF-8; the name of a resource without a name is
  \<open>None\<close> in a text. The time and the templates of the e-mail are parameters.
\<close>

subsection \<open>Severities in text\<close>

fun severity_emoji :: "report_severity \<Rightarrow> string" where
  "severity_emoji Severity_info = [CHR 0xE2, CHR 0x84, CHR 0xB9, CHR 0xEF, CHR 0xB8, CHR 0x8F]"
| "severity_emoji Severity_low = [CHR 0xF0, CHR 0x9F, CHR 0x8C, CHR 0xB1]"
| "severity_emoji Severity_medium = [CHR 0xE2, CHR 0x9A, CHR 0xA0, CHR 0xEF, CHR 0xB8, CHR 0x8F]"
| "severity_emoji Severity_high = [CHR 0xF0, CHR 0x9F, CHR 0x94, CHR 0xA5]"
| "severity_emoji Severity_critical = [CHR 0xF0, CHR 0x9F, CHR 0x92, CHR 0xA5]"

fun severity_title :: "report_severity \<Rightarrow> string" where
  "severity_title Severity_info = ''Info''"
| "severity_title Severity_low = ''Low''"
| "severity_title Severity_medium = ''Medium''"
| "severity_title Severity_high = ''High''"
| "severity_title Severity_critical = ''Critical''"

fun pagerduty_severity :: "report_severity \<Rightarrow> string" where
  "pagerduty_severity Severity_critical = ''critical''"
| "pagerduty_severity Severity_high = ''error''"
| "pagerduty_severity Severity_medium = ''warning''"
| "pagerduty_severity Severity_low = ''info''"
| "pagerduty_severity Severity_info = ''info''"

fun opsgenie_priority :: "report_severity \<Rightarrow> string" where
  "opsgenie_priority Severity_critical = ''P1''"
| "opsgenie_priority Severity_high = ''P2''"
| "opsgenie_priority Severity_medium = ''P3''"
| "opsgenie_priority Severity_low = ''P4''"
| "opsgenie_priority Severity_info = ''P5''"

definition lf :: string where "lf = [char_of (10 :: nat)]"

definition resource_name :: "vulnerable_resource \<Rightarrow> string" where
  "resource_name r = (case vr_name r of None \<Rightarrow> ''None'' | Some n \<Rightarrow> n)"

definition logo :: "string \<Rightarrow> string" where
  "logo width = ''https://cdn.fix.security/assets/fix-logos/fix-logo-'' @ width @ ''.png''"

definition non_exhaustive :: "failing_checks_detected \<Rightarrow> bool" where
  "non_exhaustive alert \<longleftrightarrow> length (fd_examples alert) < fd_failed_checks_count_total alert"

definition portion_note :: "string \<Rightarrow> string" where
  "portion_note what = ''Please note that this list represents only a portion of the total issues found. '' @
     ''You can review the full report with all affected resources using below '' @ what @ ''.'' @ lf"

definition markdown :: "string \<Rightarrow> json" where
  "markdown t = Jobj [(''type'', Jstr ''mrkdwn''), (''text'', Jstr t)]"

subsection \<open>The payloads\<close>

definition slack_check :: "failed_check \<Rightarrow> json" where
  "slack_check vr = Jobj [(''type'', Jstr ''section''), (''text'', markdown (
     severity_emoji (fc_severity vr) @ '' *'' @ severity_name (fc_severity vr) @ ''*: '' @ fc_title vr @ lf @
     decimal (fc_failed_resources vr) @ '' additional resources detected.'' @ lf @ ''Examples: '' @
     join '', '' (map (\<lambda>ex. ''<'' @ vr_ui_link ex @ ''|'' @ resource_name ex @ ''>'') (fc_examples vr))))]"

definition slack_message :: "failing_checks_detected \<Rightarrow> json" where
  "slack_message alert =
     (let image = [(''type'', Jstr ''image''), (''image_url'', Jstr (logo ''256''))];
          note = (if non_exhaustive alert then ''non exhaustive '' else []);
          exhausted = (if non_exhaustive alert
            then [Jobj [(''type'', Jstr ''section''), (''text'', markdown (''Note: '' @ portion_note ''link''))]] else []);
          blocks =
            [Jobj [(''type'', Jstr ''header''), (''text'', Jobj [(''type'', Jstr ''plain_text''),
               (''text'', Jstr (severity_title (fd_severity alert) @ '': New issues Detected in your Infrastructure!''))])],
             Jobj [(''type'', Jstr ''section''), (''text'', markdown (''We have completed a comprehensive scan of your infrastructure. '' @ lf @
               ''```'' @ lf @ decimal (fd_failed_checks_count_total alert) @ '' issues require your attention.'' @ lf @ ''```'' @ lf @
               ''These issues are in violation of the benchmark standards set in `'' @ fd_benchmark alert @ ''`.'' @ lf @
               ''Here is a '' @ note @ '' list of failing checks:'' @ lf @ lf)),
               (''accessory'', Jobj (image @ [(''alt_text'', Jstr ''Fix'')]))]] @
            map slack_check (fd_examples alert) @ exhausted @
            [Jobj [(''type'', Jstr ''context''), (''elements'', Jarr [Jobj (image @ [(''alt_text'', Jstr ''Fix logo'')]),
               markdown (''See the full list of failing resources <'' @ fd_ui_link alert @ ''|View In Fix>'')])]]
      in Jobj [(''attachments'', Jarr [Jobj [(''color'', Jstr ''#FF7F50''), (''blocks'', Jarr blocks)]])])"

definition link_list :: "failed_check \<Rightarrow> string" where
  "link_list c = join '', '' (map (\<lambda>r. ''['' @ resource_name r @ '']('' @ vr_ui_link r @ '')'') (fc_examples c))"

definition named :: "string \<Rightarrow> string \<Rightarrow> json" where
  "named name v = Jobj [(''name'', Jstr name), (''value'', Jstr v)]"

definition discord_message :: "failing_checks_detected \<Rightarrow> json" where
  "discord_message alert =
     (let note = (if non_exhaustive alert then ''non exhaustive '' else []);
          exhausted = (if non_exhaustive alert then [named ''Note'' (portion_note ''link'')] else []) in
      Jobj [(''embeds'', Jarr [Jobj
       [(''title'', Jstr (severity_title (fd_severity alert) @ '': New issues Detected in your Infrastructure!'')),
        (''author'', Jobj [(''name'', Jstr ''Fix''), (''url'', Jstr ''https://fix.security''), (''icon_url'', Jstr (logo ''256''))]),
        (''url'', Jstr (fd_ui_link alert)),
        (''description'', Jstr (''We have completed a comprehensive scan of your infrastructure.'' @ lf @ ''```'' @ lf @
           decimal (fd_failed_checks_count_total alert) @ '' issues require your attention.'' @ lf @ ''```'' @ lf @
           ''These issues are in violation of the benchmark standards set in `'' @ fd_benchmark alert @ ''`.'' @ lf @
           ''Here is a '' @ note @ ''list of failing checks:'' @ lf @ lf)),
        (''fields'', Jarr (
           map (\<lambda>vr. named (severity_emoji (fc_severity vr) @ '' **'' @ severity_title (fc_severity vr) @ ''**: *'' @ fc_title vr @ ''*'')
             (decimal (fc_failed_resources vr) @ '' additional resources detected.'' @ lf @ ''Examples: '' @ link_list vr)) (fd_examples alert) @
           exhausted @ [named ''See the full list of failing resources'' (''[View in Fix]('' @ fd_ui_link alert @ '')'')])),
        (''color'', Jnum 16744272)]])])"

definition teams_message :: "failing_checks_detected \<Rightarrow> json" where
  "teams_message alert =
     (let exhausted = (if non_exhaustive alert then [named [] (portion_note ''button'')] else []);
          facts = map (\<lambda>failed. named (severity_emoji (fc_severity failed))
            (''***'' @ severity_title (fc_severity failed) @ ''*** **'' @ fc_title failed @ ''**'' @ lf @ lf @ ''*'' @
             decimal (fc_failed_resources failed) @ '' additional resources detected.*'' @ lf @ lf @ ''Examples: '' @ link_list failed))
            (fd_examples alert) in
      Jobj [(''@type'', Jstr ''MessageCard''), (''@context'', Jstr ''http://schema.org/extensions''), (''themeColor'', Jstr ''16744272''),
        (''summary'', Jstr ''New issues Detected in your Infrastructure''),
        (''sections'', Jarr [Jobj [(''activityTitle'', Jstr ''**New issues Detected in your Infrastructure!**''),
           (''activitySubtitle'', Jstr (severity_emoji (fd_severity alert) @ '' **'' @ severity_title (fd_severity alert) @ ''**: '' @
              decimal (fd_failed_checks_count_total alert) @ '' new issues'')),
           (''activityImage'', Jstr (logo ''256'')), (''facts'', Jarr (facts @ exhausted)), (''markdown'', Jbool True)]]),
        (''potentialAction'', Jarr [Jobj [(''@type'', Jstr ''OpenUri''), (''name'', Jstr ''View in Fix''),
           (''targets'', Jarr [Jobj [(''os'', Jstr ''default''), (''uri'', Jstr (fd_ui_link alert))]])]])])"

text \<open>The details of PagerDuty and Opsgenie are a dictionary.\<close>

definition detail_key :: "failed_check \<Rightarrow> string" where
  "detail_key c = severity_emoji (fc_severity c) @ '' '' @ severity_title (fc_severity c) @ '': '' @ fc_title c"

definition detail_value :: "failed_check \<Rightarrow> string" where
  "detail_value c = decimal (fc_failed_resources c) @ '' additional resources detected, that are failing this check.''"

definition alert_details :: "failed_check list \<Rightarrow> (string \<times> string) list" where
  "alert_details cs = fold (\<lambda>c. put (detail_key c) (detail_value c)) cs []"

definition issues_summary :: "failing_checks_detected \<Rightarrow> string" where
  "issues_summary alert = decimal (fd_failed_checks_count_total alert) @ '' new issues detected in your infrastructure for benchmark '' @ fd_benchmark alert"

definition details_json :: "failing_checks_detected \<Rightarrow> json" where
  "details_json alert = Jobj (map (map_prod id Jstr) (alert_details (fd_examples alert)))"

definition pagerduty_message :: "string \<Rightarrow> failing_checks_detected \<Rightarrow> string \<Rightarrow> json" where
  "pagerduty_message now_text alert integration_key = Jobj
     [(''routing_key'', Jstr integration_key), (''dedup_key'', Jstr (fd_id alert)), (''event_action'', Jstr ''trigger''),
      (''links'', Jarr [Jobj [(''href'', Jstr (fd_ui_link alert)), (''text'', Jstr ''See all failed resources in Fix'')]]),
      (''images'', Jarr [Jobj [(''src'', Jstr (logo ''192'')), (''href'', Jstr (fd_ui_link alert)), (''alt'', Jstr ''Fix Home Page'')]]),
      (''payload'', Jobj [(''summary'', Jstr (issues_summary alert)), (''severity'', Jstr (pagerduty_severity (fd_severity alert))),
         (''source'', Jstr ''Fix''), (''timestamp'', Jstr now_text), (''component'', Jstr ''Fix''), (''group'', Jstr ''Benchmark''),
         (''class'', Jstr (fd_benchmark alert)), (''custom_details'', details_json alert)])]"

definition opsgenie_message :: "failing_checks_detected \<Rightarrow> json" where
  "opsgenie_message alert = Jobj
     [(''message'', Jstr (issues_summary alert)), (''alias'', Jstr (fd_id alert)),
      (''description'', Jstr (''See all details here: '' @ fd_ui_link alert)), (''tags'', strings [''Security'', ''Fix'']),
      (''details'', details_json alert), (''priority'', Jstr (opsgenie_priority (fd_severity alert))), (''source'', Jstr ''Fix'')]"

text \<open>Address, headers and body of the request; an e-mail is subject, text and HTML.\<close>

datatype alert_message =
    Alert_request string "(string \<times> string) list" json
  | Alert_email string string string

fun message_of_alert :: "(string \<Rightarrow> failing_checks_detected \<Rightarrow> string) \<Rightarrow> string \<Rightarrow> notification_provider \<Rightarrow> failing_checks_detected \<Rightarrow> string \<Rightarrow> alert_message" where
  "message_of_alert render now_text Via_slack alert url = Alert_request url [] (slack_message alert)"
| "message_of_alert render now_text Via_discord alert url = Alert_request url [] (discord_message alert)"
| "message_of_alert render now_text Via_teams alert url = Alert_request url [] (teams_message alert)"
| "message_of_alert render now_text Via_pagerduty alert key =
     Alert_request ''https://events.pagerduty.com/v2/enqueue'' [] (pagerduty_message now_text alert key)"
| "message_of_alert render now_text Via_opsgenie alert key =
     Alert_request ''https://api.opsgenie.com/v2/alerts'' [(''Authorization'', ''GenieKey '' @ key)] (opsgenie_message alert)"
| "message_of_alert render now_text Via_email alert to =
     Alert_email (severity_emoji (fd_severity alert) @ '' '' @ severity_title (fd_severity alert) @ '': New issues Detected in your Infrastructure!'')
       (render ''failing_benchmarks_detected.txt'' alert) (render ''failing_benchmarks_detected.html'' alert)"

subsection \<open>Details that are lost\<close>

lemma map_of_put: "map_of (put k v d) j = (if j = k then Some v else map_of d j)"
  by (simp add: put_def map_of_dict_upd)

lemma keys_details: "fst ` set (fold (\<lambda>c. put (detail_key c) (detail_value c)) cs d) = detail_key ` set cs \<union> fst ` set d"
  by (induction cs arbitrary: d) (auto simp: keys_put)

lemma distinct_details: "distinct (map fst d) \<Longrightarrow> distinct (map fst (fold (\<lambda>c. put (detail_key c) (detail_value c)) cs d))"
  by (induction cs arbitrary: d) (auto simp: put_def distinct_dict_upd)

lemma details_last: "map_of (fold (\<lambda>c. put (detail_key c) (detail_value c)) cs d) k =
   (case filter (\<lambda>c. detail_key c = k) cs of [] \<Rightarrow> map_of d k | fs \<Rightarrow> Some (detail_value (last fs)))"
proof (induction cs arbitrary: d)
  case (Cons c cs)
  show ?case by (cases "filter (\<lambda>c. detail_key c = k) cs") (auto simp: Cons.IH map_of_put)
qed simp

text \<open>
  The details that PagerDuty and Opsgenie get name every failing check only if no two of them agree in severity and
  title: the details are a dictionary over these two, so of checks that agree only the last one is told.
\<close>

theorem details_name_every_check:
  "(length (alert_details cs) = length cs \<longleftrightarrow> distinct (map (\<lambda>c. (fc_severity c, fc_title c)) cs)) \<and>
   map_of (alert_details cs) (detail_key c) =
     (case filter (\<lambda>d. detail_key d = detail_key c) cs of [] \<Rightarrow> None | fs \<Rightarrow> Some (detail_value (last fs)))"
proof
  have key: "detail_key c = detail_key d \<longleftrightarrow> (fc_severity c, fc_title c) = (fc_severity d, fc_title d)" for c d
    by (cases "fc_severity c"; cases "fc_severity d") (auto simp: detail_key_def)
  have "length (alert_details cs) = card (fst ` set (alert_details cs))"
    using distinct_card [OF distinct_details [of "[]" cs]] by (simp add: alert_details_def)
  also have "\<dots> = card (set (map detail_key cs))" by (simp add: alert_details_def keys_details)
  finally have "length (alert_details cs) = length cs \<longleftrightarrow> distinct (map detail_key cs)"
    by (metis card_distinct distinct_card length_map)
  also have "\<dots> \<longleftrightarrow> distinct (map (\<lambda>c. (fc_severity c, fc_title c)) cs)"
    by (simp only: distinct_map inj_on_def key)
  finally show "length (alert_details cs) = length cs \<longleftrightarrow> distinct (map (\<lambda>c. (fc_severity c, fc_title c)) cs)" .
  show "map_of (alert_details cs) (detail_key c) =
     (case filter (\<lambda>d. detail_key d = detail_key c) cs of [] \<Rightarrow> None | fs \<Rightarrow> Some (detail_value (last fs)))"
    by (simp add: alert_details_def details_last split: list.split)
qed

end
