(* ===== verification/Spec2Isabelle.thy ===== *)
theory Spec2Isabelle
  imports Cloud_Account_Handlers Dispatcher Billing_Job User_Manager Workspace_Access Lifecycle Rate_Limiter Api_Tokens
    Gcp_Credentials Azure_Credentials Scheduled_Emails Notification_Router
    Inventory_Events Inventory_Report Analytics Cloud_Account_Router Workspace_Router
    Login_Router Customer_Support Inventory_Router Status_Update Message_Queues Alert_Messages
begin

text \<open>
  A model of the Fix backend (\<open>src/fixbackend\<close>), the service of a security scanner for cloud accounts. It manages
  users, workspaces, cloud accounts and their credentials, decides when an account is scanned, takes the results of the
  scans, bills what was scanned, and reports to users by e-mail, messengers and its API.

  \<^bold>\<open>The parts and how they interact.\<close> The handlers of the API (the \<open>*_router.py\<close> files) find the user of a request,
  check his permissions in the workspace and call a service; services read and write tables through repositories and
  publish domain events; other services react to the events. A user signs up (\<open>auth\<close>), which gives him a workspace
  (\<open>workspaces\<close>) or puts him into the one he was invited to. He connects cloud accounts (\<open>cloud_accounts\<close>): an AWS
  account announces itself through a stack event, GCP and Azure accounts are imported from credentials. Configured
  accounts are collected by the dispatcher (\<open>dispatcher\<close>, \<open>collect\<close>): an hourly tick finds the due workspaces, queues a
  job per account, and follows the jobs until all are done. The finished run is metered (\<open>metering\<close>), counted for or
  against the health of each account, turned into alerts (\<open>notification\<close>) and shown by the inventory (\<open>inventory\<close>).
  The billing job (\<open>billing\<close>, \<open>subscription\<close>) charges each period once, by the AWS Marketplace or Stripe. Trials end and
  free workspaces are cut down to one account by jobs of their own.

  \<^bold>\<open>State and operations.\<close> The tables, Redis keys, queues, logs of sent messages and the clock are the fields of one
  record \<open>world\<close> (World). A coroutine is a program: a function from a world to a result, an exception or a value, and
  the world it leaves (Prelude: \<open>ret\<close>, \<open>raise\<close>, \<open>bind\<close>, \<open>catch\<close>, \<open>lift\<close>). A raised exception keeps what was written
  before it, as the code commits statement by statement; where the code writes in one transaction, the model writes once
  at its end. Every \<open>async def\<close> of a modelled class is one definition of the same name (with a prefix where two classes
  share a name, such as \<open>repo_\<close>, \<open>api_\<close>, \<open>strategy_\<close>); its guards and early returns are the branches of the
  definition. Services outside the repository (AWS, GCP, Azure, Stripe, the inventory service, mail and messenger services,
  password hashes, signing libraries) are arguments of the definitions that call them.

  \<^bold>\<open>Theories.\<close>
  \<^item> Data: Product_Tier (\<open>ids.py\<close>, \<open>config.py\<close>), Permission_Model (\<open>permissions/models.py\<close>, \<open>validator.py\<close>,
    \<open>schemas.py\<close>), Calendar (\<open>utils.py\<close>), Domain_Events, Cloud_Account_Model, Workspace_Model, Billing_Model,
    Collect_Model, Notification_Model (the \<open>models\<close> of their packages), Float_Arithmetic (the quotient of floats that
    billing and the rate limiter use).
  \<^item> Cloud accounts: Cloud_Account_Repository, Account_Setup (\<open>account_setup.py\<close>), Cloud_Account_Service and
    Cloud_Account_Events (\<open>service.py\<close>, its operations and its handlers of events), Cloud_Account_Invariant (the tables
    stay readable and well-formed), Cloud_Account_Effects (what each operation does to the accounts, seen as a map),
    Cloud_Account_Handlers (the effect of collect results), Account_Import, Gcp_Credentials, Azure_Credentials (the
    services for keys and credentials), Cloud_Account_Router.
  \<^item> Collecting: Next_Run, Collect_Progress, Dispatcher, Metering.
  \<^item> Workspaces and permissions: Workspace_Repository, Role_Repository, Invitations, Workspace_Access (who reaches a
    workspace), Lifecycle (end of trial, cleanup of the free tier), Workspace_Router.
  \<^item> Money: Subscription_Repository, Billing_Service, Aws_Marketplace, Stripe_Service, Billing_Job, Billing_Router.
  \<^item> Users: User_Repository, User_Manager, Rate_Limiter, Api_Tokens, Jwt_Service (\<open>fix_jwt\<close>, \<open>cert_store.py\<close>), Session
    (\<open>auth_backend.py\<close>, \<open>transport.py\<close>, \<open>depedencies.py\<close>), Login_Router (\<open>auth_router.py\<close>, \<open>oauth_router.py\<close>).
  \<^item> Operations: Graph_Database (\<open>graph_db/service.py\<close>), Customer_Support (\<open>customer_support\<close>).
  \<^item> Messages: Alerts, Alert_Messages, One_Time_Emails, Scheduled_Emails, Notification_Router, Analytics, Email_Messages
    (\<open>email_messages.py\<close>), Status_Update (\<open>status_update_email_creator.py\<close>), Message_Queues (\<open>sqs.py\<close>, the transport of
    domain events, the websocket).
  \<^item> Inventory: Inventory_Events, Inventory_Usage, Inventory_Report (the numbers of the report), Report_Requests (its requests),
    Inventory_Search (all \<open>inventory_service.py\<close>), Inventory_Client (\<open>inventory_client.py\<close>), Inventory_Router (\<open>inventory_router.py\<close>, \<open>streaming_response.py\<close>, the exception handlers of
    \<open>app.py\<close>).

  \<^bold>\<open>What the lemmas show.\<close> The components that write accounts keep the invariant \<open>accounts_ok\<close> in every reachable
  world, so that each stored account can be read back. Cloud_Account_Effects gives each operation as a function on the
  map of accounts. The dispatcher starts and completes a run once; billing charges a period once and the report to AWS
  is repeated until it is accepted; limits of a tier hold when accounts are enabled and when a tier is changed; roles as
  bit sets refine sets of permissions; access to workspaces, sessions and settings is guarded; repositories read back
  what they write. A property marked C with a number is one that matters by itself; the other theorems and lemmas
  support them. Some theorems state what the code does where this can hardly be meant.

  \<^bold>\<open>Interfaces.\<close> \<open>db_table\<close> (Prelude) states what a table keyed by one column promises, with interpretations for the
  tables in World and Gcp_Credentials. \<open>bulk_update\<close> (Cloud_Account_Effects) is the loop over the accounts of a
  workspace, interpreted for switching off, deleting, failed and successful collects and switching on.
  \<open>account_import\<close> (Account_Import) is the loop over what a credential reaches, interpreted for GCP and Azure.

  \<^bold>\<open>Bounds, fuel and termination.\<close> Times are microseconds and unbounded, as are Python's numbers; permission sets are
  integers under bit operations. \<open>account_pages\<close> follows the tokens of an AWS listing and may not end, so it is a partial
  function of which is shown for which listings it ends. The calendar, the scale of a float and the search through a
  benchmark have measures; every other loop is structural. No fuel is used.

  \<^bold>\<open>Simplifications.\<close> The clock stands still within a handler. New ids come from a counter, and so are fresh.
  Coroutines run one after the other; where the code starts tasks in a group, they run in order, except for the
  callbacks of a domain event: these are begun in order, interleave at their waits and all run to their end before a
  failure is raised (Message_Queues). The comparisons of payment methods by \<open>is\<close> are comparisons of objects with an
  identity (Billing_Service). \<open>updated_at\<close> is written where the code assigns it; the database does not advance it
  (Workspace_Repository). Foreign keys and the caches of slow lookups are left out. A log line, a metric and a span are not modelled. Text is ASCII.

  \<^bold>\<open>Not modelled.\<close> The adapters of HTTP, of the mail service and of the database driver (\<open>httpx_extensions.py\<close>,
  \<open>email_sender.py\<close>, \<open>sqlalechemy_extensions.py\<close>), the templates of e-mails and of the pages of the customer support
  console, and the wiring of the services (\<open>app.py\<close>, \<open>app_dependencies.py\<close>): they format or connect data and make no
  decision of the program. Events and alerts see the inventory as answers that are parameters; the routes of the API,
  the report and the status update are modelled down to their requests.
\<close>

end
